(* ===== verification/JS_Prelude.thy ===== *)
theory JS_Prelude
  imports Main "HOL-Library.Word" "HOL-Library.AList" "HOL-Library.Log_Nat"
begin

text \<open>
  What the TypeScript sources use of the JavaScript language, and the generic lemmas every
  component shares.
  \<^item> A string is the list of its UTF-16 code units (\<open>jsstring\<close>); a literal of the source is
    written \<open>js ''...''\<close>.
  \<^item> A number (\<open>number\<close>) is an IEEE-754 double: an integral double is \<open>JInt\<close>, any other finite
    one \<open>JFrac\<close> (its argument is never integral), then the infinities and NaN. Addition rounds
    to nearest even; sums of magnitude at most \<open>2 ^ 53\<close> of integral doubles are exact.
  \<^item> A \<open>Map\<close> is an association list in insertion order (\<^const>\<open>AList.update\<close> overwrites in place
    and appends a new key, exactly as \<open>Map.prototype.set\<close>), a \<open>Set\<close> a list in insertion order.
  \<^item> A function that may throw returns a sum with the exception on the left.
  \<^item> An \<open>async\<close> method over a mutable world is a function from the world to an outcome and
    the next world.
\<close>

named_theorems js_simps \<open>characteristic equations of the JavaScript primitives\<close>
named_theorems throws_simps \<open>when an operation returns and when it throws\<close>

section \<open>Strings\<close>

type_synonym jsstring = "16 word list"

definition js :: "string \<Rightarrow> jsstring" where
  "js s = map of_char s"

fun js_less :: "jsstring \<Rightarrow> jsstring \<Rightarrow> bool" where
  "js_less xs [] = False"
| "js_less [] (y # ys) = True"
| "js_less (x # xs) (y # ys) = (x < y \<or> x = y \<and> js_less xs ys)"

definition js_le :: "jsstring \<Rightarrow> jsstring \<Rightarrow> bool" where
  "js_le xs ys \<longleftrightarrow> \<not> js_less ys xs"

fun js_startsWith :: "jsstring \<Rightarrow> jsstring \<Rightarrow> bool" where
  "js_startsWith xs [] = True"
| "js_startsWith [] (y # ys) = False"
| "js_startsWith (x # xs) (y # ys) = (x = y \<and> js_startsWith xs ys)"

fun js_indexOf :: "16 word \<Rightarrow> jsstring \<Rightarrow> int" where
  "js_indexOf c [] = -1"
| "js_indexOf c (x # xs) =
     (if x = c then 0
      else let i = js_indexOf c xs in if i = -1 then -1 else i + 1)"

definition ascii_lower :: "16 word \<Rightarrow> 16 word" where
  "ascii_lower c = (if 65 \<le> c \<and> c \<le> 90 then c + 32 else c)"

text \<open>
  \<open>toLowerCase\<close> on the ASCII letters; the sources use it only before comparing with ASCII
  literals, and no other code unit is mapped to a string of the letters compared with.
\<close>

definition js_toLowerCase :: "jsstring \<Rightarrow> jsstring" where
  "js_toLowerCase s = map ascii_lower s"

fun digits10 :: "nat \<Rightarrow> 16 word list" where
  "digits10 n =
     (if n < 10 then [48 + of_nat n] else digits10 (n div 10) @ [48 + of_nat (n mod 10)])"

declare digits10.simps [simp del]

text \<open>\<open>${n}\<close> of a non-negative integer.\<close>

definition js_of_nat :: "nat \<Rightarrow> jsstring" where
  "js_of_nat n = digits10 n"

lemma js_less_irrefl [simp]: "\<not> js_less xs xs"
  by (induction xs) auto

lemma js_less_trans: "js_less xs ys \<Longrightarrow> js_less ys zs \<Longrightarrow> js_less xs zs"
proof (induction xs ys arbitrary: zs rule: js_less.induct)
  case (2 y ys)
  then show ?case by (cases zs) auto
next
  case (3 x xs y ys)
  then show ?case by (cases zs) auto
qed auto

lemma js_less_linear: "js_less xs ys \<or> xs = ys \<or> js_less ys xs"
proof (induction xs ys rule: js_less.induct)
  case (1 xs)
  then show ?case by (cases xs) auto
qed auto

lemma js_le_iff: "js_le xs ys \<longleftrightarrow> js_less xs ys \<or> xs = ys"
  unfolding js_le_def using js_less_linear js_less_trans js_less_irrefl by blast

lemma js_startsWith_iff: "js_startsWith xs ys \<longleftrightarrow> (\<exists>zs. xs = ys @ zs)"
  by (induction xs ys rule: js_startsWith.induct) auto

lemma js_indexOf_range: "-1 \<le> js_indexOf c xs \<and> js_indexOf c xs < int (length xs)"
  by (induction xs) (auto simp: Let_def)

lemma js_indexOf_neg: "js_indexOf c xs = -1 \<longleftrightarrow> c \<notin> set xs"
proof (induction xs)
  case (Cons x xs)
  then show ?case using js_indexOf_range [of c xs] by (auto simp: Let_def)
qed simp

lemma digit_word: "d < 10 \<Longrightarrow> unat (48 + of_nat d :: 16 word) = 48 + d"
  by (simp add: unat_word_ariths unat_of_nat)

lemma digits10_range: "w \<in> set (digits10 n) \<Longrightarrow> 48 \<le> unat w \<and> unat w < 58"
proof (induction n rule: digits10.induct)
  case (1 n)
  show ?case
  proof (cases "n < 10")
    case True
    with 1 show ?thesis by (subst (asm) digits10.simps) (auto simp: digit_word)
  next
    case False
    then have "digits10 n = digits10 (n div 10) @ [48 + of_nat (n mod 10)]"
      by (subst digits10.simps) simp
    with 1 False show ?thesis by (auto simp: digit_word)
  qed
qed

definition digits10_value :: "16 word list \<Rightarrow> nat" where
  "digits10_value ws = foldl (\<lambda>a w. 10 * a + (unat w - 48)) 0 ws"

lemma digits10_value: "digits10_value (digits10 n) = n"
proof (induction n rule: digits10.induct)
  case (1 n)
  show ?case
  proof (cases "n < 10")
    case True
    then show ?thesis
      by (subst digits10.simps) (simp add: digits10_value_def digit_word)
  next
    case False
    with 1 have "digits10_value (digits10 (n div 10)) = n div 10" by simp
    with False show ?thesis
      by (subst digits10.simps) (simp add: digits10_value_def digit_word)
  qed
qed

lemma js_of_nat_inject [simp]: "js_of_nat a = js_of_nat b \<longleftrightarrow> a = b"
  unfolding js_of_nat_def by (metis digits10_value)

lemma js_of_nat_no_colon: "58 \<notin> set (js_of_nat n)"
  unfolding js_of_nat_def using digits10_range [of 58 n] by auto

lemma append_separator_inject:
  "c \<notin> set xs \<Longrightarrow> c \<notin> set ys \<Longrightarrow>
   xs @ c # r = ys @ c # s \<longleftrightarrow> xs = ys \<and> r = s"
proof (induction xs arbitrary: ys)
  case Nil
  then show ?case by (cases ys) auto
next
  case (Cons x xs)
  then show ?case by (cases ys) auto
qed

section \<open>Numbers\<close>

datatype number = JInt int | JFrac rat | JInf bool | JNaN

definition isSafeInteger :: "number \<Rightarrow> bool" where
  "isSafeInteger n = (case n of JInt i \<Rightarrow> \<bar>i\<bar> \<le> 2 ^ 53 - 1 | _ \<Rightarrow> False)"

definition isInteger :: "number \<Rightarrow> bool" where
  "isInteger n = (case n of JInt _ \<Rightarrow> True | _ \<Rightarrow> False)"

definition finite_value :: "number \<Rightarrow> rat" where
  "finite_value n = (case n of JInt i \<Rightarrow> of_int i | JFrac r \<Rightarrow> r | _ \<Rightarrow> 0)"

fun num_less :: "number \<Rightarrow> number \<Rightarrow> bool" where
  "num_less JNaN _ = False"
| "num_less _ JNaN = False"
| "num_less (JInf p) (JInf q) = (\<not> p \<and> q)"
| "num_less (JInf p) _ = (\<not> p)"
| "num_less _ (JInf q) = q"
| "num_less (JInt i) (JInt j) = (i < j)"
| "num_less a b = (finite_value a < finite_value b)"

text \<open>\<open>===\<close> on numbers: NaN differs from itself.\<close>

definition num_eq :: "number \<Rightarrow> number \<Rightarrow> bool" where
  "num_eq a b \<longleftrightarrow> a = b \<and> a \<noteq> JNaN"

definition num_le :: "number \<Rightarrow> number \<Rightarrow> bool" where
  "num_le a b \<longleftrightarrow> num_less a b \<or> num_eq a b"

definition round_half_even :: "rat \<Rightarrow> int" where
  "round_half_even x =
     (let f = \<lfloor>x\<rfloor>; r = x - of_int f
      in if r < 1 / 2 then f else if r > 1 / 2 then f + 1 else if even f then f else f + 1)"

definition log2_floor :: "rat \<Rightarrow> int" where
  "log2_floor x =
     (let (p, q) = quotient_of x; d = bitlen p - bitlen q
      in if 2 powi d \<le> x then d else d - 1)"

definition round_double :: "rat \<Rightarrow> number" where
  "round_double x =
     (if x = 0 then JInt 0
      else let u = 2 powi (max (log2_floor \<bar>x\<bar> - 52) (-1074));
               r = sgn x * of_int (round_half_even (\<bar>x\<bar> / u)) * u
           in if \<bar>r\<bar> \<ge> 2 ^ 1024 then JInf (r > 0)
              else if of_int \<lfloor>r\<rfloor> = r then JInt \<lfloor>r\<rfloor> else JFrac r)"

fun num_add :: "number \<Rightarrow> number \<Rightarrow> number" where
  "num_add JNaN _ = JNaN"
| "num_add _ JNaN = JNaN"
| "num_add (JInf p) (JInf q) = (if p = q then JInf p else JNaN)"
| "num_add (JInf p) _ = JInf p"
| "num_add _ (JInf q) = JInf q"
| "num_add (JInt i) (JInt j) =
     (if \<bar>i + j\<bar> \<le> 2 ^ 53 then JInt (i + j) else round_double (of_int (i + j)))"
| "num_add a b = round_double (finite_value a + finite_value b)"

lemma isSafeInteger_JInt [simp]: "isSafeInteger (JInt i) \<longleftrightarrow> \<bar>i\<bar> \<le> 2 ^ 53 - 1"
  by (simp add: isSafeInteger_def)

lemma isSafeInteger_cases:
  assumes "isSafeInteger n"
  obtains i where "n = JInt i" "\<bar>i\<bar> \<le> 2 ^ 53 - 1"
  using assms by (cases n) (auto simp: isSafeInteger_def)

lemma num_eq_JInt [simp]:
  "num_eq (JInt i) b \<longleftrightarrow> b = JInt i"
  "num_eq b (JInt i) \<longleftrightarrow> b = JInt i"
  by (auto simp: num_eq_def)

lemma num_le_JInt [simp]: "num_le (JInt i) (JInt j) \<longleftrightarrow> i \<le> j"
  by (auto simp: num_le_def)

text \<open>A non-negative safe integer, the check most factories make.\<close>

definition safe_nat :: "number \<Rightarrow> bool" where
  "safe_nat n \<longleftrightarrow> isSafeInteger n \<and> \<not> num_less n (JInt 0)"

lemma safe_nat_iff: "safe_nat n \<longleftrightarrow> (\<exists>i. n = JInt i \<and> 0 \<le> i \<and> i \<le> 2 ^ 53 - 1)"
  by (cases n) (auto simp: safe_nat_def isSafeInteger_def)

lemma safe_natE:
  assumes "safe_nat n"
  obtains i where "n = JInt i" "0 \<le> i" "i \<le> 2 ^ 53 - 1"
  using assms by (auto simp: safe_nat_iff)

section \<open>Throwing computations\<close>

definition bindE :: "'e + 'a \<Rightarrow> ('a \<Rightarrow> 'e + 'b) \<Rightarrow> 'e + 'b" where
  "bindE m f = (case m of Inl e \<Rightarrow> Inl e | Inr a \<Rightarrow> f a)"

fun mapE :: "('a \<Rightarrow> 'e + 'b) \<Rightarrow> 'a list \<Rightarrow> 'e + 'b list" where
  "mapE f [] = Inr []"
| "mapE f (x # xs) = bindE (f x) (\<lambda>y. bindE (mapE f xs) (\<lambda>ys. Inr (y # ys)))"

definition throw_if :: "bool \<Rightarrow> 'e \<Rightarrow> 'e + 'a \<Rightarrow> 'e + 'a" where
  "throw_if c e m = (if c then Inl e else m)"

definition returns :: "'e + 'a \<Rightarrow> bool" where
  "returns m = (case m of Inl _ \<Rightarrow> False | Inr _ \<Rightarrow> True)"

lemma bindE_simps [simp]:
  "bindE (Inl e) f = Inl e"
  "bindE (Inr a) f = f a"
  by (simp_all add: bindE_def)

lemma bindE_Inr_iff: "bindE m f = Inr b \<longleftrightarrow> (\<exists>a. m = Inr a \<and> f a = Inr b)"
  by (cases m) auto

lemma throw_if_Inr [simp]: "throw_if c e m = Inr b \<longleftrightarrow> \<not> c \<and> m = Inr b"
  by (simp add: throw_if_def)

lemma throw_if_simps [simp]:
  "throw_if True e m = Inl e"
  "throw_if False e m = m"
  by (simp_all add: throw_if_def)

lemma returns_iff: "returns m \<longleftrightarrow> (\<exists>a. m = Inr a)"
  by (cases m) (auto simp: returns_def)

lemma mapE_Inr_iff: "mapE f xs = Inr ys \<longleftrightarrow> list_all2 (\<lambda>x y. f x = Inr y) xs ys"
proof (induction xs arbitrary: ys)
  case (Cons x xs)
  show ?case by (cases ys) (auto simp: bindE_Inr_iff Cons.IH)
qed (auto simp: eq_commute)

lemma mapE_pure: "(\<And>x. x \<in> set xs \<Longrightarrow> f x = Inr (g x)) \<Longrightarrow> mapE f xs = Inr (map g xs)"
  by (induction xs) auto

lemma mapE_id: "(\<And>x. x \<in> set xs \<Longrightarrow> f x = Inr x) \<Longrightarrow> mapE f xs = Inr xs"
  by (induction xs) auto

lemma mapE_length: "mapE f xs = Inr ys \<Longrightarrow> length ys = length xs"
  by (auto simp: mapE_Inr_iff list_all2_lengthD)

lemma mapE_in_set: "mapE f xs = Inr ys \<Longrightarrow> y \<in> set ys \<Longrightarrow> \<exists>x \<in> set xs. f x = Inr y"
  by (induction xs arbitrary: ys) (auto simp: bindE_Inr_iff)

lemma mapE_map_eq:
  "mapE f xs = Inr ys \<Longrightarrow> (\<And>x y. f x = Inr y \<Longrightarrow> h y = g x) \<Longrightarrow> map h ys = map g xs"
  by (induction xs arbitrary: ys) (auto simp: bindE_Inr_iff)

section \<open>Sets in insertion order\<close>

definition set_add :: "'a \<Rightarrow> 'a list \<Rightarrow> 'a list" where
  "set_add x xs = (if x \<in> set xs then xs else xs @ [x])"

definition set_delete :: "'a \<Rightarrow> 'a list \<Rightarrow> 'a list" where
  "set_delete x xs = filter (\<lambda>y. y \<noteq> x) xs"

text \<open>\<open>new Set(values)\<close>.\<close>

definition set_of_list :: "'a list \<Rightarrow> 'a list" where
  "set_of_list xs = fold set_add xs []"

lemma set_set_add [simp]: "set (set_add x xs) = insert x (set xs)"
  by (auto simp: set_add_def)

lemma distinct_set_add [simp]: "distinct xs \<Longrightarrow> distinct (set_add x xs)"
  by (simp add: set_add_def)

lemma set_fold_set_add [simp]: "set (fold set_add xs acc) = set acc \<union> set xs"
  by (induction xs arbitrary: acc) auto

lemma distinct_fold_set_add [simp]: "distinct acc \<Longrightarrow> distinct (fold set_add xs acc)"
  by (induction xs arbitrary: acc) auto

lemma fold_set_add_distinct: "distinct (acc @ xs) \<Longrightarrow> fold set_add xs acc = acc @ xs"
  by (induction xs arbitrary: acc) (auto simp: set_add_def)

lemma set_set_of_list [simp]: "set (set_of_list xs) = set xs"
  by (simp add: set_of_list_def)

lemma distinct_set_of_list [simp]: "distinct (set_of_list xs)"
  by (simp add: set_of_list_def)

lemma set_of_list_distinct [simp]: "distinct xs \<Longrightarrow> set_of_list xs = xs"
  by (simp add: set_of_list_def fold_set_add_distinct)

lemma set_set_delete [simp]: "set (set_delete x xs) = set xs - {x}"
  by (auto simp: set_delete_def)

lemma distinct_set_delete [simp]: "distinct xs \<Longrightarrow> distinct (set_delete x xs)"
  by (simp add: set_delete_def)

lemma set_fold_set_delete [simp]: "set (fold set_delete xs acc) = set acc - set xs"
  by (induction xs arbitrary: acc) auto

lemma distinct_fold_set_delete [simp]: "distinct acc \<Longrightarrow> distinct (fold set_delete xs acc)"
  by (induction xs arbitrary: acc) auto

section \<open>Worlds\<close>

text \<open>An \<open>async\<close> operation: it returns or throws, and leaves the next world.\<close>

type_synonym ('s, 'e, 'a) eff = "'s \<Rightarrow> ('e + 'a) \<times> 's"

definition retM :: "'a \<Rightarrow> ('s, 'e, 'a) eff" where
  "retM a s = (Inr a, s)"

definition throwM :: "'e \<Rightarrow> ('s, 'e, 'a) eff" where
  "throwM e s = (Inl e, s)"

definition bindM :: "('s, 'e, 'a) eff \<Rightarrow> ('a \<Rightarrow> ('s, 'e, 'b) eff) \<Rightarrow> ('s, 'e, 'b) eff" where
  "bindM m f s = (case m s of (Inl e, s') \<Rightarrow> (Inl e, s') | (Inr a, s') \<Rightarrow> f a s')"

definition liftM :: "'e + 'a \<Rightarrow> ('s, 'e, 'a) eff" where
  "liftM r s = (r, s)"

text \<open>\<open>try m catch h\<close>.\<close>

definition tryM :: "('s, 'e, 'a) eff \<Rightarrow> ('e \<Rightarrow> ('s, 'e, 'a) eff) \<Rightarrow> ('s, 'e, 'a) eff" where
  "tryM m h s = (case m s of (Inl e, s') \<Rightarrow> h e s' | (Inr a, s') \<Rightarrow> (Inr a, s'))"

fun forM :: "'a list \<Rightarrow> ('a \<Rightarrow> ('s, 'e, unit) eff) \<Rightarrow> ('s, 'e, unit) eff" where
  "forM [] f = retM ()"
| "forM (x # xs) f = bindM (f x) (\<lambda>_. forM xs f)"

lemmas eff_defs = retM_def throwM_def bindM_def liftM_def tryM_def

lemma bindM_Inr_iff:
  "bindM m f s = (Inr b, t) \<longleftrightarrow> (\<exists>a s'. m s = (Inr a, s') \<and> f a s' = (Inr b, t))"
  by (auto simp: bindM_def split: prod.splits sum.splits)

lemma bindM_Inl_iff:
  "bindM m f s = (Inl e, t) \<longleftrightarrow>
     m s = (Inl e, t) \<or> (\<exists>a s'. m s = (Inr a, s') \<and> f a s' = (Inl e, t))"
  by (auto simp: bindM_def split: prod.splits sum.splits)

lemma retM_iff [simp]: "retM a s = (r, t) \<longleftrightarrow> r = Inr a \<and> t = s"
  by (auto simp: retM_def)

lemma throwM_iff [simp]: "throwM e s = (r, t) \<longleftrightarrow> r = Inl e \<and> t = s"
  by (auto simp: throwM_def)

lemma liftM_iff [simp]: "liftM x s = (r, t) \<longleftrightarrow> r = x \<and> t = s"
  by (auto simp: liftM_def)

section \<open>Maps in insertion order\<close>

abbreviation map_get :: "('k \<times> 'v) list \<Rightarrow> 'k \<Rightarrow> 'v option" where
  "map_get \<equiv> map_of"

abbreviation map_set :: "'k \<Rightarrow> 'v \<Rightarrow> ('k \<times> 'v) list \<Rightarrow> ('k \<times> 'v) list" where
  "map_set \<equiv> AList.update"

abbreviation map_del :: "'k \<Rightarrow> ('k \<times> 'v) list \<Rightarrow> ('k \<times> 'v) list" where
  "map_del \<equiv> AList.delete"

definition map_has :: "('k \<times> 'v) list \<Rightarrow> 'k \<Rightarrow> bool" where
  "map_has m k = (map_of m k \<noteq> None)"

definition map_values :: "('k \<times> 'v) list \<Rightarrow> 'v list" where
  "map_values m = map snd m"

abbreviation map_ok :: "('k \<times> 'v) list \<Rightarrow> bool" where
  "map_ok m \<equiv> distinct (map fst m)"

lemma map_get_set [simp]: "map_of (AList.update k v m) = (map_of m)(k \<mapsto> v)"
  by (rule AList.update_conv')

lemma map_get_del [simp]: "map_of (AList.delete k m) = (map_of m)(k := None)"
  by (rule AList.delete_conv')

lemma map_ok_set [simp]: "map_ok m \<Longrightarrow> map_ok (AList.update k v m)"
  by (rule AList.distinct_update)

lemma map_ok_del [simp]: "map_ok m \<Longrightarrow> map_ok (AList.delete k m)"
  by (rule AList.distinct_delete)

lemma map_ok_filter [simp]: "map_ok m \<Longrightarrow> map_ok (filter P m)"
  by (rule distinct_map_filter)

lemma map_of_filter_ok:
  "map_ok m \<Longrightarrow>
   map_of (filter (\<lambda>(k, v). P k v) m) k =
     (case map_of m k of None \<Rightarrow> None | Some v \<Rightarrow> if P k v then Some v else None)"
proof (induction m)
  case (Cons p m)
  obtain a b where p: "p = (a, b)" by (cases p)
  have "map_of m a = None" using Cons.prems by (simp add: p map_of_eq_None_iff)
  then show ?case
    using Cons by (cases "k = a") (auto simp: p split: option.splits)
qed simp

lemma map_values_set: "map_ok m \<Longrightarrow> v \<in> set (map_values m) \<longleftrightarrow> (\<exists>k. map_of m k = Some v)"
  by (force simp: map_values_def)

end
