(* ===== verification/Errors.thy ===== *)
theory Errors
  imports JS_Prelude
begin

text \<open>
  The exceptions of the program (\<open>src/src/remote/errors.ts\<close>, \<open>remote/mutation-source.ts\<close>,
  \<open>remote/body-source.ts\<close>, \<open>sync/body-materialization-errors.ts\<close>, \<open>app/remote/types.ts\<close>,
  \<open>e2ee/types.ts\<close>) as one datatype, so that every \<open>throw\<close> is a value on the left of a sum.
\<close>

datatype RemoteErrorKind =
    KAuth | KNetwork | KUnavailable | KProtocol | KMalformedRemoteData | KStateInvalid
  | KConflict | KUnsupported | KRateLimited | KTooLarge | KRejected | KUnexpected

datatype RetryDisposition = RNever | RSafeImmediate | RSafeBackoff | RReconcile

datatype SessionDisposition = SKeep | SExpire

datatype OperationOutcome = ONotApplicable | OKnownNotApplied | OUnknown

record RemoteError =
  reKind :: RemoteErrorKind
  reRetry :: RetryDisposition
  reSession :: SessionDisposition
  reOutcome :: OperationOutcome

datatype RemoteMutationSourceFailure =
  FNotConnected | FCancelled | FRemote RemoteError | FUnexpected

datatype RemoteBodySourceErrorKind = BNotConnected | BRemote | BCancelled | BUnexpected

datatype E2eeErrorKind =
    EMultipleRecipientsUnsupported | EKeyUnavailable | EPeerKeyUnavailable | EKeyMismatch
  | EInvalidPublicKey | EInvalidEnvelope | EMetadataMismatch | EAuthenticationFailed
  | EUnavailable | EUnexpected

datatype BodyMaterializationErrorKind =
    MEmailAbsent | MNotConnected | MRemote | MLocal | MInvalidEnvelope | MMetadataUnavailable
  | ME2ee | MCancelled | MUnexpected

datatype RemoteApplicationErrorKind =
    AAuth | ANetwork | ARemote | ALocal | AAccountMismatch | AAccountSelectionRequired
  | ANotConnected | ABusy | ACancelled | ADisposed | AUnexpected

datatype exn =
    TypeError jsstring
  | Error jsstring
  | RemoteExn RemoteError
  | RemoteMutationSourceError RemoteMutationSourceFailure
  | RemoteBodySourceError RemoteBodySourceErrorKind
  | BodyMaterializationError BodyMaterializationErrorKind "E2eeErrorKind option"
  | RemoteApplicationError RemoteApplicationErrorKind
  | OtherExn jsstring

type_synonym 'a throws = "exn + 'a"

text \<open>\<open>PortResult\<close> of \<open>ports/port-result.ts\<close>.\<close>

datatype ('a, 'e) PortResult = PortOk 'a | PortErr 'e

end
