(* ===== verification/Domain_Ids.thy ===== *)
theory Domain_Ids
  imports Errors
begin

text \<open>
  \<open>src/src/domain/ids.ts\<close>, \<open>address.ts\<close>, \<open>account.ts\<close>, \<open>identity.ts\<close>, \<open>sync-cursor.ts\<close> and
  \<open>email-body.ts\<close>: opaque and account-scoped identifiers and the small value objects.
  The brands of the opaque identifiers exist at compile time only, so an identifier is a
  string; the scoped identifiers of all five kinds share one record, as they share
  \<open>ScopedId\<close> in the source.
\<close>

section \<open>Identifiers\<close>

type_synonym AccountKey = jsstring
type_synonym ServiceKey = jsstring
type_synonym MutationId = jsstring

definition opaqueIdFromString :: "jsstring \<Rightarrow> jsstring \<Rightarrow> jsstring throws" where
  "opaqueIdFromString value typeName =
     throw_if (length value = 0) (TypeError (typeName @ js '' must not be empty'')) (Inr value)"

definition accountKeyFromString :: "jsstring \<Rightarrow> AccountKey throws" where
  "accountKeyFromString value = opaqueIdFromString value (js ''AccountKey'')"

definition serviceKeyFromString :: "jsstring \<Rightarrow> ServiceKey throws" where
  "serviceKeyFromString value = opaqueIdFromString value (js ''ServiceKey'')"

definition mutationIdFromString :: "jsstring \<Rightarrow> MutationId throws" where
  "mutationIdFromString value = opaqueIdFromString value (js ''MutationId'')"

definition jmapAccountIdFromString :: "jsstring \<Rightarrow> jsstring throws" where
  "jmapAccountIdFromString value = opaqueIdFromString value (js ''JmapAccountId'')"

definition jmapMailboxIdFromString :: "jsstring \<Rightarrow> jsstring throws" where
  "jmapMailboxIdFromString value = opaqueIdFromString value (js ''JmapMailboxId'')"

definition jmapEmailIdFromString :: "jsstring \<Rightarrow> jsstring throws" where
  "jmapEmailIdFromString value = opaqueIdFromString value (js ''JmapEmailId'')"

definition jmapIdentityIdFromString :: "jsstring \<Rightarrow> jsstring throws" where
  "jmapIdentityIdFromString value = opaqueIdFromString value (js ''JmapIdentityId'')"

definition jmapThreadIdFromString :: "jsstring \<Rightarrow> jsstring throws" where
  "jmapThreadIdFromString value = opaqueIdFromString value (js ''JmapThreadId'')"

definition jmapBlobIdFromString :: "jsstring \<Rightarrow> jsstring throws" where
  "jmapBlobIdFromString value = opaqueIdFromString value (js ''JmapBlobId'')"

record ScopedId =
  accountKey :: AccountKey
  jmapId :: jsstring

type_synonym ScopedMailboxId = ScopedId
type_synonym ScopedEmailId = ScopedId
type_synonym ScopedIdentityId = ScopedId
type_synonym ScopedThreadId = ScopedId
type_synonym ScopedBlobId = ScopedId

definition scopedMailboxId :: "AccountKey \<Rightarrow> jsstring \<Rightarrow> ScopedMailboxId" where
  "scopedMailboxId a j = \<lparr>accountKey = a, jmapId = j\<rparr>"

definition scopedEmailId :: "AccountKey \<Rightarrow> jsstring \<Rightarrow> ScopedEmailId" where
  "scopedEmailId a j = \<lparr>accountKey = a, jmapId = j\<rparr>"

definition scopedIdentityId :: "AccountKey \<Rightarrow> jsstring \<Rightarrow> ScopedIdentityId" where
  "scopedIdentityId a j = \<lparr>accountKey = a, jmapId = j\<rparr>"

definition scopedThreadId :: "AccountKey \<Rightarrow> jsstring \<Rightarrow> ScopedThreadId" where
  "scopedThreadId a j = \<lparr>accountKey = a, jmapId = j\<rparr>"

definition scopedBlobId :: "AccountKey \<Rightarrow> jsstring \<Rightarrow> ScopedBlobId" where
  "scopedBlobId a j = \<lparr>accountKey = a, jmapId = j\<rparr>"

definition sameScopedId :: "ScopedId \<Rightarrow> ScopedId \<Rightarrow> bool" where
  "sameScopedId left right \<longleftrightarrow>
     accountKey left = accountKey right \<and> jmapId left = jmapId right"

definition sameScopedMailboxId :: "ScopedMailboxId \<Rightarrow> ScopedMailboxId \<Rightarrow> bool" where
  "sameScopedMailboxId left right = sameScopedId left right"

definition sameScopedEmailId :: "ScopedEmailId \<Rightarrow> ScopedEmailId \<Rightarrow> bool" where
  "sameScopedEmailId left right = sameScopedId left right"

definition sameScopedIdentityId :: "ScopedIdentityId \<Rightarrow> ScopedIdentityId \<Rightarrow> bool" where
  "sameScopedIdentityId left right = sameScopedId left right"

definition sameScopedThreadId :: "ScopedThreadId \<Rightarrow> ScopedThreadId \<Rightarrow> bool" where
  "sameScopedThreadId left right = sameScopedId left right"

definition sameScopedBlobId :: "ScopedBlobId \<Rightarrow> ScopedBlobId \<Rightarrow> bool" where
  "sameScopedBlobId left right = sameScopedId left right"

lemma sameScopedId_iff [simp]:
  "sameScopedId (x :: ScopedId) y \<longleftrightarrow> x = y"
  by (cases x; cases y) (simp add: sameScopedId_def)

lemma sameScoped_iff [simp]:
  "sameScopedMailboxId x y \<longleftrightarrow> x = y"
  "sameScopedEmailId x y \<longleftrightarrow> x = y"
  "sameScopedIdentityId x y \<longleftrightarrow> x = y"
  "sameScopedThreadId x y \<longleftrightarrow> x = y"
  "sameScopedBlobId x y \<longleftrightarrow> x = y"
  by (simp_all add: sameScopedMailboxId_def sameScopedEmailId_def sameScopedIdentityId_def
      sameScopedThreadId_def sameScopedBlobId_def)

lemma opaqueIdFromString_Inr [simp]:
  "opaqueIdFromString v n = Inr k \<longleftrightarrow> v \<noteq> [] \<and> k = v"
  by (auto simp: opaqueIdFromString_def)

lemmas opaque_id_defs =
  accountKeyFromString_def serviceKeyFromString_def mutationIdFromString_def
  jmapAccountIdFromString_def jmapMailboxIdFromString_def jmapEmailIdFromString_def
  jmapIdentityIdFromString_def jmapThreadIdFromString_def jmapBlobIdFromString_def

lemmas scoped_id_defs =
  scopedMailboxId_def scopedEmailId_def scopedIdentityId_def scopedThreadId_def scopedBlobId_def

section \<open>Addresses, accounts, identities\<close>

record EmailAddress =
  adName :: "jsstring option"
  adEmail :: jsstring

type_synonym EmailAddressList = "EmailAddress list option"

definition emailAddress :: "jsstring option \<Rightarrow> jsstring \<Rightarrow> EmailAddress" where
  "emailAddress n e = \<lparr>adName = n, adEmail = e\<rparr>"

record RemoteAccountRef =
  rrServiceKey :: ServiceKey
  rrJmapAccountId :: jsstring

record Account =
  acKey :: AccountKey
  acRemoteRef :: RemoteAccountRef

definition remoteAccountRef :: "ServiceKey \<Rightarrow> jsstring \<Rightarrow> RemoteAccountRef" where
  "remoteAccountRef s j = \<lparr>rrServiceKey = s, rrJmapAccountId = j\<rparr>"

definition account :: "AccountKey \<Rightarrow> RemoteAccountRef \<Rightarrow> Account" where
  "account k r = \<lparr>acKey = k, acRemoteRef = r\<rparr>"

definition sameRemoteAccountRef :: "RemoteAccountRef \<Rightarrow> RemoteAccountRef \<Rightarrow> bool" where
  "sameRemoteAccountRef left right \<longleftrightarrow>
     rrServiceKey left = rrServiceKey right \<and> rrJmapAccountId left = rrJmapAccountId right"

lemma sameRemoteAccountRef_iff [simp]:
  "sameRemoteAccountRef (x :: RemoteAccountRef) y \<longleftrightarrow> x = y"
  by (cases x; cases y) (simp add: sameRemoteAccountRef_def)

record Identity =
  idId :: ScopedIdentityId
  idName :: jsstring
  idEmail :: jsstring
  idReplyTo :: EmailAddressList
  idBcc :: EmailAddressList

text \<open>\<open>[...value]\<close>: a copy of an immutable list is the list.\<close>

definition snapshotAddressList :: "EmailAddressList \<Rightarrow> EmailAddressList" where
  "snapshotAddressList v = (case v of None \<Rightarrow> None | Some xs \<Rightarrow> Some xs)"

lemma snapshotAddressList_id [simp]: "snapshotAddressList v = v"
  by (simp add: snapshotAddressList_def split: option.splits)

definition identity :: "Identity \<Rightarrow> Identity throws" where
  "identity input =
     throw_if (length (idEmail input) = 0) (TypeError (js ''Identity email must not be empty''))
       (Inr \<lparr>idId = idId input, idName = idName input, idEmail = idEmail input,
             idReplyTo = snapshotAddressList (idReplyTo input),
             idBcc = snapshotAddressList (idBcc input)\<rparr>)"

definition isWildcardIdentity :: "Identity \<Rightarrow> bool" where
  "isWildcardIdentity value = js_startsWith (idEmail value) (js ''*@'')"

lemma identity_Inr [throws_simps]: "identity i = Inr j \<longleftrightarrow> idEmail i \<noteq> [] \<and> j = i"
  by (cases i) (auto simp: identity_def)

section \<open>Cursors and bodies\<close>

datatype CollectionDataType = DEmail | DMailbox | DIdentity

type_synonym CollectionSyncState = jsstring

record CollectionSyncCursor =
  cuAccountKey :: AccountKey
  cuDataType :: CollectionDataType
  cuState :: CollectionSyncState

definition collectionSyncStateFromString :: "jsstring \<Rightarrow> CollectionSyncState" where
  "collectionSyncStateFromString value = value"

definition collectionSyncCursor :: "CollectionSyncCursor \<Rightarrow> CollectionSyncCursor" where
  "collectionSyncCursor input =
     \<lparr>cuAccountKey = cuAccountKey input, cuDataType = cuDataType input, cuState = cuState input\<rparr>"

definition sameCollectionSyncCursorIdentity ::
  "CollectionSyncCursor \<Rightarrow> CollectionSyncCursor \<Rightarrow> bool" where
  "sameCollectionSyncCursorIdentity left right \<longleftrightarrow>
     cuAccountKey left = cuAccountKey right \<and> cuDataType left = cuDataType right"

lemma collectionSyncCursor_id [simp]: "collectionSyncCursor (c :: CollectionSyncCursor) = c"
  by (simp add: collectionSyncCursor_def)

record EmailBody =
  boEmailId :: ScopedEmailId
  boText :: "jsstring option"
  boHtml :: "jsstring option"

definition emailBody :: "EmailBody \<Rightarrow> EmailBody" where
  "emailBody input =
     \<lparr>boEmailId = boEmailId input, boText = boText input, boHtml = boHtml input\<rparr>"

definition sameEmailBodyIdentity :: "EmailBody \<Rightarrow> EmailBody \<Rightarrow> bool" where
  "sameEmailBodyIdentity left right = sameScopedEmailId (boEmailId left) (boEmailId right)"

lemma emailBody_id [simp]: "emailBody (b :: EmailBody) = b"
  by (simp add: emailBody_def)

end
