(* ===== verification/Domain_Mail.thy ===== *)
theory Domain_Mail
  imports Domain_Ids
begin

text \<open>
  \<open>src/src/domain/email.ts\<close>, \<open>mailbox.ts\<close> and \<open>attachment-ref.ts\<close>: the mail entities and their
  validating factories, and for each factory the predicate of the inputs it accepts. Every
  factory returns its input (the e-mail factory rebuilds the keyword set), so the factories
  are idempotent: this is what lets the store re-run them on every read.
\<close>

section \<open>E-mails\<close>

type_synonym KeywordSet = "jsstring list"

record Email =
  emId :: ScopedEmailId
  emBlobId :: ScopedBlobId
  emThreadId :: ScopedThreadId
  emSender :: EmailAddressList
  emFrom :: EmailAddressList
  emReplyTo :: EmailAddressList
  emTo :: EmailAddressList
  emCc :: EmailAddressList
  emBcc :: EmailAddressList
  emSubject :: "jsstring option"
  emSentAt :: "jsstring option"
  emReceivedAt :: jsstring
  emSize :: number
  emPreview :: jsstring
  emHasAttachment :: bool
  emKeywords :: KeywordSet

fun keywordSet_loop :: "jsstring list \<Rightarrow> KeywordSet \<Rightarrow> KeywordSet throws" where
  "keywordSet_loop [] result = Inr result"
| "keywordSet_loop (value # values) result =
     throw_if (length value = 0) (TypeError (js ''Keyword must not be empty''))
       (keywordSet_loop values (set_add value result))"

definition keywordSet :: "jsstring list \<Rightarrow> KeywordSet throws" where
  "keywordSet values = keywordSet_loop values []"

definition email :: "Email \<Rightarrow> Email throws" where
  "email input =
     (let ak = accountKey (emId input) in
      throw_if (accountKey (emBlobId input) \<noteq> ak \<or> accountKey (emThreadId input) \<noteq> ak)
        (TypeError (js ''Email id, blobId, and threadId must belong to the same AccountKey''))
     (throw_if (\<not> isSafeInteger (emSize input) \<or> num_less (emSize input) (JInt 0))
        (TypeError (js ''Email size must be a non-negative safe integer''))
     (throw_if (length (emReceivedAt input) = 0)
        (TypeError (js ''Email receivedAt must not be empty''))
     (throw_if (emSentAt input = Some [])
        (TypeError (js ''Email sentAt must be null or non-empty''))
     (bindE (keywordSet (emKeywords input)) (\<lambda>keywords.
      Inr \<lparr>emId = emId input, emBlobId = emBlobId input, emThreadId = emThreadId input,
           emSender = snapshotAddressList (emSender input),
           emFrom = snapshotAddressList (emFrom input),
           emReplyTo = snapshotAddressList (emReplyTo input),
           emTo = snapshotAddressList (emTo input),
           emCc = snapshotAddressList (emCc input),
           emBcc = snapshotAddressList (emBcc input),
           emSubject = emSubject input, emSentAt = emSentAt input,
           emReceivedAt = emReceivedAt input, emSize = emSize input,
           emPreview = emPreview input, emHasAttachment = emHasAttachment input,
           emKeywords = keywords\<rparr>))))))"

lemma keywordSet_loop_Inr:
  "keywordSet_loop vs acc = Inr r \<longleftrightarrow> [] \<notin> set vs \<and> r = fold set_add vs acc"
  by (induction vs arbitrary: acc) auto

lemma keywordSet_Inr [throws_simps]:
  "keywordSet vs = Inr r \<longleftrightarrow> [] \<notin> set vs \<and> r = set_of_list vs"
  by (simp add: keywordSet_def keywordSet_loop_Inr set_of_list_def)

definition accepted_email :: "Email \<Rightarrow> bool" where
  "accepted_email e \<longleftrightarrow>
     accountKey (emBlobId e) = accountKey (emId e) \<and>
     accountKey (emThreadId e) = accountKey (emId e) \<and> safe_nat (emSize e) \<and>
     emReceivedAt e \<noteq> [] \<and> emSentAt e \<noteq> Some [] \<and> [] \<notin> set (emKeywords e)"

lemma email_Inr:
  "email i = Inr e \<longleftrightarrow> accepted_email i \<and> e = i\<lparr>emKeywords := set_of_list (emKeywords i)\<rparr>"
  by (cases i) (auto simp: email_def accepted_email_def safe_nat_def keywordSet_Inr
      bindE_Inr_iff Let_def)

text \<open>A value the factory can have returned: accepted, with a proper keyword set.\<close>

definition valid_email :: "Email \<Rightarrow> bool" where
  "valid_email e \<longleftrightarrow> accepted_email e \<and> distinct (emKeywords e)"

lemma email_valid: "email i = Inr e \<Longrightarrow> valid_email e"
  by (auto simp: email_Inr valid_email_def accepted_email_def)

lemma email_valid_id: "valid_email e \<Longrightarrow> email e = Inr e"
  by (simp add: email_Inr valid_email_def)

lemma email_keeps_id: "email i = Inr e \<Longrightarrow> emId e = emId i"
  by (auto simp: email_Inr)

section \<open>Mailboxes\<close>

record MailboxRights =
  mayReadItems :: bool
  mayAddItems :: bool
  mayRemoveItems :: bool
  maySetSeen :: bool
  maySetKeywords :: bool
  maySubmit :: bool

record Mailbox =
  mbId :: ScopedMailboxId
  mbName :: jsstring
  mbParent :: "ScopedMailboxId option"
  mbRole :: "jsstring option"
  mbSortOrder :: number
  mbTotalEmails :: number
  mbUnreadEmails :: number
  mbRights :: MailboxRights

record EmailMailbox =
  mmEmailId :: ScopedEmailId
  mmMailboxId :: ScopedMailboxId

definition MAX_SORT_ORDER :: number where
  "MAX_SORT_ORDER = JInt (2 ^ 31)"

definition mailboxRights :: "MailboxRights \<Rightarrow> MailboxRights" where
  "mailboxRights input =
     \<lparr>mayReadItems = mayReadItems input, mayAddItems = mayAddItems input,
      mayRemoveItems = mayRemoveItems input, maySetSeen = maySetSeen input,
      maySetKeywords = maySetKeywords input, maySubmit = maySubmit input\<rparr>"

definition assertMailboxCount :: "number \<Rightarrow> jsstring \<Rightarrow> unit throws" where
  "assertMailboxCount value fieldName =
     throw_if (\<not> isSafeInteger value \<or> num_less value (JInt 0))
       (TypeError (fieldName @ js '' must be a non-negative safe integer'')) (Inr ())"

definition mailbox :: "Mailbox \<Rightarrow> Mailbox throws" where
  "mailbox input =
     throw_if (length (mbName input) = 0) (TypeError (js ''Mailbox name must not be empty''))
     (bindE (case mbParent input of
               None \<Rightarrow> Inr ()
             | Some parent \<Rightarrow>
                 throw_if (accountKey parent \<noteq> accountKey (mbId input))
                   (TypeError (js ''Mailbox parent must belong to the same AccountKey''))
                 (throw_if (sameScopedMailboxId parent (mbId input))
                   (TypeError (js ''Mailbox cannot be its own parent'')) (Inr ()))) (\<lambda>_.
      throw_if (mbRole input = Some [])
        (TypeError (js ''Mailbox role must be null or non-empty''))
     (throw_if (\<not> isInteger (mbSortOrder input) \<or> num_less (mbSortOrder input) (JInt 0) \<or>
                num_le MAX_SORT_ORDER (mbSortOrder input))
        (TypeError (js ''Mailbox sortOrder must be an integer between 0 and 2^31 - 1''))
     (bindE (assertMailboxCount (mbTotalEmails input) (js ''Mailbox totalEmails'')) (\<lambda>_.
      bindE (assertMailboxCount (mbUnreadEmails input) (js ''Mailbox unreadEmails'')) (\<lambda>_.
      throw_if (num_less (mbTotalEmails input) (mbUnreadEmails input))
        (TypeError (js ''Mailbox unreadEmails must not exceed totalEmails''))
      (Inr \<lparr>mbId = mbId input, mbName = mbName input, mbParent = mbParent input,
            mbRole = mbRole input, mbSortOrder = mbSortOrder input,
            mbTotalEmails = mbTotalEmails input, mbUnreadEmails = mbUnreadEmails input,
            mbRights = mailboxRights (mbRights input)\<rparr>)))))))"

definition emailMailbox :: "ScopedEmailId \<Rightarrow> ScopedMailboxId \<Rightarrow> EmailMailbox throws" where
  "emailMailbox e m =
     throw_if (accountKey e \<noteq> accountKey m)
       (TypeError (js ''EmailMailbox emailId and mailboxId must belong to the same AccountKey''))
       (Inr \<lparr>mmEmailId = e, mmMailboxId = m\<rparr>)"

definition sameEmailMailbox :: "EmailMailbox \<Rightarrow> EmailMailbox \<Rightarrow> bool" where
  "sameEmailMailbox left right \<longleftrightarrow>
     sameScopedEmailId (mmEmailId left) (mmEmailId right) \<and>
     sameScopedMailboxId (mmMailboxId left) (mmMailboxId right)"

lemma mailboxRights_id [simp]: "mailboxRights (r :: MailboxRights) = r"
  by (simp add: mailboxRights_def)

definition valid_mailbox :: "Mailbox \<Rightarrow> bool" where
  "valid_mailbox m \<longleftrightarrow>
     mbName m \<noteq> [] \<and>
     (case mbParent m of
        None \<Rightarrow> True
      | Some p \<Rightarrow> accountKey p = accountKey (mbId m) \<and> p \<noteq> mbId m) \<and>
     mbRole m \<noteq> Some [] \<and>
     (case mbSortOrder m of JInt i \<Rightarrow> 0 \<le> i \<and> i < 2 ^ 31 | _ \<Rightarrow> False) \<and>
     (case (mbUnreadEmails m, mbTotalEmails m) of
        (JInt u, JInt t) \<Rightarrow> 0 \<le> u \<and> u \<le> t \<and> t \<le> 2 ^ 53 - 1
      | _ \<Rightarrow> False)"

lemma sortOrder_range:
  "(\<not> isInteger n \<or> num_less n (JInt 0) \<or> num_le MAX_SORT_ORDER n) \<longleftrightarrow>
   \<not> (case n of JInt i \<Rightarrow> 0 \<le> i \<and> i < 2 ^ 31 | _ \<Rightarrow> False)"
  by (cases n) (auto simp: isInteger_def MAX_SORT_ORDER_def)

lemma assertMailboxCount_Inr: "assertMailboxCount n f = Inr u \<longleftrightarrow> safe_nat n"
  by (auto simp: assertMailboxCount_def safe_nat_def)

lemma counts_range:
  "safe_nat t \<and> safe_nat u \<and> \<not> num_less t u \<longleftrightarrow>
   (case (u, t) of
      (JInt u, JInt t) \<Rightarrow> 0 \<le> u \<and> u \<le> t \<and> t \<le> 2 ^ 53 - 1
    | _ \<Rightarrow> False)"
  by (cases u; cases t) (auto simp: safe_nat_iff)

lemma mailbox_Inr [throws_simps]: "mailbox i = Inr m \<longleftrightarrow> valid_mailbox i \<and> m = i"
proof -
  have "mailbox i = Inr m \<longleftrightarrow>
      mbName i \<noteq> [] \<and>
      (case mbParent i of
         None \<Rightarrow> True
       | Some p \<Rightarrow> accountKey p = accountKey (mbId i) \<and> p \<noteq> mbId i) \<and>
      mbRole i \<noteq> Some [] \<and>
      \<not> (\<not> isInteger (mbSortOrder i) \<or> num_less (mbSortOrder i) (JInt 0) \<or>
         num_le MAX_SORT_ORDER (mbSortOrder i)) \<and>
      (safe_nat (mbTotalEmails i) \<and> safe_nat (mbUnreadEmails i) \<and>
       \<not> num_less (mbTotalEmails i) (mbUnreadEmails i)) \<and> m = i"
    by (auto simp: mailbox_def bindE_Inr_iff assertMailboxCount_Inr split: option.splits)
  then show ?thesis unfolding sortOrder_range counts_range valid_mailbox_def by auto
qed

lemma emailMailbox_Inr [throws_simps]:
  "emailMailbox e m = Inr r \<longleftrightarrow>
     accountKey e = accountKey m \<and> r = \<lparr>mmEmailId = e, mmMailboxId = m\<rparr>"
  by (auto simp: emailMailbox_def)

lemma sameEmailMailbox_iff [simp]: "sameEmailMailbox (x :: EmailMailbox) y \<longleftrightarrow> x = y"
  by (cases x; cases y) (simp add: sameEmailMailbox_def)

section \<open>Attachments\<close>

record AttachmentRef =
  atEmailId :: ScopedEmailId
  atPartId :: jsstring
  atBlobId :: ScopedBlobId
  atName :: "jsstring option"
  atMediaType :: jsstring
  atSize :: number
  atDisposition :: "jsstring option"
  atCid :: "jsstring option"

definition attachmentPartIdFromString :: "jsstring \<Rightarrow> jsstring" where
  "attachmentPartIdFromString value = value"

definition attachmentRef :: "AttachmentRef \<Rightarrow> AttachmentRef throws" where
  "attachmentRef input =
     throw_if (accountKey (atEmailId input) \<noteq> accountKey (atBlobId input))
       (TypeError (js ''AttachmentRef emailId and blobId must belong to the same AccountKey''))
     (throw_if (length (atMediaType input) = 0)
       (TypeError (js ''AttachmentRef mediaType must not be empty''))
     (throw_if (js_startsWith (js_toLowerCase (atMediaType input)) (js ''multipart/''))
       (TypeError (js ''AttachmentRef mediaType must not be multipart''))
     (throw_if (\<not> isSafeInteger (atSize input) \<or> num_less (atSize input) (JInt 0))
       (TypeError (js ''AttachmentRef size must be a non-negative safe integer''))
     (Inr \<lparr>atEmailId = atEmailId input, atPartId = atPartId input, atBlobId = atBlobId input,
           atName = atName input, atMediaType = atMediaType input, atSize = atSize input,
           atDisposition = atDisposition input, atCid = atCid input\<rparr>))))"

definition sameAttachmentRefIdentity :: "AttachmentRef \<Rightarrow> AttachmentRef \<Rightarrow> bool" where
  "sameAttachmentRefIdentity left right \<longleftrightarrow>
     sameScopedEmailId (atEmailId left) (atEmailId right) \<and> atPartId left = atPartId right"

definition valid_attachment :: "AttachmentRef \<Rightarrow> bool" where
  "valid_attachment a \<longleftrightarrow>
     accountKey (atEmailId a) = accountKey (atBlobId a) \<and> atMediaType a \<noteq> [] \<and>
     \<not> js_startsWith (js_toLowerCase (atMediaType a)) (js ''multipart/'') \<and>
     safe_nat (atSize a)"

lemma attachmentRef_Inr [throws_simps]:
  "attachmentRef i = Inr a \<longleftrightarrow> valid_attachment i \<and> a = i"
  by (cases i) (auto simp: attachmentRef_def valid_attachment_def safe_nat_def)

end
