(* ===== verification/Domain_View.thy ===== *)
theory Domain_View
  imports Domain_Mail
begin

text \<open>
  \<open>src/src/domain/mailbox-view.ts\<close>: partial snapshots of a mailbox query. The three validation
  loops of the source are translated loop by loop; the lemmas at the end show that together
  they accept exactly the views whose item positions, read in order, are the positions of the
  coverage ranges, read in order.
\<close>

section \<open>Data\<close>

datatype MailboxViewFilterSpec = FilterAll

datatype SortDirection = Ascending | Descending

datatype SortProperty = SortReceivedAt

record MailboxViewSortSpec =
  soProperty :: SortProperty
  soDirection :: SortDirection

record MailboxViewSpec =
  vsMailboxId :: ScopedMailboxId
  vsFilter :: MailboxViewFilterSpec
  vsSort :: MailboxViewSortSpec

record MailboxViewCoverageRange =
  crStart :: number
  crEnd :: number

record MailboxViewItem =
  viPosition :: number
  viEmailId :: ScopedEmailId

record MailboxView =
  mvSpec :: MailboxViewSpec
  mvQueryState :: jsstring
  mvTotal :: number
  mvCoverage :: "MailboxViewCoverageRange list"
  mvItems :: "MailboxViewItem list"

definition mailboxViewFilterAll :: MailboxViewFilterSpec where
  "mailboxViewFilterAll = FilterAll"

definition mailboxViewSort :: "SortDirection \<Rightarrow> MailboxViewSortSpec" where
  "mailboxViewSort d = \<lparr>soProperty = SortReceivedAt, soDirection = d\<rparr>"

definition mailboxViewSpec ::
  "ScopedMailboxId \<Rightarrow> MailboxViewFilterSpec \<Rightarrow> MailboxViewSortSpec \<Rightarrow> MailboxViewSpec" where
  "mailboxViewSpec m f so =
     \<lparr>vsMailboxId = m, vsFilter = f,
      vsSort = \<lparr>soProperty = soProperty so, soDirection = soDirection so\<rparr>\<rparr>"

definition sameMailboxViewSpec :: "MailboxViewSpec \<Rightarrow> MailboxViewSpec \<Rightarrow> bool" where
  "sameMailboxViewSpec left right \<longleftrightarrow>
     sameScopedMailboxId (vsMailboxId left) (vsMailboxId right) \<and>
     vsFilter left = vsFilter right \<and>
     soProperty (vsSort left) = soProperty (vsSort right) \<and>
     soDirection (vsSort left) = soDirection (vsSort right)"

definition mailboxViewQueryStateFromString :: "jsstring \<Rightarrow> jsstring throws" where
  "mailboxViewQueryStateFromString value =
     throw_if (length value = 0) (TypeError (js ''MailboxViewQueryState must not be empty''))
       (Inr value)"

definition assertNonNegativeSafeInteger :: "number \<Rightarrow> jsstring \<Rightarrow> unit throws" where
  "assertNonNegativeSafeInteger value fieldName =
     throw_if (\<not> isSafeInteger value \<or> num_less value (JInt 0))
       (TypeError (fieldName @ js '' must be a non-negative safe integer'')) (Inr ())"

definition assertCoverageRangeShape :: "MailboxViewCoverageRange \<Rightarrow> unit throws" where
  "assertCoverageRangeShape rng =
     bindE (assertNonNegativeSafeInteger (crStart rng) (js ''Coverage start'')) (\<lambda>_.
     bindE (assertNonNegativeSafeInteger (crEnd rng) (js ''Coverage endExclusive'')) (\<lambda>_.
     throw_if (num_le (crEnd rng) (crStart rng))
       (TypeError (js ''Coverage range must not be empty or reversed'')) (Inr ())))"

definition mailboxViewCoverageRange ::
  "number \<Rightarrow> number \<Rightarrow> MailboxViewCoverageRange throws" where
  "mailboxViewCoverageRange start endExclusive =
     (let rng = \<lparr>crStart = start, crEnd = endExclusive\<rparr> in
      bindE (assertCoverageRangeShape rng) (\<lambda>_. Inr rng))"

definition assertItemPosition :: "number \<Rightarrow> unit throws" where
  "assertItemPosition position =
     assertNonNegativeSafeInteger position (js ''MailboxViewItem position'')"

definition mailboxViewItem :: "number \<Rightarrow> ScopedEmailId \<Rightarrow> MailboxViewItem throws" where
  "mailboxViewItem position e =
     bindE (assertItemPosition position) (\<lambda>_.
     Inr \<lparr>viPosition = position, viEmailId = e\<rparr>)"

section \<open>Validation\<close>

fun validateCoverage_loop ::
  "MailboxViewCoverageRange list \<Rightarrow> number \<Rightarrow> number option \<Rightarrow> unit throws" where
  "validateCoverage_loop [] tot previousEnd = Inr ()"
| "validateCoverage_loop (rng # coverage) tot previousEnd =
     bindE (assertCoverageRangeShape rng) (\<lambda>_.
     throw_if (num_less tot (crEnd rng))
       (TypeError (js ''Coverage range must not exceed MailboxView total''))
     (throw_if (case previousEnd of None \<Rightarrow> False | Some p \<Rightarrow> num_le (crStart rng) p)
       (TypeError (js ''Coverage ranges must be ordered, disjoint, and non-adjacent''))
     (validateCoverage_loop coverage tot (Some (crEnd rng)))))"

definition validateCoverage :: "MailboxViewCoverageRange list \<Rightarrow> number \<Rightarrow> unit throws" where
  "validateCoverage coverage tot = validateCoverage_loop coverage tot None"

fun validateItems_loop ::
  "MailboxViewItem list \<Rightarrow> AccountKey \<Rightarrow> number option \<Rightarrow> ScopedEmailId list \<Rightarrow> unit throws" where
  "validateItems_loop [] ak previousPosition knownEmailIds = Inr ()"
| "validateItems_loop (item # items) ak previousPosition knownEmailIds =
     bindE (assertItemPosition (viPosition item)) (\<lambda>_.
     throw_if (case previousPosition of None \<Rightarrow> False | Some p \<Rightarrow> num_le (viPosition item) p)
       (TypeError (js ''MailboxViewItem positions must be strictly ascending''))
     (throw_if (accountKey (viEmailId item) \<noteq> ak)
       (TypeError (js ''MailboxViewItem emailId must belong to the View AccountKey''))
     (throw_if (list_ex (\<lambda>known. sameScopedEmailId known (viEmailId item)) knownEmailIds)
       (TypeError (js ''MailboxView must not contain a duplicate Email ID''))
     (validateItems_loop items ak (Some (viPosition item)) (knownEmailIds @ [viEmailId item])))))"

definition validateItems :: "MailboxViewItem list \<Rightarrow> AccountKey \<Rightarrow> unit throws" where
  "validateItems items ak = validateItems_loop items ak None []"

text \<open>
  The inner \<open>while\<close> of \<open>validateCoverageItems\<close>. The index of the source into \<open>items\<close> is the list
  of the items it has not reached yet; it returns them with the next expected position.
\<close>

fun consume_range ::
  "MailboxViewItem list \<Rightarrow> number \<Rightarrow> number \<Rightarrow> (MailboxViewItem list \<times> number) throws" where
  "consume_range [] expected end = Inr ([], expected)"
| "consume_range (item # items) expected end =
     (if num_less (viPosition item) end
      then throw_if (\<not> num_eq (viPosition item) expected)
             (TypeError (js ''MailboxView coverage and item positions must match exactly''))
           (consume_range items (num_add expected (JInt 1)) end)
      else Inr (item # items, expected))"

fun validateCoverageItems ::
  "MailboxViewCoverageRange list \<Rightarrow> MailboxViewItem list \<Rightarrow> unit throws" where
  "validateCoverageItems [] items =
     throw_if (items \<noteq> [])
       (TypeError (js ''MailboxView items must not exist outside declared coverage'')) (Inr ())"
| "validateCoverageItems (rng # coverage) items =
     bindE (consume_range items (crStart rng) (crEnd rng)) (\<lambda>(rest, expected).
     throw_if (\<not> num_eq expected (crEnd rng))
       (TypeError (js ''MailboxView coverage and item positions must match exactly''))
     (validateCoverageItems coverage rest))"

definition mailboxView :: "MailboxView \<Rightarrow> MailboxView throws" where
  "mailboxView input =
     bindE (assertNonNegativeSafeInteger (mvTotal input) (js ''MailboxView total'')) (\<lambda>_.
     bindE (validateCoverage (mvCoverage input) (mvTotal input)) (\<lambda>_.
     bindE (validateItems (mvItems input) (accountKey (vsMailboxId (mvSpec input)))) (\<lambda>_.
     bindE (validateCoverageItems (mvCoverage input) (mvItems input)) (\<lambda>_.
     Inr \<lparr>mvSpec = mailboxViewSpec (vsMailboxId (mvSpec input)) (vsFilter (mvSpec input))
                     (vsSort (mvSpec input)),
          mvQueryState = mvQueryState input,
          mvTotal = mvTotal input,
          mvCoverage =
            map (\<lambda>r. \<lparr>crStart = crStart r, crEnd = crEnd r\<rparr>) (mvCoverage input),
          mvItems =
            map (\<lambda>i. \<lparr>viPosition = viPosition i, viEmailId = viEmailId i\<rparr>)
              (mvItems input)\<rparr>))))"

lemma mailboxViewSpec_id [simp]:
  "mailboxViewSpec (vsMailboxId s) (vsFilter s) (vsSort s) = (s :: MailboxViewSpec)"
  by (simp add: mailboxViewSpec_def)

lemma sameMailboxViewSpec_iff [simp]: "sameMailboxViewSpec (x :: MailboxViewSpec) y \<longleftrightarrow> x = y"
proof -
  obtain m f d where x: "x = \<lparr>vsMailboxId = m, vsFilter = f, vsSort = d\<rparr>" by (cases x)
  obtain m' f' d' where y: "y = \<lparr>vsMailboxId = m', vsFilter = f', vsSort = d'\<rparr>" by (cases y)
  show ?thesis by (cases d; cases d') (auto simp: x y sameMailboxViewSpec_def)
qed

section \<open>What the validation accepts\<close>

lemma assertNonNegativeSafeInteger_Inr [throws_simps]:
  "assertNonNegativeSafeInteger n f = Inr u \<longleftrightarrow> safe_nat n"
  by (auto simp: assertNonNegativeSafeInteger_def safe_nat_def)

definition range_ok :: "MailboxViewCoverageRange \<Rightarrow> bool" where
  "range_ok r \<longleftrightarrow>
     (case (crStart r, crEnd r) of
        (JInt a, JInt b) \<Rightarrow> 0 \<le> a \<and> a < b \<and> b \<le> 2 ^ 53 - 1
      | _ \<Rightarrow> False)"

lemma range_okE:
  assumes "range_ok r"
  obtains a b where "crStart r = JInt a" "crEnd r = JInt b" "0 \<le> a" "a < b" "b \<le> 2 ^ 53 - 1"
  using assms by (auto simp: range_ok_def split: number.splits)

lemma assertCoverageRangeShape_Inr [throws_simps]:
  "assertCoverageRangeShape r = Inr u \<longleftrightarrow> range_ok r"
  by (cases "crStart r"; cases "crEnd r")
     (auto simp: assertCoverageRangeShape_def bindE_Inr_iff assertNonNegativeSafeInteger_Inr
        safe_nat_iff range_ok_def)

lemma mailboxViewCoverageRange_Inr:
  "mailboxViewCoverageRange a b = Inr r \<longleftrightarrow> r = \<lparr>crStart = a, crEnd = b\<rparr> \<and> range_ok r"
  by (auto simp: mailboxViewCoverageRange_def Let_def bindE_Inr_iff assertCoverageRangeShape_Inr)

lemma mailboxViewItem_Inr:
  "mailboxViewItem p e = Inr i \<longleftrightarrow> safe_nat p \<and> i = \<lparr>viPosition = p, viEmailId = e\<rparr>"
  by (auto simp: mailboxViewItem_def assertItemPosition_def bindE_Inr_iff
      assertNonNegativeSafeInteger_Inr)

text \<open>The positions a coverage claims, and the positions the items have, in order.\<close>

definition int_of_num :: "number \<Rightarrow> int" where
  "int_of_num n = (case n of JInt i \<Rightarrow> i | _ \<Rightarrow> 0)"

definition range_positions :: "MailboxViewCoverageRange \<Rightarrow> int list" where
  "range_positions r = [int_of_num (crStart r) .. int_of_num (crEnd r) - 1]"

definition coverage_positions :: "MailboxViewCoverageRange list \<Rightarrow> int list" where
  "coverage_positions c = concat (map range_positions c)"

definition item_positions :: "MailboxViewItem list \<Rightarrow> int list" where
  "item_positions items = map (\<lambda>i. int_of_num (viPosition i)) items"

text \<open>Ordered, disjoint and non-adjacent ranges below the total.\<close>

definition coverage_ok :: "MailboxViewCoverageRange list \<Rightarrow> number \<Rightarrow> bool" where
  "coverage_ok c tot \<longleftrightarrow>
     (\<forall>r \<in> set c. range_ok r \<and> int_of_num (crEnd r) \<le> int_of_num tot) \<and>
     sorted_wrt (\<lambda>r r'. int_of_num (crEnd r) < int_of_num (crStart r')) c"

definition items_ok :: "MailboxViewItem list \<Rightarrow> AccountKey \<Rightarrow> bool" where
  "items_ok items ak \<longleftrightarrow>
     (\<forall>i \<in> set items. safe_nat (viPosition i) \<and> accountKey (viEmailId i) = ak) \<and>
     sorted_wrt (<) (item_positions items) \<and> distinct (map viEmailId items)"

definition valid_view :: "MailboxView \<Rightarrow> bool" where
  "valid_view v \<longleftrightarrow>
     safe_nat (mvTotal v) \<and> coverage_ok (mvCoverage v) (mvTotal v) \<and>
     items_ok (mvItems v) (accountKey (vsMailboxId (mvSpec v))) \<and>
     item_positions (mvItems v) = coverage_positions (mvCoverage v)"

lemma int_of_num_JInt [simp]: "int_of_num (JInt i) = i"
  by (simp add: int_of_num_def)

definition after :: "number option \<Rightarrow> int \<Rightarrow> bool" where
  "after p i \<longleftrightarrow> (case p of None \<Rightarrow> True | Some n \<Rightarrow> int_of_num n < i)"

lemma validateCoverage_loop_Inr:
  assumes "safe_nat tot" "\<And>p. prev = Some p \<Longrightarrow> safe_nat p"
  shows "validateCoverage_loop c tot prev = Inr () \<longleftrightarrow>
    coverage_ok c tot \<and> (\<forall>r \<in> set c. after prev (int_of_num (crStart r)))"
  using assms
proof (induction c arbitrary: prev)
  case Nil
  then show ?case by (simp add: coverage_ok_def)
next
  case (Cons r c)
  obtain t where t: "tot = JInt t" using Cons.prems(1) by (auto elim: safe_natE)
  show ?case
  proof (cases "range_ok r")
    case False
    then show ?thesis
      by (auto simp: bindE_Inr_iff assertCoverageRangeShape_Inr coverage_ok_def)
  next
    case True
    then obtain a b where ab: "crStart r = JInt a" "crEnd r = JInt b" "0 \<le> a" "a < b" "b \<le> 2 ^ 53 - 1"
      by (rule range_okE)
    then have "safe_nat (crEnd r)" by (simp add: safe_nat_iff)
    then have IH: "validateCoverage_loop c (JInt t) (Some (JInt b)) = Inr () \<longleftrightarrow>
        coverage_ok c (JInt t) \<and> (\<forall>r' \<in> set c. b < int_of_num (crStart r'))"
      using Cons.IH [of "Some (crEnd r)"] Cons.prems(1) by (simp add: after_def ab t)
    have prev: "(case prev of None \<Rightarrow> False | Some p \<Rightarrow> num_le (crStart r) p) \<longleftrightarrow> \<not> after prev a"
      using Cons.prems(2) by (auto simp: after_def ab not_less elim!: safe_natE split: option.splits)
    have trans: "after prev (int_of_num (crStart r'))" if "after prev a" "b < int_of_num (crStart r')" for r'
      using that ab by (auto simp: after_def split: option.splits)
    show ?thesis
      using True trans
      by (auto simp: bindE_Inr_iff assertCoverageRangeShape_Inr prev IH t ab coverage_ok_def)
  qed
qed

lemma validateCoverage_Inr:
  "safe_nat tot \<Longrightarrow> validateCoverage c tot = Inr () \<longleftrightarrow> coverage_ok c tot"
  using validateCoverage_loop_Inr [of tot None c] by (simp add: validateCoverage_def after_def)

lemma validateItems_loop_Inr:
  assumes "\<And>p. prev = Some p \<Longrightarrow> safe_nat p"
  shows "validateItems_loop items ak prev known = Inr () \<longleftrightarrow>
    items_ok items ak \<and> (\<forall>i \<in> set items. after prev (int_of_num (viPosition i))) \<and>
    set known \<inter> viEmailId ` set items = {}"
  using assms
proof (induction items arbitrary: prev known)
  case Nil
  then show ?case by (simp add: items_ok_def item_positions_def)
next
  case (Cons i items)
  show ?case
  proof (cases "safe_nat (viPosition i)")
    case False
    then show ?thesis
      by (auto simp: bindE_Inr_iff assertItemPosition_def assertNonNegativeSafeInteger_Inr items_ok_def)
  next
    case True
    then obtain a where a: "viPosition i = JInt a" by (rule safe_natE)
    have IH: "validateItems_loop items ak (Some (JInt a)) (known @ [viEmailId i]) = Inr () \<longleftrightarrow>
        items_ok items ak \<and> (\<forall>j \<in> set items. a < int_of_num (viPosition j)) \<and>
        (set known \<union> {viEmailId i}) \<inter> viEmailId ` set items = {}"
      using Cons.IH [of "Some (viPosition i)" "known @ [viEmailId i]"] True
      by (simp add: after_def a)
    have prev: "(case prev of None \<Rightarrow> False | Some p \<Rightarrow> num_le (viPosition i) p) \<longleftrightarrow> \<not> after prev a"
      using Cons.prems by (auto simp: after_def a not_less elim!: safe_natE split: option.splits)
    have trans: "after prev (int_of_num (viPosition j))" if "after prev a" "a < int_of_num (viPosition j)" for j
      using that by (auto simp: after_def split: option.splits)
    have known: "list_ex (\<lambda>k. k = viEmailId i) known \<longleftrightarrow> viEmailId i \<in> set known"
      by (auto simp: list_ex_iff)
    show ?thesis
      using True trans
      by (auto simp: bindE_Inr_iff assertItemPosition_def assertNonNegativeSafeInteger_Inr
          prev known IH a items_ok_def item_positions_def)
  qed
qed

lemma validateItems_Inr: "validateItems items ak = Inr () \<longleftrightarrow> items_ok items ak"
  using validateItems_loop_Inr [of None items ak "[]"] by (simp add: validateItems_def after_def)

text \<open>
  The inner loop consumes a run of consecutive positions from the start of the range.
\<close>

lemma consume_range_Inr:
  assumes "consume_range items (JInt a) (JInt b) = Inr (rest, e)" "0 \<le> a" "b \<le> 2 ^ 53 - 1"
  shows "\<exists>pre. items = pre @ rest \<and> e = JInt (a + int (length pre)) \<and>
    item_positions pre = [a .. a + int (length pre) - 1]"
  using assms
proof (induction items arbitrary: a)
  case Nil
  then show ?case by (simp add: item_positions_def)
next
  case (Cons i items)
  show ?case
  proof (cases "num_less (viPosition i) (JInt b)")
    case False
    with Cons.prems show ?thesis by (simp add: item_positions_def)
  next
    case True
    with Cons.prems have i: "viPosition i = JInt a" by simp
    with True have "a < b" by simp
    with Cons.prems i True have "consume_range items (JInt (a + 1)) (JInt b) = Inr (rest, e)"
      by simp
    from Cons.IH [OF this] Cons.prems obtain pre where
      "items = pre @ rest" "e = JInt (a + 1 + int (length pre))"
      "item_positions pre = [a + 1 .. a + 1 + int (length pre) - 1]" by auto
    then show ?thesis
      by (intro exI [of _ "i # pre"]) (simp add: item_positions_def i upto_rec1 [of a] algebra_simps)
  qed
qed

lemma consume_range_complete:
  assumes "item_positions items = [a .. b - 1] @ ps" "\<forall>p \<in> set ps. b \<le> p"
    "\<forall>i \<in> set items. safe_nat (viPosition i)" "0 \<le> a" "a \<le> b" "b \<le> 2 ^ 53 - 1"
  shows "\<exists>rest. consume_range items (JInt a) (JInt b) = Inr (rest, JInt b) \<and>
    item_positions rest = ps \<and> set rest \<subseteq> set items"
  using assms
proof (induction items arbitrary: a)
  case Nil
  then have "a = b" by (simp add: item_positions_def)
  with Nil show ?case by (simp add: item_positions_def)
next
  case (Cons i items)
  then obtain p where p: "viPosition i = JInt p" by (auto elim: safe_natE)
  show ?case
  proof (cases "a = b")
    case True
    with Cons.prems p show ?thesis by (auto simp: item_positions_def)
  next
    case False
    with Cons.prems have ab: "a < b" by simp
    with Cons.prems p have "p = a" "item_positions items = [a + 1 .. b - 1] @ ps"
      by (auto simp: item_positions_def upto_rec1 [of a])
    with Cons.IH [of "a + 1"] Cons.prems ab p show ?thesis by force
  qed
qed

lemma coverage_positions_lower:
  assumes "coverage_ok (r # c) t" "p \<in> set (coverage_positions c)"
  shows "int_of_num (crEnd r) \<le> p"
proof -
  from assms(2) obtain r' where r': "r' \<in> set c" "p \<in> set (range_positions r')"
    by (auto simp: coverage_positions_def)
  with assms(1) have "int_of_num (crEnd r) < int_of_num (crStart r')"
    by (auto simp: coverage_ok_def)
  with r'(2) show ?thesis by (auto simp: range_positions_def)
qed

lemma validateCoverageItems_Inr:
  assumes "coverage_ok c t" "\<forall>i \<in> set items. safe_nat (viPosition i)"
  shows "validateCoverageItems c items = Inr () \<longleftrightarrow>
    item_positions items = coverage_positions c"
  using assms
proof (induction c arbitrary: items)
  case Nil
  then show ?case by (auto simp: coverage_positions_def item_positions_def)
next
  case (Cons r c)
  from Cons.prems have "range_ok r" by (simp add: coverage_ok_def)
  then obtain a b where ab: "crStart r = JInt a" "crEnd r = JInt b" "0 \<le> a" "a < b" "b \<le> 2 ^ 53 - 1"
    by (rule range_okE)
  from Cons.prems have ok: "coverage_ok c t" by (simp add: coverage_ok_def)
  have pos: "coverage_positions (r # c) = [a .. b - 1] @ coverage_positions c"
    by (simp add: coverage_positions_def range_positions_def ab)
  show ?case
  proof
    assume "validateCoverageItems (r # c) items = Inr ()"
    then obtain rest where rest: "consume_range items (JInt a) (JInt b) = Inr (rest, JInt b)"
      "validateCoverageItems c rest = Inr ()" by (auto simp: bindE_Inr_iff ab)
    from consume_range_Inr [OF rest(1)] ab obtain pre where pre: "items = pre @ rest"
      "b = a + int (length pre)" "item_positions pre = [a .. a + int (length pre) - 1]" by auto
    from rest(2) Cons.IH [OF ok, of rest] Cons.prems pre(1)
    have "item_positions rest = coverage_positions c" by simp
    with pre show "item_positions items = coverage_positions (r # c)"
      unfolding pos by (simp add: item_positions_def)
  next
    assume eq: "item_positions items = coverage_positions (r # c)"
    have "\<exists>rest. consume_range items (JInt a) (JInt b) = Inr (rest, JInt b) \<and>
        item_positions rest = coverage_positions c \<and> set rest \<subseteq> set items"
      using consume_range_complete [of items a b "coverage_positions c"] eq pos
        coverage_positions_lower [OF Cons.prems(1)] Cons.prems(2) ab by simp
    then show "validateCoverageItems (r # c) items = Inr ()"
      using Cons.IH [OF ok] Cons.prems(2) by (force simp: ab)
  qed
qed

lemma copied_parts [simp]:
  "\<lparr>crStart = crStart r, crEnd = crEnd r\<rparr> = (r :: MailboxViewCoverageRange)"
  "\<lparr>viPosition = viPosition i, viEmailId = viEmailId i\<rparr> = (i :: MailboxViewItem)"
  by simp_all

lemma mailboxView_Inr [throws_simps]: "mailboxView i = Inr v \<longleftrightarrow> valid_view i \<and> v = i"
proof -
  have items: "items_ok is k \<Longrightarrow> \<forall>i \<in> set is. safe_nat (viPosition i)" for "is" k
    by (simp add: items_ok_def)
  show ?thesis
    by (cases i)
       (auto simp: mailboxView_def bindE_Inr_iff assertNonNegativeSafeInteger_Inr validateCoverage_Inr
         validateItems_Inr validateCoverageItems_Inr items valid_view_def)
qed

end
