(* ===== verification/Domain_Send.thy ===== *)
theory Domain_Send
  imports Domain_Mail
begin

text \<open>
  \<open>src/src/domain/send-intent.ts\<close>: the frozen content of an outgoing message, built from an
  identity and the composer's input, and what the factory guarantees of it.
\<close>

record SendBody =
  sbText :: jsstring
  sbHtml :: "jsstring option"

datatype SendSecurityMode = ModePlain | ModeBoxplotE2eeV1

record SendIntent =
  siSecurityMode :: SendSecurityMode
  siIdentityId :: ScopedIdentityId
  siFrom :: EmailAddress
  siReplyTo :: "EmailAddress list"
  siTo :: "EmailAddress list"
  siCc :: "EmailAddress list"
  siBcc :: "EmailAddress list"
  siSubject :: jsstring
  siBody :: SendBody

record SendIntentInput =
  sniSecurityMode :: SendSecurityMode
  sniIdentity :: Identity
  sniTo :: "EmailAddress list"
  sniCc :: "EmailAddress list"
  sniBcc :: "EmailAddress list"
  sniSubject :: jsstring
  sniBody :: SendBody

text \<open>Carriage return, line feed and NUL.\<close>

definition containsUnsafeHeaderCharacter :: "jsstring \<Rightarrow> bool" where
  "containsUnsafeHeaderCharacter value \<longleftrightarrow>
     List.member value 13 \<or> List.member value 10 \<or> List.member value 0"

definition assertUsableOutboundAddress :: "EmailAddress \<Rightarrow> unit throws" where
  "assertUsableOutboundAddress address =
     (let atIndex = js_indexOf 64 (adEmail address) in
      throw_if (length (adEmail address) = 0 \<or>
                containsUnsafeHeaderCharacter (adEmail address) \<or>
                atIndex \<le> 0 \<or> atIndex = int (length (adEmail address)) - 1)
        (TypeError (js ''Outbound email address is not usable''))
     (throw_if (case adName address of None \<Rightarrow> False | Some n \<Rightarrow> containsUnsafeHeaderCharacter n)
        (TypeError (js ''Outbound display name contains an unsafe character''))
     (Inr ())))"

fun mergeBcc_loop ::
  "EmailAddress list \<Rightarrow> EmailAddress list \<Rightarrow> jsstring list \<Rightarrow> EmailAddress list" where
  "mergeBcc_loop [] result seenEmails = result"
| "mergeBcc_loop (address # rest) result seenEmails =
     (if adEmail address \<notin> set seenEmails
      then mergeBcc_loop rest (result @ [address]) (set_add (adEmail address) seenEmails)
      else mergeBcc_loop rest result seenEmails)"

definition mergeBcc :: "EmailAddress list \<Rightarrow> EmailAddress list option \<Rightarrow> EmailAddress list" where
  "mergeBcc userBcc defaultBcc =
     mergeBcc_loop (userBcc @ (case defaultBcc of None \<Rightarrow> [] | Some d \<Rightarrow> d)) [] []"

definition sendIntent :: "SendIntentInput \<Rightarrow> SendIntent throws" where
  "sendIntent input =
     throw_if (isWildcardIdentity (sniIdentity input))
       (TypeError (js ''Wildcard Identity cannot be used for Send in the MVP''))
     (let fromA = emailAddress (Some (idName (sniIdentity input))) (idEmail (sniIdentity input));
          replyTo = (case idReplyTo (sniIdentity input) of None \<Rightarrow> [] | Some r \<Rightarrow> r);
          toL = sniTo input; cc = sniCc input;
          bcc = mergeBcc (sniBcc input) (idBcc (sniIdentity input)) in
      throw_if (length toL + length cc + length bcc = 0)
        (TypeError (js ''SendIntent requires an effective recipient''))
     (bindE (mapE assertUsableOutboundAddress ([fromA] @ replyTo @ toL @ cc @ bcc)) (\<lambda>_.
      Inr \<lparr>siSecurityMode = sniSecurityMode input, siIdentityId = idId (sniIdentity input),
           siFrom = fromA, siReplyTo = replyTo, siTo = toL, siCc = cc, siBcc = bcc,
           siSubject = sniSubject input,
           siBody = \<lparr>sbText = sbText (sniBody input), sbHtml = sbHtml (sniBody input)\<rparr>\<rparr>)))"

section \<open>What the factory guarantees\<close>

lemma mergeBcc_loop_spec:
  assumes "set seen = adEmail ` set result" "distinct (map adEmail result)"
  shows "mergeBcc_loop xs result seen =
    result @ mergeBcc_loop (filter (\<lambda>x. adEmail x \<notin> set seen) xs) [] []"
  using assms
proof (induction xs arbitrary: result seen rule: length_induct)
  case (1 xs)
  show ?case
  proof (cases xs)
    case (Cons x ys)
    show ?thesis
    proof (cases "adEmail x \<in> set seen")
      case True
      with 1 Cons show ?thesis by simp
    next
      case False
      let ?ys = "filter (\<lambda>z. adEmail z \<notin> set (set_add (adEmail x) seen)) ys"
      have notin: "adEmail x \<notin> adEmail ` set result" using False "1.prems" by simp
      have "mergeBcc_loop ys (result @ [x]) (set_add (adEmail x) seen) =
          (result @ [x]) @ mergeBcc_loop ?ys [] []"
        using "1.IH" [rule_format, of ys "set_add (adEmail x) seen" "result @ [x]"] "1.prems" notin
        by (simp add: Cons)
      moreover have "mergeBcc_loop (filter (\<lambda>z. adEmail z \<notin> set seen) ys) [x] [adEmail x] =
          [x] @ mergeBcc_loop (filter (\<lambda>z. adEmail z \<notin> set [adEmail x])
                  (filter (\<lambda>z. adEmail z \<notin> set seen) ys)) [] []"
        by (rule "1.IH" [rule_format]) (simp_all add: Cons less_Suc_eq_le)
      moreover have "filter (\<lambda>z. adEmail z \<notin> set [adEmail x])
          (filter (\<lambda>z. adEmail z \<notin> set seen) ys) = ?ys"
        by (induction ys) auto
      ultimately show ?thesis using False by (simp add: Cons set_add_def)
    qed
  qed simp
qed

text \<open>The recursive form: keep the head, drop the later addresses with its e-mail.\<close>

lemma mergeBcc_loop_Cons:
  "mergeBcc_loop (x # xs) [] [] = x # mergeBcc_loop (filter (\<lambda>z. adEmail z \<noteq> adEmail x) xs) [] []"
  using mergeBcc_loop_spec [of "[adEmail x]" "[x]" xs] by (simp add: set_add_def)

lemma find_filtered_out:
  "find (\<lambda>y. adEmail y = k) (filter (\<lambda>y. adEmail y \<noteq> k) zs) = None"
  by (induction zs) auto

lemma mergeBcc_loop_find:
  "x \<in> set (mergeBcc_loop xs [] []) \<longleftrightarrow> find (\<lambda>y. adEmail y = adEmail x) xs = Some x"
proof (induction xs rule: length_induct)
  case (1 xs)
  show ?case
  proof (cases xs)
    case (Cons z zs)
    have keep: "find (\<lambda>y. adEmail y = adEmail x) (filter (\<lambda>y. adEmail y \<noteq> adEmail z) zs) =
        find (\<lambda>y. adEmail y = adEmail x) zs" if "adEmail z \<noteq> adEmail x"
      using that by (induction zs) auto
    have "x \<in> set (mergeBcc_loop (filter (\<lambda>y. adEmail y \<noteq> adEmail z) zs) [] []) \<longleftrightarrow>
        find (\<lambda>y. adEmail y = adEmail x) (filter (\<lambda>y. adEmail y \<noteq> adEmail z) zs) = Some x"
      using "1.IH" by (simp add: Cons less_Suc_eq_le)
    moreover have "find (\<lambda>y. adEmail y = adEmail x) (filter (\<lambda>y. adEmail y \<noteq> adEmail z) zs) \<noteq> Some x"
      if "adEmail z = adEmail x"
      using that by (simp add: find_filtered_out)
    ultimately show ?thesis
      unfolding Cons mergeBcc_loop_Cons using keep by auto
  qed simp
qed

lemma mergeBcc_loop_distinct: "distinct (map adEmail (mergeBcc_loop xs [] []))"
proof (induction xs rule: length_induct)
  case (1 xs)
  show ?case
  proof (cases xs)
    case (Cons z zs)
    have "adEmail z \<notin> adEmail ` set (mergeBcc_loop (filter (\<lambda>y. adEmail y \<noteq> adEmail z) zs) [] [])"
      by (auto simp: mergeBcc_loop_find find_filtered_out)
    with 1 show ?thesis by (simp add: Cons mergeBcc_loop_Cons less_Suc_eq_le del: mergeBcc_loop.simps(2))
  qed simp
qed

definition usable_address :: "EmailAddress \<Rightarrow> bool" where
  "usable_address a \<longleftrightarrow>
     (\<exists>l d. adEmail a = l @ 64 # d \<and> l \<noteq> [] \<and> d \<noteq> [] \<and> 64 \<notin> set l) \<and>
     set (adEmail a) \<inter> {0, 10, 13} = {} \<and>
     (\<forall>n. adName a = Some n \<longrightarrow> set n \<inter> {0, 10, 13} = {})"

lemma js_indexOf_split:
  "js_indexOf c xs = int n \<longleftrightarrow> (\<exists>l d. xs = l @ c # d \<and> length l = n \<and> c \<notin> set l)"
proof (induction xs arbitrary: n)
  case (Cons x xs)
  show ?case
  proof (cases "x = c")
    case True
    then show ?thesis by (auto simp: Cons_eq_append_conv)
  next
    case False
    have "js_indexOf c (x # xs) = int n \<longleftrightarrow> (\<exists>m. n = Suc m \<and> js_indexOf c xs = int m)"
      using False js_indexOf_range [of c xs] by (cases n) (auto simp: Let_def)
    also have "\<dots> \<longleftrightarrow> (\<exists>l d. xs = l @ c # d \<and> n = Suc (length l) \<and> c \<notin> set l)"
      by (auto simp: Cons.IH)
    also have "\<dots> \<longleftrightarrow> (\<exists>l d. x # xs = l @ c # d \<and> length l = n \<and> c \<notin> set l)"
      (is "?A \<longleftrightarrow> ?B")
    proof
      assume ?A
      then obtain l d where "xs = l @ c # d" "n = Suc (length l)" "c \<notin> set l" by blast
      with False show ?B by (intro exI [of _ "x # l"] exI [of _ d]) simp
    next
      assume ?B
      then obtain l d where "x # xs = l @ c # d" "length l = n" "c \<notin> set l" by blast
      with False show ?A by (cases l) auto
    qed
    finally show ?thesis .
  qed
qed simp

lemma at_sign_inside:
  "(\<not> js_indexOf c xs \<le> 0 \<and> js_indexOf c xs \<noteq> int (length xs) - 1) \<longleftrightarrow>
   (\<exists>l d. xs = l @ c # d \<and> l \<noteq> [] \<and> d \<noteq> [] \<and> c \<notin> set l)"
  (is "?L \<longleftrightarrow> ?R")
proof
  assume L: ?L
  then obtain n where n: "js_indexOf c xs = int n" by (metis nat_0_le not_le order.strict_implies_order)
  then obtain l d where "xs = l @ c # d" "length l = n" "c \<notin> set l"
    unfolding js_indexOf_split by blast
  with L n show ?R by (intro exI [of _ l] exI [of _ d]) auto
next
  assume ?R
  then obtain l d where ld: "xs = l @ c # d" "l \<noteq> []" "d \<noteq> []" "c \<notin> set l" by blast
  then have "js_indexOf c xs = int (length l)" unfolding js_indexOf_split by blast
  with ld show ?L by simp
qed

lemma assertUsableOutboundAddress_Inr [throws_simps]:
  "assertUsableOutboundAddress a = Inr u \<longleftrightarrow> usable_address a"
proof -
  have "assertUsableOutboundAddress a = Inr u \<longleftrightarrow>
      adEmail a \<noteq> [] \<and> \<not> containsUnsafeHeaderCharacter (adEmail a) \<and>
      (\<not> js_indexOf 64 (adEmail a) \<le> 0 \<and>
       js_indexOf 64 (adEmail a) \<noteq> int (length (adEmail a)) - 1) \<and>
      \<not> (case adName a of None \<Rightarrow> False | Some n \<Rightarrow> containsUnsafeHeaderCharacter n)"
    by (auto simp: assertUsableOutboundAddress_def Let_def)
  then show ?thesis
    unfolding at_sign_inside usable_address_def containsUnsafeHeaderCharacter_def
    by (auto split: option.splits)
qed

lemma mapE_unit_Inr: "mapE f xs = Inr us \<longleftrightarrow> (\<forall>x \<in> set xs. f x = Inr ()) \<and> us = map (\<lambda>_. ()) xs"
  for f :: "'a \<Rightarrow> 'e + unit"
  by (induction xs arbitrary: us) (auto simp: bindE_Inr_iff)

text \<open>The invariant of an intent that left the factory.\<close>

definition valid_intent :: "SendIntent \<Rightarrow> bool" where
  "valid_intent i \<longleftrightarrow>
     (\<forall>a \<in> set ([siFrom i] @ siReplyTo i @ siTo i @ siCc i @ siBcc i). usable_address a) \<and>
     siTo i @ siCc i @ siBcc i \<noteq> [] \<and> distinct (map adEmail (siBcc i)) \<and>
     adName (siFrom i) \<noteq> None \<and> \<not> js_startsWith (adEmail (siFrom i)) (js ''*@'')"

lemma sendIntent_valid: "sendIntent input = Inr i \<Longrightarrow> valid_intent i"
  by (auto simp: sendIntent_def Let_def bindE_Inr_iff mapE_unit_Inr assertUsableOutboundAddress_Inr
      valid_intent_def isWildcardIdentity_def emailAddress_def mergeBcc_def mergeBcc_loop_distinct)

end
