(* ===== verification/Domain_Mutation.thy ===== *)
theory Domain_Mutation
  imports Domain_Send
begin

text \<open>
  \<open>src/src/domain/pending-mutation.ts\<close>: durable mutations and their lifecycle. The three object
  types of the source share the fields of \<open>PendingMutation\<close>; their \<open>kind\<close> tag is the constructor
  of the payload. The lifecycle unions are one datatype whose two confirmed constructors are
  the two confirmed shapes. Attempt counts stay JavaScript numbers, so the safe-integer guards
  of the transitions are real checks.
\<close>

section \<open>Data\<close>

type_synonym MutationInstant = jsstring

record SendConfirmation =
  scEmailId :: ScopedEmailId

datatype MutationLifecycle =
    Pending number
  | InFlight number
  | Retrying number MutationInstant
  | ConfirmedUpdate number
  | ConfirmedSend number SendConfirmation
  | FailedTerminal number

fun attemptCount :: "MutationLifecycle \<Rightarrow> number" where
  "attemptCount (Pending n) = n"
| "attemptCount (InFlight n) = n"
| "attemptCount (Retrying n _) = n"
| "attemptCount (ConfirmedUpdate n) = n"
| "attemptCount (ConfirmedSend n _) = n"
| "attemptCount (FailedTerminal n) = n"

datatype MutationStatus = StPending | StInFlight | StRetrying | StConfirmed | StFailedTerminal

fun status :: "MutationLifecycle \<Rightarrow> MutationStatus" where
  "status (Pending _) = StPending"
| "status (InFlight _) = StInFlight"
| "status (Retrying _ _) = StRetrying"
| "status (ConfirmedUpdate _) = StConfirmed"
| "status (ConfirmedSend _ _) = StConfirmed"
| "status (FailedTerminal _) = StFailedTerminal"

record KeywordChange =
  kcAdd :: KeywordSet
  kcRemove :: KeywordSet

record MailboxMembershipChange =
  mcAdd :: "ScopedMailboxId list"
  mcRemove :: "ScopedMailboxId list"

datatype MutationPayload =
    PSend SendIntent
  | PKeyword ScopedEmailId KeywordChange
  | PMembership ScopedEmailId MailboxMembershipChange

record PendingMutation =
  pmMutationId :: MutationId
  pmAccountKey :: AccountKey
  pmCreatedAt :: MutationInstant
  pmPayload :: MutationPayload
  pmLifecycle :: MutationLifecycle

definition is_send :: "PendingMutation \<Rightarrow> bool" where
  "is_send m = (case pmPayload m of PSend _ \<Rightarrow> True | _ \<Rightarrow> False)"

section \<open>Factories\<close>

definition mutationInstantFromString :: "jsstring \<Rightarrow> MutationInstant throws" where
  "mutationInstantFromString value =
     throw_if (length value = 0) (TypeError (js ''MutationInstant must not be empty''))
       (Inr value)"

definition keywordChange :: "KeywordChange \<Rightarrow> KeywordChange throws" where
  "keywordChange input =
     bindE (keywordSet (kcAdd input)) (\<lambda>add.
     bindE (keywordSet (kcRemove input)) (\<lambda>remove.
     throw_if (length add = 0 \<and> length remove = 0)
       (TypeError (js ''KeywordChange must add or remove at least one keyword''))
     (throw_if (list_ex (\<lambda>keyword. List.member remove keyword) add)
       (TypeError (js ''KeywordChange cannot add and remove the same keyword''))
     (Inr \<lparr>kcAdd = add, kcRemove = remove\<rparr>))))"

definition containsMailboxId :: "ScopedMailboxId list \<Rightarrow> ScopedMailboxId \<Rightarrow> bool" where
  "containsMailboxId values candidate =
     list_ex (\<lambda>value. sameScopedMailboxId value candidate) values"

definition hasDuplicateMailboxId :: "ScopedMailboxId list \<Rightarrow> bool" where
  "hasDuplicateMailboxId values =
     list_ex (\<lambda>index. containsMailboxId (take index values) (values ! index))
       [0..<length values]"

definition mailboxMembershipChange ::
  "MailboxMembershipChange \<Rightarrow> MailboxMembershipChange throws" where
  "mailboxMembershipChange input =
     (let add = mcAdd input; remove = mcRemove input in
      throw_if (length add = 0 \<and> length remove = 0)
        (TypeError (js ''MailboxMembershipChange must add or remove at least one Mailbox''))
     (throw_if (hasDuplicateMailboxId add \<or> hasDuplicateMailboxId remove)
        (TypeError (js ''MailboxMembershipChange cannot contain duplicate Mailbox IDs''))
     (throw_if (list_ex (containsMailboxId remove) add)
        (TypeError (js ''MailboxMembershipChange cannot add and remove the same Mailbox''))
     (Inr \<lparr>mcAdd = add, mcRemove = remove\<rparr>))))"

definition pendingLifecycle :: MutationLifecycle where
  "pendingLifecycle = Pending (JInt 0)"

definition sendConfirmation :: "ScopedEmailId \<Rightarrow> SendConfirmation" where
  "sendConfirmation e = \<lparr>scEmailId = e\<rparr>"

definition sendMutation ::
  "MutationId \<Rightarrow> AccountKey \<Rightarrow> MutationInstant \<Rightarrow> SendIntent \<Rightarrow> PendingMutation throws" where
  "sendMutation mid ak createdAt intent =
     throw_if (accountKey (siIdentityId intent) \<noteq> ak)
       (TypeError (js ''SendMutation AccountKey must match its SendIntent Identity AccountKey''))
     (Inr \<lparr>pmMutationId = mid, pmAccountKey = ak, pmCreatedAt = createdAt,
           pmPayload = PSend intent, pmLifecycle = pendingLifecycle\<rparr>)"

definition keywordMutation ::
  "MutationId \<Rightarrow> AccountKey \<Rightarrow> MutationInstant \<Rightarrow> ScopedEmailId \<Rightarrow> KeywordChange \<Rightarrow>
   PendingMutation throws" where
  "keywordMutation mid ak createdAt e change =
     throw_if (accountKey e \<noteq> ak)
       (TypeError (js ''KeywordMutation AccountKey must match its Email AccountKey''))
     (bindE (keywordChange change) (\<lambda>c.
      Inr \<lparr>pmMutationId = mid, pmAccountKey = ak, pmCreatedAt = createdAt,
           pmPayload = PKeyword e c, pmLifecycle = pendingLifecycle\<rparr>))"

definition mailboxMembershipMutation ::
  "MutationId \<Rightarrow> AccountKey \<Rightarrow> MutationInstant \<Rightarrow> ScopedEmailId \<Rightarrow>
   MailboxMembershipChange \<Rightarrow> PendingMutation throws" where
  "mailboxMembershipMutation mid ak createdAt e change =
     throw_if (accountKey e \<noteq> ak)
       (TypeError (js ''MailboxMembershipMutation AccountKey must match its Email AccountKey''))
     (bindE (mailboxMembershipChange change) (\<lambda>c.
      throw_if (list_ex (\<lambda>m. accountKey m \<noteq> ak) (mcAdd c @ mcRemove c))
        (TypeError (js ''MailboxMembershipMutation Mailboxes must match its AccountKey''))
      (Inr \<lparr>pmMutationId = mid, pmAccountKey = ak, pmCreatedAt = createdAt,
            pmPayload = PMembership e c, pmLifecycle = pendingLifecycle\<rparr>)))"

definition samePendingMutationIdentity :: "PendingMutation \<Rightarrow> PendingMutation \<Rightarrow> bool" where
  "samePendingMutationIdentity left right \<longleftrightarrow>
     pmAccountKey left = pmAccountKey right \<and> pmMutationId left = pmMutationId right"

section \<open>Transitions\<close>

definition assertStartedAttemptCount :: "number \<Rightarrow> unit throws" where
  "assertStartedAttemptCount n =
     throw_if (\<not> isSafeInteger n \<or> num_less n (JInt 1))
       (TypeError (js ''Started mutation attemptCount must be a positive safe integer''))
       (Inr ())"

definition replaceLifecycle :: "PendingMutation \<Rightarrow> MutationLifecycle \<Rightarrow> PendingMutation" where
  "replaceLifecycle mutation lifecycle =
     \<lparr>pmMutationId = pmMutationId mutation, pmAccountKey = pmAccountKey mutation,
      pmCreatedAt = pmCreatedAt mutation, pmPayload = pmPayload mutation,
      pmLifecycle = lifecycle\<rparr>"

definition startMutationAttempt :: "PendingMutation \<Rightarrow> PendingMutation throws" where
  "startMutationAttempt mutation =
     (case pmLifecycle mutation of
        Pending n \<Rightarrow>
          throw_if (\<not> num_eq n (JInt 0))
            (TypeError (js ''Pending mutation attemptCount must be zero''))
          (Inr (replaceLifecycle mutation (InFlight (JInt 1))))
      | Retrying n _ \<Rightarrow>
          bindE (assertStartedAttemptCount n) (\<lambda>_.
          let nextAttemptCount = num_add n (JInt 1) in
          bindE (assertStartedAttemptCount nextAttemptCount) (\<lambda>_.
          Inr (replaceLifecycle mutation (InFlight nextAttemptCount))))
      | _ \<Rightarrow> Inl (TypeError (js ''Mutation attempt can start only from pending or retrying'')))"

definition scheduleMutationRetry ::
  "PendingMutation \<Rightarrow> MutationInstant \<Rightarrow> PendingMutation throws" where
  "scheduleMutationRetry mutation nextAttemptAt =
     throw_if (status (pmLifecycle mutation) \<noteq> StInFlight)
       (TypeError (js ''Mutation retry can be scheduled only from inFlight''))
     (bindE (assertStartedAttemptCount (attemptCount (pmLifecycle mutation))) (\<lambda>_.
      Inr (replaceLifecycle mutation
             (Retrying (attemptCount (pmLifecycle mutation)) nextAttemptAt))))"

definition confirmEmailUpdateMutation :: "PendingMutation \<Rightarrow> PendingMutation throws" where
  "confirmEmailUpdateMutation mutation =
     throw_if (status (pmLifecycle mutation) \<noteq> StInFlight)
       (TypeError (js ''Email update mutation can be confirmed only from inFlight''))
     (bindE (assertStartedAttemptCount (attemptCount (pmLifecycle mutation))) (\<lambda>_.
      Inr (replaceLifecycle mutation
             (ConfirmedUpdate (attemptCount (pmLifecycle mutation))))))"

definition confirmSendMutation ::
  "PendingMutation \<Rightarrow> SendConfirmation \<Rightarrow> PendingMutation throws" where
  "confirmSendMutation mutation confirmation =
     throw_if (status (pmLifecycle mutation) \<noteq> StInFlight)
       (TypeError (js ''SendMutation can be confirmed only from inFlight''))
     (bindE (assertStartedAttemptCount (attemptCount (pmLifecycle mutation))) (\<lambda>_.
      throw_if (accountKey (scEmailId confirmation) \<noteq> pmAccountKey mutation)
        (TypeError (js ''Send confirmation Email must match the SendMutation AccountKey''))
      (Inr (replaceLifecycle mutation
              (ConfirmedSend (attemptCount (pmLifecycle mutation))
                 (sendConfirmation (scEmailId confirmation)))))))"

definition failMutationTerminal :: "PendingMutation \<Rightarrow> PendingMutation throws" where
  "failMutationTerminal mutation =
     throw_if (status (pmLifecycle mutation) \<noteq> StInFlight)
       (TypeError (js ''Mutation can fail terminally only from inFlight''))
     (bindE (assertStartedAttemptCount (attemptCount (pmLifecycle mutation))) (\<lambda>_.
      Inr (replaceLifecycle mutation
             (FailedTerminal (attemptCount (pmLifecycle mutation))))))"

section \<open>When the factories and transitions return\<close>

lemma containsMailboxId_iff [simp]: "containsMailboxId vs (c :: ScopedMailboxId) \<longleftrightarrow> c \<in> set vs"
  by (auto simp: containsMailboxId_def list_ex_iff)

lemma hasDuplicateMailboxId_iff [simp]: "hasDuplicateMailboxId vs \<longleftrightarrow> \<not> distinct vs"
proof -
  have prefix: "vs ! i \<in> set (take i vs) \<longleftrightarrow> (\<exists>j < i. vs ! j = vs ! i)" if "i < length vs" for i
    using that by (auto simp: in_set_conv_nth)
  have "hasDuplicateMailboxId vs \<longleftrightarrow> (\<exists>i < length vs. vs ! i \<in> set (take i vs))"
    by (auto simp: hasDuplicateMailboxId_def list_ex_iff)
  also have "\<dots> \<longleftrightarrow> (\<exists>i < length vs. \<exists>j < i. vs ! j = vs ! i)"
    using prefix by blast
  also have "\<dots> \<longleftrightarrow> \<not> distinct vs"
  proof
    assume "\<exists>i < length vs. \<exists>j < i. vs ! j = vs ! i"
    then obtain i j where ij: "i < length vs" "j < i" "vs ! j = vs ! i" by blast
    then show "\<not> distinct vs"
      unfolding distinct_conv_nth by (intro notI) (auto dest!: spec [of _ i] spec [of _ j])
  next
    assume "\<not> distinct vs"
    then obtain i j where ij: "i < length vs" "j < length vs" "i \<noteq> j" "vs ! i = vs ! j"
      by (auto simp: distinct_conv_nth)
    show "\<exists>i < length vs. \<exists>j < i. vs ! j = vs ! i"
    proof (cases "i < j")
      case True
      then show ?thesis using ij by blast
    next
      case False
      then have "j < i" using ij by simp
      then show ?thesis using ij by (metis (no_types))
    qed
  qed
  finally show ?thesis .
qed

definition valid_keyword_change :: "KeywordChange \<Rightarrow> bool" where
  "valid_keyword_change c \<longleftrightarrow>
     distinct (kcAdd c) \<and> distinct (kcRemove c) \<and> [] \<notin> set (kcAdd c) \<union> set (kcRemove c) \<and>
     (kcAdd c \<noteq> [] \<or> kcRemove c \<noteq> []) \<and> set (kcAdd c) \<inter> set (kcRemove c) = {}"

definition valid_membership_change :: "AccountKey \<Rightarrow> MailboxMembershipChange \<Rightarrow> bool" where
  "valid_membership_change ak c \<longleftrightarrow>
     distinct (mcAdd c) \<and> distinct (mcRemove c) \<and> (mcAdd c \<noteq> [] \<or> mcRemove c \<noteq> []) \<and>
     set (mcAdd c) \<inter> set (mcRemove c) = {} \<and>
     (\<forall>m \<in> set (mcAdd c) \<union> set (mcRemove c). accountKey m = ak)"

lemma set_of_list_Nil_iff [simp]: "set_of_list xs = [] \<longleftrightarrow> xs = []"
  using set_set_of_list [of xs] by (metis set_empty)

lemma keywordChange_Inr:
  "keywordChange i = Inr c \<longleftrightarrow>
     [] \<notin> set (kcAdd i) \<union> set (kcRemove i) \<and> (kcAdd i \<noteq> [] \<or> kcRemove i \<noteq> []) \<and>
     set (kcAdd i) \<inter> set (kcRemove i) = {} \<and>
     c = \<lparr>kcAdd = set_of_list (kcAdd i), kcRemove = set_of_list (kcRemove i)\<rparr>"
  by (auto simp: keywordChange_def bindE_Inr_iff keywordSet_Inr list_ex_iff)

lemma keywordChange_valid: "keywordChange i = Inr c \<Longrightarrow> valid_keyword_change c"
  by (auto simp: keywordChange_Inr valid_keyword_change_def)

lemma keywordChange_valid_id: "valid_keyword_change c \<Longrightarrow> keywordChange c = Inr c"
  by (cases c) (auto simp: keywordChange_Inr valid_keyword_change_def)

lemma mailboxMembershipChange_Inr:
  "mailboxMembershipChange i = Inr c \<longleftrightarrow>
     distinct (mcAdd i) \<and> distinct (mcRemove i) \<and> (mcAdd i \<noteq> [] \<or> mcRemove i \<noteq> []) \<and>
     set (mcAdd i) \<inter> set (mcRemove i) = {} \<and> c = i"
  by (cases i) (auto simp: mailboxMembershipChange_def Let_def list_ex_iff)

lemma assertStartedAttemptCount_Inr [throws_simps]:
  "assertStartedAttemptCount n = Inr u \<longleftrightarrow> (\<exists>i. n = JInt i \<and> 1 \<le> i \<and> i \<le> 2 ^ 53 - 1)"
  by (cases n) (auto simp: assertStartedAttemptCount_def isSafeInteger_def)

lemma replaceLifecycle_eq [simp]: "replaceLifecycle m l = m\<lparr>pmLifecycle := l\<rparr>"
  by (simp add: replaceLifecycle_def)

text \<open>A started attempt: the attempt count is a positive safe integer.\<close>

definition started :: "number \<Rightarrow> bool" where
  "started n \<longleftrightarrow> (\<exists>i. n = JInt i \<and> 1 \<le> i \<and> i \<le> 2 ^ 53 - 1)"

lemma startMutationAttempt_Inr [throws_simps]:
  "startMutationAttempt m = Inr m' \<longleftrightarrow>
     pmLifecycle m = Pending (JInt 0) \<and> m' = m\<lparr>pmLifecycle := InFlight (JInt 1)\<rparr> \<or>
     (\<exists>i t. pmLifecycle m = Retrying (JInt i) t \<and> 1 \<le> i \<and> i < 2 ^ 53 - 1 \<and>
        m' = m\<lparr>pmLifecycle := InFlight (JInt (i + 1))\<rparr>)"
  by (cases "pmLifecycle m")
     (auto simp: startMutationAttempt_def Let_def bindE_Inr_iff assertStartedAttemptCount_Inr)

lemma settle_Inr [throws_simps]:
  "scheduleMutationRetry m t = Inr m' \<longleftrightarrow>
     (\<exists>n. pmLifecycle m = InFlight n \<and> started n \<and> m' = m\<lparr>pmLifecycle := Retrying n t\<rparr>)"
  "failMutationTerminal m = Inr m' \<longleftrightarrow>
     (\<exists>n. pmLifecycle m = InFlight n \<and> started n \<and> m' = m\<lparr>pmLifecycle := FailedTerminal n\<rparr>)"
  "confirmEmailUpdateMutation m = Inr m' \<longleftrightarrow>
     (\<exists>n. pmLifecycle m = InFlight n \<and> started n \<and> m' = m\<lparr>pmLifecycle := ConfirmedUpdate n\<rparr>)"
  "confirmSendMutation m c = Inr m' \<longleftrightarrow>
     (\<exists>n. pmLifecycle m = InFlight n \<and> started n \<and> accountKey (scEmailId c) = pmAccountKey m \<and>
        m' = m\<lparr>pmLifecycle := ConfirmedSend n c\<rparr>)"
  by (cases "pmLifecycle m";
      auto simp: scheduleMutationRetry_def failMutationTerminal_def confirmEmailUpdateMutation_def
        confirmSendMutation_def sendConfirmation_def bindE_Inr_iff assertStartedAttemptCount_Inr
        started_def)+

section \<open>The lifecycle as a state machine\<close>

text \<open>
  One rule per exported transition, with the static types of the source as premises: a
  confirmation with an e-mail exists for sends only.
\<close>

inductive lifecycle_step :: "PendingMutation \<Rightarrow> PendingMutation \<Rightarrow> bool" where
  step_start: "startMutationAttempt m = Inr m' \<Longrightarrow> lifecycle_step m m'"
| step_retry: "scheduleMutationRetry m t = Inr m' \<Longrightarrow> lifecycle_step m m'"
| step_fail: "failMutationTerminal m = Inr m' \<Longrightarrow> lifecycle_step m m'"
| step_confirm_update:
    "\<not> is_send m \<Longrightarrow> confirmEmailUpdateMutation m = Inr m' \<Longrightarrow> lifecycle_step m m'"
| step_confirm_send:
    "is_send m \<Longrightarrow> confirmSendMutation m c = Inr m' \<Longrightarrow> lifecycle_step m m'"

inductive created :: "PendingMutation \<Rightarrow> bool" where
  created_send: "sendMutation mid ak t i = Inr m \<Longrightarrow> created m"
| created_keyword: "keywordMutation mid ak t e c = Inr m \<Longrightarrow> created m"
| created_membership: "mailboxMembershipMutation mid ak t e mc = Inr m \<Longrightarrow> created m"

text \<open>\<open>lifecycle_run m k m'\<close>: a run from \<open>m\<close> to \<open>m'\<close> that starts \<open>k\<close> attempts.\<close>

inductive lifecycle_run :: "PendingMutation \<Rightarrow> nat \<Rightarrow> PendingMutation \<Rightarrow> bool" where
  run_refl: "lifecycle_run m 0 m"
| run_step: "lifecycle_run m k m' \<Longrightarrow> lifecycle_step m' m'' \<Longrightarrow>
    lifecycle_run m
      (if status (pmLifecycle m'') = StInFlight then Suc k else k) m''"

inductive_cases lifecycle_stepE: "lifecycle_step m m'"
inductive_simps created_simps: "created m"

text \<open>What is true of every mutation a run can reach.\<close>

fun lifecycle_wf :: "bool \<Rightarrow> AccountKey \<Rightarrow> MutationLifecycle \<Rightarrow> bool" where
  "lifecycle_wf isSend ak (Pending n) = (n = JInt 0)"
| "lifecycle_wf isSend ak (InFlight n) = started n"
| "lifecycle_wf isSend ak (Retrying n t) = started n"
| "lifecycle_wf isSend ak (ConfirmedUpdate n) = (\<not> isSend \<and> started n)"
| "lifecycle_wf isSend ak (ConfirmedSend n c) =
     (isSend \<and> started n \<and> accountKey (scEmailId c) = ak)"
| "lifecycle_wf isSend ak (FailedTerminal n) = started n"

definition wf_mutation :: "PendingMutation \<Rightarrow> bool" where
  "wf_mutation m \<longleftrightarrow>
     lifecycle_wf (is_send m) (pmAccountKey m) (pmLifecycle m) \<and>
     (case pmPayload m of
        PSend i \<Rightarrow> accountKey (siIdentityId i) = pmAccountKey m
      | PKeyword e c \<Rightarrow> accountKey e = pmAccountKey m \<and> valid_keyword_change c
      | PMembership e c \<Rightarrow>
          accountKey e = pmAccountKey m \<and> valid_membership_change (pmAccountKey m) c)"

definition immutable_part ::
  "PendingMutation \<Rightarrow> MutationId \<times> AccountKey \<times> MutationInstant \<times> MutationPayload" where
  "immutable_part m = (pmMutationId m, pmAccountKey m, pmCreatedAt m, pmPayload m)"

lemma immutable_part_eq:
  "immutable_part m = immutable_part m' \<longleftrightarrow> m' = m\<lparr>pmLifecycle := pmLifecycle m'\<rparr>"
  by (cases m; cases m') (auto simp: immutable_part_def)

lemma created_wf: "created m \<Longrightarrow> wf_mutation m \<and> pmLifecycle m = Pending (JInt 0)"
  by (induction rule: created.induct)
     (auto simp: sendMutation_def keywordMutation_def mailboxMembershipMutation_def bindE_Inr_iff
        pendingLifecycle_def wf_mutation_def is_send_def mailboxMembershipChange_Inr
        valid_membership_change_def list_ex_iff dest: keywordChange_valid)

lemma lifecycle_step_immutable: "lifecycle_step m m' \<Longrightarrow> immutable_part m' = immutable_part m"
  by (induction rule: lifecycle_step.induct)
     (auto simp: startMutationAttempt_Inr settle_Inr immutable_part_def)

lemma lifecycle_step_wf: "lifecycle_step m m' \<Longrightarrow> wf_mutation m \<Longrightarrow> wf_mutation m'"
  by (induction rule: lifecycle_step.induct)
     (auto simp: startMutationAttempt_Inr settle_Inr wf_mutation_def is_send_def started_def
       split: MutationPayload.splits)

lemma lifecycle_run_wf: "lifecycle_run m k m' \<Longrightarrow> wf_mutation m \<Longrightarrow> wf_mutation m'"
  by (induction rule: lifecycle_run.induct) (auto intro: lifecycle_step_wf)

lemma lifecycle_run_immutable: "lifecycle_run m k m' \<Longrightarrow> immutable_part m' = immutable_part m"
  by (induction rule: lifecycle_run.induct) (auto dest: lifecycle_step_immutable)

text \<open>The attempt count counts the attempts started.\<close>

lemma lifecycle_step_count:
  assumes "lifecycle_step m m'" "attemptCount (pmLifecycle m) = JInt (int k)"
  shows "attemptCount (pmLifecycle m') =
    JInt (int (if status (pmLifecycle m') = StInFlight then Suc k else k))"
  using assms
  by (induction rule: lifecycle_step.induct) (auto simp: startMutationAttempt_Inr settle_Inr)

lemma lifecycle_run_count:
  "lifecycle_run m k m' \<Longrightarrow> attemptCount (pmLifecycle m) = JInt 0 \<Longrightarrow>
   attemptCount (pmLifecycle m') = JInt (int k)"
  by (induction rule: lifecycle_run.induct) (simp_all add: lifecycle_step_count del: of_nat_Suc)

text \<open>Confirmed and failed mutations are final.\<close>

definition final :: "PendingMutation \<Rightarrow> bool" where
  "final m \<longleftrightarrow> status (pmLifecycle m) \<in> {StConfirmed, StFailedTerminal}"

lemma final_no_step: "final m \<Longrightarrow> \<not> lifecycle_step m m'"
  by (auto elim!: lifecycle_stepE simp: startMutationAttempt_Inr settle_Inr final_def)

end
