(* ===== verification/Ports.thy ===== *)
theory Ports
  imports Domain_View Domain_Mutation
begin

text \<open>
  The data of the port interfaces: \<open>src/src/ports/read-repository.ts\<close>, \<open>sync-port.ts\<close> and
  \<open>local-change-source.ts\<close>. Results, read outcomes, collection commits and change hints; the
  operations themselves are modelled with the adapters that implement them and with the
  clients that call them.
\<close>

section \<open>Reads\<close>

datatype LocalReadError = RdUnavailable | RdCorruptState | RdUnexpected

definition read_error_string :: "LocalReadError \<Rightarrow> jsstring" where
  "read_error_string e =
     (case e of RdUnavailable \<Rightarrow> js ''unavailable'' | RdCorruptState \<Rightarrow> js ''corruptState''
      | RdUnexpected \<Rightarrow> js ''unexpected'')"

type_synonym 'a ReadResult = "('a, LocalReadError) PortResult"

datatype 'a LocalEntityRead = EntityAbsent | EntityPresent 'a

datatype 'a OwnedSnapshotRead = SnapshotOwnerAbsent | SnapshotPresent 'a

datatype 'a OwnedOptionalRead = OptionalOwnerAbsent | OptionalAbsent | OptionalPresent 'a

datatype 'a OwnedCacheRead = CacheOwnerAbsent | CacheNotCached | CacheCached 'a

section \<open>Writes\<close>

datatype LocalWriteError = WrUnavailable | WrCorruptState | WrConflict | WrUnexpected

type_synonym WriteResult = "(unit, LocalWriteError) PortResult"

datatype CollectionCursorPrecondition = CursorAbsent | CursorMatches CollectionSyncCursor

record EmailSyncRecord =
  srEmail :: Email
  srMemberships :: "EmailMailbox list"

definition write_error_string :: "LocalWriteError \<Rightarrow> jsstring" where
  "write_error_string e =
     (case e of WrUnavailable \<Rightarrow> js ''unavailable'' | WrCorruptState \<Rightarrow> js ''corruptState''
      | WrConflict \<Rightarrow> js ''conflict'' | WrUnexpected \<Rightarrow> js ''unexpected'')"

text \<open>
  The six commit types: a data type with its next cursor, and a mode. A delta carries the
  cursor it expects, because its precondition is statically a \<open>matches\<close> one.
\<close>

datatype ('r, 'i) CollectionMode =
    Delta CollectionSyncCursor "'r list" "'i list"
  | Replace CollectionCursorPrecondition "'r list"

fun expectedCursor :: "('r, 'i) CollectionMode \<Rightarrow> CollectionCursorPrecondition" where
  "expectedCursor (Delta c _ _) = CursorMatches c"
| "expectedCursor (Replace p _) = p"

fun commit_records :: "('r, 'i) CollectionMode \<Rightarrow> 'r list" where
  "commit_records (Delta _ changed _) = changed"
| "commit_records (Replace _ snapshot) = snapshot"

datatype CollectionSyncCommit =
    EmailCommit CollectionSyncCursor "(EmailSyncRecord, ScopedEmailId) CollectionMode"
  | MailboxCommit CollectionSyncCursor "(Mailbox, ScopedMailboxId) CollectionMode"
  | IdentityCommit CollectionSyncCursor "(Identity, ScopedIdentityId) CollectionMode"

fun nextCursor_of :: "CollectionSyncCommit \<Rightarrow> CollectionSyncCursor" where
  "nextCursor_of (EmailCommit c _) = c"
| "nextCursor_of (MailboxCommit c _) = c"
| "nextCursor_of (IdentityCommit c _) = c"

fun expectedCursor_of :: "CollectionSyncCommit \<Rightarrow> CollectionCursorPrecondition" where
  "expectedCursor_of (EmailCommit _ m) = expectedCursor m"
| "expectedCursor_of (MailboxCommit _ m) = expectedCursor m"
| "expectedCursor_of (IdentityCommit _ m) = expectedCursor m"

fun kind_of :: "CollectionSyncCommit \<Rightarrow> CollectionDataType" where
  "kind_of (EmailCommit _ _) = DEmail"
| "kind_of (MailboxCommit _ _) = DMailbox"
| "kind_of (IdentityCommit _ _) = DIdentity"

section \<open>Change hints\<close>

datatype LocalChangeHint =
    HAccounts
  | HMailboxes AccountKey
  | HIdentities AccountKey
  | HEmails AccountKey
  | HEmailMemberships AccountKey
  | HEmailBody ScopedEmailId
  | HAttachmentRefs ScopedEmailId
  | HMailboxView MailboxViewSpec
  | HSyncCursor AccountKey CollectionDataType
  | HPendingMutations AccountKey

end
