(* ===== verification/Memory_Keys.thy ===== *)
theory Memory_Keys
  imports Ports
begin

text \<open>
  The compound keys of \<open>src/src/adapters/memory/memory-state.ts\<close> and the duplicate check of
  \<open>memory-sync-port.ts\<close> that uses them. A compound key writes each part behind its length and
  a colon; the lemmas show that it determines its parts, even when more text follows. The
  locale states what the store relies on of a key function, and is interpreted on each of
  them.
\<close>

section \<open>Keys\<close>

definition compoundKey :: "jsstring list \<Rightarrow> jsstring" where
  "compoundKey parts = concat (map (\<lambda>part. js_of_nat (length part) @ [58] @ part) parts)"

definition mailboxKey :: "ScopedMailboxId \<Rightarrow> jsstring" where
  "mailboxKey i = compoundKey [accountKey i, jmapId i]"

definition emailKey :: "ScopedEmailId \<Rightarrow> jsstring" where
  "emailKey i = compoundKey [accountKey i, jmapId i]"

definition identityKey :: "ScopedIdentityId \<Rightarrow> jsstring" where
  "identityKey i = compoundKey [accountKey i, jmapId i]"

fun filterKind_string :: "MailboxViewFilterSpec \<Rightarrow> jsstring" where
  "filterKind_string FilterAll = js ''all''"

fun sortProperty_string :: "SortProperty \<Rightarrow> jsstring" where
  "sortProperty_string SortReceivedAt = js ''receivedAt''"

fun sortDirection_string :: "SortDirection \<Rightarrow> jsstring" where
  "sortDirection_string Ascending = js ''ascending''"
| "sortDirection_string Descending = js ''descending''"

fun dataType_string :: "CollectionDataType \<Rightarrow> jsstring" where
  "dataType_string DEmail = js ''email''"
| "dataType_string DMailbox = js ''mailbox''"
| "dataType_string DIdentity = js ''identity''"

definition viewKey :: "MailboxViewSpec \<Rightarrow> jsstring" where
  "viewKey spec =
     compoundKey
       [accountKey (vsMailboxId spec), jmapId (vsMailboxId spec),
        filterKind_string (vsFilter spec), sortProperty_string (soProperty (vsSort spec)),
        sortDirection_string (soDirection (vsSort spec))]"

definition cursorKey :: "AccountKey \<Rightarrow> CollectionDataType \<Rightarrow> jsstring" where
  "cursorKey ak dataType = compoundKey [ak, dataType_string dataType]"

definition mutationKey :: "AccountKey \<Rightarrow> MutationId \<Rightarrow> jsstring" where
  "mutationKey ak mid = compoundKey [ak, mid]"

fun hasDuplicates_loop :: "'a list \<Rightarrow> ('a \<Rightarrow> jsstring) \<Rightarrow> jsstring list \<Rightarrow> bool" where
  "hasDuplicates_loop [] key seen = False"
| "hasDuplicates_loop (value # values) key seen =
     (let current = key value in
      if List.member seen current then True
      else hasDuplicates_loop values key (set_add current seen))"

definition hasDuplicates :: "'a list \<Rightarrow> ('a \<Rightarrow> jsstring) \<Rightarrow> bool" where
  "hasDuplicates values key = hasDuplicates_loop values key []"

section \<open>Unique decoding\<close>

lemma compoundKey_Cons:
  "compoundKey (p # ps) @ r = js_of_nat (length p) @ 58 # p @ compoundKey ps @ r"
  by (simp add: compoundKey_def)

lemma compoundKey_Nil [simp]: "compoundKey [] = []"
  by (simp add: compoundKey_def)

lemma compoundKey_append_inject:
  "length ps = length qs \<Longrightarrow>
   compoundKey ps @ r = compoundKey qs @ s \<longleftrightarrow> ps = qs \<and> r = s"
proof (induction ps qs rule: list_induct2)
  case Nil
  then show ?case by simp
next
  case (Cons p ps q qs)
  have "compoundKey (p # ps) @ r = compoundKey (q # qs) @ s \<longleftrightarrow>
      length p = length q \<and> p @ compoundKey ps @ r = q @ compoundKey qs @ s"
    unfolding compoundKey_Cons
    by (subst append_separator_inject) (simp_all add: js_of_nat_no_colon)
  also have "\<dots> \<longleftrightarrow> p = q \<and> compoundKey ps @ r = compoundKey qs @ s"
    by auto
  finally show ?case using Cons.IH by simp
qed

lemma compoundKey_not_Nil: "compoundKey (p # ps) \<noteq> []"
  by (simp add: compoundKey_def)

lemma compoundKey_inject_all: "compoundKey ps = compoundKey qs \<Longrightarrow> ps = qs"
proof (induction ps arbitrary: qs)
  case Nil
  then show ?case by (cases qs) (auto simp: compoundKey_not_Nil dest: sym)
next
  case (Cons p ps)
  then obtain q qs' where qs: "qs = q # qs'" using compoundKey_not_Nil [of p ps] by (cases qs) auto
  from Cons.prems have "js_of_nat (length p) @ 58 # p @ compoundKey ps =
      js_of_nat (length q) @ 58 # q @ compoundKey qs'"
    using compoundKey_Cons [of p ps "[]"] compoundKey_Cons [of q qs' "[]"] qs by simp
  then have "length p = length q" "p @ compoundKey ps = q @ compoundKey qs'"
    by (simp_all add: append_separator_inject js_of_nat_no_colon)
  then show ?case using Cons.IH qs by simp
qed

lemma compoundKey_eq_iff [simp]: "compoundKey ps = compoundKey qs \<longleftrightarrow> ps = qs"
  using compoundKey_inject_all by blast

lemma tag_strings_inject [simp]:
  "sortDirection_string x = sortDirection_string y \<longleftrightarrow> x = y"
  "dataType_string d = dataType_string d' \<longleftrightarrow> d = d'"
  by (cases x; cases y; simp add: js_def) (cases d; cases d'; simp add: js_def)

lemma single_tag [simp]: "(f :: MailboxViewFilterSpec) = g" "(p :: SortProperty) = q"
  by (cases f; cases g; simp) (cases p; cases q; simp)

section \<open>What the store relies on\<close>

lemma hasDuplicates_loop_iff:
  "hasDuplicates_loop xs key seen \<longleftrightarrow>
     \<not> (distinct (map key xs) \<and> set (map key xs) \<inter> set seen = {})"
  by (induction xs arbitrary: seen) (auto simp: Let_def)

lemma hasDuplicates_iff: "hasDuplicates xs key \<longleftrightarrow> \<not> distinct (map key xs)"
  by (simp add: hasDuplicates_def hasDuplicates_loop_iff)

locale store_key =
  fixes key :: "'i \<Rightarrow> jsstring"
  assumes key_inject: "key x = key y \<Longrightarrow> x = y"
begin

lemma key_eq_iff: "key x = key y \<longleftrightarrow> x = y"
  using key_inject by blast

lemma get_after_set:
  "map_of (AList.update (key x) v m) (key y) = (if x = y then Some v else map_of m (key y))"
  by (simp add: key_eq_iff)

lemma get_after_del:
  "map_of (AList.delete (key x) m) (key y) = (if x = y then None else map_of m (key y))"
  by (simp add: key_eq_iff)

lemma hasDuplicates_key: "hasDuplicates xs (\<lambda>x. key (f x)) \<longleftrightarrow> \<not> distinct (map f xs)"
proof -
  have "distinct (map (\<lambda>x. key (f x)) xs) = distinct (map f xs)"
    by (auto simp: distinct_map inj_on_def key_eq_iff)
  then show ?thesis by (simp add: hasDuplicates_iff)
qed

lemma hasDuplicates_ids: "hasDuplicates xs key \<longleftrightarrow> \<not> distinct xs"
  using hasDuplicates_key [of xs "\<lambda>x. x"] by simp

end

interpretation mailbox_keys: store_key mailboxKey
  by unfold_locales (simp add: mailboxKey_def)

interpretation email_keys: store_key emailKey
  by unfold_locales (simp add: emailKey_def)

interpretation identity_keys: store_key identityKey
  by unfold_locales (simp add: identityKey_def)

lemma MailboxViewSpec_eqI:
  "vsMailboxId s = vsMailboxId t \<Longrightarrow> soDirection (vsSort s) = soDirection (vsSort t) \<Longrightarrow>
   s = (t :: MailboxViewSpec)"
  by (cases s; cases t; cases "vsSort s"; cases "vsSort t") auto

interpretation view_keys: store_key viewKey
  by unfold_locales (auto simp: viewKey_def intro!: MailboxViewSpec_eqI)

interpretation cursor_keys: store_key "\<lambda>(a, d). cursorKey a d"
  by unfold_locales (auto simp: cursorKey_def)

interpretation mutation_keys: store_key "\<lambda>(a, m). mutationKey a m"
  by unfold_locales (auto simp: mutationKey_def)

text \<open>The keys of a membership and of an attachment: an e-mail key, a bar, a second part.\<close>

lemma emailKey_bar_inject:
  "emailKey e @ 124 # r = emailKey f @ 124 # s \<longleftrightarrow> e = f \<and> r = s"
  unfolding emailKey_def by (subst compoundKey_append_inject) auto

definition membershipKey :: "EmailMailbox \<Rightarrow> jsstring" where
  "membershipKey e = emailKey (mmEmailId e) @ [124] @ mailboxKey (mmMailboxId e)"

definition attachmentKey :: "ScopedEmailId \<times> jsstring \<Rightarrow> jsstring" where
  "attachmentKey p = emailKey (fst p) @ [124] @ snd p"

interpretation membership_keys: store_key membershipKey
proof unfold_locales
  fix x y :: EmailMailbox
  assume "membershipKey x = membershipKey y"
  then show "x = y"
    by (cases x; cases y) (simp add: membershipKey_def emailKey_bar_inject mailbox_keys.key_eq_iff)
qed

interpretation attachment_keys: store_key attachmentKey
  by unfold_locales (auto simp: attachmentKey_def emailKey_bar_inject prod_eq_iff)

end
