(* ===== verification/Memory_State.thy ===== *)
theory Memory_State
  imports Memory_Keys
begin

text \<open>
  The rest of \<open>src/src/adapters/memory/memory-state.ts\<close> (the state record and the clone
  functions), \<open>memory-local-change-source.ts\<close> (the hub) and \<open>memory-local-engine.ts\<close> (the
  engine that joins them), with the invariant of the state and the lemmas that a clone of a
  valid value is the value.
\<close>

section \<open>State\<close>

record MemoryState =
  msAccounts :: "(AccountKey \<times> Account) list"
  msMailboxes :: "(jsstring \<times> Mailbox) list"
  msIdentities :: "(jsstring \<times> Identity) list"
  msEmails :: "(jsstring \<times> Email) list"
  msMemberships :: "(jsstring \<times> EmailMailbox list) list"
  msBodies :: "(jsstring \<times> EmailBody) list"
  msAttachments :: "(jsstring \<times> AttachmentRef list) list"
  msViews :: "(jsstring \<times> MailboxView) list"
  msCursors :: "(jsstring \<times> CollectionSyncCursor) list"
  msMutations :: "(jsstring \<times> PendingMutation) list"

definition newMemoryState :: MemoryState where
  "newMemoryState =
     \<lparr>msAccounts = [], msMailboxes = [], msIdentities = [], msEmails = [], msMemberships = [],
      msBodies = [], msAttachments = [], msViews = [], msCursors = [], msMutations = []\<rparr>"

definition cloneAccount :: "Account \<Rightarrow> Account" where
  "cloneAccount value =
     account (acKey value)
       (remoteAccountRef (rrServiceKey (acRemoteRef value)) (rrJmapAccountId (acRemoteRef value)))"

definition cloneMailbox :: "Mailbox \<Rightarrow> Mailbox throws" where
  "cloneMailbox value = mailbox value"

definition cloneIdentity :: "Identity \<Rightarrow> Identity throws" where
  "cloneIdentity value = identity value"

definition cloneEmail :: "Email \<Rightarrow> Email throws" where
  "cloneEmail value = email value"

definition cloneMembership :: "EmailMailbox \<Rightarrow> EmailMailbox throws" where
  "cloneMembership value = emailMailbox (mmEmailId value) (mmMailboxId value)"

definition cloneBody :: "EmailBody \<Rightarrow> EmailBody" where
  "cloneBody value = emailBody value"

definition cloneAttachment :: "AttachmentRef \<Rightarrow> AttachmentRef throws" where
  "cloneAttachment value = attachmentRef value"

definition cloneView :: "MailboxView \<Rightarrow> MailboxView throws" where
  "cloneView value = mailboxView value"

definition cloneCursor :: "CollectionSyncCursor \<Rightarrow> CollectionSyncCursor" where
  "cloneCursor value = collectionSyncCursor value"

definition copyAddress :: "EmailAddress \<Rightarrow> EmailAddress" where
  "copyAddress entry = \<lparr>adName = adName entry, adEmail = adEmail entry\<rparr>"

definition cloneSendIntent :: "SendIntent \<Rightarrow> SendIntent" where
  "cloneSendIntent value =
     \<lparr>siSecurityMode = siSecurityMode value, siIdentityId = siIdentityId value,
      siFrom = copyAddress (siFrom value), siReplyTo = map copyAddress (siReplyTo value),
      siTo = map copyAddress (siTo value), siCc = map copyAddress (siCc value),
      siBcc = map copyAddress (siBcc value), siSubject = siSubject value,
      siBody = \<lparr>sbText = sbText (siBody value), sbHtml = sbHtml (siBody value)\<rparr>\<rparr>"

fun cloneSendLifecycle :: "MutationLifecycle \<Rightarrow> MutationLifecycle" where
  "cloneSendLifecycle (ConfirmedSend n c) = ConfirmedSend n \<lparr>scEmailId = scEmailId c\<rparr>"
| "cloneSendLifecycle value = value"

definition cloneUpdateLifecycle :: "MutationLifecycle \<Rightarrow> MutationLifecycle" where
  "cloneUpdateLifecycle value = value"

definition cloneMutation :: "PendingMutation \<Rightarrow> PendingMutation" where
  "cloneMutation value =
     (case pmPayload value of
        PSend intent \<Rightarrow>
          \<lparr>pmMutationId = pmMutationId value, pmAccountKey = pmAccountKey value,
           pmCreatedAt = pmCreatedAt value, pmPayload = PSend (cloneSendIntent intent),
           pmLifecycle = cloneSendLifecycle (pmLifecycle value)\<rparr>
      | PKeyword e change \<Rightarrow>
          \<lparr>pmMutationId = pmMutationId value, pmAccountKey = pmAccountKey value,
           pmCreatedAt = pmCreatedAt value,
           pmPayload = PKeyword e \<lparr>kcAdd = set_of_list (kcAdd change),
                                   kcRemove = set_of_list (kcRemove change)\<rparr>,
           pmLifecycle = cloneUpdateLifecycle (pmLifecycle value)\<rparr>
      | PMembership e change \<Rightarrow>
          \<lparr>pmMutationId = pmMutationId value, pmAccountKey = pmAccountKey value,
           pmCreatedAt = pmCreatedAt value,
           pmPayload = PMembership e \<lparr>mcAdd = mcAdd change, mcRemove = mcRemove change\<rparr>,
           pmLifecycle = cloneUpdateLifecycle (pmLifecycle value)\<rparr>)"

text \<open>
  A mutation as the types of the source allow it: its keyword changes are sets, and a
  confirmation with an e-mail occurs in sends only.
\<close>

definition typed_mutation :: "PendingMutation \<Rightarrow> bool" where
  "typed_mutation m \<longleftrightarrow>
     (case pmPayload m of PKeyword e c \<Rightarrow> distinct (kcAdd c) \<and> distinct (kcRemove c) | _ \<Rightarrow> True)"

lemma cloneAccount_id [simp]: "cloneAccount (a :: Account) = a"
  by (cases a; cases "acRemoteRef a") (simp add: cloneAccount_def account_def remoteAccountRef_def)

lemma cloneBody_id [simp]: "cloneBody (b :: EmailBody) = b"
  by (simp add: cloneBody_def)

lemma cloneCursor_id [simp]: "cloneCursor (c :: CollectionSyncCursor) = c"
  by (simp add: cloneCursor_def)

lemma copyAddress_id [simp]: "copyAddress (a :: EmailAddress) = a"
  by (simp add: copyAddress_def)

lemma map_copyAddress [simp]: "map copyAddress (xs :: EmailAddress list) = xs"
  by (induction xs) auto

lemma cloneSendIntent_id [simp]: "cloneSendIntent (i :: SendIntent) = i"
  by (cases i) (simp add: cloneSendIntent_def)

lemma cloneSendLifecycle_id [simp]: "cloneSendLifecycle l = l"
  by (cases l) auto

lemma cloneMutation_id [simp]: "typed_mutation m \<Longrightarrow> cloneMutation m = m"
  by (cases m) (auto simp: cloneMutation_def cloneUpdateLifecycle_def typed_mutation_def
      split: MutationPayload.splits)

lemma cloneMutation_keeps [simp]:
  "pmAccountKey (cloneMutation m) = pmAccountKey m"
  "pmMutationId (cloneMutation m) = pmMutationId m"
  "pmLifecycle (cloneMutation m) = pmLifecycle m"
  "typed_mutation (cloneMutation m)"
  by (auto simp: cloneMutation_def cloneUpdateLifecycle_def typed_mutation_def
      split: MutationPayload.splits)

section \<open>Change hub and engine\<close>

text \<open>
  A listener is the handle of a callback; the hub records which listener was called with which
  batch. What a callback does, exceptions included, cannot reach the hub or the other
  listeners (the source catches around each call), so the record is all there is of it.
\<close>

type_synonym Listener = nat

record MemoryChangeHub =
  hbListeners :: "(nat \<times> Listener) list"
  hbNextListenerId :: nat
  hbCalls :: "(Listener \<times> LocalChangeHint list) list"

record Subscription =
  suListenerId :: nat
  suActive :: bool

definition newMemoryChangeHub :: MemoryChangeHub where
  "newMemoryChangeHub = \<lparr>hbListeners = [], hbNextListenerId = 0, hbCalls = []\<rparr>"

definition hub_subscribe :: "Listener \<Rightarrow> MemoryChangeHub \<Rightarrow> nat \<times> MemoryChangeHub" where
  "hub_subscribe listener hub =
     (let i = hbNextListenerId hub in
      (i, hub\<lparr>hbNextListenerId := i + 1,
              hbListeners := AList.update i listener (hbListeners hub)\<rparr>))"

definition hub_unsubscribe :: "nat \<Rightarrow> MemoryChangeHub \<Rightarrow> MemoryChangeHub" where
  "hub_unsubscribe i hub = hub\<lparr>hbListeners := AList.delete i (hbListeners hub)\<rparr>"

definition hub_publish :: "LocalChangeHint list \<Rightarrow> MemoryChangeHub \<Rightarrow> MemoryChangeHub" where
  "hub_publish hints hub =
     hub\<lparr>hbCalls := hbCalls hub @ map (\<lambda>l. (l, hints)) (map_values (hbListeners hub))\<rparr>"

definition hub_clear :: "MemoryChangeHub \<Rightarrow> MemoryChangeHub" where
  "hub_clear hub = hub\<lparr>hbListeners := []\<rparr>"

definition source_subscribe ::
  "Listener \<Rightarrow> MemoryChangeHub \<Rightarrow> Subscription \<times> MemoryChangeHub" where
  "source_subscribe listener hub =
     (let (i, hub') = hub_subscribe listener hub
      in (\<lparr>suListenerId = i, suActive = True\<rparr>, hub'))"

definition source_unsubscribe ::
  "Subscription \<Rightarrow> MemoryChangeHub \<Rightarrow> Subscription \<times> MemoryChangeHub" where
  "source_unsubscribe sub hub =
     (if suActive sub
      then (sub\<lparr>suActive := False\<rparr>, hub_unsubscribe (suListenerId sub) hub)
      else (sub, hub))"

record MemoryEngine =
  meState :: MemoryState
  meHub :: MemoryChangeHub

definition createMemoryLocalEngine :: MemoryEngine where
  "createMemoryLocalEngine = \<lparr>meState = newMemoryState, meHub = newMemoryChangeHub\<rparr>"

definition engine_dispose :: "MemoryEngine \<Rightarrow> MemoryEngine" where
  "engine_dispose eng = eng\<lparr>meHub := hub_clear (meHub eng)\<rparr>"

definition hub_ok :: "MemoryChangeHub \<Rightarrow> bool" where
  "hub_ok hub \<longleftrightarrow>
     map_ok (hbListeners hub) \<and> (\<forall>i \<in> fst ` set (hbListeners hub). i < hbNextListenerId hub)"

lemma hub_ok_new: "hub_ok newMemoryChangeHub"
  by (simp add: hub_ok_def newMemoryChangeHub_def)

lemma hub_ok_subscribe: "hub_ok hub \<Longrightarrow> hub_ok (snd (hub_subscribe l hub))"
  by (auto simp: hub_ok_def hub_subscribe_def Let_def AList.dom_update)

lemma hub_ok_unsubscribe: "hub_ok hub \<Longrightarrow> hub_ok (hub_unsubscribe i hub)"
  by (auto simp: hub_ok_def hub_unsubscribe_def AList.delete_eq)

lemma hub_ok_publish: "hub_ok hub \<Longrightarrow> hub_ok (hub_publish hints hub)"
  by (simp add: hub_ok_def hub_publish_def)

lemma hub_subscribe_fresh:
  "hub_ok hub \<Longrightarrow> fst (hub_subscribe l hub) \<notin> fst ` set (hbListeners hub)"
  by (auto simp: hub_ok_def hub_subscribe_def Let_def)

section \<open>Invariant of the state\<close>

definition entries :: "(jsstring \<times> 'v) list \<Rightarrow> (jsstring \<Rightarrow> 'v \<Rightarrow> bool) \<Rightarrow> bool" where
  "entries m P \<longleftrightarrow> map_ok m \<and> (\<forall>k v. map_of m k = Some v \<longrightarrow> P k v)"

lemma entriesD: "entries m P \<Longrightarrow> map_of m k = Some v \<Longrightarrow> P k v"
  by (simp add: entries_def)

lemma entries_Nil [simp]: "entries [] P"
  by (simp add: entries_def)

lemma entries_set [intro]: "entries m P \<Longrightarrow> P k v \<Longrightarrow> entries (AList.update k v m) P"
  by (auto simp: entries_def)

lemma entries_del [intro]: "entries m P \<Longrightarrow> entries (AList.delete k m) P"
  by (auto simp: entries_def)

lemma entries_filter [intro]: "entries m P \<Longrightarrow> entries (filter (\<lambda>(k, v). Q k v) m) P"
  by (auto simp: entries_def map_of_filter_ok split: option.splits if_splits)

lemma entries_mono: "entries m P \<Longrightarrow> (\<And>k v. P k v \<Longrightarrow> Q k v) \<Longrightarrow> entries m Q"
  by (simp add: entries_def)

lemma entries_values: "entries m P \<Longrightarrow> v \<in> set (map_values m) \<Longrightarrow> \<exists>k. map_of m k = Some v \<and> P k v"
  by (auto simp: entries_def map_values_set)

text \<open>Every value sits under its own key, is valid, and belongs to a registered account.\<close>

definition registered :: "MemoryState \<Rightarrow> AccountKey \<Rightarrow> bool" where
  "registered s ak \<longleftrightarrow> map_of (msAccounts s) ak \<noteq> None"

definition valid_memberships :: "ScopedEmailId \<Rightarrow> EmailMailbox list \<Rightarrow> bool" where
  "valid_memberships e ms \<longleftrightarrow>
     (\<forall>m \<in> set ms. mmEmailId m = e \<and> accountKey (mmMailboxId m) = accountKey e) \<and> distinct ms"

definition valid_refs :: "ScopedEmailId \<Rightarrow> AttachmentRef list \<Rightarrow> bool" where
  "valid_refs e refs \<longleftrightarrow>
     (\<forall>r \<in> set refs. valid_attachment r \<and> atEmailId r = e) \<and> distinct (map atPartId refs)"

definition state_inv :: "MemoryState \<Rightarrow> bool" where
  "state_inv s \<longleftrightarrow>
     entries (msAccounts s) (\<lambda>k v. k = acKey v) \<and>
     entries (msMailboxes s)
       (\<lambda>k v. k = mailboxKey (mbId v) \<and> valid_mailbox v \<and> registered s (accountKey (mbId v))) \<and>
     entries (msIdentities s)
       (\<lambda>k v. k = identityKey (idId v) \<and> idEmail v \<noteq> [] \<and> registered s (accountKey (idId v))) \<and>
     entries (msEmails s)
       (\<lambda>k v. k = emailKey (emId v) \<and> valid_email v \<and> registered s (accountKey (emId v))) \<and>
     entries (msMemberships s) (\<lambda>k v. \<exists>e. k = emailKey e \<and> valid_memberships e v) \<and>
     (\<forall>k. (map_of (msMemberships s) k = None) = (map_of (msEmails s) k = None)) \<and>
     entries (msBodies s) (\<lambda>k v. k = emailKey (boEmailId v)) \<and>
     entries (msAttachments s) (\<lambda>k v. \<exists>e. k = emailKey e \<and> valid_refs e v) \<and>
     entries (msViews s) (\<lambda>k v. k = viewKey (mvSpec v) \<and> valid_view v) \<and>
     entries (msCursors s)
       (\<lambda>k v. k = cursorKey (cuAccountKey v) (cuDataType v) \<and> registered s (cuAccountKey v)) \<and>
     entries (msMutations s)
       (\<lambda>k v. k = mutationKey (pmAccountKey v) (pmMutationId v) \<and> typed_mutation v \<and>
              registered s (pmAccountKey v))"

lemma state_inv_new: "state_inv newMemoryState"
  by (simp add: state_inv_def newMemoryState_def)

lemma clone_valid [simp]:
  "valid_mailbox m \<Longrightarrow> cloneMailbox m = Inr m"
  "idEmail i \<noteq> [] \<Longrightarrow> cloneIdentity i = Inr i"
  "valid_email e \<Longrightarrow> cloneEmail e = Inr e"
  "valid_attachment a \<Longrightarrow> cloneAttachment a = Inr a"
  "valid_view v \<Longrightarrow> cloneView v = Inr v"
  "accountKey (mmMailboxId mm) = accountKey (mmEmailId mm) \<Longrightarrow> cloneMembership mm = Inr mm"
  by (simp_all add: cloneMailbox_def cloneIdentity_def cloneEmail_def cloneAttachment_def
      cloneView_def cloneMembership_def throws_simps email_valid_id)

lemma clone_memberships: "valid_memberships e ms \<Longrightarrow> mapE cloneMembership ms = Inr ms"
  by (rule mapE_id) (simp add: valid_memberships_def)

lemma clone_refs: "valid_refs e rs \<Longrightarrow> mapE cloneAttachment rs = Inr rs"
  by (rule mapE_id) (simp add: valid_refs_def)

end
