(* ===== verification/Memory_Read.thy ===== *)
theory Memory_Read
  imports Memory_State
begin

text \<open>
  \<open>src/src/adapters/memory/memory-read-repository.ts\<close>: the queries. A query is a function of
  the state only; it returns what the promise resolves to, or the exception a clone throws.
  The lemmas show that on a state with the invariant no query throws and each returns the
  stored values.
\<close>

definition readAccount :: "AccountKey \<Rightarrow> MemoryState \<Rightarrow> Account LocalEntityRead ReadResult throws" where
  "readAccount ak s =
     (case map_of (msAccounts s) ak of
        None \<Rightarrow> Inr (PortOk EntityAbsent)
      | Some value \<Rightarrow> Inr (PortOk (EntityPresent (cloneAccount value))))"

definition listAccounts :: "MemoryState \<Rightarrow> Account list ReadResult throws" where
  "listAccounts s = Inr (PortOk (map cloneAccount (map_values (msAccounts s))))"

definition readMailbox :: "ScopedMailboxId \<Rightarrow> MemoryState \<Rightarrow> Mailbox LocalEntityRead ReadResult throws" where
  "readMailbox i s =
     (case map_of (msMailboxes s) (mailboxKey i) of
        None \<Rightarrow> Inr (PortOk EntityAbsent)
      | Some value \<Rightarrow> bindE (cloneMailbox value) (\<lambda>v. Inr (PortOk (EntityPresent v))))"

definition listMailboxes ::
  "AccountKey \<Rightarrow> MemoryState \<Rightarrow> Mailbox list OwnedSnapshotRead ReadResult throws" where
  "listMailboxes ak s =
     (if \<not> map_has (msAccounts s) ak then Inr (PortOk SnapshotOwnerAbsent)
      else bindE (mapE cloneMailbox
                    (filter (\<lambda>value. accountKey (mbId value) = ak) (map_values (msMailboxes s))))
             (\<lambda>vs. Inr (PortOk (SnapshotPresent vs))))"

definition readIdentity ::
  "ScopedIdentityId \<Rightarrow> MemoryState \<Rightarrow> Identity LocalEntityRead ReadResult throws" where
  "readIdentity i s =
     (case map_of (msIdentities s) (identityKey i) of
        None \<Rightarrow> Inr (PortOk EntityAbsent)
      | Some value \<Rightarrow> bindE (cloneIdentity value) (\<lambda>v. Inr (PortOk (EntityPresent v))))"

definition listIdentities ::
  "AccountKey \<Rightarrow> MemoryState \<Rightarrow> Identity list OwnedSnapshotRead ReadResult throws" where
  "listIdentities ak s =
     (if \<not> map_has (msAccounts s) ak then Inr (PortOk SnapshotOwnerAbsent)
      else bindE (mapE cloneIdentity
                    (filter (\<lambda>value. accountKey (idId value) = ak) (map_values (msIdentities s))))
             (\<lambda>vs. Inr (PortOk (SnapshotPresent vs))))"

definition read_one_email :: "ScopedEmailId \<Rightarrow> MemoryState \<Rightarrow> Email LocalEntityRead throws" where
  "read_one_email i s =
     (case map_of (msEmails s) (emailKey i) of
        None \<Rightarrow> Inr EntityAbsent
      | Some value \<Rightarrow> bindE (cloneEmail value) (\<lambda>v. Inr (EntityPresent v)))"

definition readEmail :: "ScopedEmailId \<Rightarrow> MemoryState \<Rightarrow> Email LocalEntityRead ReadResult throws" where
  "readEmail i s = bindE (read_one_email i s) (\<lambda>r. Inr (PortOk r))"

definition readEmails ::
  "ScopedEmailId list \<Rightarrow> MemoryState \<Rightarrow> Email LocalEntityRead list ReadResult throws" where
  "readEmails ids s = bindE (mapE (\<lambda>i. read_one_email i s) ids) (\<lambda>rs. Inr (PortOk rs))"

definition readEmailMemberships ::
  "ScopedEmailId \<Rightarrow> MemoryState \<Rightarrow> EmailMailbox list OwnedSnapshotRead ReadResult throws" where
  "readEmailMemberships i s =
     (if \<not> map_has (msEmails s) (emailKey i) then Inr (PortOk SnapshotOwnerAbsent)
      else bindE (mapE cloneMembership
                    (case map_of (msMemberships s) (emailKey i) of None \<Rightarrow> [] | Some ms \<Rightarrow> ms))
             (\<lambda>vs. Inr (PortOk (SnapshotPresent vs))))"

definition readEmailBody ::
  "ScopedEmailId \<Rightarrow> MemoryState \<Rightarrow> EmailBody OwnedCacheRead ReadResult throws" where
  "readEmailBody i s =
     (if \<not> map_has (msEmails s) (emailKey i) then Inr (PortOk CacheOwnerAbsent)
      else case map_of (msBodies s) (emailKey i) of
             None \<Rightarrow> Inr (PortOk CacheNotCached)
           | Some value \<Rightarrow> Inr (PortOk (CacheCached (cloneBody value))))"

definition readAttachmentRefs ::
  "ScopedEmailId \<Rightarrow> MemoryState \<Rightarrow> AttachmentRef list OwnedCacheRead ReadResult throws" where
  "readAttachmentRefs i s =
     (if \<not> map_has (msEmails s) (emailKey i) then Inr (PortOk CacheOwnerAbsent)
      else case map_of (msAttachments s) (emailKey i) of
             None \<Rightarrow> Inr (PortOk CacheNotCached)
           | Some value \<Rightarrow>
               bindE (mapE cloneAttachment value) (\<lambda>vs. Inr (PortOk (CacheCached vs))))"

definition readMailboxView ::
  "MailboxViewSpec \<Rightarrow> MemoryState \<Rightarrow> MailboxView OwnedCacheRead ReadResult throws" where
  "readMailboxView spec s =
     (if \<not> map_has (msMailboxes s) (mailboxKey (vsMailboxId spec))
      then Inr (PortOk CacheOwnerAbsent)
      else case map_of (msViews s) (viewKey spec) of
             None \<Rightarrow> Inr (PortOk CacheNotCached)
           | Some value \<Rightarrow> bindE (cloneView value) (\<lambda>v. Inr (PortOk (CacheCached v))))"

definition readCollectionSyncCursor ::
  "AccountKey \<Rightarrow> CollectionDataType \<Rightarrow> MemoryState \<Rightarrow>
   CollectionSyncCursor OwnedOptionalRead ReadResult throws" where
  "readCollectionSyncCursor ak dataType s =
     (if \<not> map_has (msAccounts s) ak then Inr (PortOk OptionalOwnerAbsent)
      else case map_of (msCursors s) (cursorKey ak dataType) of
             None \<Rightarrow> Inr (PortOk OptionalAbsent)
           | Some value \<Rightarrow> Inr (PortOk (OptionalPresent (cloneCursor value))))"

definition readPendingMutation ::
  "AccountKey \<Rightarrow> MutationId \<Rightarrow> MemoryState \<Rightarrow>
   PendingMutation OwnedOptionalRead ReadResult throws" where
  "readPendingMutation ak mid s =
     (if \<not> map_has (msAccounts s) ak then Inr (PortOk OptionalOwnerAbsent)
      else case map_of (msMutations s) (mutationKey ak mid) of
             None \<Rightarrow> Inr (PortOk OptionalAbsent)
           | Some value \<Rightarrow> Inr (PortOk (OptionalPresent (cloneMutation value))))"

definition listPendingMutations ::
  "AccountKey \<Rightarrow> MemoryState \<Rightarrow> PendingMutation list OwnedSnapshotRead ReadResult throws" where
  "listPendingMutations ak s =
     (if \<not> map_has (msAccounts s) ak then Inr (PortOk SnapshotOwnerAbsent)
      else Inr (PortOk (SnapshotPresent
             (map cloneMutation
               (filter (\<lambda>value. pmAccountKey value = ak) (map_values (msMutations s)))))))"

section \<open>Queries on a state with the invariant\<close>

lemmas state_inv_entries = state_inv_def entries_def

lemma map_has_iff: "map_has m k \<longleftrightarrow> map_of m k \<noteq> None"
  by (simp add: map_has_def)

lemma state_inv_mailbox:
  "state_inv s \<Longrightarrow> map_of (msMailboxes s) k = Some v \<Longrightarrow> k = mailboxKey (mbId v) \<and> valid_mailbox v"
  by (auto simp: state_inv_def dest: entriesD)

lemma state_inv_identity:
  "state_inv s \<Longrightarrow> map_of (msIdentities s) k = Some v \<Longrightarrow> k = identityKey (idId v) \<and> idEmail v \<noteq> []"
  by (auto simp: state_inv_def dest: entriesD)

lemma state_inv_email:
  "state_inv s \<Longrightarrow> map_of (msEmails s) k = Some v \<Longrightarrow> k = emailKey (emId v) \<and> valid_email v"
  by (auto simp: state_inv_def dest: entriesD)

lemma state_inv_membership:
  "state_inv s \<Longrightarrow> map_of (msMemberships s) k = Some v \<Longrightarrow>
   \<exists>e. k = emailKey e \<and> valid_memberships e v"
  by (auto simp: state_inv_def dest: entriesD)

lemma state_inv_attachment:
  "state_inv s \<Longrightarrow> map_of (msAttachments s) k = Some v \<Longrightarrow> \<exists>e. k = emailKey e \<and> valid_refs e v"
  by (auto simp: state_inv_def dest: entriesD)

lemma state_inv_view:
  "state_inv s \<Longrightarrow> map_of (msViews s) k = Some v \<Longrightarrow> k = viewKey (mvSpec v) \<and> valid_view v"
  by (auto simp: state_inv_def dest: entriesD)

lemma state_inv_mutation:
  "state_inv s \<Longrightarrow> map_of (msMutations s) k = Some v \<Longrightarrow>
   k = mutationKey (pmAccountKey v) (pmMutationId v) \<and> typed_mutation v \<and>
   registered s (pmAccountKey v)"
  by (auto simp: state_inv_def dest: entriesD)

lemma state_inv_values:
  assumes "state_inv s"
  shows "v \<in> set (map_values (msMailboxes s)) \<Longrightarrow> valid_mailbox v"
    and "i \<in> set (map_values (msIdentities s)) \<Longrightarrow> idEmail i \<noteq> []"
    and "m \<in> set (map_values (msMutations s)) \<Longrightarrow> typed_mutation m"
proof -
  show "v \<in> set (map_values (msMailboxes s)) \<Longrightarrow> valid_mailbox v"
    using assms entries_values [of "msMailboxes s"] unfolding state_inv_def by blast
  show "i \<in> set (map_values (msIdentities s)) \<Longrightarrow> idEmail i \<noteq> []"
    using assms entries_values [of "msIdentities s"] unfolding state_inv_def by blast
  show "m \<in> set (map_values (msMutations s)) \<Longrightarrow> typed_mutation m"
    using assms entries_values [of "msMutations s"] unfolding state_inv_def by blast
qed

lemma listMailboxes_eq:
  assumes "state_inv s"
  shows "listMailboxes ak s =
    Inr (PortOk (if registered s ak
      then SnapshotPresent
        (filter (\<lambda>v. accountKey (mbId v) = ak) (map_values (msMailboxes s)))
      else SnapshotOwnerAbsent))"
proof -
  have "mapE cloneMailbox (filter (\<lambda>v. accountKey (mbId v) = ak) (map_values (msMailboxes s))) =
      Inr (filter (\<lambda>v. accountKey (mbId v) = ak) (map_values (msMailboxes s)))"
    by (rule mapE_id) (auto dest: state_inv_values(1) [OF assms])
  then show ?thesis by (simp add: listMailboxes_def map_has_iff registered_def)
qed

lemma listIdentities_eq:
  assumes "state_inv s"
  shows "listIdentities ak s =
    Inr (PortOk (if registered s ak
      then SnapshotPresent
        (filter (\<lambda>v. accountKey (idId v) = ak) (map_values (msIdentities s)))
      else SnapshotOwnerAbsent))"
proof -
  have "mapE cloneIdentity (filter (\<lambda>v. accountKey (idId v) = ak) (map_values (msIdentities s))) =
      Inr (filter (\<lambda>v. accountKey (idId v) = ak) (map_values (msIdentities s)))"
    by (rule mapE_id) (auto dest: state_inv_values(2) [OF assms])
  then show ?thesis by (simp add: listIdentities_def map_has_iff registered_def)
qed

lemma map_cloneMutation: "(\<And>m. m \<in> set ms \<Longrightarrow> typed_mutation m) \<Longrightarrow> map cloneMutation ms = ms"
  by (rule map_idI) simp

lemma listPendingMutations_eq:
  assumes "state_inv s"
  shows "listPendingMutations ak s =
    Inr (PortOk (if registered s ak
      then SnapshotPresent (filter (\<lambda>v. pmAccountKey v = ak) (map_values (msMutations s)))
      else SnapshotOwnerAbsent))"
proof -
  have "map cloneMutation (filter (\<lambda>v. pmAccountKey v = ak) (map_values (msMutations s))) =
      filter (\<lambda>v. pmAccountKey v = ak) (map_values (msMutations s))"
    by (rule map_cloneMutation) (auto dest: state_inv_values(3) [OF assms])
  then show ?thesis by (simp add: listPendingMutations_def map_has_iff registered_def)
qed

lemma readPendingMutation_eq:
  assumes "state_inv s"
  shows "readPendingMutation ak mid s =
    Inr (PortOk (if registered s ak
      then case map_of (msMutations s) (mutationKey ak mid) of
             None \<Rightarrow> OptionalAbsent | Some m \<Rightarrow> OptionalPresent m
      else OptionalOwnerAbsent))"
  using assms
  by (auto simp: readPendingMutation_def map_has_iff registered_def dest: state_inv_mutation
      split: option.splits)

lemma read_one_email_eq:
  "state_inv s \<Longrightarrow>
   read_one_email i s =
     Inr (case map_of (msEmails s) (emailKey i) of
            None \<Rightarrow> EntityAbsent | Some e \<Rightarrow> EntityPresent e)"
  by (auto simp: read_one_email_def dest: state_inv_email split: option.splits)

text \<open>No query throws.\<close>

lemma queries_return:
  assumes "state_inv s"
  shows "returns (readAccount ak s)" "returns (listAccounts s)" "returns (readMailbox i s)"
    "returns (listMailboxes ak s)" "returns (readIdentity i s)" "returns (listIdentities ak s)"
    "returns (readEmail i s)" "returns (readEmails ids s)" "returns (readEmailMemberships i s)"
    "returns (readEmailBody i s)" "returns (readAttachmentRefs i s)"
    "returns (readMailboxView spec s)" "returns (readCollectionSyncCursor ak d s)"
    "returns (readPendingMutation ak mid s)" "returns (listPendingMutations ak s)"
proof -
  show "returns (readEmails ids s)"
    using mapE_pure [of ids "\<lambda>i. read_one_email i s"] read_one_email_eq [OF assms]
    by (simp add: readEmails_def returns_def)
  show "returns (readEmailMemberships i s)"
    using assms clone_memberships
    by (fastforce simp: readEmailMemberships_def returns_def dest: state_inv_membership
        split: option.splits)
  show "returns (readAttachmentRefs i s)"
    using assms clone_refs
    by (fastforce simp: readAttachmentRefs_def returns_def dest: state_inv_attachment
        split: option.splits)
  show "returns (readMailbox i s)" "returns (readIdentity i s)" "returns (readMailboxView spec s)"
    using assms
    by (auto simp: readMailbox_def readIdentity_def readMailboxView_def returns_def
        dest: state_inv_mailbox state_inv_identity state_inv_view split: option.splits)
qed (simp_all add: returns_def readAccount_def listAccounts_def readEmail_def readEmailBody_def
      readCollectionSyncCursor_def listMailboxes_eq listIdentities_eq listPendingMutations_eq
      readPendingMutation_eq read_one_email_eq assms split: option.splits)

end
