(* ===== verification/Memory_Sync.thy ===== *)
theory Memory_Sync
  imports Memory_Read
begin

text \<open>
  \<open>src/src/adapters/memory/memory-sync-port.ts\<close>: the writes. Each method is a function from
  the engine to what the promise settles to and the next engine; a rejected promise is an
  exception on the left, and the engine next to it is the one the code has left behind.
\<close>

section \<open>Equality of mutations\<close>

definition setsEqual :: "KeywordSet \<Rightarrow> KeywordSet \<Rightarrow> bool" where
  "setsEqual left right \<longleftrightarrow> length left = length right \<and> list_all (List.member right) left"

definition addressEqual :: "EmailAddress \<Rightarrow> EmailAddress \<Rightarrow> bool" where
  "addressEqual left right \<longleftrightarrow> adName left = adName right \<and> adEmail left = adEmail right"

definition addressListsEqual :: "EmailAddress list \<Rightarrow> EmailAddress list \<Rightarrow> bool" where
  "addressListsEqual left right \<longleftrightarrow>
     length left = length right \<and> list_all (\<lambda>(l, r). addressEqual l r) (zip left right)"

definition sendIntentsEqual :: "SendIntent \<Rightarrow> SendIntent \<Rightarrow> bool" where
  "sendIntentsEqual left right \<longleftrightarrow>
     siSecurityMode left = siSecurityMode right \<and>
     sameScopedIdentityId (siIdentityId left) (siIdentityId right) \<and>
     addressEqual (siFrom left) (siFrom right) \<and>
     addressListsEqual (siReplyTo left) (siReplyTo right) \<and>
     addressListsEqual (siTo left) (siTo right) \<and>
     addressListsEqual (siCc left) (siCc right) \<and>
     addressListsEqual (siBcc left) (siBcc right) \<and>
     siSubject left = siSubject right \<and>
     sbText (siBody left) = sbText (siBody right) \<and>
     sbHtml (siBody left) = sbHtml (siBody right)"

definition lifecycleEqual :: "MutationLifecycle \<Rightarrow> MutationLifecycle \<Rightarrow> bool" where
  "lifecycleEqual left right =
     (if status left \<noteq> status right \<or> \<not> num_eq (attemptCount left) (attemptCount right) then False
      else case (left, right) of
             (Retrying _ l, Retrying _ r) \<Rightarrow> l = r
           | (ConfirmedSend _ l, ConfirmedSend _ r) \<Rightarrow>
               sameScopedEmailId (scEmailId l) (scEmailId r)
           | (ConfirmedSend _ _, ConfirmedUpdate _) \<Rightarrow> False
           | (ConfirmedUpdate _, ConfirmedSend _ _) \<Rightarrow> False
           | _ \<Rightarrow> True)"

definition mailboxIdsEqual :: "ScopedMailboxId list \<Rightarrow> ScopedMailboxId list \<Rightarrow> bool" where
  "mailboxIdsEqual left right \<longleftrightarrow>
     length left = length right \<and> list_all (\<lambda>(l, r). sameScopedMailboxId l r) (zip left right)"

definition mutationsEqual :: "PendingMutation \<Rightarrow> PendingMutation \<Rightarrow> bool" where
  "mutationsEqual left right =
     (if pmAccountKey left \<noteq> pmAccountKey right \<or> pmMutationId left \<noteq> pmMutationId right \<or>
         pmCreatedAt left \<noteq> pmCreatedAt right \<or>
         \<not> lifecycleEqual (pmLifecycle left) (pmLifecycle right) then False
      else case (pmPayload left, pmPayload right) of
             (PSend l, PSend r) \<Rightarrow> sendIntentsEqual l r
           | (PKeyword e l, PKeyword f r) \<Rightarrow>
               sameScopedEmailId e f \<and> setsEqual (kcAdd l) (kcAdd r) \<and>
               setsEqual (kcRemove l) (kcRemove r)
           | (PMembership e l, PMembership f r) \<Rightarrow>
               sameScopedEmailId e f \<and> mailboxIdsEqual (mcAdd l) (mcAdd r) \<and>
               mailboxIdsEqual (mcRemove l) (mcRemove r)
           | _ \<Rightarrow> False)"

definition sameImmutableMutation :: "PendingMutation \<Rightarrow> PendingMutation \<Rightarrow> bool" where
  "sameImmutableMutation left right =
     mutationsEqual (left\<lparr>pmLifecycle := Pending (JInt 0)\<rparr>)
       (right\<lparr>pmLifecycle := Pending (JInt 0)\<rparr>)"

definition validTransition :: "PendingMutation \<Rightarrow> PendingMutation \<Rightarrow> bool" where
  "validTransition expected nextM =
     (let fromL = pmLifecycle expected; toL = pmLifecycle nextM in
      if status fromL = StPending
      then status toL = StInFlight \<and> num_eq (attemptCount toL) (JInt 1)
      else if status fromL = StRetrying
      then status toL = StInFlight \<and>
           num_eq (attemptCount toL) (num_add (attemptCount fromL) (JInt 1))
      else if status fromL \<noteq> StInFlight \<or> \<not> num_eq (attemptCount toL) (attemptCount fromL)
      then False
      else status toL = StRetrying \<or> status toL = StConfirmed \<or> status toL = StFailedTerminal)"

section \<open>Writes\<close>

definition writeOk :: WriteResult where
  "writeOk = PortOk ()"

definition conflict :: WriteResult where
  "conflict = PortErr WrConflict"

type_synonym engine_op = "(MemoryEngine, exn, WriteResult) eff"

definition publish :: "LocalChangeHint list \<Rightarrow> MemoryEngine \<Rightarrow> MemoryEngine" where
  "publish hints eng = eng\<lparr>meHub := hub_publish hints (meHub eng)\<rparr>"

text \<open>The two ways a write ends: the conflict result, or the new state and the hints.\<close>

definition reject :: engine_op where
  "reject eng = (Inr conflict, eng)"

definition commit_state :: "MemoryState \<Rightarrow> LocalChangeHint list \<Rightarrow> engine_op" where
  "commit_state s hints eng = (Inr writeOk, publish hints (eng\<lparr>meState := s\<rparr>))"

definition registerAccount :: "Account \<Rightarrow> engine_op" where
  "registerAccount value eng =
     (let s = meState eng; current = map_of (msAccounts s) (acKey value) in
      if (case current of
            None \<Rightarrow> False
          | Some c \<Rightarrow> \<not> sameRemoteAccountRef (acRemoteRef c) (acRemoteRef value))
      then reject eng
      else commit_state
             (if current = None
              then s\<lparr>msAccounts := AList.update (acKey value) (cloneAccount value) (msAccounts s)\<rparr>
              else s) [HAccounts] eng)"

definition cursorPreconditionHolds ::
  "MemoryState \<Rightarrow> CollectionCursorPrecondition \<Rightarrow> CollectionSyncCursor \<Rightarrow> bool" where
  "cursorPreconditionHolds s expected nxt =
     (let current = map_of (msCursors s) (cursorKey (cuAccountKey nxt) (cuDataType nxt)) in
      case expected of
        CursorAbsent \<Rightarrow> current = None
      | CursorMatches cursor \<Rightarrow>
          (case current of
             None \<Rightarrow> False
           | Some c \<Rightarrow>
               cuAccountKey cursor = cuAccountKey nxt \<and> cuDataType cursor = cuDataType nxt \<and>
               cuAccountKey c = cuAccountKey cursor \<and> cuDataType c = cuDataType cursor \<and>
               cuState c = cuState cursor))"

definition validateEmailRecord :: "EmailSyncRecord \<Rightarrow> AccountKey \<Rightarrow> bool" where
  "validateEmailRecord record ak \<longleftrightarrow>
     accountKey (emId (srEmail record)) = ak \<and>
     list_all (\<lambda>entry. sameScopedEmailId (mmEmailId entry) (emId (srEmail record)))
       (srMemberships record) \<and>
     \<not> hasDuplicates (srMemberships record) membershipKey"

definition validateEmailCommit ::
  "(EmailSyncRecord, ScopedEmailId) CollectionMode \<Rightarrow> AccountKey \<Rightarrow> bool" where
  "validateEmailCommit mode ak =
     (let records = commit_records mode in
      if list_ex (\<lambda>record. \<not> validateEmailRecord record ak) records \<or>
         hasDuplicates records (\<lambda>record. emailKey (emId (srEmail record)))
      then False
      else case mode of
             Replace _ _ \<Rightarrow> True
           | Delta _ changed destroyed \<Rightarrow>
               list_all (\<lambda>i. accountKey i = ak) destroyed \<and>
               \<not> hasDuplicates destroyed emailKey \<and>
               \<not> list_ex (\<lambda>record. list_ex (sameScopedEmailId (emId (srEmail record))) destroyed)
                    changed)"

fun store_emails ::
  "EmailSyncRecord list \<Rightarrow> (jsstring \<times> Email) list \<Rightarrow> (jsstring \<times> EmailMailbox list) list \<Rightarrow>
   ((jsstring \<times> Email) list \<times> (jsstring \<times> EmailMailbox list) list) throws" where
  "store_emails [] emails memberships = Inr (emails, memberships)"
| "store_emails (record # records) emails memberships =
     bindE (cloneEmail (srEmail record)) (\<lambda>e.
     bindE (mapE cloneMembership (srMemberships record)) (\<lambda>ms.
     store_emails records
       (AList.update (emailKey (emId (srEmail record))) e emails)
       (AList.update (emailKey (emId (srEmail record))) ms memberships)))"

definition commitEmails ::
  "(EmailSyncRecord, ScopedEmailId) CollectionMode \<Rightarrow> AccountKey \<Rightarrow> MemoryState \<Rightarrow>
   MemoryState throws" where
  "commitEmails mode ak s =
     (let (emails, memberships) =
        (case mode of
           Replace _ _ \<Rightarrow>
             (filter (\<lambda>(key, value). accountKey (emId value) \<noteq> ak) (msEmails s),
              filter (\<lambda>(key, value).
                  \<not> ((case value of [] \<Rightarrow> False | m # _ \<Rightarrow> accountKey (mmEmailId m) = ak) \<or>
                     (case map_of (msEmails s) key of
                        None \<Rightarrow> False | Some e \<Rightarrow> accountKey (emId e) = ak)))
                (msMemberships s))
         | Delta _ _ destroyed \<Rightarrow>
             (fold (\<lambda>i. AList.delete (emailKey i)) destroyed (msEmails s),
              fold (\<lambda>i. AList.delete (emailKey i)) destroyed (msMemberships s)))
      in bindE (store_emails (commit_records mode) emails memberships)
           (\<lambda>(emails', memberships').
            Inr (s\<lparr>msEmails := emails', msMemberships := memberships'\<rparr>)))"

text \<open>The loop of the other two commits: clone each value and store it under its key.\<close>

fun store_values ::
  "('v \<Rightarrow> jsstring) \<Rightarrow> ('v \<Rightarrow> 'v throws) \<Rightarrow> 'v list \<Rightarrow> (jsstring \<times> 'v) list \<Rightarrow>
   (jsstring \<times> 'v) list throws" where
  "store_values key clone [] m = Inr m"
| "store_values key clone (value # values) m =
     bindE (clone value) (\<lambda>v. store_values key clone values (AList.update (key value) v m))"

definition validateMailboxCommit ::
  "(Mailbox, ScopedMailboxId) CollectionMode \<Rightarrow> AccountKey \<Rightarrow> bool" where
  "validateMailboxCommit mode ak =
     (let records = commit_records mode in
      if list_ex (\<lambda>value. accountKey (mbId value) \<noteq> ak) records \<or>
         hasDuplicates records (\<lambda>value. mailboxKey (mbId value))
      then False
      else case mode of
             Replace _ _ \<Rightarrow> True
           | Delta _ changed destroyed \<Rightarrow>
               list_all (\<lambda>i. accountKey i = ak) destroyed \<and>
               \<not> hasDuplicates destroyed mailboxKey \<and>
               \<not> list_ex (\<lambda>value. list_ex (sameScopedMailboxId (mbId value)) destroyed) changed)"

definition commitMailboxes ::
  "(Mailbox, ScopedMailboxId) CollectionMode \<Rightarrow> AccountKey \<Rightarrow> MemoryState \<Rightarrow>
   MemoryState throws" where
  "commitMailboxes mode ak s =
     (let kept =
        (case mode of
           Replace _ _ \<Rightarrow> filter (\<lambda>(key, value). accountKey (mbId value) \<noteq> ak) (msMailboxes s)
         | Delta _ _ destroyed \<Rightarrow>
             fold (\<lambda>i. AList.delete (mailboxKey i)) destroyed (msMailboxes s))
      in bindE (store_values (\<lambda>v. mailboxKey (mbId v)) cloneMailbox (commit_records mode) kept)
           (\<lambda>m. Inr (s\<lparr>msMailboxes := m\<rparr>)))"

definition validateIdentityCommit ::
  "(Identity, ScopedIdentityId) CollectionMode \<Rightarrow> AccountKey \<Rightarrow> bool" where
  "validateIdentityCommit mode ak =
     (let records = commit_records mode in
      if list_ex (\<lambda>value. accountKey (idId value) \<noteq> ak) records \<or>
         hasDuplicates records (\<lambda>value. identityKey (idId value))
      then False
      else case mode of
             Replace _ _ \<Rightarrow> True
           | Delta _ changed destroyed \<Rightarrow>
               list_all (\<lambda>i. accountKey i = ak) destroyed \<and>
               \<not> hasDuplicates destroyed identityKey \<and>
               \<not> list_ex (\<lambda>value. list_ex (sameScopedIdentityId (idId value)) destroyed) changed)"

definition commitIdentities ::
  "(Identity, ScopedIdentityId) CollectionMode \<Rightarrow> AccountKey \<Rightarrow> MemoryState \<Rightarrow>
   MemoryState throws" where
  "commitIdentities mode ak s =
     (let kept =
        (case mode of
           Replace _ _ \<Rightarrow> filter (\<lambda>(key, value). accountKey (idId value) \<noteq> ak) (msIdentities s)
         | Delta _ _ destroyed \<Rightarrow>
             fold (\<lambda>i. AList.delete (identityKey i)) destroyed (msIdentities s))
      in bindE (store_values (\<lambda>v. identityKey (idId v)) cloneIdentity (commit_records mode) kept)
           (\<lambda>m. Inr (s\<lparr>msIdentities := m\<rparr>)))"

text \<open>A commit, its next cursor and its hints; an exception of a clone leaves the engine.\<close>

definition finish_sync ::
  "MemoryState throws \<Rightarrow> CollectionSyncCursor \<Rightarrow> LocalChangeHint list \<Rightarrow> engine_op" where
  "finish_sync committed nxt hints eng =
     (case committed of
        Inl e \<Rightarrow> (Inl e, eng)
      | Inr s \<Rightarrow>
          commit_state
            (s\<lparr>msCursors := AList.update (cursorKey (cuAccountKey nxt) (cuDataType nxt))
                              (cloneCursor nxt) (msCursors s)\<rparr>) hints eng)"

definition applyCollectionSync :: "CollectionSyncCommit \<Rightarrow> engine_op" where
  "applyCollectionSync commit eng =
     (let s = meState eng; nxt = nextCursor_of commit; ak = cuAccountKey nxt in
      if \<not> map_has (msAccounts s) ak \<or> cuDataType nxt \<noteq> kind_of commit \<or>
         \<not> cursorPreconditionHolds s (expectedCursor_of commit) nxt
      then reject eng
      else case commit of
        EmailCommit _ mode \<Rightarrow>
          (if \<not> validateEmailCommit mode ak then reject eng
           else finish_sync (commitEmails mode ak s) nxt
                  [HEmails ak, HEmailMemberships ak, HSyncCursor ak DEmail] eng)
      | MailboxCommit _ mode \<Rightarrow>
          (if \<not> validateMailboxCommit mode ak then reject eng
           else finish_sync (commitMailboxes mode ak s) nxt
                  [HMailboxes ak, HSyncCursor ak DMailbox] eng)
      | IdentityCommit _ mode \<Rightarrow>
          (if \<not> validateIdentityCommit mode ak then reject eng
           else finish_sync (commitIdentities mode ak s) nxt
                  [HIdentities ak, HSyncCursor ak DIdentity] eng))"

definition cacheEmailBody :: "EmailBody \<Rightarrow> engine_op" where
  "cacheEmailBody body eng =
     (let s = meState eng in
      if \<not> map_has (msEmails s) (emailKey (boEmailId body)) then reject eng
      else commit_state
             (s\<lparr>msBodies := AList.update (emailKey (boEmailId body)) (cloneBody body) (msBodies s)\<rparr>)
             [HEmailBody (boEmailId body)] eng)"

definition replaceAttachmentRefs :: "ScopedEmailId \<Rightarrow> AttachmentRef list \<Rightarrow> engine_op" where
  "replaceAttachmentRefs e refs eng =
     (let s = meState eng in
      if \<not> map_has (msEmails s) (emailKey e) \<or>
         list_ex (\<lambda>value. \<not> sameScopedEmailId (atEmailId value) e) refs \<or>
         hasDuplicates refs (\<lambda>value. attachmentKey (atEmailId value, atPartId value))
      then reject eng
      else case mapE cloneAttachment refs of
             Inl x \<Rightarrow> (Inl x, eng)
           | Inr values \<Rightarrow>
               commit_state
                 (s\<lparr>msAttachments := AList.update (emailKey e) values (msAttachments s)\<rparr>)
                 [HAttachmentRefs e] eng)"

definition replaceMailboxView :: "MailboxView \<Rightarrow> engine_op" where
  "replaceMailboxView view eng =
     (let s = meState eng in
      if \<not> map_has (msMailboxes s) (mailboxKey (vsMailboxId (mvSpec view))) then reject eng
      else case cloneView view of
             Inl x \<Rightarrow> (Inl x, eng)
           | Inr value \<Rightarrow>
               commit_state
                 (s\<lparr>msViews := AList.update (viewKey (mvSpec view)) value (msViews s)\<rparr>)
                 [HMailboxView (mvSpec view)] eng)"

definition stageSendMutation :: "PendingMutation \<Rightarrow> engine_op" where
  "stageSendMutation value eng =
     (let s = meState eng; key = mutationKey (pmAccountKey value) (pmMutationId value) in
      if \<not> map_has (msAccounts s) (pmAccountKey value) \<or> map_has (msMutations s) key
      then reject eng
      else commit_state
             (s\<lparr>msMutations := AList.update key (cloneMutation value) (msMutations s)\<rparr>)
             [HPendingMutations (pmAccountKey value)] eng)"

definition changed_keywords :: "KeywordChange \<Rightarrow> KeywordSet \<Rightarrow> KeywordSet" where
  "changed_keywords change keywords =
     fold set_delete (kcRemove change) (fold set_add (kcAdd change) (set_of_list keywords))"

text \<open>The e-mail and the change are those of a keyword mutation.\<close>

definition applyOptimisticKeywordMutation ::
  "PendingMutation \<Rightarrow> ScopedEmailId \<Rightarrow> KeywordChange \<Rightarrow> engine_op" where
  "applyOptimisticKeywordMutation value e change eng =
     (let s = meState eng; key = mutationKey (pmAccountKey value) (pmMutationId value) in
      case map_of (msEmails s) (emailKey e) of
        None \<Rightarrow> reject eng
      | Some target \<Rightarrow>
          if \<not> map_has (msAccounts s) (pmAccountKey value) \<or> map_has (msMutations s) key
          then reject eng
          else case bindE (keywordSet (changed_keywords change (emKeywords target)))
                      (\<lambda>keywords. email (target\<lparr>emKeywords := keywords\<rparr>)) of
                 Inl x \<Rightarrow> (Inl x, eng)
               | Inr nextM \<Rightarrow>
                   commit_state
                     (s\<lparr>msEmails := AList.update (emailKey e) nextM (msEmails s),
                        msMutations := AList.update key (cloneMutation value) (msMutations s)\<rparr>)
                     [HEmails (pmAccountKey value), HPendingMutations (pmAccountKey value)] eng)"

fun add_memberships ::
  "ScopedEmailId \<Rightarrow> ScopedMailboxId list \<Rightarrow> EmailMailbox list \<Rightarrow> EmailMailbox list throws" where
  "add_memberships e [] nextM = Inr nextM"
| "add_memberships e (i # ids) nextM =
     (if \<not> list_ex (\<lambda>entry. sameScopedMailboxId (mmMailboxId entry) i) nextM
      then bindE (emailMailbox e i) (\<lambda>m. add_memberships e ids (nextM @ [m]))
      else add_memberships e ids nextM)"

definition remaining_memberships ::
  "MailboxMembershipChange \<Rightarrow> EmailMailbox list \<Rightarrow> EmailMailbox list" where
  "remaining_memberships change current =
     filter (\<lambda>entry. \<not> list_ex (sameScopedMailboxId (mmMailboxId entry)) (mcRemove change)) current"

definition applyOptimisticMailboxMembershipMutation ::
  "PendingMutation \<Rightarrow> ScopedEmailId \<Rightarrow> MailboxMembershipChange \<Rightarrow> engine_op" where
  "applyOptimisticMailboxMembershipMutation value e change eng =
     (let s = meState eng; key = mutationKey (pmAccountKey value) (pmMutationId value);
          targetKey = emailKey e in
      if \<not> map_has (msAccounts s) (pmAccountKey value) \<or> \<not> map_has (msEmails s) targetKey \<or>
         map_has (msMutations s) key
      then reject eng
      else if list_ex (\<lambda>i. \<not> map_has (msMailboxes s) (mailboxKey i)) (mcAdd change @ mcRemove change)
      then reject eng
      else let current = (case map_of (msMemberships s) targetKey of None \<Rightarrow> [] | Some ms \<Rightarrow> ms) in
        case add_memberships e (mcAdd change) (remaining_memberships change current) of
          Inl x \<Rightarrow> (Inl x, eng)
        | Inr nextM \<Rightarrow>
            if length nextM = 0 then reject eng
            else case mapE cloneMembership nextM of
                   Inl x \<Rightarrow> (Inl x, eng)
                 | Inr values \<Rightarrow>
                     commit_state
                       (s\<lparr>msMemberships := AList.update targetKey values (msMemberships s),
                          msMutations := AList.update key (cloneMutation value) (msMutations s)\<rparr>)
                       [HEmailMemberships (pmAccountKey value),
                        HPendingMutations (pmAccountKey value)] eng)"

definition replacePendingMutationIfCurrent ::
  "PendingMutation \<Rightarrow> PendingMutation \<Rightarrow> engine_op" where
  "replacePendingMutationIfCurrent expected nextM eng =
     (let s = meState eng; key = mutationKey (pmAccountKey expected) (pmMutationId expected) in
      case map_of (msMutations s) key of
        None \<Rightarrow> reject eng
      | Some current \<Rightarrow>
          if \<not> mutationsEqual current expected \<or> \<not> sameImmutableMutation expected nextM \<or>
             \<not> validTransition expected nextM
          then reject eng
          else commit_state
                 (s\<lparr>msMutations := AList.update key (cloneMutation nextM) (msMutations s)\<rparr>)
                 [HPendingMutations (pmAccountKey expected)] eng)"

definition removeConfirmedMutation :: "AccountKey \<Rightarrow> MutationId \<Rightarrow> engine_op" where
  "removeConfirmedMutation ak mid eng =
     (let s = meState eng; key = mutationKey ak mid in
      case map_of (msMutations s) key of
        None \<Rightarrow> reject eng
      | Some current \<Rightarrow>
          if status (pmLifecycle current) \<noteq> StConfirmed then reject eng
          else commit_state (s\<lparr>msMutations := AList.delete key (msMutations s)\<rparr>)
                 [HPendingMutations ak] eng)"

end
