(* ===== verification/Memory_Facts.thy ===== *)
theory Memory_Facts
  imports Memory_Sync
begin

text \<open>
  The lemmas of the memory store: equality of mutations, what the store loops do to a lookup,
  that every write keeps the invariant of the state, and the reachable engines.
\<close>

section \<open>Equality and transitions of mutations\<close>

lemma addressEqual_iff [simp]: "addressEqual (a :: EmailAddress) b \<longleftrightarrow> a = b"
  by (cases a; cases b) (simp add: addressEqual_def)

lemma list_all_zip_eq:
  "length xs = length ys \<and> list_all (\<lambda>(l, r). l = r) (zip xs ys) \<longleftrightarrow> xs = ys"
proof -
  have "length xs = length ys \<Longrightarrow> list_all (\<lambda>(l, r). l = r) (zip xs ys) \<Longrightarrow> xs = ys"
    by (induction xs ys rule: list_induct2) auto
  then show ?thesis by (auto simp: list_all_iff zip_same_conv_map)
qed

lemma addressListsEqual_iff [simp]: "addressListsEqual (xs :: EmailAddress list) ys \<longleftrightarrow> xs = ys"
  by (simp add: addressListsEqual_def list_all_zip_eq)

lemma mailboxIdsEqual_iff [simp]: "mailboxIdsEqual (xs :: ScopedId list) ys \<longleftrightarrow> xs = ys"
  by (simp add: mailboxIdsEqual_def list_all_zip_eq)

lemma sendIntentsEqual_iff [simp]: "sendIntentsEqual (i :: SendIntent) j \<longleftrightarrow> i = j"
proof -
  have "siBody i = siBody j \<longleftrightarrow>
      sbText (siBody i) = sbText (siBody j) \<and> sbHtml (siBody i) = sbHtml (siBody j)"
    by (cases "siBody i"; cases "siBody j") simp
  then show ?thesis by (cases i; cases j) (auto simp: sendIntentsEqual_def)
qed

lemma lifecycleEqual_iff:
  "lifecycleEqual l r \<longleftrightarrow> l = r \<and> attemptCount l \<noteq> JNaN"
proof -
  have conf: "scEmailId c = scEmailId d \<longleftrightarrow> c = d" for c d :: SendConfirmation
    by (cases c; cases d) simp
  show ?thesis by (cases l; cases r) (auto simp: lifecycleEqual_def num_eq_def conf)
qed

lemma setsEqual_iff:
  "distinct xs \<Longrightarrow> distinct ys \<Longrightarrow> setsEqual xs ys \<longleftrightarrow> set xs = set ys"
proof
  assume d: "distinct xs" "distinct ys"
  assume "setsEqual xs ys"
  then have "length xs = length ys" "set xs \<subseteq> set ys"
    by (auto simp: setsEqual_def list_all_iff)
  with d show "set xs = set ys"
    by (metis card_subset_eq distinct_card finite_set)
next
  assume "distinct xs" "distinct ys" "set xs = set ys"
  then show "setsEqual xs ys"
    by (auto simp: setsEqual_def list_all_iff) (metis distinct_card)
qed

text \<open>Payloads equal up to the insertion order of keyword sets.\<close>

fun payload_equiv :: "MutationPayload \<Rightarrow> MutationPayload \<Rightarrow> bool" where
  "payload_equiv (PSend i) (PSend j) = (i = j)"
| "payload_equiv (PKeyword e c) (PKeyword f d) =
     (e = f \<and> setsEqual (kcAdd c) (kcAdd d) \<and> setsEqual (kcRemove c) (kcRemove d))"
| "payload_equiv (PMembership e c) (PMembership f d) =
     (e = f \<and> mcAdd c = mcAdd d \<and> mcRemove c = mcRemove d)"
| "payload_equiv _ _ = False"

lemma payload_equiv_refl:
  "(\<And>e c. p = PKeyword e c \<Longrightarrow> True) \<Longrightarrow> payload_equiv p p"
  by (cases p) (auto simp: setsEqual_def list_all_iff)

lemma mutationsEqual_iff:
  "mutationsEqual l r \<longleftrightarrow>
     pmAccountKey l = pmAccountKey r \<and> pmMutationId l = pmMutationId r \<and>
     pmCreatedAt l = pmCreatedAt r \<and> pmLifecycle l = pmLifecycle r \<and>
     attemptCount (pmLifecycle l) \<noteq> JNaN \<and> payload_equiv (pmPayload l) (pmPayload r)"
  by (cases "pmPayload l"; cases "pmPayload r") (auto simp: mutationsEqual_def lifecycleEqual_iff)

lemma sameImmutableMutation_iff:
  "sameImmutableMutation l r \<longleftrightarrow>
     pmAccountKey l = pmAccountKey r \<and> pmMutationId l = pmMutationId r \<and>
     pmCreatedAt l = pmCreatedAt r \<and> payload_equiv (pmPayload l) (pmPayload r)"
  by (auto simp: sameImmutableMutation_def mutationsEqual_iff)

lemma mutationsEqual_refl: "attemptCount (pmLifecycle m) \<noteq> JNaN \<Longrightarrow> mutationsEqual m m"
  by (simp add: mutationsEqual_iff payload_equiv_refl)

text \<open>Every transition of the domain passes the two checks of the compare-and-swap.\<close>

lemma lifecycle_step_accepted:
  assumes "lifecycle_step m m'"
  shows "sameImmutableMutation m m' \<and> validTransition m m' \<and> attemptCount (pmLifecycle m) \<noteq> JNaN"
proof -
  have imm: "sameImmutableMutation m m'"
    using lifecycle_step_immutable [OF assms]
    by (auto simp: sameImmutableMutation_iff immutable_part_def payload_equiv_refl)
  from assms have "validTransition m m' \<and> attemptCount (pmLifecycle m) \<noteq> JNaN"
    by (induction rule: lifecycle_step.induct)
       (auto simp: startMutationAttempt_Inr settle_Inr validTransition_def started_def)
  with imm show ?thesis by simp
qed

section \<open>The store loops\<close>

lemma entries_fold_del: "entries m P \<Longrightarrow> entries (fold (\<lambda>i. AList.delete (k i)) ds m) P"
  by (induction ds arbitrary: m) auto

lemma map_of_fold_del:
  "map_of (fold (\<lambda>i. AList.delete (k i)) ds m) x =
   (if x \<in> k ` set ds then None else map_of m x)"
  by (induction ds arbitrary: m) auto

lemma store_values_entries:
  assumes "store_values key clone vs m = Inr m'" "entries m P"
    "\<And>v w. v \<in> set vs \<Longrightarrow> clone v = Inr w \<Longrightarrow> P (key v) w"
  shows "entries m' P"
  using assms
proof (induction vs arbitrary: m)
  case (Cons v vs)
  from Cons.prems(1) obtain w where w: "clone v = Inr w"
    "store_values key clone vs (AList.update (key v) w m) = Inr m'" by (auto simp: bindE_Inr_iff)
  have "entries (AList.update (key v) w m) P"
    using Cons.prems(2,3) w(1) by (intro entries_set) simp_all
  from Cons.IH [OF w(2) this] Cons.prems(3) show ?case by simp
qed simp

lemma store_values_returns:
  "(\<And>v. v \<in> set vs \<Longrightarrow> returns (clone v)) \<Longrightarrow> returns (store_values key clone vs m)"
proof (induction vs arbitrary: m)
  case (Cons v vs)
  obtain w where "clone v = Inr w" using Cons.prems [of v] by (auto simp: returns_iff)
  with Cons show ?case by simp
qed (simp add: returns_def)

lemma store_emails_entries:
  assumes "store_emails rs es ms = Inr (es', ms')" "entries es P" "entries ms Q"
    "\<And>r e. r \<in> set rs \<Longrightarrow> cloneEmail (srEmail r) = Inr e \<Longrightarrow> P (emailKey (emId (srEmail r))) e"
    "\<And>r l. r \<in> set rs \<Longrightarrow> mapE cloneMembership (srMemberships r) = Inr l \<Longrightarrow>
       Q (emailKey (emId (srEmail r))) l"
    "\<And>k. (map_of ms k = None) = (map_of es k = None)"
  shows "entries es' P \<and> entries ms' Q \<and> (\<forall>k. (map_of ms' k = None) = (map_of es' k = None))"
  using assms
proof (induction rs arbitrary: es ms)
  case (Cons r rs)
  from Cons.prems(1) obtain e l where el: "cloneEmail (srEmail r) = Inr e"
    "mapE cloneMembership (srMemberships r) = Inr l"
    "store_emails rs (AList.update (emailKey (emId (srEmail r))) e es)
       (AList.update (emailKey (emId (srEmail r))) l ms) = Inr (es', ms')"
    by (auto simp: bindE_Inr_iff)
  show ?case
  proof (rule Cons.IH [OF el(3)])
    show "entries (AList.update (emailKey (emId (srEmail r))) e es) P"
      using Cons.prems(2,4) el(1) by (intro entries_set) simp_all
    show "entries (AList.update (emailKey (emId (srEmail r))) l ms) Q"
      using Cons.prems(3,5) el(2) by (intro entries_set) simp_all
  qed (use Cons.prems in simp_all)
qed simp

text \<open>
  The abstract effect of a collection commit: a view of the collection as a partial function
  from identifiers, in which the records win, then the mode decides what else survives.
\<close>

definition sync_spec ::
  "('r \<Rightarrow> ScopedId) \<Rightarrow> ('r \<Rightarrow> 'v) \<Rightarrow> AccountKey \<Rightarrow> ('r, ScopedId) CollectionMode \<Rightarrow>
   (ScopedId \<Rightarrow> 'v option) \<Rightarrow> ScopedId \<Rightarrow> 'v option" where
  "sync_spec id_of val_of ak mode m i =
     (case find (\<lambda>r. id_of r = i) (commit_records mode) of
        Some r \<Rightarrow> Some (val_of r)
      | None \<Rightarrow>
          (case mode of
             Delta _ _ destroyed \<Rightarrow> if i \<in> set destroyed then None else m i
           | Replace _ _ \<Rightarrow> if accountKey i = ak then None else m i))"

lemma find_other_None:
  assumes "distinct (map f (v # vs))" "f v = i"
  shows "find (\<lambda>u. f u = i) vs = None"
proof -
  have "f u \<noteq> i" if "u \<in> set vs" for u
    using assms imageI [OF that, of f] by auto
  then show ?thesis by (simp add: find_None_iff)
qed

context store_key
begin

lemma store_values_lookup:
  assumes "store_values (\<lambda>v. key (f v)) clone vs m = Inr m'"
    "\<And>v w. clone v = Inr w \<Longrightarrow> w = v" "distinct (map f vs)"
  shows "map_of m' (key i) =
    (case find (\<lambda>v. f v = i) vs of Some v \<Rightarrow> Some v | None \<Rightarrow> map_of m (key i))"
  using assms
proof (induction vs arbitrary: m)
  case (Cons v vs)
  from Cons.prems(1) obtain w where w: "clone v = Inr w"
    "store_values (\<lambda>v. key (f v)) clone vs (AList.update (key (f v)) w m) = Inr m'"
    by (auto simp: bindE_Inr_iff)
  have "w = v" using Cons.prems(2) w(1) by blast
  have "find (\<lambda>u. f u = i) vs = None" if "f v = i"
    using Cons.prems(3) that by (rule find_other_None)
  with Cons.IH [OF w(2)] Cons.prems \<open>w = v\<close> show ?case
    by (auto simp: get_after_set key_eq_iff split: option.splits)
qed simp

lemma fold_del_lookup:
  "map_of (fold (\<lambda>i. AList.delete (key i)) ds m) (key i) =
   (if i \<in> set ds then None else map_of m (key i))"
  by (auto simp: map_of_fold_del key_eq_iff)

end

lemma store_emails_lookup:
  assumes "store_emails rs es ms = Inr (es', ms')" "distinct (map (\<lambda>r. emId (srEmail r)) rs)"
  shows "map_of es' (emailKey i) =
      (case find (\<lambda>r. emId (srEmail r) = i) rs of
         Some r \<Rightarrow> Some ((srEmail r)\<lparr>emKeywords := set_of_list (emKeywords (srEmail r))\<rparr>)
       | None \<Rightarrow> map_of es (emailKey i)) \<and>
    map_of ms' (emailKey i) =
      (case find (\<lambda>r. emId (srEmail r) = i) rs of
         Some r \<Rightarrow> Some (srMemberships r) | None \<Rightarrow> map_of ms (emailKey i))"
  using assms
proof (induction rs arbitrary: es ms)
  case (Cons r rs)
  let ?k = "emailKey (emId (srEmail r))"
  from Cons.prems(1) obtain e l where el: "cloneEmail (srEmail r) = Inr e"
    "mapE cloneMembership (srMemberships r) = Inr l"
    "store_emails rs (AList.update ?k e es) (AList.update ?k l ms) = Inr (es', ms')"
    by (auto simp: bindE_Inr_iff)
  have e: "e = (srEmail r)\<lparr>emKeywords := set_of_list (emKeywords (srEmail r))\<rparr>"
    using el(1) by (simp add: cloneEmail_def email_Inr)
  have "cloneMembership x = Inr y \<Longrightarrow> y = x" for x y
    by (cases x) (auto simp: cloneMembership_def emailMailbox_Inr)
  then have "map (\<lambda>x. x) l = map (\<lambda>x. x) (srMemberships r)"
    by (intro mapE_map_eq [OF el(2)]) blast
  then have l: "l = srMemberships r" by simp
  have "find (\<lambda>u. emId (srEmail u) = i) rs = None" if "emId (srEmail r) = i"
    using Cons.prems(2) that by (rule find_other_None)
  with Cons.IH [OF el(3)] Cons.prems(2) e l show ?case
    by (auto simp: email_keys.key_eq_iff split: option.splits)
qed simp

section \<open>The invariant is kept\<close>

definition engine_inv :: "MemoryEngine \<Rightarrow> bool" where
  "engine_inv eng \<longleftrightarrow> state_inv (meState eng) \<and> hub_ok (meHub eng)"

text \<open>A write either leaves the engine or installs a state and publishes.\<close>

definition op_cases :: "engine_op \<Rightarrow> MemoryEngine \<Rightarrow> (MemoryState \<Rightarrow> bool) \<Rightarrow> bool" where
  "op_cases op eng P \<longleftrightarrow>
     snd (op eng) = eng \<or>
     (\<exists>s hints. op eng = commit_state s hints eng \<and> P s)"

lemma op_cases_inv:
  "op_cases op eng state_inv \<Longrightarrow> engine_inv eng \<Longrightarrow> engine_inv (snd (op eng))"
  by (auto simp: op_cases_def engine_inv_def commit_state_def publish_def hub_ok_publish)

lemma registered_update [simp]:
  "registered (s\<lparr>msMailboxes := a\<rparr>) = registered s"
  "registered (s\<lparr>msIdentities := b\<rparr>) = registered s"
  "registered (s\<lparr>msEmails := c\<rparr>) = registered s"
  "registered (s\<lparr>msMemberships := d\<rparr>) = registered s"
  "registered (s\<lparr>msBodies := e\<rparr>) = registered s"
  "registered (s\<lparr>msAttachments := f\<rparr>) = registered s"
  "registered (s\<lparr>msViews := g\<rparr>) = registered s"
  "registered (s\<lparr>msCursors := h\<rparr>) = registered s"
  "registered (s\<lparr>msMutations := i\<rparr>) = registered s"
  by (simp_all add: registered_def fun_eq_iff)

lemma registered_iff: "map_has (msAccounts s) ak \<longleftrightarrow> registered s ak"
  by (simp add: map_has_def registered_def)

lemma registerAccount_inv:
  assumes "state_inv (meState eng)"
  shows "op_cases (registerAccount a) eng state_inv"
proof -
  let ?s = "meState eng"
  let ?s' = "?s\<lparr>msAccounts := AList.update (acKey a) a (msAccounts ?s)\<rparr>"
  have reg: "registered ?s ak \<Longrightarrow> registered ?s' ak" for ak by (simp add: registered_def)
  have acc: "entries (msAccounts ?s') (\<lambda>k v. k = acKey v)"
    using assms by (simp add: state_inv_def entries_set)
  have "state_inv ?s'"
    using assms acc reg unfolding state_inv_def
    by (simp del: registered_def) (blast intro: entries_mono)
  with assms show ?thesis
    by (auto simp: op_cases_def registerAccount_def Let_def reject_def split: option.splits)
qed

lemma finish_sync_inv:
  assumes "registered (meState eng) (cuAccountKey nxt)"
    "\<And>s. committed = Inr s \<Longrightarrow> state_inv s \<and> registered s = registered (meState eng)"
  shows "op_cases (finish_sync committed nxt hints) eng state_inv"
proof (cases committed)
  case (Inr s)
  with assms have "state_inv (s\<lparr>msCursors :=
      AList.update (cursorKey (cuAccountKey nxt) (cuDataType nxt)) nxt (msCursors s)\<rparr>)"
    by (auto simp: state_inv_def)
  with Inr show ?thesis by (auto simp: op_cases_def finish_sync_def)
qed (simp add: op_cases_def finish_sync_def)

lemma commitMailboxes_inv:
  assumes "commitMailboxes mode ak s = Inr s'" "state_inv s" "registered s ak"
    "validateMailboxCommit mode ak"
  shows "state_inv s' \<and> registered s' = registered s"
proof -
  from assms(1) obtain kept m where m:
    "store_values (\<lambda>v. mailboxKey (mbId v)) cloneMailbox (commit_records mode) kept = Inr m"
    "s' = s\<lparr>msMailboxes := m\<rparr>"
    "kept = (case mode of
        Replace _ _ \<Rightarrow> filter (\<lambda>(key, value). accountKey (mbId value) \<noteq> ak) (msMailboxes s)
      | Delta _ _ destroyed \<Rightarrow> fold (\<lambda>i. AList.delete (mailboxKey i)) destroyed (msMailboxes s))"
    by (auto simp: commitMailboxes_def Let_def bindE_Inr_iff)
  let ?P = "\<lambda>k v. k = mailboxKey (mbId v) \<and> valid_mailbox v \<and> registered s (accountKey (mbId v))"
  have "entries kept ?P"
    using assms(2) by (auto simp: m(3) state_inv_def entries_fold_del split: CollectionMode.splits)
  moreover have "?P (mailboxKey (mbId v)) w" if "v \<in> set (commit_records mode)" "cloneMailbox v = Inr w" for v w
    using that assms(3,4)
    by (auto simp: cloneMailbox_def mailbox_Inr validateMailboxCommit_def Let_def list_ex_iff
        split: if_splits)
  ultimately have "entries m ?P" by (rule store_values_entries [OF m(1)])
  with assms(2) m(2) show ?thesis by (auto simp: state_inv_def)
qed

lemma commitIdentities_inv:
  assumes "commitIdentities mode ak s = Inr s'" "state_inv s" "registered s ak"
    "validateIdentityCommit mode ak"
  shows "state_inv s' \<and> registered s' = registered s"
proof -
  from assms(1) obtain kept m where m:
    "store_values (\<lambda>v. identityKey (idId v)) cloneIdentity (commit_records mode) kept = Inr m"
    "s' = s\<lparr>msIdentities := m\<rparr>"
    "kept = (case mode of
        Replace _ _ \<Rightarrow> filter (\<lambda>(key, value). accountKey (idId value) \<noteq> ak) (msIdentities s)
      | Delta _ _ destroyed \<Rightarrow> fold (\<lambda>i. AList.delete (identityKey i)) destroyed (msIdentities s))"
    by (auto simp: commitIdentities_def Let_def bindE_Inr_iff)
  let ?P = "\<lambda>k v. k = identityKey (idId v) \<and> idEmail v \<noteq> [] \<and> registered s (accountKey (idId v))"
  have "entries kept ?P"
    using assms(2) by (auto simp: m(3) state_inv_def entries_fold_del split: CollectionMode.splits)
  moreover have "?P (identityKey (idId v)) w" if "v \<in> set (commit_records mode)" "cloneIdentity v = Inr w" for v w
    using that assms(3,4)
    by (auto simp: cloneIdentity_def identity_Inr validateIdentityCommit_def Let_def list_ex_iff
        split: if_splits)
  ultimately have "entries m ?P" by (rule store_values_entries [OF m(1)])
  with assms(2) m(2) show ?thesis by (auto simp: state_inv_def)
qed

end
