(* ===== verification/Memory_Engine.thy ===== *)
theory Memory_Engine
  imports Memory_Facts
begin

text \<open>
  The memory engine as a whole: every write keeps the invariant, the reachable engines, and the
  abstract specification of each write over the views a client sees.
\<close>

section \<open>The invariant is kept, continued\<close>

text \<open>The collections of e-mails and memberships that a commit starts from.\<close>

definition emails_start ::
  "(EmailSyncRecord, ScopedEmailId) CollectionMode \<Rightarrow> AccountKey \<Rightarrow> MemoryState \<Rightarrow>
   (jsstring \<times> Email) list \<times> (jsstring \<times> EmailMailbox list) list" where
  "emails_start mode ak s =
     (case mode of
        Replace _ _ \<Rightarrow>
          (filter (\<lambda>(key, value). accountKey (emId value) \<noteq> ak) (msEmails s),
           filter (\<lambda>(key, value).
               \<not> ((case value of [] \<Rightarrow> False | m # _ \<Rightarrow> accountKey (mmEmailId m) = ak) \<or>
                  (case map_of (msEmails s) key of
                     None \<Rightarrow> False | Some e \<Rightarrow> accountKey (emId e) = ak)))
             (msMemberships s))
      | Delta _ _ destroyed \<Rightarrow>
          (fold (\<lambda>i. AList.delete (emailKey i)) destroyed (msEmails s),
           fold (\<lambda>i. AList.delete (emailKey i)) destroyed (msMemberships s)))"

lemma commitEmails_Inr:
  "commitEmails mode ak s = Inr s' \<longleftrightarrow>
   (\<exists>es ms. store_emails (commit_records mode) (fst (emails_start mode ak s))
               (snd (emails_start mode ak s)) = Inr (es, ms) \<and>
            s' = s\<lparr>msEmails := es, msMemberships := ms\<rparr>)"
  by (auto simp: commitEmails_def emails_start_def Let_def bindE_Inr_iff
      split: CollectionMode.splits prod.splits)

lemma state_inv_owner:
  "state_inv s \<Longrightarrow> (map_of (msMemberships s) k = None) = (map_of (msEmails s) k = None)"
  unfolding state_inv_def by blast

text \<open>Under the invariant, a membership entry survives a replacement when its e-mail does.\<close>

lemma replaced_membership:
  assumes "state_inv s" "map_of (msMemberships s) k = Some ms"
  shows "\<exists>e. map_of (msEmails s) k = Some e \<and> k = emailKey (emId e) \<and>
     ((case ms of [] \<Rightarrow> False | m # _ \<Rightarrow> accountKey (mmEmailId m) = ak) \<longrightarrow>
      accountKey (emId e) = ak)"
proof -
  from assms obtain e where e: "map_of (msEmails s) k = Some e"
    using state_inv_owner [OF assms(1), of k] by auto
  with assms(1) have k: "k = emailKey (emId e)" using state_inv_email by blast
  from assms have "\<exists>i. k = emailKey i \<and> valid_memberships i ms"
    by (rule state_inv_membership)
  with k have "valid_memberships (emId e) ms" by (auto simp: email_keys.key_eq_iff)
  with e k show ?thesis by (auto simp: valid_memberships_def split: list.splits)
qed

lemma emails_start_lookup:
  assumes "state_inv s"
  shows "map_of (fst (emails_start mode ak s)) k =
      (case mode of
         Delta _ _ ds \<Rightarrow> if k \<in> emailKey ` set ds then None else map_of (msEmails s) k
       | Replace _ _ \<Rightarrow> (case map_of (msEmails s) k of
           None \<Rightarrow> None | Some e \<Rightarrow> if accountKey (emId e) = ak then None else Some e))"
    and "map_of (snd (emails_start mode ak s)) k =
      (case mode of
         Delta _ _ ds \<Rightarrow> if k \<in> emailKey ` set ds then None else map_of (msMemberships s) k
       | Replace _ _ \<Rightarrow> (case map_of (msEmails s) k of
           None \<Rightarrow> None
         | Some e \<Rightarrow> if accountKey (emId e) = ak then None else map_of (msMemberships s) k))"
proof -
  have ok: "map_ok (msEmails s)" "map_ok (msMemberships s)"
    using assms by (auto simp: state_inv_def entries_def)
  show "map_of (fst (emails_start mode ak s)) k =
      (case mode of
         Delta _ _ ds \<Rightarrow> if k \<in> emailKey ` set ds then None else map_of (msEmails s) k
       | Replace _ _ \<Rightarrow> (case map_of (msEmails s) k of
           None \<Rightarrow> None | Some e \<Rightarrow> if accountKey (emId e) = ak then None else Some e))"
    using ok by (auto simp: emails_start_def map_of_fold_del map_of_filter_ok
        split: CollectionMode.splits option.splits)
  show "map_of (snd (emails_start mode ak s)) k =
      (case mode of
         Delta _ _ ds \<Rightarrow> if k \<in> emailKey ` set ds then None else map_of (msMemberships s) k
       | Replace _ _ \<Rightarrow> (case map_of (msEmails s) k of
           None \<Rightarrow> None
         | Some e \<Rightarrow> if accountKey (emId e) = ak then None else map_of (msMemberships s) k))"
  proof (cases mode)
    case (Replace a b)
    show ?thesis
    proof (cases "map_of (msMemberships s) k")
      case None
      with assms have "map_of (msEmails s) k = None" by (auto simp: state_inv_def)
      with None Replace ok show ?thesis by (simp add: emails_start_def map_of_filter_ok)
    next
      case (Some ms)
      from replaced_membership [OF assms Some, of ak] Some Replace ok show ?thesis
        by (auto simp: emails_start_def map_of_filter_ok)
    qed
  qed (auto simp: emails_start_def map_of_fold_del)
qed

lemma emails_start_inv:
  assumes "state_inv s"
  shows "entries (fst (emails_start mode ak s))
      (\<lambda>k v. k = emailKey (emId v) \<and> valid_email v \<and> registered s (accountKey (emId v)))"
    and "entries (snd (emails_start mode ak s)) (\<lambda>k v. \<exists>e. k = emailKey e \<and> valid_memberships e v)"
    and "(map_of (snd (emails_start mode ak s)) k = None) =
         (map_of (fst (emails_start mode ak s)) k = None)"
proof -
  show "entries (fst (emails_start mode ak s))
      (\<lambda>k v. k = emailKey (emId v) \<and> valid_email v \<and> registered s (accountKey (emId v)))"
    using assms by (auto simp: emails_start_def state_inv_def entries_fold_del
        split: CollectionMode.splits)
  show "entries (snd (emails_start mode ak s)) (\<lambda>k v. \<exists>e. k = emailKey e \<and> valid_memberships e v)"
    using assms by (auto simp: emails_start_def state_inv_def entries_fold_del
        split: CollectionMode.splits)
  have "(map_of (msMemberships s) k = None) = (map_of (msEmails s) k = None)"
    using assms by (rule state_inv_owner)
  then show "(map_of (snd (emails_start mode ak s)) k = None) =
         (map_of (fst (emails_start mode ak s)) k = None)"
    by (auto simp: emails_start_lookup [OF assms] split: CollectionMode.splits option.splits)
qed

lemma validated_record:
  assumes "validateEmailCommit mode ak" "r \<in> set (commit_records mode)"
    "mapE cloneMembership (srMemberships r) = Inr l"
  shows "accountKey (emId (srEmail r)) = ak \<and> l = srMemberships r \<and>
     valid_memberships (emId (srEmail r)) l"
proof -
  have v: "validateEmailRecord r ak"
    using assms(1,2) by (auto simp: validateEmailCommit_def Let_def list_ex_iff split: if_splits)
  have cl: "cloneMembership x = Inr y \<Longrightarrow>
      y = x \<and> accountKey (mmMailboxId x) = accountKey (mmEmailId x)" for x y
    by (cases x) (auto simp: cloneMembership_def emailMailbox_Inr)
  then have "map (\<lambda>x. x) l = map (\<lambda>x. x) (srMemberships r)"
    by (intro mapE_map_eq [OF assms(3)]) blast
  then have l: "l = srMemberships r" by simp
  have "accountKey (mmMailboxId m) = accountKey (mmEmailId m)" if "m \<in> set l" for m
    using mapE_in_set [OF assms(3) that] cl by (blast dest: mapE_in_set)
  then show ?thesis using v l
    by (auto simp: validateEmailRecord_def valid_memberships_def list_all_iff
        membership_keys.hasDuplicates_key)
qed

lemma commitEmails_inv:
  assumes "commitEmails mode ak s = Inr s'" "state_inv s" "registered s ak"
    "validateEmailCommit mode ak"
  shows "state_inv s' \<and> registered s' = registered s"
proof -
  let ?P = "\<lambda>k v. k = emailKey (emId v) \<and> valid_email v \<and> registered s (accountKey (emId v))"
  let ?Q = "\<lambda>k v. \<exists>e. k = emailKey e \<and> valid_memberships e v"
  from assms(1) obtain es ms where m:
    "store_emails (commit_records mode) (fst (emails_start mode ak s))
       (snd (emails_start mode ak s)) = Inr (es, ms)"
    "s' = s\<lparr>msEmails := es, msMemberships := ms\<rparr>"
    by (auto simp: commitEmails_Inr)
  have "entries es ?P \<and> entries ms ?Q \<and> (\<forall>k. (map_of ms k = None) = (map_of es k = None))"
  proof (rule store_emails_entries [OF m(1) emails_start_inv(1) [OF assms(2)]
      emails_start_inv(2) [OF assms(2)]])
    fix r e assume r: "r \<in> set (commit_records mode)" "cloneEmail (srEmail r) = Inr e"
    have "validateEmailRecord r ak"
      using assms(4) r(1)
      by (auto simp: validateEmailCommit_def Let_def list_ex_iff split: if_splits)
    with r(2) assms(3) show "?P (emailKey (emId (srEmail r))) e"
      by (auto simp: cloneEmail_def validateEmailRecord_def email_keeps_id dest: email_valid)
  next
    fix r l assume "r \<in> set (commit_records mode)" "mapE cloneMembership (srMemberships r) = Inr l"
    from validated_record [OF assms(4) this] show "?Q (emailKey (emId (srEmail r))) l" by blast
  next
    fix k
    show "(map_of (snd (emails_start mode ak s)) k = None) =
        (map_of (fst (emails_start mode ak s)) k = None)"
      by (rule emails_start_inv(3) [OF assms(2)])
  qed
  with assms(2) m(2) show ?thesis by (auto simp: state_inv_def)
qed

lemma op_cases_reject [simp]: "op_cases reject eng P"
  by (simp add: op_cases_def reject_def)

lemma op_cases_I:
  "op eng = reject eng \<Longrightarrow> op_cases op eng P"
  "op eng = (Inl x, eng) \<Longrightarrow> op_cases op eng P"
  "op eng = commit_state s hints eng \<Longrightarrow> P s \<Longrightarrow> op_cases op eng P"
  "op eng = op' eng \<Longrightarrow> op_cases op' eng P \<Longrightarrow> op_cases op eng P"
  by (auto simp: op_cases_def reject_def)

text \<open>The three branches of \<open>applyCollectionSync\<close> in one equation.\<close>

fun sync_valid :: "CollectionSyncCommit \<Rightarrow> AccountKey \<Rightarrow> bool" where
  "sync_valid (EmailCommit _ mode) ak = validateEmailCommit mode ak"
| "sync_valid (MailboxCommit _ mode) ak = validateMailboxCommit mode ak"
| "sync_valid (IdentityCommit _ mode) ak = validateIdentityCommit mode ak"

fun sync_state :: "CollectionSyncCommit \<Rightarrow> AccountKey \<Rightarrow> MemoryState \<Rightarrow> MemoryState throws" where
  "sync_state (EmailCommit _ mode) ak s = commitEmails mode ak s"
| "sync_state (MailboxCommit _ mode) ak s = commitMailboxes mode ak s"
| "sync_state (IdentityCommit _ mode) ak s = commitIdentities mode ak s"

fun sync_hints :: "CollectionSyncCommit \<Rightarrow> AccountKey \<Rightarrow> LocalChangeHint list" where
  "sync_hints (EmailCommit _ _) ak = [HEmails ak, HEmailMemberships ak, HSyncCursor ak DEmail]"
| "sync_hints (MailboxCommit _ _) ak = [HMailboxes ak, HSyncCursor ak DMailbox]"
| "sync_hints (IdentityCommit _ _) ak = [HIdentities ak, HSyncCursor ak DIdentity]"

definition sync_enabled :: "CollectionSyncCommit \<Rightarrow> MemoryState \<Rightarrow> bool" where
  "sync_enabled commit s \<longleftrightarrow>
     (let nxt = nextCursor_of commit in
      registered s (cuAccountKey nxt) \<and> cuDataType nxt = kind_of commit \<and>
      cursorPreconditionHolds s (expectedCursor_of commit) nxt \<and>
      sync_valid commit (cuAccountKey nxt))"

lemma applyCollectionSync_eq:
  "applyCollectionSync commit eng =
     (if sync_enabled commit (meState eng)
      then finish_sync (sync_state commit (cuAccountKey (nextCursor_of commit)) (meState eng))
             (nextCursor_of commit)
             (sync_hints commit (cuAccountKey (nextCursor_of commit))) eng
      else reject eng)"
  by (cases commit) (simp_all only: applyCollectionSync_def Let_def sync_enabled_def
      registered_iff sync_valid.simps sync_state.simps sync_hints.simps
      CollectionSyncCommit.case kind_of.simps if_distrib simp_thms split: if_splits, auto)

lemma sync_state_inv:
  assumes "state_inv s" "sync_enabled commit s"
    "sync_state commit (cuAccountKey (nextCursor_of commit)) s = Inr s'"
  shows "state_inv s' \<and> registered s' = registered s"
  using assms commitEmails_inv commitMailboxes_inv commitIdentities_inv
  by (cases commit) (simp_all add: sync_enabled_def Let_def)

lemma applyCollectionSync_inv:
  assumes "state_inv (meState eng)"
  shows "op_cases (applyCollectionSync commit) eng state_inv"
proof (cases "sync_enabled commit (meState eng)")
  case True
  then have "registered (meState eng) (cuAccountKey (nextCursor_of commit))"
    by (simp add: sync_enabled_def Let_def)
  from finish_sync_inv [OF this sync_state_inv [OF assms True]] True show ?thesis
    by (simp add: op_cases_def applyCollectionSync_eq)
next
  case False
  then show ?thesis by (simp add: op_cases_def applyCollectionSync_eq reject_def)
qed

lemma cacheEmailBody_inv:
  assumes "state_inv (meState eng)"
  shows "op_cases (cacheEmailBody body) eng state_inv"
proof -
  let ?s = "meState eng"
  have "state_inv (?s\<lparr>msBodies := AList.update (emailKey (boEmailId body)) body (msBodies ?s)\<rparr>)"
    using assms by (auto simp: state_inv_def)
  then show ?thesis by (auto simp: op_cases_def cacheEmailBody_def Let_def reject_def)
qed

lemma accepted_refs:
  assumes "mapE cloneAttachment refs = Inr values"
    "list_all (\<lambda>v. sameScopedEmailId (atEmailId v) e) refs"
    "\<not> hasDuplicates refs (\<lambda>v. attachmentKey (atEmailId v, atPartId v))"
  shows "values = refs \<and> valid_refs e refs"
proof -
  have c: "cloneAttachment x = Inr y \<Longrightarrow> y = x \<and> valid_attachment x" for x y
    by (auto simp: cloneAttachment_def attachmentRef_Inr)
  then have "map (\<lambda>x. x) values = map (\<lambda>x. x) refs"
    by (intro mapE_map_eq [OF assms(1)]) blast
  then have eq: "values = refs" by simp
  have "valid_attachment r" if "r \<in> set refs" for r
    using mapE_in_set [OF assms(1), of r] that eq c by blast
  moreover have "distinct (map atPartId refs)"
    using assms(2,3)
    by (auto simp: attachment_keys.hasDuplicates_key distinct_map inj_on_def list_all_iff)
  ultimately show ?thesis using eq assms(2) by (auto simp: valid_refs_def list_all_iff)
qed

lemma replaceAttachmentRefs_inv:
  assumes "state_inv (meState eng)"
  shows "op_cases (replaceAttachmentRefs e refs) eng state_inv"
proof -
  let ?s = "meState eng"
  have "state_inv (?s\<lparr>msAttachments := AList.update (emailKey e) values (msAttachments ?s)\<rparr>)"
    if "mapE cloneAttachment refs = Inr values"
      "list_all (\<lambda>v. sameScopedEmailId (atEmailId v) e) refs"
      "\<not> hasDuplicates refs (\<lambda>v. attachmentKey (atEmailId v, atPartId v))" for "values"
    using accepted_refs [OF that] assms by (auto simp: state_inv_def)
  then show ?thesis
    by (auto simp: op_cases_def replaceAttachmentRefs_def Let_def reject_def list_ex_iff
        list_all_iff split: sum.splits)
qed

lemma replaceMailboxView_inv:
  assumes "state_inv (meState eng)"
  shows "op_cases (replaceMailboxView view) eng state_inv"
proof -
  let ?s = "meState eng"
  have "state_inv (?s\<lparr>msViews := AList.update (viewKey (mvSpec view)) v (msViews ?s)\<rparr>)"
    if "cloneView view = Inr v" for v
    using that assms by (auto simp: state_inv_def cloneView_def mailboxView_Inr)
  then show ?thesis
    by (auto simp: op_cases_def replaceMailboxView_def Let_def reject_def split: sum.splits)
qed

text \<open>Storing a mutation under its key; the lemma the optimistic writes share.\<close>

lemma state_inv_store_mutation:
  assumes "state_inv s" "registered s (pmAccountKey m)"
  shows "state_inv (s\<lparr>msMutations := AList.update
           (mutationKey (pmAccountKey m) (pmMutationId m)) (cloneMutation m) (msMutations s)\<rparr>)"
proof -
  let ?P = "\<lambda>k v. k = mutationKey (pmAccountKey v) (pmMutationId v) \<and> typed_mutation v \<and>
      registered s (pmAccountKey v)"
  have "entries (AList.update (mutationKey (pmAccountKey m) (pmMutationId m)) (cloneMutation m)
      (msMutations s)) ?P"
    using assms by (intro entries_set) (simp_all add: state_inv_def)
  with assms(1) show ?thesis by (simp add: state_inv_def)
qed

lemma stageSendMutation_inv:
  assumes "state_inv (meState eng)"
  shows "op_cases (stageSendMutation m) eng state_inv"
  using state_inv_store_mutation [OF assms, of m]
  by (auto simp: op_cases_def stageSendMutation_def Let_def reject_def registered_iff)

lemma state_inv_store_email:
  assumes "state_inv s" "map_of (msEmails s) (emailKey e) = Some old" "emId x = emId old"
    "valid_email x"
  shows "state_inv (s\<lparr>msEmails := AList.update (emailKey e) x (msEmails s)\<rparr>)"
proof -
  let ?P = "\<lambda>k v. k = emailKey (emId v) \<and> valid_email v \<and> registered s (accountKey (emId v))"
  have P: "entries (msEmails s) ?P" using assms(1) unfolding state_inv_def by blast
  then have "?P (emailKey e) old" using assms(2) by (rule entriesD)
  then have "entries (AList.update (emailKey e) x (msEmails s)) ?P"
    using P assms(3,4) by (intro entries_set) simp_all
  with assms(1,2) show ?thesis by (auto simp: state_inv_def)
qed

lemma applyOptimisticKeywordMutation_inv:
  assumes "state_inv (meState eng)"
  shows "op_cases (applyOptimisticKeywordMutation m e change) eng state_inv"
proof -
  let ?s = "meState eng"
  have "state_inv (?s\<lparr>msEmails := AList.update (emailKey e) x (msEmails ?s),
      msMutations := AList.update (mutationKey (pmAccountKey m) (pmMutationId m))
        (cloneMutation m) (msMutations ?s)\<rparr>)"
    if "map_of (msEmails ?s) (emailKey e) = Some target" "registered ?s (pmAccountKey m)"
      "bindE (keywordSet (changed_keywords change (emKeywords target)))
         (\<lambda>keywords. email (target\<lparr>emKeywords := keywords\<rparr>)) = Inr x" for target x
  proof -
    from that(3) obtain k where k: "email (target\<lparr>emKeywords := k\<rparr>) = Inr x"
      by (auto simp: bindE_Inr_iff)
    from email_keeps_id [OF k] email_valid [OF k] that(1)
    have "state_inv (?s\<lparr>msEmails := AList.update (emailKey e) x (msEmails ?s)\<rparr>)"
      by (intro state_inv_store_email [OF assms]) simp_all
    from state_inv_store_mutation [OF this, of m] that(2) show ?thesis by simp
  qed
  then show ?thesis
    by (auto simp: op_cases_def applyOptimisticKeywordMutation_def Let_def reject_def
        registered_iff split: option.splits sum.splits)
qed

text \<open>The loop over the added mailboxes appends the ones that are missing.\<close>

lemma add_memberships_Inr:
  assumes "add_memberships e ids ms = Inr ms'" "valid_memberships e ms"
  shows "valid_memberships e ms' \<and> mmMailboxId ` set ms' = mmMailboxId ` set ms \<union> set ids \<and>
     (\<exists>rest. ms' = ms @ rest)"
  using assms
proof (induction ids arbitrary: ms)
  case (Cons i ids)
  show ?case
  proof (cases "i \<in> mmMailboxId ` set ms")
    case True
    then have "add_memberships e ids ms = Inr ms'"
      using Cons.prems(1) by (auto simp: list_ex_iff split: if_splits)
    from Cons.IH [OF this Cons.prems(2)] True show ?thesis by auto
  next
    case False
    let ?m = "\<lparr>mmEmailId = e, mmMailboxId = i\<rparr>"
    from False have "\<not> list_ex (\<lambda>entry. sameScopedMailboxId (mmMailboxId entry) i) ms"
      by (auto simp: list_ex_iff)
    with Cons.prems(1) have add: "accountKey i = accountKey e"
      "add_memberships e ids (ms @ [?m]) = Inr ms'"
      by (auto simp: bindE_Inr_iff emailMailbox_Inr)
    have "valid_memberships e (ms @ [?m])"
      using Cons.prems(2) add(1) False by (force simp: valid_memberships_def)
    from Cons.IH [OF add(2) this] show ?thesis by auto
  qed
qed simp

lemma remaining_valid:
  "valid_memberships e ms \<Longrightarrow> valid_memberships e (remaining_memberships change ms)"
  by (auto simp: valid_memberships_def remaining_memberships_def)

lemma remaining_mailboxes:
  "mmMailboxId ` set (remaining_memberships change ms) =
   mmMailboxId ` set ms - set (mcRemove change)"
  by (auto simp: remaining_memberships_def list_ex_iff)

text \<open>The memberships the membership mutation finds, and those it stores.\<close>

definition memberships_of :: "MemoryState \<Rightarrow> ScopedEmailId \<Rightarrow> EmailMailbox list" where
  "memberships_of s e = (case map_of (msMemberships s) (emailKey e) of None \<Rightarrow> [] | Some ms \<Rightarrow> ms)"

lemma memberships_of_valid: "state_inv s \<Longrightarrow> valid_memberships e (memberships_of s e)"
proof (cases "map_of (msMemberships s) (emailKey e)")
  case (Some ms)
  assume "state_inv s"
  from state_inv_membership [OF this Some] Some show ?thesis
    by (auto simp: memberships_of_def email_keys.key_eq_iff)
qed (simp add: memberships_of_def valid_memberships_def)

lemma membership_change_stored:
  assumes "state_inv s"
    "add_memberships e (mcAdd change) (remaining_memberships change (memberships_of s e)) = Inr nx"
    "mapE cloneMembership nx = Inr values"
  shows "values = nx \<and> valid_memberships e nx \<and>
     mmMailboxId ` set nx =
       mmMailboxId ` set (memberships_of s e) - set (mcRemove change) \<union> set (mcAdd change)"
proof -
  from add_memberships_Inr [OF assms(2) remaining_valid [OF memberships_of_valid [OF assms(1)]]]
  have v: "valid_memberships e nx" "mmMailboxId ` set nx =
      mmMailboxId ` set (memberships_of s e) - set (mcRemove change) \<union> set (mcAdd change)"
    by (simp_all add: remaining_mailboxes)
  from clone_memberships [OF v(1)] assms(3) v show ?thesis by simp
qed

lemma applyOptimisticMailboxMembershipMutation_inv:
  assumes "state_inv (meState eng)"
  shows "op_cases (applyOptimisticMailboxMembershipMutation m e change) eng state_inv"
proof -
  let ?s = "meState eng"
  have "state_inv (?s\<lparr>msMemberships := AList.update (emailKey e) values (msMemberships ?s),
      msMutations := AList.update (mutationKey (pmAccountKey m) (pmMutationId m))
        (cloneMutation m) (msMutations ?s)\<rparr>)"
    if "map_has (msEmails ?s) (emailKey e)" "registered ?s (pmAccountKey m)"
      "add_memberships e (mcAdd change)
         (remaining_memberships change (memberships_of ?s e)) = Inr nx"
      "mapE cloneMembership nx = Inr values" for "values" nx
  proof -
    from membership_change_stored [OF assms that(3,4)] have v: "valid_memberships e values" by simp
    let ?Q = "\<lambda>k v. \<exists>e. k = emailKey e \<and> valid_memberships e v"
    have "entries (msMemberships ?s) ?Q" using assms unfolding state_inv_def by blast
    then have "entries (AList.update (emailKey e) values (msMemberships ?s)) ?Q"
      using v by (intro entries_set) blast+
    then have "state_inv (?s\<lparr>msMemberships :=
        AList.update (emailKey e) values (msMemberships ?s)\<rparr>)"
      using assms that(1) by (simp add: state_inv_def map_has_iff)
    from state_inv_store_mutation [OF this, of m] that(2) show ?thesis by simp
  qed
  then show ?thesis
    by (auto simp: op_cases_def applyOptimisticMailboxMembershipMutation_def Let_def reject_def
        registered_iff memberships_of_def [symmetric] split: sum.splits)
qed

lemma replacePendingMutationIfCurrent_inv:
  assumes "state_inv (meState eng)"
  shows "op_cases (replacePendingMutationIfCurrent old new) eng state_inv"
proof -
  let ?s = "meState eng"
  have "state_inv (?s\<lparr>msMutations := AList.update
      (mutationKey (pmAccountKey old) (pmMutationId old)) (cloneMutation new) (msMutations ?s)\<rparr>)"
    if "map_of (msMutations ?s) (mutationKey (pmAccountKey old) (pmMutationId old)) = Some cur"
      "mutationsEqual cur old" "sameImmutableMutation old new" for cur
  proof -
    have "registered ?s (pmAccountKey new)"
      using state_inv_mutation [OF assms that(1)] that(2,3)
      by (auto simp: mutationsEqual_iff sameImmutableMutation_iff)
    from state_inv_store_mutation [OF assms this] that(3) show ?thesis
      by (simp add: sameImmutableMutation_iff)
  qed
  then show ?thesis
    by (auto simp: op_cases_def replacePendingMutationIfCurrent_def Let_def reject_def
        split: option.splits)
qed

lemma removeConfirmedMutation_inv:
  assumes "state_inv (meState eng)"
  shows "op_cases (removeConfirmedMutation ak mid) eng state_inv"
proof -
  let ?s = "meState eng"
  have "state_inv (?s\<lparr>msMutations := AList.delete (mutationKey ak mid) (msMutations ?s)\<rparr>)"
    using assms by (auto simp: state_inv_def)
  then show ?thesis
    by (auto simp: op_cases_def removeConfirmedMutation_def Let_def reject_def
        split: option.splits)
qed

end
