(* ===== verification/Memory_Spec.thy ===== *)
theory Memory_Spec
  imports Memory_Engine
begin

text \<open>
  The abstract specification of the memory engine: partial functions from identifiers to
  values, the effect of each write on them, and the proof that the keyed association lists of
  the code implement it. The reachable engines are those a client can get by any sequence of
  writes and subscriptions.
\<close>

section \<open>Operations of a client\<close>

datatype EngineOp =
    OpRegister Account
  | OpSync CollectionSyncCommit
  | OpBody EmailBody
  | OpRefs ScopedEmailId "AttachmentRef list"
  | OpView MailboxView
  | OpStage PendingMutation
  | OpKeyword PendingMutation ScopedEmailId KeywordChange
  | OpMembership PendingMutation ScopedEmailId MailboxMembershipChange
  | OpReplaceMutation PendingMutation PendingMutation
  | OpRemove AccountKey MutationId

fun run_write :: "EngineOp \<Rightarrow> engine_op" where
  "run_write (OpRegister a) = registerAccount a"
| "run_write (OpSync c) = applyCollectionSync c"
| "run_write (OpBody b) = cacheEmailBody b"
| "run_write (OpRefs e refs) = replaceAttachmentRefs e refs"
| "run_write (OpView v) = replaceMailboxView v"
| "run_write (OpStage m) = stageSendMutation m"
| "run_write (OpKeyword m e c) = applyOptimisticKeywordMutation m e c"
| "run_write (OpMembership m e c) = applyOptimisticMailboxMembershipMutation m e c"
| "run_write (OpReplaceMutation expected nextM) = replacePendingMutationIfCurrent expected nextM"
| "run_write (OpRemove ak mid) = removeConfirmedMutation ak mid"

inductive reachable :: "MemoryEngine \<Rightarrow> bool" where
  created: "reachable createMemoryLocalEngine"
| wrote: "reachable eng \<Longrightarrow> reachable (snd (run_write op eng))"
| subscribed: "reachable eng \<Longrightarrow>
    reachable (eng\<lparr>meHub := snd (source_subscribe listener (meHub eng))\<rparr>)"
| unsubscribed: "reachable eng \<Longrightarrow>
    reachable (eng\<lparr>meHub := snd (source_unsubscribe subscription (meHub eng))\<rparr>)"
| disposed: "reachable eng \<Longrightarrow> reachable (engine_dispose eng)"

lemmas write_inv =
  registerAccount_inv applyCollectionSync_inv cacheEmailBody_inv replaceAttachmentRefs_inv
  replaceMailboxView_inv stageSendMutation_inv applyOptimisticKeywordMutation_inv
  applyOptimisticMailboxMembershipMutation_inv replacePendingMutationIfCurrent_inv
  removeConfirmedMutation_inv

lemma write_cases: "state_inv (meState eng) \<Longrightarrow> op_cases (run_write op) eng state_inv"
  by (cases op) (simp_all add: write_inv)

lemma write_engine_inv: "engine_inv eng \<Longrightarrow> engine_inv (snd (run_write op eng))"
  using write_cases op_cases_inv by (auto simp: engine_inv_def)

lemma source_subscribe_hub: "snd (source_subscribe l hub) = snd (hub_subscribe l hub)"
  by (simp add: source_subscribe_def split: prod.splits)

lemma hub_ok_clear: "hub_ok (hub_clear hub)"
  by (simp add: hub_ok_def hub_clear_def)

lemma reachable_engine_inv: "reachable eng \<Longrightarrow> engine_inv eng"
proof (induction rule: reachable.induct)
  case created
  show ?case by (simp add: engine_inv_def createMemoryLocalEngine_def state_inv_new hub_ok_new)
next
  case (wrote eng op)
  then show ?case by (simp add: write_engine_inv)
next
  case (subscribed eng listener)
  then show ?case by (simp add: engine_inv_def source_subscribe_hub hub_ok_subscribe)
next
  case (unsubscribed eng subscription)
  then show ?case by (simp add: engine_inv_def source_unsubscribe_def hub_ok_unsubscribe)
next
  case (disposed eng)
  then show ?case by (simp add: engine_inv_def engine_dispose_def hub_ok_clear)
qed

lemma reachable_state_inv: "reachable eng \<Longrightarrow> state_inv (meState eng)"
  using reachable_engine_inv by (simp add: engine_inv_def)

section \<open>The abstract store\<close>

record AStore =
  aAccount :: "AccountKey \<Rightarrow> Account option"
  aMailbox :: "ScopedMailboxId \<Rightarrow> Mailbox option"
  aIdentity :: "ScopedIdentityId \<Rightarrow> Identity option"
  aEmail :: "ScopedEmailId \<Rightarrow> Email option"
  aMemberships :: "ScopedEmailId \<Rightarrow> ScopedMailboxId set option"
  aBody :: "ScopedEmailId \<Rightarrow> EmailBody option"
  aRefs :: "ScopedEmailId \<Rightarrow> AttachmentRef list option"
  aView :: "MailboxViewSpec \<Rightarrow> MailboxView option"
  aCursor :: "AccountKey \<Rightarrow> CollectionDataType \<Rightarrow> CollectionSyncCursor option"
  aMutation :: "AccountKey \<Rightarrow> MutationId \<Rightarrow> PendingMutation option"

definition mailbox_set :: "EmailMailbox list \<Rightarrow> ScopedMailboxId set" where
  "mailbox_set ms = mmMailboxId ` set ms"

definition astore :: "MemoryState \<Rightarrow> AStore" where
  "astore s =
     \<lparr>aAccount = map_of (msAccounts s),
      aMailbox = (\<lambda>i. map_of (msMailboxes s) (mailboxKey i)),
      aIdentity = (\<lambda>i. map_of (msIdentities s) (identityKey i)),
      aEmail = (\<lambda>i. map_of (msEmails s) (emailKey i)),
      aMemberships = (\<lambda>i. map_option mailbox_set (map_of (msMemberships s) (emailKey i))),
      aBody = (\<lambda>i. map_of (msBodies s) (emailKey i)),
      aRefs = (\<lambda>i. map_of (msAttachments s) (emailKey i)),
      aView = (\<lambda>v. map_of (msViews s) (viewKey v)),
      aCursor = (\<lambda>ak d. map_of (msCursors s) (cursorKey ak d)),
      aMutation = (\<lambda>ak mid. map_of (msMutations s) (mutationKey ak mid))\<rparr>"

definition normal_email :: "Email \<Rightarrow> Email" where
  "normal_email e = e\<lparr>emKeywords := set_of_list (emKeywords e)\<rparr>"

definition with_cursor :: "CollectionSyncCursor \<Rightarrow> AStore \<Rightarrow> AStore" where
  "with_cursor c a = a\<lparr>aCursor := (aCursor a)
     (cuAccountKey c := (aCursor a (cuAccountKey c))(cuDataType c := Some c))\<rparr>"

fun async :: "CollectionSyncCommit \<Rightarrow> AccountKey \<Rightarrow> AStore \<Rightarrow> AStore" where
  "async (EmailCommit _ mode) ak a =
     a\<lparr>aEmail := sync_spec (\<lambda>r. emId (srEmail r)) (\<lambda>r. normal_email (srEmail r)) ak mode (aEmail a),
       aMemberships := sync_spec (\<lambda>r. emId (srEmail r)) (\<lambda>r. mailbox_set (srMemberships r)) ak mode
         (aMemberships a)\<rparr>"
| "async (MailboxCommit _ mode) ak a =
     a\<lparr>aMailbox := sync_spec mbId (\<lambda>v. v) ak mode (aMailbox a)\<rparr>"
| "async (IdentityCommit _ mode) ak a =
     a\<lparr>aIdentity := sync_spec idId (\<lambda>v. v) ak mode (aIdentity a)\<rparr>"

lemma astore_simps [simp]:
  "aAccount (astore s) = map_of (msAccounts s)"
  "aMailbox (astore s) = (\<lambda>i. map_of (msMailboxes s) (mailboxKey i))"
  "aIdentity (astore s) = (\<lambda>i. map_of (msIdentities s) (identityKey i))"
  "aEmail (astore s) = (\<lambda>i. map_of (msEmails s) (emailKey i))"
  "aMemberships (astore s) =
     (\<lambda>i. map_option mailbox_set (map_of (msMemberships s) (emailKey i)))"
  "aBody (astore s) = (\<lambda>i. map_of (msBodies s) (emailKey i))"
  "aRefs (astore s) = (\<lambda>i. map_of (msAttachments s) (emailKey i))"
  "aView (astore s) = (\<lambda>v. map_of (msViews s) (viewKey v))"
  "aCursor (astore s) = (\<lambda>ak d. map_of (msCursors s) (cursorKey ak d))"
  "aMutation (astore s) = (\<lambda>ak mid. map_of (msMutations s) (mutationKey ak mid))"
  by (simp_all add: astore_def)

lemma AStore_eqI:
  fixes a b :: AStore
  assumes "\<And>k. aAccount a k = aAccount b k" "\<And>i. aMailbox a i = aMailbox b i"
    "\<And>i. aIdentity a i = aIdentity b i" "\<And>i. aEmail a i = aEmail b i"
    "\<And>i. aMemberships a i = aMemberships b i" "\<And>i. aBody a i = aBody b i"
    "\<And>i. aRefs a i = aRefs b i" "\<And>v. aView a v = aView b v"
    "\<And>k d. aCursor a k d = aCursor b k d" "\<And>k m. aMutation a k m = aMutation b k m"
  shows "a = b"
  using assms by (intro AStore.equality) (auto simp: fun_eq_iff)

lemma cursorKey_eq [simp]: "cursorKey a d = cursorKey b e \<longleftrightarrow> a = b \<and> d = e"
  using cursor_keys.key_eq_iff [of "(a, d)" "(b, e)"] by auto

lemma mutationKey_eq [simp]: "mutationKey a m = mutationKey b n \<longleftrightarrow> a = b \<and> m = n"
  using mutation_keys.key_eq_iff [of "(a, m)" "(b, n)"] by auto

lemmas store_keys_eq [simp] =
  mailbox_keys.key_eq_iff identity_keys.key_eq_iff email_keys.key_eq_iff view_keys.key_eq_iff

section \<open>Collection commits\<close>

lemma commit_records_distinct:
  "validateEmailCommit m ak \<Longrightarrow> distinct (map (\<lambda>r. emId (srEmail r)) (commit_records m))"
  "validateMailboxCommit n ak \<Longrightarrow> distinct (map mbId (commit_records n))"
  "validateIdentityCommit i ak \<Longrightarrow> distinct (map idId (commit_records i))"
  by (auto simp: validateEmailCommit_def validateMailboxCommit_def validateIdentityCommit_def
      email_keys.hasDuplicates_key mailbox_keys.hasDuplicates_key
      identity_keys.hasDuplicates_key Let_def split: if_splits)

lemma commitMailboxes_spec:
  assumes "commitMailboxes mode ak s = Inr s'" "state_inv s" "validateMailboxCommit mode ak"
  shows "\<exists>m. s' = s\<lparr>msMailboxes := m\<rparr> \<and>
     (\<forall>i. map_of m (mailboxKey i) =
       sync_spec mbId (\<lambda>v. v) ak mode (\<lambda>i. map_of (msMailboxes s) (mailboxKey i)) i)"
proof -
  from assms(1) obtain kept m where m:
    "store_values (\<lambda>v. mailboxKey (mbId v)) cloneMailbox (commit_records mode) kept = Inr m"
    "s' = s\<lparr>msMailboxes := m\<rparr>"
    "kept = (case mode of
        Replace _ _ \<Rightarrow> filter (\<lambda>(key, value). accountKey (mbId value) \<noteq> ak) (msMailboxes s)
      | Delta _ _ destroyed \<Rightarrow> fold (\<lambda>i. AList.delete (mailboxKey i)) destroyed (msMailboxes s))"
    by (auto simp: commitMailboxes_def Let_def bindE_Inr_iff)
  have ok: "map_ok (msMailboxes s)" using assms(2) by (auto simp: state_inv_def entries_def)
  have own: "map_of (msMailboxes s) (mailboxKey i) = Some v \<Longrightarrow> mbId v = i" for v i
    using state_inv_mailbox [OF assms(2)] by fastforce
  have "map_of kept (mailboxKey i) =
      (case mode of
         Delta _ _ ds \<Rightarrow> if i \<in> set ds then None else map_of (msMailboxes s) (mailboxKey i)
       | Replace _ _ \<Rightarrow> if accountKey i = ak then None else map_of (msMailboxes s) (mailboxKey i))" for i
    using ok own by (auto simp: m(3) mailbox_keys.fold_del_lookup map_of_filter_ok
        split: CollectionMode.splits option.splits)
  with mailbox_keys.store_values_lookup [OF m(1) _ commit_records_distinct(2) [OF assms(3)]]
  show ?thesis using m(2)
    by (auto simp: sync_spec_def cloneMailbox_def mailbox_Inr split: option.splits)
qed

lemma commitIdentities_spec:
  assumes "commitIdentities mode ak s = Inr s'" "state_inv s" "validateIdentityCommit mode ak"
  shows "\<exists>m. s' = s\<lparr>msIdentities := m\<rparr> \<and>
     (\<forall>i. map_of m (identityKey i) =
       sync_spec idId (\<lambda>v. v) ak mode (\<lambda>i. map_of (msIdentities s) (identityKey i)) i)"
proof -
  from assms(1) obtain kept m where m:
    "store_values (\<lambda>v. identityKey (idId v)) cloneIdentity (commit_records mode) kept = Inr m"
    "s' = s\<lparr>msIdentities := m\<rparr>"
    "kept = (case mode of
        Replace _ _ \<Rightarrow> filter (\<lambda>(key, value). accountKey (idId value) \<noteq> ak) (msIdentities s)
      | Delta _ _ destroyed \<Rightarrow>
          fold (\<lambda>i. AList.delete (identityKey i)) destroyed (msIdentities s))"
    by (auto simp: commitIdentities_def Let_def bindE_Inr_iff)
  have ok: "map_ok (msIdentities s)" using assms(2) by (auto simp: state_inv_def entries_def)
  have own: "map_of (msIdentities s) (identityKey i) = Some v \<Longrightarrow> idId v = i" for v i
    using state_inv_identity [OF assms(2)] by fastforce
  have "map_of kept (identityKey i) =
      (case mode of
         Delta _ _ ds \<Rightarrow> if i \<in> set ds then None else map_of (msIdentities s) (identityKey i)
       | Replace _ _ \<Rightarrow>
           if accountKey i = ak then None else map_of (msIdentities s) (identityKey i))" for i
    using ok own by (auto simp: m(3) identity_keys.fold_del_lookup map_of_filter_ok
        split: CollectionMode.splits option.splits)
  with identity_keys.store_values_lookup [OF m(1) _ commit_records_distinct(3) [OF assms(3)]]
  show ?thesis using m(2)
    by (auto simp: sync_spec_def cloneIdentity_def identity_Inr split: option.splits)
qed

lemma commitEmails_spec:
  assumes "commitEmails mode ak s = Inr s'" "state_inv s" "validateEmailCommit mode ak"
  shows "\<exists>es ms. s' = s\<lparr>msEmails := es, msMemberships := ms\<rparr> \<and>
     (\<forall>i. map_of es (emailKey i) =
       sync_spec (\<lambda>r. emId (srEmail r)) (\<lambda>r. normal_email (srEmail r)) ak mode
         (\<lambda>i. map_of (msEmails s) (emailKey i)) i) \<and>
     (\<forall>i. map_of ms (emailKey i) =
       sync_spec (\<lambda>r. emId (srEmail r)) srMemberships ak mode
         (\<lambda>i. map_of (msMemberships s) (emailKey i)) i)"
proof -
  from assms(1) obtain es ms where m:
    "store_emails (commit_records mode) (fst (emails_start mode ak s))
       (snd (emails_start mode ak s)) = Inr (es, ms)"
    "s' = s\<lparr>msEmails := es, msMemberships := ms\<rparr>"
    by (auto simp: commitEmails_Inr)
  have own: "map_of (msEmails s) (emailKey i) = Some v \<Longrightarrow> emId v = i" for v i
    using state_inv_email [OF assms(2)] by fastforce
  have none: "map_of (msEmails s) k = None \<Longrightarrow> map_of (msMemberships s) k = None" for k
    using state_inv_owner [OF assms(2)] by blast
  have start: "map_of (fst (emails_start mode ak s)) (emailKey i) =
      (case mode of
         Delta _ _ ds \<Rightarrow> if i \<in> set ds then None else map_of (msEmails s) (emailKey i)
       | Replace _ _ \<Rightarrow> if accountKey i = ak then None else map_of (msEmails s) (emailKey i))"
    "map_of (snd (emails_start mode ak s)) (emailKey i) =
      (case mode of
         Delta _ _ ds \<Rightarrow> if i \<in> set ds then None else map_of (msMemberships s) (emailKey i)
       | Replace _ _ \<Rightarrow> if accountKey i = ak then None else map_of (msMemberships s) (emailKey i))"
    for i
    using own none by (auto simp: emails_start_lookup [OF assms(2)] image_iff
        split: CollectionMode.splits option.splits)
  note look = store_emails_lookup [OF m(1) commit_records_distinct(1) [OF assms(3)]]
  have "map_of es (emailKey i) =
      sync_spec (\<lambda>r. emId (srEmail r)) (\<lambda>r. normal_email (srEmail r)) ak mode
        (\<lambda>i. map_of (msEmails s) (emailKey i)) i" for i
    unfolding look [THEN conjunct1] start sync_spec_def normal_email_def ..
  moreover have "map_of ms (emailKey i) =
      sync_spec (\<lambda>r. emId (srEmail r)) srMemberships ak mode
        (\<lambda>i. map_of (msMemberships s) (emailKey i)) i" for i
    unfolding look [THEN conjunct2] start sync_spec_def ..
  ultimately show ?thesis using m(2) by blast
qed

text \<open>A commit that succeeds has the abstract effect, and moves the cursor it names only.\<close>

lemma sync_spec_map:
  "map_option g (sync_spec id_of val_of ak mode m i) =
   sync_spec id_of (\<lambda>r. g (val_of r)) ak mode (\<lambda>i. map_option g (m i)) i"
  by (simp add: sync_spec_def split: option.splits CollectionMode.splits)

lemma sync_state_astore:
  assumes "state_inv s" "sync_valid commit ak" "sync_state commit ak s = Inr s'"
  shows "astore s' = async commit ak (astore s)"
proof (cases commit)
  case (EmailCommit c mode)
  with commitEmails_spec [of mode ak s s'] assms show ?thesis
    by (auto intro!: AStore_eqI simp: sync_spec_map)
next
  case (MailboxCommit c mode)
  with commitMailboxes_spec [of mode ak s s'] assms show ?thesis by (auto intro!: AStore_eqI)
next
  case (IdentityCommit c mode)
  with commitIdentities_spec [of mode ak s s'] assms show ?thesis by (auto intro!: AStore_eqI)
qed

lemma astore_cursor:
  "astore (s\<lparr>msCursors := AList.update (cursorKey (cuAccountKey c) (cuDataType c)) c
      (msCursors s)\<rparr>) = with_cursor c (astore s)"
  by (auto intro!: AStore_eqI simp: with_cursor_def)

lemma applyCollectionSync_refines:
  assumes "state_inv (meState eng)" "applyCollectionSync commit eng = (Inr writeOk, eng')"
  shows "sync_enabled commit (meState eng) \<and>
     astore (meState eng') = with_cursor (nextCursor_of commit)
       (async commit (cuAccountKey (nextCursor_of commit)) (astore (meState eng)))"
proof -
  have en: "sync_enabled commit (meState eng)"
    using assms(2) by (auto simp: applyCollectionSync_eq reject_def conflict_def writeOk_def
        split: if_splits)
  with assms(2) obtain s' where s':
    "sync_state commit (cuAccountKey (nextCursor_of commit)) (meState eng) = Inr s'"
    "meState eng' = s'\<lparr>msCursors := AList.update
       (cursorKey (cuAccountKey (nextCursor_of commit)) (cuDataType (nextCursor_of commit)))
       (nextCursor_of commit) (msCursors s')\<rparr>"
    by (auto simp: applyCollectionSync_eq finish_sync_def commit_state_def publish_def
        split: sum.splits)
  from en have "sync_valid commit (cuAccountKey (nextCursor_of commit))"
    by (simp add: sync_enabled_def Let_def)
  from sync_state_astore [OF assms(1) this s'(1)] en s'(2) show ?thesis
    by (simp add: astore_cursor)
qed

section \<open>Every write\<close>

text \<open>The abstract guard of a write, and its effect when it succeeds.\<close>

definition wf_delta ::
  "('r \<Rightarrow> ScopedId) \<Rightarrow> AccountKey \<Rightarrow> ('r, ScopedId) CollectionMode \<Rightarrow> bool" where
  "wf_delta id_of ak mode \<longleftrightarrow>
     distinct (map id_of (commit_records mode)) \<and>
     (\<forall>r \<in> set (commit_records mode). accountKey (id_of r) = ak) \<and>
     (case mode of
        Replace _ _ \<Rightarrow> True
      | Delta _ changed destroyed \<Rightarrow>
          distinct destroyed \<and> (\<forall>i \<in> set destroyed. accountKey i = ak) \<and>
          id_of ` set changed \<inter> set destroyed = {})"

definition wf_record :: "EmailSyncRecord \<Rightarrow> bool" where
  "wf_record r \<longleftrightarrow>
     (\<forall>m \<in> set (srMemberships r). mmEmailId m = emId (srEmail r)) \<and> distinct (srMemberships r)"

fun wf_commit :: "CollectionSyncCommit \<Rightarrow> AccountKey \<Rightarrow> bool" where
  "wf_commit (EmailCommit _ mode) ak =
     (wf_delta (\<lambda>r. emId (srEmail r)) ak mode \<and> (\<forall>r \<in> set (commit_records mode). wf_record r))"
| "wf_commit (MailboxCommit _ mode) ak = wf_delta mbId ak mode"
| "wf_commit (IdentityCommit _ mode) ak = wf_delta idId ak mode"

fun expected_cursor :: "CollectionCursorPrecondition \<Rightarrow> CollectionSyncCursor option" where
  "expected_cursor CursorAbsent = None"
| "expected_cursor (CursorMatches c) = Some c"

fun aenabled :: "EngineOp \<Rightarrow> AStore \<Rightarrow> bool" where
  "aenabled (OpRegister v) a =
     (\<forall>c. aAccount a (acKey v) = Some c \<longrightarrow> acRemoteRef c = acRemoteRef v)"
| "aenabled (OpSync c) a =
     (let n = nextCursor_of c in
      aAccount a (cuAccountKey n) \<noteq> None \<and> cuDataType n = kind_of c \<and>
      aCursor a (cuAccountKey n) (cuDataType n) = expected_cursor (expectedCursor_of c) \<and>
      wf_commit c (cuAccountKey n))"
| "aenabled (OpBody b) a = (aEmail a (boEmailId b) \<noteq> None)"
| "aenabled (OpRefs e rs) a =
     (aEmail a e \<noteq> None \<and> (\<forall>r \<in> set rs. atEmailId r = e) \<and> distinct (map atPartId rs))"
| "aenabled (OpView v) a = (aMailbox a (vsMailboxId (mvSpec v)) \<noteq> None)"
| "aenabled (OpStage m) a =
     (aAccount a (pmAccountKey m) \<noteq> None \<and> aMutation a (pmAccountKey m) (pmMutationId m) = None)"
| "aenabled (OpKeyword m e c) a =
     (aEmail a e \<noteq> None \<and> aAccount a (pmAccountKey m) \<noteq> None \<and>
      aMutation a (pmAccountKey m) (pmMutationId m) = None)"
| "aenabled (OpMembership m e c) a =
     (aAccount a (pmAccountKey m) \<noteq> None \<and> aEmail a e \<noteq> None \<and>
      aMutation a (pmAccountKey m) (pmMutationId m) = None \<and>
      (\<forall>i \<in> set (mcAdd c) \<union> set (mcRemove c). aMailbox a i \<noteq> None) \<and>
      the (aMemberships a e) - set (mcRemove c) \<union> set (mcAdd c) \<noteq> {})"
| "aenabled (OpReplaceMutation expected nextM) a =
     (\<exists>cur. aMutation a (pmAccountKey expected) (pmMutationId expected) = Some cur \<and>
        mutationsEqual cur expected \<and> sameImmutableMutation expected nextM \<and>
        validTransition expected nextM)"
| "aenabled (OpRemove ak mid) a =
     (\<exists>cur. aMutation a ak mid = Some cur \<and> status (pmLifecycle cur) = StConfirmed)"

definition put_mutation :: "PendingMutation \<Rightarrow> AStore \<Rightarrow> AStore" where
  "put_mutation m a = a\<lparr>aMutation := (aMutation a)
     (pmAccountKey m := (aMutation a (pmAccountKey m))(pmMutationId m := Some (cloneMutation m)))\<rparr>"

fun aeffect :: "EngineOp \<Rightarrow> AStore \<Rightarrow> AStore" where
  "aeffect (OpRegister v) a = a\<lparr>aAccount := (aAccount a)(acKey v := Some v)\<rparr>"
| "aeffect (OpSync c) a =
     with_cursor (nextCursor_of c) (async c (cuAccountKey (nextCursor_of c)) a)"
| "aeffect (OpBody b) a = a\<lparr>aBody := (aBody a)(boEmailId b := Some b)\<rparr>"
| "aeffect (OpRefs e rs) a = a\<lparr>aRefs := (aRefs a)(e := Some rs)\<rparr>"
| "aeffect (OpView v) a = a\<lparr>aView := (aView a)(mvSpec v := Some v)\<rparr>"
| "aeffect (OpStage m) a = put_mutation m a"
| "aeffect (OpKeyword m e c) a =
     put_mutation m (a\<lparr>aEmail := (aEmail a)(e := map_option
       (\<lambda>x. x\<lparr>emKeywords := changed_keywords c (emKeywords x)\<rparr>) (aEmail a e))\<rparr>)"
| "aeffect (OpMembership m e c) a =
     put_mutation m (a\<lparr>aMemberships := (aMemberships a)(e := map_option
       (\<lambda>ids. ids - set (mcRemove c) \<union> set (mcAdd c)) (aMemberships a e))\<rparr>)"
| "aeffect (OpReplaceMutation expected nextM) a = put_mutation nextM a"
| "aeffect (OpRemove ak mid) a =
     a\<lparr>aMutation := (aMutation a)(ak := (aMutation a ak)(mid := None))\<rparr>"

lemma list_ex_destroyed:
  "\<not> list_ex (\<lambda>v. list_ex (\<lambda>w. f v = w) ds) vs \<longleftrightarrow> f ` set vs \<inter> set ds = {}"
  by (auto simp: list_ex_iff)

lemma validateMailboxCommit_iff: "validateMailboxCommit mode ak \<longleftrightarrow> wf_delta mbId ak mode"
  by (cases mode) (auto simp: validateMailboxCommit_def wf_delta_def Let_def list_ex_iff
      list_all_iff mailbox_keys.hasDuplicates_key mailbox_keys.hasDuplicates_ids)

lemma validateIdentityCommit_iff: "validateIdentityCommit mode ak \<longleftrightarrow> wf_delta idId ak mode"
  by (cases mode) (auto simp: validateIdentityCommit_def wf_delta_def Let_def list_ex_iff
      list_all_iff identity_keys.hasDuplicates_key identity_keys.hasDuplicates_ids)

lemma validateEmailRecord_iff:
  "validateEmailRecord r ak \<longleftrightarrow> accountKey (emId (srEmail r)) = ak \<and> wf_record r"
  by (auto simp: validateEmailRecord_def wf_record_def list_all_iff
      membership_keys.hasDuplicates_ids)

lemma validateEmailCommit_iff:
  "validateEmailCommit mode ak \<longleftrightarrow>
     wf_delta (\<lambda>r. emId (srEmail r)) ak mode \<and> (\<forall>r \<in> set (commit_records mode). wf_record r)"
proof -
  have split: "(\<forall>r \<in> A. accountKey (emId (srEmail r)) = ak \<and> wf_record r) \<longleftrightarrow>
      (\<forall>r \<in> A. accountKey (emId (srEmail r)) = ak) \<and> (\<forall>r \<in> A. wf_record r)" for A
    by blast
  have ex: "\<not> list_ex (\<lambda>r. \<not> validateEmailRecord r ak) rs \<longleftrightarrow>
      (\<forall>r \<in> set rs. accountKey (emId (srEmail r)) = ak) \<and> (\<forall>r \<in> set rs. wf_record r)" for rs
    by (simp add: list_ex_iff validateEmailRecord_iff split)
  show ?thesis
  proof (cases mode)
    case (Delta c changed destroyed)
    have dis: "\<not> list_ex (\<lambda>r. list_ex (sameScopedEmailId (emId (srEmail r))) destroyed) changed
        \<longleftrightarrow> (\<lambda>r. emId (srEmail r)) ` set changed \<inter> set destroyed = {}"
      by (auto simp: list_ex_iff)
    have "validateEmailCommit mode ak \<longleftrightarrow>
        \<not> list_ex (\<lambda>r. \<not> validateEmailRecord r ak) changed \<and>
        \<not> hasDuplicates changed (\<lambda>r. emailKey (emId (srEmail r))) \<and>
        list_all (\<lambda>i. accountKey i = ak) destroyed \<and> \<not> hasDuplicates destroyed emailKey \<and>
        \<not> list_ex (\<lambda>r. list_ex (sameScopedEmailId (emId (srEmail r))) destroyed) changed"
      unfolding validateEmailCommit_def Let_def Delta commit_records.simps CollectionMode.case
      by argo
    also have "\<dots> \<longleftrightarrow> wf_delta (\<lambda>r. emId (srEmail r)) ak mode \<and>
        (\<forall>r \<in> set (commit_records mode). wf_record r)"
      unfolding ex dis email_keys.hasDuplicates_key email_keys.hasDuplicates_ids wf_delta_def
        Delta commit_records.simps CollectionMode.case list_all_iff
      by (simp only: list.map_ident not_not conj_ac)
    finally show ?thesis .
  next
    case (Replace c snapshot)
    have "validateEmailCommit mode ak \<longleftrightarrow>
        \<not> list_ex (\<lambda>r. \<not> validateEmailRecord r ak) snapshot \<and>
        \<not> hasDuplicates snapshot (\<lambda>r. emailKey (emId (srEmail r)))"
      unfolding validateEmailCommit_def Let_def Replace commit_records.simps CollectionMode.case
      by argo
    also have "\<dots> \<longleftrightarrow> wf_delta (\<lambda>r. emId (srEmail r)) ak mode \<and>
        (\<forall>r \<in> set (commit_records mode). wf_record r)"
      unfolding ex email_keys.hasDuplicates_key wf_delta_def Replace commit_records.simps
        CollectionMode.case by argo
    finally show ?thesis .
  qed
qed

lemma sync_valid_iff: "sync_valid commit ak \<longleftrightarrow> wf_commit commit ak"
  by (cases commit) (simp_all add: validateMailboxCommit_iff validateIdentityCommit_iff
      validateEmailCommit_iff)

lemma cursorPreconditionHolds_iff:
  assumes "state_inv s"
  shows "cursorPreconditionHolds s expected n \<longleftrightarrow>
     map_of (msCursors s) (cursorKey (cuAccountKey n) (cuDataType n)) = expected_cursor expected"
proof (cases expected)
  case (CursorMatches c)
  have inv: "entries (msCursors s)
      (\<lambda>k v. k = cursorKey (cuAccountKey v) (cuDataType v) \<and> registered s (cuAccountKey v))"
    using assms unfolding state_inv_def by blast
  have stored: "cuAccountKey x = cuAccountKey n \<and> cuDataType x = cuDataType n"
    if "map_of (msCursors s) (cursorKey (cuAccountKey n) (cuDataType n)) = Some x" for x
    using entriesD [OF inv that] by simp
  show ?thesis
  proof (cases "map_of (msCursors s) (cursorKey (cuAccountKey n) (cuDataType n))")
    case (Some x)
    have "x = c \<longleftrightarrow> cuAccountKey x = cuAccountKey c \<and> cuDataType x = cuDataType c \<and>
        cuState x = cuState c" by (cases x; cases c) simp
    with stored [OF Some] Some CursorMatches show ?thesis
      by (simp add: cursorPreconditionHolds_def) metis
  qed (simp add: cursorPreconditionHolds_def CursorMatches)
qed (simp add: cursorPreconditionHolds_def)

lemma sync_enabled_iff:
  assumes "state_inv s"
  shows "sync_enabled c s \<longleftrightarrow> aenabled (OpSync c) (astore s)"
  by (simp add: sync_enabled_def Let_def cursorPreconditionHolds_iff [OF assms] sync_valid_iff
      registered_def)

lemma commit_state_Ok: "commit_state s hints eng = (Inr writeOk, eng') \<Longrightarrow> meState eng' = s"
  by (auto simp: commit_state_def publish_def)

lemma reject_not_ok [simp]:
  "reject eng \<noteq> (Inr writeOk, eng')" "(Inl x, eng) \<noteq> (Inr writeOk, eng')"
  by (simp_all add: reject_def conflict_def writeOk_def)

lemma put_mutation_astore:
  "astore (s\<lparr>msMutations := AList.update (mutationKey (pmAccountKey m) (pmMutationId m))
      (cloneMutation m) (msMutations s)\<rparr>) = put_mutation m (astore s)"
  by (auto intro!: AStore_eqI simp: put_mutation_def)

text \<open>Success of each write: the guard held and the abstract effect took place.\<close>

definition implements :: "EngineOp \<Rightarrow> MemoryEngine \<Rightarrow> MemoryEngine \<Rightarrow> bool" where
  "implements op eng eng' \<longleftrightarrow>
     aenabled op (astore (meState eng)) \<and>
     astore (meState eng') = aeffect op (astore (meState eng))"

lemma register_implements:
  assumes "state_inv (meState eng)" "run_write (OpRegister v) eng = (Inr writeOk, eng')"
  shows "implements (OpRegister v) eng eng'"
proof -
  have same: "c = v" if "map_of (msAccounts (meState eng)) (acKey v) = Some c"
    "acRemoteRef c = acRemoteRef v" for c
  proof -
    have "entries (msAccounts (meState eng)) (\<lambda>k v. k = acKey v)"
      using assms(1) unfolding state_inv_def by blast
    from entriesD [OF this that(1)] that(2) show ?thesis by (cases c; cases v) simp
  qed
  show ?thesis
  proof (cases "map_of (msAccounts (meState eng)) (acKey v)")
    case None
    then have "meState eng' = (meState eng)\<lparr>msAccounts :=
        AList.update (acKey v) v (msAccounts (meState eng))\<rparr>"
      using assms(2) by (auto simp: registerAccount_def Let_def dest: commit_state_Ok)
    with None show ?thesis by (auto simp: implements_def intro!: AStore_eqI)
  next
    case (Some c)
    then have "meState eng' = meState eng" "acRemoteRef c = acRemoteRef v"
      using assms(2) by (auto simp: registerAccount_def Let_def dest: commit_state_Ok split: if_splits)
    with Some same show ?thesis by (auto simp: implements_def intro!: AStore_eqI)
  qed
qed

lemma sync_implements:
  assumes "state_inv (meState eng)" "run_write (OpSync c) eng = (Inr writeOk, eng')"
  shows "implements (OpSync c) eng eng'"
  using applyCollectionSync_refines [of eng c eng'] assms sync_enabled_iff [OF assms(1)]
  by (simp add: implements_def del: aenabled.simps)

lemma body_implements:
  assumes "run_write (OpBody b) eng = (Inr writeOk, eng')"
  shows "implements (OpBody b) eng eng'"
proof -
  have "map_has (msEmails (meState eng)) (emailKey (boEmailId b))"
    "meState eng' = (meState eng)\<lparr>msBodies :=
       AList.update (emailKey (boEmailId b)) b (msBodies (meState eng))\<rparr>"
    using assms by (auto simp: cacheEmailBody_def Let_def dest: commit_state_Ok split: if_splits)
  then show ?thesis by (auto simp: implements_def map_has_iff intro!: AStore_eqI)
qed

lemma refs_implements:
  assumes "run_write (OpRefs e refs) eng = (Inr writeOk, eng')"
  shows "implements (OpRefs e refs) eng eng'"
proof -
  from assms obtain vs where vs: "map_has (msEmails (meState eng)) (emailKey e)"
    "list_all (\<lambda>v. sameScopedEmailId (atEmailId v) e) refs"
    "\<not> hasDuplicates refs (\<lambda>v. attachmentKey (atEmailId v, atPartId v))"
    "mapE cloneAttachment refs = Inr vs"
    "meState eng' = (meState eng)\<lparr>msAttachments :=
       AList.update (emailKey e) vs (msAttachments (meState eng))\<rparr>"
    by (auto simp: replaceAttachmentRefs_def Let_def list_ex_iff list_all_iff
        dest: commit_state_Ok split: if_splits sum.splits)
  from accepted_refs [OF vs(4,2,3)] have "vs = refs" "valid_refs e refs" by simp_all
  with vs(1,5) show ?thesis
    by (auto simp: implements_def map_has_iff valid_refs_def intro!: AStore_eqI)
qed

lemma view_implements:
  assumes "run_write (OpView v) eng = (Inr writeOk, eng')"
  shows "implements (OpView v) eng eng'"
proof -
  from assms obtain w where w: "cloneView v = Inr w"
    "map_has (msMailboxes (meState eng)) (mailboxKey (vsMailboxId (mvSpec v)))"
    "meState eng' = (meState eng)\<lparr>msViews :=
       AList.update (viewKey (mvSpec v)) w (msViews (meState eng))\<rparr>"
    by (auto simp: replaceMailboxView_def Let_def dest: commit_state_Ok split: if_splits sum.splits)
  then have "w = v" by (simp add: cloneView_def mailboxView_Inr)
  with w show ?thesis by (auto simp: implements_def map_has_iff intro!: AStore_eqI)
qed

lemma stage_implements:
  assumes "run_write (OpStage m) eng = (Inr writeOk, eng')"
  shows "implements (OpStage m) eng eng'"
proof -
  have "map_has (msAccounts (meState eng)) (pmAccountKey m)"
    "\<not> map_has (msMutations (meState eng)) (mutationKey (pmAccountKey m) (pmMutationId m))"
    "meState eng' = (meState eng)\<lparr>msMutations :=
       AList.update (mutationKey (pmAccountKey m) (pmMutationId m)) (cloneMutation m)
         (msMutations (meState eng))\<rparr>"
    using assms by (auto simp: stageSendMutation_def Let_def dest: commit_state_Ok split: if_splits)
  then show ?thesis by (simp add: implements_def map_has_iff put_mutation_astore)
qed

lemma distinct_changed_keywords: "distinct (changed_keywords change ks)"
  by (simp add: changed_keywords_def distinct_fold_set_delete)

lemma keyword_implements:
  assumes "state_inv (meState eng)" "run_write (OpKeyword m e c) eng = (Inr writeOk, eng')"
  shows "implements (OpKeyword m e c) eng eng'"
proof -
  from assms(2) obtain t k x where t: "map_of (msEmails (meState eng)) (emailKey e) = Some t"
    "map_has (msAccounts (meState eng)) (pmAccountKey m)"
    "\<not> map_has (msMutations (meState eng)) (mutationKey (pmAccountKey m) (pmMutationId m))"
    "keywordSet (changed_keywords c (emKeywords t)) = Inr k"
    "email (t\<lparr>emKeywords := k\<rparr>) = Inr x"
    "meState eng' = (meState eng)\<lparr>msEmails := AList.update (emailKey e) x (msEmails (meState eng)),
       msMutations := AList.update (mutationKey (pmAccountKey m) (pmMutationId m)) (cloneMutation m)
         (msMutations (meState eng))\<rparr>"
    by (auto simp: applyOptimisticKeywordMutation_def Let_def bindE_Inr_iff
        dest: commit_state_Ok split: if_splits sum.splits option.splits)
  then have k: "k = changed_keywords c (emKeywords t)"
    by (simp add: keywordSet_Inr distinct_changed_keywords)
  then have x: "x = t\<lparr>emKeywords := changed_keywords c (emKeywords t)\<rparr>"
    using t(5) by (simp add: email_Inr distinct_changed_keywords)
  have st: "meState eng' = (meState eng\<lparr>msEmails := AList.update (emailKey e) x
      (msEmails (meState eng))\<rparr>)
      \<lparr>msMutations := AList.update (mutationKey (pmAccountKey m) (pmMutationId m)) (cloneMutation m)
         (msMutations (meState eng\<lparr>msEmails := AList.update (emailKey e) x
            (msEmails (meState eng))\<rparr>))\<rparr>"
    using t(6) by simp
  have "astore ((meState eng)\<lparr>msEmails := AList.update (emailKey e) x (msEmails (meState eng))\<rparr>) =
      (astore (meState eng))\<lparr>aEmail := (aEmail (astore (meState eng)))(e := Some x)\<rparr>"
    by (auto intro!: AStore_eqI)
  with t(1-3) x show ?thesis
    unfolding implements_def st put_mutation_astore by (simp add: map_has_iff)
qed

lemma membership_implements:
  assumes "state_inv (meState eng)" "run_write (OpMembership m e c) eng = (Inr writeOk, eng')"
  shows "implements (OpMembership m e c) eng eng'"
proof -
  let ?s = "meState eng"
  from assms(2) obtain nx vs where t: "map_has (msEmails ?s) (emailKey e)"
    "map_has (msAccounts ?s) (pmAccountKey m)"
    "\<not> map_has (msMutations ?s) (mutationKey (pmAccountKey m) (pmMutationId m))"
    "\<not> list_ex (\<lambda>i. \<not> map_has (msMailboxes ?s) (mailboxKey i)) (mcAdd c @ mcRemove c)"
    "add_memberships e (mcAdd c) (remaining_memberships c (memberships_of ?s e)) = Inr nx"
    "nx \<noteq> []" "mapE cloneMembership nx = Inr vs"
    "meState eng' = ?s\<lparr>msMemberships := AList.update (emailKey e) vs (msMemberships ?s),
       msMutations := AList.update (mutationKey (pmAccountKey m) (pmMutationId m)) (cloneMutation m)
         (msMutations ?s)\<rparr>"
    by (auto simp: applyOptimisticMailboxMembershipMutation_def memberships_of_def Let_def
        dest: commit_state_Ok split: if_splits sum.splits)
  from membership_change_stored [OF assms(1) t(5,7)]
  have vs: "vs = nx" "mailbox_set nx =
      mailbox_set (memberships_of ?s e) - set (mcRemove c) \<union> set (mcAdd c)"
    by (simp_all add: mailbox_set_def)
  from t(1) obtain ms where ms: "map_of (msMemberships ?s) (emailKey e) = Some ms"
    using state_inv_owner [OF assms(1), of "emailKey e"] by (auto simp: map_has_iff)
  then have mem: "memberships_of ?s e = ms" by (simp add: memberships_of_def)
  have mbs: "\<forall>i \<in> set (mcAdd c) \<union> set (mcRemove c).
      map_of (msMailboxes ?s) (mailboxKey i) \<noteq> None"
    using t(4) by (auto simp: list_ex_iff map_has_iff)
  have ne: "mailbox_set ms - set (mcRemove c) \<union> set (mcAdd c) \<noteq> {}"
    using vs t(6) mem by (metis image_is_empty mailbox_set_def set_empty)
  have st: "meState eng' = (?s\<lparr>msMemberships := AList.update (emailKey e) vs (msMemberships ?s)\<rparr>)
      \<lparr>msMutations := AList.update (mutationKey (pmAccountKey m) (pmMutationId m)) (cloneMutation m)
         (msMutations (?s\<lparr>msMemberships :=
           AList.update (emailKey e) vs (msMemberships ?s)\<rparr>))\<rparr>"
    using t(8) by simp
  have "astore (?s\<lparr>msMemberships := AList.update (emailKey e) vs (msMemberships ?s)\<rparr>) =
      (astore ?s)\<lparr>aMemberships := (aMemberships (astore ?s))(e := Some (mailbox_set vs))\<rparr>"
    by (auto intro!: AStore_eqI)
  with t(1-3) mbs ne ms mem vs show ?thesis
    unfolding implements_def st put_mutation_astore by (simp add: map_has_iff)
qed

lemma replace_implements:
  assumes "run_write (OpReplaceMutation old nx) eng = (Inr writeOk, eng')"
  shows "implements (OpReplaceMutation old nx) eng eng'"
proof -
  from assms obtain cur where cur:
    "map_of (msMutations (meState eng)) (mutationKey (pmAccountKey old) (pmMutationId old)) = Some cur"
    "mutationsEqual cur old" "sameImmutableMutation old nx" "validTransition old nx"
    "meState eng' = (meState eng)\<lparr>msMutations :=
       AList.update (mutationKey (pmAccountKey old) (pmMutationId old)) (cloneMutation nx)
         (msMutations (meState eng))\<rparr>"
    by (auto simp: replacePendingMutationIfCurrent_def Let_def dest: commit_state_Ok
        split: if_splits option.splits)
  then have "pmAccountKey old = pmAccountKey nx" "pmMutationId old = pmMutationId nx"
    by (simp_all add: sameImmutableMutation_iff)
  with cur show ?thesis by (simp add: implements_def put_mutation_astore)
qed

lemma remove_implements:
  assumes "run_write (OpRemove ak mid) eng = (Inr writeOk, eng')"
  shows "implements (OpRemove ak mid) eng eng'"
proof -
  from assms obtain cur where cur:
    "map_of (msMutations (meState eng)) (mutationKey ak mid) = Some cur"
    "status (pmLifecycle cur) = StConfirmed"
    "meState eng' = (meState eng)\<lparr>msMutations :=
       AList.delete (mutationKey ak mid) (msMutations (meState eng))\<rparr>"
    by (auto simp: removeConfirmedMutation_def Let_def dest: commit_state_Ok
        split: if_splits option.splits)
  then show ?thesis by (auto simp: implements_def intro!: AStore_eqI)
qed

lemmas op_implements =
  register_implements sync_implements body_implements refs_implements view_implements
  stage_implements keyword_implements membership_implements replace_implements
  remove_implements

lemma write_implements:
  "state_inv (meState eng) \<Longrightarrow> run_write op eng = (Inr writeOk, eng') \<Longrightarrow> implements op eng eng'"
  by (cases op) (blast intro: op_implements)+

text \<open>A write that does not succeed leaves the whole engine, hub included, as it was.\<close>

lemma write_atomic:
  assumes "state_inv (meState eng)" "fst (run_write op eng) \<noteq> Inr writeOk"
  shows "snd (run_write op eng) = eng"
  using write_cases [OF assms(1), of op] assms(2)
  by (auto simp: op_cases_def commit_state_def)

lemma write_result:
  "fst (run_write op eng) \<in> {Inr writeOk, Inr conflict} \<or> (\<exists>x. fst (run_write op eng) = Inl x)"
  by (cases "fst (run_write op eng)"; cases op)
     (auto simp: applyCollectionSync_eq registerAccount_def cacheEmailBody_def
      replaceAttachmentRefs_def replaceMailboxView_def stageSendMutation_def
      applyOptimisticKeywordMutation_def applyOptimisticMailboxMembershipMutation_def
      replacePendingMutationIfCurrent_def removeConfirmedMutation_def finish_sync_def
      reject_def commit_state_def Let_def split: if_splits sum.splits option.splits)

text \<open>Arguments the factories of the domain have built.\<close>

fun factory_built :: "EngineOp \<Rightarrow> bool" where
  "factory_built (OpSync (EmailCommit _ mode)) =
     (\<forall>r \<in> set (commit_records mode). accepted_email (srEmail r) \<and>
        (\<forall>m \<in> set (srMemberships r). accountKey (mmMailboxId m) = accountKey (mmEmailId m)))"
| "factory_built (OpSync (MailboxCommit _ mode)) = (\<forall>v \<in> set (commit_records mode). valid_mailbox v)"
| "factory_built (OpSync (IdentityCommit _ mode)) = (\<forall>v \<in> set (commit_records mode). idEmail v \<noteq> [])"
| "factory_built (OpRefs _ rs) = (\<forall>r \<in> set rs. valid_attachment r)"
| "factory_built (OpView v) = valid_view v"
| "factory_built (OpKeyword _ _ c) = ([] \<notin> set (kcAdd c))"
| "factory_built (OpMembership _ e c) = (\<forall>i \<in> set (mcAdd c). accountKey i = accountKey e)"
| "factory_built _ = True"

lemma store_values_Inr:
  "(\<And>v. v \<in> set vs \<Longrightarrow> clone v = Inr v) \<Longrightarrow> \<exists>m'. store_values key clone vs m = Inr m'"
  by (induction vs arbitrary: m) auto

lemma store_emails_Inr:
  "(\<And>r. r \<in> set rs \<Longrightarrow> accepted_email (srEmail r)) \<Longrightarrow>
   (\<And>r. r \<in> set rs \<Longrightarrow> mapE cloneMembership (srMemberships r) = Inr (srMemberships r)) \<Longrightarrow>
   \<exists>p. store_emails rs es ms = Inr p"
  by (induction rs arbitrary: es ms) (auto simp: cloneEmail_def email_Inr [THEN iffD2])

lemma sync_state_Inr:
  assumes "factory_built (OpSync c)"
  shows "\<exists>s'. sync_state c ak s = Inr s'"
proof (cases c)
  case (EmailCommit x mode)
  have "mapE cloneMembership (srMemberships r) = Inr (srMemberships r)"
    if "r \<in> set (commit_records mode)" for r
    using assms that EmailCommit by (intro mapE_id) simp
  with store_emails_Inr [of "commit_records mode"] assms EmailCommit
  obtain es ms where "store_emails (commit_records mode) (fst (emails_start mode ak s))
      (snd (emails_start mode ak s)) = Inr (es, ms)" by fastforce
  then have "commitEmails mode ak s = Inr (s\<lparr>msEmails := es, msMemberships := ms\<rparr>)"
    by (auto simp: commitEmails_Inr)
  with EmailCommit show ?thesis by simp
next
  case (MailboxCommit x mode)
  with store_values_Inr [of "commit_records mode" cloneMailbox "\<lambda>v. mailboxKey (mbId v)"] assms
  show ?thesis by (auto simp: commitMailboxes_def Let_def bindE_Inr_iff)
next
  case (IdentityCommit x mode)
  with store_values_Inr [of "commit_records mode" cloneIdentity "\<lambda>v. identityKey (idId v)"] assms
  show ?thesis by (auto simp: commitIdentities_def Let_def bindE_Inr_iff)
qed

end
