(* ===== verification/Samples.thy ===== *)
theory Samples
  imports Memory_Spec
begin

text \<open>
  A small engine that the witnesses evaluate: one account with one plaintext send staged, before
  and after its claim.
\<close>

definition sample_account :: Account where
  "sample_account =
     \<lparr>acKey = [65], acRemoteRef = \<lparr>rrServiceKey = [83], rrJmapAccountId = [74]\<rparr>\<rparr>"

definition sample_intent :: SendIntent where
  "sample_intent =
     \<lparr>siSecurityMode = ModePlain, siIdentityId = \<lparr>accountKey = [65], jmapId = [73]\<rparr>,
      siFrom = \<lparr>adName = None, adEmail = [97, 64, 98]\<rparr>, siReplyTo = [],
      siTo = [\<lparr>adName = None, adEmail = [99, 64, 98]\<rparr>], siCc = [], siBcc = [],
      siSubject = [], siBody = \<lparr>sbText = [104], sbHtml = None\<rparr>\<rparr>"

definition sample_mutation :: PendingMutation where
  "sample_mutation =
     \<lparr>pmMutationId = [77], pmAccountKey = [65], pmCreatedAt = [48], pmPayload = PSend sample_intent,
      pmLifecycle = Pending (JInt 0)\<rparr>"

definition sample_engine :: MemoryEngine where
  "sample_engine = snd (run_write (OpStage sample_mutation)
     (snd (run_write (OpRegister sample_account) createMemoryLocalEngine)))"

lemma sample_reachable: "reachable sample_engine"
  unfolding sample_engine_def by (intro reachable.wrote reachable.created)

lemma sample_stored:
  "aMutation (astore (meState sample_engine)) =
     (\<lambda>ak mid. if ak = [65] \<and> mid = [77] then Some sample_mutation else None)"
  by (simp add: fun_eq_iff sample_engine_def sample_account_def sample_mutation_def
      createMemoryLocalEngine_def newMemoryState_def registerAccount_def stageSendMutation_def
      Let_def commit_state_def publish_def map_has_def cloneMutation_def
      cloneUpdateLifecycle_def)

definition sample_claimed :: PendingMutation where
  "sample_claimed = sample_mutation\<lparr>pmLifecycle := InFlight (JInt 1)\<rparr>"

definition claimed_engine :: MemoryEngine where
  "claimed_engine = snd (run_write (OpReplaceMutation sample_mutation sample_claimed) sample_engine)"

lemma sample_typed: "typed_mutation sample_mutation" "typed_mutation sample_claimed"
  by (simp_all add: typed_mutation_def sample_mutation_def sample_claimed_def)

lemma sample_keys:
  "pmAccountKey sample_mutation = [65]" "pmMutationId sample_mutation = [77]"
  "pmAccountKey sample_claimed = [65]" "pmMutationId sample_claimed = [77]"
  by (simp_all add: sample_mutation_def sample_claimed_def)

lemma sample_claim:
  "run_write (OpReplaceMutation sample_mutation sample_claimed) sample_engine =
     (Inr writeOk, claimed_engine)"
proof -
  have m: "map_of (msMutations (meState sample_engine)) (mutationKey [65] [77]) = Some sample_mutation"
    using fun_cong [OF fun_cong [OF sample_stored]] by simp
  have "mutationsEqual sample_mutation sample_mutation"
    "sameImmutableMutation sample_mutation sample_claimed"
    "validTransition sample_mutation sample_claimed"
    by (simp_all add: mutationsEqual_iff sameImmutableMutation_iff validTransition_def
        sample_mutation_def sample_claimed_def)
  then have "fst (run_write (OpReplaceMutation sample_mutation sample_claimed) sample_engine) =
      Inr writeOk"
    using m by (simp add: replacePendingMutationIfCurrent_def Let_def commit_state_def
        sample_mutation_def)
  then show ?thesis by (simp add: claimed_engine_def prod_eq_iff)
qed

lemma claimed_stored:
  "aMutation (astore (meState claimed_engine)) =
     (\<lambda>ak mid. if ak = [65] \<and> mid = [77] then Some sample_claimed else None)"
  using replace_implements [OF sample_claim]
  by (simp add: implements_def sample_stored put_mutation_def sample_typed sample_keys fun_eq_iff
      del: astore_simps)

end
