(* ===== verification/Memory_Theorems.thy ===== *)
theory Memory_Theorems
  imports Samples
begin

text \<open>
  The properties of the memory engine: each write is decided by its abstract guard, each query
  answers from the abstract store, mutations move along their lifecycle only, and a stale
  compare-and-swap is refused.
\<close>

section \<open>The outcome of a write\<close>

definition decides :: "EngineOp \<Rightarrow> MemoryEngine \<Rightarrow> bool" where
  "decides op eng \<longleftrightarrow>
     fst (run_write op eng) =
       Inr (if aenabled op (astore (meState eng)) then writeOk else conflict)"

lemma fst_commit [simp]:
  "fst (commit_state s hints eng) = Inr writeOk" "fst (reject eng) = Inr conflict"
  by (simp_all add: commit_state_def reject_def)

lemma decides_plain:
  "decides (OpRegister a) eng" "decides (OpBody b) eng" "decides (OpStage m) eng"
  "decides (OpReplaceMutation old nx) eng" "decides (OpRemove ak mid) eng"
  by (auto simp: decides_def registerAccount_def cacheEmailBody_def stageSendMutation_def
      replacePendingMutationIfCurrent_def removeConfirmedMutation_def Let_def map_has_iff
      split: option.splits)

lemma decides_sync:
  assumes "state_inv (meState eng)" "factory_built (OpSync c)"
  shows "decides (OpSync c) eng"
  using sync_state_Inr [OF assms(2), of "cuAccountKey (nextCursor_of c)" "meState eng"]
  by (auto simp: decides_def applyCollectionSync_eq sync_enabled_iff [OF assms(1)] finish_sync_def
      simp del: aenabled.simps)

lemma decides_refs:
  assumes "factory_built (OpRefs e rs)"
  shows "decides (OpRefs e rs) eng"
proof -
  have "mapE cloneAttachment rs = Inr rs" using assms by (intro mapE_id) simp
  moreover have "hasDuplicates rs (\<lambda>v. attachmentKey (atEmailId v, atPartId v)) \<longleftrightarrow>
      \<not> distinct (map atPartId rs)" if "\<forall>r \<in> set rs. atEmailId r = e"
    using that by (auto simp: attachment_keys.hasDuplicates_key distinct_map inj_on_def)
  ultimately show ?thesis
    by (auto simp: decides_def replaceAttachmentRefs_def Let_def list_ex_iff map_has_iff)
qed

lemma decides_view: "factory_built (OpView v) \<Longrightarrow> decides (OpView v) eng"
  by (simp add: decides_def replaceMailboxView_def Let_def map_has_iff)

lemma decides_keyword:
  assumes "state_inv (meState eng)" "factory_built (OpKeyword m e c)"
  shows "decides (OpKeyword m e c) eng"
proof (cases "map_of (msEmails (meState eng)) (emailKey e)")
  case (Some t)
  then have t: "valid_email t" using state_inv_email [OF assms(1)] by blast
  have sub: "set (fold set_delete rs (fold set_add as ks)) \<subseteq> set as \<union> set ks" for rs as ks :: KeywordSet
  proof -
    have "set (fold set_delete rs xs) \<subseteq> set xs" for xs :: KeywordSet
      by (induction rs arbitrary: xs) (auto simp: set_delete_def)
    then show ?thesis by fastforce
  qed
  have "[] \<notin> set (changed_keywords c (emKeywords t))"
    using sub [of "kcRemove c" "kcAdd c" "set_of_list (emKeywords t)"] t assms(2)
    by (auto simp: changed_keywords_def valid_email_def accepted_email_def)
  then have "bindE (keywordSet (changed_keywords c (emKeywords t)))
      (\<lambda>k. email (t\<lparr>emKeywords := k\<rparr>)) = Inr (t\<lparr>emKeywords := changed_keywords c (emKeywords t)\<rparr>)"
    using t by (auto simp: bindE_Inr_iff keywordSet_Inr email_Inr distinct_changed_keywords
        valid_email_def accepted_email_def)
  with Some show ?thesis
    by (simp add: decides_def applyOptimisticKeywordMutation_def Let_def map_has_iff)
qed (simp add: decides_def applyOptimisticKeywordMutation_def)

lemma add_memberships_returns:
  "accountKey ` set ids \<subseteq> {accountKey e} \<Longrightarrow> \<exists>r. add_memberships e ids ms = Inr r"
proof (induction ids arbitrary: ms)
  case (Cons i ids)
  then have "emailMailbox e i = Inr \<lparr>mmEmailId = e, mmMailboxId = i\<rparr>"
    by (simp add: emailMailbox_def)
  with Cons show ?case by simp
qed simp

lemma decides_membership:
  assumes "state_inv (meState eng)" "factory_built (OpMembership m e c)"
  shows "decides (OpMembership m e c) eng"
proof (cases "map_of (msEmails (meState eng)) (emailKey e)")
  case (Some t)
  let ?s = "meState eng"
  from Some obtain ms where ms: "map_of (msMemberships ?s) (emailKey e) = Some ms"
    using state_inv_owner [OF assms(1), of "emailKey e"] by fastforce
  then have mem: "memberships_of ?s e = ms" by (simp add: memberships_of_def)
  have "accountKey ` set (mcAdd c) \<subseteq> {accountKey e}" using assms(2) by auto
  from add_memberships_returns [OF this] obtain nx where
    nx: "add_memberships e (mcAdd c) (remaining_memberships c ms) = Inr nx" by blast
  from memberships_of_valid [OF assms(1)] mem have "valid_memberships e ms" by metis
  from add_memberships_Inr [OF nx remaining_valid [OF this]] have v: "valid_memberships e nx"
    "mailbox_set nx = mailbox_set ms - set (mcRemove c) \<union> set (mcAdd c)"
    by (simp_all add: remaining_mailboxes mailbox_set_def)
  then have "nx = [] \<longleftrightarrow> mailbox_set ms - set (mcRemove c) \<union> set (mcAdd c) = {}"
    by (metis image_is_empty mailbox_set_def set_empty)
  note nx_iff = this
  let ?known = "\<forall>i \<in> set (mcAdd c) \<union> set (mcRemove c). map_of (msMailboxes ?s) (mailboxKey i) \<noteq> None"
  have known: "list_ex (\<lambda>i. \<not> map_has (msMailboxes ?s) (mailboxKey i)) (mcAdd c @ mcRemove c) \<longleftrightarrow>
      \<not> ?known"
    by (auto simp: list_ex_iff map_has_iff)
  let ?free = "map_has (msAccounts ?s) (pmAccountKey m) \<and>
      \<not> map_has (msMutations ?s) (mutationKey (pmAccountKey m) (pmMutationId m))"
  have "aenabled (OpMembership m e c) (astore ?s) \<longleftrightarrow> ?free \<and> ?known \<and> nx \<noteq> []"
    unfolding nx_iff using Some ms by (auto simp: map_has_iff)
  moreover have "fst (run_write (OpMembership m e c) eng) =
      Inr (if ?free \<and> ?known \<and> nx \<noteq> [] then writeOk else conflict)"
    unfolding run_write.simps applyOptimisticMailboxMembershipMutation_def Let_def known
      memberships_of_def [symmetric] mem nx sum.case
    using Some clone_memberships [OF v(1)] by (simp add: map_has_iff)
  ultimately show ?thesis by (simp add: decides_def)
qed (simp add: decides_def applyOptimisticMailboxMembershipMutation_def map_has_iff Let_def)

lemma write_decides:
  "state_inv (meState eng) \<Longrightarrow> factory_built op \<Longrightarrow> decides op eng"
  by (cases op) (simp_all only: decides_plain decides_sync decides_refs decides_view
      decides_keyword decides_membership)

lemma write_decided:
  assumes "reachable eng" "factory_built op"
  shows "fst (run_write op eng) =
      Inr (if aenabled op (astore (meState eng)) then writeOk else conflict)"
    "astore (meState (snd (run_write op eng))) =
      (if aenabled op (astore (meState eng)) then aeffect op (astore (meState eng))
       else astore (meState eng))"
proof -
  have inv: "state_inv (meState eng)" using assms(1) by (rule reachable_state_inv)
  from write_decides [OF inv assms(2)] show r: "fst (run_write op eng) =
      Inr (if aenabled op (astore (meState eng)) then writeOk else conflict)"
    by (simp add: decides_def)
  show "astore (meState (snd (run_write op eng))) =
      (if aenabled op (astore (meState eng)) then aeffect op (astore (meState eng))
       else astore (meState eng))"
  proof (cases "aenabled op (astore (meState eng))")
    case True
    with r have "run_write op eng = (Inr writeOk, snd (run_write op eng))" by (simp add: prod_eq_iff)
    from write_implements [OF inv this] True show ?thesis by (simp add: implements_def)
  next
    case False
    with write_atomic [OF inv, of op] r show ?thesis by (simp add: conflict_def writeOk_def)
  qed
qed

text \<open>C1: On a reachable engine a write whose argument the domain factories built never throws;
  it succeeds exactly when its abstract guard holds and then has the abstract effect, and
  otherwise answers conflict and leaves the stored data as they were.\<close>

theorem write_spec:
  assumes "reachable eng" "factory_built op"
  shows "fst (run_write op eng) =
      Inr (if aenabled op (astore (meState eng)) then writeOk else conflict) \<and>
    astore (meState (snd (run_write op eng))) =
      (if aenabled op (astore (meState eng)) then aeffect op (astore (meState eng))
       else astore (meState eng))"
  using write_decided [OF assms] by blast

lemma write_spec_witness:
  "fst (run_write (OpRegister \<lparr>acKey = [65],
       acRemoteRef = \<lparr>rrServiceKey = [83], rrJmapAccountId = [74]\<rparr>\<rparr>) createMemoryLocalEngine) =
     Inr writeOk"
  using write_spec [of createMemoryLocalEngine "OpRegister \<lparr>acKey = [65],
      acRemoteRef = \<lparr>rrServiceKey = [83], rrJmapAccountId = [74]\<rparr>\<rparr>", OF reachable.created]
  by (simp add: createMemoryLocalEngine_def newMemoryState_def)

text \<open>A write that does not succeed, whether it conflicts or throws, leaves the engine as it
  was: its state, its listeners and the batches published so far.\<close>

theorem failed_write_changes_nothing:
  assumes "reachable eng" "fst (run_write op eng) \<noteq> Inr writeOk"
  shows "snd (run_write op eng) = eng"
  using assms by (blast intro: write_atomic reachable_state_inv)

lemma failed_write_changes_nothing_witness:
  "snd (run_write (OpRemove [65] [77]) createMemoryLocalEngine) = createMemoryLocalEngine"
  using failed_write_changes_nothing [OF reachable.created, of "OpRemove [65] [77]"]
  by (simp add: createMemoryLocalEngine_def newMemoryState_def removeConfirmedMutation_def
      reject_def conflict_def writeOk_def)

section \<open>The answer of a query\<close>

definition entity :: "'a option \<Rightarrow> 'a LocalEntityRead" where
  "entity x = (case x of None \<Rightarrow> EntityAbsent | Some v \<Rightarrow> EntityPresent v)"

definition cached :: "'o option \<Rightarrow> 'a option \<Rightarrow> 'a OwnedCacheRead" where
  "cached owner x = (case owner of None \<Rightarrow> CacheOwnerAbsent
     | Some _ \<Rightarrow> (case x of None \<Rightarrow> CacheNotCached | Some v \<Rightarrow> CacheCached v))"

definition optional :: "'o option \<Rightarrow> 'a option \<Rightarrow> 'a OwnedOptionalRead" where
  "optional owner x = (case owner of None \<Rightarrow> OptionalOwnerAbsent
     | Some _ \<Rightarrow> (case x of None \<Rightarrow> OptionalAbsent | Some v \<Rightarrow> OptionalPresent v))"

lemma entity_queries:
  assumes "state_inv s"
  shows "readAccount ak s = Inr (PortOk (entity (aAccount (astore s) ak)))"
    "readMailbox i s = Inr (PortOk (entity (aMailbox (astore s) i)))"
    "readIdentity j s = Inr (PortOk (entity (aIdentity (astore s) j)))"
    "readEmail e s = Inr (PortOk (entity (aEmail (astore s) e)))"
    "readEmails es s = Inr (PortOk (map (\<lambda>e. entity (aEmail (astore s) e)) es))"
proof -
  have one: "read_one_email e s = Inr (entity (aEmail (astore s) e))" for e
    by (simp add: read_one_email_eq [OF assms] entity_def)
  then show "readEmail e s = Inr (PortOk (entity (aEmail (astore s) e)))"
    by (simp add: readEmail_def)
  show "readEmails es s = Inr (PortOk (map (\<lambda>e. entity (aEmail (astore s) e)) es))"
    using mapE_pure [of es "\<lambda>e. read_one_email e s", OF one] by (simp add: readEmails_def)
  show "readAccount ak s = Inr (PortOk (entity (aAccount (astore s) ak)))"
    by (simp add: readAccount_def entity_def split: option.splits)
  show "readMailbox i s = Inr (PortOk (entity (aMailbox (astore s) i)))"
    using state_inv_mailbox [OF assms]
    by (auto simp: readMailbox_def entity_def split: option.splits)
  show "readIdentity j s = Inr (PortOk (entity (aIdentity (astore s) j)))"
    using state_inv_identity [OF assms]
    by (auto simp: readIdentity_def entity_def split: option.splits)
qed

lemma owned_queries:
  assumes "state_inv s"
  shows "readEmailBody e s = Inr (PortOk (cached (aEmail (astore s) e) (aBody (astore s) e)))"
    "readAttachmentRefs e s = Inr (PortOk (cached (aEmail (astore s) e) (aRefs (astore s) e)))"
    "readMailboxView v s = Inr (PortOk (cached (aMailbox (astore s) (vsMailboxId v))
       (aView (astore s) v)))"
    "readCollectionSyncCursor ak d s = Inr (PortOk (optional (aAccount (astore s) ak)
       (aCursor (astore s) ak d)))"
    "readPendingMutation ak mid s = Inr (PortOk (optional (aAccount (astore s) ak)
       (aMutation (astore s) ak mid)))"
proof -
  show "readAttachmentRefs e s = Inr (PortOk (cached (aEmail (astore s) e) (aRefs (astore s) e)))"
    using state_inv_attachment [OF assms, of "emailKey e"] clone_refs
    by (fastforce simp: readAttachmentRefs_def cached_def map_has_iff split: option.splits)
  show "readMailboxView v s = Inr (PortOk (cached (aMailbox (astore s) (vsMailboxId v))
       (aView (astore s) v)))"
    using state_inv_view [OF assms, of "viewKey v"]
    by (auto simp: readMailboxView_def cached_def map_has_iff split: option.splits)
qed (auto simp: readEmailBody_def readCollectionSyncCursor_def readPendingMutation_eq [OF assms]
      cached_def optional_def map_has_iff registered_def split: option.splits)

text \<open>The memberships of an e-mail are read as a list of its own, distinct memberships.\<close>

lemma membership_query:
  assumes "state_inv s"
  shows "\<exists>r. readEmailMemberships e s = Inr (PortOk r) \<and>
     (case aMemberships (astore s) e of
        None \<Rightarrow> r = SnapshotOwnerAbsent
      | Some ids \<Rightarrow> \<exists>ms. r = SnapshotPresent ms \<and> distinct ms \<and>
          set ms = (\<lambda>i. \<lparr>mmEmailId = e, mmMailboxId = i\<rparr>) ` ids)"
proof (cases "map_of (msMemberships s) (emailKey e)")
  case None
  then have "map_of (msEmails s) (emailKey e) = None" using state_inv_owner [OF assms] by blast
  with None show ?thesis by (simp add: readEmailMemberships_def map_has_iff)
next
  case (Some ms)
  from Some have owner: "map_of (msEmails s) (emailKey e) \<noteq> None"
    using state_inv_owner [OF assms, of "emailKey e"] by auto
  from memberships_of_valid [OF assms, of e] Some have v: "valid_memberships e ms"
    by (simp add: memberships_of_def)
  have "set ms = (\<lambda>i. \<lparr>mmEmailId = e, mmMailboxId = i\<rparr>) ` mailbox_set ms"
  proof -
    have "(\<lambda>i. \<lparr>mmEmailId = e, mmMailboxId = i\<rparr>) (mmMailboxId m) = m" if "m \<in> set ms" for m
      using v that by (cases m) (auto simp: valid_memberships_def)
    then have "(\<lambda>m. \<lparr>mmEmailId = e, mmMailboxId = mmMailboxId m\<rparr>) ` set ms = set ms" by force
    then show ?thesis by (simp add: mailbox_set_def image_image)
  qed
  with Some owner v clone_memberships [OF v] show ?thesis
    by (auto simp: readEmailMemberships_def map_has_iff valid_memberships_def)
qed

text \<open>On a reachable engine every query answers, and answers what the abstract store holds
  at the identifier asked for: the value itself, its absence, or the absence of its owner.\<close>

theorem queries_answer:
  assumes "reachable eng"
  shows "readAccount ak (meState eng) = Inr (PortOk (entity (aAccount (astore (meState eng)) ak))) \<and>
    readMailbox i (meState eng) = Inr (PortOk (entity (aMailbox (astore (meState eng)) i))) \<and>
    readIdentity j (meState eng) = Inr (PortOk (entity (aIdentity (astore (meState eng)) j))) \<and>
    readEmails es (meState eng) =
      Inr (PortOk (map (\<lambda>e. entity (aEmail (astore (meState eng)) e)) es)) \<and>
    readEmailBody e (meState eng) = Inr (PortOk
      (cached (aEmail (astore (meState eng)) e) (aBody (astore (meState eng)) e))) \<and>
    readAttachmentRefs e (meState eng) = Inr (PortOk
      (cached (aEmail (astore (meState eng)) e) (aRefs (astore (meState eng)) e))) \<and>
    readMailboxView v (meState eng) = Inr (PortOk
      (cached (aMailbox (astore (meState eng)) (vsMailboxId v)) (aView (astore (meState eng)) v))) \<and>
    readCollectionSyncCursor ak d (meState eng) = Inr (PortOk
      (optional (aAccount (astore (meState eng)) ak) (aCursor (astore (meState eng)) ak d))) \<and>
    readPendingMutation ak mid (meState eng) = Inr (PortOk
      (optional (aAccount (astore (meState eng)) ak) (aMutation (astore (meState eng)) ak mid)))"
  using entity_queries [OF reachable_state_inv [OF assms]]
    owned_queries [OF reachable_state_inv [OF assms]] by blast

lemma queries_answer_witness:
  "readMailbox \<lparr>accountKey = [65], jmapId = [77]\<rparr> (meState createMemoryLocalEngine) =
     Inr (PortOk EntityAbsent)"
  using queries_answer [OF reachable.created, of undefined "\<lparr>accountKey = [65], jmapId = [77]\<rparr>"]
  by (simp add: entity_def createMemoryLocalEngine_def newMemoryState_def)

section \<open>Mutations in the store\<close>

lemma payload_equiv_trans:
  assumes "payload_equiv (pmPayload a) (pmPayload b)" "payload_equiv (pmPayload b) (pmPayload c)"
    "typed_mutation a" "typed_mutation b" "typed_mutation c"
  shows "payload_equiv (pmPayload a) (pmPayload c)"
  using assms
  by (cases "pmPayload a"; cases "pmPayload b"; cases "pmPayload c")
     (simp_all add: typed_mutation_def setsEqual_iff)

definition evolves :: "PendingMutation \<Rightarrow> PendingMutation \<Rightarrow> bool" where
  "evolves m m' \<longleftrightarrow>
     m' = m \<or>
     pmAccountKey m' = pmAccountKey m \<and> pmMutationId m' = pmMutationId m \<and>
     pmCreatedAt m' = pmCreatedAt m \<and> payload_equiv (pmPayload m) (pmPayload m') \<and>
     validTransition m m'"

lemma validTransition_lifecycle:
  "pmLifecycle a = pmLifecycle b \<Longrightarrow> validTransition a c = validTransition b c"
  by (simp add: validTransition_def)

fun typed_op :: "EngineOp \<Rightarrow> bool" where
  "typed_op (OpReplaceMutation expected nextM) = (typed_mutation expected \<and> typed_mutation nextM)"
| "typed_op _ = True"

lemma effect_evolves:
  assumes "aenabled op a" "aMutation a ak mid = Some m" "typed_op op" "typed_mutation m"
    "pmAccountKey m = ak" "pmMutationId m = mid"
  shows "case aMutation (aeffect op a) ak mid of
      None \<Rightarrow> status (pmLifecycle m) = StConfirmed | Some m' \<Rightarrow> evolves m m'"
proof (cases op)
  case (OpSync c)
  then show ?thesis using assms(2) by (cases c) (simp_all add: with_cursor_def evolves_def)
next
  case (OpReplaceMutation expected nextM)
  show ?thesis
  proof (cases "pmAccountKey expected = ak \<and> pmMutationId expected = mid")
    case True
    with assms OpReplaceMutation have r: "mutationsEqual m expected"
      "sameImmutableMutation expected nextM" "validTransition expected nextM"
      "typed_mutation expected" "typed_mutation nextM" by auto
    then have "evolves m nextM"
      using payload_equiv_trans [of m expected nextM] assms(4)
        validTransition_lifecycle [of m expected nextM]
      by (simp add: evolves_def mutationsEqual_iff sameImmutableMutation_iff)
    with r True OpReplaceMutation show ?thesis
      by (simp add: put_mutation_def sameImmutableMutation_iff)
  next
    case False
    with assms(1,2) OpReplaceMutation show ?thesis
      by (auto simp: put_mutation_def sameImmutableMutation_iff evolves_def)
  qed
next
  case (OpRemove ak' mid')
  then show ?thesis using assms(1,2) by (auto simp: evolves_def)
qed (use assms(1,2) in \<open>auto simp: put_mutation_def evolves_def\<close>)

lemma mutation_of_state:
  assumes "state_inv s" "aMutation (astore s) ak mid = Some m"
  shows "pmAccountKey m = ak \<and> pmMutationId m = mid \<and> typed_mutation m"
  using state_inv_mutation [OF assms(1)] assms(2) by fastforce

text \<open>C5: A stored mutation changes only by a transition of its lifecycle that keeps its
  identity, its creation time and its payload, and disappears only when it is confirmed.\<close>

theorem stored_mutation_evolves:
  assumes "reachable eng" "typed_op op" "aMutation (astore (meState eng)) ak mid = Some m"
  shows "case aMutation (astore (meState (snd (run_write op eng)))) ak mid of
      None \<Rightarrow> status (pmLifecycle m) = StConfirmed
    | Some m' \<Rightarrow> evolves m m'"
proof -
  have inv: "state_inv (meState eng)" using assms(1) by (rule reachable_state_inv)
  show ?thesis
  proof (cases "fst (run_write op eng) = Inr writeOk")
    case True
    then have "run_write op eng = (Inr writeOk, snd (run_write op eng))" by (simp add: prod_eq_iff)
    from write_implements [OF inv this] effect_evolves [OF _ assms(3,2)]
      mutation_of_state [OF inv assms(3)]
    show ?thesis by (simp add: implements_def del: astore_simps)
  next
    case False
    from write_atomic [OF inv this] assms(3) show ?thesis by (simp add: evolves_def)
  qed
qed

lemma stored_mutation_evolves_witness: "evolves sample_mutation sample_claimed"
  using stored_mutation_evolves [OF sample_reachable,
      of "OpReplaceMutation sample_mutation sample_claimed" "[65]" "[77]" sample_mutation]
  by (simp add: sample_typed sample_stored claimed_stored claimed_engine_def [symmetric]
      del: astore_simps run_write.simps)

text \<open>C6: Of two writers that hold the same mutation, at most one can move it: once one of
  them has replaced it, the compare-and-swap of the other conflicts and changes nothing.\<close>

theorem stale_replacement_conflicts:
  assumes "run_write (OpReplaceMutation m first) eng = (Inr writeOk, eng')"
  shows "run_write (OpReplaceMutation m second) eng' = (Inr conflict, eng')"
proof -
  from replace_implements [OF assms]
  have en: "mutationsEqual cur m \<Longrightarrow> True" "validTransition m first" "sameImmutableMutation m first"
    "map_of (msMutations (meState eng')) (mutationKey (pmAccountKey m) (pmMutationId m)) =
       Some (cloneMutation first)" for cur
  proof -
    from replace_implements [OF assms]
    show im: "validTransition m first" "sameImmutableMutation m first"
      by (auto simp: implements_def)
    from replace_implements [OF assms]
    have "aMutation (astore (meState eng')) (pmAccountKey first) (pmMutationId first) =
        Some (cloneMutation first)"
      unfolding implements_def by (simp add: put_mutation_def del: astore_simps)
    with im(2) show "map_of (msMutations (meState eng'))
        (mutationKey (pmAccountKey m) (pmMutationId m)) = Some (cloneMutation first)"
      by (simp add: sameImmutableMutation_iff)
  qed simp
  from en(2) have "pmLifecycle first \<noteq> pmLifecycle m"
    by (auto simp: validTransition_def Let_def split: if_splits)
  then have "\<not> mutationsEqual (cloneMutation first) m" by (simp add: mutationsEqual_iff)
  with en(4) show ?thesis
    by (simp add: replacePendingMutationIfCurrent_def Let_def reject_def)
qed

lemma stale_replacement_conflicts_witness:
  "run_write (OpReplaceMutation sample_mutation sample_claimed) claimed_engine =
     (Inr conflict, claimed_engine)"
  by (rule stale_replacement_conflicts [OF sample_claim])

section \<open>Isolation and notification\<close>

lemma sync_spec_other:
  assumes "wf_delta id_of ak mode" "accountKey i \<noteq> ak"
  shows "sync_spec id_of val_of ak mode m i = m i"
proof -
  have "find (\<lambda>r. id_of r = i) (commit_records mode) = None"
    using assms by (auto simp: wf_delta_def find_None_iff)
  with assms show ?thesis by (auto simp: sync_spec_def wf_delta_def split: CollectionMode.splits)
qed

lemma sync_effect_other:
  assumes "wf_commit c ak" "accountKey i \<noteq> ak"
  shows "aEmail (async c ak a) i = aEmail a i" "aMemberships (async c ak a) i = aMemberships a i"
    "aMailbox (async c ak a) i = aMailbox a i" "aIdentity (async c ak a) i = aIdentity a i"
    "aBody (async c ak a) = aBody a" "aRefs (async c ak a) = aRefs a"
    "aView (async c ak a) = aView a" "aMutation (async c ak a) = aMutation a"
    "aAccount (async c ak a) = aAccount a" "aCursor (async c ak a) = aCursor a"
  using assms by (cases c; simp add: sync_spec_other)+

text \<open>A collection commit for one account leaves the data of every other account alone, and
  of its own account it leaves the bodies, attachments, views and mutations alone.\<close>

theorem sync_isolation:
  assumes "reachable eng" "factory_built (OpSync c)" "accountKey i \<noteq> cuAccountKey (nextCursor_of c)"
  shows "let a = astore (meState eng); b = astore (meState (snd (run_write (OpSync c) eng))) in
     aEmail b i = aEmail a i \<and> aMemberships b i = aMemberships a i \<and>
     aMailbox b i = aMailbox a i \<and> aIdentity b i = aIdentity a i \<and>
     aCursor b (accountKey i) = aCursor a (accountKey i) \<and>
     aBody b = aBody a \<and> aRefs b = aRefs a \<and> aView b = aView a \<and> aMutation b = aMutation a \<and>
     aAccount b = aAccount a"
proof (cases "aenabled (OpSync c) (astore (meState eng))")
  case True
  then have "wf_commit c (cuAccountKey (nextCursor_of c))" by (simp add: Let_def)
  note other = sync_effect_other [OF this assms(3)]
  from write_decided(2) [OF assms(1,2)] True
  have "astore (meState (snd (run_write (OpSync c) eng))) = with_cursor (nextCursor_of c)
      (async c (cuAccountKey (nextCursor_of c)) (astore (meState eng)))" by simp
  with assms(3) show ?thesis by (simp add: other with_cursor_def Let_def del: astore_simps)
next
  case False
  with write_decided(2) [OF assms(1,2)] show ?thesis by (simp del: astore_simps)
qed

lemma sync_isolation_witness:
  "aIdentity (astore (meState (snd (run_write (OpSync (IdentityCommit
       \<lparr>cuAccountKey = [65], cuDataType = DIdentity, cuState = [49]\<rparr>
       (Replace CursorAbsent []))) sample_engine)))) \<lparr>accountKey = [66], jmapId = [73]\<rparr> =
     aIdentity (astore (meState sample_engine)) \<lparr>accountKey = [66], jmapId = [73]\<rparr>"
  using sync_isolation [OF sample_reachable, of "IdentityCommit
      \<lparr>cuAccountKey = [65], cuDataType = DIdentity, cuState = [49]\<rparr> (Replace CursorAbsent [])"
      "\<lparr>accountKey = [66], jmapId = [73]\<rparr>"]
  by (simp add: Let_def del: astore_simps run_write.simps)

fun hints_of :: "EngineOp \<Rightarrow> LocalChangeHint list" where
  "hints_of (OpRegister a) = [HAccounts]"
| "hints_of (OpSync c) = sync_hints c (cuAccountKey (nextCursor_of c))"
| "hints_of (OpBody b) = [HEmailBody (boEmailId b)]"
| "hints_of (OpRefs e refs) = [HAttachmentRefs e]"
| "hints_of (OpView v) = [HMailboxView (mvSpec v)]"
| "hints_of (OpStage m) = [HPendingMutations (pmAccountKey m)]"
| "hints_of (OpKeyword m e c) =
     [HEmails (pmAccountKey m), HPendingMutations (pmAccountKey m)]"
| "hints_of (OpMembership m e c) =
     [HEmailMemberships (pmAccountKey m), HPendingMutations (pmAccountKey m)]"
| "hints_of (OpReplaceMutation expected nextM) = [HPendingMutations (pmAccountKey expected)]"
| "hints_of (OpRemove ak mid) = [HPendingMutations ak]"

lemma commit_state_hub:
  "commit_state s hints eng = (Inr writeOk, eng') \<Longrightarrow> meHub eng' = hub_publish hints (meHub eng)"
  by (auto simp: commit_state_def publish_def)

lemma write_hub:
  assumes "run_write op eng = (Inr writeOk, eng')"
  shows "meHub eng' = hub_publish (hints_of op) (meHub eng)"
  using assms
  by (cases op)
     (auto simp: applyCollectionSync_eq registerAccount_def cacheEmailBody_def
      replaceAttachmentRefs_def replaceMailboxView_def stageSendMutation_def
      applyOptimisticKeywordMutation_def applyOptimisticMailboxMembershipMutation_def
      replacePendingMutationIfCurrent_def removeConfirmedMutation_def finish_sync_def Let_def
      dest: commit_state_hub split: if_splits sum.splits option.splits)

text \<open>A successful write calls every subscribed listener exactly once, with the hints of that
  write, and leaves the subscriptions as they were.\<close>

theorem write_notifies:
  assumes "reachable eng" "run_write op eng = (Inr writeOk, eng')"
  shows "hbListeners (meHub eng') = hbListeners (meHub eng) \<and>
    distinct (map fst (hbListeners (meHub eng))) \<and>
    hbCalls (meHub eng') =
      hbCalls (meHub eng) @ map (\<lambda>(_, l). (l, hints_of op)) (hbListeners (meHub eng))"
  using write_hub [OF assms(2)] reachable_engine_inv [OF assms(1)]
  by (auto simp: hub_publish_def engine_inv_def hub_ok_def map_values_def split_beta)

lemma write_notifies_witness:
  "hbCalls (meHub (snd (run_write (OpRegister sample_account)
     (createMemoryLocalEngine\<lparr>meHub := snd (source_subscribe 5 (meHub createMemoryLocalEngine))\<rparr>)))) =
   [(5, [HAccounts])]"
proof -
  let ?eng = "createMemoryLocalEngine\<lparr>meHub := snd (source_subscribe 5 (meHub createMemoryLocalEngine))\<rparr>"
  have "fst (run_write (OpRegister sample_account) ?eng) = Inr writeOk"
    by (simp add: registerAccount_def createMemoryLocalEngine_def newMemoryState_def Let_def)
  then have r: "run_write (OpRegister sample_account) ?eng =
      (Inr writeOk, snd (run_write (OpRegister sample_account) ?eng))" by (simp add: prod_eq_iff)
  from write_notifies [OF reachable.subscribed [OF reachable.created] r]
  show ?thesis
    by (simp add: createMemoryLocalEngine_def newMemoryChangeHub_def source_subscribe_def
        hub_subscribe_def Let_def)
qed

end
