(* ===== verification/Domain_Theorems.thy ===== *)
theory Domain_Theorems
  imports Memory_Theorems
begin

text \<open>
  The properties of the domain factories and of the lifecycle of a mutation: which mailbox
  views are accepted, what a send intent guarantees, which mutations a run of the domain
  transitions can reach, that the store accepts each of these transitions, and that the keys of
  the store identify what they are keys of.
\<close>

section \<open>Factories\<close>

text \<open>C14: A mailbox view is accepted exactly when its coverage is a list of ordered, disjoint,
  non-adjacent ranges below its total, its items have distinct e-mails of its own account and
  their positions are exactly the covered ones; an accepted view is kept as it is.\<close>

theorem view_acceptance:
  "mailboxView i = Inr v \<longleftrightarrow>
     v = i \<and> safe_nat (mvTotal i) \<and> coverage_ok (mvCoverage i) (mvTotal i) \<and>
     items_ok (mvItems i) (accountKey (vsMailboxId (mvSpec i))) \<and>
     item_positions (mvItems i) = coverage_positions (mvCoverage i)"
  by (auto simp: mailboxView_Inr valid_view_def)

text \<open>C15: An intent that leaves the factory has usable addresses only, at least one recipient and
  a sender that is no wildcard; the recipients are the ones asked for, and its blind copies are
  the first address given for each e-mail among the user's and the identity's.\<close>

theorem send_intent_contract:
  assumes "sendIntent input = Inr i"
  shows "valid_intent i \<and> siTo i = sniTo input \<and> siCc i = sniCc input \<and>
    siFrom i = emailAddress (Some (idName (sniIdentity input))) (idEmail (sniIdentity input)) \<and>
    (\<forall>a. a \<in> set (siBcc i) \<longleftrightarrow>
       find (\<lambda>b. adEmail b = adEmail a)
         (sniBcc input @ (case idBcc (sniIdentity input) of None \<Rightarrow> [] | Some d \<Rightarrow> d)) = Some a)"
proof -
  have "siBcc i = mergeBcc (sniBcc input) (idBcc (sniIdentity input))" "siTo i = sniTo input"
    "siCc i = sniCc input"
    "siFrom i = emailAddress (Some (idName (sniIdentity input))) (idEmail (sniIdentity input))"
    using assms by (auto simp: sendIntent_def Let_def bindE_Inr_iff)
  with sendIntent_valid [OF assms] show ?thesis by (simp add: mergeBcc_def mergeBcc_loop_find)
qed

definition sample_input :: SendIntentInput where
  "sample_input =
     \<lparr>sniSecurityMode = ModePlain,
      sniIdentity = \<lparr>idId = \<lparr>accountKey = [65], jmapId = [73]\<rparr>, idName = [78],
        idEmail = [97, 64, 98], idReplyTo = None,
        idBcc = Some [\<lparr>adName = None, adEmail = [100, 64, 98]\<rparr>]\<rparr>,
      sniTo = [\<lparr>adName = None, adEmail = [99, 64, 98]\<rparr>], sniCc = [],
      sniBcc = [\<lparr>adName = Some [90], adEmail = [100, 64, 98]\<rparr>], sniSubject = [],
      sniBody = \<lparr>sbText = [104], sbHtml = None\<rparr>\<rparr>"

lemma sample_input_accepted: "\<exists>i. sendIntent sample_input = Inr i"
  by (simp add: sample_input_def sendIntent_def Let_def isWildcardIdentity_def js_def
      mergeBcc_def set_add_def emailAddress_def assertUsableOutboundAddress_def
      containsUnsafeHeaderCharacter_def)

lemma send_intent_contract_witness:
  "\<exists>i. sendIntent sample_input = Inr i \<and> \<lparr>adName = Some [90], adEmail = [100, 64, 98]\<rparr> \<in> set (siBcc i)"
proof -
  from sample_input_accepted obtain i where i: "sendIntent sample_input = Inr i" by blast
  with send_intent_contract [OF i] show ?thesis by (auto simp: sample_input_def)
qed

section \<open>The lifecycle of a mutation\<close>

text \<open>C12: Whatever transitions follow the creation of a mutation, its identity, account, creation
  time and payload never change, its lifecycle stays well formed, its attempt count is the number
  of attempts started, and a confirmed or failed mutation has no further transition.\<close>

theorem lifecycle_invariant:
  assumes "created m0" "lifecycle_run m0 k m"
  shows "wf_mutation m \<and> immutable_part m = immutable_part m0 \<and>
    attemptCount (pmLifecycle m) = JInt (int k) \<and> (final m \<longrightarrow> (\<nexists>m'. lifecycle_step m m'))"
  using created_wf [OF assms(1)] lifecycle_run_wf [OF assms(2)]
    lifecycle_run_immutable [OF assms(2)] lifecycle_run_count [OF assms(2)] final_no_step
  by auto

lemma sample_created: "created sample_mutation"
  by (rule created.created_send [of "[77]" "[65]" "[48]" sample_intent])
     (simp add: sendMutation_def sample_intent_def sample_mutation_def pendingLifecycle_def)

lemma sample_starts: "startMutationAttempt sample_mutation = Inr sample_claimed"
  by (simp add: startMutationAttempt_Inr sample_mutation_def sample_claimed_def)

lemma lifecycle_invariant_witness: "attemptCount (pmLifecycle sample_claimed) = JInt 1"
proof -
  have "lifecycle_run sample_mutation 1 sample_claimed"
    using lifecycle_run.run_step [OF lifecycle_run.run_refl lifecycle_step.step_start [OF sample_starts]]
    by (simp add: sample_claimed_def)
  from lifecycle_invariant [OF sample_created this] show ?thesis by simp
qed

text \<open>The store's compare-and-swap never refuses what the domain transitions build: moving
  a stored mutation by any of them succeeds, and stores exactly the mutation built.\<close>

theorem store_accepts_transitions:
  assumes "reachable eng" "aMutation (astore (meState eng)) ak mid = Some m" "lifecycle_step m m'"
  shows "fst (run_write (OpReplaceMutation m m') eng) = Inr writeOk \<and>
    aMutation (astore (meState (snd (run_write (OpReplaceMutation m m') eng)))) ak mid = Some m'"
proof -
  from mutation_of_state [OF reachable_state_inv [OF assms(1)] assms(2)]
  have m: "pmAccountKey m = ak" "pmMutationId m = mid" "typed_mutation m" by simp_all
  have m': "pmAccountKey m' = ak" "pmMutationId m' = mid" "typed_mutation m'"
    using lifecycle_step_immutable [OF assms(3)] m by (simp_all add: immutable_part_def typed_mutation_def)
  have "aenabled (OpReplaceMutation m m') (astore (meState eng))"
    using assms(2) m lifecycle_step_accepted [OF assms(3)] mutationsEqual_refl
    by (simp del: astore_simps)
  with write_decided [OF assms(1), of "OpReplaceMutation m m'"] m' show ?thesis
    by (simp add: put_mutation_def del: astore_simps run_write.simps aenabled.simps)
qed

lemma store_accepts_transitions_witness:
  "fst (run_write (OpReplaceMutation sample_mutation sample_claimed) sample_engine) = Inr writeOk"
  using store_accepts_transitions [OF sample_reachable _ lifecycle_step.step_start [OF sample_starts],
      of "[65]" "[77]"]
  by (simp add: sample_stored del: astore_simps run_write.simps)

section \<open>Keys\<close>

text \<open>Every key of the store identifies what it is a key of: parts of any content and number
  are recovered from a compound key, and no two mailboxes, e-mails, identities, views, cursors,
  mutations, memberships or attachments share one.\<close>

theorem keys_identify:
  "(compoundKey ps = compoundKey qs \<longleftrightarrow> ps = qs) \<and>
   (mailboxKey i = mailboxKey j \<longleftrightarrow> i = j) \<and> (emailKey e = emailKey f \<longleftrightarrow> e = f) \<and>
   (identityKey k = identityKey l \<longleftrightarrow> k = l) \<and> (viewKey v = viewKey w \<longleftrightarrow> v = w) \<and>
   (cursorKey ak d = cursorKey bk d' \<longleftrightarrow> ak = bk \<and> d = d') \<and>
   (mutationKey ak m = mutationKey bk n \<longleftrightarrow> ak = bk \<and> m = n) \<and>
   (membershipKey x = membershipKey y \<longleftrightarrow> x = y) \<and> (attachmentKey p = attachmentKey q \<longleftrightarrow> p = q)"
  by (simp add: membership_keys.key_eq_iff attachment_keys.key_eq_iff)

end
