(* ===== verification/Remote_Types.thy ===== *)
theory Remote_Types
  imports Ports
begin

text \<open>
  The protocol-neutral remote contract: \<open>src/src/remote/types/*.ts\<close>, \<open>mail.ts\<close>, \<open>body.ts\<close>,
  \<open>submission*.ts\<close>, \<open>reconciliation.ts\<close>, \<open>mutation-source.ts\<close>, \<open>session.ts\<close>, \<open>runtime.ts\<close>, and
  the only bridge between remote and local identifiers, \<open>compat/domain-ids.ts\<close> and
  \<open>compat/submission-message.ts\<close>. The remote service itself is a parameter of its clients.
\<close>

section \<open>Identifiers\<close>

type_synonym RemoteAccountId = jsstring
type_synonym RemoteMailboxId = jsstring
type_synonym RemoteEmailId = jsstring
type_synonym RemoteIdentityId = jsstring
type_synonym RemoteThreadId = jsstring
type_synonym RemoteBlobId = jsstring
type_synonym RemoteSyncState = jsstring

definition remoteIdFromString :: "jsstring \<Rightarrow> jsstring \<Rightarrow> jsstring throws" where
  "remoteIdFromString value name =
     throw_if (length value = 0) (TypeError (name @ js '' must not be empty'')) (Inr value)"

definition remoteAccountIdFromString :: "jsstring \<Rightarrow> RemoteAccountId throws" where
  "remoteAccountIdFromString value = remoteIdFromString value (js ''RemoteAccountId'')"

definition remoteMailboxIdFromString :: "jsstring \<Rightarrow> RemoteMailboxId throws" where
  "remoteMailboxIdFromString value = remoteIdFromString value (js ''RemoteMailboxId'')"

definition remoteEmailIdFromString :: "jsstring \<Rightarrow> RemoteEmailId throws" where
  "remoteEmailIdFromString value = remoteIdFromString value (js ''RemoteEmailId'')"

definition remoteIdentityIdFromString :: "jsstring \<Rightarrow> RemoteIdentityId throws" where
  "remoteIdentityIdFromString value = remoteIdFromString value (js ''RemoteIdentityId'')"

definition remoteThreadIdFromString :: "jsstring \<Rightarrow> RemoteThreadId throws" where
  "remoteThreadIdFromString value = remoteIdFromString value (js ''RemoteThreadId'')"

definition remoteBlobIdFromString :: "jsstring \<Rightarrow> RemoteBlobId throws" where
  "remoteBlobIdFromString value = remoteIdFromString value (js ''RemoteBlobId'')"

definition remoteSyncStateFromString :: "jsstring \<Rightarrow> RemoteSyncState" where
  "remoteSyncStateFromString value = value"

section \<open>Between remote and local identifiers\<close>

definition localAccountId :: "RemoteAccountId \<Rightarrow> jsstring throws" where
  "localAccountId i = jmapAccountIdFromString i"

definition remoteAccountId :: "jsstring \<Rightarrow> RemoteAccountId throws" where
  "remoteAccountId i = remoteAccountIdFromString i"

definition localEmailId :: "AccountKey \<Rightarrow> RemoteEmailId \<Rightarrow> ScopedEmailId throws" where
  "localEmailId ak i = bindE (jmapEmailIdFromString i) (\<lambda>j. Inr (scopedEmailId ak j))"

definition localMailboxId :: "AccountKey \<Rightarrow> RemoteMailboxId \<Rightarrow> ScopedMailboxId throws" where
  "localMailboxId ak i = bindE (jmapMailboxIdFromString i) (\<lambda>j. Inr (scopedMailboxId ak j))"

definition localIdentityId :: "AccountKey \<Rightarrow> RemoteIdentityId \<Rightarrow> ScopedIdentityId throws" where
  "localIdentityId ak i = bindE (jmapIdentityIdFromString i) (\<lambda>j. Inr (scopedIdentityId ak j))"

definition localThreadId :: "AccountKey \<Rightarrow> RemoteThreadId \<Rightarrow> ScopedThreadId throws" where
  "localThreadId ak i = bindE (jmapThreadIdFromString i) (\<lambda>j. Inr (scopedThreadId ak j))"

definition localBlobId :: "AccountKey \<Rightarrow> RemoteBlobId \<Rightarrow> ScopedBlobId throws" where
  "localBlobId ak i = bindE (jmapBlobIdFromString i) (\<lambda>j. Inr (scopedBlobId ak j))"

definition localCollectionState :: "RemoteSyncState \<Rightarrow> CollectionSyncState" where
  "localCollectionState state = collectionSyncStateFromString state"

definition remoteEmailId :: "ScopedEmailId \<Rightarrow> RemoteEmailId throws" where
  "remoteEmailId i = remoteEmailIdFromString (jmapId i)"

definition remoteMailboxId :: "ScopedMailboxId \<Rightarrow> RemoteMailboxId throws" where
  "remoteMailboxId i = remoteMailboxIdFromString (jmapId i)"

definition remoteIdentityId :: "ScopedIdentityId \<Rightarrow> RemoteIdentityId throws" where
  "remoteIdentityId i = remoteIdentityIdFromString (jmapId i)"

definition remoteThreadId :: "ScopedThreadId \<Rightarrow> RemoteThreadId throws" where
  "remoteThreadId i = remoteThreadIdFromString (jmapId i)"

definition remoteBlobId :: "ScopedBlobId \<Rightarrow> RemoteBlobId throws" where
  "remoteBlobId i = remoteBlobIdFromString (jmapId i)"

lemma remoteIdFromString_Inr [simp]: "remoteIdFromString v n = Inr k \<longleftrightarrow> v \<noteq> [] \<and> k = v"
  by (auto simp: remoteIdFromString_def)

lemmas remote_id_defs =
  remoteAccountIdFromString_def remoteMailboxIdFromString_def remoteEmailIdFromString_def
  remoteIdentityIdFromString_def remoteThreadIdFromString_def remoteBlobIdFromString_def

lemma remote_ids_Inr [throws_simps]:
  "remoteAccountId i = Inr r \<longleftrightarrow> i \<noteq> [] \<and> r = i"
  "remoteEmailId e = Inr r \<longleftrightarrow> jmapId e \<noteq> [] \<and> r = jmapId e"
  "remoteMailboxId e = Inr r \<longleftrightarrow> jmapId e \<noteq> [] \<and> r = jmapId e"
  "remoteIdentityId e = Inr r \<longleftrightarrow> jmapId e \<noteq> [] \<and> r = jmapId e"
  "remoteThreadId e = Inr r \<longleftrightarrow> jmapId e \<noteq> [] \<and> r = jmapId e"
  "remoteBlobId e = Inr r \<longleftrightarrow> jmapId e \<noteq> [] \<and> r = jmapId e"
  by (simp_all add: remoteAccountId_def remoteEmailId_def remoteMailboxId_def remoteIdentityId_def
      remoteThreadId_def remoteBlobId_def remote_id_defs)

lemma local_ids_Inr [throws_simps]:
  "localAccountId i = Inr j \<longleftrightarrow> i \<noteq> [] \<and> j = i"
  "localEmailId ak i = Inr s \<longleftrightarrow> i \<noteq> [] \<and> s = \<lparr>accountKey = ak, jmapId = i\<rparr>"
  "localMailboxId ak i = Inr s \<longleftrightarrow> i \<noteq> [] \<and> s = \<lparr>accountKey = ak, jmapId = i\<rparr>"
  "localIdentityId ak i = Inr s \<longleftrightarrow> i \<noteq> [] \<and> s = \<lparr>accountKey = ak, jmapId = i\<rparr>"
  "localThreadId ak i = Inr s \<longleftrightarrow> i \<noteq> [] \<and> s = \<lparr>accountKey = ak, jmapId = i\<rparr>"
  "localBlobId ak i = Inr s \<longleftrightarrow> i \<noteq> [] \<and> s = \<lparr>accountKey = ak, jmapId = i\<rparr>"
  by (auto simp: localAccountId_def localEmailId_def localMailboxId_def localIdentityId_def
      localThreadId_def localBlobId_def opaque_id_defs scoped_id_defs bindE_Inr_iff)

section \<open>Remote models\<close>

type_synonym RemoteAddress = EmailAddress
type_synonym RemoteAddressList = "RemoteAddress list option"

record RemoteIdentity =
  riId :: RemoteIdentityId
  riName :: jsstring
  riEmail :: jsstring
  riReplyTo :: RemoteAddressList
  riBcc :: RemoteAddressList

record RemoteMailbox =
  rmId :: RemoteMailboxId
  rmName :: jsstring
  rmParent :: "RemoteMailboxId option"
  rmRole :: "jsstring option"
  rmSortOrder :: number
  rmTotalEmails :: number
  rmUnreadEmails :: number
  rmRights :: MailboxRights

record RemoteEmail =
  rlId :: RemoteEmailId
  rlBlobId :: RemoteBlobId
  rlThreadId :: RemoteThreadId
  rlSender :: RemoteAddressList
  rlFrom :: RemoteAddressList
  rlReplyTo :: RemoteAddressList
  rlTo :: RemoteAddressList
  rlCc :: RemoteAddressList
  rlBcc :: RemoteAddressList
  rlSubject :: "jsstring option"
  rlSentAt :: "jsstring option"
  rlReceivedAt :: jsstring
  rlSize :: number
  rlPreview :: jsstring
  rlHasAttachment :: bool
  rlKeywords :: KeywordSet
  rlMailboxIds :: "RemoteMailboxId list"

record RemoteAttachment =
  raBlobId :: RemoteBlobId
  raPartId :: "jsstring option"
  raName :: "jsstring option"
  raMediaType :: jsstring
  raSize :: number
  raDisposition :: "jsstring option"
  raCid :: "jsstring option"

datatype RemoteBody =
    RemotePlain "jsstring option" "jsstring option"
  | RemoteBoxplotE2ee jsstring

section \<open>Collections and queries\<close>

datatype ('t, 'i) RemoteCollectionSync =
    RemoteReplace RemoteSyncState "'t list"
  | RemoteDelta RemoteSyncState "'t list" "'i list"

fun check_values ::
  "('t \<Rightarrow> jsstring) \<Rightarrow> 't list \<Rightarrow> jsstring list \<Rightarrow> jsstring list throws" where
  "check_values identityOf [] identities = Inr identities"
| "check_values identityOf (v # vs) identities =
     throw_if (List.member identities (identityOf v))
       (TypeError (js ''Remote collection contains duplicate ID '' @ identityOf v))
       (check_values identityOf vs (set_add (identityOf v) identities))"

fun check_destroyed :: "jsstring list \<Rightarrow> jsstring list \<Rightarrow> jsstring list \<Rightarrow> unit throws" where
  "check_destroyed identities [] destroyed = Inr ()"
| "check_destroyed identities (i # ids) destroyed =
     throw_if (List.member destroyed i)
       (TypeError (js ''Remote collection contains duplicate destroyed ID '' @ i))
     (throw_if (List.member identities i)
       (TypeError (js ''Remote collection ID '' @ i @ js '' is both changed and destroyed''))
     (check_destroyed identities ids (set_add i destroyed)))"

definition validateRemoteCollectionSync ::
  "('t, jsstring) RemoteCollectionSync \<Rightarrow> ('t \<Rightarrow> jsstring) \<Rightarrow>
   ('t, jsstring) RemoteCollectionSync throws" where
  "validateRemoteCollectionSync transition identityOf =
     (case transition of
        RemoteReplace _ snapshot \<Rightarrow>
          bindE (check_values identityOf snapshot []) (\<lambda>_. Inr transition)
      | RemoteDelta _ changed destroyed \<Rightarrow>
          bindE (check_values identityOf changed []) (\<lambda>identities.
          bindE (check_destroyed identities destroyed []) (\<lambda>_. Inr transition)))"

lemma check_values_Inr:
  "check_values f vs ids = Inr r \<longleftrightarrow>
     distinct (map f vs) \<and> set (map f vs) \<inter> set ids = {} \<and> r = fold set_add (map f vs) ids"
  by (induction vs arbitrary: ids) auto

lemma check_destroyed_Inr:
  "check_destroyed ids ds seen = Inr () \<longleftrightarrow>
     distinct ds \<and> set ds \<inter> set seen = {} \<and> set ds \<inter> set ids = {}"
  by (induction ds arbitrary: seen) auto

record RemoteMailboxQuery =
  rqIds :: "RemoteEmailId list"
  rqQueryState :: RemoteSyncState
  rqTotal :: number
  rqPosition :: number
  rqCanCalculateChanges :: bool

record RemoteQueryOptions =
  roPosition :: "number option"
  roLimit :: "number option"
  roAnchor :: "RemoteEmailId option"
  roAnchorOffset :: "number option"

record RemoteKeywordChange =
  rkAdd :: "jsstring list"
  rkRemove :: "jsstring list"

record RemoteMembershipChange =
  rbAdd :: "RemoteMailboxId list"
  rbRemove :: "RemoteMailboxId list"

section \<open>Submission and reconciliation\<close>

datatype SubmissionBody =
    SubmitPlain jsstring "jsstring option"
  | SubmitBoxplotE2ee jsstring

record RemoteSubmissionDraft =
  smRemoteIdentityId :: "RemoteIdentityId option"
  smFrom :: RemoteAddress
  smTo :: "RemoteAddress list"
  smCc :: "RemoteAddress list"
  smBcc :: "RemoteAddress list"
  smReplyTo :: "RemoteAddress list"
  smSubject :: jsstring
  smBody :: SubmissionBody

record SubmissionMessage = RemoteSubmissionDraft +
  smRemoteAccountId :: RemoteAccountId

record SubmissionResult =
  srRemoteEmailId :: "RemoteEmailId option"
  srReceiptId :: "jsstring option"

datatype RemoteMutationEvidence = EvidenceApplied RemoteEmailId | EvidenceInconclusive

definition appliedRemoteMutationEvidence :: "RemoteEmailId \<Rightarrow> RemoteMutationEvidence" where
  "appliedRemoteMutationEvidence i = EvidenceApplied i"

definition inconclusiveRemoteMutationEvidence :: RemoteMutationEvidence where
  "inconclusiveRemoteMutationEvidence = EvidenceInconclusive"

definition remoteMutationEvidenceFromExactMatches ::
  "RemoteEmailId list \<Rightarrow> RemoteMutationEvidence" where
  "remoteMutationEvidenceFromExactMatches matches =
     (case matches of
        match # rest \<Rightarrow>
          if length matches = 1 then appliedRemoteMutationEvidence match
          else inconclusiveRemoteMutationEvidence
      | [] \<Rightarrow> inconclusiveRemoteMutationEvidence)"

definition submissionMessageFromSendIntent ::
  "RemoteAccountId \<Rightarrow> SendIntent \<Rightarrow> SubmissionMessage throws" where
  "submissionMessageFromSendIntent remoteAccount intent =
     throw_if (siSecurityMode intent \<noteq> ModePlain)
       (TypeError (js ''Encrypted SendIntent cannot use the plaintext submission converter''))
     (bindE (remoteIdentityId (siIdentityId intent)) (\<lambda>i.
      Inr \<lparr>smRemoteIdentityId = Some i, smFrom = siFrom intent, smTo = siTo intent,
           smCc = siCc intent, smBcc = siBcc intent, smReplyTo = siReplyTo intent,
           smSubject = siSubject intent,
           smBody = SubmitPlain (sbText (siBody intent)) (sbHtml (siBody intent)),
           smRemoteAccountId = remoteAccount\<rparr>))"

section \<open>Connections\<close>

datatype RemoteConnectionConfig =
    ConfigJmap jsstring
  | ConfigImapSmtp jsstring jsstring jsstring number number
  | ConfigGmail jsstring jsstring

text \<open>The factories are parameters; \<open>RemoteConnection\<close> is what they return.\<close>

definition unsupported_error :: RemoteError where
  "unsupported_error =
     \<lparr>reKind = KUnsupported, reRetry = RNever, reSession = SKeep, reOutcome = ONotApplicable\<rparr>"

definition createRemoteConnection ::
  "RemoteConnectionConfig \<Rightarrow> (RemoteConnectionConfig \<Rightarrow> 'c) \<Rightarrow>
   (RemoteConnectionConfig \<Rightarrow> 'c) option \<Rightarrow> (RemoteConnectionConfig \<Rightarrow> 'c) option \<Rightarrow> 'c throws" where
  "createRemoteConnection config jmap imapSmtp gmail =
     (case config of
        ConfigJmap _ \<Rightarrow> Inr (jmap config)
      | ConfigImapSmtp _ _ _ _ _ \<Rightarrow>
          (case imapSmtp of None \<Rightarrow> Inl (RemoteExn unsupported_error) | Some f \<Rightarrow> Inr (f config))
      | ConfigGmail _ _ \<Rightarrow>
          (case gmail of None \<Rightarrow> Inl (RemoteExn unsupported_error) | Some f \<Rightarrow> Inr (f config)))"

end
