(* ===== verification/E2ee.thy ===== *)
theory E2ee
  imports Remote_Types
begin

text \<open>
  \<open>src/src/e2ee/types.ts\<close>, \<open>send-intent.ts\<close> and the serialisation of
  \<open>remote/mime/boxplot-e2ee.ts\<close>. The cryptography is behind \<open>E2eePort\<close>: an argument.
  \<open>JSON.stringify\<close> is modelled on what the serialiser gives it, an object of strings and the
  number 1: keys and values quoted as ECMA-262 quotes them.
\<close>

datatype 'a E2eeResult = E2eeOk 'a | E2eeErr E2eeErrorKind

record BoxplotE2eeEnvelope =
  evSender :: jsstring
  evRecipient :: jsstring
  evSenderPublicKey :: jsstring
  evRecipientPublicKey :: jsstring
  evNonce :: jsstring
  evCiphertext :: jsstring

record EncryptForInput =
  efLocalIdentity :: jsstring
  efRecipientIdentity :: jsstring
  efSubject :: jsstring
  efText :: jsstring
  efHtml :: "jsstring option"

definition encryptSendIntent ::
  "(EncryptForInput \<Rightarrow> ('s, exn, BoxplotE2eeEnvelope E2eeResult) eff) \<Rightarrow> SendIntent \<Rightarrow>
   ('s, exn, BoxplotE2eeEnvelope E2eeResult) eff" where
  "encryptSendIntent encryptFor intent =
     (case siTo intent of
        [] \<Rightarrow> retM (E2eeErr EMultipleRecipientsUnsupported)
      | recipient # _ \<Rightarrow>
          if length (siTo intent) \<noteq> 1 \<or> length (siCc intent) \<noteq> 0 \<or> length (siBcc intent) \<noteq> 0
          then retM (E2eeErr EMultipleRecipientsUnsupported)
          else encryptFor
                 \<lparr>efLocalIdentity = adEmail (siFrom intent),
                  efRecipientIdentity = adEmail recipient,
                  efSubject = siSubject intent, efText = sbText (siBody intent),
                  efHtml = sbHtml (siBody intent)\<rparr>)"

section \<open>Quoting strings in JSON\<close>

definition hex_digit :: "nat \<Rightarrow> 16 word" where
  "hex_digit n = (if n < 10 then 48 + of_nat n else 87 + of_nat n)"

definition unicode_escape :: "16 word \<Rightarrow> jsstring" where
  "unicode_escape c =
     [92, 117, hex_digit (unat c div 4096), hex_digit (unat c div 256 mod 16),
      hex_digit (unat c div 16 mod 16), hex_digit (unat c mod 16)]"

definition leading_surrogate :: "16 word \<Rightarrow> bool" where
  "leading_surrogate c \<longleftrightarrow> 0xD800 \<le> c \<and> c \<le> 0xDBFF"

definition trailing_surrogate :: "16 word \<Rightarrow> bool" where
  "trailing_surrogate c \<longleftrightarrow> 0xDC00 \<le> c \<and> c \<le> 0xDFFF"

definition quote_unit :: "16 word \<Rightarrow> jsstring" where
  "quote_unit c =
     (if c = 8 then [92, 98] else if c = 9 then [92, 116] else if c = 10 then [92, 110]
      else if c = 12 then [92, 102] else if c = 13 then [92, 114]
      else if c = 34 then [92, 34] else if c = 92 then [92, 92]
      else if c < 32 \<or> leading_surrogate c \<or> trailing_surrogate c then unicode_escape c
      else [c])"

fun quote_units :: "jsstring \<Rightarrow> jsstring" where
  "quote_units [] = []"
| "quote_units [c] = quote_unit c"
| "quote_units (c # d # cs) =
     (if leading_surrogate c \<and> trailing_surrogate d then c # d # quote_units cs
      else quote_unit c @ quote_units (d # cs))"

definition json_quote :: "jsstring \<Rightarrow> jsstring" where
  "json_quote s = [34] @ quote_units s @ [34]"

definition json_member :: "jsstring \<Rightarrow> jsstring \<Rightarrow> jsstring" where
  "json_member key value = json_quote key @ [58] @ value"

definition serializeBoxplotE2eeEnvelope :: "BoxplotE2eeEnvelope \<Rightarrow> jsstring" where
  "serializeBoxplotE2eeEnvelope envelope =
     [123] @ json_member (js ''version'') [49] @
     [44] @ json_member (js ''algorithm'') (json_quote (js ''boxplot-crypto-box-v1'')) @
     [44] @ json_member (js ''sender'') (json_quote (evSender envelope)) @
     [44] @ json_member (js ''recipient'') (json_quote (evRecipient envelope)) @
     [44] @ json_member (js ''senderPublicKey'') (json_quote (evSenderPublicKey envelope)) @
     [44] @ json_member (js ''recipientPublicKey'') (json_quote (evRecipientPublicKey envelope)) @
     [44] @ json_member (js ''nonce'') (json_quote (evNonce envelope)) @
     [44] @ json_member (js ''ciphertext'') (json_quote (evCiphertext envelope)) @ [125]"

end
