(* ===== verification/JS_Date.thy ===== *)
theory JS_Date
  imports JS_Prelude
begin

text \<open>
  The two functions of \<open>Date\<close> the program uses: \<open>new Date(v).toISOString()\<close> and \<open>Date.parse\<close>
  on the strings it returns, by the day, year and time arithmetic of ECMA-262. What
  \<open>Date.parse\<close> answers on other strings depends on the engine: it is an argument.
  The theorems: parsing inverts printing, and on the years 0 to 9999 the printed instants are
  ordered as strings the way the time values are ordered as numbers, which is what the
  comparisons \<open>nextAttemptAt > now\<close> of the program rely on.
\<close>

section \<open>Days and years\<close>

definition day_from_year :: "int \<Rightarrow> int" where
  "day_from_year y =
     365 * (y - 1970) + (y - 1969) div 4 - (y - 1901) div 100 + (y - 1601) div 400"

definition leap_year :: "int \<Rightarrow> bool" where
  "leap_year y \<longleftrightarrow> y mod 4 = 0 \<and> y mod 100 \<noteq> 0 \<or> y mod 400 = 0"

lemma div_step:
  fixes x k :: int
  assumes "0 < k"
  shows "(x + 1) div k = x div k + (if (x + 1) mod k = 0 then 1 else 0)"
proof -
  define q where "q = (x + 1) div k"
  define r where "r = (x + 1) mod k"
  have x: "x = k * q + r - 1" and r: "0 \<le> r" "r < k"
    using assms by (simp_all add: q_def r_def)
  show ?thesis
  proof (cases "r = 0")
    case True
    then have "x = k * (q - 1) + (k - 1)" using x by (simp add: algebra_simps)
    then have "x div k = q - 1" using assms by (simp add: int_div_pos_eq)
    with True show ?thesis by (simp add: q_def r_def)
  next
    case False
    then have "x = k * q + (r - 1)" "0 \<le> r - 1" "r - 1 < k" using x r by simp_all
    then have "x div k = q" using int_div_pos_eq by blast
    with False show ?thesis by (simp add: q_def r_def)
  qed
qed

lemma day_from_year_Suc:
  "day_from_year (y + 1) = day_from_year y + (if leap_year y then 366 else 365)"
proof -
  have step: "(y - c) div k = (y - d) div k + (if y mod k = 0 then 1 else 0)"
    if "0 < k" "(y - c) mod k = y mod k" "d = c + 1" for c d k :: int
  proof -
    have "y - d + 1 = y - c" using that(3) by simp
    with div_step [OF that(1), of "y - d"] that(2) show ?thesis by simp
  qed
  have mods: "(y - 1968) mod 4 = y mod 4" "(y - 1900) mod 100 = y mod 100"
    "(y - 1600) mod 400 = y mod 400"
    using mod_mult_self1 [of y "-492" 4] mod_mult_self1 [of y "-19" 100]
      mod_mult_self1 [of y "-4" 400] by simp_all
  have imp: "y mod 100 = 0" if "y mod 400 = 0"
    using that mod_mod_cancel [of 100 400 y] by simp
  have imp': "y mod 4 = 0" if "y mod 100 = 0"
    using that mod_mod_cancel [of 4 100 y] by simp
  define b4 b100 b400 :: int where
    "b4 = (if y mod 4 = 0 then 1 else 0)" and "b100 = (if y mod 100 = 0 then 1 else 0)" and
    "b400 = (if y mod 400 = 0 then 1 else 0)"
  have "(y - 1968) div 4 = (y - 1969) div 4 + b4" unfolding b4_def
    by (rule step [OF _ mods(1)]) simp_all
  moreover have "(y - 1900) div 100 = (y - 1901) div 100 + b100" unfolding b100_def
    by (rule step [OF _ mods(2)]) simp_all
  moreover have "(y - 1600) div 400 = (y - 1601) div 400 + b400" unfolding b400_def
    by (rule step [OF _ mods(3)]) simp_all
  moreover have "(if leap_year y then 366 else 365) = 365 + b4 - b100 + b400"
  proof -
    have "(if P \<and> \<not> Q \<or> R then 366 else 365) =
        365 + (if P then 1 else 0) - (if Q then 1 else 0) + (if R then 1 else (0::int))"
      if "R \<Longrightarrow> Q" "Q \<Longrightarrow> P" for P Q R
      using that by (cases P; cases Q; cases R) auto
    from this [OF imp imp'] show ?thesis unfolding leap_year_def b4_def b100_def b400_def .
  qed
  moreover have "y + 1 - 1969 = y - 1968" "y + 1 - 1901 = y - 1900" "y + 1 - 1601 = y - 1600"
      "y + 1 - 1970 = (y - 1970) + 1"
    by simp_all
  ultimately show ?thesis by (simp only: day_from_year_def distrib_left)
qed

lemma day_from_year_less: "day_from_year y < day_from_year (y + 1)"
  by (simp add: day_from_year_Suc)

lemma day_from_year_strict: "y < z \<Longrightarrow> day_from_year y < day_from_year z"
proof (induction "nat (z - y)" arbitrary: z)
  case (Suc n)
  show ?case
  proof (cases "z = y + 1")
    case True
    then show ?thesis by (simp add: day_from_year_less)
  next
    case False
    with Suc have "day_from_year y < day_from_year (z - 1)" by simp
    with day_from_year_less [of "z - 1"] show ?thesis by simp
  qed
qed simp

lemma day_from_year_mono: "y \<le> z \<Longrightarrow> day_from_year y \<le> day_from_year z"
  using day_from_year_strict [of y z] by (cases "y = z") auto

function year_search :: "int \<Rightarrow> int \<Rightarrow> int" where
  "year_search y d = (if day_from_year y \<le> d then y else year_search (y - 1) d)"
  by pat_completeness auto

termination
proof (relation "measure (\<lambda>(y, d). nat (day_from_year y - d))")
  fix y d :: int
  assume "\<not> day_from_year y \<le> d"
  then show "((y - 1, d), (y, d)) \<in> measure (\<lambda>(y, d). nat (day_from_year y - d))"
    using day_from_year_less [of "y - 1"] by simp
qed simp

declare year_search.simps [simp del]

definition year_of_day :: "int \<Rightarrow> int" where
  "year_of_day d = year_search (1970 + (if 0 \<le> d then d div 365 else d div 366)) d"

lemma year_search_bounds:
  "d < day_from_year (y + 1) \<Longrightarrow>
   day_from_year (year_search y d) \<le> d \<and> d < day_from_year (year_search y d + 1)"
proof (induction y d rule: year_search.induct)
  case (1 y d)
  show ?case
  proof (cases "day_from_year y \<le> d")
    case True
    with 1 show ?thesis by (subst (1 2) year_search.simps) simp
  next
    case False
    with 1 show ?thesis by (subst (1 2) year_search.simps) simp
  qed
qed

lemma div_bounds:
  fixes x k :: int
  assumes "0 < k"
  shows "k * (x div k) \<le> x \<and> x < k * (x div k) + k"
  using assms mult_div_mod_eq [of k x] pos_mod_bound [of k x] pos_mod_sign [of k x] by linarith

lemma year_guess:
  "d < day_from_year (1970 + (if 0 \<le> d then d div 365 else d div 366) + 1)"
proof (cases "0 \<le> d")
  case True
  define k where "k = d div 365"
  have k: "0 \<le> k" "d < 365 * k + 365" using True div_bounds [of 365 d] by (simp_all add: k_def)
  have "0 \<le> (k + 2) div 4 - (k + 70) div 100 + (k + 370) div 400"
  proof (cases "k = 0")
    case False
    with k(1) show ?thesis
      using div_bounds [of 4 "k + 2"] div_bounds [of 100 "k + 70"] div_bounds [of 400 "k + 370"]
      by linarith
  qed simp
  with True k show ?thesis by (simp add: day_from_year_def k_def [symmetric] algebra_simps)
next
  case False
  define k where "k = d div 366"
  have k: "k \<le> -1" "d < 366 * k + 366" using False div_bounds [of 366 d] by (simp_all add: k_def)
  have "k + 1 \<le> (k + 2) div 4 - (k + 70) div 100 + (k + 370) div 400"
  proof (cases "k = -1 \<or> k = -2")
    case False
    with k(1) have "k \<le> -3" by simp
    then show ?thesis
      using div_bounds [of 4 "k + 2"] div_bounds [of 100 "k + 70"] div_bounds [of 400 "k + 370"]
      by linarith
  qed auto
  with False k show ?thesis by (simp add: day_from_year_def k_def [symmetric] algebra_simps)
qed

lemma year_of_day_bounds:
  "day_from_year (year_of_day d) \<le> d \<and> d < day_from_year (year_of_day d + 1)"
  unfolding year_of_day_def by (rule year_search_bounds [OF year_guess])

lemma year_of_day_unique:
  "day_from_year y \<le> d \<Longrightarrow> d < day_from_year (y + 1) \<Longrightarrow> year_of_day d = y"
proof (rule ccontr)
  assume y: "day_from_year y \<le> d" "d < day_from_year (y + 1)" "year_of_day d \<noteq> y"
  show False
  proof (cases "year_of_day d < y")
    case True
    then have "day_from_year (year_of_day d + 1) \<le> day_from_year y"
      by (intro day_from_year_mono) simp
    with y year_of_day_bounds [of d] show False by linarith
  next
    case False
    with y(3) have "day_from_year (y + 1) \<le> day_from_year (year_of_day d)"
      by (intro day_from_year_mono) simp
    with y year_of_day_bounds [of d] show False by linarith
  qed
qed

lemma year_of_day_mono: "d \<le> e \<Longrightarrow> year_of_day d \<le> year_of_day e"
proof (rule ccontr)
  assume "d \<le> e" "\<not> year_of_day d \<le> year_of_day e"
  then have "day_from_year (year_of_day e + 1) \<le> day_from_year (year_of_day d)"
    by (intro day_from_year_mono) simp
  with year_of_day_bounds [of d] year_of_day_bounds [of e] \<open>d \<le> e\<close> show False by linarith
qed

section \<open>Months\<close>

definition month_start :: "bool \<Rightarrow> nat \<Rightarrow> int" where
  "month_start leap m =
     [0, 31, 59, 90, 120, 151, 181, 212, 243, 273, 304, 334] ! m + (if leap \<and> 2 \<le> m then 1 else 0)"

fun month_search :: "bool \<Rightarrow> int \<Rightarrow> nat \<Rightarrow> nat" where
  "month_search leap n 0 = 0"
| "month_search leap n (Suc m) =
     (if month_start leap (Suc m) \<le> n then Suc m else month_search leap n m)"

definition month_of :: "bool \<Rightarrow> int \<Rightarrow> nat" where
  "month_of leap n = month_search leap n 11"

lemma month_search_le: "month_search leap n m \<le> m"
  by (induction m) auto

lemma month_start_0: "month_start leap 0 = 0"
  by (simp add: month_start_def)

lemma month_search_start: "0 \<le> n \<Longrightarrow> month_start leap (month_search leap n m) \<le> n"
  by (induction m) (auto simp: month_start_0)

lemma month_search_mono: "n \<le> k \<Longrightarrow> month_search leap n m \<le> month_search leap k m"
  by (induction m) (auto intro: le_SucI order_trans [OF month_search_le])

lemma month_search_last:
  "n < month_start leap (Suc m) \<or> m = 11 \<Longrightarrow> m \<le> 11 \<Longrightarrow> k \<le> m \<Longrightarrow>
   month_search leap n m < k \<Longrightarrow> n < month_start leap k"
proof (induction m)
  case (Suc m)
  show ?case
  proof (cases "month_start leap (Suc m) \<le> n")
    case True
    with Suc.prems show ?thesis by simp
  next
    case False
    show ?thesis
    proof (cases "k = Suc m")
      case True
      with False show ?thesis by simp
    next
      case k: False
      with False Suc show ?thesis by simp
    qed
  qed
qed simp

text \<open>The day of the month is at most 31.\<close>

lemma month_day_bound:
  assumes "0 \<le> n" "n < (if leap then 366 else 365)"
  shows "n - month_start leap (month_of leap n) < 31"
proof -
  let ?m = "month_of leap n"
  have m: "?m \<le> 11" by (simp add: month_of_def month_search_le)
  have next': "n < month_start leap (Suc ?m)" if "?m < 11"
    using month_search_last [of n leap 11 "Suc ?m"] that by (simp add: month_of_def)
  have len: "month_start leap (Suc k) - month_start leap k \<le> 31" if "k < 11" for k
  proof -
    have "\<forall>k \<in> set [0..<11]. month_start leap (Suc k) - month_start leap k \<le> 31"
      by (cases leap) (simp_all add: month_start_def upt_rec)
    with that show ?thesis by simp
  qed
  show ?thesis
  proof (cases "?m < 11")
    case True
    with next' len [of ?m] show ?thesis by simp
  next
    case False
    with m have "?m = 11" by simp
    with assms(2) show ?thesis by (simp add: month_start_def split: if_splits)
  qed
qed

section \<open>Printing and parsing\<close>

fun pad :: "nat \<Rightarrow> nat \<Rightarrow> jsstring" where
  "pad 0 n = []"
| "pad (Suc k) n = pad k (n div 10) @ [48 + of_nat (n mod 10)]"

definition ms_per_day :: int where
  "ms_per_day = 86400000"

definition year_of_time :: "int \<Rightarrow> int" where
  "year_of_time t = year_of_day (t div ms_per_day)"

definition day_within_year :: "int \<Rightarrow> int" where
  "day_within_year t = t div ms_per_day - day_from_year (year_of_time t)"

definition month_of_time :: "int \<Rightarrow> nat" where
  "month_of_time t = month_of (leap_year (year_of_time t)) (day_within_year t)"

definition date_of_time :: "int \<Rightarrow> int" where
  "date_of_time t =
     day_within_year t - month_start (leap_year (year_of_time t)) (month_of_time t) + 1"

definition ms_within_day :: "int \<Rightarrow> int" where
  "ms_within_day t = t mod ms_per_day"

definition make_time :: "int \<Rightarrow> nat \<Rightarrow> int \<Rightarrow> int \<Rightarrow> int" where
  "make_time y m d ms =
     (day_from_year y + month_start (leap_year y) m + d - 1) * ms_per_day + ms"

definition pad_year :: "int \<Rightarrow> jsstring" where
  "pad_year y =
     (if 0 \<le> y \<and> y \<le> 9999 then pad 4 (nat y)
      else (if y < 0 then 45 else 43) # pad 6 (nat \<bar>y\<bar>))"

text \<open>Hours, minutes, seconds and milliseconds, and the whole string.\<close>

definition clock_string :: "nat \<Rightarrow> jsstring" where
  "clock_string ms =
     pad 2 (ms div 3600000) @ [58] @ pad 2 (ms mod 3600000 div 60000) @ [58] @
     pad 2 (ms mod 60000 div 1000) @ [46] @ pad 3 (ms mod 1000) @ [90]"

definition iso_string :: "int \<Rightarrow> jsstring" where
  "iso_string t =
     pad_year (year_of_time t) @ [45] @ pad 2 (month_of_time t + 1) @ [45] @
     pad 2 (nat (date_of_time t)) @ [84] @ clock_string (nat (ms_within_day t))"

definition max_time :: int where
  "max_time = 8640000000000000"

text \<open>\<open>new Date(v).toISOString()\<close>: the time value is clipped to an integer in range.\<close>

definition toISOString :: "number \<Rightarrow> 'e \<Rightarrow> 'e + jsstring" where
  "toISOString v rangeError =
     (case v of
        JInt t \<Rightarrow> if \<bar>t\<bar> \<le> max_time then Inr (iso_string t) else Inl rangeError
      | JFrac r \<Rightarrow>
          (let t = (if r < 0 then \<lceil>r\<rceil> else \<lfloor>r\<rfloor>) in
           if \<bar>r\<bar> \<le> of_int max_time then Inr (iso_string t) else Inl rangeError)
      | _ \<Rightarrow> Inl rangeError)"

definition digits_at :: "jsstring \<Rightarrow> nat \<Rightarrow> nat \<Rightarrow> nat" where
  "digits_at s i k = digits10_value (take k (drop i s))"

definition clock_value :: "jsstring \<Rightarrow> nat" where
  "clock_value s =
     digits_at s 0 2 * 3600000 + digits_at s 3 2 * 60000 + digits_at s 6 2 * 1000 + digits_at s 9 3"

definition iso_value :: "jsstring \<Rightarrow> int" where
  "iso_value s =
     (let (y, rest) =
        (if length s = 24 then (int (digits_at s 0 4), drop 5 s)
         else ((if take 1 s = [45] then - 1 else 1) * int (digits_at s 1 6), drop 8 s))
      in make_time y (digits_at rest 0 2 - 1) (int (digits_at rest 3 2)) (int (clock_value (drop 6 rest))))"

definition dateParse :: "(jsstring \<Rightarrow> number) \<Rightarrow> jsstring \<Rightarrow> number" where
  "dateParse other s =
     (if iso_string (iso_value s) = s \<and> \<bar>iso_value s\<bar> \<le> max_time then JInt (iso_value s)
      else other s)"


section \<open>Fixed-width digits\<close>

lemma pad_length [simp]: "length (pad k n) = k"
  by (induction k arbitrary: n) auto

lemma digits10_value_snoc:
  "digits10_value (ws @ [w]) = 10 * digits10_value ws + (unat w - 48)"
  by (simp add: digits10_value_def)

lemma digits10_value_pad: "n < 10 ^ k \<Longrightarrow> digits10_value (pad k n) = n"
proof (induction k arbitrary: n)
  case 0
  then show ?case by (simp add: digits10_value_def)
next
  case (Suc k)
  then have "n div 10 < 10 ^ k" by (simp add: less_mult_imp_div_less)
  from Suc.IH [OF this] show ?case by (simp add: digits10_value_snoc digit_word)
qed

lemma js_less_append:
  "length xs = length ys \<Longrightarrow>
   js_less (xs @ r) (ys @ s) \<longleftrightarrow> js_less xs ys \<or> xs = ys \<and> js_less r s"
  by (induction xs ys rule: list_induct2) auto

lemma pad_inject: "a < 10 ^ k \<Longrightarrow> b < 10 ^ k \<Longrightarrow> pad k a = pad k b \<longleftrightarrow> a = b"
  by (metis digits10_value_pad)

lemma digit_less: "a < 10 \<Longrightarrow> b < 10 \<Longrightarrow> (48 + of_nat a :: 16 word) < 48 + of_nat b \<longleftrightarrow> a < b"
  by (simp add: word_less_nat_alt digit_word)

lemma lex_div:
  fixes a b k :: nat
  shows "a < b \<longleftrightarrow> a div k < b div k \<or> a div k = b div k \<and> a mod k < b mod k"
proof (cases "a div k = b div k")
  case True
  then have "a < b \<longleftrightarrow> a mod k < b mod k"
    using mult_div_mod_eq [of k a] mult_div_mod_eq [of k b] by (metis add_less_cancel_left)
  with True show ?thesis by simp
next
  case False
  then show ?thesis using div_le_mono [of a b k] div_le_mono [of b a k] by linarith
qed

lemma pad_less:
  "a < 10 ^ k \<Longrightarrow> b < 10 ^ k \<Longrightarrow> js_less (pad k a) (pad k b) \<longleftrightarrow> a < b"
proof (induction k arbitrary: a b)
  case (Suc k)
  have d: "a div 10 < 10 ^ k" "b div 10 < 10 ^ k"
    using Suc.prems by (simp_all add: less_mult_imp_div_less)
  have "js_less (pad (Suc k) a) (pad (Suc k) b) \<longleftrightarrow>
      a div 10 < b div 10 \<or> a div 10 = b div 10 \<and> a mod 10 < b mod 10"
    using Suc.IH [OF d] pad_inject [OF d] by (simp add: js_less_append digit_less)
  also have "\<dots> \<longleftrightarrow> a < b" using lex_div [of a b 10] by simp
  finally show ?case .
qed simp

text \<open>One field of fixed width in front of the rest of a string.\<close>

lemma pad_field_less:
  "a < 10 ^ k \<Longrightarrow> b < 10 ^ k \<Longrightarrow> a < b \<or> a = b \<and> js_less r s \<Longrightarrow>
   js_less (pad k a @ r) (pad k b @ s)"
  by (auto simp: js_less_append pad_less)

section \<open>Parsing inverts printing\<close>

lemma day_within_year_bounds:
  "0 \<le> day_within_year t" "day_within_year t < (if leap_year (year_of_time t) then 366 else 365)"
  using year_of_day_bounds [of "t div ms_per_day"] day_from_year_Suc [of "year_of_time t"]
  by (auto simp: day_within_year_def year_of_time_def)

lemma month_of_time_le: "month_of_time t \<le> 11"
  by (simp add: month_of_time_def month_of_def month_search_le)

lemma date_of_time_bounds: "1 \<le> date_of_time t" "date_of_time t \<le> 31"
proof -
  have "month_start (leap_year (year_of_time t)) (month_of_time t) \<le> day_within_year t"
    unfolding month_of_time_def month_of_def
    by (rule month_search_start [OF day_within_year_bounds(1)])
  moreover have "day_within_year t - month_start (leap_year (year_of_time t)) (month_of_time t) < 31"
    unfolding month_of_time_def by (rule month_day_bound [OF day_within_year_bounds])
  ultimately show "1 \<le> date_of_time t" "date_of_time t \<le> 31" by (simp_all add: date_of_time_def)
qed

lemma make_time_fields:
  "make_time (year_of_time t) (month_of_time t) (date_of_time t) (ms_within_day t) = t"
  by (simp add: make_time_def date_of_time_def day_within_year_def ms_within_day_def)

lemma ms_within_day_bounds: "0 \<le> ms_within_day t" "ms_within_day t < 86400000"
  by (simp_all add: ms_within_day_def ms_per_day_def)

lemma take_drop_pad:
  "take k (pad k n @ r) = pad k n" "drop k (pad k n @ r) = r"
  by simp_all

lemma clock_string_value:
  assumes "ms < 86400000"
  shows "clock_value (clock_string ms) = ms"
proof -
  let ?h = "ms div 3600000" and ?mi = "ms mod 3600000 div 60000"
  let ?s = "ms mod 60000 div 1000" and ?f = "ms mod 1000"
  have b: "?h < 10 ^ 2" "?mi < 10 ^ 2" "?s < 10 ^ 2" "?f < 10 ^ 3"
    using assms by (simp_all add: less_mult_imp_div_less)
  have "digits_at (clock_string ms) 0 2 = ?h" "digits_at (clock_string ms) 3 2 = ?mi"
    "digits_at (clock_string ms) 6 2 = ?s" "digits_at (clock_string ms) 9 3 = ?f"
    using b by (simp_all add: digits_at_def clock_string_def digits10_value_pad del: pad.simps)
  moreover have "?h * 3600000 + ?mi * 60000 + ?s * 1000 + ?f = ms"
  proof -
    have "ms = ?h * 3600000 + ms mod 3600000" by simp
    moreover have "ms mod 3600000 = ?mi * 60000 + ms mod 3600000 mod 60000" by simp
    moreover have "ms mod 3600000 mod 60000 = ms mod 60000" by (simp add: mod_mod_cancel)
    moreover have "ms mod 60000 = ?s * 1000 + ms mod 60000 mod 1000" by simp
    moreover have "ms mod 60000 mod 1000 = ?f" by (simp add: mod_mod_cancel)
    ultimately show ?thesis by linarith
  qed
  ultimately show ?thesis by (simp add: clock_value_def)
qed

lemma clock_string_length [simp]: "length (clock_string ms) = 13"
  by (simp add: clock_string_def del: pad.simps)

lemma year_range:
  assumes "\<bar>t\<bar> \<le> max_time"
  shows "\<bar>year_of_time t\<bar> < 10 ^ 6"
proof -
  let ?y = "year_of_time t"
  have d: "-100000000 \<le> t div ms_per_day" "t div ms_per_day \<le> 100000000"
    using assms div_bounds [of ms_per_day t] by (auto simp: max_time_def ms_per_day_def)
  note b = year_of_day_bounds [of "t div ms_per_day", folded year_of_time_def]
  have "?y < 10 ^ 6"
  proof (rule ccontr)
    assume "\<not> ?y < 10 ^ 6"
    then have "day_from_year 1000000 \<le> day_from_year ?y" by (intro day_from_year_mono) simp
    moreover have "day_from_year 1000000 > 100000000" by (simp add: day_from_year_def)
    ultimately show False using b d by linarith
  qed
  moreover have "- (10 ^ 6) < ?y"
  proof (rule ccontr)
    assume "\<not> - (10 ^ 6) < ?y"
    then have "day_from_year (?y + 1) \<le> day_from_year (-999999)"
      by (intro day_from_year_mono) simp
    moreover have "day_from_year (-999999) < -100000000" by (simp add: day_from_year_def)
    ultimately show False using b d by linarith
  qed
  ultimately show ?thesis by simp
qed

lemma iso_tail_digits:
  assumes "m < 99" "d < 100"
  shows "digits_at (pad 2 (m + 1) @ [45] @ pad 2 d @ [84] @ r) 0 2 = m + 1"
    "digits_at (pad 2 (m + 1) @ [45] @ pad 2 d @ [84] @ r) 3 2 = d"
    "drop 6 (pad 2 (m + 1) @ [45] @ pad 2 d @ [84] @ r) = r"
  using assms by (simp_all add: digits_at_def digits10_value_pad del: pad.simps)

lemma iso_value_string:
  assumes "\<bar>t\<bar> \<le> max_time"
  shows "iso_value (iso_string t) = t"
proof -
  let ?y = "year_of_time t" and ?m = "month_of_time t" and ?d = "nat (date_of_time t)"
  let ?c = "clock_string (nat (ms_within_day t))"
  let ?rest = "pad 2 (?m + 1) @ [45] @ pad 2 ?d @ [84] @ ?c"
  have iso: "iso_string t = pad_year ?y @ 45 # ?rest" by (simp add: iso_string_def)
  have tail: "digits_at ?rest 0 2 = ?m + 1" "digits_at ?rest 3 2 = ?d" "drop 6 ?rest = ?c"
    using month_of_time_le [of t] date_of_time_bounds [of t] by (intro iso_tail_digits; linarith)+
  have clock: "int (clock_value ?c) = ms_within_day t"
    using ms_within_day_bounds [of t] by (simp add: clock_string_value)
  have date: "int ?d = date_of_time t" using date_of_time_bounds [of t] by simp
  have len: "length ?rest = 19" by simp
  show ?thesis
  proof (cases "0 \<le> ?y \<and> ?y \<le> 9999")
    case True
    then have "nat ?y < 10 ^ 4" by (auto simp: nat_less_iff)
    with True have y: "int (digits_at (iso_string t) 0 4) = ?y"
      by (simp add: iso pad_year_def digits_at_def digits10_value_pad del: pad.simps)
    have "length (iso_string t) = 24" "drop 5 (iso_string t) = ?rest"
      using True len by (simp_all add: iso pad_year_def del: pad.simps)
    with y tail clock date show ?thesis
      by (simp add: iso_value_def make_time_fields)
  next
    case False
    have y: "int (digits_at (iso_string t) 1 6) = \<bar>?y\<bar>"
      using False year_range [OF assms]
      by (auto simp: iso pad_year_def digits_at_def digits10_value_pad simp del: pad.simps)
    have "length (iso_string t) = 27" "drop 8 (iso_string t) = ?rest"
      "take 1 (iso_string t) = (if ?y < 0 then [45] else [43])"
      using False len by (auto simp: iso pad_year_def simp del: pad.simps)
    with y tail clock date False show ?thesis
      by (auto simp: iso_value_def make_time_fields split: if_splits)
  qed
qed

lemma dateParse_iso_string: "\<bar>t\<bar> \<le> max_time \<Longrightarrow> dateParse other (iso_string t) = JInt t"
  by (simp add: dateParse_def iso_value_string)

lemma iso_string_not_Nil: "iso_string t \<noteq> []"
  by (simp add: iso_string_def)

section \<open>Instants are ordered as strings\<close>

lemma clock_string_less:
  assumes "a < b" "b < 86400000"
  shows "js_less (clock_string a) (clock_string b)"
proof -
  have m: "x mod 3600000 mod 60000 = x mod 60000" "x mod 60000 mod 1000 = x mod 1000" for x :: nat
    by (simp_all add: mod_mod_cancel)
  have "a div 3600000 < b div 3600000 \<or> a div 3600000 = b div 3600000 \<and>
      (a mod 3600000 div 60000 < b mod 3600000 div 60000 \<or>
       a mod 3600000 div 60000 = b mod 3600000 div 60000 \<and>
       (a mod 60000 div 1000 < b mod 60000 div 1000 \<or>
        a mod 60000 div 1000 = b mod 60000 div 1000 \<and> a mod 1000 < b mod 1000))"
    using assms(1) lex_div [of a b 3600000] lex_div [of "a mod 3600000" "b mod 3600000" 60000]
      lex_div [of "a mod 60000" "b mod 60000" 1000] m by metis
  moreover have "a div 3600000 < 10 ^ 2" "b div 3600000 < 10 ^ 2"
    "a mod 3600000 div 60000 < 10 ^ 2" "b mod 3600000 div 60000 < 10 ^ 2"
    "a mod 60000 div 1000 < 10 ^ 2" "b mod 60000 div 1000 < 10 ^ 2"
    "a mod 1000 < 10 ^ 3" "b mod 1000 < 10 ^ 3"
    using assms by (simp_all add: less_mult_imp_div_less)
  ultimately show ?thesis
    unfolding clock_string_def
    by (auto simp: js_less_append pad_less pad_inject simp del: pad.simps)
qed

definition four_digit_year :: "int \<Rightarrow> bool" where
  "four_digit_year t \<longleftrightarrow> 0 \<le> year_of_time t \<and> year_of_time t \<le> 9999"

lemma int_div_mod_less:
  fixes s t k :: int
  assumes "0 < k" "s < t"
  shows "s div k < t div k \<or> s div k = t div k \<and> s mod k < t mod k"
proof -
  have "s div k \<le> t div k" using assms by (intro zdiv_mono1) simp_all
  moreover have "s mod k < t mod k" if "s div k = t div k"
    using that assms mult_div_mod_eq [of k s] mult_div_mod_eq [of k t] by (metis add_less_cancel_left)
  ultimately show ?thesis by linarith
qed

lemma date_less:
  assumes "s div ms_per_day < t div ms_per_day"
  shows "year_of_time s < year_of_time t \<or> year_of_time s = year_of_time t \<and>
    (month_of_time s < month_of_time t \<or>
     month_of_time s = month_of_time t \<and> date_of_time s < date_of_time t)"
proof -
  have "year_of_time s \<le> year_of_time t"
    using assms by (simp add: year_of_time_def year_of_day_mono)
  moreover have "month_of_time s \<le> month_of_time t \<and> day_within_year s < day_within_year t"
    if "year_of_time s = year_of_time t"
  proof -
    have "day_within_year s < day_within_year t" using assms that by (simp add: day_within_year_def)
    with that show ?thesis by (simp add: month_of_time_def month_of_def month_search_mono)
  qed
  moreover have "date_of_time s < date_of_time t"
    if "year_of_time s = year_of_time t" "month_of_time s = month_of_time t"
      "day_within_year s < day_within_year t"
    using that by (simp add: date_of_time_def)
  ultimately show ?thesis by (metis le_neq_implies_less order_le_less)
qed

lemma iso_string_less:
  assumes "s < t" "four_digit_year s" "four_digit_year t"
  shows "js_less (iso_string s) (iso_string t)"
proof -
  have y: "pad_year (year_of_time s) = pad 4 (nat (year_of_time s))"
    "pad_year (year_of_time t) = pad 4 (nat (year_of_time t))"
    using assms(2,3) by (simp_all add: pad_year_def four_digit_year_def)
  have b: "nat (year_of_time s) < 10 ^ 4" "nat (year_of_time t) < 10 ^ 4"
    using assms(2,3) by (auto simp: four_digit_year_def nat_less_iff)
  have m: "Suc (month_of_time s) < 10 ^ 2" "Suc (month_of_time t) < 10 ^ 2"
    "nat (date_of_time s) < 10 ^ 2" "nat (date_of_time t) < 10 ^ 2"
    using month_of_time_le [of s] month_of_time_le [of t] date_of_time_bounds [of s]
      date_of_time_bounds [of t] by simp_all
  show ?thesis
  proof (cases "s div ms_per_day < t div ms_per_day")
    case True
    from date_less [OF True] show ?thesis
      using assms(2,3) date_of_time_bounds [of s] date_of_time_bounds [of t]
      by (auto simp: iso_string_def y js_less_append pad_less [OF b] pad_less [OF m(1,2)]
          pad_less [OF m(3,4)] pad_inject [OF m(1,2)] four_digit_year_def simp del: pad.simps)
  next
    case False
    with int_div_mod_less [of ms_per_day s t] assms(1)
    have d: "s div ms_per_day = t div ms_per_day" "ms_within_day s < ms_within_day t"
      by (auto simp: ms_within_day_def ms_per_day_def)
    have "js_less (clock_string (nat (ms_within_day s))) (clock_string (nat (ms_within_day t)))"
      using d(2) ms_within_day_bounds [of s] ms_within_day_bounds [of t]
      by (intro clock_string_less) simp_all
    moreover have "year_of_time s = year_of_time t" using d(1) by (simp add: year_of_time_def)
    moreover from this have "month_of_time s = month_of_time t" "date_of_time s = date_of_time t"
      using d(1) by (simp_all add: month_of_time_def date_of_time_def day_within_year_def)
    ultimately show ?thesis by (simp add: iso_string_def js_less_append del: pad.simps)
  qed
qed

lemma iso_string_less_iff:
  assumes "four_digit_year s" "four_digit_year t"
  shows "js_less (iso_string s) (iso_string t) \<longleftrightarrow> s < t"
proof
  assume l: "js_less (iso_string s) (iso_string t)"
  show "s < t"
  proof (rule ccontr)
    assume "\<not> s < t"
    then consider "s = t" | "t < s" by linarith
    then show False
    proof cases
      case 2
      from js_less_trans [OF l iso_string_less [OF 2 assms(2,1)]] show False by simp
    qed (use l in simp)
  qed
qed (rule iso_string_less [OF _ assms])

end
