(* ===== verification/Mutation_Runner.thy ===== *)
theory Mutation_Runner
  imports E2ee JS_Date
begin

text \<open>
  \<open>src/src/outbox/mutation-runner.ts\<close>, \<open>retry-policy.ts\<close> and \<open>types.ts\<close>: the executor of the
  durable mutations. Its dependencies are fields of a record, operations over a world of any
  type \<open>'s\<close>; an \<open>await\<close> is one operation on that world. A \<open>return\<close> of a promise that the
  source does not await inside its \<open>try\<close> is outside the \<open>tryM\<close> here, because the \<open>catch\<close> does
  not see its rejection.
\<close>

section \<open>Retry policy\<close>

definition RETRY_DELAYS_MS :: "int list" where
  "RETRY_DELAYS_MS = [5000, 15000, 60000, 300000]"

text \<open>\<open>RETRY_DELAYS_MS[min(max(attemptCount, 1) - 1, 3)]\<close>; \<open>undefined\<close> added is NaN.\<close>

definition retry_delay :: "number \<Rightarrow> number" where
  "retry_delay n =
     (case n of
        JInt i \<Rightarrow> JInt (RETRY_DELAYS_MS ! nat (min (max i 1 - 1) 3))
      | JFrac r \<Rightarrow>
          if r \<le> 1 then JInt (RETRY_DELAYS_MS ! 0)
          else if r - 1 \<ge> 3 then JInt (RETRY_DELAYS_MS ! 3) else JNaN
      | JInf positive \<Rightarrow> JInt (RETRY_DELAYS_MS ! (if positive then 3 else 0))
      | JNaN \<Rightarrow> JNaN)"

definition is_finite :: "number \<Rightarrow> bool" where
  "is_finite n = (case n of JInt _ \<Rightarrow> True | JFrac _ \<Rightarrow> True | _ \<Rightarrow> False)"

definition range_error :: exn where
  "range_error = OtherExn (js ''RangeError: Invalid time value'')"

definition nextRetryInstant ::
  "(jsstring \<Rightarrow> number) \<Rightarrow> number \<Rightarrow> MutationInstant \<Rightarrow> MutationInstant throws" where
  "nextRetryInstant other_parse n now =
     (let instant = dateParse other_parse now in
      throw_if (\<not> is_finite instant)
        (TypeError (js ''Mutation retry clock must be an ISO-compatible instant''))
      (bindE (toISOString (num_add instant (retry_delay n)) range_error)
        mutationInstantFromString))"

section \<open>Outcomes\<close>

datatype MutationSkipReason = NotFound | NotDue | Terminal | ClaimConflict | NotConnected

datatype MutationExecutionOutcome =
    Confirmed | RetryingLater | FailedForGood | NeedsReconciliation
  | Skipped MutationSkipReason

record MutationRunSummary =
  mrAttempted :: nat
  mrConfirmed :: nat
  mrRetrying :: nat
  mrTerminal :: nat
  mrReconciliation :: nat
  mrSkipped :: nat

definition emptySummary :: MutationRunSummary where
  "emptySummary =
     \<lparr>mrAttempted = 0, mrConfirmed = 0, mrRetrying = 0, mrTerminal = 0, mrReconciliation = 0,
      mrSkipped = 0\<rparr>"

definition countOutcome ::
  "MutationRunSummary \<Rightarrow> MutationExecutionOutcome \<Rightarrow> MutationRunSummary" where
  "countOutcome summary result =
     (case result of
        Skipped _ \<Rightarrow> summary\<lparr>mrSkipped := mrSkipped summary + 1\<rparr>
      | _ \<Rightarrow>
        (let s = summary\<lparr>mrAttempted := mrAttempted summary + 1\<rparr> in
         case result of
           Confirmed \<Rightarrow> s\<lparr>mrConfirmed := mrConfirmed s + 1\<rparr>
         | RetryingLater \<Rightarrow> s\<lparr>mrRetrying := mrRetrying s + 1\<rparr>
         | FailedForGood \<Rightarrow> s\<lparr>mrTerminal := mrTerminal s + 1\<rparr>
         | NeedsReconciliation \<Rightarrow> s\<lparr>mrReconciliation := mrReconciliation s + 1\<rparr>
         | Skipped _ \<Rightarrow> s))"

section \<open>Dependencies\<close>

record 's Reconciler =
  rcSend :: "AccountKey \<Rightarrow> MutationId \<Rightarrow> ('s, exn, RemoteMutationEvidence) eff"
  rcMembership ::
    "AccountKey \<Rightarrow> MutationId \<Rightarrow> RemoteEmailId \<Rightarrow> RemoteMembershipChange \<Rightarrow>
     ('s, exn, RemoteMutationEvidence) eff"

record 's RunnerDeps =
  rdReadPendingMutation ::
    "AccountKey \<Rightarrow> MutationId \<Rightarrow> ('s, exn, PendingMutation OwnedOptionalRead ReadResult) eff"
  rdListPendingMutations ::
    "AccountKey \<Rightarrow> ('s, exn, PendingMutation list OwnedSnapshotRead ReadResult) eff"
  rdReadEmail :: "ScopedEmailId \<Rightarrow> ('s, exn, Email LocalEntityRead ReadResult) eff"
  rdReplace :: "PendingMutation \<Rightarrow> PendingMutation \<Rightarrow> ('s, exn, WriteResult) eff"
  rdRemoveConfirmed :: "AccountKey \<Rightarrow> MutationId \<Rightarrow> ('s, exn, WriteResult) eff"
  rdIsConnected :: "AccountKey \<Rightarrow> 's \<Rightarrow> bool"
  rdSubmit ::
    "AccountKey \<Rightarrow> RemoteSubmissionDraft \<Rightarrow> MutationId \<Rightarrow> ('s, exn, SubmissionResult) eff"
  rdApplyKeyword ::
    "AccountKey \<Rightarrow> RemoteEmailId \<Rightarrow> RemoteKeywordChange \<Rightarrow> ('s, exn, unit) eff"
  rdApplyMembership ::
    "AccountKey \<Rightarrow> RemoteEmailId \<Rightarrow> RemoteMembershipChange \<Rightarrow> ('s, exn, unit) eff"
  rdReconciler :: "'s Reconciler option"
  rdRefreshAccount :: "(AccountKey \<Rightarrow> ('s, exn, unit) eff) option"
  rdEncryptFor :: "EncryptForInput \<Rightarrow> ('s, exn, BoxplotE2eeEnvelope E2eeResult) eff"
  rdNow :: "('s, exn, MutationInstant) eff"
  rdOtherParse :: "jsstring \<Rightarrow> number"

datatype PreparedSend = ReadySend RemoteSubmissionDraft | E2eeFailure E2eeErrorKind

section \<open>Settlement\<close>

definition replaceOrThrow ::
  "('s, 'x) RunnerDeps_scheme \<Rightarrow> PendingMutation \<Rightarrow> PendingMutation \<Rightarrow> ('s, exn, bool) eff" where
  "replaceOrThrow deps expected nextM =
     bindM (rdReplace deps expected nextM) (\<lambda>result.
     case result of
       PortOk _ \<Rightarrow> retM True
     | PortErr WrConflict \<Rightarrow> retM False
     | PortErr e \<Rightarrow>
         throwM (Error (js ''mutation settlement failed: '' @ write_error_string e)))"

definition removeConfirmed ::
  "('s, 'x) RunnerDeps_scheme \<Rightarrow> PendingMutation \<Rightarrow> ('s, exn, unit) eff" where
  "removeConfirmed deps mutation =
     bindM (rdRemoveConfirmed deps (pmAccountKey mutation) (pmMutationId mutation)) (\<lambda>result.
     case result of
       PortOk _ \<Rightarrow> retM ()
     | PortErr WrConflict \<Rightarrow> retM ()
     | PortErr e \<Rightarrow>
         throwM (Error (js ''removeConfirmedMutation failed: '' @ write_error_string e)))"

definition confirmAndRemove ::
  "('s, 'x) RunnerDeps_scheme \<Rightarrow> PendingMutation \<Rightarrow> PendingMutation \<Rightarrow> ('s, exn, bool) eff" where
  "confirmAndRemove deps expected confirmed =
     bindM (replaceOrThrow deps expected confirmed) (\<lambda>replaced.
     if \<not> replaced then retM False
     else bindM (removeConfirmed deps confirmed) (\<lambda>_. retM True))"

definition outcome_if ::
  "MutationExecutionOutcome \<Rightarrow> ('s, exn, bool) eff \<Rightarrow> ('s, exn, MutationExecutionOutcome) eff" where
  "outcome_if good m = bindM m (\<lambda>ok. retM (if ok then good else NeedsReconciliation))"

definition settleRetry ::
  "('s, 'x) RunnerDeps_scheme \<Rightarrow> PendingMutation \<Rightarrow> ('s, exn, MutationExecutionOutcome) eff" where
  "settleRetry deps mutation =
     bindM (rdNow deps) (\<lambda>now.
     bindM (liftM (nextRetryInstant (rdOtherParse deps)
              (attemptCount (pmLifecycle mutation)) now)) (\<lambda>instant.
     bindM (liftM (scheduleMutationRetry mutation instant)) (\<lambda>nextM.
     outcome_if RetryingLater (replaceOrThrow deps mutation nextM))))"

definition settleTerminal ::
  "('s, 'x) RunnerDeps_scheme \<Rightarrow> PendingMutation \<Rightarrow> ('s, exn, MutationExecutionOutcome) eff" where
  "settleTerminal deps mutation =
     bindM (liftM (failMutationTerminal mutation)) (\<lambda>nextM.
     outcome_if FailedForGood (replaceOrThrow deps mutation nextM))"

definition settleE2eeFailure ::
  "('s, 'x) RunnerDeps_scheme \<Rightarrow> PendingMutation \<Rightarrow> E2eeErrorKind \<Rightarrow>
   ('s, exn, MutationExecutionOutcome) eff" where
  "settleE2eeFailure deps mutation err =
     (if err = EUnavailable then settleRetry deps mutation else settleTerminal deps mutation)"

definition settleRemoteFailure ::
  "('s, 'x) RunnerDeps_scheme \<Rightarrow> PendingMutation \<Rightarrow> exn \<Rightarrow>
   ('s, exn, MutationExecutionOutcome) eff" where
  "settleRemoteFailure deps mutation err =
     (case err of
        RemoteMutationSourceError failure \<Rightarrow>
          (case failure of
             FNotConnected \<Rightarrow> settleRetry deps mutation
           | FRemote remote \<Rightarrow>
               if reOutcome remote = OUnknown \<or> reRetry remote = RReconcile
               then retM NeedsReconciliation
               else if reOutcome remote = OKnownNotApplied \<and>
                       (reRetry remote = RSafeImmediate \<or> reRetry remote = RSafeBackoff)
               then settleRetry deps mutation
               else settleTerminal deps mutation
           | _ \<Rightarrow> retM NeedsReconciliation)
      | _ \<Rightarrow> retM NeedsReconciliation)"

section \<open>Execution\<close>

definition submissionDraft :: "SendIntent \<Rightarrow> SubmissionBody \<Rightarrow> RemoteSubmissionDraft throws" where
  "submissionDraft intent body =
     bindE (remoteIdentityId (siIdentityId intent)) (\<lambda>i.
     Inr \<lparr>smRemoteIdentityId = Some i, smFrom = siFrom intent, smTo = siTo intent,
          smCc = siCc intent, smBcc = siBcc intent, smReplyTo = siReplyTo intent,
          smSubject = siSubject intent, smBody = body\<rparr>)"

definition prepareSend ::
  "('s, 'x) RunnerDeps_scheme \<Rightarrow> SendIntent \<Rightarrow> ('s, exn, PreparedSend) eff" where
  "prepareSend deps intent =
     (if siSecurityMode intent = ModePlain
      then bindM (liftM (submissionDraft intent
                    (SubmitPlain (sbText (siBody intent)) (sbHtml (siBody intent)))))
             (\<lambda>message. retM (ReadySend message))
      else bindM (encryptSendIntent (rdEncryptFor deps) intent) (\<lambda>encrypted.
           case encrypted of
             E2eeErr kind \<Rightarrow> retM (E2eeFailure kind)
           | E2eeOk envelope \<Rightarrow>
               bindM (liftM (submissionDraft intent
                        (SubmitBoxplotE2ee (serializeBoxplotE2eeEnvelope envelope))))
                 (\<lambda>message. retM (ReadySend message))))"

text \<open>What follows the remote call, and the \<open>catch\<close> around both.\<close>

definition confirm_update ::
  "('s, 'x) RunnerDeps_scheme \<Rightarrow> PendingMutation \<Rightarrow> ('s, exn, MutationExecutionOutcome) eff" where
  "confirm_update deps mutation =
     bindM (liftM (confirmEmailUpdateMutation mutation)) (\<lambda>confirmed.
     outcome_if Confirmed (confirmAndRemove deps mutation confirmed))"

definition confirm_send ::
  "('s, 'x) RunnerDeps_scheme \<Rightarrow> PendingMutation \<Rightarrow> RemoteEmailId \<Rightarrow>
   ('s, exn, MutationExecutionOutcome) eff" where
  "confirm_send deps mutation i =
     bindM (liftM (localEmailId (pmAccountKey mutation) i)) (\<lambda>emailId.
     bindM (liftM (confirmSendMutation mutation (sendConfirmation emailId))) (\<lambda>confirmed.
     outcome_if Confirmed (confirmAndRemove deps mutation confirmed)))"

definition executeSend ::
  "('s, 'x) RunnerDeps_scheme \<Rightarrow> PendingMutation \<Rightarrow> RemoteSubmissionDraft \<Rightarrow>
   ('s, exn, MutationExecutionOutcome) eff" where
  "executeSend deps mutation message =
     tryM
       (bindM (rdSubmit deps (pmAccountKey mutation) message (pmMutationId mutation)) (\<lambda>result.
        case srRemoteEmailId result of
          None \<Rightarrow> retM NeedsReconciliation
        | Some i \<Rightarrow> confirm_send deps mutation i))
       (settleRemoteFailure deps mutation)"

definition executeKeyword ::
  "('s, 'x) RunnerDeps_scheme \<Rightarrow> PendingMutation \<Rightarrow> ScopedEmailId \<Rightarrow> KeywordChange \<Rightarrow>
   ('s, exn, MutationExecutionOutcome) eff" where
  "executeKeyword deps mutation emailId change =
     tryM
       (bindM (liftM (remoteEmailId emailId)) (\<lambda>i.
        bindM (rdApplyKeyword deps (pmAccountKey mutation) i
                 \<lparr>rkAdd = kcAdd change, rkRemove = kcRemove change\<rparr>) (\<lambda>_.
        confirm_update deps mutation)))
       (settleRemoteFailure deps mutation)"

definition remote_membership_change ::
  "MailboxMembershipChange \<Rightarrow> RemoteMembershipChange throws" where
  "remote_membership_change change =
     bindE (mapE remoteMailboxId (mcAdd change)) (\<lambda>add.
     bindE (mapE remoteMailboxId (mcRemove change)) (\<lambda>remove.
     Inr \<lparr>rbAdd = add, rbRemove = remove\<rparr>))"

definition executeMembership ::
  "('s, 'x) RunnerDeps_scheme \<Rightarrow> PendingMutation \<Rightarrow> ScopedEmailId \<Rightarrow>
   MailboxMembershipChange \<Rightarrow> ('s, exn, MutationExecutionOutcome) eff" where
  "executeMembership deps mutation emailId change =
     tryM
       (bindM (liftM (remoteEmailId emailId)) (\<lambda>i.
        bindM (liftM (remote_membership_change change)) (\<lambda>c.
        bindM (rdApplyMembership deps (pmAccountKey mutation) i c) (\<lambda>_.
        confirm_update deps mutation))))
       (settleRemoteFailure deps mutation)"

section \<open>Reconciliation\<close>

definition reconcileSend ::
  "('s, 'x) RunnerDeps_scheme \<Rightarrow> PendingMutation \<Rightarrow> ('s, exn, MutationExecutionOutcome) eff" where
  "reconcileSend deps mutation =
     (case rdReconciler deps of
        None \<Rightarrow> retM NeedsReconciliation
      | Some reconciler \<Rightarrow>
          tryM
            (bindM (rcSend reconciler (pmAccountKey mutation) (pmMutationId mutation)) (\<lambda>evidence.
             case evidence of
               EvidenceInconclusive \<Rightarrow> retM NeedsReconciliation
             | EvidenceApplied i \<Rightarrow> confirm_send deps mutation i))
            (\<lambda>_. retM NeedsReconciliation))"

definition reconcileMembership ::
  "('s, 'x) RunnerDeps_scheme \<Rightarrow> PendingMutation \<Rightarrow> ScopedEmailId \<Rightarrow>
   MailboxMembershipChange \<Rightarrow> ('s, exn, MutationExecutionOutcome) eff" where
  "reconcileMembership deps mutation emailId change =
     (case rdReconciler deps of
        None \<Rightarrow> retM NeedsReconciliation
      | Some reconciler \<Rightarrow>
          tryM
            (bindM (liftM (remoteEmailId emailId)) (\<lambda>i.
             bindM (liftM (remote_membership_change change)) (\<lambda>c.
             bindM (rcMembership reconciler (pmAccountKey mutation) (pmMutationId mutation) i c)
               (\<lambda>evidence.
             case evidence of
               EvidenceInconclusive \<Rightarrow> retM NeedsReconciliation
             | EvidenceApplied _ \<Rightarrow> confirm_update deps mutation))))
            (\<lambda>_. retM NeedsReconciliation))"

text \<open>
  The keyword case. What its \<open>try\<close> awaits is \<open>Inr\<close> an outcome; the two settlements it returns
  without awaiting run after it, outside of the \<open>catch\<close>.
\<close>

datatype KeywordReconciliation = KrDone MutationExecutionOutcome | KrTerminal | KrRetry

definition keywords_applied :: "KeywordChange \<Rightarrow> KeywordSet \<Rightarrow> bool" where
  "keywords_applied change keywords \<longleftrightarrow>
     list_all (List.member keywords) (kcAdd change) \<and>
     list_all (\<lambda>value. \<not> List.member keywords value) (kcRemove change)"

definition reconcileKeyword ::
  "('s, 'x) RunnerDeps_scheme \<Rightarrow> PendingMutation \<Rightarrow> ScopedEmailId \<Rightarrow> KeywordChange \<Rightarrow>
   ('s, exn, MutationExecutionOutcome) eff" where
  "reconcileKeyword deps mutation emailId change s =
     (case rdRefreshAccount deps of
        None \<Rightarrow> retM NeedsReconciliation s
      | Some refresh \<Rightarrow>
          if \<not> rdIsConnected deps (pmAccountKey mutation) s then retM NeedsReconciliation s
          else bindM
            (tryM
              (bindM (refresh (pmAccountKey mutation)) (\<lambda>_.
               bindM (rdReadEmail deps emailId) (\<lambda>current.
               case current of
                 PortErr _ \<Rightarrow> retM (KrDone NeedsReconciliation)
               | PortOk EntityAbsent \<Rightarrow> retM KrTerminal
               | PortOk (EntityPresent value) \<Rightarrow>
                   if \<not> keywords_applied change (emKeywords value) then retM KrRetry
                   else bindM (confirm_update deps mutation) (\<lambda>r. retM (KrDone r)))))
              (\<lambda>_. retM (KrDone NeedsReconciliation)))
            (\<lambda>r. case r of
               KrDone result \<Rightarrow> retM result
             | KrTerminal \<Rightarrow> settleTerminal deps mutation
             | KrRetry \<Rightarrow> settleRetry deps mutation) s)"

definition reconcile ::
  "('s, 'x) RunnerDeps_scheme \<Rightarrow> PendingMutation \<Rightarrow> ('s, exn, MutationExecutionOutcome) eff" where
  "reconcile deps mutation =
     (case pmPayload mutation of
        PSend _ \<Rightarrow> reconcileSend deps mutation
      | PMembership emailId change \<Rightarrow> reconcileMembership deps mutation emailId change
      | PKeyword emailId change \<Rightarrow> reconcileKeyword deps mutation emailId change)"

section \<open>The runner\<close>

definition readMutation ::
  "('s, 'x) RunnerDeps_scheme \<Rightarrow> AccountKey \<Rightarrow> MutationId \<Rightarrow>
   ('s, exn, PendingMutation option) eff" where
  "readMutation deps ak mid =
     bindM (rdReadPendingMutation deps ak mid) (\<lambda>result.
     case result of
       PortErr e \<Rightarrow> throwM (Error (js ''readPendingMutation failed: '' @ read_error_string e))
     | PortOk (OptionalPresent m) \<Rightarrow> retM (Some m)
     | PortOk _ \<Rightarrow> retM None)"

text \<open>The mutation as claimed goes to the executor of its kind.\<close>

definition execute ::
  "('s, 'x) RunnerDeps_scheme \<Rightarrow> PendingMutation \<Rightarrow> PreparedSend option \<Rightarrow>
   ('s, exn, MutationExecutionOutcome) eff" where
  "execute deps inFlight prepared =
     (case pmPayload inFlight of
        PSend _ \<Rightarrow>
          (case prepared of
             Some (E2eeFailure kind) \<Rightarrow> settleE2eeFailure deps inFlight kind
           | Some (ReadySend message) \<Rightarrow> executeSend deps inFlight message
           | None \<Rightarrow> settleTerminal deps inFlight)
      | PKeyword emailId change \<Rightarrow> executeKeyword deps inFlight emailId change
      | PMembership emailId change \<Rightarrow> executeMembership deps inFlight emailId change)"

definition claim_and_execute ::
  "('s, 'x) RunnerDeps_scheme \<Rightarrow> PendingMutation \<Rightarrow> ('s, exn, MutationExecutionOutcome) eff" where
  "claim_and_execute deps current =
     bindM (case pmPayload current of
              PSend intent \<Rightarrow> bindM (prepareSend deps intent) (\<lambda>p. retM (Some p))
            | _ \<Rightarrow> retM None) (\<lambda>prepared.
     bindM (liftM (startMutationAttempt current)) (\<lambda>inFlight.
     bindM (rdReplace deps current inFlight) (\<lambda>claimed.
     case claimed of
       PortErr WrConflict \<Rightarrow> retM (Skipped ClaimConflict)
     | PortErr e \<Rightarrow> throwM (Error (js ''mutation claim failed: '' @ write_error_string e))
     | PortOk _ \<Rightarrow> execute deps inFlight prepared)))"

definition attempt ::
  "('s, 'x) RunnerDeps_scheme \<Rightarrow> AccountKey \<Rightarrow> PendingMutation \<Rightarrow>
   ('s, exn, MutationExecutionOutcome) eff" where
  "attempt deps ak current s =
     (if \<not> rdIsConnected deps ak s then retM (Skipped NotConnected) s
      else claim_and_execute deps current s)"

definition runMutation ::
  "('s, 'x) RunnerDeps_scheme \<Rightarrow> AccountKey \<Rightarrow> MutationId \<Rightarrow>
   ('s, exn, MutationExecutionOutcome) eff" where
  "runMutation deps ak mid =
     bindM (readMutation deps ak mid) (\<lambda>found.
     case found of
       None \<Rightarrow> retM (Skipped NotFound)
     | Some current \<Rightarrow>
         (case pmLifecycle current of
            ConfirmedUpdate _ \<Rightarrow> bindM (removeConfirmed deps current) (\<lambda>_. retM Confirmed)
          | ConfirmedSend _ _ \<Rightarrow> bindM (removeConfirmed deps current) (\<lambda>_. retM Confirmed)
          | FailedTerminal _ \<Rightarrow> retM (Skipped Terminal)
          | InFlight _ \<Rightarrow> reconcile deps current
          | Retrying _ nextAttemptAt \<Rightarrow>
              bindM (rdNow deps) (\<lambda>now.
              if js_less now nextAttemptAt then retM (Skipped NotDue)
              else attempt deps ak current)
          | Pending _ \<Rightarrow> attempt deps ak current))"

fun run_all ::
  "('s, 'x) RunnerDeps_scheme \<Rightarrow> AccountKey \<Rightarrow> PendingMutation list \<Rightarrow> MutationRunSummary \<Rightarrow>
   ('s, exn, MutationRunSummary) eff" where
  "run_all deps ak [] summary = retM summary"
| "run_all deps ak (mutation # mutations) summary =
     bindM (runMutation deps ak (pmMutationId mutation)) (\<lambda>result.
     run_all deps ak mutations (countOutcome summary result))"

definition runAccount ::
  "('s, 'x) RunnerDeps_scheme \<Rightarrow> AccountKey \<Rightarrow> ('s, exn, MutationRunSummary) eff" where
  "runAccount deps ak =
     bindM (rdListPendingMutations deps ak) (\<lambda>result.
     case result of
       PortErr e \<Rightarrow> throwM (Error (js ''listPendingMutations failed: '' @ read_error_string e))
     | PortOk SnapshotOwnerAbsent \<Rightarrow> retM emptySummary
     | PortOk (SnapshotPresent mutations) \<Rightarrow> run_all deps ak mutations emptySummary)"

end
