(* ===== verification/Runner_Laws.thy ===== *)
theory Runner_Laws
  imports Mutation_Runner
begin

text \<open>
  What the mutation runner needs of its store, as a locale, and what it then guarantees: the
  laws are those of a read, of a compare-and-swap and of a removal, and that the other
  dependencies leave the stored mutations alone while the runner awaits them.
\<close>

type_synonym mutations = "AccountKey \<Rightarrow> MutationId \<Rightarrow> PendingMutation option"

definition put :: "PendingMutation \<Rightarrow> mutations \<Rightarrow> mutations" where
  "put m st = st(pmAccountKey m := (st (pmAccountKey m))(pmMutationId m := Some m))"

definition del :: "PendingMutation \<Rightarrow> mutations \<Rightarrow> mutations" where
  "del m st = st(pmAccountKey m := (st (pmAccountKey m))(pmMutationId m := None))"

definition holds :: "PendingMutation \<Rightarrow> mutations \<Rightarrow> bool" where
  "holds m st \<longleftrightarrow> st (pmAccountKey m) (pmMutationId m) = Some m"

definition keeps :: "('s \<Rightarrow> bool) \<Rightarrow> ('s \<Rightarrow> 'v) \<Rightarrow> ('s, exn, 'a) eff \<Rightarrow> bool" where
  "keeps sane view op \<longleftrightarrow>
     (\<forall>s r s'. sane s \<longrightarrow> op s = (r, s') \<longrightarrow> sane s' \<and> view s' = view s)"

lemma keepsD: "keeps sane view op \<Longrightarrow> sane s \<Longrightarrow> op s = (r, s') \<Longrightarrow> sane s' \<and> view s' = view s"
  by (simp add: keeps_def)

lemma keeps_retM [simp]: "keeps sane view (retM a)"
  by (simp add: keeps_def)

lemma keeps_throwM [simp]: "keeps sane view (throwM e)"
  by (simp add: keeps_def)

lemma keeps_liftM [simp]: "keeps sane view (liftM e)"
  by (simp add: keeps_def)

lemma keeps_bindM:
  assumes "keeps sane view m" "\<And>a. keeps sane view (f a)"
  shows "keeps sane view (bindM m f)"
  unfolding keeps_def
proof (intro allI impI)
  fix s r s'
  assume s: "sane s" and b: "bindM m f s = (r, s')"
  obtain x t where m: "m s = (x, t)" by (cases "m s")
  with keepsD [OF assms(1) s] have t: "sane t" "view t = view s" by blast+
  show "sane s' \<and> view s' = view s"
  proof (cases x)
    case (Inl e)
    with m b t show ?thesis by (simp add: bindM_def)
  next
    case (Inr a)
    with m b have "f a t = (r, s')" by (simp add: bindM_def)
    with keepsD [OF assms(2) t(1)] t(2) show ?thesis by metis
  qed
qed

lemma put_same: "holds m st \<Longrightarrow> put m st = st"
  by (auto simp: holds_def put_def fun_eq_iff)

lemma holds_put [simp]: "holds m (put m st)"
  by (simp add: holds_def put_def)

text \<open>What a settlement leaves for a claimed mutation \<open>m\<close>, by its result.\<close>

fun settled ::
  "PendingMutation \<Rightarrow> exn + MutationExecutionOutcome \<Rightarrow> mutations \<Rightarrow> mutations \<Rightarrow> bool" where
  "settled m (Inl _) st st' = (st' = st)"
| "settled m (Inr Confirmed) st st' = (st' = del m st)"
| "settled m (Inr RetryingLater) st st' =
     (\<exists>t. st' = put (m\<lparr>pmLifecycle := Retrying (attemptCount (pmLifecycle m)) t\<rparr>) st)"
| "settled m (Inr FailedForGood) st st' =
     (st' = put (m\<lparr>pmLifecycle := FailedTerminal (attemptCount (pmLifecycle m))\<rparr>) st)"
| "settled m (Inr NeedsReconciliation) st st' = (st' = st)"
| "settled m (Inr (Skipped _)) st st' = False"

text \<open>The reasons for which a stored mutation may be skipped.\<close>

fun skip_ok :: "PendingMutation \<Rightarrow> MutationSkipReason \<Rightarrow> bool" where
  "skip_ok m NotFound = False"
| "skip_ok m NotDue = (status (pmLifecycle m) = StRetrying)"
| "skip_ok m Terminal = (status (pmLifecycle m) = StFailedTerminal)"
| "skip_ok m ClaimConflict = False"
| "skip_ok m NotConnected = (status (pmLifecycle m) \<in> {StPending, StRetrying})"

definition in_flight :: "PendingMutation \<Rightarrow> bool" where
  "in_flight m \<longleftrightarrow> status (pmLifecycle m) = StInFlight"

text \<open>What one run does to the mutation it finds, by its result.\<close>

definition run_result ::
  "PendingMutation option \<Rightarrow> exn + MutationExecutionOutcome \<Rightarrow> mutations \<Rightarrow> mutations \<Rightarrow> bool" where
  "run_result found r st st' \<longleftrightarrow>
     (case found of
        None \<Rightarrow> r = Inr (Skipped NotFound) \<and> st' = st
      | Some m \<Rightarrow>
          (\<exists>why. r = Inr (Skipped why) \<and> skip_ok m why \<and> st' = st) \<or>
          (\<exists>x. r = Inl x \<and> st' = st) \<or>
          status (pmLifecycle m) = StConfirmed \<and> r = Inr Confirmed \<and> st' = del m st \<or>
          in_flight m \<and> settled m r st st' \<or>
          (\<exists>c. startMutationAttempt m = Inr c \<and> settled c r (put c st) st'))"

locale runner_store =
  fixes deps :: "'s RunnerDeps" and stored :: "'s \<Rightarrow> mutations" and sane :: "'s \<Rightarrow> bool"
  assumes read_law: "sane s \<Longrightarrow> \<exists>r. rdReadPendingMutation deps ak mid s = (Inr (PortOk r), s) \<and>
      (\<forall>m. r = OptionalPresent m \<longleftrightarrow> stored s ak mid = Some m)"
    and replace_law: "sane s \<Longrightarrow> holds e (stored s) \<Longrightarrow> lifecycle_step e n \<Longrightarrow>
      \<exists>s'. rdReplace deps e n s = (Inr (PortOk ()), s') \<and> sane s' \<and> stored s' = put n (stored s)"
    and remove_law: "sane s \<Longrightarrow> holds m (stored s) \<Longrightarrow> status (pmLifecycle m) = StConfirmed \<Longrightarrow>
      \<exists>s'. rdRemoveConfirmed deps (pmAccountKey m) (pmMutationId m) s = (Inr (PortOk ()), s') \<and>
        sane s' \<and> stored s' = del m (stored s)"
    and stored_law: "sane s \<Longrightarrow> stored s ak mid = Some m \<Longrightarrow>
      pmAccountKey m = ak \<and> pmMutationId m = mid \<and> wf_mutation m"
    and submit_frame: "keeps sane stored (rdSubmit deps ak message mid)"
    and keyword_frame: "keeps sane stored (rdApplyKeyword deps ak i kc)"
    and membership_frame: "keeps sane stored (rdApplyMembership deps ak i mc)"
    and send_frame: "rdReconciler deps = Some rc \<Longrightarrow> keeps sane stored (rcSend rc ak mid)"
    and member_frame: "rdReconciler deps = Some rc \<Longrightarrow> keeps sane stored (rcMembership rc ak mid i mc)"
    and refresh_frame: "rdRefreshAccount deps = Some refresh \<Longrightarrow> keeps sane stored (refresh ak)"
    and email_frame: "keeps sane stored (rdReadEmail deps emailId)"
    and encrypt_frame: "keeps sane stored (rdEncryptFor deps input)"
    and now_frame: "keeps sane stored (rdNow deps)"
begin

lemma replaceOrThrow_step:
  assumes "sane s" "holds m (stored s)" "lifecycle_step m n"
  shows "\<exists>s'. replaceOrThrow deps m n s = (Inr True, s') \<and> sane s' \<and> stored s' = put n (stored s)"
  using replace_law [OF assms] by (auto simp: replaceOrThrow_def bindM_def)

lemma step_same_key:
  "lifecycle_step m n \<Longrightarrow> pmAccountKey n = pmAccountKey m \<and> pmMutationId n = pmMutationId m"
  using lifecycle_step_immutable [of m n] by (auto simp: immutable_part_def)

lemma confirmAndRemove_step:
  assumes "sane s" "holds m (stored s)" "lifecycle_step m n" "status (pmLifecycle n) = StConfirmed"
  shows "\<exists>s'. confirmAndRemove deps m n s = (Inr True, s') \<and> sane s' \<and> stored s' = del m (stored s)"
proof -
  from replaceOrThrow_step [OF assms(1-3)] obtain t where t:
    "replaceOrThrow deps m n s = (Inr True, t)" "sane t" "stored t = put n (stored s)" by blast
  from remove_law [of t n] t assms(4) obtain s' where s':
    "rdRemoveConfirmed deps (pmAccountKey n) (pmMutationId n) t = (Inr (PortOk ()), s')"
    "sane s'" "stored s' = del n (stored t)" by auto
  have "del n (stored t) = del m (stored s)"
    using step_same_key [OF assms(3)] t(3) by (auto simp: del_def put_def fun_eq_iff)
  with t(1) s' show ?thesis by (simp add: confirmAndRemove_def removeConfirmed_def bindM_def retM_def)
qed

lemma confirm_update_step:
  assumes "sane s" "holds m (stored s)" "in_flight m" "\<not> is_send m"
    "confirm_update deps m s = (r, s')"
  shows "sane s' \<and> r = Inr Confirmed \<and> stored s' = del m (stored s)"
proof -
  from stored_law [OF assms(1)] assms(2) have "wf_mutation m" by (simp add: holds_def)
  with assms(3) obtain n where n: "confirmEmailUpdateMutation m = Inr n"
    "status (pmLifecycle n) = StConfirmed"
    by (cases "pmLifecycle m") (auto simp: in_flight_def wf_mutation_def settle_Inr)
  from confirmAndRemove_step [OF assms(1,2) step_confirm_update [OF assms(4) n(1)] n(2)] assms(5) n(1)
  show ?thesis by (auto simp: confirm_update_def outcome_if_def bindM_def liftM_def retM_def)
qed

lemma confirm_send_step:
  assumes "sane s" "holds m (stored s)" "in_flight m" "is_send m"
    "confirm_send deps m i s = (r, s')"
  shows "sane s' \<and> (r = Inr Confirmed \<and> stored s' = del m (stored s) \<or>
     r = Inl (TypeError (js ''JmapEmailId must not be empty'')) \<and> stored s' = stored s)"
proof (cases "i = []")
  case True
  then have "localEmailId (pmAccountKey m) i = Inl (TypeError (js ''JmapEmailId must not be empty''))"
    by (simp add: localEmailId_def opaque_id_defs opaqueIdFromString_def js_def)
  with assms show ?thesis by (simp add: confirm_send_def bindM_def liftM_def)
next
  case False
  let ?e = "\<lparr>accountKey = pmAccountKey m, jmapId = i\<rparr>"
  have e: "localEmailId (pmAccountKey m) i = Inr ?e" using False by (simp add: local_ids_Inr)
  from stored_law [OF assms(1)] assms(2) have "wf_mutation m" by (simp add: holds_def)
  with assms(3) obtain n where n: "confirmSendMutation m (sendConfirmation ?e) = Inr n"
    "status (pmLifecycle n) = StConfirmed"
    by (cases "pmLifecycle m") (auto simp: in_flight_def wf_mutation_def settle_Inr sendConfirmation_def)
  from confirmAndRemove_step [OF assms(1,2) step_confirm_send [OF assms(4) n(1)] n(2)] assms(5) n(1) e
  show ?thesis by (auto simp: confirm_send_def outcome_if_def bindM_def liftM_def retM_def)
qed

lemma settleTerminal_step:
  assumes "sane s" "holds m (stored s)" "in_flight m" "settleTerminal deps m s = (r, s')"
  shows "sane s' \<and> settled m r (stored s) (stored s')"
proof -
  from stored_law [OF assms(1)] assms(2) have "wf_mutation m" by (simp add: holds_def)
  with assms(3) obtain n where n: "failMutationTerminal m = Inr n"
    "n = m\<lparr>pmLifecycle := FailedTerminal (attemptCount (pmLifecycle m))\<rparr>"
    by (cases "pmLifecycle m") (auto simp: in_flight_def wf_mutation_def settle_Inr)
  from replaceOrThrow_step [OF assms(1,2) step_fail [OF n(1)]] assms(4) n
  show ?thesis by (auto simp: settleTerminal_def outcome_if_def bindM_def liftM_def retM_def)
qed

lemma settleRetry_step:
  assumes "sane s" "holds m (stored s)" "in_flight m" "settleRetry deps m s = (r, s')"
  shows "sane s' \<and> settled m r (stored s) (stored s')"
proof -
  obtain x t where now: "rdNow deps s = (x, t)" by (cases "rdNow deps s")
  from keepsD [OF now_frame assms(1) this] have t: "sane t" "stored t = stored s" by auto
  show ?thesis
  proof (cases x)
    case (Inl e)
    with now assms(4) t show ?thesis by (auto simp: settleRetry_def bindM_def)
  next
    case (Inr n)
    show ?thesis
    proof (cases "nextRetryInstant (rdOtherParse deps) (attemptCount (pmLifecycle m)) n")
      case (Inl e)
      with Inr now assms(4) t show ?thesis by (auto simp: settleRetry_def bindM_def liftM_def)
    next
      case instant: (Inr u)
      from stored_law [OF assms(1)] assms(2) have "wf_mutation m" by (simp add: holds_def)
      with assms(3) obtain k where k: "scheduleMutationRetry m u = Inr k"
        "k = m\<lparr>pmLifecycle := Retrying (attemptCount (pmLifecycle m)) u\<rparr>"
        by (cases "pmLifecycle m") (auto simp: in_flight_def wf_mutation_def settle_Inr)
      from t assms(2) have "holds m (stored t)" by simp
      from replaceOrThrow_step [OF t(1) this step_retry [OF k(1)]]
        assms(4) now Inr instant k(1) t(2)
      have d: "sane s'" "r = Inr RetryingLater" "stored s' = put k (stored s)"
        by (auto simp: settleRetry_def outcome_if_def bindM_def liftM_def retM_def)
      have "\<exists>t. stored s' = put (m\<lparr>pmLifecycle := Retrying (attemptCount (pmLifecycle m)) t\<rparr>) (stored s)"
        unfolding d(3) k(2) by (rule exI [of _ u]) (rule refl)
      with d show ?thesis by simp
    qed
  qed
qed

lemma settleRemoteFailure_step:
  assumes "sane s" "holds m (stored s)" "in_flight m" "settleRemoteFailure deps m e s = (r, s')"
  shows "sane s' \<and> settled m r (stored s) (stored s')"
proof -
  have "settleRemoteFailure deps m e = retM NeedsReconciliation \<or>
      settleRemoteFailure deps m e = settleRetry deps m \<or>
      settleRemoteFailure deps m e = settleTerminal deps m"
    by (auto simp: settleRemoteFailure_def split: exn.splits RemoteMutationSourceFailure.splits)
  then show ?thesis
    using settleRetry_step [OF assms(1-3)] settleTerminal_step [OF assms(1-3)] assms by auto
qed

text \<open>An operation that settles, or leaves the mutation for its handler to settle.\<close>

definition settles :: "PendingMutation \<Rightarrow> ('s, exn, MutationExecutionOutcome) eff \<Rightarrow> bool" where
  "settles m op \<longleftrightarrow>
     (\<forall>s r s'. sane s \<longrightarrow> holds m (stored s) \<longrightarrow> op s = (r, s') \<longrightarrow>
        sane s' \<and> settled m r (stored s) (stored s'))"

lemma settlesI:
  "(\<And>s r s'. sane s \<Longrightarrow> holds m (stored s) \<Longrightarrow> op s = (r, s') \<Longrightarrow>
     sane s' \<and> settled m r (stored s) (stored s')) \<Longrightarrow> settles m op"
  by (auto simp: settles_def)

lemma settlesD:
  "settles m op \<Longrightarrow> sane s \<Longrightarrow> holds m (stored s) \<Longrightarrow> op s = (r, s') \<Longrightarrow>
   sane s' \<and> settled m r (stored s) (stored s')"
  by (simp add: settles_def)

lemma settles_quiet: "settles m (retM NeedsReconciliation)"
  by (rule settlesI) auto

lemma settles_bind:
  assumes "keeps sane stored op" "\<And>a. settles m (f a)"
  shows "settles m (bindM op f)"
proof (rule settlesI)
  fix s r s'
  assume s: "sane s" "holds m (stored s)" "bindM op f s = (r, s')"
  obtain x t where x: "op s = (x, t)" by (cases "op s")
  with keepsD [OF assms(1) s(1)] have t: "sane t" "stored t = stored s" by blast+
  show "sane s' \<and> settled m r (stored s) (stored s')"
  proof (cases x)
    case (Inl e)
    with x s(3) t show ?thesis by (auto simp: bindM_def)
  next
    case (Inr a)
    with x s(3) have "f a t = (r, s')" by (simp add: bindM_def)
    with settlesD [OF assms(2) t(1)] s(2) t(2) show ?thesis by metis
  qed
qed

lemma settles_try:
  assumes "settles m op" "\<And>e. settles m (h e)"
  shows "settles m (tryM op h)"
proof (rule settlesI)
  fix s r s'
  assume s: "sane s" "holds m (stored s)" "tryM op h s = (r, s')"
  obtain x t where x: "op s = (x, t)" by (cases "op s")
  note t = settlesD [OF assms(1) s(1,2) x]
  show "sane s' \<and> settled m r (stored s) (stored s')"
  proof (cases x)
    case (Inl e)
    with x s(3) have h: "h e t = (r, s')" by (simp add: tryM_def)
    from t Inl have eq: "stored t = stored s" by simp
    with s(2) have "holds m (stored t)" by simp
    from settlesD [OF assms(2) conjunct1 [OF t] this h] eq show ?thesis by simp
  next
    case (Inr a)
    with x s(3) t show ?thesis by (simp add: tryM_def)
  qed
qed

lemma settles_confirm_update: "in_flight m \<Longrightarrow> \<not> is_send m \<Longrightarrow> settles m (confirm_update deps m)"
  by (rule settlesI) (auto dest: confirm_update_step)

lemma settles_confirm_send: "in_flight m \<Longrightarrow> is_send m \<Longrightarrow> settles m (confirm_send deps m i)"
  by (rule settlesI) (auto dest: confirm_send_step)

lemma settles_terminal: "in_flight m \<Longrightarrow> settles m (settleTerminal deps m)"
  by (rule settlesI) (rule settleTerminal_step)

lemma settles_retry: "in_flight m \<Longrightarrow> settles m (settleRetry deps m)"
  by (rule settlesI) (rule settleRetry_step)

lemma settles_failure: "in_flight m \<Longrightarrow> settles m (settleRemoteFailure deps m e)"
  by (rule settlesI) (rule settleRemoteFailure_step)

lemmas settles_rules =
  settles_quiet settles_bind settles_try settles_confirm_update settles_confirm_send
  settles_terminal settles_retry settles_failure submit_frame keyword_frame membership_frame
  send_frame member_frame refresh_frame email_frame keeps_liftM

lemma settles_executeSend: "in_flight m \<Longrightarrow> is_send m \<Longrightarrow> settles m (executeSend deps m message)"
  unfolding executeSend_def by (intro settles_rules) (auto intro: settles_rules split: option.split)

lemma settles_executeKeyword:
  "in_flight m \<Longrightarrow> \<not> is_send m \<Longrightarrow> settles m (executeKeyword deps m e c)"
  unfolding executeKeyword_def by (intro settles_rules)

lemma settles_executeMembership:
  "in_flight m \<Longrightarrow> \<not> is_send m \<Longrightarrow> settles m (executeMembership deps m e mc)"
  unfolding executeMembership_def by (intro settles_rules)

lemma settles_execute: "in_flight m \<Longrightarrow> settles m (execute deps m prepared)"
  by (auto simp: execute_def settleE2eeFailure_def is_send_def settles_retry settles_terminal
      intro: settles_executeSend settles_executeKeyword settles_executeMembership
      split: MutationPayload.split option.split PreparedSend.split)

lemma settles_reconcileSend: "in_flight m \<Longrightarrow> is_send m \<Longrightarrow> settles m (reconcileSend deps m)"
  unfolding reconcileSend_def
  by (cases "rdReconciler deps")
     (auto intro!: settles_try settles_bind settles_quiet settles_confirm_send send_frame
       split: RemoteMutationEvidence.split)

lemma settles_reconcileMembership:
  "in_flight m \<Longrightarrow> \<not> is_send m \<Longrightarrow> settles m (reconcileMembership deps m e mc)"
  unfolding reconcileMembership_def
  by (cases "rdReconciler deps")
     (auto intro!: settles_try settles_bind settles_quiet settles_confirm_update member_frame
       split: RemoteMutationEvidence.split)

text \<open>The awaited part of the keyword case settles, or leaves all as it was.\<close>

fun keyword_settled ::
  "PendingMutation \<Rightarrow> exn + KeywordReconciliation \<Rightarrow> mutations \<Rightarrow> mutations \<Rightarrow> bool" where
  "keyword_settled m (Inr (KrDone out)) st st' = settled m (Inr out) st st'"
| "keyword_settled m _ st st' = (st' = st)"

definition keyword_evidence ::
  "PendingMutation \<Rightarrow> ScopedEmailId \<Rightarrow> KeywordChange \<Rightarrow> ('s, exn, KeywordReconciliation) eff" where
  "keyword_evidence m e change =
     bindM (rdReadEmail deps e) (\<lambda>current.
     case current of
       PortErr _ \<Rightarrow> retM (KrDone NeedsReconciliation)
     | PortOk EntityAbsent \<Rightarrow> retM KrTerminal
     | PortOk (EntityPresent value) \<Rightarrow>
         if \<not> keywords_applied change (emKeywords value) then retM KrRetry
         else bindM (confirm_update deps m) (\<lambda>r. retM (KrDone r)))"

lemma keyword_evidence_step:
  assumes "in_flight m" "\<not> is_send m" "sane s" "holds m (stored s)"
    "keyword_evidence m e change s = (r, s')"
  shows "sane s' \<and> keyword_settled m r (stored s) (stored s')"
proof -
  obtain x t where x: "rdReadEmail deps e s = (x, t)" by (cases "rdReadEmail deps e s")
  from keepsD [OF email_frame assms(3) this] have t: "sane t" "stored t = stored s" by auto
  then have hold: "holds m (stored t)" using assms(4) by simp
  have upd: "sane s'' \<and> r' = Inr Confirmed \<and> stored s'' = del m (stored t)"
    if "confirm_update deps m t = (r', s'')" for r' s''
    by (rule confirm_update_step [OF t(1) hold assms(1,2) that])
  obtain y u where y: "confirm_update deps m t = (y, u)" by (cases "confirm_update deps m t")
  from upd [OF this] have yu: "y = Inr Confirmed" "sane u" "stored u = del m (stored s)"
    using t(2) by simp_all
  show ?thesis
    using assms(5) x t y yu
    by (auto simp: keyword_evidence_def bindM_def retM_def split: sum.splits PortResult.splits
        LocalEntityRead.splits if_splits)
qed

lemma settles_reconcileKeyword:
  assumes "in_flight m" "\<not> is_send m"
  shows "settles m (reconcileKeyword deps m e change)"
proof (rule settlesI)
  fix s r s'
  assume s: "sane s" "holds m (stored s)" "reconcileKeyword deps m e change s = (r, s')"
  show "sane s' \<and> settled m r (stored s) (stored s')"
  proof (cases "rdRefreshAccount deps")
    case None
    with s show ?thesis by (auto simp: reconcileKeyword_def)
  next
    case (Some refresh)
    show ?thesis
    proof (cases "rdIsConnected deps (pmAccountKey m) s")
      case False
      with Some s show ?thesis by (auto simp: reconcileKeyword_def)
    next
      case True
      let ?op = "tryM (bindM (refresh (pmAccountKey m)) (\<lambda>_. keyword_evidence m e change))
        (\<lambda>_. retM (KrDone NeedsReconciliation))"
      let ?k = "\<lambda>r. case r of KrDone result \<Rightarrow> retM result
        | KrTerminal \<Rightarrow> settleTerminal deps m | KrRetry \<Rightarrow> settleRetry deps m"
      have eq: "reconcileKeyword deps m e change s = bindM ?op ?k s"
        using Some True by (simp add: reconcileKeyword_def keyword_evidence_def)
      obtain x t where x: "refresh (pmAccountKey m) s = (x, t)" by (cases "refresh (pmAccountKey m) s")
      from keepsD [OF refresh_frame [OF Some] s(1) x] have t: "sane t" "stored t = stored s" by auto
      then have hold: "holds m (stored t)" using s(2) by simp
      obtain y u where y: "keyword_evidence m e change t = (y, u)"
        by (cases "keyword_evidence m e change t")
      from keyword_evidence_step [OF assms t(1) hold y] t(2)
      have u: "sane u" "keyword_settled m y (stored s) (stored u)" by simp_all
      show ?thesis
      proof (cases x)
        case (Inl err)
        with x eq s(3) t show ?thesis by (auto simp: bindM_def tryM_def retM_def)
      next
        case (Inr a)
        show ?thesis
        proof (cases y)
          case (Inl err)
          with Inr x y eq s(3) u show ?thesis by (auto simp: bindM_def tryM_def retM_def)
        next
          case yr: (Inr kr)
          show ?thesis
          proof (cases kr)
            case (KrDone out)
            with Inr yr x y eq s(3) u show ?thesis by (auto simp: bindM_def tryM_def retM_def)
          next
            case KrTerminal
            with u yr s(2) have h: "stored u = stored s" "holds m (stored u)" by simp_all
            from KrTerminal Inr yr x y eq s(3) have "settleTerminal deps m u = (r, s')"
              by (simp add: bindM_def tryM_def)
            from settleTerminal_step [OF u(1) h(2) assms(1) this] h(1) show ?thesis by simp
          next
            case KrRetry
            with u yr s(2) have h: "stored u = stored s" "holds m (stored u)" by simp_all
            from KrRetry Inr yr x y eq s(3) have "settleRetry deps m u = (r, s')"
              by (simp add: bindM_def tryM_def)
            from settleRetry_step [OF u(1) h(2) assms(1) this] h(1) show ?thesis by simp
          qed
        qed
      qed
    qed
  qed
qed

lemma settles_reconcile: "in_flight m \<Longrightarrow> settles m (reconcile deps m)"
  by (auto simp: reconcile_def is_send_def intro: settles_reconcileSend settles_reconcileKeyword
      settles_reconcileMembership split: MutationPayload.split)

lemma prepareSend_keeps: "keeps sane stored (prepareSend deps intent)"
  unfolding prepareSend_def encryptSendIntent_def
  by (auto intro!: keeps_bindM encrypt_frame split: list.split E2eeResult.split)

lemma start_in_flight: "startMutationAttempt m = Inr c \<Longrightarrow> in_flight c"
  by (auto simp: startMutationAttempt_Inr in_flight_def)

lemma claim_and_execute_step:
  assumes "sane s" "holds m (stored s)" "claim_and_execute deps m s = (r, s')"
  shows "sane s' \<and> ((\<exists>x. r = Inl x \<and> stored s' = stored s) \<or>
     (\<exists>c. startMutationAttempt m = Inr c \<and> settled c r (put c (stored s)) (stored s')))"
proof -
  let ?prep = "case pmPayload m of
      PSend intent \<Rightarrow> bindM (prepareSend deps intent) (\<lambda>p. retM (Some p)) | _ \<Rightarrow> retM None"
  have keep: "keeps sane stored ?prep"
    by (auto intro!: keeps_bindM prepareSend_keeps split: MutationPayload.split)
  obtain x t where x: "?prep s = (x, t)" by (cases "?prep s")
  from keepsD [OF keep assms(1) x] have t: "sane t" "stored t = stored s" by auto
  show ?thesis
  proof (cases x)
    case (Inl e)
    with x t assms(3) show ?thesis by (auto simp: claim_and_execute_def bindM_def)
  next
    case (Inr prepared)
    show ?thesis
    proof (cases "startMutationAttempt m")
      case (Inl e)
      with Inr x t assms(3) show ?thesis
        by (auto simp: claim_and_execute_def bindM_def liftM_def)
    next
      case c: (Inr c)
      have "holds m (stored t)" using assms(2) t(2) by simp
      from replace_law [OF t(1) this step_start [OF c]] obtain u where u:
        "rdReplace deps m c t = (Inr (PortOk ()), u)" "sane u" "stored u = put c (stored s)"
        using t(2) by auto
      with x Inr c assms(3) have "execute deps c prepared u = (r, s')"
        by (simp add: claim_and_execute_def bindM_def liftM_def)
      with settlesD [OF settles_execute [OF start_in_flight [OF c]] u(2)] u(3) c
      show ?thesis by simp
    qed
  qed
qed

lemma attempt_step:
  assumes "sane s" "holds m (stored s)" "attempt deps ak m s = (r, s')"
    "status (pmLifecycle m) \<in> {StPending, StRetrying}"
  shows "sane s' \<and> run_result (Some m) r (stored s) (stored s')"
proof (cases "rdIsConnected deps ak s")
  case True
  with assms(3) have "claim_and_execute deps m s = (r, s')" by (simp add: attempt_def)
  from claim_and_execute_step [OF assms(1,2) this] show ?thesis by (auto simp: run_result_def)
next
  case False
  with assms show ?thesis by (auto simp: attempt_def run_result_def)
qed

lemma readMutation_step:
  assumes "sane s"
  shows "readMutation deps ak mid s = (Inr (stored s ak mid), s)"
proof -
  from read_law [OF assms(1)] obtain res where res:
    "rdReadPendingMutation deps ak mid s = (Inr (PortOk res), s)"
    "\<And>m. res = OptionalPresent m \<longleftrightarrow> stored s ak mid = Some m" by blast
  show ?thesis
  proof (cases res)
    case (OptionalPresent m)
    then have "stored s ak mid = Some m" using res(2) [of m] by simp
    with OptionalPresent res(1) show ?thesis by (simp add: readMutation_def bindM_def)
  next
    case OptionalOwnerAbsent
    then have "stored s ak mid = None" using res(2) by (cases "stored s ak mid") auto
    with OptionalOwnerAbsent res(1) show ?thesis by (simp add: readMutation_def bindM_def)
  next
    case OptionalAbsent
    then have "stored s ak mid = None" using res(2) by (cases "stored s ak mid") auto
    with OptionalAbsent res(1) show ?thesis by (simp add: readMutation_def bindM_def)
  qed
qed

lemma runMutation_step:
  assumes "sane s" "runMutation deps ak mid s = (r, s')"
  shows "sane s' \<and> run_result (stored s ak mid) r (stored s) (stored s')"
proof -
  note read = readMutation_step [OF assms(1), of ak mid]
  show ?thesis
  proof (cases "stored s ak mid")
    case None
    with read assms show ?thesis by (auto simp: runMutation_def bindM_def run_result_def)
  next
    case (Some m)
    from stored_law [OF assms(1) Some] Some have hold: "holds m (stored s)"
      by (simp add: holds_def)
    note run = assms(2) [unfolded runMutation_def bindM_def read Some, simplified]
    have confirmed: ?thesis if st: "status (pmLifecycle m) = StConfirmed"
      "bindM (removeConfirmed deps m) (\<lambda>_. retM Confirmed) s = (r, s')"
    proof -
      from remove_law [OF assms(1) hold st(1)] obtain u where u:
        "rdRemoveConfirmed deps (pmAccountKey m) (pmMutationId m) s = (Inr (PortOk ()), u)"
        "sane u" "stored u = del m (stored s)" by blast
      have "removeConfirmed deps m s = (Inr (), u)"
        by (simp add: removeConfirmed_def bindM_def u(1))
      with st(2) have "r = Inr Confirmed" "s' = u" by (simp_all add: bindM_def)
      with u st(1) Some show ?thesis by (simp add: run_result_def)
    qed
    show ?thesis
    proof (cases "pmLifecycle m")
      case (Pending n)
      with run have "attempt deps ak m s = (r, s')" by simp
      from attempt_step [OF assms(1) hold this] Pending Some show ?thesis by simp
    next
      case (InFlight n)
      with run have "reconcile deps m s = (r, s')" by simp
      moreover have "in_flight m" using InFlight by (simp add: in_flight_def)
      ultimately show ?thesis
        using settlesD [OF settles_reconcile assms(1) hold] Some
        by (auto simp: run_result_def)
    next
      case (Retrying n at')
      obtain x t where x: "rdNow deps s = (x, t)" by (cases "rdNow deps s")
      from keepsD [OF now_frame assms(1) x] have t: "sane t" "stored t = stored s" by auto
      show ?thesis
      proof (cases x)
        case (Inl e)
        with run Retrying x t Some show ?thesis by (auto simp: bindM_def run_result_def)
      next
        case (Inr now)
        show ?thesis
        proof (cases "js_less now at'")
          case True
          with Inr run Retrying x t Some show ?thesis by (auto simp: bindM_def run_result_def)
        next
          case False
          with Inr run Retrying x have "attempt deps ak m t = (r, s')" by (simp add: bindM_def)
          from attempt_step [OF t(1) _ this] hold t(2) Retrying Some show ?thesis by simp
        qed
      qed
    next
      case (ConfirmedUpdate n)
      with run confirmed show ?thesis by (simp add: bindM_def)
    next
      case (ConfirmedSend n c)
      with run confirmed show ?thesis by (simp add: bindM_def)
    next
      case (FailedTerminal n)
      with run Some assms(1) show ?thesis by (auto simp: run_result_def)
    qed
  qed
qed

end

end
