(* ===== verification/Sync_Mappers.thy ===== *)
theory Sync_Mappers
  imports Remote_Types
begin

text \<open>
  \<open>src/src/sync/mappers/*.ts\<close>: from the remote models to validated domain values. A mapper
  runs the domain factories and turns an exception into \<open>null\<close> (\<^const>\<open>None\<close>).
\<close>

definition or_null :: "'a throws \<Rightarrow> 'a option" where
  "or_null r = (case r of Inl _ \<Rightarrow> None | Inr v \<Rightarrow> Some v)"

lemma or_null_Some [simp]: "or_null r = Some v \<longleftrightarrow> r = Inr v"
  by (cases r) (auto simp: or_null_def)

lemma or_null_None: "or_null r = None \<longleftrightarrow> (\<exists>e. r = Inl e)"
  by (cases r) (auto simp: or_null_def)

definition toDomainAddressList :: "RemoteAddressList \<Rightarrow> EmailAddressList" where
  "toDomainAddressList raw =
     (case raw of
        None \<Rightarrow> None
      | Some addrs \<Rightarrow> Some (map (\<lambda>addr. emailAddress (adName addr) (adEmail addr)) addrs))"

lemma toDomainAddressList_id [simp]: "toDomainAddressList (raw :: RemoteAddressList) = raw"
proof -
  have "emailAddress (adName a) (adEmail a) = a" for a :: EmailAddress
    by (simp add: emailAddress_def)
  then show ?thesis by (simp add: toDomainAddressList_def split: option.splits)
qed

definition toDomainIdentity :: "AccountKey \<Rightarrow> RemoteIdentity \<Rightarrow> Identity option" where
  "toDomainIdentity ak raw =
     or_null (bindE (localIdentityId ak (riId raw)) (\<lambda>i.
       identity \<lparr>idId = i, idName = riName raw, idEmail = riEmail raw,
                 idReplyTo = toDomainAddressList (riReplyTo raw),
                 idBcc = toDomainAddressList (riBcc raw)\<rparr>))"

definition toDomainMailbox :: "AccountKey \<Rightarrow> RemoteMailbox \<Rightarrow> Mailbox option" where
  "toDomainMailbox ak raw =
     or_null (bindE (localMailboxId ak (rmId raw)) (\<lambda>i.
       bindE (case rmParent raw of
                None \<Rightarrow> Inr None
              | Some p \<Rightarrow> bindE (localMailboxId ak p) (\<lambda>q. Inr (Some q))) (\<lambda>parent.
       mailbox \<lparr>mbId = i, mbName = rmName raw, mbParent = parent, mbRole = rmRole raw,
                mbSortOrder = rmSortOrder raw, mbTotalEmails = rmTotalEmails raw,
                mbUnreadEmails = rmUnreadEmails raw, mbRights = mailboxRights (rmRights raw)\<rparr>)))"

definition toDomainEmailRecord :: "AccountKey \<Rightarrow> RemoteEmail \<Rightarrow> EmailSyncRecord option" where
  "toDomainEmailRecord ak raw =
     or_null
       (bindE (localEmailId ak (rlId raw)) (\<lambda>i.
        bindE (localBlobId ak (rlBlobId raw)) (\<lambda>blob.
        bindE (localThreadId ak (rlThreadId raw)) (\<lambda>thread.
        bindE (keywordSet (rlKeywords raw)) (\<lambda>keywords.
        bindE (email
          \<lparr>emId = i, emBlobId = blob, emThreadId = thread,
           emSender = toDomainAddressList (rlSender raw), emFrom = toDomainAddressList (rlFrom raw),
           emReplyTo = toDomainAddressList (rlReplyTo raw), emTo = toDomainAddressList (rlTo raw),
           emCc = toDomainAddressList (rlCc raw), emBcc = toDomainAddressList (rlBcc raw),
           emSubject = rlSubject raw, emSentAt = rlSentAt raw, emReceivedAt = rlReceivedAt raw,
           emSize = rlSize raw, emPreview = rlPreview raw, emHasAttachment = rlHasAttachment raw,
           emKeywords = keywords\<rparr>) (\<lambda>domainEmail.
        bindE (mapE (\<lambda>mailboxId. bindE (localMailboxId ak mailboxId) (emailMailbox i))
                 (rlMailboxIds raw)) (\<lambda>memberships.
        Inr \<lparr>srEmail = domainEmail, srMemberships = memberships\<rparr>)))))))"

definition toDomainEmailBody ::
  "ScopedEmailId \<Rightarrow> jsstring option \<Rightarrow> jsstring option \<Rightarrow> EmailBody" where
  "toDomainEmailBody i txt html = emailBody \<lparr>boEmailId = i, boText = txt, boHtml = html\<rparr>"

definition to_attachment_ref ::
  "AccountKey \<Rightarrow> ScopedEmailId \<Rightarrow> RemoteAttachment \<Rightarrow> AttachmentRef option" where
  "to_attachment_ref ak i attachment =
     (case raPartId attachment of
        None \<Rightarrow> None
      | Some part \<Rightarrow>
          if length (raBlobId attachment) = 0 then None
          else or_null (bindE (localBlobId ak (raBlobId attachment)) (\<lambda>blob.
                 attachmentRef
                   \<lparr>atEmailId = i, atPartId = attachmentPartIdFromString part, atBlobId = blob,
                    atName = raName attachment, atMediaType = raMediaType attachment,
                    atSize = raSize attachment, atDisposition = raDisposition attachment,
                    atCid = raCid attachment\<rparr>)))"

definition toDomainAttachmentRefs ::
  "AccountKey \<Rightarrow> ScopedEmailId \<Rightarrow> RemoteAttachment list \<Rightarrow> AttachmentRef list" where
  "toDomainAttachmentRefs ak i raw = List.map_filter (to_attachment_ref ak i) raw"

definition toMailboxView ::
  "MailboxViewSpec \<Rightarrow> AccountKey \<Rightarrow> RemoteMailboxQuery \<Rightarrow> MailboxView option" where
  "toMailboxView spec ak result =
     or_null
       (bindE (mapE (\<lambda>(index, i). bindE (localEmailId ak i) (\<lambda>e.
                 mailboxViewItem (num_add (rqPosition result) (JInt (int index))) e))
               (List.enumerate 0 (rqIds result))) (\<lambda>items.
        bindE (if length items = 0 then Inr []
               else bindE (mailboxViewCoverageRange (rqPosition result)
                             (num_add (rqPosition result) (JInt (int (length items)))))
                      (\<lambda>r. Inr [r])) (\<lambda>coverage.
        bindE (mailboxViewQueryStateFromString (rqQueryState result)) (\<lambda>queryState.
        mailboxView \<lparr>mvSpec = spec, mvQueryState = queryState, mvTotal = rqTotal result,
                     mvCoverage = coverage, mvItems = items\<rparr>))))"

section \<open>What the mappers return\<close>

lemma toDomainIdentity_Some:
  "toDomainIdentity ak raw = Some v \<Longrightarrow>
   idId v = \<lparr>accountKey = ak, jmapId = riId raw\<rparr> \<and> riId raw \<noteq> [] \<and> idEmail v \<noteq> []"
  by (auto simp: toDomainIdentity_def bindE_Inr_iff local_ids_Inr identity_Inr)

lemma toDomainMailbox_Some:
  "toDomainMailbox ak raw = Some v \<Longrightarrow>
   mbId v = \<lparr>accountKey = ak, jmapId = rmId raw\<rparr> \<and> rmId raw \<noteq> [] \<and> valid_mailbox v"
  by (auto simp: toDomainMailbox_def bindE_Inr_iff local_ids_Inr mailbox_Inr)

lemma mapE_memberships:
  "mapE (\<lambda>m. bindE (localMailboxId ak m) (emailMailbox i)) ms = Inr rs \<Longrightarrow> accountKey i = ak \<Longrightarrow>
   rs = map (\<lambda>m. \<lparr>mmEmailId = i, mmMailboxId = \<lparr>accountKey = ak, jmapId = m\<rparr>\<rparr>) ms"
  by (induction ms arbitrary: rs) (auto simp: bindE_Inr_iff local_ids_Inr emailMailbox_Inr)

lemma toDomainEmailRecord_Some:
  assumes "toDomainEmailRecord ak raw = Some v"
  shows "emId (srEmail v) = \<lparr>accountKey = ak, jmapId = rlId raw\<rparr> \<and> rlId raw \<noteq> [] \<and>
    valid_email (srEmail v) \<and>
    srMemberships v = map (\<lambda>m. \<lparr>mmEmailId = emId (srEmail v),
      mmMailboxId = \<lparr>accountKey = ak, jmapId = m\<rparr>\<rparr>) (rlMailboxIds raw)"
  using assms
  by (auto simp: toDomainEmailRecord_def bindE_Inr_iff local_ids_Inr email_keeps_id
      dest!: mapE_memberships intro: email_valid)

lemma to_attachment_ref_Some:
  "to_attachment_ref ak i raw = Some r \<Longrightarrow> valid_attachment r \<and> atEmailId r = i"
  by (auto simp: to_attachment_ref_def bindE_Inr_iff attachmentRef_Inr
      split: option.splits if_splits)

lemma toDomainAttachmentRefs_valid:
  assumes "r \<in> set (toDomainAttachmentRefs ak i raw)"
  shows "valid_attachment r \<and> atEmailId r = i"
proof -
  from assms obtain x where "to_attachment_ref ak i x = Some r"
    by (auto simp: toDomainAttachmentRefs_def List.map_filter_def)
  then show ?thesis by (rule to_attachment_ref_Some)
qed

lemma toMailboxView_Some:
  assumes "toMailboxView spec ak result = Some v"
  shows "valid_view v \<and> mvSpec v = spec"
  using assms by (auto simp: toMailboxView_def bindE_Inr_iff mailboxView_Inr)

end
