(* ===== verification/Coordinator.thy ===== *)
theory Coordinator
  imports Sync_Mappers
begin

text \<open>
  \<open>src/src/sync/coordinator.ts\<close>: pulls the collections of one account from the remote mail
  into the local store, each under the cursor it read, with one retry when the store reports a
  conflict. The remote mail and the two local ports are fields of the dependency record.
\<close>

section \<open>Dependencies\<close>

record ('s, 'f) CoordinatorDeps =
  cdSyncIdentities ::
    "RemoteAccountId \<Rightarrow> RemoteSyncState option \<Rightarrow>
     ('s, exn, (RemoteIdentity, RemoteIdentityId) RemoteCollectionSync) eff"
  cdSyncMailboxes ::
    "RemoteAccountId \<Rightarrow> RemoteSyncState option \<Rightarrow>
     ('s, exn, (RemoteMailbox, RemoteMailboxId) RemoteCollectionSync) eff"
  cdSyncEmails ::
    "RemoteAccountId \<Rightarrow> RemoteSyncState option \<Rightarrow>
     ('s, exn, (RemoteEmail, RemoteEmailId) RemoteCollectionSync) eff"
  cdQueryMailbox ::
    "RemoteAccountId \<Rightarrow> RemoteMailboxId \<Rightarrow> 'f option \<Rightarrow> RemoteQueryOptions option \<Rightarrow>
     ('s, exn, RemoteMailboxQuery) eff"
  cdApplyCollectionSync :: "CollectionSyncCommit \<Rightarrow> ('s, exn, WriteResult) eff"
  cdReplaceMailboxView :: "MailboxView \<Rightarrow> ('s, exn, WriteResult) eff"
  cdReadCursor ::
    "AccountKey \<Rightarrow> CollectionDataType \<Rightarrow>
     ('s, exn, CollectionSyncCursor OwnedOptionalRead ReadResult) eff"
  cdListMailboxes :: "AccountKey \<Rightarrow> ('s, exn, Mailbox list OwnedSnapshotRead ReadResult) eff"

definition data_type_string :: "CollectionDataType \<Rightarrow> jsstring" where
  "data_type_string d =
     (case d of DEmail \<Rightarrow> js ''email'' | DMailbox \<Rightarrow> js ''mailbox'' | DIdentity \<Rightarrow> js ''identity'')"

section \<open>Commits\<close>

definition nextCursor ::
  "AccountKey \<Rightarrow> CollectionDataType \<Rightarrow> RemoteSyncState \<Rightarrow> CollectionSyncCursor" where
  "nextCursor ak dataType state =
     collectionSyncCursor
       \<lparr>cuAccountKey = ak, cuDataType = dataType, cuState = localCollectionState state\<rparr>"

definition map_identity :: "AccountKey \<Rightarrow> RemoteIdentity \<Rightarrow> Identity throws" where
  "map_identity ak value =
     (case toDomainIdentity ak value of
        None \<Rightarrow> Inl (Error (js ''Remote Identity '' @ riId value @ js '' failed Domain validation''))
      | Some mapped \<Rightarrow> Inr mapped)"

definition map_email :: "AccountKey \<Rightarrow> RemoteEmail \<Rightarrow> EmailSyncRecord throws" where
  "map_email ak value =
     (case toDomainEmailRecord ak value of
        None \<Rightarrow> Inl (Error (js ''Remote Email '' @ rlId value @ js '' failed Domain validation''))
      | Some mapped \<Rightarrow> Inr mapped)"

definition identityCommit ::
  "AccountKey \<Rightarrow> (RemoteIdentity, RemoteIdentityId) RemoteCollectionSync \<Rightarrow>
   CollectionCursorPrecondition \<Rightarrow> CollectionSyncCommit throws" where
  "identityCommit ak transition expected =
     (case transition of
        RemoteReplace state snapshot \<Rightarrow>
          bindE (mapE (map_identity ak) snapshot) (\<lambda>vs.
          Inr (IdentityCommit (nextCursor ak DIdentity state) (Replace expected vs)))
      | RemoteDelta state changed destroyed \<Rightarrow>
          (case expected of
             CursorAbsent \<Rightarrow> Inl (Error (js ''Identity delta requires a previous cursor''))
           | CursorMatches cursor \<Rightarrow>
               bindE (mapE (map_identity ak) changed) (\<lambda>vs.
               bindE (mapE (localIdentityId ak) destroyed) (\<lambda>ds.
               Inr (IdentityCommit (nextCursor ak DIdentity state) (Delta cursor vs ds))))))"

definition mailboxCommit ::
  "AccountKey \<Rightarrow> (RemoteMailbox, RemoteMailboxId) RemoteCollectionSync \<Rightarrow>
   CollectionCursorPrecondition \<Rightarrow> CollectionSyncCommit throws" where
  "mailboxCommit ak transition expected =
     (case transition of
        RemoteReplace state snapshot \<Rightarrow>
          Inr (MailboxCommit (nextCursor ak DMailbox state)
                 (Replace expected (List.map_filter (toDomainMailbox ak) snapshot)))
      | RemoteDelta state changed destroyed \<Rightarrow>
          (case expected of
             CursorAbsent \<Rightarrow> Inl (Error (js ''Mailbox delta requires a previous cursor''))
           | CursorMatches cursor \<Rightarrow>
               bindE (mapE (localMailboxId ak) destroyed) (\<lambda>ds.
               Inr (MailboxCommit (nextCursor ak DMailbox state)
                      (Delta cursor (List.map_filter (toDomainMailbox ak) changed) ds)))))"

definition emailCommit ::
  "AccountKey \<Rightarrow> (RemoteEmail, RemoteEmailId) RemoteCollectionSync \<Rightarrow>
   CollectionCursorPrecondition \<Rightarrow> CollectionSyncCommit throws" where
  "emailCommit ak transition expected =
     (case transition of
        RemoteReplace state snapshot \<Rightarrow>
          bindE (mapE (map_email ak) snapshot) (\<lambda>vs.
          Inr (EmailCommit (nextCursor ak DEmail state) (Replace expected vs)))
      | RemoteDelta state changed destroyed \<Rightarrow>
          (case expected of
             CursorAbsent \<Rightarrow> Inl (Error (js ''Email delta requires a previous cursor''))
           | CursorMatches cursor \<Rightarrow>
               bindE (mapE (map_email ak) changed) (\<lambda>vs.
               bindE (mapE (localEmailId ak) destroyed) (\<lambda>ds.
               Inr (EmailCommit (nextCursor ak DEmail state) (Delta cursor vs ds))))))"

section \<open>Synchronisation\<close>

text \<open>\<open>CursorOutcome\<close>: absent, or the cursor.\<close>

definition readCursorOutcome ::
  "('s, 'f) CoordinatorDeps \<Rightarrow> AccountKey \<Rightarrow> CollectionDataType \<Rightarrow>
   ('s, exn, CollectionSyncCursor option) eff" where
  "readCursorOutcome deps ak dataType =
     bindM (cdReadCursor deps ak dataType) (\<lambda>result.
     case result of
       PortErr e \<Rightarrow>
         throwM (Error (js ''readCollectionSyncCursor('' @ data_type_string dataType @
                        js '') failed: '' @ read_error_string e))
     | PortOk OptionalOwnerAbsent \<Rightarrow>
         throwM (Error (js ''Account '' @ ak @ js '' is not registered locally''))
     | PortOk OptionalAbsent \<Rightarrow> retM None
     | PortOk (OptionalPresent cursor) \<Rightarrow> retM (Some cursor))"

definition precondition_of ::
  "CollectionSyncCursor option \<Rightarrow> CollectionCursorPrecondition" where
  "precondition_of result =
     (case result of None \<Rightarrow> CursorAbsent | Some cursor \<Rightarrow> CursorMatches cursor)"

definition previous_state :: "CollectionSyncCursor option \<Rightarrow> RemoteSyncState option" where
  "previous_state result =
     (case result of None \<Rightarrow> None | Some cursor \<Rightarrow> Some (remoteSyncStateFromString (cuState cursor)))"

fun sync_attempts ::
  "nat \<Rightarrow> ('s, 'f) CoordinatorDeps \<Rightarrow> AccountKey \<Rightarrow> CollectionDataType \<Rightarrow>
   (RemoteSyncState option \<Rightarrow>
      ('s, exn, CollectionCursorPrecondition \<Rightarrow> CollectionSyncCommit throws) eff) \<Rightarrow>
   ('s, exn, unit) eff" where
  "sync_attempts 0 deps ak dataType build =
     throwM (Error (js ''applyCollectionSync('' @ data_type_string dataType @
                    js ''): conflict persisted after retry''))"
| "sync_attempts (Suc n) deps ak dataType build =
     bindM (readCursorOutcome deps ak dataType) (\<lambda>result.
     bindM (build (previous_state result)) (\<lambda>createCommit.
     bindM (liftM (createCommit (precondition_of result))) (\<lambda>commit.
     bindM (cdApplyCollectionSync deps commit) (\<lambda>written.
     case written of
       PortOk _ \<Rightarrow> retM ()
     | PortErr WrConflict \<Rightarrow> sync_attempts n deps ak dataType build
     | PortErr e \<Rightarrow>
         throwM (Error (js ''applyCollectionSync('' @ data_type_string dataType @
                        js '') failed: '' @ write_error_string e))))))"

definition syncCollection ::
  "('s, 'f) CoordinatorDeps \<Rightarrow> AccountKey \<Rightarrow> CollectionDataType \<Rightarrow>
   (RemoteSyncState option \<Rightarrow>
      ('s, exn, CollectionCursorPrecondition \<Rightarrow> CollectionSyncCommit throws) eff) \<Rightarrow>
   ('s, exn, unit) eff" where
  "syncCollection deps ak dataType build = sync_attempts 2 deps ak dataType build"

definition syncIdentities ::
  "('s, 'f) CoordinatorDeps \<Rightarrow> AccountKey \<Rightarrow> RemoteAccountId \<Rightarrow> ('s, exn, unit) eff" where
  "syncIdentities deps ak remoteAccount =
     syncCollection deps ak DIdentity (\<lambda>previous.
       bindM (cdSyncIdentities deps remoteAccount previous) (\<lambda>transition.
       retM (identityCommit ak transition)))"

definition syncMailboxes ::
  "('s, 'f) CoordinatorDeps \<Rightarrow> AccountKey \<Rightarrow> RemoteAccountId \<Rightarrow> ('s, exn, unit) eff" where
  "syncMailboxes deps ak remoteAccount =
     syncCollection deps ak DMailbox (\<lambda>previous.
       bindM (cdSyncMailboxes deps remoteAccount previous) (\<lambda>transition.
       retM (mailboxCommit ak transition)))"

definition syncEmails ::
  "('s, 'f) CoordinatorDeps \<Rightarrow> AccountKey \<Rightarrow> RemoteAccountId \<Rightarrow> ('s, exn, unit) eff" where
  "syncEmails deps ak remoteAccount =
     syncCollection deps ak DEmail (\<lambda>previous.
       bindM (cdSyncEmails deps remoteAccount previous) (\<lambda>transition.
       retM (emailCommit ak transition)))"

definition QUERY_PAGE_SIZE :: number where
  "QUERY_PAGE_SIZE = JInt 500"

definition syncQueryView ::
  "('s, 'f) CoordinatorDeps \<Rightarrow> AccountKey \<Rightarrow> RemoteAccountId \<Rightarrow> MailboxViewSpec \<Rightarrow>
   ('s, exn, unit) eff" where
  "syncQueryView deps ak remoteAccount spec =
     bindM (liftM (remoteMailboxId (vsMailboxId spec))) (\<lambda>i.
     bindM (cdQueryMailbox deps remoteAccount i None
              (Some \<lparr>roPosition = None, roLimit = Some QUERY_PAGE_SIZE, roAnchor = None,
                     roAnchorOffset = None\<rparr>)) (\<lambda>result.
     case toMailboxView spec ak result of
       None \<Rightarrow> retM ()
     | Some view \<Rightarrow>
         bindM (cdReplaceMailboxView deps view) (\<lambda>written.
         case written of
           PortOk _ \<Rightarrow> retM ()
         | PortErr e \<Rightarrow>
             throwM (Error (js ''replaceMailboxView failed: '' @ write_error_string e)))))"

definition searchEmails ::
  "('s, 'f) CoordinatorDeps \<Rightarrow> RemoteAccountId \<Rightarrow> RemoteMailboxId \<Rightarrow> 'f option \<Rightarrow>
   RemoteQueryOptions option \<Rightarrow> ('s, exn, RemoteMailboxQuery) eff" where
  "searchEmails deps remoteAccount mailboxId filter_spec options =
     cdQueryMailbox deps remoteAccount mailboxId filter_spec options"

definition syncAccount ::
  "('s, 'f) CoordinatorDeps \<Rightarrow> AccountKey \<Rightarrow> RemoteAccountId \<Rightarrow> ('s, exn, unit) eff" where
  "syncAccount deps ak remoteAccount =
     bindM (syncIdentities deps ak remoteAccount) (\<lambda>_.
     bindM (syncMailboxes deps ak remoteAccount) (\<lambda>_.
     bindM (syncEmails deps ak remoteAccount) (\<lambda>_.
     bindM (cdListMailboxes deps ak) (\<lambda>mailboxes.
     case mailboxes of
       PortErr e \<Rightarrow> throwM (Error (js ''listMailboxes failed: '' @ read_error_string e))
     | PortOk SnapshotOwnerAbsent \<Rightarrow>
         throwM (Error (js ''Account '' @ ak @ js '' is not registered locally''))
     | PortOk (SnapshotPresent values) \<Rightarrow>
         forM values (\<lambda>m.
           syncQueryView deps ak remoteAccount
             (mailboxViewSpec (mbId m) mailboxViewFilterAll (mailboxViewSort Descending)))))))"

end
