(* ===== verification/Memory_World.thy ===== *)
theory Memory_World
  imports Memory_Theorems Runner_Laws Coordinator
begin

text \<open>
  The clients over the memory engine: a world is an engine and the state of whatever stands
  behind the remote interfaces. The mutation runner's store laws are proved for the engine's
  own operations here (an interpretation of \<open>runner_store\<close>), with the coordinator as
  the refresh the runner calls.
\<close>

section \<open>Operations on the world\<close>

type_synonym 'r world = "MemoryEngine \<times> 'r"

definition on_engine :: "engine_op \<Rightarrow> ('r world, exn, WriteResult) eff" where
  "on_engine op w = (case op (fst w) of (x, eng) \<Rightarrow> (x, (eng, snd w)))"

definition on_state :: "(MemoryState \<Rightarrow> 'a throws) \<Rightarrow> ('r world, exn, 'a) eff" where
  "on_state query w = (query (meState (fst w)), w)"

definition on_remote :: "('r, exn, 'a) eff \<Rightarrow> ('r world, exn, 'a) eff" where
  "on_remote f w = (case f (snd w) of (x, r) \<Rightarrow> (x, (fst w, r)))"

text \<open>The remote side: any functions on its state.\<close>

record 'r RemoteEnv =
  enAccount :: "AccountKey \<Rightarrow> ('r, exn, RemoteAccountId) eff"
  enConnected :: "AccountKey \<Rightarrow> 'r \<Rightarrow> bool"
  enSubmit ::
    "AccountKey \<Rightarrow> RemoteSubmissionDraft \<Rightarrow> MutationId \<Rightarrow> ('r, exn, SubmissionResult) eff"
  enApplyKeyword :: "AccountKey \<Rightarrow> RemoteEmailId \<Rightarrow> RemoteKeywordChange \<Rightarrow> ('r, exn, unit) eff"
  enApplyMembership ::
    "AccountKey \<Rightarrow> RemoteEmailId \<Rightarrow> RemoteMembershipChange \<Rightarrow> ('r, exn, unit) eff"
  enReconciler :: "'r Reconciler option"
  enEncryptFor :: "EncryptForInput \<Rightarrow> ('r, exn, BoxplotE2eeEnvelope E2eeResult) eff"
  enNow :: "('r, exn, MutationInstant) eff"
  enOtherParse :: "jsstring \<Rightarrow> number"
  enSyncIdentities ::
    "RemoteAccountId \<Rightarrow> RemoteSyncState option \<Rightarrow>
     ('r, exn, (RemoteIdentity, RemoteIdentityId) RemoteCollectionSync) eff"
  enSyncMailboxes ::
    "RemoteAccountId \<Rightarrow> RemoteSyncState option \<Rightarrow>
     ('r, exn, (RemoteMailbox, RemoteMailboxId) RemoteCollectionSync) eff"
  enSyncEmails ::
    "RemoteAccountId \<Rightarrow> RemoteSyncState option \<Rightarrow>
     ('r, exn, (RemoteEmail, RemoteEmailId) RemoteCollectionSync) eff"
  enQueryMailbox ::
    "RemoteAccountId \<Rightarrow> RemoteMailboxId \<Rightarrow> unit option \<Rightarrow> RemoteQueryOptions option \<Rightarrow>
     ('r, exn, RemoteMailboxQuery) eff"

definition memory_coordinator :: "'r RemoteEnv \<Rightarrow> ('r world, unit) CoordinatorDeps" where
  "memory_coordinator env =
     \<lparr>cdSyncIdentities = (\<lambda>a p. on_remote (enSyncIdentities env a p)),
      cdSyncMailboxes = (\<lambda>a p. on_remote (enSyncMailboxes env a p)),
      cdSyncEmails = (\<lambda>a p. on_remote (enSyncEmails env a p)),
      cdQueryMailbox = (\<lambda>a m f opts. on_remote (enQueryMailbox env a m f opts)),
      cdApplyCollectionSync = (\<lambda>c. on_engine (applyCollectionSync c)),
      cdReplaceMailboxView = (\<lambda>v. on_engine (replaceMailboxView v)),
      cdReadCursor = (\<lambda>ak d. on_state (readCollectionSyncCursor ak d)),
      cdListMailboxes = (\<lambda>ak. on_state (listMailboxes ak))\<rparr>"

definition memory_refresh :: "'r RemoteEnv \<Rightarrow> AccountKey \<Rightarrow> ('r world, exn, unit) eff" where
  "memory_refresh env ak =
     bindM (on_remote (enAccount env ak)) (\<lambda>a. syncAccount (memory_coordinator env) ak a)"

definition memory_runner :: "'r RemoteEnv \<Rightarrow> 'r world RunnerDeps" where
  "memory_runner env =
     \<lparr>rdReadPendingMutation = (\<lambda>ak mid. on_state (readPendingMutation ak mid)),
      rdListPendingMutations = (\<lambda>ak. on_state (listPendingMutations ak)),
      rdReadEmail = (\<lambda>e. on_state (readEmail e)),
      rdReplace = (\<lambda>e n. on_engine (replacePendingMutationIfCurrent e n)),
      rdRemoveConfirmed = (\<lambda>ak mid. on_engine (removeConfirmedMutation ak mid)),
      rdIsConnected = (\<lambda>ak w. enConnected env ak (snd w)),
      rdSubmit = (\<lambda>ak d mid. on_remote (enSubmit env ak d mid)),
      rdApplyKeyword = (\<lambda>ak i c. on_remote (enApplyKeyword env ak i c)),
      rdApplyMembership = (\<lambda>ak i c. on_remote (enApplyMembership env ak i c)),
      rdReconciler = map_option (\<lambda>rc.
         \<lparr>rcSend = (\<lambda>ak mid. on_remote (rcSend rc ak mid)),
          rcMembership = (\<lambda>ak mid i c. on_remote (rcMembership rc ak mid i c))\<rparr>)
         (enReconciler env),
      rdRefreshAccount = Some (memory_refresh env),
      rdEncryptFor = (\<lambda>input. on_remote (enEncryptFor env input)),
      rdNow = on_remote (enNow env),
      rdOtherParse = enOtherParse env\<rparr>"

section \<open>The laws\<close>

definition stored_mutations :: "'r world \<Rightarrow> mutations" where
  "stored_mutations w = aMutation (astore (meState (fst w)))"

definition mutations_wf :: "MemoryState \<Rightarrow> bool" where
  "mutations_wf s \<longleftrightarrow> (\<forall>ak mid m. aMutation (astore s) ak mid = Some m \<longrightarrow> wf_mutation m)"

definition sane_world :: "'r world \<Rightarrow> bool" where
  "sane_world w \<longleftrightarrow> state_inv (meState (fst w)) \<and> mutations_wf (meState (fst w))"

lemma wf_typed: "wf_mutation m \<Longrightarrow> typed_mutation m"
  by (auto simp: wf_mutation_def typed_mutation_def valid_keyword_change_def
      split: MutationPayload.splits)

lemma keeps_on_remote: "keeps sane_world stored_mutations (on_remote f)"
  by (auto simp: keeps_def on_remote_def sane_world_def stored_mutations_def split: prod.splits)

lemma keeps_on_state: "keeps sane_world stored_mutations (on_state q)"
  by (auto simp: keeps_def on_state_def)

lemma keeps_on_engine:
  assumes "\<And>eng. state_inv (meState eng) \<Longrightarrow>
      op_cases op eng (\<lambda>s. state_inv s \<and> msMutations s = msMutations (meState eng))"
  shows "keeps sane_world stored_mutations (on_engine op)"
  unfolding keeps_def
proof (intro allI impI)
  fix w :: "'a world" and r w'
  assume w: "sane_world w" and o: "on_engine op w = (r, w')"
  from w have inv: "state_inv (meState (fst w))" by (simp add: sane_world_def)
  from o have fst: "fst w' = snd (op (fst w))" by (auto simp: on_engine_def split: prod.splits)
  have "state_inv (meState (fst w')) \<and> msMutations (meState (fst w')) = msMutations (meState (fst w))"
    using assms [OF inv] inv by (auto simp: op_cases_def fst commit_state_def publish_def)
  with w show "sane_world w' \<and> stored_mutations w' = stored_mutations w"
    by (simp add: sane_world_def mutations_wf_def stored_mutations_def)
qed

lemma op_cases_conj:
  assumes "op_cases op eng P" "\<And>s hints. op eng = commit_state s hints eng \<Longrightarrow> Q s"
  shows "op_cases op eng (\<lambda>s. P s \<and> Q s)"
  using assms by (auto simp: op_cases_def)

lemma commit_state_inj: "commit_state s hints eng = commit_state s' hints' eng \<Longrightarrow> s = s'"
  by (auto simp: commit_state_def publish_def dest: arg_cong [of _ _ meState])

lemma sync_state_mutations: "sync_state c ak s = Inr s' \<Longrightarrow> msMutations s' = msMutations s"
  by (cases c) (auto simp: commitEmails_Inr commitMailboxes_def commitIdentities_def Let_def
      bindE_Inr_iff)

lemma keeps_sync: "keeps sane_world stored_mutations (on_engine (applyCollectionSync c))"
proof (rule keeps_on_engine)
  fix eng :: MemoryEngine assume inv: "state_inv (meState eng)"
  show "op_cases (applyCollectionSync c) eng
      (\<lambda>s. state_inv s \<and> msMutations s = msMutations (meState eng))"
  proof (rule op_cases_conj [OF applyCollectionSync_inv [OF inv]])
    fix s hints assume "applyCollectionSync c eng = commit_state s hints eng"
    then show "msMutations s = msMutations (meState eng)"
      by (auto simp: applyCollectionSync_eq finish_sync_def reject_def commit_state_def conflict_def
          writeOk_def publish_def sync_state_mutations dest!: arg_cong [of _ _ meState]
          split: if_splits sum.splits)
  qed
qed

lemma keeps_view: "keeps sane_world stored_mutations (on_engine (replaceMailboxView v))"
proof (rule keeps_on_engine)
  fix eng :: MemoryEngine assume inv: "state_inv (meState eng)"
  show "op_cases (replaceMailboxView v) eng
      (\<lambda>s. state_inv s \<and> msMutations s = msMutations (meState eng))"
  proof (rule op_cases_conj [OF replaceMailboxView_inv [OF inv]])
    fix s hints assume "replaceMailboxView v eng = commit_state s hints eng"
    then show "msMutations s = msMutations (meState eng)"
      by (auto simp: replaceMailboxView_def Let_def reject_def commit_state_def conflict_def
          writeOk_def publish_def dest!: arg_cong [of _ _ meState]
          split: if_splits sum.splits)
  qed
qed

lemma keeps_forM: "(\<And>x. keeps sane view (f x)) \<Longrightarrow> keeps sane view (forM xs f)"
  by (induction xs) (auto intro: keeps_bindM)

lemmas keeps_rules = keeps_bindM keeps_forM keeps_on_remote keeps_on_state keeps_sync keeps_view
  keeps_retM keeps_throwM keeps_liftM

lemma keeps_readCursor:
  "keeps sane_world stored_mutations (readCursorOutcome (memory_coordinator env) ak d)"
  unfolding readCursorOutcome_def memory_coordinator_def
  by (auto intro!: keeps_rules split: PortResult.split OwnedOptionalRead.split)

lemma keeps_attempts:
  assumes "\<And>previous. keeps sane_world stored_mutations (build previous)"
  shows "keeps sane_world stored_mutations (sync_attempts n (memory_coordinator env) ak d build)"
proof (induction n)
  case (Suc n)
  have "keeps sane_world stored_mutations (cdApplyCollectionSync (memory_coordinator env) c)" for c
    by (simp add: memory_coordinator_def keeps_sync)
  then show ?case
    by (simp, intro keeps_bindM keeps_readCursor assms keeps_liftM)
       (auto intro!: Suc split: PortResult.split LocalWriteError.split)
qed simp

lemma keeps_syncs:
  "keeps sane_world stored_mutations (syncIdentities (memory_coordinator env) ak a)"
  "keeps sane_world stored_mutations (syncMailboxes (memory_coordinator env) ak a)"
  "keeps sane_world stored_mutations (syncEmails (memory_coordinator env) ak a)"
  unfolding syncIdentities_def syncMailboxes_def syncEmails_def syncCollection_def
  by (intro keeps_attempts keeps_bindM keeps_retM; simp add: memory_coordinator_def keeps_on_remote)+

lemma keeps_query:
  "keeps sane_world stored_mutations (syncQueryView (memory_coordinator env) ak a spec)"
  unfolding syncQueryView_def memory_coordinator_def
  by (auto intro!: keeps_rules split: option.split PortResult.split)

lemma keeps_syncAccount:
  "keeps sane_world stored_mutations (syncAccount (memory_coordinator env) ak a)"
proof -
  have "keeps sane_world stored_mutations (cdListMailboxes (memory_coordinator env) ak)"
    by (simp add: memory_coordinator_def keeps_on_state)
  then show ?thesis
    unfolding syncAccount_def
    by (intro keeps_bindM keeps_syncs)
       (auto intro!: keeps_rules keeps_query split: PortResult.split OwnedSnapshotRead.split)
qed

lemma keeps_refresh: "keeps sane_world stored_mutations (memory_refresh env ak)"
  unfolding memory_refresh_def by (intro keeps_bindM keeps_on_remote keeps_syncAccount)

lemma stored_after_put:
  "state_inv s \<Longrightarrow> typed_mutation n \<Longrightarrow>
   aMutation (astore (s\<lparr>msMutations :=
     AList.update (mutationKey (pmAccountKey n) (pmMutationId n)) n (msMutations s)\<rparr>)) =
   put n (aMutation (astore s))"
  by (auto simp: put_def fun_eq_iff)

lemma memory_replace:
  assumes "sane_world w" "holds e (stored_mutations w)" "lifecycle_step e n"
  shows "\<exists>w'. on_engine (replacePendingMutationIfCurrent e n) w = (Inr (PortOk ()), w') \<and>
    sane_world w' \<and> stored_mutations w' = put n (stored_mutations w)"
proof -
  let ?s = "meState (fst w)"
  let ?k = "mutationKey (pmAccountKey e) (pmMutationId e)"
  have inv: "state_inv ?s" using assms(1) by (simp add: sane_world_def)
  have cur: "map_of (msMutations ?s) ?k = Some e"
    using assms(2) by (simp add: holds_def stored_mutations_def)
  have wf: "wf_mutation e" using assms(1,2)
    by (auto simp: sane_world_def mutations_wf_def holds_def stored_mutations_def)
  note acc = lifecycle_step_accepted [OF assms(3)]
  have key: "pmAccountKey n = pmAccountKey e" "pmMutationId n = pmMutationId e"
    using acc by (simp_all add: sameImmutableMutation_iff)
  have wfn: "wf_mutation n" by (rule lifecycle_step_wf [OF assms(3) wf])
  have clone: "cloneMutation n = n" using wf_typed [OF wfn] by simp
  let ?s' = "?s\<lparr>msMutations := AList.update ?k n (msMutations ?s)\<rparr>"
  have op: "replacePendingMutationIfCurrent e n (fst w) =
      commit_state ?s' [HPendingMutations (pmAccountKey e)] (fst w)"
    using acc cur clone by (simp add: replacePendingMutationIfCurrent_def mutationsEqual_refl Let_def)
  have reg: "registered ?s (pmAccountKey n)" using state_inv_mutation [OF inv cur] key by simp
  have inv': "state_inv ?s'"
    using state_inv_store_mutation [OF inv reg] by (simp add: clone key)
  have st: "aMutation (astore ?s') = put n (aMutation (astore ?s))"
    using stored_after_put [OF inv wf_typed [OF wfn]] by (simp add: key)
  have "mutations_wf ?s'"
    using assms(1) wfn unfolding mutations_wf_def st
    by (auto simp: put_def sane_world_def mutations_wf_def)
  with op inv' st show ?thesis
    by (simp add: on_engine_def commit_state_def publish_def writeOk_def sane_world_def
        stored_mutations_def)
qed

lemma memory_remove:
  assumes "sane_world w" "holds m (stored_mutations w)" "status (pmLifecycle m) = StConfirmed"
  shows "\<exists>w'. on_engine (removeConfirmedMutation (pmAccountKey m) (pmMutationId m)) w =
      (Inr (PortOk ()), w') \<and> sane_world w' \<and> stored_mutations w' = del m (stored_mutations w)"
proof -
  let ?s = "meState (fst w)"
  let ?k = "mutationKey (pmAccountKey m) (pmMutationId m)"
  let ?s' = "?s\<lparr>msMutations := AList.delete ?k (msMutations ?s)\<rparr>"
  have inv: "state_inv ?s" using assms(1) by (simp add: sane_world_def)
  have cur: "map_of (msMutations ?s) ?k = Some m"
    using assms(2) by (simp add: holds_def stored_mutations_def)
  have op: "removeConfirmedMutation (pmAccountKey m) (pmMutationId m) (fst w) =
      commit_state ?s' [HPendingMutations (pmAccountKey m)] (fst w)"
    using cur assms(3) by (simp add: removeConfirmedMutation_def Let_def)
  have inv': "state_inv ?s'" using inv by (auto simp: state_inv_def)
  have st: "aMutation (astore ?s') = del m (aMutation (astore ?s))"
    by (auto simp: del_def fun_eq_iff)
  have "mutations_wf ?s'"
    using assms(1) unfolding mutations_wf_def st
    by (auto simp: del_def sane_world_def mutations_wf_def split: if_splits)
  with op inv' st show ?thesis
    by (simp add: on_engine_def commit_state_def publish_def writeOk_def sane_world_def
        stored_mutations_def)
qed

lemma memory_read:
  assumes "sane_world w"
  shows "\<exists>r. on_state (readPendingMutation ak mid) w = (Inr (PortOk r), w) \<and>
      (\<forall>m. r = OptionalPresent m \<longleftrightarrow> stored_mutations w ak mid = Some m)"
proof -
  let ?s = "meState (fst w)"
  have inv: "state_inv ?s" using assms by (simp add: sane_world_def)
  have reg: "registered ?s ak" if "map_of (msMutations ?s) (mutationKey ak mid) = Some m" for m
    using state_inv_mutation [OF inv that] by auto
  show ?thesis
    using reg by (auto simp: on_state_def readPendingMutation_eq [OF inv] stored_mutations_def
        split: option.split)
qed

lemma memory_stored:
  assumes "sane_world w" "stored_mutations w ak mid = Some m"
  shows "pmAccountKey m = ak \<and> pmMutationId m = mid \<and> wf_mutation m"
  using assms mutation_of_state [of "meState (fst w)" ak mid m]
  by (auto simp: sane_world_def stored_mutations_def mutations_wf_def)

interpretation memory: runner_store "memory_runner env" stored_mutations sane_world
  for env :: "'r RemoteEnv"
proof unfold_locales
  fix w :: "'r world" and ak mid
  assume "sane_world w"
  then show "\<exists>r. rdReadPendingMutation (memory_runner env) ak mid w = (Inr (PortOk r), w) \<and>
      (\<forall>m. r = OptionalPresent m \<longleftrightarrow> stored_mutations w ak mid = Some m)"
    by (simp only: memory_runner_def RunnerDeps.simps memory_read)
next
  fix w :: "'r world" and e n
  assume "sane_world w" "holds e (stored_mutations w)" "lifecycle_step e n"
  from memory_replace [OF this]
  show "\<exists>w'. rdReplace (memory_runner env) e n w = (Inr (PortOk ()), w') \<and> sane_world w' \<and>
      stored_mutations w' = put n (stored_mutations w)"
    by (simp only: memory_runner_def RunnerDeps.simps)
next
  fix w :: "'r world" and m
  assume "sane_world w" "holds m (stored_mutations w)" "status (pmLifecycle m) = StConfirmed"
  from memory_remove [OF this]
  show "\<exists>w'. rdRemoveConfirmed (memory_runner env) (pmAccountKey m) (pmMutationId m) w =
      (Inr (PortOk ()), w') \<and> sane_world w' \<and> stored_mutations w' = del m (stored_mutations w)"
    by (simp only: memory_runner_def RunnerDeps.simps)
next
  fix w :: "'r world" and ak mid m
  assume "sane_world w" "stored_mutations w ak mid = Some m"
  then show "pmAccountKey m = ak \<and> pmMutationId m = mid \<and> wf_mutation m" by (rule memory_stored)
qed (auto simp: memory_runner_def keeps_on_remote keeps_on_state keeps_refresh)

end
