(* ===== verification/Runner_Theorems.thy ===== *)
theory Runner_Theorems
  imports Memory_World
begin

text \<open>
  The properties of the mutation runner on the memory engine: what each outcome means for the
  stored mutation, that no remote call precedes the durable claim, the arithmetic of the
  summary, and the instants of the retries.
\<close>

section \<open>A sample world\<close>

text \<open>A remote side that accepts what it is given and knows no reconciliation.\<close>

definition sample_env :: "unit RemoteEnv" where
  "sample_env =
     \<lparr>enAccount = (\<lambda>_. retM [74]), enConnected = (\<lambda>_ _. True),
      enSubmit = (\<lambda>_ _ _. retM \<lparr>srRemoteEmailId = Some [69], srReceiptId = None\<rparr>),
      enApplyKeyword = (\<lambda>_ _ _. retM ()), enApplyMembership = (\<lambda>_ _ _. retM ()),
      enReconciler = None, enEncryptFor = (\<lambda>_. retM (E2eeErr EUnavailable)),
      enNow = retM (iso_string 1735689600000), enOtherParse = (\<lambda>_. JNaN),
      enSyncIdentities = (\<lambda>_ _. retM (RemoteReplace [48] [])),
      enSyncMailboxes = (\<lambda>_ _. retM (RemoteReplace [48] [])),
      enSyncEmails = (\<lambda>_ _. retM (RemoteReplace [48] [])),
      enQueryMailbox = (\<lambda>_ _ _ _. throwM (Error [])) \<rparr>"

lemma sample_sane: "sane_world (sample_engine, r)"
proof -
  have "wf_mutation sample_mutation"
    by (simp add: wf_mutation_def sample_mutation_def sample_intent_def)
  then show ?thesis
    using reachable_state_inv [OF sample_reachable]
    by (auto simp: sane_world_def mutations_wf_def sample_stored simp del: astore_simps
        split: if_splits)
qed

lemma sample_stored_world:
  "stored_mutations (sample_engine, r) [65] [77] = Some sample_mutation"
  by (simp add: stored_mutations_def sample_stored del: astore_simps)

section \<open>Outcomes\<close>

text \<open>C2: What one run of a mutation leaves in the store, by its outcome: a confirmed mutation is
  removed, one that needs reconciliation is still in flight, a retried or failed one is stored
  with that lifecycle and nothing else changed, a skipped one is as it was, and after an
  exception it is as it was or claimed.\<close>

theorem runner_outcome:
  assumes "sane_world w" "runMutation (memory_runner env) ak mid w = (r, w')"
  shows "sane_world w' \<and>
    run_result (stored_mutations w ak mid) r (stored_mutations w) (stored_mutations w')"
  using assms by (rule memory.runMutation_step)

lemma runner_outcome_witness:
  "run_result (Some sample_mutation)
     (fst (runMutation (memory_runner sample_env) [65] [77] (sample_engine, ())))
     (stored_mutations (sample_engine, ()))
     (stored_mutations (snd (runMutation (memory_runner sample_env) [65] [77] (sample_engine, ()))))"
  using runner_outcome [OF sample_sane prod.collapse [symmetric], of sample_env "[65]" "[77]" "()"]
  by (simp add: sample_stored_world)

lemma settled_kept:
  assumes "settled c r (put c st) st'" "r \<noteq> Inr Confirmed"
  shows "\<exists>m'. st' (pmAccountKey c) (pmMutationId c) = Some m' \<and> immutable_part m' = immutable_part c"
proof (cases r)
  case (Inl x)
  with assms show ?thesis by (simp add: put_def)
next
  case (Inr out)
  with assms show ?thesis
    by (cases out) (auto simp: put_def immutable_part_def)
qed

lemma settled_frame:
  assumes "settled c r (put c st) st'" "(ak, mid) \<noteq> (pmAccountKey c, pmMutationId c)"
  shows "st' ak mid = st ak mid"
proof (cases r)
  case (Inl x)
  with assms show ?thesis by (auto simp: put_def)
next
  case (Inr out)
  with assms show ?thesis by (cases out) (auto simp: put_def del_def)
qed

text \<open>C4: No run loses a mutation: unless the outcome is a confirmation, the mutation is still
  stored afterwards with the same identity, creation time and payload, and in every case all
  other mutations of the store are untouched.\<close>

theorem no_mutation_lost:
  assumes "sane_world w" "runMutation (memory_runner env) ak mid w = (r, w')"
    "stored_mutations w ak mid = Some m"
  shows "(r \<noteq> Inr Confirmed \<longrightarrow>
      (\<exists>m'. stored_mutations w' ak mid = Some m' \<and> immutable_part m' = immutable_part m)) \<and>
    (\<forall>ak' mid'. (ak', mid') \<noteq> (ak, mid) \<longrightarrow>
      stored_mutations w' ak' mid' = stored_mutations w ak' mid')"
proof -
  let ?st = "stored_mutations w" and ?st' = "stored_mutations w'"
  have key: "pmAccountKey m = ak" "pmMutationId m = mid"
    using memory_stored [OF assms(1,3)] by simp_all
  have same: "put m ?st = ?st" using assms(3) key by (intro put_same) (simp add: holds_def)
  have claimed: "immutable_part c = immutable_part m" if "startMutationAttempt m = Inr c" for c
    using lifecycle_step_immutable [OF step_start [OF that]] .
  have flight: "settled m r (put m ?st) ?st'" if "settled m r ?st ?st'" using that same by simp
  from memory.runMutation_step [OF assms(1,2)] assms(3)
  have "(\<exists>why. r = Inr (Skipped why) \<and> skip_ok m why \<and> ?st' = ?st) \<or>
      (\<exists>x. r = Inl x \<and> ?st' = ?st) \<or>
      status (pmLifecycle m) = StConfirmed \<and> r = Inr Confirmed \<and> ?st' = del m ?st \<or>
      in_flight m \<and> settled m r ?st ?st' \<or>
      (\<exists>c. startMutationAttempt m = Inr c \<and> settled c r (put c ?st) ?st')"
    unfolding run_result_def by simp
  then consider (same) "?st' = ?st" "r \<noteq> Inr Confirmed" | (gone) "r = Inr Confirmed" "?st' = del m ?st"
    | (settled) c where "settled c r (put c ?st) ?st'" "immutable_part c = immutable_part m"
    using claimed flight by blast
  then show ?thesis
  proof cases
    case gone
    then show ?thesis using key by (auto simp: del_def)
  next
    case (settled c)
    then have ck: "pmAccountKey c = ak" "pmMutationId c = mid"
      using key by (simp_all add: immutable_part_def)
    have kept: "\<exists>m'. ?st' ak mid = Some m' \<and> immutable_part m' = immutable_part m"
      if "r \<noteq> Inr Confirmed"
      using settled_kept [OF settled(1) that] settled(2) ck by simp
    have frame: "?st' ak' mid' = ?st ak' mid'" if "(ak', mid') \<noteq> (ak, mid)" for ak' mid'
      using settled_frame [OF settled(1)] that ck by blast
    from kept frame show ?thesis by blast
  qed (use assms(3) in auto)
qed

lemma no_mutation_lost_witness:
  "stored_mutations (snd (runMutation (memory_runner sample_env) [65] [77] (sample_engine, ())))
     [65] [78] = None"
  using no_mutation_lost [OF sample_sane prod.collapse [symmetric] sample_stored_world,
      of sample_env "()"]
  by (simp add: stored_mutations_def sample_stored del: astore_simps)

section \<open>The claim comes first\<close>

definition with_remote ::
  "'s RunnerDeps \<Rightarrow>
   (AccountKey \<Rightarrow> RemoteSubmissionDraft \<Rightarrow> MutationId \<Rightarrow> ('s, exn, SubmissionResult) eff) \<Rightarrow>
   (AccountKey \<Rightarrow> RemoteEmailId \<Rightarrow> RemoteKeywordChange \<Rightarrow> ('s, exn, unit) eff) \<Rightarrow>
   (AccountKey \<Rightarrow> RemoteEmailId \<Rightarrow> RemoteMembershipChange \<Rightarrow> ('s, exn, unit) eff) \<Rightarrow>
   's RunnerDeps" where
  "with_remote deps submit keyword membership =
     deps\<lparr>rdSubmit := submit, rdApplyKeyword := keyword, rdApplyMembership := membership\<rparr>"

lemma with_remote_fields:
  "rdReadPendingMutation (with_remote deps f g h) = rdReadPendingMutation deps"
  "rdReadEmail (with_remote deps f g h) = rdReadEmail deps"
  "rdReplace (with_remote deps f g h) = rdReplace deps"
  "rdRemoveConfirmed (with_remote deps f g h) = rdRemoveConfirmed deps"
  "rdIsConnected (with_remote deps f g h) = rdIsConnected deps"
  "rdSubmit (with_remote deps f g h) = f"
  "rdApplyKeyword (with_remote deps f g h) = g"
  "rdApplyMembership (with_remote deps f g h) = h"
  "rdReconciler (with_remote deps f g h) = rdReconciler deps"
  "rdRefreshAccount (with_remote deps f g h) = rdRefreshAccount deps"
  "rdEncryptFor (with_remote deps f g h) = rdEncryptFor deps"
  "rdNow (with_remote deps f g h) = rdNow deps"
  "rdOtherParse (with_remote deps f g h) = rdOtherParse deps"
  by (simp_all add: with_remote_def)

lemma with_remote_store:
  "readMutation (with_remote deps f g h) = readMutation deps"
  "removeConfirmed (with_remote deps f g h) = removeConfirmed deps"
  "replaceOrThrow (with_remote deps f g h) = replaceOrThrow deps"
  "prepareSend (with_remote deps f g h) = prepareSend deps"
  unfolding fun_eq_iff readMutation_def removeConfirmed_def replaceOrThrow_def
    prepareSend_def with_remote_fields by simp_all

lemma with_remote_settle:
  "confirmAndRemove (with_remote deps f g h) = confirmAndRemove deps"
  "settleRetry (with_remote deps f g h) = settleRetry deps"
  "settleTerminal (with_remote deps f g h) = settleTerminal deps"
  unfolding fun_eq_iff confirmAndRemove_def settleRetry_def settleTerminal_def
    with_remote_store with_remote_fields by simp_all

lemma with_remote_confirm:
  "confirm_update (with_remote deps f g h) = confirm_update deps"
  "confirm_send (with_remote deps f g h) = confirm_send deps"
  "settleE2eeFailure (with_remote deps f g h) = settleE2eeFailure deps"
  "settleRemoteFailure (with_remote deps f g h) = settleRemoteFailure deps"
  unfolding fun_eq_iff confirm_update_def confirm_send_def settleE2eeFailure_def
    settleRemoteFailure_def with_remote_settle by simp_all

lemma with_remote_reconcile:
  "reconcile (with_remote deps f g h) = reconcile deps"
  unfolding fun_eq_iff reconcile_def reconcileSend_def reconcileMembership_def
    reconcileKeyword_def with_remote_confirm with_remote_settle with_remote_fields by simp

text \<open>Two dependency records that agree on the remote calls for a mutation in flight.\<close>

definition agree_in_flight ::
  "'r world RunnerDeps \<Rightarrow> 'r world RunnerDeps \<Rightarrow> AccountKey \<Rightarrow> MutationId \<Rightarrow> bool" where
  "agree_in_flight deps deps' ak mid \<longleftrightarrow>
     (\<forall>w m. sane_world w \<and> stored_mutations w ak mid = Some m \<and> in_flight m \<longrightarrow>
        (\<forall>d. rdSubmit deps' ak d mid w = rdSubmit deps ak d mid w) \<and>
        (\<forall>i c. rdApplyKeyword deps' ak i c w = rdApplyKeyword deps ak i c w) \<and>
        (\<forall>i c. rdApplyMembership deps' ak i c w = rdApplyMembership deps ak i c w))"

lemma bindM_cong_at:
  "m s = m' s \<Longrightarrow> (\<And>a t. m' s = (Inr a, t) \<Longrightarrow> f a t = f' a t) \<Longrightarrow> bindM m f s = bindM m' f' s"
  by (auto simp: bindM_def split: prod.split sum.split)

lemma tryM_cong_at: "m s = m' s \<Longrightarrow> tryM m h s = tryM m' h s"
  by (simp add: tryM_def)

lemma liftM_at: "liftM x s = (Inr a, t) \<Longrightarrow> t = s \<and> x = Inr a"
  by simp

lemma execute_agree:
  assumes "agree_in_flight deps (with_remote deps f g h) (pmAccountKey c) (pmMutationId c)"
    "sane_world w" "holds c (stored_mutations w)" "in_flight c"
  shows "execute (with_remote deps f g h) c prepared w = execute deps c prepared w"
proof -
  from assms have eq: "f (pmAccountKey c) d (pmMutationId c) w = rdSubmit deps (pmAccountKey c) d (pmMutationId c) w"
    "g (pmAccountKey c) i kc w = rdApplyKeyword deps (pmAccountKey c) i kc w"
    "h (pmAccountKey c) i mc w = rdApplyMembership deps (pmAccountKey c) i mc w" for d i kc mc
    unfolding agree_in_flight_def holds_def with_remote_fields by blast+
  have send: "executeSend (with_remote deps f g h) c message w = executeSend deps c message w" for message
    unfolding executeSend_def with_remote_confirm with_remote_fields
    by (intro tryM_cong_at bindM_cong_at eq refl)
  have keyword: "executeKeyword (with_remote deps f g h) c e kc w = executeKeyword deps c e kc w" for e kc
    unfolding executeKeyword_def with_remote_confirm with_remote_fields
    by (intro tryM_cong_at bindM_cong_at refl) (auto simp: eq intro!: bindM_cong_at)
  have member: "executeMembership (with_remote deps f g h) c e mc w = executeMembership deps c e mc w"
    for e mc
    unfolding executeMembership_def with_remote_confirm with_remote_fields
    by (intro tryM_cong_at bindM_cong_at refl) (auto simp: eq intro!: bindM_cong_at)
  show ?thesis
    by (simp add: execute_def send keyword member with_remote_confirm with_remote_settle
        split: MutationPayload.split option.split PreparedSend.split)
qed

lemma claim_agree:
  assumes "agree_in_flight (memory_runner env) (with_remote (memory_runner env) f g h)
      (pmAccountKey m) (pmMutationId m)"
    "sane_world w" "holds m (stored_mutations w)"
  shows "claim_and_execute (with_remote (memory_runner env) f g h) m w =
    claim_and_execute (memory_runner env) m w"
  unfolding claim_and_execute_def with_remote_store with_remote_fields
proof (rule bindM_cong_at [OF refl], rule bindM_cong_at [OF refl], rule bindM_cong_at [OF refl])
  fix p t c u claimed v
  assume prep: "(case pmPayload m of
      PSend intent \<Rightarrow> bindM (prepareSend (memory_runner env) intent) (\<lambda>p. retM (Some p))
    | _ \<Rightarrow> retM None) w = (Inr p, t)"
    and start: "liftM (startMutationAttempt m) t = (Inr c, u)"
    and claim: "rdReplace (memory_runner env) m c u = (Inr claimed, v)"
  have "keeps sane_world stored_mutations (case pmPayload m of
      PSend intent \<Rightarrow> bindM (prepareSend (memory_runner env) intent) (\<lambda>p. retM (Some p))
    | _ \<Rightarrow> retM None)"
    by (auto intro!: keeps_bindM memory.prepareSend_keeps split: MutationPayload.split)
  from keepsD [OF this assms(2) prep] have t: "sane_world t" "stored_mutations t = stored_mutations w"
    by blast+
  from liftM_at [OF start] have c: "startMutationAttempt m = Inr c" "u = t" by auto
  have "holds m (stored_mutations u)" using assms(3) t(2) c(2) by simp
  from memory.replace_law [OF _ this step_start [OF c(1)], of env] t(1) c(2) claim
  have v: "sane_world v" "stored_mutations v = put c (stored_mutations u)" by auto
  have "holds c (stored_mutations v)" using v(2) by simp
  moreover have "pmAccountKey c = pmAccountKey m" "pmMutationId c = pmMutationId m"
    using memory.step_same_key [OF step_start [OF c(1)]] by simp_all
  ultimately have "execute (with_remote (memory_runner env) f g h) c p v =
      execute (memory_runner env) c p v"
    using assms(1) v(1) memory.start_in_flight [OF c(1)] by (intro execute_agree) simp_all
  then show "(case claimed of
      PortOk _ \<Rightarrow> execute (with_remote (memory_runner env) f g h) c p
    | PortErr WrConflict \<Rightarrow> retM (Skipped ClaimConflict)
    | PortErr e \<Rightarrow> throwM (Error (js ''mutation claim failed: '' @ write_error_string e))) v =
    (case claimed of
      PortOk _ \<Rightarrow> execute (memory_runner env) c p
    | PortErr WrConflict \<Rightarrow> retM (Skipped ClaimConflict)
    | PortErr e \<Rightarrow> throwM (Error (js ''mutation claim failed: '' @ write_error_string e))) v"
    by (simp split: PortResult.split LocalWriteError.split)
qed

text \<open>C3: No remote mutation call precedes its durable claim: replacing what the remote calls do
  for this mutation, in every world except those where the store holds it in flight, changes
  nothing about a run, neither its result nor the world it leaves.\<close>

theorem remote_calls_need_claim:
  assumes "sane_world w"
    "agree_in_flight (memory_runner env) (with_remote (memory_runner env) f g h) ak mid"
  shows "runMutation (with_remote (memory_runner env) f g h) ak mid w =
    runMutation (memory_runner env) ak mid w"
proof -
  have attempt_eq: "attempt (with_remote (memory_runner env) f g h) ak m v =
      attempt (memory_runner env) ak m v"
    if "sane_world v" "stored_mutations v ak mid = Some m" for m v
  proof -
    have key: "pmAccountKey m = ak" "pmMutationId m = mid" using memory_stored [OF that] by simp_all
    have "claim_and_execute (with_remote (memory_runner env) f g h) m v =
        claim_and_execute (memory_runner env) m v"
      using assms(2) that key by (intro claim_agree) (simp_all add: holds_def)
    then show ?thesis by (simp add: attempt_def with_remote_fields)
  qed
  note read = memory.readMutation_step [OF assms(1), of env ak mid]
  show ?thesis
  proof (cases "stored_mutations w ak mid")
    case None
    with read show ?thesis by (simp add: runMutation_def with_remote_store bindM_def)
  next
    case (Some m)
    have retry: "bindM (rdNow (memory_runner env)) (\<lambda>now. if js_less now t
          then retM (Skipped NotDue) else attempt (with_remote (memory_runner env) f g h) ak m) w =
        bindM (rdNow (memory_runner env)) (\<lambda>now. if js_less now t
          then retM (Skipped NotDue) else attempt (memory_runner env) ak m) w" for t
    proof (rule bindM_cong_at [OF refl])
      fix now v assume "rdNow (memory_runner env) w = (Inr now, v)"
      from keepsD [OF memory.now_frame assms(1) this] Some
      have "sane_world v" "stored_mutations v ak mid = Some m" by simp_all
      from attempt_eq [OF this] show "(if js_less now t then retM (Skipped NotDue)
          else attempt (with_remote (memory_runner env) f g h) ak m) v =
        (if js_less now t then retM (Skipped NotDue) else attempt (memory_runner env) ak m) v"
        by simp
    qed
    show ?thesis
      unfolding runMutation_def with_remote_store with_remote_reconcile with_remote_fields
      using attempt_eq [OF assms(1) Some] retry
      by (simp add: bindM_def [of "readMutation _ _ _"] read Some split: MutationLifecycle.split)
  qed
qed

text \<open>Remote calls that fail wherever the store does not hold the sample mutation in flight, and a
  server that accepts a message without saying under which identifier.\<close>

definition if_claimed :: "(unit world, exn, 'a) eff \<Rightarrow> (unit world, exn, 'a) eff" where
  "if_claimed call w =
     (case stored_mutations w [65] [77] of
        Some m \<Rightarrow> if in_flight m then call w else throwM (OtherExn []) w
      | None \<Rightarrow> throwM (OtherExn []) w)"

definition silent_env :: "unit RemoteEnv" where
  "silent_env = sample_env\<lparr>enSubmit := \<lambda>_ _ _. retM \<lparr>srRemoteEmailId = None, srReceiptId = None\<rparr>\<rparr>"

definition claimed_only :: "unit world RunnerDeps" where
  "claimed_only = with_remote (memory_runner silent_env)
     (\<lambda>ak d mid. if_claimed (rdSubmit (memory_runner silent_env) ak d mid))
     (\<lambda>ak i c. if_claimed (rdApplyKeyword (memory_runner silent_env) ak i c))
     (\<lambda>ak i c. if_claimed (rdApplyMembership (memory_runner silent_env) ak i c))"

lemma silent_run:
  "fst (runMutation (memory_runner silent_env) [65] [77] (sample_engine, ())) = Inr NeedsReconciliation"
proof -
  let ?D = "memory_runner silent_env" and ?c = "sample_mutation\<lparr>pmLifecycle := InFlight (JInt 1)\<rparr>"
  have start: "startMutationAttempt sample_mutation = Inr ?c"
    by (simp add: startMutationAttempt_Inr sample_mutation_def)
  have "holds sample_mutation (stored_mutations (sample_engine, ()))"
    using sample_stored_world by (simp add: holds_def sample_mutation_def)
  from memory_replace [OF sample_sane this step_start [OF start]] obtain v where
    v: "rdReplace ?D sample_mutation ?c (sample_engine, ()) = (Inr (PortOk ()), v)"
    by (auto simp: memory_runner_def)
  obtain d where "submissionDraft sample_intent (SubmitPlain [104] None) = Inr d"
    by (auto simp: submissionDraft_def sample_intent_def remoteIdentityId_def remote_id_defs
        remoteIdFromString_def bindE_Inr_iff)
  then have p: "prepareSend ?D sample_intent w = (Inr (ReadySend d), w)" for w
    by (simp add: prepareSend_def sample_intent_def bindM_def liftM_def retM_def)
  have "executeSend ?D ?c d v = (Inr NeedsReconciliation, v)"
    by (simp add: executeSend_def tryM_def bindM_def memory_runner_def silent_env_def on_remote_def
        retM_def prod_eq_iff)
  then have "claim_and_execute ?D sample_mutation (sample_engine, ()) = (Inr NeedsReconciliation, v)"
    using start v p
    by (simp add: claim_and_execute_def sample_mutation_def bindM_def retM_def liftM_def
        execute_def)
  moreover have "rdIsConnected ?D [65] w" for w
    by (simp add: memory_runner_def silent_env_def sample_env_def)
  moreover have "pmLifecycle sample_mutation = Pending (JInt 0)" by (simp add: sample_mutation_def)
  ultimately show ?thesis
    using memory.readMutation_step [OF sample_sane, of silent_env "[65]" "[77]" "()"]
    by (simp add: runMutation_def attempt_def bindM_def [of "readMutation _ _ _"] sample_stored_world)
qed

lemma remote_calls_need_claim_witness:
  "(\<forall>d. rdSubmit claimed_only [65] d [77] (sample_engine, ()) \<noteq>
      rdSubmit (memory_runner silent_env) [65] d [77] (sample_engine, ())) \<and>
   runMutation claimed_only [65] [77] (sample_engine, ()) =
     runMutation (memory_runner silent_env) [65] [77] (sample_engine, ()) \<and>
   fst (runMutation claimed_only [65] [77] (sample_engine, ())) = Inr NeedsReconciliation"
proof -
  have "agree_in_flight (memory_runner silent_env) claimed_only [65] [77]"
    by (simp add: agree_in_flight_def claimed_only_def with_remote_fields if_claimed_def)
  from remote_calls_need_claim [OF sample_sane this [unfolded claimed_only_def]]
  have same: "runMutation claimed_only [65] [77] (sample_engine, ()) =
      runMutation (memory_runner silent_env) [65] [77] (sample_engine, ())"
    by (simp add: claimed_only_def)
  have "\<not> in_flight sample_mutation" by (simp add: in_flight_def sample_mutation_def)
  then have "rdSubmit claimed_only [65] d [77] (sample_engine, ()) \<noteq>
      rdSubmit (memory_runner silent_env) [65] d [77] (sample_engine, ())" for d
    by (simp add: claimed_only_def with_remote_fields if_claimed_def sample_stored_world throwM_def
        memory_runner_def silent_env_def on_remote_def retM_def)
  with same silent_run show ?thesis by simp
qed

section \<open>The summary of an account\<close>

definition summary_sums :: "MutationRunSummary \<Rightarrow> bool" where
  "summary_sums s \<longleftrightarrow>
     mrAttempted s = mrConfirmed s + mrRetrying s + mrTerminal s + mrReconciliation s"

lemma countOutcome_sums: "summary_sums s \<Longrightarrow> summary_sums (countOutcome s out)"
  by (cases out) (simp_all add: summary_sums_def countOutcome_def Let_def)

lemma countOutcome_total:
  "mrAttempted (countOutcome s out) + mrSkipped (countOutcome s out) =
   Suc (mrAttempted s + mrSkipped s)"
  by (cases out) (simp_all add: countOutcome_def Let_def)

lemma run_all_summary:
  "run_all deps ak ms s0 w = (Inr s, w') \<Longrightarrow> summary_sums s0 \<Longrightarrow>
   summary_sums s \<and> mrAttempted s + mrSkipped s = mrAttempted s0 + mrSkipped s0 + length ms"
  by (induction ms arbitrary: s0 w)
     (auto simp: bindM_Inr_iff countOutcome_sums countOutcome_total)

text \<open>The summary of a run over an account counts every listed mutation exactly once: the
  attempted ones are the confirmed, retried, failed and unreconciled ones, and attempted and
  skipped together are the mutations that were listed.\<close>

theorem account_summary:
  assumes "rdListPendingMutations deps ak w = (Inr (PortOk (SnapshotPresent ms)), w1)"
    "runAccount deps ak w = (Inr summary, w')"
  shows "summary_sums summary \<and> mrAttempted summary + mrSkipped summary = length ms"
proof -
  from assms have "run_all deps ak ms emptySummary w1 = (Inr summary, w')"
    by (simp add: runAccount_def bindM_def)
  from run_all_summary [OF this] show ?thesis
    by (simp add: summary_sums_def emptySummary_def)
qed

lemma account_summary_witness:
  "\<exists>summary w'. runAccount (memory_runner (sample_env\<lparr>enConnected := \<lambda>_ _. False\<rparr>)) [65]
       (sample_engine, ()) = (Inr summary, w') \<and>
     mrAttempted summary + mrSkipped summary = 1"
proof -
  let ?deps = "memory_runner (sample_env\<lparr>enConnected := \<lambda>_ _. False\<rparr>)"
  let ?w = "(sample_engine, ())"
  have st: "state_inv (meState sample_engine)"
    using reachable_state_inv [OF sample_reachable] .
  have "registered (meState sample_engine) [65] \<and> map_values (msMutations (meState sample_engine)) = [sample_mutation]"
    by (simp add: sample_engine_def sample_account_def sample_mutation_def registered_def
        createMemoryLocalEngine_def newMemoryState_def registerAccount_def stageSendMutation_def
        Let_def commit_state_def publish_def map_has_def cloneMutation_def
        cloneUpdateLifecycle_def map_values_def)
  then have l: "rdListPendingMutations ?deps [65] ?w =
      (Inr (PortOk (SnapshotPresent [sample_mutation])), ?w)"
    by (simp add: memory_runner_def on_state_def listPendingMutations_eq [OF st] sample_mutation_def)
  have "runMutation ?deps [65] [77] ?w = (Inr (Skipped NotConnected), ?w)"
    unfolding runMutation_def bindM_def memory.readMutation_step [OF sample_sane]
    by (simp add: sample_stored_world)
       (simp add: sample_mutation_def attempt_def memory_runner_def retM_def)
  with l have r: "runAccount ?deps [65] ?w = (Inr (countOutcome emptySummary (Skipped NotConnected)), ?w)"
    by (simp add: runAccount_def bindM_def sample_mutation_def retM_def)
  from account_summary [OF l r] r show ?thesis by simp
qed

section \<open>Retry instants\<close>

definition delay_of :: "int \<Rightarrow> int" where
  "delay_of n = RETRY_DELAYS_MS ! nat (min (max n 1 - 1) 3)"

lemma delay_cases: "delay_of n \<in> {5000, 15000, 60000, 300000}"
proof -
  have "nat (min (max n 1 - 1) 3) < 4" by auto
  then have "nat (min (max n 1 - 1) 3) \<in> set [0..<4]" by simp
  then show ?thesis by (auto simp: delay_of_def RETRY_DELAYS_MS_def upt_rec nth_Cons')
qed

lemma nextRetryInstant_value:
  assumes "\<bar>t\<bar> \<le> max_time" "t + delay_of n \<le> max_time"
  shows "nextRetryInstant other (JInt n) (iso_string t) = Inr (iso_string (t + delay_of n))"
proof -
  have d: "0 < delay_of n" using delay_cases [of n] by auto
  have "retry_delay (JInt n) = JInt (delay_of n)" by (simp add: retry_delay_def delay_of_def)
  moreover have bound: "\<bar>t + delay_of n\<bar> \<le> max_time" using assms d by linarith
  moreover from bound have "\<bar>t + delay_of n\<bar> \<le> 2 ^ 53" by (simp add: max_time_def)
  ultimately show ?thesis
    using iso_string_not_Nil [of "t + delay_of n"]
    by (simp add: nextRetryInstant_def Let_def dateParse_iso_string [OF assms(1)] is_finite_def
        toISOString_def mutationInstantFromString_def)
qed

text \<open>C13: A retry scheduled at a time waits exactly the delay of its attempt: for clock readings of
  the years 0 to 9999 the runner's string comparison finds it not yet due before that many
  milliseconds have passed, and due from then on.\<close>

theorem retry_waits_exactly:
  assumes "\<bar>t\<bar> \<le> max_time" "t + delay_of n \<le> max_time"
    "nextRetryInstant other (JInt n) (iso_string t) = Inr next_at"
    "four_digit_year (t + delay_of n)" "four_digit_year t'"
  shows "js_less (iso_string t') next_at \<longleftrightarrow> t' < t + delay_of n"
  using nextRetryInstant_value [OF assms(1,2), of other] assms(3) iso_string_less_iff [OF assms(5,4)]
  by simp

lemma retry_waits_exactly_witness:
  "js_less (iso_string 1735689604999) (iso_string 1735689605000) \<and>
   \<not> js_less (iso_string 1735689605000) (iso_string 1735689605000)"
proof -
  have y: "year_of_time t = 2025" if "1735689600000 \<le> t" "t \<le> 1735689700000" for t
  proof -
    have "t div ms_per_day = 20089" using that by (simp add: ms_per_day_def int_div_pos_eq)
    then show ?thesis
      unfolding year_of_time_def by (intro year_of_day_unique) (simp_all add: day_from_year_def)
  qed
  have d: "delay_of 1 = 5000" by (simp add: delay_of_def RETRY_DELAYS_MS_def)
  have n: "nextRetryInstant (\<lambda>_. JNaN) (JInt 1) (iso_string 1735689600000) =
      Inr (iso_string 1735689605000)"
    using nextRetryInstant_value [of 1735689600000 1 "\<lambda>_. JNaN"] by (simp add: d max_time_def)
  show ?thesis
    using retry_waits_exactly [OF _ _ n, of 1735689604999]
      retry_waits_exactly [OF _ _ n, of 1735689605000]
    by (simp add: d max_time_def four_digit_year_def y)
qed

end
