(* ===== verification/Coordinator_Theorems.thy ===== *)
theory Coordinator_Theorems
  imports Runner_Theorems
begin

text \<open>
  The properties of the sync coordinator on the memory engine: what one synchronisation of a
  collection commits, which malformed remote records it skips and which abort it.
\<close>

section \<open>One attempt\<close>

definition stored_cursor ::
  "MemoryEngine \<Rightarrow> AccountKey \<Rightarrow> CollectionDataType \<Rightarrow> CollectionSyncCursor option" where
  "stored_cursor eng ak d = aCursor (astore (meState eng)) ak d"

lemma expected_precondition: "expected_cursor (precondition_of c) = c"
  by (cases c) (simp_all add: precondition_of_def)

lemma read_cursor_step:
  assumes "reachable eng" "aAccount (astore (meState eng)) ak \<noteq> None"
  shows "readCursorOutcome (memory_coordinator env) ak d (eng, r) =
    (Inr (stored_cursor eng ak d), (eng, r))"
proof -
  have "readCollectionSyncCursor ak d (meState eng) =
      Inr (PortOk (optional (aAccount (astore (meState eng)) ak) (stored_cursor eng ak d)))"
    using owned_queries(4) [OF reachable_state_inv [OF assms(1)]] by (simp add: stored_cursor_def)
  with assms(2) show ?thesis
    by (cases "stored_cursor eng ak d")
       (auto simp: readCursorOutcome_def memory_coordinator_def on_state_def bindM_def optional_def
        retM_def simp del: astore_simps)
qed

lemma sync_once:
  assumes eng: "reachable eng" "aAccount (astore (meState eng)) ak \<noteq> None"
    and build: "build (previous_state (stored_cursor eng ak d)) (eng, r) = (Inr create, (eng, r'))"
      "create (precondition_of (stored_cursor eng ak d)) = Inr commit"
    and commit: "nextCursor_of commit = \<lparr>cuAccountKey = ak, cuDataType = d, cuState = st\<rparr>"
      "kind_of commit = d" "expected_cursor (expectedCursor_of commit) = stored_cursor eng ak d"
      "wf_commit commit ak" "factory_built (OpSync commit)"
  shows "\<exists>eng'. syncCollection (memory_coordinator env) ak d build (eng, r) = (Inr (), (eng', r')) \<and>
    reachable eng' \<and> astore (meState eng') = aeffect (OpSync commit) (astore (meState eng))"
proof -
  let ?eng' = "snd (run_write (OpSync commit) eng)"
  have "aenabled (OpSync commit) (astore (meState eng))"
    using eng(2) commit by (simp add: Let_def stored_cursor_def del: astore_simps)
  with write_decided [OF eng(1) commit(5)]
  have w: "fst (run_write (OpSync commit) eng) = Inr writeOk"
    "astore (meState ?eng') = aeffect (OpSync commit) (astore (meState eng))"
    by (simp_all only: if_True)
  then have "cdApplyCollectionSync (memory_coordinator env) commit (eng, r') =
      (Inr (PortOk ()), (?eng', r'))"
    by (simp add: memory_coordinator_def on_engine_def writeOk_def split_beta)
  then have "syncCollection (memory_coordinator env) ak d build (eng, r) = (Inr (), (?eng', r'))"
    using build
    by (simp add: syncCollection_def numeral_2_eq_2 bindM_def read_cursor_step [OF eng]
        retM_def liftM_def del: run_write.simps)
  with w(2) reachable.wrote [OF eng(1)] show ?thesis by blast
qed

lemma sync_aborts:
  assumes "reachable eng" "aAccount (astore (meState eng)) ak \<noteq> None"
    "build (previous_state (stored_cursor eng ak d)) (eng, r) = (Inr create, (eng, r'))"
    "create (precondition_of (stored_cursor eng ak d)) = Inl e"
  shows "syncCollection (memory_coordinator env) ak d build (eng, r) = (Inl e, (eng, r'))"
  using assms(3,4)
  by (simp add: syncCollection_def numeral_2_eq_2 bindM_def liftM_def
      read_cursor_step [OF assms(1,2)])

section \<open>Commits built from validated transitions\<close>

fun remote_records :: "('t, 'i) RemoteCollectionSync \<Rightarrow> 't list" where
  "remote_records (RemoteReplace _ snapshot) = snapshot"
| "remote_records (RemoteDelta _ changed _) = changed"

lemma validate_Inr:
  "validateRemoteCollectionSync t f = Inr t' \<longleftrightarrow>
     t' = t \<and> distinct (map f (remote_records t)) \<and>
     (case t of RemoteReplace _ _ \<Rightarrow> True
      | RemoteDelta _ changed destroyed \<Rightarrow>
          distinct destroyed \<and> set (map f changed) \<inter> set destroyed = {})"
  by (cases t)
     (auto simp: validateRemoteCollectionSync_def bindE_Inr_iff check_values_Inr check_destroyed_Inr)

lemma mapE_local_ids:
  "mapE (localEmailId ak) ds = Inr is \<Longrightarrow> is = map (\<lambda>d. \<lparr>accountKey = ak, jmapId = d\<rparr>) ds"
  "mapE (localMailboxId ak) ds = Inr is \<Longrightarrow> is = map (\<lambda>d. \<lparr>accountKey = ak, jmapId = d\<rparr>) ds"
  by (induction ds arbitrary: "is") (auto simp: bindE_Inr_iff local_ids_Inr)

lemma scoped_inj: "inj_on (\<lambda>d. \<lparr>accountKey = ak, jmapId = d\<rparr>) A"
  by (simp add: inj_on_def)

lemma map_email_Inr: "map_email ak raw = Inr r \<longleftrightarrow> toDomainEmailRecord ak raw = Some r"
  by (auto simp: map_email_def split: option.splits)

lemma mapped_emails:
  assumes "mapE (map_email ak) raws = Inr rs" "\<forall>e \<in> set raws. distinct (rlMailboxIds e)"
  shows "map (\<lambda>r. emId (srEmail r)) rs = map (\<lambda>e. \<lparr>accountKey = ak, jmapId = rlId e\<rparr>) raws \<and>
    (\<forall>r \<in> set rs. accountKey (emId (srEmail r)) = ak \<and> wf_record r \<and>
       accepted_email (srEmail r) \<and> (\<forall>m \<in> set (srMemberships r). accountKey (mmMailboxId m) = accountKey (mmEmailId m)))"
  using assms
proof (induction raws arbitrary: rs)
  case (Cons raw raws)
  then obtain r rs' where r: "toDomainEmailRecord ak raw = Some r" "mapE (map_email ak) raws = Inr rs'"
    "rs = r # rs'" by (auto simp: bindE_Inr_iff map_email_Inr)
  from toDomainEmailRecord_Some [OF r(1)] Cons.prems(2) Cons.IH [OF r(2)] r(3)
  show ?case
    by (auto simp: wf_record_def distinct_map inj_on_def valid_email_def)
qed simp

lemma emailCommit_ok:
  assumes "emailCommit ak transition expected = Inr commit"
    "validateRemoteCollectionSync transition rlId = Inr transition"
    "\<forall>e \<in> set (remote_records transition). distinct (rlMailboxIds e)"
  shows "\<exists>st. nextCursor_of commit = \<lparr>cuAccountKey = ak, cuDataType = DEmail, cuState = st\<rparr> \<and>
    kind_of commit = DEmail \<and> expectedCursor_of commit = expected \<and> wf_commit commit ak \<and>
    factory_built (OpSync commit)"
proof (cases transition)
  case (RemoteReplace state snapshot)
  with assms(1) obtain vs where vs: "mapE (map_email ak) snapshot = Inr vs"
    "commit = EmailCommit (nextCursor ak DEmail state) (Replace expected vs)"
    by (auto simp: emailCommit_def bindE_Inr_iff)
  have "distinct (map rlId snapshot)" using assms(2) RemoteReplace by (simp add: validate_Inr)
  then have "distinct (map (\<lambda>e. \<lparr>accountKey = ak, jmapId = rlId e\<rparr>) snapshot)"
    by (simp add: distinct_map inj_on_def)
  with mapped_emails [OF vs(1)] assms(3) RemoteReplace vs(2) show ?thesis
    by (auto simp: wf_delta_def nextCursor_def localCollectionState_def dest!: arg_cong [of _ _ set])
next
  case (RemoteDelta state changed destroyed)
  with assms(1) obtain cursor vs ds where vs: "mapE (map_email ak) changed = Inr vs"
    "mapE (localEmailId ak) destroyed = Inr ds" "expected = CursorMatches cursor"
    "commit = EmailCommit (nextCursor ak DEmail state) (Delta cursor vs ds)"
    by (auto simp: emailCommit_def bindE_Inr_iff split: CollectionCursorPrecondition.splits)
  have ok: "distinct (map rlId changed)" "distinct destroyed" "rlId ` set changed \<inter> set destroyed = {}"
    using assms(2) RemoteDelta by (simp_all add: validate_Inr)
  have d: "distinct (map (\<lambda>e. \<lparr>accountKey = ak, jmapId = rlId e\<rparr>) changed)"
    using ok(1) by (simp add: distinct_map inj_on_def)
  have ds: "ds = map (\<lambda>d. \<lparr>accountKey = ak, jmapId = d\<rparr>) destroyed" using mapE_local_ids vs(2) by blast
  from mapped_emails [OF vs(1)] assms(3) RemoteDelta
  have m: "map (\<lambda>r. emId (srEmail r)) vs = map (\<lambda>e. \<lparr>accountKey = ak, jmapId = rlId e\<rparr>) changed"
    "\<forall>r \<in> set vs. accountKey (emId (srEmail r)) = ak \<and> wf_record r \<and>
       accepted_email (srEmail r) \<and> (\<forall>m \<in> set (srMemberships r). accountKey (mmMailboxId m) = accountKey (mmEmailId m))" by simp_all
  have im: "(\<lambda>r. emId (srEmail r)) ` set vs = (\<lambda>e. \<lparr>accountKey = ak, jmapId = rlId e\<rparr>) ` set changed"
    using arg_cong [OF m(1), of set] by simp
  have "wf_delta (\<lambda>r. emId (srEmail r)) ak (Delta cursor vs ds)"
  proof -
    have "distinct ds" using ok(2) by (simp add: ds distinct_map scoped_inj)
    moreover have "\<forall>i \<in> set ds. accountKey i = ak" by (auto simp: ds)
    moreover have "(\<lambda>r. emId (srEmail r)) ` set vs \<inter> set ds = {}"
      using ok(3) unfolding im ds by auto
    ultimately show ?thesis using d m by (simp add: wf_delta_def)
  qed
  with m(2) vs(3,4) show ?thesis by (simp add: nextCursor_def localCollectionState_def)
qed

section \<open>E-mails\<close>

text \<open>What the remote side promises of a transition of e-mails, and what makes a remote e-mail one
  that the local store can hold.\<close>

definition storable_email :: "RemoteEmail \<Rightarrow> bool" where
  "storable_email e \<longleftrightarrow>
     rlId e \<noteq> [] \<and> rlBlobId e \<noteq> [] \<and> rlThreadId e \<noteq> [] \<and> rlReceivedAt e \<noteq> [] \<and>
     rlSentAt e \<noteq> Some [] \<and> safe_nat (rlSize e) \<and> [] \<notin> set (rlKeywords e) \<and>
     [] \<notin> set (rlMailboxIds e) \<and> distinct (rlMailboxIds e)"

fun destroyed_ids :: "('t, 'i) RemoteCollectionSync \<Rightarrow> 'i list" where
  "destroyed_ids (RemoteReplace _ _) = []"
| "destroyed_ids (RemoteDelta _ _ destroyed) = destroyed"

fun is_delta :: "('t, 'i) RemoteCollectionSync \<Rightarrow> bool" where
  "is_delta (RemoteReplace _ _) = False"
| "is_delta (RemoteDelta _ _ _) = True"

fun transition_state :: "('t, 'i) RemoteCollectionSync \<Rightarrow> RemoteSyncState" where
  "transition_state (RemoteReplace state _) = state"
| "transition_state (RemoteDelta state _ _) = state"

definition storable_transition :: "(RemoteEmail, RemoteEmailId) RemoteCollectionSync \<Rightarrow> bool" where
  "storable_transition t \<longleftrightarrow>
     distinct (map rlId (remote_records t) @ destroyed_ids t) \<and> [] \<notin> set (destroyed_ids t) \<and>
     (\<forall>e \<in> set (remote_records t). storable_email e)"

text \<open>What the local store says afterwards: a record of the transition is there as a local e-mail,
  with its mailboxes; another e-mail of the account survives a delta unless it is destroyed, and
  does not survive a replacement; the e-mails of other accounts and all else but the cursor stay.\<close>

definition local_email :: "AccountKey \<Rightarrow> RemoteEmail \<Rightarrow> Email" where
  "local_email ak e =
     \<lparr>emId = \<lparr>accountKey = ak, jmapId = rlId e\<rparr>, emBlobId = \<lparr>accountKey = ak, jmapId = rlBlobId e\<rparr>,
      emThreadId = \<lparr>accountKey = ak, jmapId = rlThreadId e\<rparr>, emSender = rlSender e,
      emFrom = rlFrom e, emReplyTo = rlReplyTo e, emTo = rlTo e, emCc = rlCc e, emBcc = rlBcc e,
      emSubject = rlSubject e, emSentAt = rlSentAt e, emReceivedAt = rlReceivedAt e,
      emSize = rlSize e, emPreview = rlPreview e, emHasAttachment = rlHasAttachment e,
      emKeywords = set_of_list (rlKeywords e)\<rparr>"

definition local_mailboxes :: "AccountKey \<Rightarrow> RemoteEmail \<Rightarrow> ScopedMailboxId set" where
  "local_mailboxes ak e = (\<lambda>m. \<lparr>accountKey = ak, jmapId = m\<rparr>) ` set (rlMailboxIds e)"

definition after_transition ::
  "AccountKey \<Rightarrow> (RemoteEmail, RemoteEmailId) RemoteCollectionSync \<Rightarrow> (RemoteEmail \<Rightarrow> 'v) \<Rightarrow>
   (ScopedEmailId \<Rightarrow> 'v option) \<Rightarrow> ScopedEmailId \<Rightarrow> 'v option" where
  "after_transition ak t f m i =
     (if accountKey i \<noteq> ak then m i
      else case find (\<lambda>e. rlId e = jmapId i) (remote_records t) of
             Some e \<Rightarrow> Some (f e)
           | None \<Rightarrow> if is_delta t \<and> jmapId i \<notin> set (destroyed_ids t) then m i else None)"

definition emails_synced ::
  "AccountKey \<Rightarrow> (RemoteEmail, RemoteEmailId) RemoteCollectionSync \<Rightarrow> AStore \<Rightarrow> AStore" where
  "emails_synced ak t a =
     a\<lparr>aEmail := after_transition ak t (local_email ak) (aEmail a),
       aMemberships := after_transition ak t (local_mailboxes ak) (aMemberships a),
       aCursor := (aCursor a)(ak := (aCursor a ak)(DEmail :=
         Some \<lparr>cuAccountKey = ak, cuDataType = DEmail, cuState = transition_state t\<rparr>))\<rparr>"

definition mapped_email :: "AccountKey \<Rightarrow> RemoteEmail \<Rightarrow> EmailSyncRecord" where
  "mapped_email ak e =
     \<lparr>srEmail = local_email ak e,
      srMemberships = map (\<lambda>m. \<lparr>mmEmailId = \<lparr>accountKey = ak, jmapId = rlId e\<rparr>,
        mmMailboxId = \<lparr>accountKey = ak, jmapId = m\<rparr>\<rparr>) (rlMailboxIds e)\<rparr>"

lemma storable_email_maps:
  assumes "storable_email e"
  shows "map_email ak e = Inr (mapped_email ak e)"
proof -
  have "mapE (\<lambda>m. bindE (localMailboxId ak m) (emailMailbox \<lparr>accountKey = ak, jmapId = rlId e\<rparr>))
      (rlMailboxIds e) = Inr (map (\<lambda>m. \<lparr>mmEmailId = \<lparr>accountKey = ak, jmapId = rlId e\<rparr>,
        mmMailboxId = \<lparr>accountKey = ak, jmapId = m\<rparr>\<rparr>) (rlMailboxIds e))"
    using assms by (intro mapE_pure)
      (auto simp: storable_email_def bindE_Inr_iff local_ids_Inr emailMailbox_Inr)
  then have "toDomainEmailRecord ak e = Some (mapped_email ak e)"
    using assms
    by (auto simp: toDomainEmailRecord_def bindE_Inr_iff local_ids_Inr keywordSet_Inr email_Inr
        accepted_email_def storable_email_def mapped_email_def local_email_def)
  then show ?thesis by (simp add: map_email_def)
qed

lemma mapped_email_simps [simp]:
  "emId (srEmail (mapped_email ak e)) = \<lparr>accountKey = ak, jmapId = rlId e\<rparr>"
  "normal_email (srEmail (mapped_email ak e)) = local_email ak e"
  "mailbox_set (srMemberships (mapped_email ak e)) = local_mailboxes ak e"
  by (simp_all add: mapped_email_def local_email_def normal_email_def mailbox_set_def
      local_mailboxes_def image_image)

lemma storable_commit:
  assumes "storable_transition t" "is_delta t \<longrightarrow> c \<noteq> None"
  shows "emailCommit ak t (precondition_of c) = Inr (EmailCommit (nextCursor ak DEmail (transition_state t))
    (if is_delta t
     then Delta (the c) (map (mapped_email ak) (remote_records t))
            (map (\<lambda>d. \<lparr>accountKey = ak, jmapId = d\<rparr>) (destroyed_ids t))
     else Replace (precondition_of c) (map (mapped_email ak) (remote_records t))))"
proof -
  have vs: "mapE (map_email ak) (remote_records t) = Inr (map (mapped_email ak) (remote_records t))"
    using assms(1) by (intro mapE_pure) (simp add: storable_transition_def storable_email_maps)
  have ds: "mapE (localEmailId ak) (destroyed_ids t) =
      Inr (map (\<lambda>d. \<lparr>accountKey = ak, jmapId = d\<rparr>) (destroyed_ids t))"
    using assms(1) by (intro mapE_pure) (auto simp: storable_transition_def local_ids_Inr)
  show ?thesis
    using vs ds assms(2) by (cases t; cases c) (simp_all add: emailCommit_def precondition_of_def)
qed

lemma find_mapped:
  "find (\<lambda>r. emId (srEmail r) = i) (map (mapped_email ak) es) =
   (if accountKey i = ak
    then map_option (mapped_email ak) (find (\<lambda>e. rlId e = jmapId i) es) else None)"
  by (induction es; cases i) auto

lemma after_transition_sync:
  assumes "\<And>e. v (mapped_email ak e) = f e"
  shows "sync_spec (\<lambda>r. emId (srEmail r)) v ak
      (if is_delta t
       then Delta cursor (map (mapped_email ak) (remote_records t))
              (map (\<lambda>d. \<lparr>accountKey = ak, jmapId = d\<rparr>) (destroyed_ids t))
       else Replace expected (map (mapped_email ak) (remote_records t))) m =
    after_transition ak t f m"
proof
  fix i :: ScopedEmailId
  have "i \<in> set (map (\<lambda>d. \<lparr>accountKey = ak, jmapId = d\<rparr>) (destroyed_ids t)) \<longleftrightarrow>
      accountKey i = ak \<and> jmapId i \<in> set (destroyed_ids t)"
    by (cases i) auto
  then show "sync_spec (\<lambda>r. emId (srEmail r)) v ak
      (if is_delta t
       then Delta cursor (map (mapped_email ak) (remote_records t))
              (map (\<lambda>d. \<lparr>accountKey = ak, jmapId = d\<rparr>) (destroyed_ids t))
       else Replace expected (map (mapped_email ak) (remote_records t))) m i =
    after_transition ak t f m i"
    using assms
    by (simp add: sync_spec_def after_transition_def find_mapped del: set_map split: option.split)
qed

text \<open>C16: Synchronising the e-mails of a registered account stores what the remote mail answered.
  When every e-mail of the answered transition is storable and no identifier occurs in it twice, the
  call returns and the store is the one before with these changes alone: each e-mail of the
  transition is there, field by field, with its mailboxes; after a replacement nothing else of the
  account is, after a delta exactly the destroyed e-mails are gone; the cursor is the transition's.\<close>

theorem sync_emails_commits:
  assumes "reachable eng" "aAccount (astore (meState eng)) ak \<noteq> None"
    "enSyncEmails env aid (previous_state (stored_cursor eng ak DEmail)) r =
       (Inr transition, r')"
    "storable_transition transition"
    "is_delta transition \<longrightarrow> stored_cursor eng ak DEmail \<noteq> None"
  shows "\<exists>eng'. syncEmails (memory_coordinator env) ak aid (eng, r) = (Inr (), (eng', r')) \<and>
    reachable eng' \<and>
    astore (meState eng') = emails_synced ak transition (astore (meState eng))"
proof -
  let ?p = "precondition_of (stored_cursor eng ak DEmail)"
  let ?records = "map (mapped_email ak) (remote_records transition)"
  define commit where "commit = EmailCommit (nextCursor ak DEmail (transition_state transition))
    (if is_delta transition
     then Delta (the (stored_cursor eng ak DEmail)) ?records
            (map (\<lambda>d. \<lparr>accountKey = ak, jmapId = d\<rparr>) (destroyed_ids transition))
     else Replace ?p ?records)"
  have built: "emailCommit ak transition ?p = Inr commit"
    unfolding commit_def by (rule storable_commit [OF assms(4,5)])
  have valid: "validateRemoteCollectionSync transition rlId = Inr transition"
    "\<forall>e \<in> set (remote_records transition). distinct (rlMailboxIds e)"
    using assms(4) by (cases transition;
        auto simp: validate_Inr storable_transition_def storable_email_def)+
  from emailCommit_ok [OF built valid] obtain st where
    "nextCursor_of commit = \<lparr>cuAccountKey = ak, cuDataType = DEmail, cuState = st\<rparr>"
    "kind_of commit = DEmail" "wf_commit commit ak" "factory_built (OpSync commit)"
    "expected_cursor (expectedCursor_of commit) = stored_cursor eng ak DEmail"
    by (auto simp: expected_precondition)
  moreover have "bindM (cdSyncEmails (memory_coordinator env) aid
        (previous_state (stored_cursor eng ak DEmail))) (\<lambda>t. retM (emailCommit ak t)) (eng, r) =
      (Inr (emailCommit ak transition), (eng, r'))"
    using assms(3) by (simp add: memory_coordinator_def on_remote_def bindM_def retM_def)
  ultimately have "\<exists>eng'. syncEmails (memory_coordinator env) ak aid (eng, r) =
      (Inr (), (eng', r')) \<and> reachable eng' \<and>
      astore (meState eng') = aeffect (OpSync commit) (astore (meState eng))"
    unfolding syncEmails_def
    by (intro sync_once [where create = "emailCommit ak transition"] assms(1,2) built) simp_all
  moreover have "aeffect (OpSync commit) a = emails_synced ak transition a" for a
    unfolding commit_def emails_synced_def
    by (simp add: with_cursor_def nextCursor_def localCollectionState_def after_transition_sync
        collectionSyncStateFromString_def del: astore_simps)
  ultimately show ?thesis by (simp del: aeffect.simps astore_simps)
qed

definition sample_email :: RemoteEmail where
  "sample_email =
     \<lparr>rlId = [69], rlBlobId = [66], rlThreadId = [84], rlSender = None, rlFrom = None,
      rlReplyTo = None, rlTo = None, rlCc = None, rlBcc = None, rlSubject = None, rlSentAt = None,
      rlReceivedAt = [48], rlSize = JInt 1, rlPreview = [], rlHasAttachment = False,
      rlKeywords = [], rlMailboxIds = [[77]]\<rparr>"

definition email_env :: "RemoteEmail list \<Rightarrow> unit RemoteEnv" where
  "email_env emails = sample_env\<lparr>enSyncEmails := \<lambda>_ _. retM (RemoteReplace [49] emails)\<rparr>"

text \<open>A remote side that first answers everything it has, then what has changed since.\<close>

definition delta_env :: "unit RemoteEnv" where
  "delta_env = sample_env\<lparr>enSyncEmails := \<lambda>_ previous. retM
     (case previous of
        None \<Rightarrow> RemoteReplace [49] [sample_email, sample_email\<lparr>rlId := [70]\<rparr>]
      | Some _ \<Rightarrow> RemoteDelta [50] [sample_email\<lparr>rlMailboxIds := [[78]]\<rparr>] [[70]])\<rparr>"

lemma sample_registered:
  "aAccount (astore (meState sample_engine)) [65] = Some sample_account"
  by (simp add: sample_engine_def sample_account_def sample_mutation_def
      createMemoryLocalEngine_def newMemoryState_def registerAccount_def stageSendMutation_def
      Let_def commit_state_def publish_def map_has_def)

lemma sample_no_cursor: "stored_cursor sample_engine [65] d = None"
  by (simp add: stored_cursor_def sample_engine_def sample_account_def sample_mutation_def
      createMemoryLocalEngine_def newMemoryState_def registerAccount_def stageSendMutation_def
      Let_def commit_state_def publish_def map_has_def)

lemma sync_emails_commits_witness:
  "\<exists>eng1 eng2.
     syncEmails (memory_coordinator delta_env) [65] [74] (sample_engine, ()) = (Inr (), (eng1, ())) \<and>
     syncEmails (memory_coordinator delta_env) [65] [74] (eng1, ()) = (Inr (), (eng2, ())) \<and>
     aEmail (astore (meState eng1)) \<lparr>accountKey = [65], jmapId = [70]\<rparr> \<noteq> None \<and>
     aEmail (astore (meState eng2)) \<lparr>accountKey = [65], jmapId = [70]\<rparr> = None \<and>
     aEmail (astore (meState eng2)) \<lparr>accountKey = [65], jmapId = [69]\<rparr> =
       Some (local_email [65] sample_email) \<and>
     aMemberships (astore (meState eng2)) \<lparr>accountKey = [65], jmapId = [69]\<rparr> =
       Some {\<lparr>accountKey = [65], jmapId = [78]\<rparr>} \<and>
     map_option cuState (stored_cursor eng2 [65] DEmail) = Some [50]"
proof -
  let ?all = "RemoteReplace [49] [sample_email, sample_email\<lparr>rlId := [70]\<rparr>]"
  let ?changes = "RemoteDelta [50] [sample_email\<lparr>rlMailboxIds := [[78]]\<rparr>] [[70]]"
  have storable: "storable_transition ?all" "storable_transition ?changes"
    by (simp_all add: storable_transition_def storable_email_def sample_email_def safe_nat_iff)
  have "enSyncEmails delta_env [74] (previous_state (stored_cursor sample_engine [65] DEmail)) () =
      (Inr ?all, ())"
    by (simp add: delta_env_def retM_def sample_no_cursor previous_state_def)
  with sync_emails_commits [of sample_engine "[65]" delta_env "[74]" "()" ?all "()"] storable(1)
  obtain eng1 where one: "reachable eng1"
    "syncEmails (memory_coordinator delta_env) [65] [74] (sample_engine, ()) = (Inr (), (eng1, ()))"
    "astore (meState eng1) = emails_synced [65] ?all (astore (meState sample_engine))"
    by (auto simp: sample_reachable sample_registered simp del: astore_simps)
  have cursor: "stored_cursor eng1 [65] DEmail \<noteq> None"
    "aAccount (astore (meState eng1)) [65] \<noteq> None"
    using sample_registered
    by (simp_all add: one(3) stored_cursor_def emails_synced_def del: astore_simps)
  then have "enSyncEmails delta_env [74] (previous_state (stored_cursor eng1 [65] DEmail)) () =
      (Inr ?changes, ())"
    by (auto simp: delta_env_def retM_def previous_state_def)
  with sync_emails_commits [of eng1 "[65]" delta_env "[74]" "()" ?changes "()"] storable(2) cursor one(1)
  obtain eng2 where
    "syncEmails (memory_coordinator delta_env) [65] [74] (eng1, ()) = (Inr (), (eng2, ()))"
    "astore (meState eng2) = emails_synced [65] ?changes (astore (meState eng1))"
    by (auto simp del: astore_simps)
  with one show ?thesis
    by (simp add: stored_cursor_def emails_synced_def after_transition_def sample_email_def
        local_email_def local_mailboxes_def del: astore_simps)
qed

lemma mapE_Inl: "x \<in> set xs \<Longrightarrow> f x = Inl e \<Longrightarrow> \<exists>e'. mapE f xs = Inl e'"
  by (induction xs) (auto simp: bindE_def split: sum.splits)

text \<open>C17: One malformed e-mail aborts the whole synchronisation of the e-mails of its account:
  an exception is thrown and the engine, the well formed records included, is as it was.\<close>

theorem malformed_email_aborts:
  assumes "reachable eng" "aAccount (astore (meState eng)) ak \<noteq> None"
    "enSyncEmails env aid (previous_state (stored_cursor eng ak DEmail)) r = (Inr transition, r')"
    "raw \<in> set (remote_records transition)" "toDomainEmailRecord ak raw = None"
  shows "\<exists>e. syncEmails (memory_coordinator env) ak aid (eng, r) = (Inl e, (eng, r'))"
proof -
  obtain err where "map_email ak raw = Inl err" using assms(5) by (simp add: map_email_def)
  with assms(4) obtain e0 where "mapE (map_email ak) (remote_records transition) = Inl e0"
    using mapE_Inl [of raw "remote_records transition" "map_email ak"] by blast
  then obtain e where e:
    "emailCommit ak transition (precondition_of (stored_cursor eng ak DEmail)) = Inl e"
    by (cases transition; cases "precondition_of (stored_cursor eng ak DEmail)")
       (auto simp: emailCommit_def bindE_def)
  have "bindM (cdSyncEmails (memory_coordinator env) aid
        (previous_state (stored_cursor eng ak DEmail))) (\<lambda>t. retM (emailCommit ak t)) (eng, r) =
      (Inr (emailCommit ak transition), (eng, r'))"
    using assms(3) by (simp add: memory_coordinator_def on_remote_def bindM_def retM_def)
  then have "syncEmails (memory_coordinator env) ak aid (eng, r) = (Inl e, (eng, r'))"
    unfolding syncEmails_def
    by (intro sync_aborts [where create = "emailCommit ak transition"] assms(1,2) e)
  then show ?thesis by blast
qed

lemma malformed_email_aborts_witness:
  "\<exists>e. syncEmails (memory_coordinator (email_env [sample_email, sample_email\<lparr>rlBlobId := []\<rparr>]))
     [65] [74] (sample_engine, ()) = (Inl e, (sample_engine, ()))"
  by (rule malformed_email_aborts [where raw = "sample_email\<lparr>rlBlobId := []\<rparr>"
      and transition = "RemoteReplace [49] [sample_email, sample_email\<lparr>rlBlobId := []\<rparr>]"])
     (simp_all add: sample_reachable sample_registered email_env_def retM_def sample_email_def
      toDomainEmailRecord_def localEmailId_def localBlobId_def opaque_id_defs opaqueIdFromString_def
      or_null_def del: astore_simps)

section \<open>Mailboxes\<close>

lemma mapped_mailbox:
  assumes "v \<in> set (List.map_filter (toDomainMailbox ak) raws)"
  shows "\<exists>raw \<in> set raws. toDomainMailbox ak raw = Some v \<and> valid_mailbox v \<and>
    mbId v = \<lparr>accountKey = ak, jmapId = rmId raw\<rparr>"
proof -
  from assms obtain raw where "raw \<in> set raws" "toDomainMailbox ak raw = Some v"
    by (auto simp: List.map_filter_def)
  with toDomainMailbox_Some [OF this(2)] show ?thesis by blast
qed

lemma mapped_mailboxes_distinct:
  "distinct (map rmId raws) \<Longrightarrow> distinct (map mbId (List.map_filter (toDomainMailbox ak) raws))"
proof (induction raws)
  case (Cons raw raws)
  show ?case
  proof (cases "toDomainMailbox ak raw")
    case (Some a)
    have "mbId v \<noteq> mbId a" if "v \<in> set (List.map_filter (toDomainMailbox ak) raws)" for v
      using mapped_mailbox [OF that] toDomainMailbox_Some [OF Some] Cons.prems by force
    with Some Cons show ?thesis by (auto dest: sym)
  qed (use Cons in simp)
qed simp

text \<open>When the remote mail replaces the mailboxes, malformed ones are skipped: afterwards the
  mailboxes of the account are exactly those of the snapshot that pass the domain validation,
  and no other account's mailboxes have changed.\<close>

theorem sync_mailboxes_replaces:
  assumes "reachable eng" "aAccount (astore (meState eng)) ak \<noteq> None"
    "enSyncMailboxes env aid (previous_state (stored_cursor eng ak DMailbox)) r =
       (Inr (RemoteReplace st snapshot), r')"
    "distinct (map rmId snapshot)"
  shows "\<exists>eng'. syncMailboxes (memory_coordinator env) ak aid (eng, r) = (Inr (), (eng', r')) \<and>
    (\<forall>i. aMailbox (astore (meState eng')) i =
      (if accountKey i = ak
       then find (\<lambda>v. mbId v = i) (List.map_filter (toDomainMailbox ak) snapshot)
       else aMailbox (astore (meState eng)) i))"
proof -
  let ?vs = "List.map_filter (toDomainMailbox ak) snapshot"
  let ?p = "precondition_of (stored_cursor eng ak DMailbox)"
  let ?c = "MailboxCommit (nextCursor ak DMailbox st) (Replace ?p ?vs)"
  have vs: "distinct (map mbId ?vs)" "\<forall>v \<in> set ?vs. valid_mailbox v \<and> accountKey (mbId v) = ak"
    using mapped_mailboxes_distinct [OF assms(4)] mapped_mailbox by (blast, fastforce)
  have "bindM (cdSyncMailboxes (memory_coordinator env) aid
        (previous_state (stored_cursor eng ak DMailbox))) (\<lambda>t. retM (mailboxCommit ak t)) (eng, r) =
      (Inr (mailboxCommit ak (RemoteReplace st snapshot)), (eng, r'))"
    using assms(3) by (simp add: memory_coordinator_def on_remote_def bindM_def retM_def)
  moreover have "mailboxCommit ak (RemoteReplace st snapshot) ?p = Inr ?c"
    by (simp add: mailboxCommit_def)
  moreover have "nextCursor_of ?c =
      \<lparr>cuAccountKey = ak, cuDataType = DMailbox, cuState = collectionSyncStateFromString st\<rparr>"
    "kind_of ?c = DMailbox" "wf_commit ?c ak" "factory_built (OpSync ?c)"
    "expected_cursor (expectedCursor_of ?c) = stored_cursor eng ak DMailbox"
    using vs by (simp_all add: nextCursor_def localCollectionState_def wf_delta_def
        expected_precondition)
  ultimately have "\<exists>eng'. syncMailboxes (memory_coordinator env) ak aid (eng, r) =
      (Inr (), (eng', r')) \<and> reachable eng' \<and>
      astore (meState eng') = aeffect (OpSync ?c) (astore (meState eng))"
    unfolding syncMailboxes_def
    by (intro sync_once [where create = "mailboxCommit ak (RemoteReplace st snapshot)"] assms(1,2))
  then obtain eng' where
    "syncMailboxes (memory_coordinator env) ak aid (eng, r) = (Inr (), (eng', r'))"
    "astore (meState eng') = aeffect (OpSync ?c) (astore (meState eng))" by blast
  moreover have "find (\<lambda>v. mbId v = i) ?vs = None" if "accountKey i \<noteq> ak" for i
    using vs(2) that by (auto simp: find_None_iff)
  ultimately show ?thesis
    by (auto simp: sync_spec_def with_cursor_def nextCursor_def simp del: astore_simps
        split: option.splits)
qed

definition sample_mailbox :: RemoteMailbox where
  "sample_mailbox =
     \<lparr>rmId = [77], rmName = [73], rmParent = None, rmRole = None, rmSortOrder = JInt 0,
      rmTotalEmails = JInt 1, rmUnreadEmails = JInt 0,
      rmRights = \<lparr>mayReadItems = True, mayAddItems = True, mayRemoveItems = True, maySetSeen = True,
        maySetKeywords = True, maySubmit = True\<rparr>\<rparr>"

lemma sync_mailboxes_replaces_witness:
  "\<exists>eng'. syncMailboxes (memory_coordinator (sample_env\<lparr>enSyncMailboxes := \<lambda>_ _.
       retM (RemoteReplace [49] [sample_mailbox\<lparr>rmId := [78], rmName := []\<rparr>, sample_mailbox])\<rparr>))
       [65] [74] (sample_engine, ()) = (Inr (), (eng', ())) \<and>
     aMailbox (astore (meState eng')) \<lparr>accountKey = [65], jmapId = [78]\<rparr> = None"
proof -
  let ?s = "[sample_mailbox\<lparr>rmId := [78], rmName := []\<rparr>, sample_mailbox]"
  let ?env = "sample_env\<lparr>enSyncMailboxes := \<lambda>_ _. retM (RemoteReplace [49] ?s)\<rparr>"
  have "enSyncMailboxes ?env [74] p () = (Inr (RemoteReplace [49] ?s), ())" for p
    by (simp add: retM_def)
  moreover have "mbId v \<noteq> \<lparr>accountKey = [65], jmapId = [78]\<rparr>"
    if v: "v \<in> set (List.map_filter (toDomainMailbox [65]) ?s)" for v
  proof
    assume "mbId v = \<lparr>accountKey = [65], jmapId = [78]\<rparr>"
    with mapped_mailbox [OF v] have "toDomainMailbox [65] (sample_mailbox\<lparr>rmId := [78], rmName := []\<rparr>) = Some v"
      by (auto simp: sample_mailbox_def)
    then show False
      by (auto simp: toDomainMailbox_def bindE_Inr_iff mailbox_Inr valid_mailbox_def)
  qed
  then have "find (\<lambda>v. mbId v = \<lparr>accountKey = [65], jmapId = [78]\<rparr>)
      (List.map_filter (toDomainMailbox [65]) ?s) = None" by (auto simp: find_None_iff)
  ultimately show ?thesis
    using sync_mailboxes_replaces [of sample_engine "[65]" ?env "[74]" "()" "[49]" ?s "()"]
    by (auto simp: sample_reachable sample_registered sample_mailbox_def simp del: astore_simps)
qed

end
