(* ===== verification/Outbox.thy ===== *)
theory Outbox
  imports Remote_Types
begin

text \<open>
  \<open>src/src/sync/outbox.ts\<close>: the executor of one staged send, older than the mutation runner
  and independent of it. The store and the submission service are fields of its dependencies.
\<close>

datatype SendSkipReason =
  SkNotFound | SkNotDue | SkAlreadyInFlight | SkTerminal | SkClaimConflict

datatype SendMutationOutcome = SendSent | SendNeedsReconciliation | SendSkipped SendSkipReason

datatype MutationLookup = Found PendingMutation SendIntent | Missed SendSkipReason

record 's OutboxDeps =
  obReadPendingMutation ::
    "AccountKey \<Rightarrow> MutationId \<Rightarrow> ('s, exn, PendingMutation OwnedOptionalRead ReadResult) eff"
  obReplace :: "PendingMutation \<Rightarrow> PendingMutation \<Rightarrow> ('s, exn, WriteResult) eff"
  obRemoveConfirmed :: "AccountKey \<Rightarrow> MutationId \<Rightarrow> ('s, exn, WriteResult) eff"
  obSubmit :: "SubmissionMessage \<Rightarrow> MutationId \<Rightarrow> ('s, exn, SubmissionResult) eff"
  obNow :: "('s, exn, MutationInstant) eff"

definition not_a_send :: "MutationId \<Rightarrow> jsstring \<Rightarrow> exn" where
  "not_a_send mid kind =
     Error (js ''Mutation '' @ mid @ js '' is not a SendMutation (kind: '' @ kind @ js '')'')"

definition readCurrentSendMutation ::
  "('s, 'x) OutboxDeps_scheme \<Rightarrow> AccountKey \<Rightarrow> MutationId \<Rightarrow> ('s, exn, MutationLookup) eff" where
  "readCurrentSendMutation deps ak mid =
     bindM (obReadPendingMutation deps ak mid) (\<lambda>result.
     case result of
       PortErr e \<Rightarrow> throwM (Error (js ''readPendingMutation failed: '' @ read_error_string e))
     | PortOk OptionalOwnerAbsent \<Rightarrow>
         throwM (Error (js ''Account '' @ ak @ js '' is not registered locally''))
     | PortOk OptionalAbsent \<Rightarrow> retM (Missed SkNotFound)
     | PortOk (OptionalPresent m) \<Rightarrow>
         (case pmPayload m of
            PKeyword _ _ \<Rightarrow> throwM (not_a_send mid (js ''keyword''))
          | PMembership _ _ \<Rightarrow> throwM (not_a_send mid (js ''mailboxMembership''))
          | PSend intent \<Rightarrow>
              (case pmLifecycle m of
                 Pending _ \<Rightarrow> retM (Found m intent)
               | Retrying _ nextAttemptAt \<Rightarrow>
                   bindM (obNow deps) (\<lambda>now.
                   retM (if js_le nextAttemptAt now then Found m intent else Missed SkNotDue))
               | InFlight _ \<Rightarrow> retM (Missed SkAlreadyInFlight)
               | _ \<Rightarrow> retM (Missed SkTerminal))))"

definition isAmbiguousSubmissionFailure :: "exn \<Rightarrow> bool" where
  "isAmbiguousSubmissionFailure err =
     (case err of
        RemoteExn e \<Rightarrow> reRetry e = RReconcile \<or> reOutcome e = OUnknown
      | _ \<Rightarrow> True)"

definition isRetryableRemoteFailure :: "exn \<Rightarrow> bool" where
  "isRetryableRemoteFailure err =
     (case err of
        RemoteExn e \<Rightarrow> reRetry e = RSafeImmediate \<or> reRetry e = RSafeBackoff
      | _ \<Rightarrow> False)"

definition status_string :: "MutationStatus \<Rightarrow> jsstring" where
  "status_string st =
     (case st of StPending \<Rightarrow> js ''pending'' | StInFlight \<Rightarrow> js ''inFlight''
      | StRetrying \<Rightarrow> js ''retrying'' | StConfirmed \<Rightarrow> js ''confirmed''
      | StFailedTerminal \<Rightarrow> js ''failedTerminal'')"

definition settleKnownFailure ::
  "('s, 'x) OutboxDeps_scheme \<Rightarrow> PendingMutation \<Rightarrow> exn \<Rightarrow> ('s, exn, unit) eff" where
  "settleKnownFailure deps inFlight err =
     bindM (if isRetryableRemoteFailure err
            then bindM (obNow deps) (\<lambda>now. liftM (scheduleMutationRetry inFlight now))
            else liftM (failMutationTerminal inFlight)) (\<lambda>nextM.
     bindM (obReplace deps inFlight nextM) (\<lambda>result.
     case result of
       PortOk _ \<Rightarrow> retM ()
     | PortErr e \<Rightarrow>
         throwM (Error (js ''replacePendingMutationIfCurrent('' @
                        status_string (status (pmLifecycle nextM)) @ js '') failed: '' @
                        write_error_string e))))"

text \<open>The \<open>try\<close> around the submission: its result, or the outcome of the \<open>catch\<close>.\<close>

definition submit_once ::
  "('s, 'x) OutboxDeps_scheme \<Rightarrow> PendingMutation \<Rightarrow> SubmissionMessage \<Rightarrow>
   ('s, exn, SendMutationOutcome + SubmissionResult) eff" where
  "submit_once deps inFlight message =
     tryM (bindM (obSubmit deps message (pmMutationId inFlight)) (\<lambda>result. retM (Inr result)))
       (\<lambda>err.
          if isAmbiguousSubmissionFailure err then retM (Inl SendNeedsReconciliation)
          else bindM (settleKnownFailure deps inFlight err) (\<lambda>_. throwM err))"

definition confirm_sent ::
  "('s, 'x) OutboxDeps_scheme \<Rightarrow> AccountKey \<Rightarrow> MutationId \<Rightarrow> PendingMutation \<Rightarrow> RemoteEmailId \<Rightarrow>
   ('s, exn, SendMutationOutcome) eff" where
  "confirm_sent deps ak mid inFlight i =
     bindM (liftM (localEmailId ak i)) (\<lambda>emailId.
     bindM (liftM (confirmSendMutation inFlight (sendConfirmation emailId))) (\<lambda>confirmed.
     bindM (obReplace deps inFlight confirmed) (\<lambda>confirmResult.
     case confirmResult of
       PortErr e \<Rightarrow>
         throwM (Error (js ''replacePendingMutationIfCurrent(confirmed) failed: '' @
                        write_error_string e))
     | PortOk _ \<Rightarrow>
         bindM (obRemoveConfirmed deps ak mid) (\<lambda>removeResult.
         case removeResult of
           PortErr e \<Rightarrow>
             throwM (Error (js ''removeConfirmedMutation failed: '' @ write_error_string e))
         | PortOk _ \<Rightarrow> retM SendSent))))"

definition processSendMutation ::
  "('s, 'x) OutboxDeps_scheme \<Rightarrow> AccountKey \<Rightarrow> RemoteAccountId \<Rightarrow> MutationId \<Rightarrow>
   ('s, exn, SendMutationOutcome) eff" where
  "processSendMutation deps ak remoteAccount mid =
     bindM (readCurrentSendMutation deps ak mid) (\<lambda>found.
     case found of
       Missed why \<Rightarrow> retM (SendSkipped why)
     | Found expected intent \<Rightarrow>
         bindM (liftM (startMutationAttempt expected)) (\<lambda>inFlight.
         bindM (obReplace deps expected inFlight) (\<lambda>claimed.
         case claimed of
           PortErr WrConflict \<Rightarrow> retM (SendSkipped SkClaimConflict)
         | PortErr e \<Rightarrow>
             throwM (Error (js ''replacePendingMutationIfCurrent(inFlight) failed: '' @
                            write_error_string e))
         | PortOk _ \<Rightarrow>
             bindM (liftM (submissionMessageFromSendIntent remoteAccount intent)) (\<lambda>message.
             bindM (submit_once deps inFlight message) (\<lambda>r.
             case r of
               Inl out \<Rightarrow> retM out
             | Inr result \<Rightarrow>
                 (case srRemoteEmailId result of
                    None \<Rightarrow> retM SendNeedsReconciliation
                  | Some i \<Rightarrow> confirm_sent deps ak mid inFlight i))))))"

end
