(* ===== verification/Outbox_Theorems.thy ===== *)
theory Outbox_Theorems
  imports Outbox Runner_Theorems
begin

text \<open>
  The properties of the older outbox on the memory engine: what one run leaves in the store,
  that an ambiguous submission is never repeated, and that a claimed intent it cannot convert
  stays in flight.
\<close>

definition memory_outbox ::
  "'r RemoteEnv \<Rightarrow> (SubmissionMessage \<Rightarrow> MutationId \<Rightarrow> ('r, exn, SubmissionResult) eff) \<Rightarrow>
   'r world OutboxDeps" where
  "memory_outbox env submit =
     \<lparr>obReadPendingMutation = (\<lambda>ak mid. on_state (readPendingMutation ak mid)),
      obReplace = (\<lambda>e n. on_engine (replacePendingMutationIfCurrent e n)),
      obRemoveConfirmed = (\<lambda>ak mid. on_engine (removeConfirmedMutation ak mid)),
      obSubmit = (\<lambda>m k. on_remote (submit m k)),
      obNow = on_remote (enNow env)\<rparr>"

section \<open>One run\<close>

text \<open>What a run that has claimed \<open>c\<close> leaves, by its result.\<close>

fun outbox_settled ::
  "PendingMutation \<Rightarrow> exn + SendMutationOutcome \<Rightarrow> mutations \<Rightarrow> mutations \<Rightarrow> bool" where
  "outbox_settled c (Inr SendSent) st st' = (st' = del c st)"
| "outbox_settled c (Inr SendNeedsReconciliation) st st' = (st' = put c st)"
| "outbox_settled c (Inr (SendSkipped _)) st st' = False"
| "outbox_settled c (Inl _) st st' =
     (st' = put c st \<or>
      st' = put (c\<lparr>pmLifecycle := FailedTerminal (attemptCount (pmLifecycle c))\<rparr>) st \<or>
      (\<exists>t. st' = put (c\<lparr>pmLifecycle := Retrying (attemptCount (pmLifecycle c)) t\<rparr>) st))"

definition outbox_result ::
  "PendingMutation option \<Rightarrow> exn + SendMutationOutcome \<Rightarrow> mutations \<Rightarrow> mutations \<Rightarrow> bool" where
  "outbox_result found r st st' \<longleftrightarrow>
     (\<exists>x. r = Inl x) \<and> st' = st \<or>
     (\<exists>why. r = Inr (SendSkipped why) \<and>
        (why = SkNotFound \<longleftrightarrow> found = None) \<and>
        (why = SkAlreadyInFlight \<longleftrightarrow> (\<exists>m. found = Some m \<and> in_flight m))) \<and> st' = st \<or>
     (\<exists>m c. found = Some m \<and> is_send m \<and> startMutationAttempt m = Inr c \<and>
        outbox_settled c r st st')"

lemma obNow_keeps: "keeps sane_world stored_mutations (obNow (memory_outbox env submit))"
  by (simp add: memory_outbox_def keeps_on_remote)

lemma obSubmit_keeps: "keeps sane_world stored_mutations (obSubmit (memory_outbox env submit) m k)"
  by (simp add: memory_outbox_def keeps_on_remote)

lemma obReplace_step:
  assumes "sane_world w" "holds e (stored_mutations w)" "lifecycle_step e n"
  shows "\<exists>w'. obReplace (memory_outbox env submit) e n w = (Inr (PortOk ()), w') \<and>
    sane_world w' \<and> stored_mutations w' = put n (stored_mutations w)"
  using memory_replace [OF assms] by (simp add: memory_outbox_def)

lemma put_put:
  "pmAccountKey n = pmAccountKey c \<Longrightarrow> pmMutationId n = pmMutationId c \<Longrightarrow>
   put n (put c st) = put n st"
  "pmAccountKey n = pmAccountKey c \<Longrightarrow> pmMutationId n = pmMutationId c \<Longrightarrow>
   del n (put c st) = del c st"
  by (auto simp: put_def del_def fun_eq_iff)

lemma lookup_step:
  assumes "sane_world w" "readCurrentSendMutation (memory_outbox env submit) ak mid w = (r, v)"
  shows "sane_world v \<and> stored_mutations v = stored_mutations w \<and>
    (case r of
       Inl _ \<Rightarrow> True
     | Inr (Missed why) \<Rightarrow>
         why \<noteq> SkClaimConflict \<and> (why = SkNotFound \<longleftrightarrow> stored_mutations w ak mid = None) \<and>
         (why = SkAlreadyInFlight \<longleftrightarrow> (\<exists>m. stored_mutations w ak mid = Some m \<and> in_flight m))
     | Inr (Found m intent) \<Rightarrow>
         stored_mutations w ak mid = Some m \<and> pmPayload m = PSend intent \<and> \<not> in_flight m)"
proof -
  let ?deps = "memory_outbox env submit"
  from memory_read [OF assms(1), of ak mid] obtain res where
    res: "obReadPendingMutation ?deps ak mid w = (Inr (PortOk res), w)"
    "\<And>m. res = OptionalPresent m \<longleftrightarrow> stored_mutations w ak mid = Some m"
    by (auto simp: memory_outbox_def)
  show ?thesis
  proof (cases res)
    case (OptionalPresent m)
    then have m: "stored_mutations w ak mid = Some m" using res(2) by simp
    show ?thesis
    proof (cases "\<exists>intent n t. pmPayload m = PSend intent \<and> pmLifecycle m = Retrying n t")
      case True
      then obtain intent n t where p: "pmPayload m = PSend intent" "pmLifecycle m = Retrying n t"
        by blast
      obtain x u where now: "obNow ?deps w = (x, u)" by (cases "obNow ?deps w")
      from keepsD [OF obNow_keeps assms(1) now]
      have u: "sane_world u" "stored_mutations u = stored_mutations w" by simp_all
      from assms(2) show ?thesis
        using u m p OptionalPresent
        by (cases x) (auto simp: readCurrentSendMutation_def bindM_def res(1) now retM_def
            in_flight_def)
    next
      case False
      with assms OptionalPresent m show ?thesis
        by (auto simp: readCurrentSendMutation_def bindM_def res(1) retM_def throwM_def
            in_flight_def split: MutationPayload.splits MutationLifecycle.splits)
    qed
  next
    case OptionalAbsent
    then have "stored_mutations w ak mid = None"
      using res(2) by (cases "stored_mutations w ak mid") auto
    with assms res(1) OptionalAbsent show ?thesis
      by (auto simp: readCurrentSendMutation_def bindM_def retM_def)
  qed (use assms res(1) in \<open>auto simp: readCurrentSendMutation_def bindM_def throwM_def\<close>)
qed

lemma settle_step:
  assumes "sane_world w" "holds c (stored_mutations w)" "in_flight c"
    "settleKnownFailure (memory_outbox env submit) c err w = (r, v)"
  shows "sane_world v \<and> outbox_settled c (Inl x) (stored_mutations w) (stored_mutations v)"
proof -
  let ?deps = "memory_outbox env submit"
  have same: "stored_mutations w = put c (stored_mutations w)" using assms(2) by (simp add: put_same)
  have wf: "wf_mutation c" using memory_stored [OF assms(1)] assms(2) by (auto simp: holds_def)
  show ?thesis
  proof (cases "isRetryableRemoteFailure err")
    case True
    obtain y u where now: "obNow ?deps w = (y, u)" by (cases "obNow ?deps w")
    from keepsD [OF obNow_keeps assms(1) now]
    have u: "sane_world u" "stored_mutations u = stored_mutations w" by simp_all
    show ?thesis
    proof (cases y)
      case (Inl e)
      with assms(4) True now u same show ?thesis by (auto simp: settleKnownFailure_def bindM_def)
    next
      case (Inr t)
      from assms(3) wf obtain n where n: "scheduleMutationRetry c t = Inr n"
        "n = c\<lparr>pmLifecycle := Retrying (attemptCount (pmLifecycle c)) t\<rparr>"
        by (cases "pmLifecycle c") (auto simp: in_flight_def wf_mutation_def settle_Inr)
      have "holds c (stored_mutations u)" using assms(2) u(2) by simp
      from obReplace_step [OF u(1) this step_retry [OF n(1)]] obtain w' where
        "obReplace ?deps c n u = (Inr (PortOk ()), w')" "sane_world w'"
        "stored_mutations w' = put n (stored_mutations u)" by blast
      with assms(4) True now Inr n u show ?thesis
        by (auto simp: settleKnownFailure_def bindM_def liftM_def retM_def)
    qed
  next
    case False
    from assms(3) wf obtain n where n: "failMutationTerminal c = Inr n"
      "n = c\<lparr>pmLifecycle := FailedTerminal (attemptCount (pmLifecycle c))\<rparr>"
      by (cases "pmLifecycle c") (auto simp: in_flight_def wf_mutation_def settle_Inr)
    from obReplace_step [OF assms(1,2) step_fail [OF n(1)]] obtain w' where
      "obReplace ?deps c n w = (Inr (PortOk ()), w')" "sane_world w'"
      "stored_mutations w' = put n (stored_mutations w)" by blast
    with assms(4) False n show ?thesis
      by (auto simp: settleKnownFailure_def bindM_def liftM_def retM_def)
  qed
qed

lemma confirm_sent_step:
  assumes "sane_world w" "holds c (stored_mutations w)" "in_flight c" "is_send c"
    "confirm_sent (memory_outbox env submit) (pmAccountKey c) (pmMutationId c) c i w = (r, v)"
  shows "sane_world v \<and> outbox_settled c r (stored_mutations w) (stored_mutations v)"
proof (cases "i = []")
  case True
  then show ?thesis
    using assms put_same [OF assms(2)]
    by (auto simp: confirm_sent_def localEmailId_def opaque_id_defs opaqueIdFromString_def
        bindM_def liftM_def)
next
  case False
  let ?deps = "memory_outbox env submit"
  let ?e = "\<lparr>accountKey = pmAccountKey c, jmapId = i\<rparr>"
  have e: "localEmailId (pmAccountKey c) i = Inr ?e" using False by (simp add: local_ids_Inr)
  have wf: "wf_mutation c" using memory_stored [OF assms(1)] assms(2) by (auto simp: holds_def)
  with assms(3) obtain n where n: "confirmSendMutation c (sendConfirmation ?e) = Inr n"
    "status (pmLifecycle n) = StConfirmed" "pmAccountKey n = pmAccountKey c"
    "pmMutationId n = pmMutationId c"
    by (cases "pmLifecycle c") (auto simp: in_flight_def wf_mutation_def settle_Inr sendConfirmation_def)
  from obReplace_step [OF assms(1,2) step_confirm_send [OF assms(4) n(1)]] obtain t where t:
    "obReplace ?deps c n w = (Inr (PortOk ()), t)" "sane_world t"
    "stored_mutations t = put n (stored_mutations w)" by blast
  from memory_remove [OF t(2) _ n(2)] t(3) n(3,4) obtain u where u:
    "obRemoveConfirmed ?deps (pmAccountKey c) (pmMutationId c) t = (Inr (PortOk ()), u)"
    "sane_world u" "stored_mutations u = del n (stored_mutations t)"
    by (auto simp: memory_outbox_def)
  have "del n (put n (stored_mutations w)) = del c (stored_mutations w)"
    using n(3,4) by (auto simp: del_def put_def fun_eq_iff)
  with assms(5) e n(1) t u show ?thesis
    by (auto simp: confirm_sent_def bindM_def liftM_def retM_def)
qed

lemma after_claim:
  assumes "sane_world w" "holds c (stored_mutations w)" "in_flight c" "is_send c"
    "bindM (submit_once (memory_outbox env submit) c message) (\<lambda>r.
       case r of
         Inl out \<Rightarrow> retM out
       | Inr result \<Rightarrow>
           (case srRemoteEmailId result of
              None \<Rightarrow> retM SendNeedsReconciliation
            | Some i \<Rightarrow> confirm_sent (memory_outbox env submit) ak mid c i))
       w = (r, v)"
    "pmAccountKey c = ak" "pmMutationId c = mid"
  shows "sane_world v \<and> outbox_settled c r (stored_mutations w) (stored_mutations v)"
proof -
  let ?deps = "memory_outbox env submit"
  obtain x t where sub: "obSubmit ?deps message (pmMutationId c) w = (x, t)"
    by (cases "obSubmit ?deps message (pmMutationId c) w")
  from keepsD [OF obSubmit_keeps assms(1) sub]
  have t: "sane_world t" "stored_mutations t = stored_mutations w" by simp_all
  then have hold: "holds c (stored_mutations t)" using assms(2) by simp
  have same: "put c (stored_mutations w) = stored_mutations w" using put_same [OF assms(2)] .
  show ?thesis
  proof (cases x)
    case (Inl err)
    show ?thesis
    proof (cases "isAmbiguousSubmissionFailure err")
      case True
      with assms(5) sub Inl t same show ?thesis
        by (auto simp: submit_once_def bindM_def tryM_def retM_def)
    next
      case False
      obtain y u where y: "settleKnownFailure ?deps c err t = (y, u)"
        by (cases "settleKnownFailure ?deps c err t")
      have u: "sane_world u \<and> outbox_settled c (Inl z) (stored_mutations t) (stored_mutations u)" for z
        using settle_step [OF t(1) hold assms(3) y] .
      have r: "\<exists>z. r = Inl z" "v = u"
        using assms(5) sub Inl False y
        by (auto simp: submit_once_def bindM_def tryM_def retM_def throwM_def split: sum.splits)
      from r(1) obtain z where "r = Inl z" by blast
      with u [of z] r(2) t(2) show ?thesis by simp
    qed
  next
    case (Inr result)
    show ?thesis
    proof (cases "srRemoteEmailId result")
      case None
      with assms(5) sub Inr t same show ?thesis
        by (auto simp: submit_once_def bindM_def tryM_def retM_def)
    next
      case (Some i)
      with assms(5) sub Inr
      have "confirm_sent ?deps (pmAccountKey c) (pmMutationId c) c i t = (r, v)"
        by (auto simp: submit_once_def bindM_def tryM_def retM_def assms(6,7))
      from confirm_sent_step [OF t(1) hold assms(3,4) this] t(2) show ?thesis by simp
    qed
  qed
qed

lemma outbox_step:
  assumes "sane_world w"
    "processSendMutation (memory_outbox env submit) ak remoteAccount mid w = (r, v)"
  shows "sane_world v \<and>
    outbox_result (stored_mutations w ak mid) r (stored_mutations w) (stored_mutations v)"
proof -
  let ?deps = "memory_outbox env submit"
  obtain x t where x: "readCurrentSendMutation ?deps ak mid w = (x, t)"
    by (cases "readCurrentSendMutation ?deps ak mid w")
  note look = lookup_step [OF assms(1) x]
  then have t: "sane_world t" "stored_mutations t = stored_mutations w" by simp_all
  show ?thesis
  proof (cases x)
    case (Inl e)
    with assms(2) x t show ?thesis by (auto simp: processSendMutation_def bindM_def outbox_result_def)
  next
    case (Inr found)
    show ?thesis
    proof (cases found)
      case (Missed why)
      with assms(2) x Inr t look show ?thesis
        by (auto simp: processSendMutation_def bindM_def retM_def outbox_result_def)
    next
      case (Found m intent)
      with look Inr have m: "stored_mutations w ak mid = Some m" "pmPayload m = PSend intent" by simp_all
      from memory_stored [OF assms(1) m(1)] have key: "pmAccountKey m = ak" "pmMutationId m = mid" by simp_all
      have hold: "holds m (stored_mutations t)" using m(1) key t(2) by (simp add: holds_def)
      show ?thesis
      proof (cases "startMutationAttempt m")
        case (Inl e)
        with assms(2) x Inr Found t show ?thesis
          by (auto simp: processSendMutation_def bindM_def liftM_def outbox_result_def)
      next
        case start: (Inr c)
        from lifecycle_step_immutable [OF step_start [OF start]] m(2) key
        have c: "pmAccountKey c = ak" "pmMutationId c = mid" "is_send c" "is_send m"
          by (auto simp: immutable_part_def is_send_def)
        have fl: "in_flight c" using memory.start_in_flight [OF start] .
        from obReplace_step [OF t(1) hold step_start [OF start]] obtain u where u:
          "obReplace ?deps m c t = (Inr (PortOk ()), u)" "sane_world u"
          "stored_mutations u = put c (stored_mutations w)" unfolding t(2) by blast
        have settled: "outbox_settled c r (stored_mutations w) st" if
          "outbox_settled c r (put c (stored_mutations w)) st" for st
          using that by (cases r; cases "projr r") (auto simp: put_put)
        show ?thesis
        proof (cases "submissionMessageFromSendIntent remoteAccount intent")
          case (Inl e)
          with assms(2) x Inr Found start u c m show ?thesis
            by (auto simp: processSendMutation_def bindM_def liftM_def outbox_result_def)
        next
          case message: (Inr message)
          have hc: "holds c (stored_mutations u)" using u(3) by simp
          have "bindM (submit_once ?deps c message) (\<lambda>r.
              case r of
                Inl out \<Rightarrow> retM out
              | Inr result \<Rightarrow>
                  (case srRemoteEmailId result of
                     None \<Rightarrow> retM SendNeedsReconciliation
                   | Some i \<Rightarrow> confirm_sent ?deps ak mid c i)) u = (r, v)"
            using assms(2) x Inr Found start u(1) message c
            by (simp add: processSendMutation_def bindM_def [of "readCurrentSendMutation _ _ _"]
                bindM_def [of "liftM _"] bindM_def [of "obReplace _ _ _"] liftM_def)
          from after_claim [OF u(2) hc fl c(3) this c(1,2)] settled u(3) m start c show ?thesis
            by (auto simp: outbox_result_def)
        qed
      qed
    qed
  qed
qed

section \<open>Properties\<close>

text \<open>A run of the older outbox removes a mutation only when it reports it sent; when it
  needs reconciliation the mutation is stored in flight, when it skips nothing has changed, and
  after an exception it is unclaimed, in flight, scheduled for a retry or failed.\<close>

theorem outbox_outcome:
  assumes "sane_world w"
    "processSendMutation (memory_outbox env submit) ak remoteAccount mid w = (r, v)"
  shows "outbox_result (stored_mutations w ak mid) r (stored_mutations w) (stored_mutations v)"
  using outbox_step [OF assms] by blast

lemma outbox_outcome_witness:
  "outbox_result (Some sample_mutation)
     (fst (processSendMutation (memory_outbox sample_env (\<lambda>_ _. retM \<lparr>srRemoteEmailId = Some [69],
        srReceiptId = None\<rparr>)) [65] [74] [77] (sample_engine, ())))
     (stored_mutations (sample_engine, ()))
     (stored_mutations (snd (processSendMutation (memory_outbox sample_env (\<lambda>_ _. retM
        \<lparr>srRemoteEmailId = Some [69], srReceiptId = None\<rparr>)) [65] [74] [77] (sample_engine, ()))))"
  using outbox_outcome [OF sample_sane prod.collapse [symmetric], where env = sample_env and
      submit = "\<lambda>_ _. retM \<lparr>srRemoteEmailId = Some [69], srReceiptId = None\<rparr>" and
      ak = "[65]" and remoteAccount = "[74]" and mid = "[77]"]
  by (simp add: sample_stored_world)

lemma in_flight_skipped:
  assumes "sane_world w" "stored_mutations w ak mid = Some c" "in_flight c" "is_send c"
  shows "processSendMutation (memory_outbox env submit) ak remoteAccount mid w =
    (Inr (SendSkipped SkAlreadyInFlight), w)"
proof -
  from memory_read [OF assms(1), of ak mid] assms(2) have
    "obReadPendingMutation (memory_outbox env submit) ak mid w = (Inr (PortOk (OptionalPresent c)), w)"
    by (auto simp: memory_outbox_def)
  with assms(3,4) show ?thesis
    by (cases "pmPayload c"; cases "pmLifecycle c")
       (auto simp: processSendMutation_def readCurrentSendMutation_def bindM_def retM_def
        in_flight_def is_send_def)
qed

lemma reconciliation_sticks:
  assumes "sane_world w"
    "processSendMutation (memory_outbox env submit) ak remoteAccount mid w =
       (Inr SendNeedsReconciliation, v)"
  shows "processSendMutation (memory_outbox env' submit') ak remoteAccount' mid v =
    (Inr (SendSkipped SkAlreadyInFlight), v)"
proof -
  from outbox_step [OF assms] obtain m c where v: "sane_world v"
    "stored_mutations w ak mid = Some m" "is_send m" "startMutationAttempt m = Inr c"
    "stored_mutations v = put c (stored_mutations w)"
    by (auto simp: outbox_result_def)
  from memory_stored [OF assms(1) v(2)] lifecycle_step_immutable [OF step_start [OF v(4)]] v(3)
  have "pmAccountKey c = ak" "pmMutationId c = mid" "is_send c"
    by (auto simp: immutable_part_def is_send_def)
  with v(5) memory.start_in_flight [OF v(4)] show ?thesis
    by (intro in_flight_skipped [OF v(1), of _ _ c]) (simp_all add: put_def)
qed

text \<open>The answers to a submission after which the server may have accepted the message without the
  client knowing the e-mail: no identifier came back, the error says so, or what was thrown is no
  error of the remote contract at all.\<close>

fun maybe_accepted :: "exn + SubmissionResult \<Rightarrow> bool" where
  "maybe_accepted (Inr answer) \<longleftrightarrow> srRemoteEmailId answer = None"
| "maybe_accepted (Inl (RemoteExn e)) \<longleftrightarrow> reOutcome e = OUnknown \<or> reRetry e = RReconcile"
| "maybe_accepted (Inl _) \<longleftrightarrow> True"

text \<open>A send that a run takes up, and the remote state after the clock was read, if it was.\<close>

definition taken_up :: "'r RemoteEnv \<Rightarrow> PendingMutation \<Rightarrow> 'r \<Rightarrow> 'r \<Rightarrow> bool" where
  "taken_up env m r r' \<longleftrightarrow>
     (case pmLifecycle m of
        Pending _ \<Rightarrow> r' = r
      | Retrying _ due \<Rightarrow>
          (case enNow env r of (Inr now, t) \<Rightarrow> r' = t \<and> js_le due now | _ \<Rightarrow> False)
      | _ \<Rightarrow> False)"

lemma taken_up_lookup:
  assumes "sane_world (eng, r)" "stored_mutations (eng, r) ak mid = Some m"
    "pmPayload m = PSend intent" "taken_up env m r r1"
  shows "readCurrentSendMutation (memory_outbox env submit) ak mid (eng, r) =
    (Inr (Found m intent), (eng, r1))"
proof -
  from memory_read [OF assms(1), of ak mid] assms(2) have
    "obReadPendingMutation (memory_outbox env submit) ak mid (eng, r) =
      (Inr (PortOk (OptionalPresent m)), (eng, r))"
    by (auto simp: memory_outbox_def)
  with assms(3,4) show ?thesis
    by (cases "pmLifecycle m")
       (auto simp: readCurrentSendMutation_def bindM_def retM_def taken_up_def memory_outbox_def
        on_remote_def split: prod.splits sum.splits)
qed

lemma taken_up_starts:
  assumes "wf_mutation m" "taken_up env m r r1" "attemptCount (pmLifecycle m) = JInt k" "k < 2 ^ 53 - 1"
  shows "startMutationAttempt m = Inr (m\<lparr>pmLifecycle := InFlight (JInt (k + 1))\<rparr>)"
  using assms
  by (cases "pmLifecycle m")
     (auto simp: startMutationAttempt_Inr taken_up_def wf_mutation_def started_def)

lemma replace_keeps_remote:
  "obReplace (memory_outbox env submit) e n w = (x, w') \<Longrightarrow> snd w' = snd w"
  by (auto simp: memory_outbox_def on_engine_def split: prod.splits)

text \<open>The run after a claim, by what the submission answers.\<close>

lemma submitted:
  assumes "obSubmit deps message (pmMutationId c) u = (answer, t)"
    "bindM (submit_once deps c message) (\<lambda>r.
       case r of
         Inl out \<Rightarrow> retM out
       | Inr result \<Rightarrow>
           (case srRemoteEmailId result of
              None \<Rightarrow> retM SendNeedsReconciliation
            | Some i \<Rightarrow> confirm_sent deps ak mid c i)) u = (result, v)"
  shows "(result = Inr SendNeedsReconciliation \<longleftrightarrow> maybe_accepted answer) \<and>
    (maybe_accepted answer \<longrightarrow> v = t)"
proof (cases answer)
  case (Inl err)
  have amb: "isAmbiguousSubmissionFailure err = maybe_accepted (Inl err)"
    by (cases err) (auto simp: isAmbiguousSubmissionFailure_def)
  obtain x w where "settleKnownFailure deps c err t = (x, w)" by fastforce
  with assms Inl amb show ?thesis
    by (cases x; cases "maybe_accepted (Inl err)")
       (auto simp: submit_once_def bindM_def tryM_def retM_def throwM_def simp del: maybe_accepted.simps)
next
  case (Inr sent)
  have "confirm_sent deps ak mid c i t \<noteq> (Inr SendNeedsReconciliation, v)" for i
    by (auto simp: confirm_sent_def bindM_def retM_def throwM_def liftM_def
        split: prod.splits sum.splits PortResult.splits)
  with assms Inr show ?thesis
    by (cases "srRemoteEmailId sent")
       (auto simp: submit_once_def bindM_def tryM_def retM_def)
qed

text \<open>C18: A submission that may have been accepted is never repeated. A run of the older outbox
  that takes up a send and submits it ends in \<open>needsReconciliation\<close> exactly if the submission's
  answer leaves open whether the server accepted the message; then the mutation stays stored in
  flight, its payload and identity as they were, and any later run of it, whatever submission
  service it would have, skips it as already in flight and touches nothing.\<close>

theorem ambiguous_send_not_repeated:
  assumes "sane_world (eng, r)" "stored_mutations (eng, r) ak mid = Some m"
    "pmPayload m = PSend intent" "taken_up env m r r1"
    "attemptCount (pmLifecycle m) = JInt k" "k < 2 ^ 53 - 1"
    "submissionMessageFromSendIntent remoteAccount intent = Inr message"
    "submit message mid r1 = (answer, r2)"
    "processSendMutation (memory_outbox env submit) ak remoteAccount mid (eng, r) = (result, v)"
  shows "(result = Inr SendNeedsReconciliation \<longleftrightarrow> maybe_accepted answer) \<and>
    (maybe_accepted answer \<longrightarrow>
       snd v = r2 \<and>
       stored_mutations v ak mid = Some (m\<lparr>pmLifecycle := InFlight (JInt (k + 1))\<rparr>) \<and>
       processSendMutation (memory_outbox env' submit') ak remoteAccount' mid v =
         (Inr (SendSkipped SkAlreadyInFlight), v))"
proof -
  let ?deps = "memory_outbox env submit" and ?c = "m\<lparr>pmLifecycle := InFlight (JInt (k + 1))\<rparr>"
  from memory_stored [OF assms(1,2)]
  have m: "pmAccountKey m = ak" "pmMutationId m = mid" "wf_mutation m" by simp_all
  note look = taken_up_lookup [OF assms(1-4)] and start = taken_up_starts [OF m(3) assms(4-6)]
  have same: "stored_mutations (eng, r1) = stored_mutations (eng, r)" "sane_world (eng, r1)"
    using assms(1) by (simp_all add: stored_mutations_def sane_world_def)
  then have "holds m (stored_mutations (eng, r1))" using assms(2) m by (simp add: holds_def)
  from obReplace_step [OF same(2) this step_start [OF start]] obtain u where u:
    "obReplace ?deps m ?c (eng, r1) = (Inr (PortOk ()), u)" "sane_world u"
    "stored_mutations u = put ?c (stored_mutations (eng, r))" unfolding same(1) by blast
  have sub: "obSubmit ?deps message (pmMutationId ?c) u = (answer, (fst u, r2))"
    using assms(8) replace_keeps_remote [OF u(1)] m
    by (simp add: memory_outbox_def on_remote_def)
  have "bindM (submit_once ?deps ?c message) (\<lambda>r.
       case r of
         Inl out \<Rightarrow> retM out
       | Inr result \<Rightarrow>
           (case srRemoteEmailId result of
              None \<Rightarrow> retM SendNeedsReconciliation
            | Some i \<Rightarrow> confirm_sent ?deps ak mid ?c i)) u = (result, v)"
    using assms(9) look start u(1) assms(7)
    by (simp add: processSendMutation_def bindM_def [of "readCurrentSendMutation _ _ _"]
        bindM_def [of "liftM _"] bindM_def [of "obReplace _ _ _"] liftM_def)
  note result = submitted [OF sub this]
  moreover have "stored_mutations (fst u, r2) ak mid = Some ?c"
    using u(3) m by (simp add: stored_mutations_def put_def)
  ultimately show ?thesis
    using reconciliation_sticks [OF assms(1), of env submit ak remoteAccount mid v] assms(9) by auto
qed

text \<open>The error of a send whose answer was lost, and of one the server refused.\<close>

definition lost_reply :: exn where
  "lost_reply = RemoteExn
     \<lparr>reKind = KNetwork, reRetry = RReconcile, reSession = SKeep, reOutcome = OUnknown\<rparr>"

definition refused :: exn where
  "refused = RemoteExn
     \<lparr>reKind = KRejected, reRetry = RNever, reSession = SKeep, reOutcome = OKnownNotApplied\<rparr>"

lemma ambiguous_send_not_repeated_witness:
  "fst (processSendMutation (memory_outbox sample_env (\<lambda>_ _. throwM lost_reply)) [65] [74] [77]
      (sample_engine, ())) = Inr SendNeedsReconciliation \<and>
   fst (processSendMutation (memory_outbox sample_env (\<lambda>_ _. throwM refused)) [65] [74] [77]
      (sample_engine, ())) \<noteq> Inr SendNeedsReconciliation \<and>
   fst (processSendMutation (memory_outbox sample_env (\<lambda>_ _. throwM refused)) [65] [74] [77]
      (snd (processSendMutation (memory_outbox sample_env (\<lambda>_ _. throwM lost_reply)) [65] [74] [77]
        (sample_engine, ())))) = Inr (SendSkipped SkAlreadyInFlight)"
proof -
  obtain message where message: "submissionMessageFromSendIntent [74] sample_intent = Inr message"
    by (auto simp: submissionMessageFromSendIntent_def sample_intent_def remoteIdentityId_def
        remote_id_defs remoteIdFromString_def bindE_Inr_iff)
  note run = ambiguous_send_not_repeated [OF sample_sane sample_stored_world _ _ _ _ message _
    prod.collapse [symmetric], where env = sample_env and k = 0]
  show ?thesis
    using run [where submit = "\<lambda>_ _. throwM lost_reply" and r = "()" and ?r1.0 = "()" and ?r2.0 = "()"
        and answer = "Inl lost_reply" and env' = sample_env and remoteAccount' = "[74]"
        and submit' = "\<lambda>_ _. throwM refused"]
      run [where submit = "\<lambda>_ _. throwM refused" and r = "()" and ?r1.0 = "()" and ?r2.0 = "()"
        and answer = "Inl refused"]
    by (simp add: sample_mutation_def taken_up_def throwM_def lost_reply_def refused_def)
qed

text \<open>C19: An end-to-end encrypted send that the older outbox picks up is claimed before it is
  found inconvertible: the run throws, the mutation stays in flight, and every later run skips
  it.\<close>

theorem encrypted_send_sticks:
  assumes "sane_world w" "stored_mutations w ak mid = Some m" "pmPayload m = PSend intent"
    "siSecurityMode intent = ModeBoxplotE2eeV1" "pmLifecycle m = Pending (JInt 0)"
    "processSendMutation (memory_outbox env submit) ak remoteAccount mid w = (r, v)"
  shows "(\<exists>e. r = Inl (TypeError e)) \<and>
    stored_mutations v ak mid = Some (m\<lparr>pmLifecycle := InFlight (JInt 1)\<rparr>) \<and>
    processSendMutation (memory_outbox env' submit') ak remoteAccount' mid v =
      (Inr (SendSkipped SkAlreadyInFlight), v)"
proof -
  let ?deps = "memory_outbox env submit" and ?c = "m\<lparr>pmLifecycle := InFlight (JInt 1)\<rparr>"
  from memory_stored [OF assms(1,2)] have key: "pmAccountKey m = ak" "pmMutationId m = mid" by simp_all
  from memory_read [OF assms(1), of ak mid] assms(2) have
    "obReadPendingMutation ?deps ak mid w = (Inr (PortOk (OptionalPresent m)), w)"
    by (auto simp: memory_outbox_def)
  with assms(3,5) have look: "readCurrentSendMutation ?deps ak mid w = (Inr (Found m intent), w)"
    by (simp add: readCurrentSendMutation_def bindM_def retM_def)
  have start: "startMutationAttempt m = Inr ?c" using assms(5) by (simp add: startMutationAttempt_Inr)
  have "holds m (stored_mutations w)" using assms(2) key by (simp add: holds_def)
  from obReplace_step [OF assms(1) this step_start [OF start]] obtain u where u:
    "obReplace ?deps m ?c w = (Inr (PortOk ()), u)" "sane_world u"
    "stored_mutations u = put ?c (stored_mutations w)" by blast
  have "v = u" "\<exists>e. r = Inl (TypeError e)"
    using assms(4,6) look start u(1)
    by (auto simp: processSendMutation_def bindM_def liftM_def submissionMessageFromSendIntent_def)
  moreover have "stored_mutations u ak mid = Some ?c" using u(3) key by (simp add: put_def)
  ultimately show ?thesis
    using in_flight_skipped [OF u(2), of ak mid ?c] assms(3)
    by (simp add: in_flight_def is_send_def)
qed

definition encrypted_mutation :: PendingMutation where
  "encrypted_mutation =
     sample_mutation\<lparr>pmPayload := PSend (sample_intent\<lparr>siSecurityMode := ModeBoxplotE2eeV1\<rparr>)\<rparr>"

definition encrypted_engine :: MemoryEngine where
  "encrypted_engine = snd (run_write (OpStage encrypted_mutation)
     (snd (run_write (OpRegister sample_account) createMemoryLocalEngine)))"

lemma encrypted_stored:
  "aMutation (astore (meState encrypted_engine)) =
     (\<lambda>ak mid. if ak = [65] \<and> mid = [77] then Some encrypted_mutation else None)"
  by (simp add: fun_eq_iff encrypted_engine_def encrypted_mutation_def sample_account_def
      sample_mutation_def createMemoryLocalEngine_def newMemoryState_def registerAccount_def
      stageSendMutation_def Let_def commit_state_def publish_def map_has_def cloneMutation_def
      cloneUpdateLifecycle_def)

lemma encrypted_sane: "sane_world (encrypted_engine, r)"
proof -
  have "reachable encrypted_engine"
    unfolding encrypted_engine_def by (intro reachable.wrote reachable.created)
  moreover have "wf_mutation encrypted_mutation"
    by (simp add: wf_mutation_def encrypted_mutation_def sample_mutation_def sample_intent_def)
  ultimately show ?thesis
    using reachable_state_inv
    by (auto simp: sane_world_def mutations_wf_def encrypted_stored simp del: astore_simps
        split: if_splits)
qed

lemma encrypted_send_sticks_witness:
  "\<exists>e. fst (processSendMutation (memory_outbox sample_env (\<lambda>_ _. throwM lost_reply)) [65] [74] [77]
     (encrypted_engine, ())) = Inl (TypeError e)"
  using encrypted_send_sticks [OF encrypted_sane _ _ _ _ prod.collapse [symmetric],
      where m = encrypted_mutation and env = sample_env and submit = "\<lambda>_ _. throwM lost_reply" and ak = "[65]" and
      remoteAccount = "[74]" and mid = "[77]" and
      intent = "sample_intent\<lparr>siSecurityMode := ModeBoxplotE2eeV1\<rparr>"]
  by (simp add: stored_mutations_def encrypted_stored encrypted_mutation_def sample_mutation_def
      del: astore_simps)

end
