(* ===== verification/Ipc_Dto.thy ===== *)
theory Ipc_Dto
  imports Ports
begin

text \<open>
  \<open>src/src/ipc/dto/index.ts\<close>: the values that cross the boundary to the native engine. They are
  plain data with strings where the domain has identifiers. A transfer object whose shape is
  the shape of a domain object, and that the codecs hand over unchanged, is that type. The
  codecs test at run time whether a tag is one they know, so such a union has one more
  constructor for the tags they do not know.
\<close>

section \<open>Identifiers and addresses\<close>

record IpcScopedMailboxId =
  imAccountKey :: jsstring
  jmapMailboxId :: jsstring

record IpcScopedEmailId =
  ieAccountKey :: jsstring
  jmapEmailId :: jsstring

record IpcScopedIdentityId =
  iiAccountKey :: jsstring
  jmapIdentityId :: jsstring

record IpcScopedThreadId =
  itAccountKey :: jsstring
  jmapThreadId :: jsstring

record IpcScopedBlobId =
  ibAccountKey :: jsstring
  jmapBlobId :: jsstring

record IpcEmailAddress =
  iaName :: "jsstring option"
  iaEmail :: jsstring

type_synonym IpcEmailAddressList = "IpcEmailAddress list option"

record IpcRemoteAccountRef =
  irServiceKey :: jsstring
  irJmapAccountId :: jsstring

record IpcAccount =
  iacKey :: jsstring
  iacRemoteRef :: IpcRemoteAccountRef

section \<open>Mail\<close>

type_synonym IpcMailboxRights = MailboxRights

record IpcMailbox =
  imbId :: IpcScopedMailboxId
  imbName :: jsstring
  imbParent :: "IpcScopedMailboxId option"
  imbRole :: "jsstring option"
  imbSortOrder :: number
  imbTotalEmails :: number
  imbUnreadEmails :: number
  imbRights :: IpcMailboxRights

record IpcIdentity =
  iidId :: IpcScopedIdentityId
  iidName :: jsstring
  iidEmail :: jsstring
  iidReplyTo :: IpcEmailAddressList
  iidBcc :: IpcEmailAddressList

record IpcEmail =
  iemId :: IpcScopedEmailId
  iemBlobId :: IpcScopedBlobId
  iemThreadId :: IpcScopedThreadId
  iemSender :: IpcEmailAddressList
  iemFrom :: IpcEmailAddressList
  iemReplyTo :: IpcEmailAddressList
  iemTo :: IpcEmailAddressList
  iemCc :: IpcEmailAddressList
  iemBcc :: IpcEmailAddressList
  iemSubject :: "jsstring option"
  iemSentAt :: "jsstring option"
  iemReceivedAt :: jsstring
  iemSize :: number
  iemPreview :: jsstring
  iemHasAttachment :: bool
  iemKeywords :: "jsstring list"

record IpcEmailMailbox =
  immEmailId :: IpcScopedEmailId
  immMailboxId :: IpcScopedMailboxId

record IpcEmailBody =
  iboEmailId :: IpcScopedEmailId
  iboText :: "jsstring option"
  iboHtml :: "jsstring option"

record IpcAttachmentRef =
  iatEmailId :: IpcScopedEmailId
  iatPartId :: jsstring
  iatBlobId :: IpcScopedBlobId
  iatName :: "jsstring option"
  iatMediaType :: jsstring
  iatSize :: number
  iatDisposition :: "jsstring option"
  iatCid :: "jsstring option"

section \<open>Views and cursors\<close>

type_synonym IpcMailboxViewFilterSpec = MailboxViewFilterSpec

type_synonym IpcMailboxViewSortSpec = MailboxViewSortSpec

type_synonym IpcMailboxViewCoverageRange = MailboxViewCoverageRange

record IpcMailboxViewSpec =
  ivsMailboxId :: IpcScopedMailboxId
  ivsFilter :: IpcMailboxViewFilterSpec
  ivsSort :: IpcMailboxViewSortSpec

record IpcMailboxViewItem =
  iviPosition :: number
  iviEmailId :: IpcScopedEmailId

record IpcMailboxView =
  imvSpec :: IpcMailboxViewSpec
  imvQueryState :: jsstring
  imvTotal :: number
  imvCoverage :: "IpcMailboxViewCoverageRange list"
  imvItems :: "IpcMailboxViewItem list"

type_synonym IpcCollectionDataType = CollectionDataType

record IpcCollectionSyncCursor =
  icuAccountKey :: jsstring
  icuDataType :: IpcCollectionDataType
  icuState :: jsstring

datatype IpcCursorPrecondition = IpcCursorAbsent | IpcCursorMatches IpcCollectionSyncCursor

section \<open>Mutations\<close>

type_synonym IpcSendBody = SendBody

type_synonym IpcSendSecurityMode = SendSecurityMode

record IpcSendConfirmation =
  iscEmailId :: IpcScopedEmailId

record IpcSendIntent =
  isiSecurityMode :: IpcSendSecurityMode
  isiIdentityId :: IpcScopedIdentityId
  isiFrom :: IpcEmailAddress
  isiReplyTo :: "IpcEmailAddress list"
  isiTo :: "IpcEmailAddress list"
  isiCc :: "IpcEmailAddress list"
  isiBcc :: "IpcEmailAddress list"
  isiSubject :: jsstring
  isiBody :: IpcSendBody

text \<open>
  The lifecycles of sends and of e-mail updates; the confirmed state of the former has a
  confirmation, which the latter has not.
\<close>

datatype IpcMutationLifecycle =
    IpcPending number
  | IpcInFlight number
  | IpcRetrying number jsstring
  | IpcConfirmed number "IpcSendConfirmation option"
  | IpcFailedTerminal number
  | IpcUnknownStatus number

fun ipc_attemptCount :: "IpcMutationLifecycle \<Rightarrow> number" where
  "ipc_attemptCount (IpcPending n) = n"
| "ipc_attemptCount (IpcInFlight n) = n"
| "ipc_attemptCount (IpcRetrying n _) = n"
| "ipc_attemptCount (IpcConfirmed n _) = n"
| "ipc_attemptCount (IpcFailedTerminal n) = n"
| "ipc_attemptCount (IpcUnknownStatus n) = n"

type_synonym IpcKeywordChange = KeywordChange

record IpcMembershipChange =
  imcAdd :: "IpcScopedMailboxId list"
  imcRemove :: "IpcScopedMailboxId list"

datatype IpcMutationPayload =
    IpcSend IpcSendIntent
  | IpcKeyword IpcScopedEmailId IpcKeywordChange
  | IpcMembership IpcScopedEmailId IpcMembershipChange

record IpcPendingMutation =
  ipmMutationId :: jsstring
  ipmAccountKey :: jsstring
  ipmCreatedAt :: jsstring
  ipmPayload :: IpcMutationPayload
  ipmLifecycle :: IpcMutationLifecycle

section \<open>Collection commits\<close>

record IpcEmailSyncRecord =
  isrEmail :: IpcEmail
  isrMemberships :: "IpcEmailMailbox list"

text \<open>The six commits: a delta expects a cursor that matches.\<close>

datatype ('r, 'i) IpcCollectionMode =
    IpcDelta IpcCollectionSyncCursor "'r list" "'i list"
  | IpcReplace IpcCursorPrecondition "'r list"

datatype IpcCollectionSyncCommit =
    IpcEmailCommit IpcCollectionSyncCursor "(IpcEmailSyncRecord, IpcScopedEmailId) IpcCollectionMode"
  | IpcMailboxCommit IpcCollectionSyncCursor "(IpcMailbox, IpcScopedMailboxId) IpcCollectionMode"
  | IpcIdentityCommit IpcCollectionSyncCursor "(IpcIdentity, IpcScopedIdentityId) IpcCollectionMode"

section \<open>Results\<close>

datatype 'a IpcLocalEntityRead = IpcAbsent | IpcPresent 'a | IpcUnknownEntity

datatype 'a IpcOwnedSnapshotRead = IpcSnapshotOwnerAbsent | IpcSnapshot 'a | IpcUnknownSnapshot

datatype 'a IpcOwnedOptionalRead =
  IpcOptionalOwnerAbsent | IpcOptionalAbsent | IpcOptional 'a | IpcUnknownOptional

datatype 'a IpcOwnedCacheRead =
  IpcCacheOwnerAbsent | IpcNotCached | IpcCached 'a | IpcUnknownCache

text \<open>The error kind is whatever string the reply carries; the adapters check it.\<close>

datatype 'a IpcResult = IpcOk 'a | IpcErr jsstring

text \<open>A write answers null; the adapter checks that too.\<close>

datatype IpcWriteValue = IpcNull | IpcNotNull

type_synonym IpcWriteResult = "IpcWriteValue IpcResult"

datatype IpcLocalChangeHint =
    IpcAccounts
  | IpcMailboxes jsstring
  | IpcIdentities jsstring
  | IpcEmails jsstring
  | IpcEmailMemberships jsstring
  | IpcEmailBodyHint IpcScopedEmailId
  | IpcAttachmentRefs IpcScopedEmailId
  | IpcMailboxViewHint IpcMailboxViewSpec
  | IpcSyncCursor jsstring IpcCollectionDataType
  | IpcPendingMutations jsstring
  | IpcUnknownHint

section \<open>Requests\<close>

record IpcReadCursorRequest =
  rcAccountKey :: jsstring
  rcDataType :: IpcCollectionDataType

record IpcReadMutationRequest =
  rmAccountKey :: jsstring
  rmMutationId :: jsstring

record IpcReplaceAttachmentRefsRequest =
  raEmailId :: IpcScopedEmailId
  raRefs :: "IpcAttachmentRef list"

record IpcReplaceMutationRequest =
  rpExpected :: IpcPendingMutation
  rpNext :: IpcPendingMutation

end
