(* ===== verification/Ipc_Codecs.thy ===== *)
theory Ipc_Codecs
  imports Ipc_Dto
begin

text \<open>
  \<open>src/src/adapters/tauri/domain-ipc-codecs.ts\<close>: the codecs between domain values and transfer
  objects. Encoding is total; decoding rebuilds the value through the domain factories, so it
  throws whenever they do. Arguments and calls are evaluated in the order of the source.
\<close>

section \<open>Identifiers and addresses\<close>

definition encodeAccountKey :: "AccountKey \<Rightarrow> jsstring" where
  "encodeAccountKey value = value"

definition decodeAccountKey :: "jsstring \<Rightarrow> AccountKey throws" where
  "decodeAccountKey value = accountKeyFromString value"

definition encodeScopedMailboxId :: "ScopedMailboxId \<Rightarrow> IpcScopedMailboxId" where
  "encodeScopedMailboxId value =
     \<lparr>imAccountKey = accountKey value, jmapMailboxId = jmapId value\<rparr>"

definition decodeScopedMailboxId :: "IpcScopedMailboxId \<Rightarrow> ScopedMailboxId throws" where
  "decodeScopedMailboxId value =
     bindE (accountKeyFromString (imAccountKey value)) (\<lambda>k.
     bindE (jmapMailboxIdFromString (jmapMailboxId value)) (\<lambda>i.
     Inr (scopedMailboxId k i)))"

definition encodeScopedEmailId :: "ScopedEmailId \<Rightarrow> IpcScopedEmailId" where
  "encodeScopedEmailId value = \<lparr>ieAccountKey = accountKey value, jmapEmailId = jmapId value\<rparr>"

definition decodeScopedEmailId :: "IpcScopedEmailId \<Rightarrow> ScopedEmailId throws" where
  "decodeScopedEmailId value =
     bindE (accountKeyFromString (ieAccountKey value)) (\<lambda>k.
     bindE (jmapEmailIdFromString (jmapEmailId value)) (\<lambda>i.
     Inr (scopedEmailId k i)))"

definition encodeScopedIdentityId :: "ScopedIdentityId \<Rightarrow> IpcScopedIdentityId" where
  "encodeScopedIdentityId value =
     \<lparr>iiAccountKey = accountKey value, jmapIdentityId = jmapId value\<rparr>"

definition decodeScopedIdentityId :: "IpcScopedIdentityId \<Rightarrow> ScopedIdentityId throws" where
  "decodeScopedIdentityId value =
     bindE (accountKeyFromString (iiAccountKey value)) (\<lambda>k.
     bindE (jmapIdentityIdFromString (jmapIdentityId value)) (\<lambda>i.
     Inr (scopedIdentityId k i)))"

definition encodeScopedThreadId :: "ScopedThreadId \<Rightarrow> IpcScopedThreadId" where
  "encodeScopedThreadId value = \<lparr>itAccountKey = accountKey value, jmapThreadId = jmapId value\<rparr>"

definition decodeScopedThreadId :: "IpcScopedThreadId \<Rightarrow> ScopedThreadId throws" where
  "decodeScopedThreadId value =
     bindE (accountKeyFromString (itAccountKey value)) (\<lambda>k.
     bindE (jmapThreadIdFromString (jmapThreadId value)) (\<lambda>i.
     Inr (scopedThreadId k i)))"

definition encodeScopedBlobId :: "ScopedBlobId \<Rightarrow> IpcScopedBlobId" where
  "encodeScopedBlobId value = \<lparr>ibAccountKey = accountKey value, jmapBlobId = jmapId value\<rparr>"

definition decodeScopedBlobId :: "IpcScopedBlobId \<Rightarrow> ScopedBlobId throws" where
  "decodeScopedBlobId value =
     bindE (accountKeyFromString (ibAccountKey value)) (\<lambda>k.
     bindE (jmapBlobIdFromString (jmapBlobId value)) (\<lambda>i.
     Inr (scopedBlobId k i)))"

definition encodeAddress :: "EmailAddress \<Rightarrow> IpcEmailAddress" where
  "encodeAddress value = \<lparr>iaName = adName value, iaEmail = adEmail value\<rparr>"

definition decodeAddress :: "IpcEmailAddress \<Rightarrow> EmailAddress" where
  "decodeAddress value = emailAddress (iaName value) (iaEmail value)"

definition encodeAddressList :: "EmailAddressList \<Rightarrow> IpcEmailAddressList" where
  "encodeAddressList value =
     (case value of None \<Rightarrow> None | Some xs \<Rightarrow> Some (map encodeAddress xs))"

definition decodeAddressList :: "IpcEmailAddressList \<Rightarrow> EmailAddressList" where
  "decodeAddressList value =
     (case value of None \<Rightarrow> None | Some xs \<Rightarrow> Some (map decodeAddress xs))"

section \<open>Entities\<close>

definition encodeAccount :: "Account \<Rightarrow> IpcAccount" where
  "encodeAccount value =
     \<lparr>iacKey = acKey value,
      iacRemoteRef = \<lparr>irServiceKey = rrServiceKey (acRemoteRef value),
                      irJmapAccountId = rrJmapAccountId (acRemoteRef value)\<rparr>\<rparr>"

definition decodeAccount :: "IpcAccount \<Rightarrow> Account throws" where
  "decodeAccount value =
     bindE (accountKeyFromString (iacKey value)) (\<lambda>k.
     bindE (serviceKeyFromString (irServiceKey (iacRemoteRef value))) (\<lambda>s.
     bindE (jmapAccountIdFromString (irJmapAccountId (iacRemoteRef value))) (\<lambda>j.
     Inr (account k (remoteAccountRef s j)))))"

definition encodeMailbox :: "Mailbox \<Rightarrow> IpcMailbox" where
  "encodeMailbox value =
     \<lparr>imbId = encodeScopedMailboxId (mbId value), imbName = mbName value,
      imbParent = map_option encodeScopedMailboxId (mbParent value),
      imbRole = mbRole value, imbSortOrder = mbSortOrder value,
      imbTotalEmails = mbTotalEmails value, imbUnreadEmails = mbUnreadEmails value,
      imbRights = mbRights value\<rparr>"

text \<open>\<open>value === null ? null : decode(value)\<close>.\<close>

definition decode_optional :: "('a \<Rightarrow> 'b throws) \<Rightarrow> 'a option \<Rightarrow> 'b option throws" where
  "decode_optional decode value =
     (case value of None \<Rightarrow> Inr None | Some v \<Rightarrow> bindE (decode v) (\<lambda>w. Inr (Some w)))"

definition decodeMailbox :: "IpcMailbox \<Rightarrow> Mailbox throws" where
  "decodeMailbox value =
     bindE (decodeScopedMailboxId (imbId value)) (\<lambda>i.
     bindE (decode_optional decodeScopedMailboxId (imbParent value)) (\<lambda>parent.
     mailbox \<lparr>mbId = i, mbName = imbName value, mbParent = parent, mbRole = imbRole value,
              mbSortOrder = imbSortOrder value, mbTotalEmails = imbTotalEmails value,
              mbUnreadEmails = imbUnreadEmails value,
              mbRights = mailboxRights (imbRights value)\<rparr>))"

definition encodeIdentity :: "Identity \<Rightarrow> IpcIdentity" where
  "encodeIdentity value =
     \<lparr>iidId = encodeScopedIdentityId (idId value), iidName = idName value,
      iidEmail = idEmail value, iidReplyTo = encodeAddressList (idReplyTo value),
      iidBcc = encodeAddressList (idBcc value)\<rparr>"

definition decodeIdentity :: "IpcIdentity \<Rightarrow> Identity throws" where
  "decodeIdentity value =
     bindE (decodeScopedIdentityId (iidId value)) (\<lambda>i.
     identity \<lparr>idId = i, idName = iidName value, idEmail = iidEmail value,
               idReplyTo = decodeAddressList (iidReplyTo value),
               idBcc = decodeAddressList (iidBcc value)\<rparr>)"

definition encodeEmail :: "Email \<Rightarrow> IpcEmail" where
  "encodeEmail value =
     \<lparr>iemId = encodeScopedEmailId (emId value), iemBlobId = encodeScopedBlobId (emBlobId value),
      iemThreadId = encodeScopedThreadId (emThreadId value),
      iemSender = encodeAddressList (emSender value), iemFrom = encodeAddressList (emFrom value),
      iemReplyTo = encodeAddressList (emReplyTo value), iemTo = encodeAddressList (emTo value),
      iemCc = encodeAddressList (emCc value), iemBcc = encodeAddressList (emBcc value),
      iemSubject = emSubject value, iemSentAt = emSentAt value,
      iemReceivedAt = emReceivedAt value, iemSize = emSize value, iemPreview = emPreview value,
      iemHasAttachment = emHasAttachment value, iemKeywords = emKeywords value\<rparr>"

definition decodeEmail :: "IpcEmail \<Rightarrow> Email throws" where
  "decodeEmail value =
     bindE (decodeScopedEmailId (iemId value)) (\<lambda>i.
     bindE (decodeScopedBlobId (iemBlobId value)) (\<lambda>b.
     bindE (decodeScopedThreadId (iemThreadId value)) (\<lambda>t.
     bindE (keywordSet (iemKeywords value)) (\<lambda>keywords.
     email \<lparr>emId = i, emBlobId = b, emThreadId = t,
            emSender = decodeAddressList (iemSender value),
            emFrom = decodeAddressList (iemFrom value),
            emReplyTo = decodeAddressList (iemReplyTo value),
            emTo = decodeAddressList (iemTo value), emCc = decodeAddressList (iemCc value),
            emBcc = decodeAddressList (iemBcc value), emSubject = iemSubject value,
            emSentAt = iemSentAt value, emReceivedAt = iemReceivedAt value,
            emSize = iemSize value, emPreview = iemPreview value,
            emHasAttachment = iemHasAttachment value, emKeywords = keywords\<rparr>))))"

definition encodeEmailMailbox :: "EmailMailbox \<Rightarrow> IpcEmailMailbox" where
  "encodeEmailMailbox value =
     \<lparr>immEmailId = encodeScopedEmailId (mmEmailId value),
      immMailboxId = encodeScopedMailboxId (mmMailboxId value)\<rparr>"

definition decodeEmailMailbox :: "IpcEmailMailbox \<Rightarrow> EmailMailbox throws" where
  "decodeEmailMailbox value =
     bindE (decodeScopedEmailId (immEmailId value)) (\<lambda>e.
     bindE (decodeScopedMailboxId (immMailboxId value)) (\<lambda>m.
     emailMailbox e m))"

definition encodeEmailBody :: "EmailBody \<Rightarrow> IpcEmailBody" where
  "encodeEmailBody value =
     \<lparr>iboEmailId = encodeScopedEmailId (boEmailId value), iboText = boText value,
      iboHtml = boHtml value\<rparr>"

definition decodeEmailBody :: "IpcEmailBody \<Rightarrow> EmailBody throws" where
  "decodeEmailBody value =
     bindE (decodeScopedEmailId (iboEmailId value)) (\<lambda>e.
     Inr (emailBody \<lparr>boEmailId = e, boText = iboText value, boHtml = iboHtml value\<rparr>))"

definition encodeAttachmentRef :: "AttachmentRef \<Rightarrow> IpcAttachmentRef" where
  "encodeAttachmentRef value =
     \<lparr>iatEmailId = encodeScopedEmailId (atEmailId value), iatPartId = atPartId value,
      iatBlobId = encodeScopedBlobId (atBlobId value), iatName = atName value,
      iatMediaType = atMediaType value, iatSize = atSize value,
      iatDisposition = atDisposition value, iatCid = atCid value\<rparr>"

definition decodeAttachmentRef :: "IpcAttachmentRef \<Rightarrow> AttachmentRef throws" where
  "decodeAttachmentRef value =
     bindE (decodeScopedEmailId (iatEmailId value)) (\<lambda>e.
     bindE (decodeScopedBlobId (iatBlobId value)) (\<lambda>b.
     attachmentRef \<lparr>atEmailId = e, atPartId = attachmentPartIdFromString (iatPartId value),
                    atBlobId = b, atName = iatName value, atMediaType = iatMediaType value,
                    atSize = iatSize value, atDisposition = iatDisposition value,
                    atCid = iatCid value\<rparr>))"

section \<open>Views and cursors\<close>

definition encodeMailboxViewSpec :: "MailboxViewSpec \<Rightarrow> IpcMailboxViewSpec" where
  "encodeMailboxViewSpec value =
     \<lparr>ivsMailboxId = encodeScopedMailboxId (vsMailboxId value), ivsFilter = vsFilter value,
      ivsSort = \<lparr>soProperty = soProperty (vsSort value), soDirection = soDirection (vsSort value)\<rparr>\<rparr>"

definition decodeMailboxViewSpec :: "IpcMailboxViewSpec \<Rightarrow> MailboxViewSpec throws" where
  "decodeMailboxViewSpec value =
     bindE (decodeScopedMailboxId (ivsMailboxId value)) (\<lambda>m.
     Inr (mailboxViewSpec m mailboxViewFilterAll (mailboxViewSort (soDirection (ivsSort value)))))"

definition encode_item :: "MailboxViewItem \<Rightarrow> IpcMailboxViewItem" where
  "encode_item item =
     \<lparr>iviPosition = viPosition item, iviEmailId = encodeScopedEmailId (viEmailId item)\<rparr>"

definition decode_item :: "IpcMailboxViewItem \<Rightarrow> MailboxViewItem throws" where
  "decode_item item =
     bindE (decodeScopedEmailId (iviEmailId item)) (\<lambda>e. mailboxViewItem (iviPosition item) e)"

definition encodeMailboxView :: "MailboxView \<Rightarrow> IpcMailboxView" where
  "encodeMailboxView value =
     \<lparr>imvSpec = encodeMailboxViewSpec (mvSpec value), imvQueryState = mvQueryState value,
      imvTotal = mvTotal value, imvCoverage = map (\<lambda>r. r) (mvCoverage value),
      imvItems = map encode_item (mvItems value)\<rparr>"

definition decodeMailboxView :: "IpcMailboxView \<Rightarrow> MailboxView throws" where
  "decodeMailboxView value =
     bindE (decodeMailboxViewSpec (imvSpec value)) (\<lambda>spec.
     bindE (mailboxViewQueryStateFromString (imvQueryState value)) (\<lambda>queryState.
     bindE (mapE (\<lambda>r. mailboxViewCoverageRange (crStart r) (crEnd r)) (imvCoverage value))
       (\<lambda>coverage.
     bindE (mapE decode_item (imvItems value)) (\<lambda>items.
     mailboxView \<lparr>mvSpec = spec, mvQueryState = queryState, mvTotal = imvTotal value,
                  mvCoverage = coverage, mvItems = items\<rparr>))))"

definition encodeCursor :: "CollectionSyncCursor \<Rightarrow> IpcCollectionSyncCursor" where
  "encodeCursor value =
     \<lparr>icuAccountKey = cuAccountKey value, icuDataType = cuDataType value, icuState = cuState value\<rparr>"

definition decodeCursor :: "IpcCollectionSyncCursor \<Rightarrow> CollectionSyncCursor throws" where
  "decodeCursor value =
     bindE (accountKeyFromString (icuAccountKey value)) (\<lambda>k.
     Inr (collectionSyncCursor \<lparr>cuAccountKey = k, cuDataType = icuDataType value,
            cuState = collectionSyncStateFromString (icuState value)\<rparr>))"

section \<open>Mutations\<close>

definition encodeSendIntent :: "SendIntent \<Rightarrow> IpcSendIntent" where
  "encodeSendIntent value =
     \<lparr>isiSecurityMode = siSecurityMode value,
      isiIdentityId = encodeScopedIdentityId (siIdentityId value),
      isiFrom = encodeAddress (siFrom value),
      isiReplyTo = map encodeAddress (siReplyTo value), isiTo = map encodeAddress (siTo value),
      isiCc = map encodeAddress (siCc value), isiBcc = map encodeAddress (siBcc value),
      isiSubject = siSubject value, isiBody = siBody value\<rparr>"

definition decodeSendIntent :: "IpcSendIntent \<Rightarrow> SendIntent throws" where
  "decodeSendIntent value =
     (let fromA = decodeAddress (isiFrom value) in
      case adName fromA of
        None \<Rightarrow> Inl (TypeError (js ''Persisted SendIntent From must contain Identity name''))
      | Some fromName \<Rightarrow>
          bindE (decodeScopedIdentityId (isiIdentityId value)) (\<lambda>i.
          bindE (identity \<lparr>idId = i, idName = fromName, idEmail = adEmail fromA,
                           idReplyTo = Some (map decodeAddress (isiReplyTo value)),
                           idBcc = None\<rparr>) (\<lambda>ident.
          sendIntent \<lparr>sniSecurityMode = isiSecurityMode value, sniIdentity = ident,
                      sniTo = map decodeAddress (isiTo value),
                      sniCc = map decodeAddress (isiCc value),
                      sniBcc = map decodeAddress (isiBcc value),
                      sniSubject = isiSubject value, sniBody = isiBody value\<rparr>)))"

definition assertAttemptCount :: "number \<Rightarrow> bool \<Rightarrow> unit throws" where
  "assertAttemptCount value pend =
     throw_if (\<not> isSafeInteger value \<or>
               (if pend then \<not> num_eq value (JInt 0) else num_less value (JInt 1)))
       (TypeError (js ''Invalid mutation attemptCount'')) (Inr ())"

definition decodeSendLifecycle ::
  "IpcMutationLifecycle \<Rightarrow> AccountKey \<Rightarrow> MutationLifecycle throws" where
  "decodeSendLifecycle value owner =
     (case value of
        IpcPending n \<Rightarrow> bindE (assertAttemptCount n True) (\<lambda>_. Inr (Pending (JInt 0)))
      | _ \<Rightarrow>
          bindE (assertAttemptCount (ipc_attemptCount value) False) (\<lambda>_.
          case value of
            IpcRetrying n t \<Rightarrow>
              bindE (mutationInstantFromString t) (\<lambda>nextAttemptAt. Inr (Retrying n nextAttemptAt))
          | IpcConfirmed n None \<Rightarrow>
              Inl (TypeError (js ''Cannot read properties of undefined''))
          | IpcConfirmed n (Some confirmation) \<Rightarrow>
              bindE (decodeScopedEmailId (iscEmailId confirmation)) (\<lambda>emailId.
              throw_if (accountKey emailId \<noteq> owner)
                (TypeError (js ''Send confirmation account mismatch''))
                (Inr (ConfirmedSend n \<lparr>scEmailId = emailId\<rparr>)))
          | IpcInFlight n \<Rightarrow> Inr (InFlight n)
          | IpcFailedTerminal n \<Rightarrow> Inr (FailedTerminal n)
          | _ \<Rightarrow> Inl (TypeError (js ''Unknown SendMutation lifecycle''))))"

definition decodeUpdateLifecycle :: "IpcMutationLifecycle \<Rightarrow> MutationLifecycle throws" where
  "decodeUpdateLifecycle value =
     (case value of
        IpcPending n \<Rightarrow> bindE (assertAttemptCount n True) (\<lambda>_. Inr (Pending (JInt 0)))
      | _ \<Rightarrow>
          bindE (assertAttemptCount (ipc_attemptCount value) False) (\<lambda>_.
          case value of
            IpcRetrying n t \<Rightarrow>
              bindE (mutationInstantFromString t) (\<lambda>nextAttemptAt. Inr (Retrying n nextAttemptAt))
          | IpcInFlight n \<Rightarrow> Inr (InFlight n)
          | IpcConfirmed n _ \<Rightarrow> Inr (ConfirmedUpdate n)
          | IpcFailedTerminal n \<Rightarrow> Inr (FailedTerminal n)
          | _ \<Rightarrow> Inl (TypeError (js ''Unknown Email update lifecycle''))))"

fun encodeSendLifecycle :: "MutationLifecycle \<Rightarrow> IpcMutationLifecycle" where
  "encodeSendLifecycle (Retrying n t) = IpcRetrying n t"
| "encodeSendLifecycle (ConfirmedSend n c) =
     IpcConfirmed n (Some \<lparr>iscEmailId = encodeScopedEmailId (scEmailId c)\<rparr>)"
| "encodeSendLifecycle (Pending n) = IpcPending (JInt 0)"
| "encodeSendLifecycle (InFlight n) = IpcInFlight n"
| "encodeSendLifecycle (ConfirmedUpdate n) = IpcConfirmed n None"
| "encodeSendLifecycle (FailedTerminal n) = IpcFailedTerminal n"

fun encodeUpdateLifecycle :: "MutationLifecycle \<Rightarrow> IpcMutationLifecycle" where
  "encodeUpdateLifecycle (Retrying n t) = IpcRetrying n t"
| "encodeUpdateLifecycle (Pending n) = IpcPending (JInt 0)"
| "encodeUpdateLifecycle (InFlight n) = IpcInFlight n"
| "encodeUpdateLifecycle (ConfirmedUpdate n) = IpcConfirmed n None"
| "encodeUpdateLifecycle (ConfirmedSend n c) = IpcConfirmed n None"
| "encodeUpdateLifecycle (FailedTerminal n) = IpcFailedTerminal n"

definition encodePendingMutation :: "PendingMutation \<Rightarrow> IpcPendingMutation" where
  "encodePendingMutation value =
     (case pmPayload value of
        PSend intent \<Rightarrow>
          \<lparr>ipmMutationId = pmMutationId value, ipmAccountKey = pmAccountKey value,
           ipmCreatedAt = pmCreatedAt value, ipmPayload = IpcSend (encodeSendIntent intent),
           ipmLifecycle = encodeSendLifecycle (pmLifecycle value)\<rparr>
      | PKeyword emailId change \<Rightarrow>
          \<lparr>ipmMutationId = pmMutationId value, ipmAccountKey = pmAccountKey value,
           ipmCreatedAt = pmCreatedAt value,
           ipmPayload = IpcKeyword (encodeScopedEmailId emailId)
                          \<lparr>kcAdd = kcAdd change, kcRemove = kcRemove change\<rparr>,
           ipmLifecycle = encodeUpdateLifecycle (pmLifecycle value)\<rparr>
      | PMembership emailId change \<Rightarrow>
          \<lparr>ipmMutationId = pmMutationId value, ipmAccountKey = pmAccountKey value,
           ipmCreatedAt = pmCreatedAt value,
           ipmPayload = IpcMembership (encodeScopedEmailId emailId)
                          \<lparr>imcAdd = map encodeScopedMailboxId (mcAdd change),
                           imcRemove = map encodeScopedMailboxId (mcRemove change)\<rparr>,
           ipmLifecycle = encodeUpdateLifecycle (pmLifecycle value)\<rparr>)"

definition decodePendingMutation :: "IpcPendingMutation \<Rightarrow> PendingMutation throws" where
  "decodePendingMutation value =
     bindE (accountKeyFromString (ipmAccountKey value)) (\<lambda>owner.
     bindE (mutationIdFromString (ipmMutationId value)) (\<lambda>mid.
     bindE (mutationInstantFromString (ipmCreatedAt value)) (\<lambda>createdAt.
     case ipmPayload value of
       IpcSend intent \<Rightarrow>
         bindE (decodeSendIntent intent) (\<lambda>i.
         bindE (sendMutation mid owner createdAt i) (\<lambda>base.
         bindE (decodeSendLifecycle (ipmLifecycle value) owner) (\<lambda>l.
         Inr (base\<lparr>pmLifecycle := l\<rparr>))))
     | IpcKeyword emailId change \<Rightarrow>
         bindE (decodeScopedEmailId emailId) (\<lambda>e.
         bindE (keywordSet (kcAdd change)) (\<lambda>add.
         bindE (keywordSet (kcRemove change)) (\<lambda>remove.
         bindE (keywordMutation mid owner createdAt e \<lparr>kcAdd = add, kcRemove = remove\<rparr>) (\<lambda>base.
         bindE (decodeUpdateLifecycle (ipmLifecycle value)) (\<lambda>l.
         Inr (base\<lparr>pmLifecycle := l\<rparr>))))))
     | IpcMembership emailId change \<Rightarrow>
         bindE (decodeScopedEmailId emailId) (\<lambda>e.
         bindE (mapE decodeScopedMailboxId (imcAdd change)) (\<lambda>add.
         bindE (mapE decodeScopedMailboxId (imcRemove change)) (\<lambda>remove.
         bindE (mailboxMembershipChange \<lparr>mcAdd = add, mcRemove = remove\<rparr>) (\<lambda>c.
         bindE (mailboxMembershipMutation mid owner createdAt e c) (\<lambda>base.
         bindE (decodeUpdateLifecycle (ipmLifecycle value)) (\<lambda>l.
         Inr (base\<lparr>pmLifecycle := l\<rparr>))))))))))"

section \<open>Commits\<close>

definition encodePrecondition :: "CollectionCursorPrecondition \<Rightarrow> IpcCursorPrecondition" where
  "encodePrecondition value =
     (case value of CursorAbsent \<Rightarrow> IpcCursorAbsent
      | CursorMatches c \<Rightarrow> IpcCursorMatches (encodeCursor c))"

definition encode_record :: "EmailSyncRecord \<Rightarrow> IpcEmailSyncRecord" where
  "encode_record item =
     \<lparr>isrEmail = encodeEmail (srEmail item),
      isrMemberships = map encodeEmailMailbox (srMemberships item)\<rparr>"

text \<open>The shape that the three branches of \<open>encodeCollectionSyncCommit\<close> share.\<close>

fun encode_mode ::
  "('r \<Rightarrow> 'w) \<Rightarrow> ('i \<Rightarrow> 'v) \<Rightarrow> ('r, 'i) CollectionMode \<Rightarrow> ('w, 'v) IpcCollectionMode" where
  "encode_mode enc encId (Delta cursor changed destroyed) =
     IpcDelta (encodeCursor cursor) (map enc changed) (map encId destroyed)"
| "encode_mode enc encId (Replace precondition snapshot) =
     IpcReplace (encodePrecondition precondition) (map enc snapshot)"

fun encodeCollectionSyncCommit :: "CollectionSyncCommit \<Rightarrow> IpcCollectionSyncCommit" where
  "encodeCollectionSyncCommit (EmailCommit nextC m) =
     IpcEmailCommit (encodeCursor nextC) (encode_mode encode_record encodeScopedEmailId m)"
| "encodeCollectionSyncCommit (MailboxCommit nextC m) =
     IpcMailboxCommit (encodeCursor nextC) (encode_mode encodeMailbox encodeScopedMailboxId m)"
| "encodeCollectionSyncCommit (IdentityCommit nextC m) =
     IpcIdentityCommit (encodeCursor nextC) (encode_mode encodeIdentity encodeScopedIdentityId m)"

section \<open>Change hints\<close>

fun decodeLocalChangeHint :: "IpcLocalChangeHint \<Rightarrow> LocalChangeHint throws" where
  "decodeLocalChangeHint IpcAccounts = Inr HAccounts"
| "decodeLocalChangeHint (IpcMailboxes k) =
     bindE (accountKeyFromString k) (\<lambda>ak. Inr (HMailboxes ak))"
| "decodeLocalChangeHint (IpcIdentities k) =
     bindE (accountKeyFromString k) (\<lambda>ak. Inr (HIdentities ak))"
| "decodeLocalChangeHint (IpcEmails k) =
     bindE (accountKeyFromString k) (\<lambda>ak. Inr (HEmails ak))"
| "decodeLocalChangeHint (IpcEmailMemberships k) =
     bindE (accountKeyFromString k) (\<lambda>ak. Inr (HEmailMemberships ak))"
| "decodeLocalChangeHint (IpcPendingMutations k) =
     bindE (accountKeyFromString k) (\<lambda>ak. Inr (HPendingMutations ak))"
| "decodeLocalChangeHint (IpcEmailBodyHint i) =
     bindE (decodeScopedEmailId i) (\<lambda>e. Inr (HEmailBody e))"
| "decodeLocalChangeHint (IpcAttachmentRefs i) =
     bindE (decodeScopedEmailId i) (\<lambda>e. Inr (HAttachmentRefs e))"
| "decodeLocalChangeHint (IpcMailboxViewHint sp) =
     bindE (decodeMailboxViewSpec sp) (\<lambda>spec. Inr (HMailboxView spec))"
| "decodeLocalChangeHint (IpcSyncCursor k d) =
     bindE (accountKeyFromString k) (\<lambda>ak. Inr (HSyncCursor ak d))"
| "decodeLocalChangeHint IpcUnknownHint = Inl (TypeError (js ''Unknown local change hint''))"

fun decodeLocalChangeBatch :: "IpcLocalChangeHint list \<Rightarrow> LocalChangeHint list throws" where
  "decodeLocalChangeBatch [] = Inl (TypeError (js ''LocalChangeBatch must contain a hint''))"
| "decodeLocalChangeBatch (first # rest) =
     bindE (decodeLocalChangeHint first) (\<lambda>h.
     bindE (mapE decodeLocalChangeHint rest) (\<lambda>hs. Inr (h # hs)))"

end
