(* ===== verification/Codec_Laws.thy ===== *)
theory Codec_Laws
  imports Ipc_Codecs
begin

text \<open>
  The contract of a codec, what follows from it for lists and options of encoded values,
  and its interpretation on every codec of \<open>Ipc_Codecs\<close>. The domain of each codec is a
  predicate on domain values: the factories' invariant and non-empty identifiers.
\<close>

locale codec =
  fixes enc :: "'a \<Rightarrow> 'w"
    and dec :: "'w \<Rightarrow> 'a throws"
    and wf :: "'a \<Rightarrow> bool"
  assumes dec_enc: "wf v \<Longrightarrow> dec (enc v) = Inr v"
    and dec_wf: "dec w = Inr v \<Longrightarrow> wf v"
begin

lemma enc_inject: "wf u \<Longrightarrow> wf v \<Longrightarrow> enc u = enc v \<longleftrightarrow> u = v"
  by (metis dec_enc sum.inject(2))

lemma list_dec_enc: "\<forall>v \<in> set vs. wf v \<Longrightarrow> mapE dec (map enc vs) = Inr vs"
  using dec_enc by (induction vs) auto

lemma list_dec_wf: "mapE dec ws = Inr vs \<Longrightarrow> \<forall>v \<in> set vs. wf v"
  by (auto dest: mapE_in_set dec_wf)

lemma optional_dec_enc: "\<forall>v \<in> set_option x. wf v \<Longrightarrow> decode_optional dec (map_option enc x) = Inr x"
  using dec_enc by (cases x) (auto simp: decode_optional_def)

lemma optional_dec_wf: "decode_optional dec y = Inr x \<Longrightarrow> \<forall>v \<in> set_option x. wf v"
  by (cases y) (auto simp: decode_optional_def bindE_Inr_iff dest: dec_wf)

lemma dec_onto: "wf v \<longleftrightarrow> (\<exists>w. dec w = Inr v)"
  using dec_enc dec_wf by blast

end

section \<open>Identifiers and addresses\<close>

definition wf_id :: "ScopedId \<Rightarrow> bool" where
  "wf_id i \<longleftrightarrow> accountKey i \<noteq> [] \<and> jmapId i \<noteq> []"

lemma decode_ids_Inr [throws_simps]:
  "decodeScopedMailboxId m = Inr i \<longleftrightarrow>
     wf_id i \<and> m = \<lparr>imAccountKey = accountKey i, jmapMailboxId = jmapId i\<rparr>"
  "decodeScopedEmailId e = Inr i \<longleftrightarrow>
     wf_id i \<and> e = \<lparr>ieAccountKey = accountKey i, jmapEmailId = jmapId i\<rparr>"
  "decodeScopedIdentityId d = Inr i \<longleftrightarrow>
     wf_id i \<and> d = \<lparr>iiAccountKey = accountKey i, jmapIdentityId = jmapId i\<rparr>"
  "decodeScopedThreadId t = Inr i \<longleftrightarrow>
     wf_id i \<and> t = \<lparr>itAccountKey = accountKey i, jmapThreadId = jmapId i\<rparr>"
  "decodeScopedBlobId b = Inr i \<longleftrightarrow>
     wf_id i \<and> b = \<lparr>ibAccountKey = accountKey i, jmapBlobId = jmapId i\<rparr>"
  by (cases m; cases e; cases d; cases t; cases b; cases i;
      auto simp: decodeScopedMailboxId_def decodeScopedEmailId_def decodeScopedIdentityId_def
        decodeScopedThreadId_def decodeScopedBlobId_def bindE_Inr_iff opaque_id_defs
        scoped_id_defs wf_id_def)+

lemmas encode_id_defs =
  encodeScopedMailboxId_def encodeScopedEmailId_def encodeScopedIdentityId_def
  encodeScopedThreadId_def encodeScopedBlobId_def

lemma encode_ids_inject [simp]:
  "encodeScopedMailboxId (i :: ScopedId) = encodeScopedMailboxId j \<longleftrightarrow> i = j"
  "encodeScopedEmailId (i :: ScopedId) = encodeScopedEmailId j \<longleftrightarrow> i = j"
  "encodeScopedIdentityId (i :: ScopedId) = encodeScopedIdentityId j \<longleftrightarrow> i = j"
  "encodeScopedThreadId (i :: ScopedId) = encodeScopedThreadId j \<longleftrightarrow> i = j"
  "encodeScopedBlobId (i :: ScopedId) = encodeScopedBlobId j \<longleftrightarrow> i = j"
  by (cases i; cases j; auto simp: encode_id_defs)+

interpretation mailbox_id: codec encodeScopedMailboxId decodeScopedMailboxId wf_id
  by unfold_locales (auto simp: throws_simps encode_id_defs)

interpretation email_id: codec encodeScopedEmailId decodeScopedEmailId wf_id
  by unfold_locales (auto simp: throws_simps encode_id_defs)

interpretation identity_id: codec encodeScopedIdentityId decodeScopedIdentityId wf_id
  by unfold_locales (auto simp: throws_simps encode_id_defs)

interpretation thread_id: codec encodeScopedThreadId decodeScopedThreadId wf_id
  by unfold_locales (auto simp: throws_simps encode_id_defs)

interpretation blob_id: codec encodeScopedBlobId decodeScopedBlobId wf_id
  by unfold_locales (auto simp: throws_simps encode_id_defs)

lemma decode_encode_address [simp]: "decodeAddress (encodeAddress a) = (a :: EmailAddress)"
  by (cases a) (simp add: decodeAddress_def encodeAddress_def emailAddress_def)

lemma decode_encode_addresses [simp]:
  "map (decodeAddress \<circ> encodeAddress) as = (as :: EmailAddress list)"
  by (simp add: map_idI)

lemma decode_encode_address_list [simp]: "decodeAddressList (encodeAddressList xs) = xs"
  by (cases xs) (simp_all add: decodeAddressList_def encodeAddressList_def)

section \<open>Entities\<close>

definition ipc_account :: "Account \<Rightarrow> bool" where
  "ipc_account a \<longleftrightarrow> acKey a \<noteq> [] \<and> rrServiceKey (acRemoteRef a) \<noteq> [] \<and>
     rrJmapAccountId (acRemoteRef a) \<noteq> []"

interpretation account: codec encodeAccount decodeAccount ipc_account
proof
  fix v :: Account and w :: IpcAccount
  obtain k r where v: "v = \<lparr>acKey = k, acRemoteRef = r\<rparr>" by (cases v)
  obtain s j where r: "r = \<lparr>rrServiceKey = s, rrJmapAccountId = j\<rparr>" by (cases r)
  show "ipc_account v \<Longrightarrow> decodeAccount (encodeAccount v) = Inr v"
    by (simp add: v r ipc_account_def decodeAccount_def encodeAccount_def opaque_id_defs
        opaqueIdFromString_def account_def remoteAccountRef_def)
  show "decodeAccount w = Inr v \<Longrightarrow> ipc_account v"
    by (auto simp: ipc_account_def decodeAccount_def bindE_Inr_iff opaque_id_defs account_def
        remoteAccountRef_def)
qed

definition ipc_mailbox :: "Mailbox \<Rightarrow> bool" where
  "ipc_mailbox m \<longleftrightarrow> valid_mailbox m \<and> wf_id (mbId m) \<and> (\<forall>p \<in> set_option (mbParent m). wf_id p)"

interpretation mailbox: codec encodeMailbox decodeMailbox ipc_mailbox
proof
  show "decodeMailbox (encodeMailbox v) = Inr v" if "ipc_mailbox v" for v
    using that by (cases v) (simp add: decodeMailbox_def encodeMailbox_def mailbox_id.dec_enc
        mailbox_id.optional_dec_enc mailbox_Inr ipc_mailbox_def)
  show "ipc_mailbox v" if "decodeMailbox w = Inr v" for v w
    using that by (auto simp: decodeMailbox_def bindE_Inr_iff mailbox_Inr ipc_mailbox_def
        dest: mailbox_id.dec_wf mailbox_id.optional_dec_wf)
qed

definition ipc_identity :: "Identity \<Rightarrow> bool" where
  "ipc_identity i \<longleftrightarrow> wf_id (idId i) \<and> idEmail i \<noteq> []"

interpretation identity: codec encodeIdentity decodeIdentity ipc_identity
proof
  show "decodeIdentity (encodeIdentity v) = Inr v" if "ipc_identity v" for v
    using that by (cases v) (simp add: decodeIdentity_def encodeIdentity_def identity_id.dec_enc
        identity_Inr ipc_identity_def)
  show "ipc_identity v" if "decodeIdentity w = Inr v" for v w
    using that by (auto simp: decodeIdentity_def bindE_Inr_iff identity_Inr ipc_identity_def
        dest: identity_id.dec_wf)
qed

definition ipc_email :: "Email \<Rightarrow> bool" where
  "ipc_email e \<longleftrightarrow> valid_email e \<and> wf_id (emId e) \<and> wf_id (emBlobId e) \<and> wf_id (emThreadId e)"

interpretation email: codec encodeEmail decodeEmail ipc_email
proof
  show "decodeEmail (encodeEmail v) = Inr v" if "ipc_email v" for v
    using that by (cases v) (simp add: decodeEmail_def encodeEmail_def email_id.dec_enc
        blob_id.dec_enc thread_id.dec_enc bindE_Inr_iff keywordSet_Inr email_Inr ipc_email_def
        valid_email_def accepted_email_def)
  show "ipc_email v" if "decodeEmail w = Inr v" for v w
    using that by (auto simp: decodeEmail_def bindE_Inr_iff ipc_email_def email_Inr
        dest: email_id.dec_wf blob_id.dec_wf thread_id.dec_wf email_valid)
      (auto simp: valid_email_def accepted_email_def)
qed

definition ipc_membership :: "EmailMailbox \<Rightarrow> bool" where
  "ipc_membership m \<longleftrightarrow> wf_id (mmEmailId m) \<and> wf_id (mmMailboxId m) \<and>
     accountKey (mmEmailId m) = accountKey (mmMailboxId m)"

interpretation membership: codec encodeEmailMailbox decodeEmailMailbox ipc_membership
proof
  show "decodeEmailMailbox (encodeEmailMailbox v) = Inr v" if "ipc_membership v" for v
    using that by (cases v) (simp add: decodeEmailMailbox_def encodeEmailMailbox_def
        email_id.dec_enc mailbox_id.dec_enc emailMailbox_Inr ipc_membership_def)
  show "ipc_membership v" if "decodeEmailMailbox w = Inr v" for v w
    using that by (auto simp: decodeEmailMailbox_def bindE_Inr_iff emailMailbox_Inr
        ipc_membership_def dest: email_id.dec_wf mailbox_id.dec_wf)
qed

definition ipc_body :: "EmailBody \<Rightarrow> bool" where
  "ipc_body b \<longleftrightarrow> wf_id (boEmailId b)"

interpretation body: codec encodeEmailBody decodeEmailBody ipc_body
proof
  show "decodeEmailBody (encodeEmailBody v) = Inr v" if "ipc_body v" for v
    using that by (cases v) (simp add: decodeEmailBody_def encodeEmailBody_def email_id.dec_enc
        ipc_body_def)
  show "ipc_body v" if "decodeEmailBody w = Inr v" for v w
    using that by (auto simp: decodeEmailBody_def bindE_Inr_iff ipc_body_def
        dest: email_id.dec_wf)
qed

definition ipc_attachment :: "AttachmentRef \<Rightarrow> bool" where
  "ipc_attachment a \<longleftrightarrow> valid_attachment a \<and> wf_id (atEmailId a) \<and> wf_id (atBlobId a)"

interpretation attachment: codec encodeAttachmentRef decodeAttachmentRef ipc_attachment
proof
  show "decodeAttachmentRef (encodeAttachmentRef v) = Inr v" if "ipc_attachment v" for v
    using that by (cases v) (simp add: decodeAttachmentRef_def encodeAttachmentRef_def
        email_id.dec_enc blob_id.dec_enc attachmentPartIdFromString_def attachmentRef_Inr
        ipc_attachment_def)
  show "ipc_attachment v" if "decodeAttachmentRef w = Inr v" for v w
    using that by (auto simp: decodeAttachmentRef_def bindE_Inr_iff attachmentRef_Inr
        ipc_attachment_def dest: email_id.dec_wf blob_id.dec_wf)
qed

section \<open>Views and cursors\<close>

definition ipc_spec :: "MailboxViewSpec \<Rightarrow> bool" where
  "ipc_spec s \<longleftrightarrow> wf_id (vsMailboxId s)"

interpretation spec: codec encodeMailboxViewSpec decodeMailboxViewSpec ipc_spec
proof
  show "decodeMailboxViewSpec (encodeMailboxViewSpec v) = Inr v" if "ipc_spec v" for v
  proof -
    obtain m f so where v: "v = \<lparr>vsMailboxId = m, vsFilter = f, vsSort = so\<rparr>" by (cases v)
    obtain p d where "so = \<lparr>soProperty = p, soDirection = d\<rparr>" by (cases so)
    with that v show ?thesis
      by (cases f; cases p)
        (simp add: decodeMailboxViewSpec_def encodeMailboxViewSpec_def mailbox_id.dec_enc
          mailboxViewSpec_def mailboxViewSort_def mailboxViewFilterAll_def ipc_spec_def)
  qed
  show "ipc_spec v" if "decodeMailboxViewSpec w = Inr v" for v w
    using that by (auto simp: decodeMailboxViewSpec_def bindE_Inr_iff mailboxViewSpec_def
        ipc_spec_def dest: mailbox_id.dec_wf)
qed

definition ipc_view :: "MailboxView \<Rightarrow> bool" where
  "ipc_view v \<longleftrightarrow> valid_view v \<and> ipc_spec (mvSpec v) \<and> mvQueryState v \<noteq> [] \<and>
     (\<forall>i \<in> set (mvItems v). wf_id (viEmailId i))"

definition ipc_item :: "MailboxViewItem \<Rightarrow> bool" where
  "ipc_item i \<longleftrightarrow> wf_id (viEmailId i) \<and> safe_nat (viPosition i)"

interpretation item: codec encode_item decode_item ipc_item
proof
  show "decode_item (encode_item v) = Inr v" if "ipc_item v" for v
    using that by (cases v) (simp add: decode_item_def encode_item_def email_id.dec_enc
        mailboxViewItem_def bindE_Inr_iff assertItemPosition_def assertNonNegativeSafeInteger_Inr
        ipc_item_def)
  show "ipc_item v" if "decode_item w = Inr v" for v w
    using that by (auto simp: decode_item_def bindE_Inr_iff mailboxViewItem_def
        assertItemPosition_def assertNonNegativeSafeInteger_Inr ipc_item_def dest: email_id.dec_wf)
qed

lemma coverage_range_Inr:
  "mailboxViewCoverageRange (crStart r) (crEnd r) = Inr r' \<longleftrightarrow> range_ok r \<and> r' = r"
  by (cases r) (auto simp: mailboxViewCoverageRange_def Let_def bindE_Inr_iff assertCoverageRangeShape_Inr)

lemma view_parts:
  assumes "valid_view v"
  shows "mapE (\<lambda>r. mailboxViewCoverageRange (crStart r) (crEnd r)) (mvCoverage v) = Inr (mvCoverage v)"
    and "i \<in> set (mvItems v) \<Longrightarrow> safe_nat (viPosition i)"
proof -
  show "mapE (\<lambda>r. mailboxViewCoverageRange (crStart r) (crEnd r)) (mvCoverage v) = Inr (mvCoverage v)"
    using assms by (intro mapE_id) (simp add: coverage_range_Inr valid_view_def coverage_ok_def)
  show "i \<in> set (mvItems v) \<Longrightarrow> safe_nat (viPosition i)"
    using assms by (simp add: valid_view_def items_ok_def)
qed

interpretation view: codec encodeMailboxView decodeMailboxView ipc_view
proof
  show "decodeMailboxView (encodeMailboxView v) = Inr v" if "ipc_view v" for v
  proof -
    have "\<forall>i \<in> set (mvItems v). ipc_item i"
      using that view_parts(2) by (auto simp: ipc_view_def ipc_item_def)
    from item.list_dec_enc [OF this] that view_parts(1) [of v] show ?thesis
      by (cases v) (simp add: decodeMailboxView_def encodeMailboxView_def spec.dec_enc
           mailboxView_Inr ipc_view_def mailboxViewQueryStateFromString_def)
  qed
  show "ipc_view v" if "decodeMailboxView w = Inr v" for v w
    using that by (auto simp: decodeMailboxView_def bindE_Inr_iff mailboxView_Inr ipc_view_def
        mailboxViewQueryStateFromString_def ipc_item_def dest: spec.dec_wf item.list_dec_wf)
qed

definition ipc_cursor :: "CollectionSyncCursor \<Rightarrow> bool" where
  "ipc_cursor c \<longleftrightarrow> cuAccountKey c \<noteq> []"

interpretation cursor: codec encodeCursor decodeCursor ipc_cursor
proof
  show "decodeCursor (encodeCursor v) = Inr v" if "ipc_cursor v" for v
    using that by (cases v) (simp add: decodeCursor_def encodeCursor_def opaque_id_defs
        opaqueIdFromString_def collectionSyncStateFromString_def ipc_cursor_def)
  show "ipc_cursor v" if "decodeCursor w = Inr v" for v w
    using that by (auto simp: decodeCursor_def bindE_Inr_iff opaque_id_defs ipc_cursor_def)
qed

section \<open>Mutations\<close>

definition ipc_intent :: "SendIntent \<Rightarrow> bool" where
  "ipc_intent i \<longleftrightarrow> valid_intent i \<and> wf_id (siIdentityId i)"

lemma mergeBcc_distinct: "distinct (map adEmail xs) \<Longrightarrow> mergeBcc xs None = xs"
proof -
  have "mergeBcc_loop xs acc seen = acc @ xs"
    if "distinct (map adEmail xs)" "adEmail ` set xs \<inter> set seen = {}" for acc seen
    using that by (induction xs arbitrary: acc seen) auto
  from this [of "[]" "[]"] show "distinct (map adEmail xs) \<Longrightarrow> mergeBcc xs None = xs"
    by (simp add: mergeBcc_def)
qed

lemma usable_email: "usable_address a \<Longrightarrow> adEmail a \<noteq> []"
  by (auto simp: usable_address_def)

interpretation intent: codec encodeSendIntent decodeSendIntent ipc_intent
proof
  show "decodeSendIntent (encodeSendIntent v) = Inr v" if v: "ipc_intent v" for v
  proof -
    obtain n where n: "adName (siFrom v) = Some n" using v by (auto simp: ipc_intent_def valid_intent_def)
    have checked: "mapE assertUsableOutboundAddress ([siFrom v] @ siReplyTo v @ siTo v @ siCc v @ siBcc v) =
        Inr (map (\<lambda>_. ()) ([siFrom v] @ siReplyTo v @ siTo v @ siCc v @ siBcc v))"
      unfolding mapE_unit_Inr
      using v by (auto simp: assertUsableOutboundAddress_Inr ipc_intent_def valid_intent_def)
    have from_id: "emailAddress (Some n) (adEmail (siFrom v)) = siFrom v"
      using n by (cases "siFrom v") (simp add: emailAddress_def)
    have "adEmail (siFrom v) \<noteq> []" "siTo v @ siCc v @ siBcc v \<noteq> []" "wf_id (siIdentityId v)"
      "mergeBcc (siBcc v) None = siBcc v" "\<not> js_startsWith (adEmail (siFrom v)) (js ''*@'')"
      using v by (simp_all add: ipc_intent_def valid_intent_def usable_email mergeBcc_distinct)
    then show ?thesis
      using checked n
      by (simp add: decodeSendIntent_def encodeSendIntent_def Let_def identity_id.dec_enc
          identity_def sendIntent_def isWildcardIdentity_def from_id)
  qed
  show "ipc_intent v" if "decodeSendIntent w = Inr v" for v w
  proof -
    from that obtain i input where i: "decodeScopedIdentityId (isiIdentityId w) = Inr i" and
      v: "sendIntent input = Inr v" "idId (sniIdentity input) = i"
      by (auto simp: decodeSendIntent_def Let_def bindE_Inr_iff identity_Inr split: option.splits)
    then have "siIdentityId v = i"
      by (auto simp: sendIntent_def Let_def bindE_Inr_iff)
    with identity_id.dec_wf [OF i] sendIntent_valid [OF v(1)] show ?thesis
      by (simp add: ipc_intent_def)
  qed
qed

text \<open>A lifecycle whose strings are not empty.\<close>

fun ipc_lifecycle :: "MutationLifecycle \<Rightarrow> bool" where
  "ipc_lifecycle (Retrying n t) = (t \<noteq> [])"
| "ipc_lifecycle (ConfirmedSend n c) = wf_id (scEmailId c)"
| "ipc_lifecycle _ = True"

lemma assertAttemptCount_Inr [throws_simps]:
  "assertAttemptCount n p = Inr u \<longleftrightarrow> (if p then n = JInt 0 else started n)"
  by (cases n) (auto simp: assertAttemptCount_def started_def isSafeInteger_def num_eq_def)

lemma decodeSendLifecycle_Inr:
  "decodeSendLifecycle (encodeSendLifecycle l) ak = Inr l"
  if "lifecycle_wf True ak l" "ipc_lifecycle l"
proof -
  have counted: "assertAttemptCount n False = Inr ()" if "started n" for n
    using that by (simp add: assertAttemptCount_Inr)
  have zero: "assertAttemptCount (JInt 0) True = Inr ()" by (simp add: assertAttemptCount_Inr)
  show ?thesis
  proof (cases l)
    case (ConfirmedSend n c)
    with that show ?thesis
      by (cases c) (simp add: decodeSendLifecycle_def counted email_id.dec_enc)
  qed (use that in \<open>simp_all add: decodeSendLifecycle_def counted zero mutationInstantFromString_def\<close>)
qed

lemma decodeUpdateLifecycle_Inr:
  "decodeUpdateLifecycle (encodeUpdateLifecycle l) = Inr l"
  if "lifecycle_wf False ak l" "ipc_lifecycle l"
proof -
  have counted: "assertAttemptCount n False = Inr ()" if "started n" for n
    using that by (simp add: assertAttemptCount_Inr)
  have zero: "assertAttemptCount (JInt 0) True = Inr ()" by (simp add: assertAttemptCount_Inr)
  show ?thesis
    by (cases l) (use that in \<open>simp_all add: decodeUpdateLifecycle_def counted zero
        mutationInstantFromString_def\<close>)
qed

lemma decoded_lifecycle:
  "decodeSendLifecycle w ak = Inr l \<Longrightarrow> lifecycle_wf True ak l \<and> ipc_lifecycle l"
  "decodeUpdateLifecycle w = Inr l \<Longrightarrow> lifecycle_wf False ak l \<and> ipc_lifecycle l"
  by (cases w; auto simp: decodeSendLifecycle_def decodeUpdateLifecycle_def bindE_Inr_iff
      assertAttemptCount_Inr mutationInstantFromString_def decode_ids_Inr
      split: option.splits if_splits)+

definition ipc_mutation :: "PendingMutation \<Rightarrow> bool" where
  "ipc_mutation m \<longleftrightarrow>
     wf_mutation m \<and> pmAccountKey m \<noteq> [] \<and> pmMutationId m \<noteq> [] \<and> pmCreatedAt m \<noteq> [] \<and>
     ipc_lifecycle (pmLifecycle m) \<and>
     (case pmPayload m of
        PSend i \<Rightarrow> ipc_intent i
      | PKeyword e c \<Rightarrow> wf_id e
      | PMembership e c \<Rightarrow> wf_id e \<and> (\<forall>i \<in> set (mcAdd c) \<union> set (mcRemove c). wf_id i))"

lemma opaque_returns:
  "v \<noteq> [] \<Longrightarrow> accountKeyFromString v = Inr v" "v \<noteq> [] \<Longrightarrow> mutationIdFromString v = Inr v"
  "v \<noteq> [] \<Longrightarrow> mutationInstantFromString v = Inr v"
  by (simp_all add: opaque_id_defs mutationInstantFromString_def)

lemma copied_changes [simp]:
  "\<lparr>kcAdd = kcAdd c, kcRemove = kcRemove c\<rparr> = (c :: KeywordChange)"
  "\<lparr>mcAdd = mcAdd d, mcRemove = mcRemove d\<rparr> = (d :: MailboxMembershipChange)"
  by simp_all

lemma mutation_dec_enc:
  assumes "ipc_mutation m"
  shows "decodePendingMutation (encodePendingMutation m) = Inr m"
proof (cases "pmPayload m")
  case (PSend i)
  with assms have "decodeSendLifecycle (encodeSendLifecycle (pmLifecycle m)) (pmAccountKey m) =
      Inr (pmLifecycle m)" "decodeSendIntent (encodeSendIntent i) = Inr i"
    by (auto intro!: decodeSendLifecycle_Inr intent.dec_enc
        simp: ipc_mutation_def wf_mutation_def is_send_def)
  with assms PSend show ?thesis
    by (cases m) (simp add: decodePendingMutation_def encodePendingMutation_def opaque_returns
        ipc_mutation_def sendMutation_def wf_mutation_def)
next
  case (PKeyword e c)
  have "decodeUpdateLifecycle (encodeUpdateLifecycle (pmLifecycle m)) = Inr (pmLifecycle m)"
    by (rule decodeUpdateLifecycle_Inr [where ak = "pmAccountKey m"])
       (use assms PKeyword in \<open>simp_all add: ipc_mutation_def wf_mutation_def is_send_def\<close>)
  moreover have c: "valid_keyword_change c" "accountKey e = pmAccountKey m" "wf_id e"
    using assms PKeyword by (simp_all add: ipc_mutation_def wf_mutation_def)
  moreover have "keywordSet (kcAdd c) = Inr (kcAdd c)" "keywordSet (kcRemove c) = Inr (kcRemove c)"
    using c(1) by (auto simp: keywordSet_Inr valid_keyword_change_def)
  ultimately show ?thesis
    using assms PKeyword keywordChange_valid_id [OF c(1)]
    by (cases m) (simp add: decodePendingMutation_def encodePendingMutation_def opaque_returns
        ipc_mutation_def keywordMutation_def email_id.dec_enc)
next
  case (PMembership e c)
  have "decodeUpdateLifecycle (encodeUpdateLifecycle (pmLifecycle m)) = Inr (pmLifecycle m)"
    by (rule decodeUpdateLifecycle_Inr [where ak = "pmAccountKey m"])
       (use assms PMembership in \<open>simp_all add: ipc_mutation_def wf_mutation_def is_send_def\<close>)
  moreover have c: "valid_membership_change (pmAccountKey m) c" "accountKey e = pmAccountKey m"
    "wf_id e" "\<forall>i \<in> set (mcAdd c). wf_id i" "\<forall>i \<in> set (mcRemove c). wf_id i"
    using assms PMembership by (simp_all add: ipc_mutation_def wf_mutation_def)
  moreover have "mailboxMembershipChange c = Inr c"
    using c(1) by (simp add: mailboxMembershipChange_Inr valid_membership_change_def)
  moreover have "\<not> list_ex (\<lambda>i. accountKey i \<noteq> pmAccountKey m) (mcAdd c @ mcRemove c)"
    using c(1) by (auto simp: list_ex_iff valid_membership_change_def)
  ultimately show ?thesis
    using assms PMembership mailbox_id.list_dec_enc [OF c(4)] mailbox_id.list_dec_enc [OF c(5)]
    by (cases m) (simp add: decodePendingMutation_def encodePendingMutation_def opaque_returns
        ipc_mutation_def mailboxMembershipMutation_def email_id.dec_enc)
qed

lemma mutation_dec_wf:
  assumes "decodePendingMutation w = Inr m"
  shows "ipc_mutation m"
proof -
  obtain owner mid t where common: "accountKeyFromString (ipmAccountKey w) = Inr owner"
    "mutationIdFromString (ipmMutationId w) = Inr mid" "mutationInstantFromString (ipmCreatedAt w) = Inr t"
    using assms by (auto simp: decodePendingMutation_def bindE_Inr_iff)
  then have ne: "owner \<noteq> []" "mid \<noteq> []" "t \<noteq> []"
    by (auto simp: opaque_id_defs mutationInstantFromString_def)
  show ?thesis
  proof (cases "ipmPayload w")
    case (IpcSend i)
    with assms common ne show ?thesis
      by (auto simp: decodePendingMutation_def bindE_Inr_iff sendMutation_def ipc_mutation_def
          wf_mutation_def is_send_def dest: decoded_lifecycle intent.dec_wf)
  next
    case (IpcKeyword e c)
    with assms common ne show ?thesis
      by (auto simp: decodePendingMutation_def bindE_Inr_iff keywordMutation_def ipc_mutation_def
          wf_mutation_def is_send_def dest: decoded_lifecycle email_id.dec_wf keywordChange_valid)
  next
    case (IpcMembership e c)
    with assms common obtain i add remove d base l where parts:
      "decodeScopedEmailId e = Inr i" "mapE decodeScopedMailboxId (imcAdd c) = Inr add"
      "mapE decodeScopedMailboxId (imcRemove c) = Inr remove"
      "mailboxMembershipChange \<lparr>mcAdd = add, mcRemove = remove\<rparr> = Inr d"
      "mailboxMembershipMutation mid owner t i d = Inr base"
      "decodeUpdateLifecycle (ipmLifecycle w) = Inr l" "m = base\<lparr>pmLifecycle := l\<rparr>"
      by (auto simp: decodePendingMutation_def bindE_Inr_iff)
    have "wf_id i" "\<forall>v \<in> set add. wf_id v" "\<forall>v \<in> set remove. wf_id v"
      "lifecycle_wf False owner l" "ipc_lifecycle l"
      using parts email_id.dec_wf mailbox_id.list_dec_wf decoded_lifecycle by blast+
    with parts ne show ?thesis
      by (auto simp: mailboxMembershipMutation_def bindE_Inr_iff mailboxMembershipChange_Inr
          ipc_mutation_def wf_mutation_def is_send_def list_ex_iff valid_membership_change_def)
  qed
qed

interpretation mutation: codec encodePendingMutation decodePendingMutation ipc_mutation
  by unfold_locales (fact mutation_dec_enc mutation_dec_wf)+

section \<open>Commits\<close>

text \<open>The encodings that have no decoder on this side lose nothing either.\<close>

lemma encode_address_inject [simp]: "encodeAddress (a :: EmailAddress) = encodeAddress b \<longleftrightarrow> a = b"
  by (metis decode_encode_address)

lemma encode_address_list_inject [simp]: "encodeAddressList xs = encodeAddressList ys \<longleftrightarrow> xs = ys"
  by (metis decode_encode_address_list)

lemma map_option_inject: "(\<And>a b. f a = f b \<longleftrightarrow> a = b) \<Longrightarrow> map_option f x = map_option f y \<longleftrightarrow> x = y"
  by (cases x; cases y) auto

lemma map_inject: "(\<And>a b. f a = f b \<longleftrightarrow> a = b) \<Longrightarrow> map f xs = map f ys \<longleftrightarrow> xs = ys"
  by (induction xs arbitrary: ys) (auto simp: Cons_eq_map_conv)

lemma encode_entities_inject [simp]:
  "encodeMailbox (m :: Mailbox) = encodeMailbox m' \<longleftrightarrow> m = m'"
  "encodeIdentity (i :: Identity) = encodeIdentity i' \<longleftrightarrow> i = i'"
  "encodeEmail (e :: Email) = encodeEmail e' \<longleftrightarrow> e = e'"
  "encodeEmailMailbox (mm :: EmailMailbox) = encodeEmailMailbox mm' \<longleftrightarrow> mm = mm'"
  "encodeCursor (c :: CollectionSyncCursor) = encodeCursor c' \<longleftrightarrow> c = c'"
proof -
  show "encodeMailbox (m :: Mailbox) = encodeMailbox m' \<longleftrightarrow> m = m'"
    by (cases m; cases m') (auto simp: encodeMailbox_def map_option_inject)
  show "encodeIdentity (i :: Identity) = encodeIdentity i' \<longleftrightarrow> i = i'"
    by (cases i; cases i') (auto simp: encodeIdentity_def)
  show "encodeEmail (e :: Email) = encodeEmail e' \<longleftrightarrow> e = e'"
    by (cases e; cases e') (auto simp: encodeEmail_def)
  show "encodeEmailMailbox (mm :: EmailMailbox) = encodeEmailMailbox mm' \<longleftrightarrow> mm = mm'"
    by (cases mm; cases mm') (auto simp: encodeEmailMailbox_def)
  show "encodeCursor (c :: CollectionSyncCursor) = encodeCursor c' \<longleftrightarrow> c = c'"
    by (cases c; cases c') (auto simp: encodeCursor_def)
qed

lemma encode_record_inject [simp]:
  "encode_record (r :: EmailSyncRecord) = encode_record r' \<longleftrightarrow> r = r'"
  by (cases r; cases r') (auto simp: encode_record_def map_inject)

lemma encodePrecondition_inject [simp]: "encodePrecondition p = encodePrecondition q \<longleftrightarrow> p = q"
  by (cases p; cases q) (auto simp: encodePrecondition_def)

lemma encode_mode_inject:
  assumes "\<And>a b. enc a = enc b \<longleftrightarrow> a = b" "\<And>a b. encId a = encId b \<longleftrightarrow> a = b"
  shows "encode_mode enc encId m = encode_mode enc encId m' \<longleftrightarrow> m = m'"
  using assms by (cases m; cases m') (auto simp: map_inject)

lemma encode_commit_inject:
  "encodeCollectionSyncCommit c = encodeCollectionSyncCommit c' \<longleftrightarrow> c = c'"
  by (cases c; cases c') (auto simp: encode_mode_inject)

end
