(* ===== verification/Ipc_Client.thy ===== *)
theory Ipc_Client
  imports Ipc_Codecs
begin

text \<open>
  \<open>src/src/ipc/local-engine-ipc-client.ts\<close>: the typed client of the native engine. The engine
  is behind \<open>invoke\<close> and is not part of the sources modelled here: a client is one function
  per command (\<open>ipc/commands.ts\<close>), from its request to whatever the engine does. A request
  object of one field is that field. A reply either passes the envelope test of \<open>call\<close> or is
  malformed.
\<close>

datatype 'a IpcReply = Reply "'a IpcResult" | MalformedReply

text \<open>What a client method throws: a transport failure with its cause.\<close>

datatype ipc_thrown = TransportFailure exn | OtherThrown exn

record 's LocalEngineIpcClient =
  ivReadAccount :: "jsstring \<Rightarrow> ('s, exn, IpcAccount IpcLocalEntityRead IpcReply) eff"
  ivListAccounts :: "('s, exn, IpcAccount list IpcReply) eff"
  ivReadMailbox :: "IpcScopedMailboxId \<Rightarrow> ('s, exn, IpcMailbox IpcLocalEntityRead IpcReply) eff"
  ivListMailboxes :: "jsstring \<Rightarrow> ('s, exn, IpcMailbox list IpcOwnedSnapshotRead IpcReply) eff"
  ivReadIdentity :: "IpcScopedIdentityId \<Rightarrow> ('s, exn, IpcIdentity IpcLocalEntityRead IpcReply) eff"
  ivListIdentities :: "jsstring \<Rightarrow> ('s, exn, IpcIdentity list IpcOwnedSnapshotRead IpcReply) eff"
  ivReadEmail :: "IpcScopedEmailId \<Rightarrow> ('s, exn, IpcEmail IpcLocalEntityRead IpcReply) eff"
  ivReadEmails :: "IpcScopedEmailId list \<Rightarrow> ('s, exn, IpcEmail IpcLocalEntityRead list IpcReply) eff"
  ivReadEmailMemberships :: "IpcScopedEmailId \<Rightarrow> ('s, exn, IpcEmailMailbox list IpcOwnedSnapshotRead IpcReply) eff"
  ivReadEmailBody :: "IpcScopedEmailId \<Rightarrow> ('s, exn, IpcEmailBody IpcOwnedCacheRead IpcReply) eff"
  ivReadAttachmentRefs :: "IpcScopedEmailId \<Rightarrow> ('s, exn, IpcAttachmentRef list IpcOwnedCacheRead IpcReply) eff"
  ivReadMailboxView :: "IpcMailboxViewSpec \<Rightarrow> ('s, exn, IpcMailboxView IpcOwnedCacheRead IpcReply) eff"
  ivReadCollectionSyncCursor :: "IpcReadCursorRequest \<Rightarrow> ('s, exn, IpcCollectionSyncCursor IpcOwnedOptionalRead IpcReply) eff"
  ivReadPendingMutation :: "IpcReadMutationRequest \<Rightarrow> ('s, exn, IpcPendingMutation IpcOwnedOptionalRead IpcReply) eff"
  ivListPendingMutations :: "jsstring \<Rightarrow> ('s, exn, IpcPendingMutation list IpcOwnedSnapshotRead IpcReply) eff"
  ivRegisterAccount :: "IpcAccount \<Rightarrow> ('s, exn, IpcWriteValue IpcReply) eff"
  ivApplyCollectionSync :: "IpcCollectionSyncCommit \<Rightarrow> ('s, exn, IpcWriteValue IpcReply) eff"
  ivCacheEmailBody :: "IpcEmailBody \<Rightarrow> ('s, exn, IpcWriteValue IpcReply) eff"
  ivReplaceAttachmentRefs :: "IpcReplaceAttachmentRefsRequest \<Rightarrow> ('s, exn, IpcWriteValue IpcReply) eff"
  ivReplaceMailboxView :: "IpcMailboxView \<Rightarrow> ('s, exn, IpcWriteValue IpcReply) eff"
  ivStageSendMutation :: "IpcPendingMutation \<Rightarrow> ('s, exn, IpcWriteValue IpcReply) eff"
  ivApplyOptimisticKeywordMutation :: "IpcPendingMutation \<Rightarrow> ('s, exn, IpcWriteValue IpcReply) eff"
  ivApplyOptimisticMailboxMembershipMutation :: "IpcPendingMutation \<Rightarrow> ('s, exn, IpcWriteValue IpcReply) eff"
  ivReplacePendingMutationIfCurrent :: "IpcReplaceMutationRequest \<Rightarrow> ('s, exn, IpcWriteValue IpcReply) eff"
  ivRemoveConfirmedMutation :: "IpcReadMutationRequest \<Rightarrow> ('s, exn, IpcWriteValue IpcReply) eff"
  ivListen :: "('s, exn, unit) eff"

definition ipc_call :: "('s, exn, 'a IpcReply) eff \<Rightarrow> ('s, ipc_thrown, 'a IpcResult) eff" where
  "ipc_call invoke s =
     (case invoke s of
        (Inl cause, t) \<Rightarrow> (Inl (TransportFailure cause), t)
      | (Inr (Reply result), t) \<Rightarrow> (Inr result, t)
      | (Inr MalformedReply, t) \<Rightarrow>
          (Inl (TransportFailure
             (TypeError (js ''Malformed Local Engine IPC response envelope''))), t))"

text \<open>
  The handler of an engine event. The payload is none when it does not have a list of hints.
\<close>

definition ipc_event ::
  "(IpcLocalChangeHint list \<Rightarrow> ('s, exn, unit) eff) \<Rightarrow> IpcLocalChangeHint list option \<Rightarrow>
   ('s, exn, unit) eff" where
  "ipc_event listener payload =
     (case payload of
        None \<Rightarrow> throwM (TypeError (js ''Malformed Local Engine change batch''))
      | Some hints \<Rightarrow>
          if length hints = 0 then throwM (TypeError (js ''Malformed Local Engine change batch''))
          else listener hints)"

definition listenLocalStateChanged ::
  "('s, 'x) LocalEngineIpcClient_scheme \<Rightarrow> ('s, ipc_thrown, unit) eff" where
  "listenLocalStateChanged client s =
     (case ivListen client s of
        (Inl cause, t) \<Rightarrow> (Inl (TransportFailure cause), t)
      | (Inr u, t) \<Rightarrow> (Inr u, t))"

end
