(* ===== verification/Port_Interfaces.thy ===== *)
theory Port_Interfaces
  imports Ports
begin

text \<open>
  The interfaces \<open>ReadRepository\<close> (\<open>src/src/ports/read-repository.ts\<close>) and \<open>SyncPort\<close>
  (\<open>src/src/ports/sync-port.ts\<close>) as records of operations over a world. The memory engine and the
  Tauri adapters implement them, and clients take them as arguments.
\<close>

record 's ReadRepository =
  qReadAccount :: "AccountKey \<Rightarrow> 
    ('s, exn, Account LocalEntityRead ReadResult) eff"
  qListAccounts :: "
    ('s, exn, Account list ReadResult) eff"
  qReadMailbox :: "ScopedMailboxId \<Rightarrow> 
    ('s, exn, Mailbox LocalEntityRead ReadResult) eff"
  qListMailboxes :: "AccountKey \<Rightarrow> 
    ('s, exn, Mailbox list OwnedSnapshotRead ReadResult) eff"
  qReadIdentity :: "ScopedIdentityId \<Rightarrow> 
    ('s, exn, Identity LocalEntityRead ReadResult) eff"
  qListIdentities :: "AccountKey \<Rightarrow> 
    ('s, exn, Identity list OwnedSnapshotRead ReadResult) eff"
  qReadEmail :: "ScopedEmailId \<Rightarrow> 
    ('s, exn, Email LocalEntityRead ReadResult) eff"
  qReadEmails :: "ScopedEmailId list \<Rightarrow> 
    ('s, exn, Email LocalEntityRead list ReadResult) eff"
  qReadEmailMemberships :: "ScopedEmailId \<Rightarrow> 
    ('s, exn, EmailMailbox list OwnedSnapshotRead ReadResult) eff"
  qReadEmailBody :: "ScopedEmailId \<Rightarrow> 
    ('s, exn, EmailBody OwnedCacheRead ReadResult) eff"
  qReadAttachmentRefs :: "ScopedEmailId \<Rightarrow> 
    ('s, exn, AttachmentRef list OwnedCacheRead ReadResult) eff"
  qReadMailboxView :: "MailboxViewSpec \<Rightarrow> 
    ('s, exn, MailboxView OwnedCacheRead ReadResult) eff"
  qReadCollectionSyncCursor :: "AccountKey \<Rightarrow> CollectionDataType \<Rightarrow> 
    ('s, exn, CollectionSyncCursor OwnedOptionalRead ReadResult) eff"
  qReadPendingMutation :: "AccountKey \<Rightarrow> MutationId \<Rightarrow> 
    ('s, exn, PendingMutation OwnedOptionalRead ReadResult) eff"
  qListPendingMutations :: "AccountKey \<Rightarrow> 
    ('s, exn, PendingMutation list OwnedSnapshotRead ReadResult) eff"

record 's SyncPort =
  wRegisterAccount :: "Account \<Rightarrow> ('s, exn, WriteResult) eff"
  wApplyCollectionSync :: "CollectionSyncCommit \<Rightarrow> ('s, exn, WriteResult) eff"
  wCacheEmailBody :: "EmailBody \<Rightarrow> ('s, exn, WriteResult) eff"
  wReplaceAttachmentRefs :: "ScopedEmailId \<Rightarrow> AttachmentRef list \<Rightarrow> ('s, exn, WriteResult) eff"
  wReplaceMailboxView :: "MailboxView \<Rightarrow> ('s, exn, WriteResult) eff"
  wStageSendMutation :: "PendingMutation \<Rightarrow> ('s, exn, WriteResult) eff"
  wApplyOptimisticKeywordMutation :: "PendingMutation \<Rightarrow> ('s, exn, WriteResult) eff"
  wApplyOptimisticMailboxMembershipMutation :: "PendingMutation \<Rightarrow> ('s, exn, WriteResult) eff"
  wReplacePendingMutationIfCurrent :: "PendingMutation \<Rightarrow> PendingMutation \<Rightarrow> ('s, exn, WriteResult) eff"
  wRemoveConfirmedMutation :: "AccountKey \<Rightarrow> MutationId \<Rightarrow> ('s, exn, WriteResult) eff"

end
