(* ===== verification/Tauri_Adapters.thy ===== *)
theory Tauri_Adapters
  imports Ipc_Client Port_Interfaces
begin

text \<open>
  \<open>src/src/adapters/tauri\<close>: the read repository, the sync port and the change source over the
  client of the native engine. They implement the interfaces of \<open>Port_Interfaces\<close>.
\<close>

section \<open>Results\<close>

definition mapTransportFailure :: "ipc_thrown \<Rightarrow> LocalReadError" where
  "mapTransportFailure value =
     (case value of
        TransportFailure (TypeError _) \<Rightarrow> RdUnexpected
      | _ \<Rightarrow> RdUnavailable)"

text \<open>The write errors include the read errors.\<close>

definition read_as_write_error :: "LocalReadError \<Rightarrow> LocalWriteError" where
  "read_as_write_error e =
     (case e of RdUnavailable \<Rightarrow> WrUnavailable | RdCorruptState \<Rightarrow> WrCorruptState
      | RdUnexpected \<Rightarrow> WrUnexpected)"

definition read_error_of :: "jsstring \<Rightarrow> LocalReadError" where
  "read_error_of kind =
     (if kind = js ''unavailable'' then RdUnavailable
      else if kind = js ''corruptState'' then RdCorruptState
      else RdUnexpected)"

definition write_error_of :: "jsstring \<Rightarrow> LocalWriteError" where
  "write_error_of kind =
     (if kind = js ''conflict'' then WrConflict else read_as_write_error (read_error_of kind))"

section \<open>The read repository\<close>

definition tauri_read ::
  "('s, ipc_thrown, 'i IpcResult) eff \<Rightarrow> ('i \<Rightarrow> 'o throws) \<Rightarrow> ('s, exn, 'o ReadResult) eff" where
  "tauri_read call decode s =
     (case call s of
        (Inl cause, t) \<Rightarrow> (Inr (PortErr (mapTransportFailure cause)), t)
      | (Inr (IpcErr kind), t) \<Rightarrow> (Inr (PortErr (read_error_of kind)), t)
      | (Inr (IpcOk value), t) \<Rightarrow>
          (case decode value of
             Inl _ \<Rightarrow> (Inr (PortErr RdCorruptState), t)
           | Inr v \<Rightarrow> (Inr (PortOk v), t)))"

definition decode_entity ::
  "'i IpcLocalEntityRead \<Rightarrow> ('i \<Rightarrow> 'o throws) \<Rightarrow> 'o LocalEntityRead throws" where
  "decode_entity value decode =
     (case value of
        IpcAbsent \<Rightarrow> Inr EntityAbsent
      | IpcPresent v \<Rightarrow> bindE (decode v) (\<lambda>d. Inr (EntityPresent d))
      | IpcUnknownEntity \<Rightarrow> Inl (TypeError (js ''Invalid local entity presence'')))"

definition decode_snapshot ::
  "'i list IpcOwnedSnapshotRead \<Rightarrow> ('i \<Rightarrow> 'o throws) \<Rightarrow> 'o list OwnedSnapshotRead throws" where
  "decode_snapshot value decode =
     (case value of
        IpcSnapshotOwnerAbsent \<Rightarrow> Inr SnapshotOwnerAbsent
      | IpcSnapshot vs \<Rightarrow> bindE (mapE decode vs) (\<lambda>ds. Inr (SnapshotPresent ds))
      | IpcUnknownSnapshot \<Rightarrow> Inl (TypeError (js ''Invalid owned snapshot presence'')))"

definition decode_cache ::
  "'i IpcOwnedCacheRead \<Rightarrow> ('i \<Rightarrow> 'o throws) \<Rightarrow> 'o OwnedCacheRead throws" where
  "decode_cache value decode =
     (case value of
        IpcCached v \<Rightarrow> bindE (decode v) (\<lambda>d. Inr (CacheCached d))
      | IpcCacheOwnerAbsent \<Rightarrow> Inr CacheOwnerAbsent
      | IpcNotCached \<Rightarrow> Inr CacheNotCached
      | IpcUnknownCache \<Rightarrow> Inl (TypeError (js ''Invalid owned cache presence'')))"

definition decode_optional_read ::
  "'i IpcOwnedOptionalRead \<Rightarrow> ('i \<Rightarrow> 'o throws) \<Rightarrow> 'o OwnedOptionalRead throws" where
  "decode_optional_read value decode =
     (case value of
        IpcOptional v \<Rightarrow> bindE (decode v) (\<lambda>d. Inr (OptionalPresent d))
      | IpcOptionalOwnerAbsent \<Rightarrow> Inr OptionalOwnerAbsent
      | IpcOptionalAbsent \<Rightarrow> Inr OptionalAbsent
      | IpcUnknownOptional \<Rightarrow> Inl (TypeError (js ''Invalid owned optional presence'')))"

text \<open>The decoder of \<open>readEmails\<close>: the item at an index answers the identifier at that index.\<close>

definition decode_email_at ::
  "ScopedEmailId \<times> IpcEmail IpcLocalEntityRead \<Rightarrow> Email LocalEntityRead throws" where
  "decode_email_at p =
     bindE (decode_entity (snd p) decodeEmail) (\<lambda>decoded.
     case decoded of
       EntityPresent e \<Rightarrow>
         throw_if (\<not> sameScopedEmailId (emId e) (fst p))
           (TypeError (js ''Bulk Email response position mismatch'')) (Inr decoded)
     | EntityAbsent \<Rightarrow> Inr decoded)"

definition decode_emails ::
  "ScopedEmailId list \<Rightarrow> IpcEmail IpcLocalEntityRead list \<Rightarrow> Email LocalEntityRead list throws" where
  "decode_emails ids value =
     throw_if (length value \<noteq> length ids)
       (TypeError (js ''Bulk Email response length mismatch''))
       (mapE decode_email_at (zip ids value))"

definition TauriReadRepository ::
  "('s, 'x) LocalEngineIpcClient_scheme \<Rightarrow> 's ReadRepository" where
  "TauriReadRepository client =
     \<lparr>qReadAccount = (\<lambda>key. tauri_read (ipc_call (ivReadAccount client (encodeAccountKey key)))
          (\<lambda>value. decode_entity value decodeAccount)),
      qListAccounts = (tauri_read (ipc_call (ivListAccounts client))
          (mapE decodeAccount)),
      qReadMailbox = (\<lambda>i. tauri_read (ipc_call (ivReadMailbox client (encodeScopedMailboxId i)))
          (\<lambda>value. decode_entity value decodeMailbox)),
      qListMailboxes = (\<lambda>key. tauri_read (ipc_call (ivListMailboxes client (encodeAccountKey key)))
          (\<lambda>value. decode_snapshot value decodeMailbox)),
      qReadIdentity = (\<lambda>i. tauri_read (ipc_call (ivReadIdentity client (encodeScopedIdentityId i)))
          (\<lambda>value. decode_entity value decodeIdentity)),
      qListIdentities = (\<lambda>key. tauri_read (ipc_call (ivListIdentities client (encodeAccountKey key)))
          (\<lambda>value. decode_snapshot value decodeIdentity)),
      qReadEmail = (\<lambda>i. tauri_read (ipc_call (ivReadEmail client (encodeScopedEmailId i)))
          (\<lambda>value. decode_entity value decodeEmail)),
      qReadEmails = (\<lambda>ids. tauri_read (ipc_call (ivReadEmails client (map encodeScopedEmailId ids)))
          (decode_emails ids)),
      qReadEmailMemberships = (\<lambda>i. tauri_read (ipc_call (ivReadEmailMemberships client (encodeScopedEmailId i)))
          (\<lambda>value. decode_snapshot value decodeEmailMailbox)),
      qReadEmailBody = (\<lambda>i. tauri_read (ipc_call (ivReadEmailBody client (encodeScopedEmailId i)))
          (\<lambda>value. decode_cache value decodeEmailBody)),
      qReadAttachmentRefs = (\<lambda>i. tauri_read (ipc_call (ivReadAttachmentRefs client (encodeScopedEmailId i)))
          (\<lambda>value. decode_cache value (mapE decodeAttachmentRef))),
      qReadMailboxView = (\<lambda>sp. tauri_read (ipc_call (ivReadMailboxView client (encodeMailboxViewSpec sp)))
          (\<lambda>value. decode_cache value decodeMailboxView)),
      qReadCollectionSyncCursor = (\<lambda>key dataType. tauri_read (ipc_call (ivReadCollectionSyncCursor client \<lparr>rcAccountKey = encodeAccountKey key, rcDataType = dataType\<rparr>))
          (\<lambda>value. decode_optional_read value decodeCursor)),
      qReadPendingMutation = (\<lambda>key mid. tauri_read (ipc_call (ivReadPendingMutation client \<lparr>rmAccountKey = encodeAccountKey key, rmMutationId = mid\<rparr>))
          (\<lambda>value. decode_optional_read value decodePendingMutation)),
      qListPendingMutations = (\<lambda>key. tauri_read (ipc_call (ivListPendingMutations client (encodeAccountKey key)))
          (\<lambda>value. decode_snapshot value decodePendingMutation))\<rparr>"

section \<open>The sync port\<close>

definition tauri_write ::
  "('s, ipc_thrown, IpcWriteResult) eff \<Rightarrow> ('s, exn, WriteResult) eff" where
  "tauri_write call s =
     (case call s of
        (Inl cause, t) \<Rightarrow>
          (Inr (PortErr (read_as_write_error (mapTransportFailure cause))), t)
      | (Inr (IpcOk IpcNull), t) \<Rightarrow> (Inr (PortOk ()), t)
      | (Inr (IpcOk IpcNotNull), t) \<Rightarrow> (Inr (PortErr WrUnexpected), t)
      | (Inr (IpcErr kind), t) \<Rightarrow> (Inr (PortErr (write_error_of kind)), t))"

text \<open>
  The three encoders of one kind of mutation are the branches of the encoder of them all, so
  each of the three operations uses that one.
\<close>

definition TauriSyncPort :: "('s, 'x) LocalEngineIpcClient_scheme \<Rightarrow> 's SyncPort" where
  "TauriSyncPort client =
     \<lparr>wRegisterAccount = (\<lambda>value. tauri_write (ipc_call (ivRegisterAccount client (encodeAccount value)))),
      wApplyCollectionSync = (\<lambda>value. tauri_write (ipc_call (ivApplyCollectionSync client (encodeCollectionSyncCommit value)))),
      wCacheEmailBody = (\<lambda>value. tauri_write (ipc_call (ivCacheEmailBody client (encodeEmailBody value)))),
      wReplaceAttachmentRefs = (\<lambda>emailId refs. tauri_write (ipc_call (ivReplaceAttachmentRefs client 
            \<lparr>raEmailId = encodeScopedEmailId emailId, raRefs = map encodeAttachmentRef refs\<rparr>))),
      wReplaceMailboxView = (\<lambda>value. tauri_write (ipc_call (ivReplaceMailboxView client (encodeMailboxView value)))),
      wStageSendMutation = (\<lambda>value. tauri_write (ipc_call (ivStageSendMutation client (encodePendingMutation value)))),
      wApplyOptimisticKeywordMutation = (\<lambda>value. tauri_write (ipc_call (ivApplyOptimisticKeywordMutation client (encodePendingMutation value)))),
      wApplyOptimisticMailboxMembershipMutation = (\<lambda>value. tauri_write (ipc_call (ivApplyOptimisticMailboxMembershipMutation client (encodePendingMutation value)))),
      wReplacePendingMutationIfCurrent = (\<lambda>expected nextM. tauri_write (ipc_call (ivReplacePendingMutationIfCurrent client 
            \<lparr>rpExpected = encodePendingMutation expected, rpNext = encodePendingMutation nextM\<rparr>))),
      wRemoveConfirmedMutation = (\<lambda>ak mid. tauri_write (ipc_call (ivRemoveConfirmedMutation client 
            \<lparr>rmAccountKey = ak, rmMutationId = mid\<rparr>)))\<rparr>"

section \<open>The change source\<close>

text \<open>A subscription is its active flag; the handler closes over it.\<close>

definition source_deliver ::
  "bool \<Rightarrow> (LocalChangeHint list \<Rightarrow> ('s, exn, unit) eff) \<Rightarrow> IpcLocalChangeHint list \<Rightarrow>
   ('s, exn, unit) eff" where
  "source_deliver active listener value =
     (if \<not> active then retM ()
      else tryM (bindM (liftM (decodeLocalChangeBatch value)) listener) (\<lambda>_. retM ()))"

text \<open>\<open>subscribe\<close>: the flag of the new subscription, or an error.\<close>

definition tauri_subscribe ::
  "('s, 'x) LocalEngineIpcClient_scheme \<Rightarrow> ('s, exn, bool ReadResult) eff" where
  "tauri_subscribe client s =
     (case listenLocalStateChanged client s of
        (Inl cause, t) \<Rightarrow> (Inr (PortErr (mapTransportFailure cause)), t)
      | (Inr _, t) \<Rightarrow> (Inr (PortOk True), t))"

text \<open>\<open>unsubscribe\<close>: it returns the flag it leaves.\<close>

definition tauri_unsubscribe :: "('s, exn, unit) eff \<Rightarrow> bool \<Rightarrow> ('s, exn, bool) eff" where
  "tauri_unsubscribe unlisten active =
     (if \<not> active then retM False
      else bindM (tryM unlisten (\<lambda>_. retM ())) (\<lambda>_. retM False))"

end
