(* ===== verification/Tauri_Laws.thy ===== *)
theory Tauri_Laws
  imports Codec_Laws Tauri_Adapters
begin

text \<open>
  What a backend that honours the protocol replies (the encodings of what some repository or
  port answers), and the lemmas that carry a codec through the presence outcomes.
\<close>

section \<open>Presence outcomes\<close>

definition encode_entity :: "('a \<Rightarrow> 'w) \<Rightarrow> 'a LocalEntityRead \<Rightarrow> 'w IpcLocalEntityRead" where
  "encode_entity enc r = (case r of EntityAbsent \<Rightarrow> IpcAbsent | EntityPresent v \<Rightarrow> IpcPresent (enc v))"

definition encode_snapshot :: "('a \<Rightarrow> 'w) \<Rightarrow> 'a list OwnedSnapshotRead \<Rightarrow> 'w list IpcOwnedSnapshotRead" where
  "encode_snapshot enc r =
     (case r of SnapshotOwnerAbsent \<Rightarrow> IpcSnapshotOwnerAbsent | SnapshotPresent vs \<Rightarrow> IpcSnapshot (map enc vs))"

definition encode_cache :: "('a \<Rightarrow> 'w) \<Rightarrow> 'a OwnedCacheRead \<Rightarrow> 'w IpcOwnedCacheRead" where
  "encode_cache enc r =
     (case r of CacheOwnerAbsent \<Rightarrow> IpcCacheOwnerAbsent | CacheNotCached \<Rightarrow> IpcNotCached
      | CacheCached v \<Rightarrow> IpcCached (enc v))"

definition encode_optional_read :: "('a \<Rightarrow> 'w) \<Rightarrow> 'a OwnedOptionalRead \<Rightarrow> 'w IpcOwnedOptionalRead" where
  "encode_optional_read enc r =
     (case r of OptionalOwnerAbsent \<Rightarrow> IpcOptionalOwnerAbsent | OptionalAbsent \<Rightarrow> IpcOptionalAbsent
      | OptionalPresent v \<Rightarrow> IpcOptional (enc v))"

lemmas presence_defs =
  decode_entity_def decode_snapshot_def decode_cache_def decode_optional_read_def
  encode_entity_def encode_snapshot_def encode_cache_def encode_optional_read_def

context codec
begin

lemma entity: "\<forall>v \<in> set_LocalEntityRead r. wf v \<Longrightarrow> decode_entity (encode_entity enc r) dec = Inr r"
  using dec_enc by (cases r) (auto simp: presence_defs)

lemma snapshot:
  "\<forall>vs \<in> set_OwnedSnapshotRead r. \<forall>v \<in> set vs. wf v \<Longrightarrow>
   decode_snapshot (encode_snapshot enc r) dec = Inr r"
  using list_dec_enc by (cases r) (auto simp: presence_defs)

lemma cache: "\<forall>v \<in> set_OwnedCacheRead r. wf v \<Longrightarrow> decode_cache (encode_cache enc r) dec = Inr r"
  using dec_enc by (cases r) (auto simp: presence_defs)

lemma optional_read:
  "\<forall>v \<in> set_OwnedOptionalRead r. wf v \<Longrightarrow>
   decode_optional_read (encode_optional_read enc r) dec = Inr r"
  using dec_enc by (cases r) (auto simp: presence_defs)

lemma entity_wf: "decode_entity w dec = Inr (EntityPresent v) \<Longrightarrow> wf v"
  by (auto simp: presence_defs bindE_Inr_iff dest: dec_wf split: IpcLocalEntityRead.splits)

lemma snapshot_wf: "decode_snapshot w dec = Inr (SnapshotPresent vs) \<Longrightarrow> v \<in> set vs \<Longrightarrow> wf v"
  using list_dec_wf by (fastforce simp: presence_defs bindE_Inr_iff split: IpcOwnedSnapshotRead.splits)

lemma cache_wf: "decode_cache w dec = Inr (CacheCached v) \<Longrightarrow> wf v"
  by (auto simp: presence_defs bindE_Inr_iff dest: dec_wf split: IpcOwnedCacheRead.splits)

lemma optional_read_wf: "decode_optional_read w dec = Inr (OptionalPresent v) \<Longrightarrow> wf v"
  by (auto simp: presence_defs bindE_Inr_iff dest: dec_wf split: IpcOwnedOptionalRead.splits)

end

text \<open>The lists that \<open>listAccounts\<close> and \<open>readAttachmentRefs\<close> carry are values of a codec of lists.\<close>

interpretation account_list: codec "map encodeAccount" "mapE decodeAccount" "\<lambda>vs. \<forall>v \<in> set vs. ipc_account v"
  by unfold_locales (fact account.list_dec_enc account.list_dec_wf)+

interpretation attachment_list:
  codec "map encodeAttachmentRef" "mapE decodeAttachmentRef" "\<lambda>vs. \<forall>v \<in> set vs. ipc_attachment v"
  by unfold_locales (fact attachment.list_dec_enc attachment.list_dec_wf)+

section \<open>Bulk reads\<close>

text \<open>An answer to a bulk read: one outcome per identifier, of the e-mail with that identifier.\<close>

definition bulk_answer :: "ScopedEmailId list \<Rightarrow> Email LocalEntityRead list \<Rightarrow> bool" where
  "bulk_answer ids rs \<longleftrightarrow>
     list_all2 (\<lambda>i r. \<forall>e. r = EntityPresent e \<longrightarrow> emId e = i \<and> ipc_email e) ids rs"

lemma decode_email_at_Inr:
  "decode_email_at (i, w) = Inr r \<longleftrightarrow>
     decode_entity w decodeEmail = Inr r \<and> (\<forall>e. r = EntityPresent e \<longrightarrow> emId e = i)"
proof (cases "decode_entity w decodeEmail")
  case (Inr d)
  then show ?thesis by (cases d) (auto simp: decode_email_at_def)
qed (simp add: decode_email_at_def)

lemma decode_emails_sound:
  assumes "decode_emails ids ws = Inr rs"
  shows "bulk_answer ids rs"
proof -
  from assms have "length ws = length ids" "mapE decode_email_at (zip ids ws) = Inr rs"
    by (simp_all add: decode_emails_def)
  then have "list_all2 (\<lambda>p r. decode_email_at p = Inr r) (zip ids ws) rs" "length rs = length ids"
    by (simp_all add: mapE_Inr_iff list_all2_lengthD [symmetric])
  with \<open>length ws = length ids\<close> show ?thesis
    unfolding bulk_answer_def list_all2_conv_all_nth
    by (auto simp: decode_email_at_Inr) (metis email.entity_wf)
qed

lemma decode_emails_complete:
  assumes "bulk_answer ids rs"
  shows "decode_emails ids (map (encode_entity encodeEmail) rs) = Inr rs"
proof -
  have "decode_email_at (i, encode_entity encodeEmail r) = Inr r"
    if "\<forall>e. r = EntityPresent e \<longrightarrow> emId e = i \<and> ipc_email e" for i r
    using that email.entity [of r] by (cases r) (simp_all add: decode_email_at_Inr)
  with assms have "mapE decode_email_at (zip ids (map (encode_entity encodeEmail) rs)) = Inr rs"
    unfolding bulk_answer_def by (induction rule: list_all2_induct) simp_all
  with assms show ?thesis
    by (simp add: decode_emails_def bulk_answer_def list_all2_lengthD)
qed

section \<open>Honest replies\<close>

text \<open>
  \<open>answers enc ok q r\<close>: in every world, \<open>r\<close> replies with the encoding of what the operation \<open>q\<close>
  answers there, and leaves the same world.
\<close>

definition answers ::
  "('a \<Rightarrow> 'w) \<Rightarrow> ('a \<Rightarrow> bool) \<Rightarrow> ('s, exn, 'a ReadResult) eff \<Rightarrow> ('s, exn, 'w IpcReply) eff \<Rightarrow> bool" where
  "answers enc ok q r \<longleftrightarrow>
     (\<forall>s. case q s of
            (Inr (PortOk v), t) \<Rightarrow> ok v \<and> r s = (Inr (Reply (IpcOk (enc v))), t)
          | (Inr (PortErr e), t) \<Rightarrow> r s = (Inr (Reply (IpcErr (read_error_string e))), t)
          | (Inl _, t) \<Rightarrow> False)"

definition acknowledges ::
  "('s, exn, WriteResult) eff \<Rightarrow> ('s, exn, IpcWriteValue IpcReply) eff \<Rightarrow> bool" where
  "acknowledges q r \<longleftrightarrow>
     (\<forall>s. case q s of
            (Inr (PortOk _), t) \<Rightarrow> r s = (Inr (Reply (IpcOk IpcNull)), t)
          | (Inr (PortErr e), t) \<Rightarrow> r s = (Inr (Reply (IpcErr (write_error_string e))), t)
          | (Inl _, t) \<Rightarrow> False)"

lemma error_strings [simp]:
  "read_error_of (read_error_string e) = e"
  "write_error_of (write_error_string e') = e'"
  by (cases e; cases e';
      simp add: read_error_of_def read_error_string_def write_error_of_def write_error_string_def
        read_as_write_error_def js_def)+

lemma tauri_read_answers:
  assumes "answers enc ok q r" "\<And>v. ok v \<Longrightarrow> decode (enc v) = Inr v"
  shows "tauri_read (ipc_call r) decode = q"
proof
  fix s
  from assms(1) have "case q s of
      (Inr (PortOk v), t) \<Rightarrow> ok v \<and> r s = (Inr (Reply (IpcOk (enc v))), t)
    | (Inr (PortErr e), t) \<Rightarrow> r s = (Inr (Reply (IpcErr (read_error_string e))), t)
    | (Inl _, t) \<Rightarrow> False" by (simp add: answers_def)
  then show "tauri_read (ipc_call r) decode s = q s"
    by (auto simp: tauri_read_def ipc_call_def assms(2) split: prod.splits sum.splits PortResult.splits)
qed

lemma tauri_write_acknowledges:
  assumes "acknowledges q r"
  shows "tauri_write (ipc_call r) = q"
proof
  fix s
  from assms have "case q s of
      (Inr (PortOk _), t) \<Rightarrow> r s = (Inr (Reply (IpcOk IpcNull)), t)
    | (Inr (PortErr e), t) \<Rightarrow> r s = (Inr (Reply (IpcErr (write_error_string e))), t)
    | (Inl _, t) \<Rightarrow> False" by (simp add: acknowledges_def)
  then show "tauri_write (ipc_call r) s = q s"
    by (auto simp: tauri_write_def ipc_call_def split: prod.splits sum.splits PortResult.splits)
qed

context codec
begin

lemma value_answers: "answers enc wf q r \<Longrightarrow> tauri_read (ipc_call r) dec = q"
  by (erule tauri_read_answers) (rule dec_enc)

lemma entity_answers:
  "answers (encode_entity enc) (\<lambda>r. \<forall>v \<in> set_LocalEntityRead r. wf v) q r \<Longrightarrow>
   tauri_read (ipc_call r) (\<lambda>value. decode_entity value dec) = q"
  by (erule tauri_read_answers) (rule entity)

lemma snapshot_answers:
  "answers (encode_snapshot enc) (\<lambda>r. \<forall>vs \<in> set_OwnedSnapshotRead r. \<forall>v \<in> set vs. wf v) q r \<Longrightarrow>
   tauri_read (ipc_call r) (\<lambda>value. decode_snapshot value dec) = q"
  by (erule tauri_read_answers) (rule snapshot)

lemma cache_answers:
  "answers (encode_cache enc) (\<lambda>r. \<forall>v \<in> set_OwnedCacheRead r. wf v) q r \<Longrightarrow>
   tauri_read (ipc_call r) (\<lambda>value. decode_cache value dec) = q"
  by (erule tauri_read_answers) (rule cache)

lemma optional_answers:
  "answers (encode_optional_read enc) (\<lambda>r. \<forall>v \<in> set_OwnedOptionalRead r. wf v) q r \<Longrightarrow>
   tauri_read (ipc_call r) (\<lambda>value. decode_optional_read value dec) = q"
  by (erule tauri_read_answers) (rule optional_read)

end

lemma bulk_answers:
  "answers (map (encode_entity encodeEmail)) (bulk_answer ids) q r \<Longrightarrow>
   tauri_read (ipc_call r) (decode_emails ids) = q"
  by (erule tauri_read_answers) (rule decode_emails_complete)

text \<open>Whatever the backend does, an adapter method does not throw.\<close>

lemma tauri_read_returns:
  "\<exists>x t. tauri_read call decode s = (Inr x, t) \<and>
     (\<forall>v. x = PortOk v \<longrightarrow> (\<exists>w. call s = (Inr (IpcOk w), t) \<and> decode w = Inr v))"
  by (auto simp: tauri_read_def split: prod.splits sum.splits IpcResult.splits)

lemma tauri_write_returns: "\<exists>x t. tauri_write call s = (Inr x, t)"
  by (auto simp: tauri_write_def split: prod.splits sum.splits IpcResult.splits IpcWriteValue.splits)

end
