(* ===== verification/Tauri_Theorems.thy ===== *)
theory Tauri_Theorems
  imports Tauri_Laws Domain_Theorems
begin

text \<open>
  The properties of the codecs and of the adapters over the native engine: what survives
  persistence, what can come back, and that the adapters are the repository and the port that
  an honest backend serves, and safe over a dishonest one.
\<close>

section \<open>Codecs\<close>

text \<open>An entity survives the trip to the native engine and back exactly when it is one the
  factories accept with non-empty identifiers, and those are exactly the entities any transfer
  object can decode to.\<close>

theorem entity_codecs:
  "(decodeAccount (encodeAccount a) = Inr a \<longleftrightarrow> ipc_account a) \<and>
   ((\<exists>w. decodeAccount w = Inr a) \<longleftrightarrow> ipc_account a) \<and>
   (decodeMailbox (encodeMailbox m) = Inr m \<longleftrightarrow> ipc_mailbox m) \<and>
   ((\<exists>w. decodeMailbox w = Inr m) \<longleftrightarrow> ipc_mailbox m) \<and>
   (decodeIdentity (encodeIdentity i) = Inr i \<longleftrightarrow> ipc_identity i) \<and>
   ((\<exists>w. decodeIdentity w = Inr i) \<longleftrightarrow> ipc_identity i) \<and>
   (decodeEmail (encodeEmail e) = Inr e \<longleftrightarrow> ipc_email e) \<and>
   ((\<exists>w. decodeEmail w = Inr e) \<longleftrightarrow> ipc_email e) \<and>
   (decodeEmailMailbox (encodeEmailMailbox mm) = Inr mm \<longleftrightarrow> ipc_membership mm) \<and>
   ((\<exists>w. decodeEmailMailbox w = Inr mm) \<longleftrightarrow> ipc_membership mm) \<and>
   (decodeAttachmentRef (encodeAttachmentRef r) = Inr r \<longleftrightarrow> ipc_attachment r) \<and>
   ((\<exists>w. decodeAttachmentRef w = Inr r) \<longleftrightarrow> ipc_attachment r) \<and>
   (decodeMailboxView (encodeMailboxView v) = Inr v \<longleftrightarrow> ipc_view v) \<and>
   ((\<exists>w. decodeMailboxView w = Inr v) \<longleftrightarrow> ipc_view v)"
  using account.dec_onto account.dec_enc mailbox.dec_onto mailbox.dec_enc
    identity.dec_onto identity.dec_enc email.dec_onto email.dec_enc
    membership.dec_onto membership.dec_enc attachment.dec_onto attachment.dec_enc
    view.dec_onto view.dec_enc
  by (intro conjI) metis+

text \<open>The strings of a mutation that the codec needs: its identifiers and instants.\<close>

definition named_mutation :: "PendingMutation \<Rightarrow> bool" where
  "named_mutation m \<longleftrightarrow>
     pmAccountKey m \<noteq> [] \<and> pmMutationId m \<noteq> [] \<and> pmCreatedAt m \<noteq> [] \<and>
     ipc_lifecycle (pmLifecycle m) \<and>
     (case pmPayload m of
        PSend i \<Rightarrow> wf_id (siIdentityId i)
      | PKeyword e c \<Rightarrow> wf_id e
      | PMembership e c \<Rightarrow> wf_id e \<and> (\<forall>i \<in> set (mcAdd c) \<union> set (mcRemove c). wf_id i))"

text \<open>C23: Every mutation the domain can produce, at every point of its life, comes back from the
  native engine as it was, given that its identifiers and instants are not empty and that a
  send carries an intent of the factory.\<close>

theorem mutation_roundtrip:
  assumes "created m0" "lifecycle_run m0 k m" "named_mutation m"
    "\<forall>i. pmPayload m0 = PSend i \<longrightarrow> (\<exists>input. sendIntent input = Inr i)"
  shows "decodePendingMutation (encodePendingMutation m) = Inr m"
proof -
  have "wf_mutation m" using assms(1,2) created_wf lifecycle_run_wf by blast
  moreover have "pmPayload m = pmPayload m0"
    using lifecycle_run_immutable [OF assms(2)] by (simp add: immutable_part_def)
  moreover have "valid_intent i" if "pmPayload m0 = PSend i" for i
    using assms(4) that sendIntent_valid by blast
  ultimately have "ipc_mutation m"
    using assms(3) by (auto simp: ipc_mutation_def named_mutation_def ipc_intent_def
        split: MutationPayload.splits)
  then show ?thesis by (rule mutation.dec_enc)
qed

definition keyword_mutation :: PendingMutation where
  "keyword_mutation =
     \<lparr>pmMutationId = [77], pmAccountKey = [65], pmCreatedAt = [48],
      pmPayload = PKeyword \<lparr>accountKey = [65], jmapId = [69]\<rparr> \<lparr>kcAdd = [[120]], kcRemove = []\<rparr>,
      pmLifecycle = Pending (JInt 0)\<rparr>"

lemma mutation_roundtrip_witness:
  "decodePendingMutation (encodePendingMutation keyword_mutation) = Inr keyword_mutation"
proof (rule mutation_roundtrip [OF _ lifecycle_run.run_refl])
  show "created keyword_mutation"
    by (rule created.created_keyword [of "[77]" "[65]" "[48]" "\<lparr>accountKey = [65], jmapId = [69]\<rparr>"
          "\<lparr>kcAdd = [[120]], kcRemove = []\<rparr>"])
       (simp add: keywordMutation_def keywordChange_def keywordSet_def set_add_def
          pendingLifecycle_def keyword_mutation_def)
qed (simp_all add: named_mutation_def keyword_mutation_def wf_id_def)

text \<open>Whatever transfer object a persisted mutation decodes from, the decoded mutation satisfies
  the domain's invariant: well formed for its kind and account, with a usable intent, and a
  further trip does not change it.\<close>

theorem decoded_mutation:
  assumes "decodePendingMutation w = Inr m"
  shows "wf_mutation m \<and> (\<forall>i. pmPayload m = PSend i \<longrightarrow> valid_intent i) \<and>
    pmAccountKey m \<noteq> [] \<and> pmMutationId m \<noteq> [] \<and>
    decodePendingMutation (encodePendingMutation m) = Inr m"
  using mutation.dec_wf [OF assms] mutation.dec_enc [OF mutation.dec_wf [OF assms]]
  by (auto simp: ipc_mutation_def ipc_intent_def)

lemma decoded_mutation_witness: "wf_mutation keyword_mutation"
proof -
  have "ipc_mutation keyword_mutation"
    by (simp add: ipc_mutation_def wf_mutation_def keyword_mutation_def wf_id_def
        valid_keyword_change_def)
  from decoded_mutation [OF mutation.dec_enc [OF this]] show ?thesis by blast
qed

text \<open>No two collection commits are sent to the native engine as the same transfer object.\<close>

theorem commit_encoding_injective:
  "encodeCollectionSyncCommit c = encodeCollectionSyncCommit c' \<longleftrightarrow> c = c'"
  by (rule encode_commit_inject)

section \<open>The read repository\<close>

text \<open>\<open>b\<close> serves the repository \<open>R\<close>: it replies to every read command with the encoding of what
  \<open>R\<close> answers, and \<open>R\<close> answers with values that can be encoded.\<close>

definition backend_answers :: "('s, 'x) LocalEngineIpcClient_scheme \<Rightarrow> 's ReadRepository \<Rightarrow> bool" where
  "backend_answers b R \<longleftrightarrow>
     (\<forall>key. answers (encode_entity encodeAccount)
        (\<lambda>r. \<forall>v \<in> set_LocalEntityRead r. ipc_account v)
        (qReadAccount R key) (ivReadAccount b (encodeAccountKey key))) \<and>
     (answers (map encodeAccount)
        (\<lambda>vs. \<forall>v \<in> set vs. ipc_account v)
        (qListAccounts R) (ivListAccounts b)) \<and>
     (\<forall>i. answers (encode_entity encodeMailbox)
        (\<lambda>r. \<forall>v \<in> set_LocalEntityRead r. ipc_mailbox v)
        (qReadMailbox R i) (ivReadMailbox b (encodeScopedMailboxId i))) \<and>
     (\<forall>key. answers (encode_snapshot encodeMailbox)
        (\<lambda>r. \<forall>vs \<in> set_OwnedSnapshotRead r. \<forall>v \<in> set vs. ipc_mailbox v)
        (qListMailboxes R key) (ivListMailboxes b (encodeAccountKey key))) \<and>
     (\<forall>i. answers (encode_entity encodeIdentity)
        (\<lambda>r. \<forall>v \<in> set_LocalEntityRead r. ipc_identity v)
        (qReadIdentity R i) (ivReadIdentity b (encodeScopedIdentityId i))) \<and>
     (\<forall>key. answers (encode_snapshot encodeIdentity)
        (\<lambda>r. \<forall>vs \<in> set_OwnedSnapshotRead r. \<forall>v \<in> set vs. ipc_identity v)
        (qListIdentities R key) (ivListIdentities b (encodeAccountKey key))) \<and>
     (\<forall>i. answers (encode_entity encodeEmail)
        (\<lambda>r. \<forall>v \<in> set_LocalEntityRead r. ipc_email v)
        (qReadEmail R i) (ivReadEmail b (encodeScopedEmailId i))) \<and>
     (\<forall>ids. answers (map (encode_entity encodeEmail))
        (bulk_answer ids)
        (qReadEmails R ids) (ivReadEmails b (map encodeScopedEmailId ids))) \<and>
     (\<forall>i. answers (encode_snapshot encodeEmailMailbox)
        (\<lambda>r. \<forall>vs \<in> set_OwnedSnapshotRead r. \<forall>v \<in> set vs. ipc_membership v)
        (qReadEmailMemberships R i) (ivReadEmailMemberships b (encodeScopedEmailId i))) \<and>
     (\<forall>i. answers (encode_cache encodeEmailBody)
        (\<lambda>r. \<forall>v \<in> set_OwnedCacheRead r. ipc_body v)
        (qReadEmailBody R i) (ivReadEmailBody b (encodeScopedEmailId i))) \<and>
     (\<forall>i. answers (encode_cache (map encodeAttachmentRef))
        (\<lambda>r. \<forall>vs \<in> set_OwnedCacheRead r. \<forall>v \<in> set vs. ipc_attachment v)
        (qReadAttachmentRefs R i) (ivReadAttachmentRefs b (encodeScopedEmailId i))) \<and>
     (\<forall>sp. answers (encode_cache encodeMailboxView)
        (\<lambda>r. \<forall>v \<in> set_OwnedCacheRead r. ipc_view v)
        (qReadMailboxView R sp) (ivReadMailboxView b (encodeMailboxViewSpec sp))) \<and>
     (\<forall>key dataType. answers (encode_optional_read encodeCursor)
        (\<lambda>r. \<forall>v \<in> set_OwnedOptionalRead r. ipc_cursor v)
        (qReadCollectionSyncCursor R key dataType) (ivReadCollectionSyncCursor b
          \<lparr>rcAccountKey = encodeAccountKey key, rcDataType = dataType\<rparr>)) \<and>
     (\<forall>key mid. answers (encode_optional_read encodePendingMutation)
        (\<lambda>r. \<forall>v \<in> set_OwnedOptionalRead r. ipc_mutation v)
        (qReadPendingMutation R key mid) (ivReadPendingMutation b
          \<lparr>rmAccountKey = encodeAccountKey key, rmMutationId = mid\<rparr>)) \<and>
     (\<forall>key. answers (encode_snapshot encodePendingMutation)
        (\<lambda>r. \<forall>vs \<in> set_OwnedSnapshotRead r. \<forall>v \<in> set vs. ipc_mutation v)
        (qListPendingMutations R key) (ivListPendingMutations b (encodeAccountKey key)))"

lemma served_reads:
  assumes "backend_answers b R"
  shows
    "tauri_read (ipc_call (ivReadAccount b (encodeAccountKey key)))
        (\<lambda>value. decode_entity value decodeAccount) = qReadAccount R key"
    "tauri_read (ipc_call (ivListAccounts b))
        (mapE decodeAccount) = qListAccounts R"
    "tauri_read (ipc_call (ivReadMailbox b (encodeScopedMailboxId i)))
        (\<lambda>value. decode_entity value decodeMailbox) = qReadMailbox R i"
    "tauri_read (ipc_call (ivListMailboxes b (encodeAccountKey key)))
        (\<lambda>value. decode_snapshot value decodeMailbox) = qListMailboxes R key"
    "tauri_read (ipc_call (ivReadIdentity b (encodeScopedIdentityId i)))
        (\<lambda>value. decode_entity value decodeIdentity) = qReadIdentity R i"
    "tauri_read (ipc_call (ivListIdentities b (encodeAccountKey key)))
        (\<lambda>value. decode_snapshot value decodeIdentity) = qListIdentities R key"
    "tauri_read (ipc_call (ivReadEmail b (encodeScopedEmailId i)))
        (\<lambda>value. decode_entity value decodeEmail) = qReadEmail R i"
    "tauri_read (ipc_call (ivReadEmails b (map encodeScopedEmailId ids)))
        (decode_emails ids) = qReadEmails R ids"
    "tauri_read (ipc_call (ivReadEmailMemberships b (encodeScopedEmailId i)))
        (\<lambda>value. decode_snapshot value decodeEmailMailbox) = qReadEmailMemberships R i"
    "tauri_read (ipc_call (ivReadEmailBody b (encodeScopedEmailId i)))
        (\<lambda>value. decode_cache value decodeEmailBody) = qReadEmailBody R i"
    "tauri_read (ipc_call (ivReadAttachmentRefs b (encodeScopedEmailId i)))
        (\<lambda>value. decode_cache value (mapE decodeAttachmentRef)) = qReadAttachmentRefs R i"
    "tauri_read (ipc_call (ivReadMailboxView b (encodeMailboxViewSpec sp)))
        (\<lambda>value. decode_cache value decodeMailboxView) = qReadMailboxView R sp"
    "tauri_read (ipc_call (ivReadCollectionSyncCursor b
          \<lparr>rcAccountKey = encodeAccountKey key, rcDataType = dataType\<rparr>))
        (\<lambda>value. decode_optional_read value decodeCursor) = qReadCollectionSyncCursor R key dataType"
    "tauri_read (ipc_call (ivReadPendingMutation b
          \<lparr>rmAccountKey = encodeAccountKey key, rmMutationId = mid\<rparr>))
        (\<lambda>value. decode_optional_read value decodePendingMutation) = qReadPendingMutation R key mid"
    "tauri_read (ipc_call (ivListPendingMutations b (encodeAccountKey key)))
        (\<lambda>value. decode_snapshot value decodePendingMutation) = qListPendingMutations R key"
  using assms unfolding backend_answers_def
  by (blast intro: account.entity_answers account_list.value_answers mailbox.entity_answers
      mailbox.snapshot_answers identity.entity_answers identity.snapshot_answers
      email.entity_answers bulk_answers membership.snapshot_answers body.cache_answers
      attachment_list.cache_answers view.cache_answers cursor.optional_answers
      mutation.optional_answers mutation.snapshot_answers)+

text \<open>C20: Over a native engine that serves a repository, the Tauri read repository is that
  repository, query by query and in every world.\<close>

theorem tauri_repository_refines:
  assumes "backend_answers b R"
  shows "TauriReadRepository b = R"
  by (rule ReadRepository.equality)
     (simp_all add: TauriReadRepository_def fun_eq_iff served_reads [OF assms])

text \<open>An engine with one account and nothing else, and the repository it serves.\<close>

definition idle_repository :: "unit ReadRepository" where
  "idle_repository =
     \<lparr>qReadAccount = (\<lambda>key. retM (PortOk (if key = [65] then EntityPresent sample_account else EntityAbsent))),
      qListAccounts = retM (PortOk [sample_account]),
      qReadMailbox = (\<lambda>_. retM (PortOk EntityAbsent)),
      qListMailboxes = (\<lambda>_. retM (PortOk (SnapshotPresent []))),
      qReadIdentity = (\<lambda>_. retM (PortOk EntityAbsent)),
      qListIdentities = (\<lambda>_. retM (PortOk (SnapshotPresent []))),
      qReadEmail = (\<lambda>_. retM (PortOk EntityAbsent)),
      qReadEmails = (\<lambda>ids. retM (PortOk (map (\<lambda>_. EntityAbsent) ids))),
      qReadEmailMemberships = (\<lambda>_. retM (PortOk SnapshotOwnerAbsent)),
      qReadEmailBody = (\<lambda>_. retM (PortOk CacheOwnerAbsent)),
      qReadAttachmentRefs = (\<lambda>_. retM (PortOk CacheOwnerAbsent)),
      qReadMailboxView = (\<lambda>_. retM (PortErr RdUnavailable)),
      qReadCollectionSyncCursor = (\<lambda>_ _. retM (PortOk OptionalAbsent)),
      qReadPendingMutation = (\<lambda>_ _. retM (PortOk OptionalAbsent)),
      qListPendingMutations = (\<lambda>_. retM (PortOk (SnapshotPresent [])))\<rparr>"

abbreviation replies :: "'a \<Rightarrow> (unit, exn, 'a IpcReply) eff" where
  "replies v \<equiv> retM (Reply (IpcOk v))"

definition idle_engine :: "unit LocalEngineIpcClient" where
  "idle_engine =
     \<lparr>ivReadAccount = (\<lambda>key. replies (if key = [65] then IpcPresent (encodeAccount sample_account) else IpcAbsent)),
      ivListAccounts = replies [encodeAccount sample_account],
      ivReadMailbox = (\<lambda>_. replies IpcAbsent),
      ivListMailboxes = (\<lambda>_. replies (IpcSnapshot [])),
      ivReadIdentity = (\<lambda>_. replies IpcAbsent),
      ivListIdentities = (\<lambda>_. replies (IpcSnapshot [])),
      ivReadEmail = (\<lambda>_. replies IpcAbsent),
      ivReadEmails = (\<lambda>ids. replies (map (\<lambda>_. IpcAbsent) ids)),
      ivReadEmailMemberships = (\<lambda>_. replies IpcSnapshotOwnerAbsent),
      ivReadEmailBody = (\<lambda>_. replies IpcCacheOwnerAbsent),
      ivReadAttachmentRefs = (\<lambda>_. replies IpcCacheOwnerAbsent),
      ivReadMailboxView = (\<lambda>_. retM (Reply (IpcErr (js ''unavailable'')))),
      ivReadCollectionSyncCursor = (\<lambda>_. replies IpcOptionalAbsent),
      ivReadPendingMutation = (\<lambda>_. replies IpcOptionalAbsent),
      ivListPendingMutations = (\<lambda>_. replies (IpcSnapshot [])),
      ivRegisterAccount = (\<lambda>_. retM (Reply (IpcErr (js ''conflict'')))),
      ivApplyCollectionSync = (\<lambda>_. replies IpcNull),
      ivCacheEmailBody = (\<lambda>_. replies IpcNull),
      ivReplaceAttachmentRefs = (\<lambda>_. replies IpcNull),
      ivReplaceMailboxView = (\<lambda>_. replies IpcNull),
      ivStageSendMutation = (\<lambda>_. replies IpcNull),
      ivApplyOptimisticKeywordMutation = (\<lambda>_. replies IpcNull),
      ivApplyOptimisticMailboxMembershipMutation = (\<lambda>_. replies IpcNull),
      ivReplacePendingMutationIfCurrent = (\<lambda>_. replies IpcNull),
      ivRemoveConfirmedMutation = (\<lambda>_. replies IpcNull),
      ivListen = throwM (OtherExn [])\<rparr>"

lemmas idle_simps = idle_engine_def idle_repository_def answers_def acknowledges_def retM_def
  presence_defs encodeAccountKey_def

lemma tauri_repository_refines_witness:
  "qReadAccount (TauriReadRepository idle_engine) [65] () =
     (Inr (PortOk (EntityPresent sample_account)), ())"
proof -
  have "ipc_account sample_account" by (simp add: ipc_account_def sample_account_def)
  moreover have "bulk_answer ids (map (\<lambda>_. EntityAbsent) ids)" for ids
    by (simp add: bulk_answer_def list_all2_conv_all_nth)
  ultimately have "backend_answers idle_engine idle_repository"
    by (simp add: backend_answers_def idle_simps read_error_string_def comp_def)
  from tauri_repository_refines [OF this] show ?thesis by (simp add: idle_simps)
qed

text \<open>A query that returns in every world, with an error of the port or a value of the given kind.\<close>

definition sound_query :: "('a \<Rightarrow> bool) \<Rightarrow> ('s, exn, 'a ReadResult) eff \<Rightarrow> bool" where
  "sound_query P q \<longleftrightarrow>
     (\<forall>s. case fst (q s) of Inr (PortOk v) \<Rightarrow> P v | Inr (PortErr _) \<Rightarrow> True | Inl _ \<Rightarrow> False)"

lemma sound_query_cases:
  "sound_query P q \<Longrightarrow> \<exists>x. fst (q s) = Inr x \<and> (\<forall>v. x = PortOk v \<longrightarrow> P v)"
  unfolding sound_query_def
  by (drule spec [of _ s], cases "fst (q s)") (auto split: PortResult.splits)

lemma sound_read: "(\<And>w v. decode w = Inr v \<Longrightarrow> P v) \<Longrightarrow> sound_query P (tauri_read call decode)"
  unfolding sound_query_def
proof
  fix s assume "\<And>w v. decode w = Inr v \<Longrightarrow> P v"
  with tauri_read_returns [of call decode s]
  show "case fst (tauri_read call decode s) of
      Inr (PortOk v) \<Rightarrow> P v | Inr (PortErr _) \<Rightarrow> True | Inl _ \<Rightarrow> False"
    by (auto split: PortResult.split)
qed

context codec
begin

lemma value_sound: "sound_query wf (tauri_read call dec)"
  by (rule sound_read) (rule dec_wf)

lemma entity_sound:
  "sound_query (\<lambda>r. \<forall>v \<in> set_LocalEntityRead r. wf v) (tauri_read call (\<lambda>w. decode_entity w dec))"
proof (rule sound_read)
  fix w r assume "decode_entity w dec = Inr r"
  then show "\<forall>v \<in> set_LocalEntityRead r. wf v" by (cases r) (auto dest: entity_wf)
qed

lemma snapshot_sound:
  "sound_query (\<lambda>r. \<forall>vs \<in> set_OwnedSnapshotRead r. \<forall>v \<in> set vs. wf v)
     (tauri_read call (\<lambda>w. decode_snapshot w dec))"
proof (rule sound_read)
  fix w r assume "decode_snapshot w dec = Inr r"
  then show "\<forall>vs \<in> set_OwnedSnapshotRead r. \<forall>v \<in> set vs. wf v"
    by (cases r) (auto dest: snapshot_wf)
qed

lemma cache_sound:
  "sound_query (\<lambda>r. \<forall>v \<in> set_OwnedCacheRead r. wf v) (tauri_read call (\<lambda>w. decode_cache w dec))"
proof (rule sound_read)
  fix w r assume "decode_cache w dec = Inr r"
  then show "\<forall>v \<in> set_OwnedCacheRead r. wf v" by (cases r) (auto dest: cache_wf)
qed

lemma optional_sound:
  "sound_query (\<lambda>r. \<forall>v \<in> set_OwnedOptionalRead r. wf v)
     (tauri_read call (\<lambda>w. decode_optional_read w dec))"
proof (rule sound_read)
  fix w r assume "decode_optional_read w dec = Inr r"
  then show "\<forall>v \<in> set_OwnedOptionalRead r. wf v" by (cases r) (auto dest: optional_read_wf)
qed

end

lemma bulk_sound: "sound_query (bulk_answer ids) (tauri_read call (decode_emails ids))"
  by (rule sound_read) (rule decode_emails_sound)

lemma ipc_domain:
  "ipc_mutation m \<Longrightarrow> wf_mutation m" "ipc_view v \<Longrightarrow> valid_view v"
  by (simp_all add: ipc_mutation_def ipc_view_def)

text \<open>C22: Whatever transfer objects the native engine replies with, and when it rejects or
  breaks the reply's envelope, each of the fifteen queries of the Tauri read repository returns:
  an error of the port, or a value whose every entity satisfies the invariant of its kind. A bulk
  answer has one outcome per identifier, in their order and never of another e-mail; a mutation is
  well formed for the domain, and so is a view.\<close>

theorem tauri_reads_safe:
  "sound_query (\<lambda>r. \<forall>v \<in> set_LocalEntityRead r. ipc_account v) (qReadAccount (TauriReadRepository b) ak) \<and>
   sound_query (\<lambda>vs. \<forall>v \<in> set vs. ipc_account v) (qListAccounts (TauriReadRepository b)) \<and>
   sound_query (\<lambda>r. \<forall>v \<in> set_LocalEntityRead r. ipc_mailbox v) (qReadMailbox (TauriReadRepository b) i) \<and>
   sound_query (\<lambda>r. \<forall>vs \<in> set_OwnedSnapshotRead r. \<forall>v \<in> set vs. ipc_mailbox v)
     (qListMailboxes (TauriReadRepository b) ak) \<and>
   sound_query (\<lambda>r. \<forall>v \<in> set_LocalEntityRead r. ipc_identity v) (qReadIdentity (TauriReadRepository b) i) \<and>
   sound_query (\<lambda>r. \<forall>vs \<in> set_OwnedSnapshotRead r. \<forall>v \<in> set vs. ipc_identity v)
     (qListIdentities (TauriReadRepository b) ak) \<and>
   sound_query (\<lambda>r. \<forall>v \<in> set_LocalEntityRead r. ipc_email v) (qReadEmail (TauriReadRepository b) i) \<and>
   sound_query (bulk_answer ids) (qReadEmails (TauriReadRepository b) ids) \<and>
   sound_query (\<lambda>r. \<forall>vs \<in> set_OwnedSnapshotRead r. \<forall>v \<in> set vs. ipc_membership v)
     (qReadEmailMemberships (TauriReadRepository b) i) \<and>
   sound_query (\<lambda>r. \<forall>v \<in> set_OwnedCacheRead r. ipc_body v) (qReadEmailBody (TauriReadRepository b) i) \<and>
   sound_query (\<lambda>r. \<forall>vs \<in> set_OwnedCacheRead r. \<forall>v \<in> set vs. ipc_attachment v)
     (qReadAttachmentRefs (TauriReadRepository b) i) \<and>
   sound_query (\<lambda>r. \<forall>v \<in> set_OwnedCacheRead r. ipc_view v \<and> valid_view v)
     (qReadMailboxView (TauriReadRepository b) sp) \<and>
   sound_query (\<lambda>r. \<forall>v \<in> set_OwnedOptionalRead r. ipc_cursor v)
     (qReadCollectionSyncCursor (TauriReadRepository b) ak d) \<and>
   sound_query (\<lambda>r. \<forall>v \<in> set_OwnedOptionalRead r. ipc_mutation v \<and> wf_mutation v)
     (qReadPendingMutation (TauriReadRepository b) ak mid) \<and>
   sound_query (\<lambda>r. \<forall>vs \<in> set_OwnedSnapshotRead r. \<forall>v \<in> set vs. ipc_mutation v \<and> wf_mutation v)
     (qListPendingMutations (TauriReadRepository b) ak)"
proof -
  have strengthen: "(\<lambda>v. ipc_view v \<and> valid_view v) = ipc_view"
    "(\<lambda>v. ipc_mutation v \<and> wf_mutation v) = ipc_mutation"
    using ipc_domain by blast+
  show ?thesis
    unfolding TauriReadRepository_def ReadRepository.simps
      strengthen [THEN fun_cong, simplified]
    by (intro conjI account.entity_sound account_list.value_sound mailbox.entity_sound
        mailbox.snapshot_sound identity.entity_sound identity.snapshot_sound email.entity_sound
        bulk_sound membership.snapshot_sound body.cache_sound attachment_list.cache_sound
        view.cache_sound cursor.optional_sound mutation.optional_sound mutation.snapshot_sound)
qed

text \<open>An engine that forges: it replies with a mutation in flight that was never attempted, for
  one e-mail with another, and rejects the listing of the accounts.\<close>

definition unattempted_mutation :: PendingMutation where
  "unattempted_mutation = keyword_mutation\<lparr>pmLifecycle := InFlight (JInt 0)\<rparr>"

definition forged_email :: Email where
  "forged_email =
     \<lparr>emId = \<lparr>accountKey = [65], jmapId = [70]\<rparr>, emBlobId = \<lparr>accountKey = [65], jmapId = [66]\<rparr>,
      emThreadId = \<lparr>accountKey = [65], jmapId = [84]\<rparr>, emSender = None, emFrom = None,
      emReplyTo = None, emTo = None, emCc = None, emBcc = None, emSubject = None, emSentAt = None,
      emReceivedAt = [48], emSize = JInt 1, emPreview = [], emHasAttachment = False,
      emKeywords = []\<rparr>"

definition forging_engine :: "unit LocalEngineIpcClient" where
  "forging_engine =
     idle_engine\<lparr>ivReadPendingMutation :=
         (\<lambda>_. replies (IpcOptional (encodePendingMutation unattempted_mutation))),
       ivReadEmails := (\<lambda>_. replies [IpcPresent (encodeEmail forged_email)]),
       ivListAccounts := throwM (OtherExn [])\<rparr>"

lemma tauri_reads_safe_witness:
  "(\<exists>x. fst (qReadPendingMutation (TauriReadRepository forging_engine) [65] [77] ()) = Inr x \<and>
      x \<noteq> PortOk (OptionalPresent unattempted_mutation)) \<and>
   (\<exists>x. fst (qReadEmails (TauriReadRepository forging_engine)
        [\<lparr>accountKey = [65], jmapId = [69]\<rparr>] ()) = Inr x \<and>
      x \<noteq> PortOk [EntityPresent forged_email]) \<and>
   (\<exists>x. fst (qListAccounts (TauriReadRepository forging_engine) ()) = Inr x)"
proof -
  have bad: "\<not> wf_mutation unattempted_mutation"
    by (simp add: unattempted_mutation_def keyword_mutation_def wf_mutation_def started_def)
  note safe = tauri_reads_safe [of forging_engine "[65]" _
      "[\<lparr>accountKey = [65], jmapId = [69]\<rparr>]" _ _ "[77]"]
  note q = sound_query_cases [where s = "()"]
  show ?thesis
    using safe bad by (intro conjI) (force dest!: q simp: bulk_answer_def forged_email_def)+
qed

section \<open>The sync port\<close>

definition backend_accepts :: "('s, 'x) LocalEngineIpcClient_scheme \<Rightarrow> 's SyncPort \<Rightarrow> bool" where
  "backend_accepts b P \<longleftrightarrow>
     (\<forall>value. acknowledges (wRegisterAccount P value)
        (ivRegisterAccount b (encodeAccount value))) \<and>
     (\<forall>value. acknowledges (wApplyCollectionSync P value)
        (ivApplyCollectionSync b (encodeCollectionSyncCommit value))) \<and>
     (\<forall>value. acknowledges (wCacheEmailBody P value)
        (ivCacheEmailBody b (encodeEmailBody value))) \<and>
     (\<forall>emailId refs. acknowledges (wReplaceAttachmentRefs P emailId refs)
        (ivReplaceAttachmentRefs b
          \<lparr>raEmailId = encodeScopedEmailId emailId, raRefs = map encodeAttachmentRef refs\<rparr>)) \<and>
     (\<forall>value. acknowledges (wReplaceMailboxView P value)
        (ivReplaceMailboxView b (encodeMailboxView value))) \<and>
     (\<forall>value. acknowledges (wStageSendMutation P value)
        (ivStageSendMutation b (encodePendingMutation value))) \<and>
     (\<forall>value. acknowledges (wApplyOptimisticKeywordMutation P value)
        (ivApplyOptimisticKeywordMutation b (encodePendingMutation value))) \<and>
     (\<forall>value. acknowledges (wApplyOptimisticMailboxMembershipMutation P value)
        (ivApplyOptimisticMailboxMembershipMutation b (encodePendingMutation value))) \<and>
     (\<forall>expected nextM. acknowledges (wReplacePendingMutationIfCurrent P expected nextM)
        (ivReplacePendingMutationIfCurrent b
          \<lparr>rpExpected = encodePendingMutation expected, rpNext = encodePendingMutation nextM\<rparr>)) \<and>
     (\<forall>ak mid. acknowledges (wRemoveConfirmedMutation P ak mid)
        (ivRemoveConfirmedMutation b \<lparr>rmAccountKey = ak, rmMutationId = mid\<rparr>))"

lemma served_writes:
  assumes "backend_accepts b P"
  shows
    "tauri_write (ipc_call (ivRegisterAccount b (encodeAccount v1))) =
        wRegisterAccount P v1"
    "tauri_write (ipc_call (ivApplyCollectionSync b (encodeCollectionSyncCommit v2))) =
        wApplyCollectionSync P v2"
    "tauri_write (ipc_call (ivCacheEmailBody b (encodeEmailBody v3))) =
        wCacheEmailBody P v3"
    "tauri_write (ipc_call (ivReplaceAttachmentRefs b
        \<lparr>raEmailId = encodeScopedEmailId emailId, raRefs = map encodeAttachmentRef refs\<rparr>)) =
        wReplaceAttachmentRefs P emailId refs"
    "tauri_write (ipc_call (ivReplaceMailboxView b (encodeMailboxView v4))) =
        wReplaceMailboxView P v4"
    "tauri_write (ipc_call (ivStageSendMutation b (encodePendingMutation v5))) =
        wStageSendMutation P v5"
    "tauri_write (ipc_call (ivApplyOptimisticKeywordMutation b (encodePendingMutation v6))) =
        wApplyOptimisticKeywordMutation P v6"
    "tauri_write (ipc_call (ivApplyOptimisticMailboxMembershipMutation b (encodePendingMutation v7))) =
        wApplyOptimisticMailboxMembershipMutation P v7"
    "tauri_write (ipc_call (ivReplacePendingMutationIfCurrent b
        \<lparr>rpExpected = encodePendingMutation expected, rpNext = encodePendingMutation nextM\<rparr>)) =
        wReplacePendingMutationIfCurrent P expected nextM"
    "tauri_write (ipc_call (ivRemoveConfirmedMutation b \<lparr>rmAccountKey = ak, rmMutationId = mid\<rparr>)) =
        wRemoveConfirmedMutation P ak mid"
  using assms unfolding backend_accepts_def by (blast intro: tauri_write_acknowledges)+

text \<open>C21: Over a native engine that serves a sync port, the Tauri sync port is that port: the same
  outcome and the same next world for every write, a conflict included; and no write throws,
  whatever the engine does.\<close>

theorem tauri_port_refines:
  "(backend_accepts b P \<longrightarrow> TauriSyncPort b = P) \<and>
   (\<exists>x t. tauri_write (ipc_call invoke) s = (Inr x, t))"
proof
  show "backend_accepts b P \<longrightarrow> TauriSyncPort b = P"
    by (auto intro!: SyncPort.equality simp: TauriSyncPort_def fun_eq_iff served_writes)
qed (rule tauri_write_returns)

definition idle_port :: "unit SyncPort" where
  "idle_port =
     \<lparr>wRegisterAccount = (\<lambda>_. retM (PortErr WrConflict)),
      wApplyCollectionSync = (\<lambda>_. retM (PortOk ())),
      wCacheEmailBody = (\<lambda>_. retM (PortOk ())),
      wReplaceAttachmentRefs = (\<lambda>_ _. retM (PortOk ())),
      wReplaceMailboxView = (\<lambda>_. retM (PortOk ())),
      wStageSendMutation = (\<lambda>_. retM (PortOk ())),
      wApplyOptimisticKeywordMutation = (\<lambda>_. retM (PortOk ())),
      wApplyOptimisticMailboxMembershipMutation = (\<lambda>_. retM (PortOk ())),
      wReplacePendingMutationIfCurrent = (\<lambda>_ _. retM (PortOk ())),
      wRemoveConfirmedMutation = (\<lambda>_ _. retM (PortOk ()))\<rparr>"

lemma tauri_port_refines_witness:
  "wRegisterAccount (TauriSyncPort idle_engine) sample_account () = (Inr (PortErr WrConflict), ())"
proof -
  have "backend_accepts idle_engine idle_port"
    by (simp add: backend_accepts_def idle_engine_def idle_port_def acknowledges_def retM_def
        write_error_string_def)
  with tauri_port_refines [of idle_engine idle_port "retM MalformedReply" "()"] have "TauriSyncPort idle_engine = idle_port"
    by simp
  then show ?thesis by (simp add: idle_port_def retM_def)
qed

section \<open>The change source\<close>

text \<open>An engine event reaches the subscribed listener exactly when the subscription is active
  and every hint decodes, and then as the decoded hints; after an unsubscription, or for a
  malformed event, the world is untouched, and neither delivery nor unsubscription throws
  even if the listener or the engine does.\<close>

theorem change_source_delivers:
  "source_deliver active listener value s =
     (case decodeLocalChangeBatch value of
        Inr hints \<Rightarrow> if active then (Inr (), snd (listener hints s)) else (Inr (), s)
      | Inl _ \<Rightarrow> (Inr (), s)) \<and>
   (\<exists>t. tauri_unsubscribe unlisten active s = (Inr False, t)) \<and>
   tauri_unsubscribe unlisten False s = (Inr False, s)"
  by (auto simp: source_deliver_def tauri_unsubscribe_def eff_defs split: prod.splits sum.splits)

end
