(* ===== verification/JSON.thy ===== *)
theory JSON
  imports E2ee
begin

text \<open>
  \<open>JSON.parse\<close> as ECMA-262 defines it, over UTF-16 code units: whitespace, literals, strings with
  their escapes, numbers (rounded to a double), arrays and objects. An object is the list of
  its members in text order; looking a key up takes the last member with it. The parser of
  nested values has fuel; twice the length of the text plus one is enough
  (\<open>parse_value_fuel\<close>), and that is what \<open>json_parse\<close> gives it.
\<close>

datatype json =
    JsonNull
  | JsonBool bool
  | JsonNumber number
  | JsonString jsstring
  | JsonArray "json list"
  | JsonObject "(jsstring \<times> json) list"

text \<open>A property of an object; none is \<open>undefined\<close>.\<close>

definition json_get :: "(jsstring \<times> json) list \<Rightarrow> jsstring \<Rightarrow> json option" where
  "json_get members key = map_of (rev members) key"

section \<open>Lexemes\<close>

definition json_space :: "16 word \<Rightarrow> bool" where
  "json_space c \<longleftrightarrow> c = 9 \<or> c = 10 \<or> c = 13 \<or> c = 32"

definition skip_space :: "jsstring \<Rightarrow> jsstring" where
  "skip_space s = dropWhile json_space s"

definition hex_value :: "16 word \<Rightarrow> nat option" where
  "hex_value c =
     (if 48 \<le> c \<and> c \<le> 57 then Some (unat c - 48)
      else if 97 \<le> c \<and> c \<le> 102 then Some (unat c - 87)
      else if 65 \<le> c \<and> c \<le> 70 then Some (unat c - 55)
      else None)"

definition hex_unit :: "16 word \<Rightarrow> 16 word \<Rightarrow> 16 word \<Rightarrow> 16 word \<Rightarrow> 16 word option" where
  "hex_unit a b c d =
     (case (hex_value a, hex_value b, hex_value c, hex_value d) of
        (Some i, Some j, Some k, Some l) \<Rightarrow> Some (of_nat (4096 * i + 256 * j + 16 * k + l))
      | _ \<Rightarrow> None)"

definition simple_escape :: "16 word \<Rightarrow> 16 word option" where
  "simple_escape c =
     (if c = 34 \<or> c = 92 \<or> c = 47 then Some c
      else if c = 98 then Some 8 else if c = 102 then Some 12 else if c = 110 then Some 10
      else if c = 114 then Some 13 else if c = 116 then Some 9 else None)"

definition prepend :: "16 word \<Rightarrow> (jsstring \<times> jsstring) option \<Rightarrow> (jsstring \<times> jsstring) option" where
  "prepend c r = (case r of None \<Rightarrow> None | Some (s, rest) \<Rightarrow> Some (c # s, rest))"

text \<open>The characters of a string literal after its opening quote.\<close>

fun parse_chars :: "jsstring \<Rightarrow> (jsstring \<times> jsstring) option" where
  "parse_chars [] = None"
| "parse_chars (c # cs) =
     (if c = 34 then Some ([], cs)
      else if c = 92 then
        (case cs of
           [] \<Rightarrow> None
         | e # es \<Rightarrow>
             if e = 117 then
               (case es of
                  w # x # y # z # rest \<Rightarrow>
                    (case hex_unit w x y z of
                       None \<Rightarrow> None
                     | Some u \<Rightarrow> prepend u (parse_chars rest))
                | _ \<Rightarrow> None)
             else
               (case simple_escape e of
                  None \<Rightarrow> None
                | Some u \<Rightarrow> prepend u (parse_chars es)))
      else if c < 32 then None
      else prepend c (parse_chars cs))"

definition is_digit :: "16 word \<Rightarrow> bool" where
  "is_digit c \<longleftrightarrow> 48 \<le> c \<and> c \<le> 57"

text \<open>The value of a number literal: its sign, its digits and its exponent.\<close>

definition json_number :: "bool \<Rightarrow> 16 word list \<Rightarrow> 16 word list \<Rightarrow> int \<Rightarrow> number" where
  "json_number neg ints fracs ex =
     (let i = int (digits10_value ints); sgn_of = (if neg then -1 else 1) in
      if fracs = [] \<and> ex = 0 \<and> i \<le> 2 ^ 53 then JInt (sgn_of * i)
      else round_double (of_int sgn_of * of_nat (digits10_value (ints @ fracs)) *
                         10 powi (ex - int (length fracs))))"

text \<open>A digit run, and the optional fraction and exponent.\<close>

definition take_digits :: "jsstring \<Rightarrow> 16 word list \<times> jsstring" where
  "take_digits s = (takeWhile is_digit s, dropWhile is_digit s)"

definition parse_fraction :: "jsstring \<Rightarrow> (16 word list \<times> jsstring) option" where
  "parse_fraction s =
     (case s of
        c # cs \<Rightarrow>
          if c = 46 then (case take_digits cs of ([], _) \<Rightarrow> None | (ds, rest) \<Rightarrow> Some (ds, rest))
          else Some ([], s)
      | [] \<Rightarrow> Some ([], s))"

definition parse_exponent_digits :: "bool \<Rightarrow> jsstring \<Rightarrow> (int \<times> jsstring) option" where
  "parse_exponent_digits neg s =
     (case take_digits s of
        ([], _) \<Rightarrow> None
      | (ds, rest) \<Rightarrow>
          Some ((if neg then -1 else 1) * int (digits10_value ds), rest))"

definition parse_exponent :: "jsstring \<Rightarrow> (int \<times> jsstring) option" where
  "parse_exponent s =
     (case s of
        c # cs \<Rightarrow>
          if c = 101 \<or> c = 69 then
            (case cs of
               d # ds \<Rightarrow>
                 if d = 45 then parse_exponent_digits True ds
                 else if d = 43 then parse_exponent_digits False ds
                 else parse_exponent_digits False cs
             | [] \<Rightarrow> None)
          else Some (0, s)
      | [] \<Rightarrow> Some (0, s))"

definition parse_unsigned :: "bool \<Rightarrow> jsstring \<Rightarrow> (json \<times> jsstring) option" where
  "parse_unsigned neg s =
     (case take_digits s of
        ([], _) \<Rightarrow> None
      | (d # ds, rest) \<Rightarrow>
          if d = 48 \<and> ds \<noteq> [] then None
          else
            (case parse_fraction rest of
               None \<Rightarrow> None
             | Some (fracs, rest1) \<Rightarrow>
                 (case parse_exponent rest1 of
                    None \<Rightarrow> None
                  | Some (ex, rest2) \<Rightarrow> Some (JsonNumber (json_number neg (d # ds) fracs ex), rest2))))"

definition parse_literal :: "jsstring \<Rightarrow> json \<Rightarrow> jsstring \<Rightarrow> (json \<times> jsstring) option" where
  "parse_literal word v s =
     (if js_startsWith s word then Some (v, drop (length word) s) else None)"

text \<open>A value that is neither an array nor an object, from its first character.\<close>

definition parse_scalar :: "16 word \<Rightarrow> jsstring \<Rightarrow> (json \<times> jsstring) option" where
  "parse_scalar c cs =
     (if c = 34 then map_option (\<lambda>(s, rest). (JsonString s, rest)) (parse_chars cs)
      else if c = 116 then parse_literal (js ''rue'') (JsonBool True) cs
      else if c = 102 then parse_literal (js ''alse'') (JsonBool False) cs
      else if c = 110 then parse_literal (js ''ull'') JsonNull cs
      else if c = 45 then parse_unsigned True cs
      else if is_digit c then parse_unsigned False (c # cs)
      else None)"

section \<open>Values\<close>

fun parse_value :: "nat \<Rightarrow> jsstring \<Rightarrow> (json \<times> jsstring) option"
and parse_members :: "nat \<Rightarrow> jsstring \<Rightarrow> ((jsstring \<times> json) list \<times> jsstring) option"
and parse_elements :: "nat \<Rightarrow> jsstring \<Rightarrow> (json list \<times> jsstring) option" where
  "parse_value 0 s = None"
| "parse_value (Suc n) s =
     (case skip_space s of
        [] \<Rightarrow> None
      | c # cs \<Rightarrow>
          if c = 123 then
            (case skip_space cs of
               [] \<Rightarrow> None
             | d # ds \<Rightarrow>
                 if d = 125 then Some (JsonObject [], ds)
                 else map_option (\<lambda>(ms, rest). (JsonObject ms, rest)) (parse_members n (d # ds)))
          else if c = 91 then
            (case skip_space cs of
               [] \<Rightarrow> None
             | d # ds \<Rightarrow>
                 if d = 93 then Some (JsonArray [], ds)
                 else map_option (\<lambda>(vs, rest). (JsonArray vs, rest)) (parse_elements n (d # ds)))
          else parse_scalar c cs)"
| "parse_members 0 s = None"
| "parse_members (Suc n) s =
     (case skip_space s of
        [] \<Rightarrow> None
      | q # cs \<Rightarrow>
          if q \<noteq> 34 then None
          else
            (case parse_chars cs of
               None \<Rightarrow> None
             | Some (key, rest) \<Rightarrow>
                 (case skip_space rest of
                    [] \<Rightarrow> None
                  | colon # rest1 \<Rightarrow>
                      if colon \<noteq> 58 then None
                      else
                        (case parse_value n rest1 of
                           None \<Rightarrow> None
                         | Some (v, rest2) \<Rightarrow>
                             (case skip_space rest2 of
                                [] \<Rightarrow> None
                              | e # rest3 \<Rightarrow>
                                  if e = 125 then Some ([(key, v)], rest3)
                                  else if e = 44 then
                                    map_option (\<lambda>(ms, r). ((key, v) # ms, r)) (parse_members n rest3)
                                  else None)))))"
| "parse_elements 0 s = None"
| "parse_elements (Suc n) s =
     (case parse_value n s of
        None \<Rightarrow> None
      | Some (v, rest) \<Rightarrow>
          (case skip_space rest of
             [] \<Rightarrow> None
           | e # rest1 \<Rightarrow>
               if e = 93 then Some ([v], rest1)
               else if e = 44 then map_option (\<lambda>(vs, r). (v # vs, r)) (parse_elements n rest1)
               else None))"

definition json_parse :: "jsstring \<Rightarrow> json option" where
  "json_parse text =
     (case parse_value (2 * length text + 1) text of
        None \<Rightarrow> None
      | Some (v, rest) \<Rightarrow> if skip_space rest = [] then Some v else None)"

section \<open>The fuel is enough\<close>

lemma skip_space_length: "length (skip_space s) \<le> length s"
  by (simp add: skip_space_def length_dropWhile_le)

lemma skip_space_Cons: "skip_space s = c # cs \<Longrightarrow> length cs < length s"
  using skip_space_length [of s] by simp

lemma parse_chars_length: "parse_chars s = Some (t, rest) \<Longrightarrow> length rest < length s"
proof (induction s arbitrary: t rest rule: length_induct)
  case (1 s)
  have IH: "length rest < length u" if "length u < length s" "prepend c (parse_chars u) = Some (t, rest)"
    for u c using that "1.IH" by (auto simp: prepend_def split: option.splits)
  show ?case
  proof (cases s)
    case (Cons c cs)
    show ?thesis
    proof (cases "c = 34 \<or> c \<noteq> 92")
      case True
      with "1.prems" Cons IH [of cs c] show ?thesis by (auto split: if_splits)
    next
      case False
      with "1.prems" Cons obtain e es where e: "cs = e # es" by (auto split: list.splits)
      show ?thesis
      proof (cases "e = 117")
        case True
        with "1.prems" False Cons e obtain w x y z r u where
          "es = w # x # y # z # r" "prepend u (parse_chars r) = Some (t, rest)"
          by (auto split: list.splits option.splits)
        with IH [of r u] Cons e show ?thesis by simp
      next
        case False
        with \<open>\<not> (c = 34 \<or> c \<noteq> 92)\<close> "1.prems" Cons e obtain u where
          "prepend u (parse_chars es) = Some (t, rest)"
          by (auto split: option.splits)
        with IH [of es u] Cons e show ?thesis by simp
      qed
    qed
  qed (use "1.prems" in simp)
qed

lemma take_digits_length: "take_digits s = (ds, rest) \<Longrightarrow> length rest \<le> length s"
  by (auto simp: take_digits_def length_dropWhile_le)

lemma parse_fraction_length: "parse_fraction s = Some (ds, rest) \<Longrightarrow> length rest \<le> length s"
  by (auto simp: parse_fraction_def split: list.splits if_splits prod.splits
      dest: take_digits_length)

lemma parse_exponent_length: "parse_exponent s = Some (e, rest) \<Longrightarrow> length rest \<le> length s"
  by (auto simp: parse_exponent_def parse_exponent_digits_def
      split: list.splits if_splits prod.splits dest: take_digits_length)

lemma parse_unsigned_length: "parse_unsigned b s = Some (v, rest) \<Longrightarrow> length rest < length s"
proof -
  assume "parse_unsigned b s = Some (v, rest)"
  then obtain d ds r1 r2 fr ex where parts: "take_digits s = (d # ds, r1)"
    "parse_fraction r1 = Some (fr, r2)" "parse_exponent r2 = Some (ex, rest)"
    by (auto simp: parse_unsigned_def split: list.splits if_splits prod.splits option.splits)
  from parts(1) have "length s = length (d # ds) + length r1"
    unfolding take_digits_def by (metis Pair_inject length_append takeWhile_dropWhile_id)
  with parse_fraction_length [OF parts(2)] parse_exponent_length [OF parts(3)]
  show "length rest < length s" by simp
qed

lemma parse_scalar_length: "parse_scalar c cs = Some (v, rest) \<Longrightarrow> length rest < Suc (length cs)"
  by (auto simp: parse_scalar_def parse_literal_def less_Suc_eq_le split: if_splits
      dest!: parse_chars_length parse_unsigned_length)

lemma value_cases:
  assumes "parse_value (Suc n) s = Some (v, rest)"
  obtains c cs where "skip_space s = c # cs" "parse_scalar c cs = Some (v, rest)"
  | c cs d ds where "skip_space s = c # cs" "skip_space cs = d # ds" "rest = ds"
  | c cs d ds ms where "skip_space s = c # cs" "skip_space cs = d # ds"
      "parse_members n (d # ds) = Some (ms, rest)"
  | c cs d ds vs where "skip_space s = c # cs" "skip_space cs = d # ds"
      "parse_elements n (d # ds) = Some (vs, rest)"
  using assms by (auto split: list.splits if_splits)

lemma members_cases:
  assumes "parse_members (Suc n) s = Some (ms, rest)"
  obtains cs key r1 colon r2 v r3 e r4 where "skip_space s = 34 # cs" "parse_chars cs = Some (key, r1)"
    "skip_space r1 = colon # r2" "parse_value n r2 = Some (v, r3)" "skip_space r3 = e # r4"
    "rest = r4 \<or> (\<exists>ms'. parse_members n r4 = Some (ms', rest))"
  using assms by (auto split: list.splits if_splits option.splits)

lemma elements_cases:
  assumes "parse_elements (Suc n) s = Some (vs, rest)"
  obtains v r1 e r2 where "parse_value n s = Some (v, r1)" "skip_space r1 = e # r2"
    "rest = r2 \<or> (\<exists>vs'. parse_elements n r2 = Some (vs', rest))"
  using assms by (auto split: list.splits if_splits option.splits)

declare parse_value.simps [simp del] parse_members.simps [simp del] parse_elements.simps [simp del]

lemmas parse_zero = parse_value.simps(1) parse_members.simps(1) parse_elements.simps(1)

lemma parse_length:
  "(parse_value n s = Some (v, rest) \<longrightarrow> length rest < length s) \<and>
   (parse_members n s = Some (ms, rest) \<longrightarrow> length rest < length s) \<and>
   (parse_elements n s = Some (vs, rest) \<longrightarrow> length rest < length s)"
proof (induction n arbitrary: s v rest ms vs)
  case (Suc n)
  have val: "length rest < length s" if "parse_value (Suc n) s = Some (v, rest)" for s v rest
    using that
  proof (cases rule: value_cases)
    case (1 c cs)
    then show ?thesis using skip_space_Cons parse_scalar_length by fastforce
  next
    case (2 c cs d ds)
    from skip_space_Cons [OF 2(1)] skip_space_Cons [OF 2(2)] 2(3) show ?thesis by simp
  next
    case (3 c cs d ds ms)
    then have "length rest < length (d # ds)" using Suc.IH by blast
    with skip_space_Cons [OF 3(1)] skip_space_length [of cs] 3(2) show ?thesis by simp
  next
    case (4 c cs d ds vs)
    then have "length rest < length (d # ds)" using Suc.IH by blast
    with skip_space_Cons [OF 4(1)] skip_space_length [of cs] 4(2) show ?thesis by simp
  qed
  moreover have "length rest < length s" if "parse_members (Suc n) s = Some (ms, rest)"
    using that
  proof (cases rule: members_cases)
    case (1 cs key r1 colon r2 v r3 e r4)
    then have "length cs < length s" "length r1 < length cs" "length r2 < length r1"
      "length r3 < length r2" "length r4 < length r3"
      using skip_space_Cons parse_chars_length Suc.IH by blast+
    moreover have "length rest \<le> length r4" using 1(6) Suc.IH by (auto intro: less_imp_le)
    ultimately show ?thesis by simp
  qed
  moreover have "length rest < length s" if "parse_elements (Suc n) s = Some (vs, rest)"
    using that
  proof (cases rule: elements_cases)
    case (1 v r1 e r2)
    then have "length r1 < length s" "length r2 < length r1" using skip_space_Cons Suc.IH by blast+
    moreover have "length rest \<le> length r2" using 1(3) Suc.IH by (auto intro: less_imp_le)
    ultimately show ?thesis by simp
  qed
  ultimately show ?case by blast
qed (simp add: parse_zero)

lemma parse_fuel:
  "(2 * length s < n \<longrightarrow> parse_value (Suc n) s = parse_value n s) \<and>
   (2 * length s < n \<longrightarrow> parse_members (Suc n) s = parse_members n s) \<and>
   (2 * length s + 1 < n \<longrightarrow> parse_elements (Suc n) s = parse_elements n s)"
proof (induction n arbitrary: s)
  case (Suc n)
  have "parse_value (Suc (Suc n)) s = parse_value (Suc n) s" if "2 * length s < Suc n"
  proof -
    have "parse_members (Suc n) (d # ds) = parse_members n (d # ds)"
      "parse_elements (Suc n) (d # ds) = parse_elements n (d # ds)"
      if "skip_space s = c # cs" "skip_space cs = d # ds" for c cs d ds
      using that skip_space_Cons [of s c cs] skip_space_length [of cs] Suc.IH [of "d # ds"]
        \<open>2 * length s < Suc n\<close> by auto
    then show ?thesis
      unfolding parse_value.simps by (simp split: list.split)
  qed
  moreover have "parse_members (Suc (Suc n)) s = parse_members (Suc n) s" if "2 * length s < Suc n"
  proof -
    have small: "2 * length t < n" if "skip_space s = q # cs" "parse_chars cs = Some (key, r1)"
      "skip_space r1 = colon # r2" "length t \<le> length r2" for t q cs key r1 colon r2
      using skip_space_Cons [OF that(1)] parse_chars_length [OF that(2)] skip_space_Cons [OF that(3)]
        that(4) \<open>2 * length s < Suc n\<close> by simp
    have "parse_value (Suc n) r2 = parse_value n r2" if "skip_space s = q # cs"
      "parse_chars cs = Some (key, r1)" "skip_space r1 = colon # r2" for q cs key r1 colon r2
      using Suc.IH [of r2] small [OF that order_refl] by simp
    moreover have "parse_members (Suc n) r4 = parse_members n r4" if "skip_space s = q # cs"
      "parse_chars cs = Some (key, r1)" "skip_space r1 = colon # r2" "parse_value n r2 = Some (v, r3)"
      "skip_space r3 = e # r4" for q cs key r1 colon r2 v r3 e r4
    proof -
      have "length r4 \<le> length r2"
        using skip_space_Cons [OF that(5)] that(4) parse_length [of n r2] by fastforce
      from small [OF that(1-3) this] Suc.IH show ?thesis by simp
    qed
    ultimately show ?thesis
      unfolding parse_members.simps by (simp split: list.split option.split)
  qed
  moreover have "parse_elements (Suc (Suc n)) s = parse_elements (Suc n) s"
    if "2 * length s + 1 < Suc n"
  proof -
    have "parse_value (Suc n) s = parse_value n s" using that Suc.IH by simp
    moreover have "parse_elements (Suc n) r2 = parse_elements n r2"
      if "parse_value n s = Some (v, r1)" "skip_space r1 = e # r2" for v r1 e r2
    proof -
      have "length r2 < length s"
        using skip_space_Cons [OF that(2)] that(1) parse_length [of n s] by fastforce
      with \<open>2 * length s + 1 < Suc n\<close> Suc.IH show ?thesis by simp
    qed
    ultimately show ?thesis
      unfolding parse_elements.simps by (simp split: list.split option.split)
  qed
  ultimately show ?case by blast
qed simp

text \<open>More fuel than twice the length of the text never changes the result.\<close>

lemma parse_value_fuel: "2 * length s < n \<Longrightarrow> parse_value n s = parse_value (2 * length s + 1) s"
proof (induction n rule: less_induct)
  case (less n)
  show ?case
  proof (cases "n = 2 * length s + 1")
    case False
    with less.prems obtain m where m: "n = Suc m" "2 * length s < m" by (cases n) auto
    with less.IH [of m] parse_fuel [of s m] show ?thesis by simp
  qed simp
qed

end
