(* ===== verification/Envelope.thy ===== *)
theory Envelope
  imports JSON
begin

text \<open>
  The parser of \<open>src/src/remote/mime/boxplot-e2ee.ts\<close>, and that it undoes the serialiser: an
  encrypted body written into a message is read back as the same envelope.
\<close>

definition invalid_envelope :: exn where
  "invalid_envelope = TypeError (js ''Invalid Boxplot E2EE envelope'')"

definition requiredString :: "(jsstring \<times> json) list \<Rightarrow> jsstring \<Rightarrow> jsstring throws" where
  "requiredString members field =
     (case json_get members field of
        Some (JsonString s) \<Rightarrow> Inr s
      | _ \<Rightarrow> Inl invalid_envelope)"

definition parseBoxplotE2eeEnvelope :: "jsstring \<Rightarrow> BoxplotE2eeEnvelope throws" where
  "parseBoxplotE2eeEnvelope payload =
     (case json_parse payload of
        Some (JsonObject parsed) \<Rightarrow>
          throw_if (json_get parsed (js ''version'') \<noteq> Some (JsonNumber (JInt 1)) \<or>
                    json_get parsed (js ''algorithm'') \<noteq> Some (JsonString (js ''boxplot-crypto-box-v1'')))
            invalid_envelope
          (bindE (requiredString parsed (js ''sender'')) (\<lambda>sender.
           bindE (requiredString parsed (js ''recipient'')) (\<lambda>recipient.
           bindE (requiredString parsed (js ''senderPublicKey'')) (\<lambda>senderPublicKey.
           bindE (requiredString parsed (js ''recipientPublicKey'')) (\<lambda>recipientPublicKey.
           bindE (requiredString parsed (js ''nonce'')) (\<lambda>nonce.
           bindE (requiredString parsed (js ''ciphertext'')) (\<lambda>ciphertext.
           Inr \<lparr>evSender = sender, evRecipient = recipient, evSenderPublicKey = senderPublicKey,
                evRecipientPublicKey = recipientPublicKey, evNonce = nonce,
                evCiphertext = ciphertext\<rparr>)))))))
      | _ \<Rightarrow> Inl invalid_envelope)"

section \<open>A quoted string is read back\<close>

lemma hex_value_digits: "\<forall>n \<in> set [0..<16]. hex_value (hex_digit n) = Some n"
  by code_simp

lemma hex_value_digit: "n < 16 \<Longrightarrow> hex_value (hex_digit n) = Some n"
  using hex_value_digits by simp

lemma hex_unit_escape:
  "hex_unit (hex_digit (unat c div 4096)) (hex_digit (unat c div 256 mod 16))
     (hex_digit (unat c div 16 mod 16)) (hex_digit (unat c mod 16)) = Some c"
proof -
  have "unat c < 65536" using unsigned_less [of c, where 'a = nat] by simp
  then have "unat c div 4096 < 16" by (simp add: less_mult_imp_div_less)
  moreover have "4096 * (u div 4096) + 256 * (u div 256 mod 16) + 16 * (u div 16 mod 16) + u mod 16 = u"
    for u :: nat
  proof -
    have "u div 16 div 16 = u div 256" "u div 256 div 16 = u div 4096"
      by (simp_all add: div_mult2_eq [symmetric])
    with mult_div_mod_eq [of 16 u] mult_div_mod_eq [of 16 "u div 16"] mult_div_mod_eq [of 16 "u div 256"]
    show ?thesis by linarith
  qed
  from this [of "unat c"] have "word_of_nat (4096 * (unat c div 4096) + 256 * (unat c div 256 mod 16) +
      16 * (unat c div 16 mod 16) + unat c mod 16) = (word_of_nat (unat c) :: 16 word)"
    by (simp only:)
  then have "word_of_nat (4096 * (unat c div 4096) + 256 * (unat c div 256 mod 16) +
      16 * (unat c div 16 mod 16) + unat c mod 16) = c"
    by (simp only: of_nat_unat ucast_id)
  ultimately show ?thesis
    by (simp add: hex_unit_def hex_value_digit)
qed

lemma parse_quoted_unit: "parse_chars (quote_unit c @ rest) = prepend c (parse_chars rest)"
  by (simp add: quote_unit_def unicode_escape_def simple_escape_def hex_unit_escape)

lemma surrogate_not_special:
  assumes "leading_surrogate c \<or> trailing_surrogate c"
  shows "c \<noteq> 34 \<and> c \<noteq> 92 \<and> \<not> c < 32"
  using assms by (auto simp: leading_surrogate_def trailing_surrogate_def word_less_nat_alt word_le_nat_alt)

lemma parse_quoted: "parse_chars (quote_units s @ 34 # rest) = Some (s, rest)"
proof (induction s rule: quote_units.induct)
  case (2 c)
  then show ?case by (simp add: parse_quoted_unit prepend_def)
next
  case (3 c d cs)
  show ?case
  proof (cases "leading_surrogate c \<and> trailing_surrogate d")
    case True
    with 3(1) surrogate_not_special [of c] surrogate_not_special [of d] show ?thesis
      by (simp add: prepend_def)
  next
    case False
    then have "quote_units (c # d # cs) = quote_unit c @ quote_units (d # cs)" by auto
    with 3(2) [OF False] show ?thesis
      by (simp add: parse_quoted_unit prepend_def del: quote_units.simps parse_chars.simps)
  qed
qed simp

section \<open>An object of strings is read back\<close>

definition ends_value :: "jsstring \<Rightarrow> bool" where
  "ends_value rest \<longleftrightarrow> (case rest of c # _ \<Rightarrow> c = 44 \<or> c = 125 | [] \<Rightarrow> False)"

definition atom :: "jsstring \<Rightarrow> json \<Rightarrow> bool" where
  "atom t v \<longleftrightarrow> (\<forall>n rest. ends_value rest \<longrightarrow> parse_value (Suc n) (t @ rest) = Some (v, rest))"

lemma skip_no_space [simp]: "\<not> json_space c \<Longrightarrow> skip_space (c # cs) = c # cs"
  by (simp add: skip_space_def)

lemma no_space [simp]:
  "\<not> json_space 34" "\<not> json_space 44" "\<not> json_space 58" "\<not> json_space 123" "\<not> json_space 125"
  "\<not> json_space 49"
  by (simp_all add: json_space_def)

lemma atom_string: "atom (json_quote s) (JsonString s)"
  by (simp add: atom_def json_quote_def parse_value.simps parse_scalar_def parse_quoted)

lemma atom_one: "atom [49] (JsonNumber (JInt 1))"
proof -
  have "parse_unsigned False (49 # rest) = Some (JsonNumber (JInt 1), rest)" if "ends_value rest" for rest
    using that
    by (cases rest) (auto simp: ends_value_def parse_unsigned_def take_digits_def is_digit_def
        parse_fraction_def parse_exponent_def json_number_def digits10_value_def)
  then show ?thesis
    by (simp add: atom_def parse_value.simps parse_scalar_def is_digit_def)
qed

fun members_text :: "(jsstring \<times> jsstring) list \<Rightarrow> jsstring" where
  "members_text [] = []"
| "members_text [(k, t)] = json_member k t @ [125]"
| "members_text ((k, t) # m # ms) = json_member k t @ [44] @ members_text (m # ms)"

lemma parse_members_text:
  assumes "list_all2 (\<lambda>(k, t) (k', v). k' = k \<and> atom t v) kts kvs" "kts \<noteq> []" "length kts < n"
  shows "parse_members n (members_text kts @ rest) = Some (kvs, rest)"
  using assms
proof (induction kts arbitrary: kvs n rule: members_text.induct)
  case (2 k t)
  then obtain v m where v: "kvs = [(k, v)]" "atom t v" "n = Suc m" by (cases n) (auto simp: list_all2_Cons1)
  obtain l where "m = Suc l" using 2 v by (cases m) auto
  with v show ?case
    by (simp add: parse_members.simps json_member_def json_quote_def parse_quoted atom_def ends_value_def)
next
  case (3 k t m ms)
  then obtain v vs l where v: "kvs = (k, v) # vs" "atom t v" "n = Suc l"
    "list_all2 (\<lambda>(k, t) (k', v). k' = k \<and> atom t v) (m # ms) vs"
    by (cases n) (auto simp: list_all2_Cons1)
  obtain j where j: "l = Suc j" using 3(3) v(3) 3(4) by (cases l) auto
  have "parse_members l (members_text (m # ms) @ rest) = Some (vs, rest)"
    using 3 v by simp
  moreover have "parse_value l (t @ 44 # s) = Some (v, 44 # s)" for s
    using v(2) j by (simp add: atom_def ends_value_def)
  ultimately show ?case
    unfolding v(3) by (simp add: parse_members.simps(2) json_member_def json_quote_def parse_quoted v(1))
qed simp

lemma serialize_text:
  "serializeBoxplotE2eeEnvelope e =
     123 # members_text
       [(js ''version'', [49]), (js ''algorithm'', json_quote (js ''boxplot-crypto-box-v1'')),
        (js ''sender'', json_quote (evSender e)), (js ''recipient'', json_quote (evRecipient e)),
        (js ''senderPublicKey'', json_quote (evSenderPublicKey e)),
        (js ''recipientPublicKey'', json_quote (evRecipientPublicKey e)),
        (js ''nonce'', json_quote (evNonce e)), (js ''ciphertext'', json_quote (evCiphertext e))]"
  by (simp add: serializeBoxplotE2eeEnvelope_def)

lemma members_text_length: "length kts \<le> length (members_text kts)"
  by (induction kts rule: members_text.induct) (auto simp: json_member_def)

lemma members_text_head: "kts \<noteq> [] \<Longrightarrow> \<exists>s. members_text kts = 34 # s"
  by (cases kts rule: members_text.cases) (auto simp: json_member_def json_quote_def)

lemma json_parse_object:
  assumes "list_all2 (\<lambda>(k, t) (k', v). k' = k \<and> atom t v) kts kvs" "kts \<noteq> []"
  shows "json_parse (123 # members_text kts) = Some (JsonObject kvs)"
proof -
  obtain s where s: "members_text kts = 34 # s" using members_text_head [OF assms(2)] by blast
  have "parse_members n (members_text kts) = Some (kvs, [])" if "length kts < n" for n
    using parse_members_text [OF assms that, of "[]"] by simp
  from this [of "2 * length (123 # members_text kts)"] members_text_length [of kts] show ?thesis
    unfolding json_parse_def Suc_eq_plus1 [symmetric] parse_value.simps
    by (simp add: s skip_space_def)
qed

section \<open>Properties\<close>

text \<open>C25: Serialising an envelope and parsing the text gives the envelope back, whatever the strings
  in it are: quotes, control characters and lone surrogates included.\<close>

theorem envelope_roundtrip:
  "parseBoxplotE2eeEnvelope (serializeBoxplotE2eeEnvelope e) = Inr e"
proof -
  let ?kvs = "[(js ''version'', JsonNumber (JInt 1)),
     (js ''algorithm'', JsonString (js ''boxplot-crypto-box-v1'')),
     (js ''sender'', JsonString (evSender e)), (js ''recipient'', JsonString (evRecipient e)),
     (js ''senderPublicKey'', JsonString (evSenderPublicKey e)),
     (js ''recipientPublicKey'', JsonString (evRecipientPublicKey e)),
     (js ''nonce'', JsonString (evNonce e)), (js ''ciphertext'', JsonString (evCiphertext e))]"
  have "json_parse (serializeBoxplotE2eeEnvelope e) = Some (JsonObject ?kvs)"
    unfolding serialize_text
    by (rule json_parse_object) (simp_all add: atom_string atom_one)
  then show ?thesis
    by (simp add: parseBoxplotE2eeEnvelope_def requiredString_def json_get_def js_def)
qed

text \<open>Whatever the payload of a message is, parsing it either throws the one error of the
  parser or yields an envelope that the payload, read as JSON, states field by field.\<close>

theorem envelope_sound:
  "(case parseBoxplotE2eeEnvelope payload of
      Inl err \<Rightarrow> err = invalid_envelope
    | Inr e \<Rightarrow>
        (\<exists>ms. json_parse payload = Some (JsonObject ms) \<and>
           json_get ms (js ''version'') = Some (JsonNumber (JInt 1)) \<and>
           json_get ms (js ''sender'') = Some (JsonString (evSender e)) \<and>
           json_get ms (js ''recipient'') = Some (JsonString (evRecipient e)) \<and>
           json_get ms (js ''ciphertext'') = Some (JsonString (evCiphertext e))))"
proof -
  have req: "requiredString ms k = Inr s \<longleftrightarrow> json_get ms k = Some (JsonString s)" for ms k s
    by (auto simp: requiredString_def split: option.splits json.splits)
  have err: "requiredString ms k = Inl x \<Longrightarrow> x = invalid_envelope" for ms k x
    by (auto simp: requiredString_def split: option.splits json.splits)
  show ?thesis
  proof (cases "parseBoxplotE2eeEnvelope payload")
    case (Inl x)
    then show ?thesis
      by (auto simp: parseBoxplotE2eeEnvelope_def bindE_def throw_if_def dest: err
          split: option.splits json.splits sum.splits if_splits)
  next
    case (Inr e)
    then show ?thesis
      by (auto simp: parseBoxplotE2eeEnvelope_def bindE_Inr_iff req
          split: option.splits json.splits)
  qed
qed

end
