(* ===== verification/E2ee_Adapter.thy ===== *)
theory E2ee_Adapter
  imports Envelope
begin

text \<open>
  \<open>src/src/e2ee/port.ts\<close> and \<open>src/src/e2ee/tauri-e2ee-adapter.ts\<close>: the encryption port, and its
  adapter over the native commands. What a command resolves to is any JSON value, checked by
  the decoders; what it rejects with is a string, a \<open>TypeError\<close> or something else.
\<close>

section \<open>The port\<close>

record E2eePublicIdentity =
  piLocalIdentity :: jsstring
  piPublicKey :: jsstring

datatype PeerKeyStatus = PeerMissing | PeerTrusted jsstring

record E2eePlaintext =
  ptSender :: jsstring
  ptRecipient :: jsstring
  ptSubject :: jsstring
  ptText :: jsstring
  ptHtml :: "jsstring option"

record DecryptFromInput =
  dfLocalIdentity :: jsstring
  dfExpectedSender :: jsstring
  dfExpectedRecipient :: jsstring
  dfExpectedSubject :: jsstring
  dfEnvelope :: BoxplotE2eeEnvelope

record 's E2eePort =
  epEnsureLocalIdentity :: "jsstring \<Rightarrow> ('s, exn, E2eePublicIdentity E2eeResult) eff"
  epTrustPeerPublicKey :: "jsstring \<Rightarrow> jsstring \<Rightarrow> jsstring \<Rightarrow> ('s, exn, unit E2eeResult) eff"
  epPeerKeyStatus :: "jsstring \<Rightarrow> jsstring \<Rightarrow> ('s, exn, PeerKeyStatus E2eeResult) eff"
  epEncryptFor :: "EncryptForInput \<Rightarrow> ('s, exn, BoxplotE2eeEnvelope E2eeResult) eff"
  epDecryptFrom :: "DecryptFromInput \<Rightarrow> ('s, exn, E2eePlaintext E2eeResult) eff"

section \<open>Decoders\<close>

definition record_of :: "json \<Rightarrow> (jsstring \<times> json) list throws" where
  "record_of v =
     (case v of
        JsonObject members \<Rightarrow> Inr members
      | _ \<Rightarrow> Inl (TypeError (js ''Malformed E2EE IPC value'')))"

definition stringField :: "(jsstring \<times> json) list \<Rightarrow> jsstring \<Rightarrow> jsstring throws" where
  "stringField members key =
     (case json_get members key of
        Some (JsonString s) \<Rightarrow> Inr s
      | _ \<Rightarrow> Inl (TypeError (js ''Malformed E2EE '' @ key)))"

definition decodePublicIdentity :: "json \<Rightarrow> E2eePublicIdentity throws" where
  "decodePublicIdentity v =
     bindE (record_of v) (\<lambda>item.
     bindE (stringField item (js ''localIdentity'')) (\<lambda>localIdentity.
     bindE (stringField item (js ''publicKey'')) (\<lambda>publicKey.
     Inr \<lparr>piLocalIdentity = localIdentity, piPublicKey = publicKey\<rparr>)))"

definition decodeUnit :: "json \<Rightarrow> unit throws" where
  "decodeUnit v =
     throw_if (v \<noteq> JsonNull) (TypeError (js ''Malformed E2EE unit response'')) (Inr ())"

definition decodePeerStatus :: "json \<Rightarrow> PeerKeyStatus throws" where
  "decodePeerStatus v =
     bindE (record_of v) (\<lambda>item.
     if json_get item (js ''kind'') = Some (JsonString (js ''missing'')) then Inr PeerMissing
     else if json_get item (js ''kind'') = Some (JsonString (js ''trusted'')) then
       bindE (stringField item (js ''publicKey'')) (\<lambda>publicKey. Inr (PeerTrusted publicKey))
     else Inl (TypeError (js ''Malformed E2EE peer status'')))"

definition decodeEnvelope :: "json \<Rightarrow> BoxplotE2eeEnvelope throws" where
  "decodeEnvelope v =
     bindE (record_of v) (\<lambda>item.
     throw_if (json_get item (js ''version'') \<noteq> Some (JsonNumber (JInt 1)) \<or>
               json_get item (js ''algorithm'') \<noteq> Some (JsonString (js ''boxplot-crypto-box-v1'')))
       (TypeError (js ''Malformed E2EE envelope discriminator''))
     (bindE (stringField item (js ''sender'')) (\<lambda>sender.
      bindE (stringField item (js ''recipient'')) (\<lambda>recipient.
      bindE (stringField item (js ''senderPublicKey'')) (\<lambda>senderPublicKey.
      bindE (stringField item (js ''recipientPublicKey'')) (\<lambda>recipientPublicKey.
      bindE (stringField item (js ''nonce'')) (\<lambda>nonce.
      bindE (stringField item (js ''ciphertext'')) (\<lambda>ciphertext.
      Inr \<lparr>evSender = sender, evRecipient = recipient, evSenderPublicKey = senderPublicKey,
           evRecipientPublicKey = recipientPublicKey, evNonce = nonce,
           evCiphertext = ciphertext\<rparr>))))))))"

text \<open>The \<open>html\<close> field is null or a string; the decoder has checked that before it reads it.\<close>

definition decodePlaintext :: "json \<Rightarrow> E2eePlaintext throws" where
  "decodePlaintext v =
     bindE (record_of v) (\<lambda>item.
     bindE (if json_get item (js ''version'') \<noteq> Some (JsonNumber (JInt 1))
            then Inl (TypeError (js ''Malformed E2EE plaintext''))
            else case json_get item (js ''html'') of
                   Some JsonNull \<Rightarrow> Inr None
                 | Some (JsonString h) \<Rightarrow> Inr (Some h)
                 | _ \<Rightarrow> Inl (TypeError (js ''Malformed E2EE plaintext''))) (\<lambda>html.
     bindE (stringField item (js ''sender'')) (\<lambda>sender.
     bindE (stringField item (js ''recipient'')) (\<lambda>recipient.
     bindE (stringField item (js ''subject'')) (\<lambda>subject.
     bindE (stringField item (js ''text'')) (\<lambda>txt.
     Inr \<lparr>ptSender = sender, ptRecipient = recipient, ptSubject = subject, ptText = txt,
          ptHtml = html\<rparr>))))))"

section \<open>The adapter\<close>

datatype rejection = RejectString jsstring | RejectTypeError | RejectOther

definition error_kind_of :: "jsstring \<Rightarrow> E2eeErrorKind option" where
  "error_kind_of s =
     map_of [(js ''multipleRecipientsUnsupported'', EMultipleRecipientsUnsupported),
             (js ''keyUnavailable'', EKeyUnavailable),
             (js ''peerKeyUnavailable'', EPeerKeyUnavailable),
             (js ''keyMismatch'', EKeyMismatch), (js ''invalidPublicKey'', EInvalidPublicKey),
             (js ''invalidEnvelope'', EInvalidEnvelope),
             (js ''metadataMismatch'', EMetadataMismatch),
             (js ''authenticationFailed'', EAuthenticationFailed),
             (js ''unavailable'', EUnavailable), (js ''unexpected'', EUnexpected)] s"

definition decodeError :: "rejection \<Rightarrow> E2eeErrorKind" where
  "decodeError value =
     (case value of
        RejectString s \<Rightarrow>
          (case error_kind_of s of Some k \<Rightarrow> k | None \<Rightarrow> EUnavailable)
      | RejectTypeError \<Rightarrow> EUnexpected
      | RejectOther \<Rightarrow> EUnavailable)"

text \<open>The five native commands.\<close>

record 's E2eeInvoke =
  evEnsureLocalIdentity :: "jsstring \<Rightarrow> ('s, rejection, json) eff"
  evTrustPeerPublicKey :: "jsstring \<Rightarrow> jsstring \<Rightarrow> jsstring \<Rightarrow> ('s, rejection, json) eff"
  evPeerKeyStatus :: "jsstring \<Rightarrow> jsstring \<Rightarrow> ('s, rejection, json) eff"
  evEncrypt :: "EncryptForInput \<Rightarrow> ('s, rejection, json) eff"
  evDecrypt :: "DecryptFromInput \<Rightarrow> ('s, rejection, json) eff"

text \<open>Every decoder throws a \<open>TypeError\<close>, which the same \<open>catch\<close> turns into an error kind.\<close>

definition e2ee_call ::
  "('s, rejection, json) eff \<Rightarrow> (json \<Rightarrow> 'a throws) \<Rightarrow> ('s, exn, 'a E2eeResult) eff" where
  "e2ee_call invoke decode s =
     (case invoke s of
        (Inl cause, t) \<Rightarrow> (Inr (E2eeErr (decodeError cause)), t)
      | (Inr v, t) \<Rightarrow>
          (case decode v of
             Inl _ \<Rightarrow> (Inr (E2eeErr (decodeError RejectTypeError)), t)
           | Inr a \<Rightarrow> (Inr (E2eeOk a), t)))"

definition TauriE2eeAdapter :: "('s, 'x) E2eeInvoke_scheme \<Rightarrow> 's E2eePort" where
  "TauriE2eeAdapter invoke =
     \<lparr>epEnsureLocalIdentity = (\<lambda>i. e2ee_call (evEnsureLocalIdentity invoke i) decodePublicIdentity),
      epTrustPeerPublicKey = (\<lambda>i p k. e2ee_call (evTrustPeerPublicKey invoke i p k) decodeUnit),
      epPeerKeyStatus = (\<lambda>i p. e2ee_call (evPeerKeyStatus invoke i p) decodePeerStatus),
      epEncryptFor = (\<lambda>input. e2ee_call (evEncrypt invoke input) decodeEnvelope),
      epDecryptFrom = (\<lambda>input. e2ee_call (evDecrypt invoke input) decodePlaintext)\<rparr>"

text \<open>The encryption adapter never throws: a decryption answers a plaintext exactly when the
  native command resolved to a value that decodes to it, and otherwise an error kind, which is
  the rejection's kind when it is one of the port's and a fixed one when it is not.\<close>

theorem e2ee_adapter_total:
  "case epDecryptFrom (TauriE2eeAdapter invoke) input s of
     (Inl _, _) \<Rightarrow> False
   | (Inr (E2eeOk plain), t) \<Rightarrow>
       (\<exists>v. evDecrypt invoke input s = (Inr v, t) \<and> decodePlaintext v = Inr plain)
   | (Inr (E2eeErr kind), t) \<Rightarrow>
       (\<exists>c. evDecrypt invoke input s = (Inl c, t) \<and>
          kind = (case c of
                    RejectString str \<Rightarrow> (case error_kind_of str of Some k \<Rightarrow> k | None \<Rightarrow> EUnavailable)
                  | RejectTypeError \<Rightarrow> EUnexpected
                  | RejectOther \<Rightarrow> EUnavailable)) \<or>
       kind = EUnexpected \<and> (\<exists>v e. evDecrypt invoke input s = (Inr v, t) \<and> decodePlaintext v = Inl e)"
  by (auto simp: TauriE2eeAdapter_def e2ee_call_def decodeError_def split: prod.splits sum.splits)

end
