(* ===== verification/Body_Materializer.thy ===== *)
theory Body_Materializer
  imports E2ee_Adapter Port_Interfaces
begin

text \<open>
  \<open>src/src/sync/body-materializer.ts\<close>: fetching the body of an e-mail into the local cache, with
  decryption, and the table of the materialisations in flight.
\<close>

datatype BodyMaterializationResult = AlreadyCached | Materialized

record 's RemoteBodyFetch =
  bfBody :: RemoteBody
  bfAssertCurrent :: "('s, exn, unit) eff"

record 's BodyMaterializerDependencies =
  bmReadRepository :: "'s ReadRepository"
  bmSyncPort :: "'s SyncPort"
  bmFetchBody :: "AccountKey \<Rightarrow> RemoteEmailId \<Rightarrow> ('s, exn, 's RemoteBodyFetch) eff"
  bmDecryptFrom :: "DecryptFromInput \<Rightarrow> ('s, exn, E2eePlaintext E2eeResult) eff"

record ExpectedE2eeMetadata =
  exLocalIdentity :: jsstring
  exExpectedSender :: jsstring
  exExpectedRecipient :: jsstring
  exExpectedSubject :: jsstring

definition materialization_failure :: "BodyMaterializationErrorKind \<Rightarrow> exn" where
  "materialization_failure kind = BodyMaterializationError kind None"

section \<open>Metadata\<close>

definition singleAddress :: "EmailAddressList \<Rightarrow> jsstring option" where
  "singleAddress value =
     (case value of Some [a] \<Rightarrow> Some (adEmail a) | _ \<Rightarrow> None)"

definition isEmptyAddressList :: "EmailAddressList \<Rightarrow> bool" where
  "isEmptyAddressList value = (case value of None \<Rightarrow> True | Some as \<Rightarrow> length as = 0)"

definition resolveLocalIdentity ::
  "('s, 'x) BodyMaterializerDependencies_scheme \<Rightarrow> Email \<Rightarrow> jsstring \<Rightarrow> jsstring \<Rightarrow>
   ('s, exn, ExpectedE2eeMetadata) eff" where
  "resolveLocalIdentity deps e expectedSender expectedRecipient =
     bindM (qListIdentities (bmReadRepository deps) (accountKey (emId e))) (\<lambda>identities.
     case identities of
       PortErr _ \<Rightarrow> throwM (materialization_failure MLocal)
     | PortOk SnapshotOwnerAbsent \<Rightarrow> throwM (materialization_failure MMetadataUnavailable)
     | PortOk (SnapshotPresent value) \<Rightarrow>
         (let matchingEmails =
            set_of_list (filter (\<lambda>v. v = expectedRecipient) (map idEmail value)) in
          if length matchingEmails \<noteq> 1 then throwM (materialization_failure MMetadataUnavailable)
          else case emSubject e of
                 None \<Rightarrow> throwM (materialization_failure MMetadataUnavailable)
               | Some subject \<Rightarrow>
                   retM \<lparr>exLocalIdentity = expectedRecipient, exExpectedSender = expectedSender,
                         exExpectedRecipient = expectedRecipient,
                         exExpectedSubject = subject\<rparr>))"

definition resolveExpectedMetadata ::
  "('s, 'x) BodyMaterializerDependencies_scheme \<Rightarrow> ScopedEmailId \<Rightarrow>
   ('s, exn, ExpectedE2eeMetadata) eff" where
  "resolveExpectedMetadata deps emailId =
     bindM (qReadEmail (bmReadRepository deps) emailId) (\<lambda>emailResult.
     case emailResult of
       PortErr _ \<Rightarrow> throwM (materialization_failure MLocal)
     | PortOk EntityAbsent \<Rightarrow> throwM (materialization_failure MEmailAbsent)
     | PortOk (EntityPresent e) \<Rightarrow>
         (case (singleAddress (emFrom e), singleAddress (emTo e)) of
            (Some expectedSender, Some expectedRecipient) \<Rightarrow>
              if \<not> isEmptyAddressList (emCc e) \<or> \<not> isEmptyAddressList (emBcc e) \<or> emSubject e = None
              then throwM (materialization_failure MMetadataUnavailable)
              else resolveLocalIdentity deps e expectedSender expectedRecipient
          | _ \<Rightarrow> throwM (materialization_failure MMetadataUnavailable)))"

section \<open>One materialisation\<close>

definition parse_encrypted :: "RemoteBody \<Rightarrow> BoxplotE2eeEnvelope throws" where
  "parse_encrypted body =
     (case body of
        RemoteBoxplotE2ee payload \<Rightarrow> parseBoxplotE2eeEnvelope payload
      | RemotePlain _ _ \<Rightarrow> Inl (TypeError (js ''Expected encrypted body'')))"

definition decryptBody ::
  "('s, 'x) BodyMaterializerDependencies_scheme \<Rightarrow> ScopedEmailId \<Rightarrow> RemoteBody \<Rightarrow>
   ('s, exn, EmailBody) eff" where
  "decryptBody deps emailId body =
     bindM (resolveExpectedMetadata deps emailId) (\<lambda>metadata.
     bindM (tryM (liftM (parse_encrypted body)) (\<lambda>_. throwM (materialization_failure MInvalidEnvelope)))
       (\<lambda>envelope.
     bindM (bmDecryptFrom deps
              \<lparr>dfLocalIdentity = exLocalIdentity metadata,
               dfExpectedSender = exExpectedSender metadata,
               dfExpectedRecipient = exExpectedRecipient metadata,
               dfExpectedSubject = exExpectedSubject metadata, dfEnvelope = envelope\<rparr>) (\<lambda>decrypted.
     case decrypted of
       E2eeErr kind \<Rightarrow> throwM (BodyMaterializationError ME2ee (Some kind))
     | E2eeOk plain \<Rightarrow>
         retM (emailBody \<lparr>boEmailId = emailId, boText = Some (ptText plain), boHtml = ptHtml plain\<rparr>))))"

definition body_source_kind :: "RemoteBodySourceErrorKind \<Rightarrow> BodyMaterializationErrorKind" where
  "body_source_kind k =
     (case k of BNotConnected \<Rightarrow> MNotConnected | BRemote \<Rightarrow> MRemote | BCancelled \<Rightarrow> MCancelled
      | BUnexpected \<Rightarrow> MUnexpected)"

text \<open>The \<open>catch\<close> of \<open>materializeOnce\<close>.\<close>

definition materialization_error :: "exn \<Rightarrow> exn" where
  "materialization_error err =
     (case err of
        BodyMaterializationError _ _ \<Rightarrow> err
      | RemoteBodySourceError kind \<Rightarrow> materialization_failure (body_source_kind kind)
      | _ \<Rightarrow> materialization_failure MUnexpected)"

text \<open>The body to cache for what was fetched.\<close>

definition body_of_fetched ::
  "('s, 'x) BodyMaterializerDependencies_scheme \<Rightarrow> ScopedEmailId \<Rightarrow> RemoteBody \<Rightarrow>
   ('s, exn, EmailBody) eff" where
  "body_of_fetched deps emailId remote =
     (case remote of
        RemotePlain plain html \<Rightarrow>
          retM (emailBody \<lparr>boEmailId = emailId, boText = plain, boHtml = html\<rparr>)
      | RemoteBoxplotE2ee _ \<Rightarrow> decryptBody deps emailId remote)"

text \<open>From the fetch to the write.\<close>

definition fetch_and_cache ::
  "('s, 'x) BodyMaterializerDependencies_scheme \<Rightarrow> ScopedEmailId \<Rightarrow>
   ('s, exn, BodyMaterializationResult) eff" where
  "fetch_and_cache deps emailId =
     bindM (liftM (remoteEmailId emailId)) (\<lambda>remoteId.
     bindM (bmFetchBody deps (accountKey emailId) remoteId) (\<lambda>fetched.
     bindM (body_of_fetched deps emailId (bfBody fetched)) (\<lambda>body.
     bindM (bfAssertCurrent fetched) (\<lambda>_.
     bindM (wCacheEmailBody (bmSyncPort deps) body) (\<lambda>written.
     case written of
       PortErr e \<Rightarrow>
         throwM (materialization_failure (if e = WrConflict then MEmailAbsent else MLocal))
     | PortOk _ \<Rightarrow> retM Materialized)))))"

definition materializeOnce ::
  "('s, 'x) BodyMaterializerDependencies_scheme \<Rightarrow> ScopedEmailId \<Rightarrow>
   ('s, exn, BodyMaterializationResult) eff" where
  "materializeOnce deps emailId =
     tryM
       (bindM (qReadEmailBody (bmReadRepository deps) emailId) (\<lambda>cached.
        case cached of
          PortErr _ \<Rightarrow> throwM (materialization_failure MLocal)
        | PortOk CacheOwnerAbsent \<Rightarrow> throwM (materialization_failure MEmailAbsent)
        | PortOk (CacheCached _) \<Rightarrow> retM AlreadyCached
        | PortOk CacheNotCached \<Rightarrow> fetch_and_cache deps emailId))
       (\<lambda>err. throwM (materialization_error err))"

section \<open>Materialisations in flight\<close>

text \<open>
  A promise is a number, given in the order of the calls. \<open>materialize\<close> returns the promise in
  flight for the key of the e-mail or starts one; the \<open>finally\<close> of a promise removes its own
  entry only.
\<close>

definition materialization_key :: "ScopedEmailId \<Rightarrow> jsstring" where
  "materialization_key emailId = accountKey emailId @ [0] @ jmapId emailId"

record MaterializerState =
  inFlight :: "(jsstring \<times> nat) list"
  started_operations :: "(nat \<times> ScopedEmailId) list"

definition newMaterializer :: MaterializerState where
  "newMaterializer = \<lparr>inFlight = [], started_operations = []\<rparr>"

definition materialize :: "ScopedEmailId \<Rightarrow> MaterializerState \<Rightarrow> nat \<times> MaterializerState" where
  "materialize emailId s =
     (case map_of (inFlight s) (materialization_key emailId) of
        Some current \<Rightarrow> (current, s)
      | None \<Rightarrow>
          let operation = length (started_operations s) in
          (operation,
           \<lparr>inFlight = AList.update (materialization_key emailId) operation (inFlight s),
            started_operations = started_operations s @ [(operation, emailId)]\<rparr>))"

definition materialization_finished ::
  "jsstring \<Rightarrow> nat \<Rightarrow> MaterializerState \<Rightarrow> MaterializerState" where
  "materialization_finished key operation s =
     (if map_of (inFlight s) key = Some operation
      then s\<lparr>inFlight := AList.delete key (inFlight s)\<rparr> else s)"

end
