(* ===== verification/Memory_Ports.thy ===== *)
theory Memory_Ports
  imports Memory_World Port_Interfaces
begin

text \<open>
  The memory engine as an implementation of the port interfaces
  (\<open>MemoryReadRepository implements ReadRepository\<close>, \<open>MemorySyncPort implements SyncPort\<close>).
\<close>

definition memory_repository :: "'r world ReadRepository" where
  "memory_repository =
     \<lparr>qReadAccount = (\<lambda>ak. on_state (readAccount ak)),
      qListAccounts = on_state listAccounts,
      qReadMailbox = (\<lambda>i. on_state (readMailbox i)),
      qListMailboxes = (\<lambda>ak. on_state (listMailboxes ak)),
      qReadIdentity = (\<lambda>i. on_state (readIdentity i)),
      qListIdentities = (\<lambda>ak. on_state (listIdentities ak)),
      qReadEmail = (\<lambda>i. on_state (readEmail i)),
      qReadEmails = (\<lambda>ids. on_state (readEmails ids)),
      qReadEmailMemberships = (\<lambda>i. on_state (readEmailMemberships i)),
      qReadEmailBody = (\<lambda>i. on_state (readEmailBody i)),
      qReadAttachmentRefs = (\<lambda>i. on_state (readAttachmentRefs i)),
      qReadMailboxView = (\<lambda>spec. on_state (readMailboxView spec)),
      qReadCollectionSyncCursor = (\<lambda>ak d. on_state (readCollectionSyncCursor ak d)),
      qReadPendingMutation = (\<lambda>ak mid. on_state (readPendingMutation ak mid)),
      qListPendingMutations = (\<lambda>ak. on_state (listPendingMutations ak))\<rparr>"

text \<open>
  The two optimistic operations of the interface take a mutation of their kind; its payload is
  the change they apply.
\<close>

definition memory_port :: "'r world SyncPort" where
  "memory_port =
     \<lparr>wRegisterAccount = (\<lambda>v. on_engine (registerAccount v)),
      wApplyCollectionSync = (\<lambda>c. on_engine (applyCollectionSync c)),
      wCacheEmailBody = (\<lambda>b. on_engine (cacheEmailBody b)),
      wReplaceAttachmentRefs = (\<lambda>e refs. on_engine (replaceAttachmentRefs e refs)),
      wReplaceMailboxView = (\<lambda>v. on_engine (replaceMailboxView v)),
      wStageSendMutation = (\<lambda>m. on_engine (stageSendMutation m)),
      wApplyOptimisticKeywordMutation = (\<lambda>m.
        case pmPayload m of
          PKeyword e c \<Rightarrow> on_engine (applyOptimisticKeywordMutation m e c)
        | _ \<Rightarrow> throwM (TypeError [])),
      wApplyOptimisticMailboxMembershipMutation = (\<lambda>m.
        case pmPayload m of
          PMembership e c \<Rightarrow> on_engine (applyOptimisticMailboxMembershipMutation m e c)
        | _ \<Rightarrow> throwM (TypeError [])),
      wReplacePendingMutationIfCurrent = (\<lambda>e n. on_engine (replacePendingMutationIfCurrent e n)),
      wRemoveConfirmedMutation = (\<lambda>ak mid. on_engine (removeConfirmedMutation ak mid))\<rparr>"

lemma on_state_query: "on_state q w = (q (meState (fst w)), w)"
  by (simp add: on_state_def)

end
