(* ===== verification/Body_Theorems.thy ===== *)
theory Body_Theorems
  imports Body_Materializer Memory_Ports
begin

text \<open>
  The body materializer over the memory engine, with any body source and any decryption, and
  the table of materialisations in flight as a state machine.
\<close>

record 'r BodyEnv =
  beFetch :: "AccountKey \<Rightarrow> RemoteEmailId \<Rightarrow> ('r, exn, 'r RemoteBodyFetch) eff"
  beDecrypt :: "DecryptFromInput \<Rightarrow> ('r, exn, E2eePlaintext E2eeResult) eff"

definition lift_fetch :: "'r RemoteBodyFetch \<Rightarrow> 'r world RemoteBodyFetch" where
  "lift_fetch f = \<lparr>bfBody = bfBody f, bfAssertCurrent = on_remote (bfAssertCurrent f)\<rparr>"

definition memory_materializer :: "'r BodyEnv \<Rightarrow> 'r world BodyMaterializerDependencies" where
  "memory_materializer env =
     \<lparr>bmReadRepository = memory_repository, bmSyncPort = memory_port,
      bmFetchBody = (\<lambda>ak i. bindM (on_remote (beFetch env ak i)) (\<lambda>f. retM (lift_fetch f))),
      bmDecryptFrom = (\<lambda>input. on_remote (beDecrypt env input))\<rparr>"

section \<open>What may be cached\<close>

text \<open>The metadata that decryption must confirm: from the stored e-mail and a stored identity.\<close>

definition expected_metadata :: "MemoryState \<Rightarrow> ScopedEmailId \<Rightarrow> ExpectedE2eeMetadata \<Rightarrow> bool" where
  "expected_metadata s i meta \<longleftrightarrow>
     (\<exists>e sender recipient subject ident.
        aEmail (astore s) i = Some e \<and> emFrom e = Some [sender] \<and> emTo e = Some [recipient] \<and>
        emCc e \<in> {None, Some []} \<and> emBcc e \<in> {None, Some []} \<and> emSubject e = Some subject \<and>
        aIdentity (astore s) (idId ident) = Some ident \<and> accountKey (idId ident) = accountKey i \<and>
        idEmail ident = adEmail recipient \<and>
        meta = \<lparr>exLocalIdentity = adEmail recipient, exExpectedSender = adEmail sender,
                exExpectedRecipient = adEmail recipient, exExpectedSubject = subject\<rparr>)"

text \<open>A body that the source delivered for the e-mail, and that decrypted if it was encrypted.\<close>

definition decrypts_to ::
  "'r BodyEnv \<Rightarrow> MemoryState \<Rightarrow> ScopedEmailId \<Rightarrow> RemoteBody \<Rightarrow> EmailBody \<Rightarrow> bool" where
  "decrypts_to env s i remote body \<longleftrightarrow>
     (case remote of
        RemotePlain plain html \<Rightarrow> body = \<lparr>boEmailId = i, boText = plain, boHtml = html\<rparr>
      | RemoteBoxplotE2ee payload \<Rightarrow>
          (\<exists>meta envelope plain r r'.
             expected_metadata s i meta \<and> parseBoxplotE2eeEnvelope payload = Inr envelope \<and>
             beDecrypt env \<lparr>dfLocalIdentity = exLocalIdentity meta,
                 dfExpectedSender = exExpectedSender meta,
                 dfExpectedRecipient = exExpectedRecipient meta,
                 dfExpectedSubject = exExpectedSubject meta, dfEnvelope = envelope\<rparr> r =
               (Inr (E2eeOk plain), r') \<and>
             body = \<lparr>boEmailId = i, boText = Some (ptText plain), boHtml = ptHtml plain\<rparr>))"

definition delivered :: "'r BodyEnv \<Rightarrow> MemoryState \<Rightarrow> ScopedEmailId \<Rightarrow> EmailBody \<Rightarrow> bool" where
  "delivered env s i body \<longleftrightarrow>
     (\<exists>f r r' u u'. beFetch env (accountKey i) (jmapId i) r = (Inr f, r') \<and>
        decrypts_to env s i (bfBody f) body \<and> bfAssertCurrent f u = (Inr (), u'))"

section \<open>Metadata\<close>

lemma on_remote_outcome:
  "on_remote f w = (x, v) \<longleftrightarrow> (\<exists>r. f (snd w) = (x, r) \<and> v = (fst w, r))"
  by (auto simp: on_remote_def split: prod.splits)

lemma singleAddress_Some: "singleAddress v = Some a \<longleftrightarrow> (\<exists>x. v = Some [x] \<and> adEmail x = a)"
  by (auto simp: singleAddress_def split: option.splits list.splits)

lemma isEmptyAddressList_iff: "isEmptyAddressList v \<longleftrightarrow> v \<in> {None, Some []}"
  by (auto simp: isEmptyAddressList_def split: option.splits)

lemma stored_identity:
  assumes "state_inv s" "v \<in> set (map_values (msIdentities s))"
  shows "aIdentity (astore s) (idId v) = Some v"
proof -
  from assms obtain k where k: "map_of (msIdentities s) k = Some v"
    by (auto simp: state_inv_def entries_def map_values_set)
  with state_inv_identity [OF assms(1) k] show ?thesis by simp
qed

lemma single_match:
  assumes "length (set_of_list (filter (\<lambda>v. v = x) xs)) = 1"
  shows "x \<in> set xs"
proof -
  have "set_of_list (filter (\<lambda>v. v = x) xs) \<noteq> []" using assms by auto
  then have "filter (\<lambda>v. v = x) xs \<noteq> []" by simp
  then show ?thesis by (metis (mono_tags, lifting) filter_False)
qed

abbreviation metadata_of :: "jsstring \<Rightarrow> jsstring \<Rightarrow> jsstring \<Rightarrow> ExpectedE2eeMetadata" where
  "metadata_of sender recipient subject \<equiv>
     \<lparr>exLocalIdentity = recipient, exExpectedSender = sender, exExpectedRecipient = recipient,
      exExpectedSubject = subject\<rparr>"

lemma resolve_identity_step:
  assumes "state_inv (meState (fst w))"
    "resolveLocalIdentity (memory_materializer env) e sender recipient w = (r, v)"
  shows "v = w \<and>
    (case r of
       Inl err \<Rightarrow> \<exists>k. err = materialization_failure k
     | Inr meta \<Rightarrow> \<exists>subject ident. emSubject e = Some subject \<and>
         aIdentity (astore (meState (fst w))) (idId ident) = Some ident \<and>
         accountKey (idId ident) = accountKey (emId e) \<and> idEmail ident = recipient \<and>
         meta = metadata_of sender recipient subject)"
proof -
  let ?s = "meState (fst w)" and ?ak = "accountKey (emId e)"
  let ?vs = "filter (\<lambda>v. accountKey (idId v) = ?ak) (map_values (msIdentities ?s))"
  have q: "qListIdentities (bmReadRepository (memory_materializer env)) ?ak w =
      (Inr (PortOk (if registered ?s ?ak then SnapshotPresent ?vs else SnapshotOwnerAbsent)), w)"
    by (simp add: memory_materializer_def memory_repository_def on_state_def listIdentities_eq [OF assms(1)])
  show ?thesis
  proof (cases "registered ?s ?ak \<and>
      length (set_of_list (filter (\<lambda>v. v = recipient) (map idEmail ?vs))) = 1")
    case True
    then obtain ident where ident: "ident \<in> set ?vs" "idEmail ident = recipient"
      using single_match [of recipient "map idEmail ?vs"] by auto
    then have "aIdentity (astore ?s) (idId ident) = Some ident" "accountKey (idId ident) = ?ak"
      using stored_identity [OF assms(1)] by auto
    with ident(2) True assms(2) q show ?thesis
      by (auto simp: resolveLocalIdentity_def bindM_def Let_def simp del: astore_simps
          split: option.splits)
  next
    case False
    with assms(2) q show ?thesis
      by (auto simp: resolveLocalIdentity_def bindM_def Let_def split: if_splits)
  qed
qed

lemma resolve_metadata_step:
  assumes "state_inv (meState (fst w))"
    "resolveExpectedMetadata (memory_materializer env) i w = (r, v)"
  shows "v = w \<and>
    (case r of
       Inl err \<Rightarrow> \<exists>k. err = materialization_failure k
     | Inr meta \<Rightarrow> expected_metadata (meState (fst w)) i meta)"
proof -
  let ?s = "meState (fst w)" and ?deps = "memory_materializer env"
  have q: "qReadEmail (bmReadRepository ?deps) i w =
      (Inr (PortOk (case map_of (msEmails ?s) (emailKey i) of None \<Rightarrow> EntityAbsent | Some e \<Rightarrow> EntityPresent e)), w)"
    by (simp add: memory_materializer_def memory_repository_def on_state_def readEmail_def
        read_one_email_eq [OF assms(1)])
  show ?thesis
  proof (cases "map_of (msEmails ?s) (emailKey i)")
    case None
    with assms(2) q show ?thesis by (auto simp: resolveExpectedMetadata_def bindM_def)
  next
    case (Some e)
    then have e: "emId e = i" using state_inv_email [OF assms(1) Some] by simp
    show ?thesis
    proof (cases "\<exists>sender recipient. singleAddress (emFrom e) = Some sender \<and>
        singleAddress (emTo e) = Some recipient \<and> isEmptyAddressList (emCc e) \<and>
        isEmptyAddressList (emBcc e) \<and> emSubject e \<noteq> None")
      case True
      then obtain sender recipient where sr: "singleAddress (emFrom e) = Some sender"
        "singleAddress (emTo e) = Some recipient" "isEmptyAddressList (emCc e)"
        "isEmptyAddressList (emBcc e)" "emSubject e \<noteq> None" by blast
      with assms(2) q Some have "resolveLocalIdentity ?deps e sender recipient w = (r, v)"
        by (simp add: resolveExpectedMetadata_def bindM_def)
      from resolve_identity_step [OF assms(1) this] sr Some e show ?thesis
        by (cases r) (auto simp: expected_metadata_def singleAddress_Some isEmptyAddressList_iff)
    next
      case False
      with assms(2) q Some show ?thesis
        by (auto simp: resolveExpectedMetadata_def bindM_def split: option.splits if_splits)
    qed
  qed
qed

section \<open>Decryption, fetch and write\<close>

lemma decrypt_step:
  assumes "state_inv (meState (fst w))"
    "decryptBody (memory_materializer env) i (RemoteBoxplotE2ee payload) w = (r, v)"
  shows "fst v = fst w \<and>
    (\<forall>body. r = Inr body \<longrightarrow> decrypts_to env (meState (fst w)) i (RemoteBoxplotE2ee payload) body)"
proof -
  let ?deps = "memory_materializer env"
  obtain x t where x: "resolveExpectedMetadata ?deps i w = (x, t)"
    by (cases "resolveExpectedMetadata ?deps i w")
  note meta = resolve_metadata_step [OF assms(1) x]
  then have t: "t = w" by blast
  show ?thesis
  proof (cases x)
    case (Inl e)
    with assms(2) x t show ?thesis by (auto simp: decryptBody_def bindM_def)
  next
    case (Inr m)
    show ?thesis
    proof (cases "parseBoxplotE2eeEnvelope payload")
      case (Inl e)
      with assms(2) x t Inr show ?thesis
        by (auto simp: decryptBody_def bindM_def tryM_def liftM_def parse_encrypted_def throwM_def)
    next
      case envelope: (Inr envelope)
      let ?input = "\<lparr>dfLocalIdentity = exLocalIdentity m, dfExpectedSender = exExpectedSender m,
        dfExpectedRecipient = exExpectedRecipient m, dfExpectedSubject = exExpectedSubject m,
        dfEnvelope = envelope\<rparr>"
      obtain y r' where y: "beDecrypt env ?input (snd w) = (y, r')"
        by (cases "beDecrypt env ?input (snd w)")
      then have call: "bmDecryptFrom ?deps ?input w = (y, (fst w, r'))"
        by (simp add: memory_materializer_def on_remote_def)
      have dec: "decryptBody ?deps i (RemoteBoxplotE2ee payload) w =
          (case y of Inl e \<Rightarrow> (Inl e, (fst w, r'))
           | Inr (E2eeErr kind) \<Rightarrow> (Inl (BodyMaterializationError ME2ee (Some kind)), (fst w, r'))
           | Inr (E2eeOk plain) \<Rightarrow>
               (Inr \<lparr>boEmailId = i, boText = Some (ptText plain), boHtml = ptHtml plain\<rparr>, (fst w, r')))"
        using x t Inr envelope call
        by (simp add: decryptBody_def bindM_def tryM_def liftM_def parse_encrypted_def retM_def
            throwM_def split: sum.splits E2eeResult.splits)
      have "decrypts_to env (meState (fst w)) i (RemoteBoxplotE2ee payload)
          \<lparr>boEmailId = i, boText = Some (ptText plain), boHtml = ptHtml plain\<rparr>"
        if "y = Inr (E2eeOk plain)" for plain
        using meta Inr envelope y that unfolding decrypts_to_def by auto
      with dec assms(2) show ?thesis
        by (auto split: sum.splits E2eeResult.splits)
    qed
  qed
qed

definition body_outcome ::
  "'r BodyEnv \<Rightarrow> ScopedEmailId \<Rightarrow> exn + BodyMaterializationResult \<Rightarrow> 'r world \<Rightarrow> 'r world \<Rightarrow> bool" where
  "body_outcome env i r w v \<longleftrightarrow>
     (case r of
        Inl err \<Rightarrow> (\<exists>k e2ee. err = BodyMaterializationError k e2ee) \<and> fst v = fst w
      | Inr AlreadyCached \<Rightarrow> v = w \<and> aBody (astore (meState (fst w))) i \<noteq> None
      | Inr Materialized \<Rightarrow>
          aEmail (astore (meState (fst w))) i \<noteq> None \<and> aBody (astore (meState (fst w))) i = None \<and>
          (\<exists>body. delivered env (meState (fst w)) i body \<and>
             astore (meState (fst v)) =
               astore (meState (fst w))\<lparr>aBody := (aBody (astore (meState (fst w))))(i \<mapsto> body)\<rparr>))"

lemma decrypts_to_owner: "decrypts_to env s i remote body \<Longrightarrow> boEmailId body = i"
  by (auto simp: decrypts_to_def split: RemoteBody.splits)

lemma cache_body_step:
  assumes "wCacheEmailBody (bmSyncPort (memory_materializer env)) body w = (x, v)" "boEmailId body = i"
  shows "(x = Inr (PortOk ()) \<and> aEmail (astore (meState (fst w))) i \<noteq> None \<and>
      astore (meState (fst v)) =
        astore (meState (fst w))\<lparr>aBody := (aBody (astore (meState (fst w))))(i \<mapsto> body)\<rparr>) \<or>
    (\<exists>e. x = Inr (PortErr e)) \<and> fst v = fst w"
proof (cases "map_has (msEmails (meState (fst w))) (emailKey i)")
  case True
  with assms have run: "run_write (OpBody body) (fst w) = (Inr writeOk, fst v)" "x = Inr writeOk"
    by (auto simp: memory_materializer_def memory_port_def on_engine_def cacheEmailBody_def Let_def
        commit_state_def split: prod.splits)
  from body_implements [OF run(1)] run(2) True assms(2) show ?thesis
    by (auto simp: implements_def writeOk_def map_has_def)
next
  case False
  with assms show ?thesis
    by (auto simp: memory_materializer_def memory_port_def on_engine_def cacheEmailBody_def Let_def
        reject_def conflict_def split: prod.splits)
qed

lemma body_step:
  assumes "state_inv (meState (fst w))"
    "body_of_fetched (memory_materializer env) i remote w = (r, v)"
  shows "fst v = fst w \<and> (\<forall>body. r = Inr body \<longrightarrow> decrypts_to env (meState (fst w)) i remote body)"
proof (cases remote)
  case (RemotePlain plain html)
  with assms(2) show ?thesis by (auto simp: body_of_fetched_def decrypts_to_def)
next
  case (RemoteBoxplotE2ee payload)
  with assms decrypt_step [of w env i payload] show ?thesis by (simp add: body_of_fetched_def)
qed

lemma fetch_step:
  assumes "state_inv (meState (fst w))" "fetch_and_cache (memory_materializer env) i w = (r, v)"
  shows "case r of
      Inl err \<Rightarrow> fst v = fst w
    | Inr x \<Rightarrow> x = Materialized \<and> aEmail (astore (meState (fst w))) i \<noteq> None \<and>
        (\<exists>body. delivered env (meState (fst w)) i body \<and>
           astore (meState (fst v)) =
             astore (meState (fst w))\<lparr>aBody := (aBody (astore (meState (fst w))))(i \<mapsto> body)\<rparr>)"
proof -
  let ?deps = "memory_materializer env" and ?s = "meState (fst w)"
  show ?thesis
  proof (cases "remoteEmailId i")
    case (Inl e)
    with assms(2) show ?thesis by (auto simp: fetch_and_cache_def liftM_def bindM_def)
  next
    case remote: (Inr j)
    then have j: "j = jmapId i" by (auto simp: remoteEmailId_def remote_id_defs remoteIdFromString_def)
    obtain x r1 where x: "beFetch env (accountKey i) j (snd w) = (x, r1)"
      by (cases "beFetch env (accountKey i) j (snd w)")
    show ?thesis
    proof (cases x)
      case (Inl e)
      with assms(2) remote x show ?thesis
        by (auto simp: fetch_and_cache_def liftM_def bindM_def memory_materializer_def on_remote_def)
    next
      case fetched: (Inr f)
      let ?w1 = "(fst w, r1)"
      obtain y w2 where y: "body_of_fetched ?deps i (bfBody f) ?w1 = (y, w2)"
        by (rule prod.exhaust)
      note body = body_step [of ?w1, OF _ y]
      from body assms(1) have w2: "fst w2 = fst w" by simp
      have fetch: "bmFetchBody ?deps (accountKey i) j w = (Inr (lift_fetch f), ?w1)"
        using x fetched by (simp add: memory_materializer_def on_remote_def bindM_def retM_def)
      show ?thesis
      proof (cases y)
        case (Inl e)
        with assms(2) remote fetch y w2 show ?thesis
          by (auto simp: fetch_and_cache_def liftM_def bindM_def lift_fetch_def)
      next
        case body_is: (Inr b)
        obtain z r3 where z: "bfAssertCurrent f (snd w2) = (z, r3)" by (cases "bfAssertCurrent f (snd w2)")
        let ?w3 = "(fst w, r3)"
        have current: "bfAssertCurrent (lift_fetch f) w2 = (z, ?w3)"
          using z w2 by (simp add: lift_fetch_def on_remote_def)
        show ?thesis
        proof (cases z)
          case (Inl e)
          with assms(2) remote fetch y body_is current show ?thesis
            by (auto simp: fetch_and_cache_def liftM_def bindM_def lift_fetch_def [of f])
        next
          case now: (Inr u)
          obtain k w4 where k: "wCacheEmailBody (bmSyncPort ?deps) b ?w3 = (k, w4)"
            by (cases "wCacheEmailBody (bmSyncPort ?deps) b ?w3")
          have dec: "decrypts_to env ?s i (bfBody f) b" using body assms(1) body_is by simp
          have "delivered env ?s i b"
            unfolding delivered_def using x fetched j dec z now by auto
          moreover have "(r, v) = (case k of
              Inl e \<Rightarrow> (Inl e, w4)
            | Inr (PortErr e) \<Rightarrow>
                (Inl (materialization_failure (if e = WrConflict then MEmailAbsent else MLocal)), w4)
            | Inr (PortOk _) \<Rightarrow> (Inr Materialized, w4))"
            using assms(2) remote fetch y body_is current now k
            by (cases k; cases "projr k")
               (auto simp: fetch_and_cache_def liftM_def bindM_def lift_fetch_def [of f] throwM_def retM_def)
          ultimately show ?thesis
            using cache_body_step [OF k decrypts_to_owner [OF dec]] by auto
        qed
      qed
    qed
  qed
qed

lemma materialization_error_kind: "\<exists>k e2ee. materialization_error err = BodyMaterializationError k e2ee"
  by (cases err) (simp_all add: materialization_error_def materialization_failure_def)

section \<open>Properties\<close>

text \<open>C24: Materialising a body over the memory engine reports only body materialisation errors,
  and then the engine is untouched; a body already cached is neither fetched nor written; and
  when it reports a body materialised, the stored e-mail had none, and it now has exactly the
  body that the source delivered and still vouched for, decrypted under the sender, recipient
  and subject of the stored e-mail and a stored identity of its account if it was encrypted.\<close>

theorem body_materialized:
  assumes "state_inv (meState (fst w))" "materializeOnce (memory_materializer env) i w = (r, v)"
  shows "body_outcome env i r w v"
proof -
  let ?deps = "memory_materializer env" and ?s = "meState (fst w)"
  have q: "qReadEmailBody (bmReadRepository ?deps) i w =
      (Inr (PortOk (if \<not> map_has (msEmails ?s) (emailKey i) then CacheOwnerAbsent
         else case map_of (msBodies ?s) (emailKey i) of
                None \<Rightarrow> CacheNotCached | Some b \<Rightarrow> CacheCached (cloneBody b))), w)"
    by (simp add: memory_materializer_def memory_repository_def on_state_def readEmailBody_def
        split: option.split)
  show ?thesis
  proof (cases "map_has (msEmails ?s) (emailKey i) \<and> map_of (msBodies ?s) (emailKey i) = None")
    case True
    obtain x t where x: "fetch_and_cache ?deps i w = (x, t)" by (cases "fetch_and_cache ?deps i w")
    then have "(r, v) = (case x of Inl e \<Rightarrow> (Inl (materialization_error e), t) | Inr y \<Rightarrow> (Inr y, t))"
      using assms(2) q True
      by (cases x) (auto simp: materializeOnce_def tryM_def bindM_def throwM_def)
    with fetch_step [OF assms(1) x] True materialization_error_kind show ?thesis
      by (cases x) (auto simp: body_outcome_def)
  next
    case False
    with assms(2) q show ?thesis
      by (auto simp: materializeOnce_def tryM_def bindM_def throwM_def retM_def body_outcome_def
          materialization_failure_def materialization_error_def split: if_splits option.splits)
  qed
qed

text \<open>The sample engine with one e-mail, without a body, and a source that answers it.\<close>

definition sample_email :: Email where
  "sample_email =
     \<lparr>emId = \<lparr>accountKey = [65], jmapId = [69]\<rparr>, emBlobId = \<lparr>accountKey = [65], jmapId = [66]\<rparr>,
      emThreadId = \<lparr>accountKey = [65], jmapId = [84]\<rparr>, emSender = None, emFrom = None,
      emReplyTo = None, emTo = None, emCc = None, emBcc = None, emSubject = None, emSentAt = None,
      emReceivedAt = [48], emSize = JInt 1, emPreview = [], emHasAttachment = False, emKeywords = []\<rparr>"

definition mail_engine :: MemoryEngine where
  "mail_engine = snd (run_write (OpSync (EmailCommit
       \<lparr>cuAccountKey = [65], cuDataType = DEmail, cuState = [49]\<rparr>
       (Replace CursorAbsent [\<lparr>srEmail = sample_email, srMemberships = []\<rparr>]))) sample_engine)"

definition sample_source :: "unit BodyEnv" where
  "sample_source =
     \<lparr>beFetch = (\<lambda>_ _. retM \<lparr>bfBody = RemotePlain (Some [104]) None, bfAssertCurrent = retM ()\<rparr>),
      beDecrypt = (\<lambda>_. retM (E2eeErr EKeyUnavailable))\<rparr>"

lemma body_materialized_witness:
  "body_outcome sample_source \<lparr>accountKey = [65], jmapId = [69]\<rparr>
     (fst (materializeOnce (memory_materializer sample_source) \<lparr>accountKey = [65], jmapId = [69]\<rparr> (mail_engine, ())))
     (mail_engine, ())
     (snd (materializeOnce (memory_materializer sample_source) \<lparr>accountKey = [65], jmapId = [69]\<rparr> (mail_engine, ())))"
proof (rule body_materialized [OF _ prod.collapse [symmetric]])
  have "reachable mail_engine" unfolding mail_engine_def by (intro reachable.wrote sample_reachable)
  then show "state_inv (meState (fst (mail_engine, ())))" using reachable_state_inv by simp
qed

section \<open>Materialisations in flight\<close>

text \<open>What happens to the table while the promise \<open>p\<close> runs: calls, and completions of others.\<close>

inductive other_steps :: "nat \<Rightarrow> MaterializerState \<Rightarrow> MaterializerState \<Rightarrow> bool" where
  other_refl: "other_steps p s s"
| other_call: "other_steps p s t \<Longrightarrow> other_steps p s (snd (materialize i t))"
| other_done: "other_steps p s t \<Longrightarrow> q \<noteq> p \<Longrightarrow> (q, i) \<in> set (started_operations t) \<Longrightarrow>
    other_steps p s (materialization_finished (materialization_key i) q t)"

inductive table_reachable :: "MaterializerState \<Rightarrow> bool" where
  table_new: "table_reachable newMaterializer"
| table_call: "table_reachable s \<Longrightarrow> table_reachable (snd (materialize i s))"
| table_done: "table_reachable s \<Longrightarrow> (q, i) \<in> set (started_operations s) \<Longrightarrow>
    table_reachable (materialization_finished (materialization_key i) q s)"

definition table_inv :: "MaterializerState \<Rightarrow> bool" where
  "table_inv s \<longleftrightarrow>
     map fst (started_operations s) = [0..<length (started_operations s)] \<and>
     (\<forall>k p. map_of (inFlight s) k = Some p \<longrightarrow>
        (\<exists>i. (p, i) \<in> set (started_operations s) \<and> materialization_key i = k))"

lemma table_inv: "table_reachable s \<Longrightarrow> table_inv s"
proof (induction rule: table_reachable.induct)
  case table_new
  then show ?case by (simp add: table_inv_def newMaterializer_def)
next
  case (table_call s i)
  then show ?case
    by (auto simp: table_inv_def materialize_def Let_def split: option.splits)
next
  case (table_done s q i)
  then show ?case by (auto simp: table_inv_def materialization_finished_def)
qed

lemma other_steps_keep:
  assumes "other_steps p s t" "map_of (inFlight s) k = Some p"
  shows "map_of (inFlight t) k = Some p"
  using assms
  by (induction rule: other_steps.induct)
     (auto simp: materialize_def materialization_finished_def Let_def split: option.splits)

lemma materialize_in_flight:
  assumes "materialize i s = (p, t)"
  shows "map_of (inFlight t) (materialization_key i) = Some p"
  using assms by (auto simp: materialize_def Let_def split: option.splits)

text \<open>While a materialisation runs, every further call for the same e-mail gets its promise and
  starts nothing, whatever other calls are made and whatever other promises complete; once it
  has completed, the next call starts a new one.\<close>

theorem materialize_shares:
  assumes "table_reachable s" "materialize i s = (p, s1)" "other_steps p s1 s2"
  shows "materialize i s2 = (p, s2) \<and>
    (case materialize i (materialization_finished (materialization_key i) p s2) of
       (q, s3) \<Rightarrow> q = length (started_operations s2) \<and>
         started_operations s3 = started_operations s2 @ [(q, i)])"
proof -
  have "map_of (inFlight s2) (materialization_key i) = Some p"
    using other_steps_keep [OF assms(3) materialize_in_flight [OF assms(2)]] .
  then show ?thesis
    by (simp add: materialize_def materialization_finished_def Let_def)
qed

lemma materialize_shares_witness:
  "materialize \<lparr>accountKey = [65], jmapId = [69]\<rparr>
     (snd (materialize \<lparr>accountKey = [66], jmapId = [69]\<rparr>
        (snd (materialize \<lparr>accountKey = [65], jmapId = [69]\<rparr> newMaterializer)))) =
   (0, snd (materialize \<lparr>accountKey = [66], jmapId = [69]\<rparr>
        (snd (materialize \<lparr>accountKey = [65], jmapId = [69]\<rparr> newMaterializer))))"
proof -
  have "materialize \<lparr>accountKey = [65], jmapId = [69]\<rparr> newMaterializer =
      (0, snd (materialize \<lparr>accountKey = [65], jmapId = [69]\<rparr> newMaterializer))"
    by (simp add: materialize_def newMaterializer_def Let_def)
  from materialize_shares [OF table_new this other_call [OF other_refl]] show ?thesis by blast
qed

text \<open>The key of a materialisation identifies the e-mail when the account keys contain no NUL,
  and two e-mails with the same key share a promise.\<close>

theorem materialization_key_identifies:
  "(materialization_key i = materialization_key j \<and> 0 \<notin> set (accountKey i) \<and> 0 \<notin> set (accountKey j)
     \<longleftrightarrow> i = j \<and> 0 \<notin> set (accountKey i)) \<and>
   materialization_key \<lparr>accountKey = [65, 0, 66], jmapId = [67]\<rparr> =
     materialization_key \<lparr>accountKey = [65], jmapId = [66, 0, 67]\<rparr>"
  by (cases i; cases j) (auto simp: materialization_key_def append_separator_inject)

end
