(* ===== verification/Text_Encoding.thy ===== *)
theory Text_Encoding
  imports E2ee
begin

text \<open>
  The text encodings the IMAP identifiers are built with: \<open>TextEncoder\<close> and a fatal
  \<open>TextDecoder\<close> (the UTF-8 of the Encoding standard, which replaces lone surrogates when it
  encodes and drops a byte order mark when it decodes), and \<open>btoa\<close> and \<open>atob\<close> (base 64 of the
  HTML standard), with what decoding an encoded string yields. A binary string, which only
  carries bytes between the two, is the list of its bytes.
\<close>

section \<open>Code points\<close>

definition surrogate :: "16 word \<Rightarrow> bool" where
  "surrogate c \<longleftrightarrow> leading_surrogate c \<or> trailing_surrogate c"

definition lone_unit :: "16 word \<Rightarrow> nat" where
  "lone_unit c = (if surrogate c then 0xFFFD else unat c)"

definition pair_point :: "16 word \<Rightarrow> 16 word \<Rightarrow> nat" where
  "pair_point c d = 0x10000 + (unat c - 0xD800) * 0x400 + (unat d - 0xDC00)"

fun code_points :: "jsstring \<Rightarrow> nat list" where
  "code_points [] = []"
| "code_points [c] = [lone_unit c]"
| "code_points (c # d # cs) =
     (if leading_surrogate c \<and> trailing_surrogate d then pair_point c d # code_points cs
      else lone_unit c # code_points (d # cs))"

definition utf16_units :: "nat \<Rightarrow> jsstring" where
  "utf16_units n =
     (if n < 0x10000 then [of_nat n]
      else [of_nat (0xD800 + (n - 0x10000) div 0x400), of_nat (0xDC00 + (n - 0x10000) mod 0x400)])"

fun isWellFormed :: "jsstring \<Rightarrow> bool" where
  "isWellFormed [] = True"
| "isWellFormed [c] = (\<not> surrogate c)"
| "isWellFormed (c # d # cs) =
     (if leading_surrogate c \<and> trailing_surrogate d then isWellFormed cs
      else \<not> surrogate c \<and> isWellFormed (d # cs))"

text \<open>What is left of a string once its lone surrogates are replaced by U+FFFD.\<close>

definition to_well_formed :: "jsstring \<Rightarrow> jsstring" where
  "to_well_formed s = concat (map utf16_units (code_points s))"

definition scalar_value :: "nat \<Rightarrow> bool" where
  "scalar_value n \<longleftrightarrow> n < 0xD800 \<or> 0xE000 \<le> n \<and> n < 0x110000"

lemma unit_range: "unat (c :: 16 word) < 65536"
  using unsigned_less [of c] by simp

lemma surrogate_nat:
  "leading_surrogate c \<longleftrightarrow> 0xD800 \<le> unat c \<and> unat c \<le> 0xDBFF"
  "trailing_surrogate c \<longleftrightarrow> 0xDC00 \<le> unat c \<and> unat c \<le> 0xDFFF"
  by (simp_all add: leading_surrogate_def trailing_surrogate_def word_le_nat_alt)

lemma lone_unit_scalar: "scalar_value (lone_unit c)"
  using unit_range [of c] by (auto simp: lone_unit_def scalar_value_def surrogate_def surrogate_nat)

lemma pair_point_range:
  assumes "leading_surrogate c" "trailing_surrogate d"
  shows "0x10000 \<le> pair_point c d" "pair_point c d < 0x110000"
  using assms by (auto simp: pair_point_def surrogate_nat)

lemma pair_point_scalar:
  "leading_surrogate c \<Longrightarrow> trailing_surrogate d \<Longrightarrow> scalar_value (pair_point c d)"
  using pair_point_range [of c d] by (simp add: scalar_value_def)

lemma code_points_scalar: "n \<in> set (code_points s) \<Longrightarrow> scalar_value n"
  by (induction s rule: code_points.induct)
    (auto simp: lone_unit_scalar pair_point_scalar split: if_splits)

lemma units_of_unit: "utf16_units (unat c) = [c]"
  using unit_range [of c] by (simp add: utf16_units_def)

lemma units_of_pair:
  assumes "leading_surrogate c" "trailing_surrogate d"
  shows "utf16_units (pair_point c d) = [c, d]"
proof -
  have less: "unat d - 0xDC00 < 0x400" using assms by (auto simp: surrogate_nat)
  have point: "pair_point c d - 0x10000 = (unat d - 0xDC00) + (unat c - 0xD800) * 0x400"
    by (simp add: pair_point_def)
  have "(pair_point c d - 0x10000) div 0x400 = unat c - 0xD800"
    "(pair_point c d - 0x10000) mod 0x400 = unat d - 0xDC00"
    unfolding point using less by simp_all
  moreover have "\<not> pair_point c d < 0x10000" using pair_point_range(1) [OF assms] by simp
  ultimately show ?thesis
    using assms by (simp add: utf16_units_def surrogate_nat flip: of_nat_add)
qed

lemma to_well_formed_id: "isWellFormed s \<Longrightarrow> to_well_formed s = s"
  by (induction s rule: isWellFormed.induct)
    (auto simp: to_well_formed_def lone_unit_def units_of_unit units_of_pair split: if_splits)

lemma code_points_empty [simp]: "code_points s = [] \<longleftrightarrow> s = []"
  by (cases s rule: code_points.cases) auto

section \<open>UTF-8\<close>

definition utf8_values :: "nat \<Rightarrow> nat list" where
  "utf8_values n =
     (if n < 0x80 then [n]
      else if n < 0x800 then [0xC0 + n div 64, 0x80 + n mod 64]
      else if n < 0x10000 then [0xE0 + n div 4096, 0x80 + n div 64 mod 64, 0x80 + n mod 64]
      else [0xF0 + n div 262144, 0x80 + n div 4096 mod 64, 0x80 + n div 64 mod 64, 0x80 + n mod 64])"

definition utf8_bytes :: "nat \<Rightarrow> 8 word list" where
  "utf8_bytes n = map of_nat (utf8_values n)"

definition TextEncoder_encode :: "jsstring \<Rightarrow> 8 word list" where
  "TextEncoder_encode s = concat (map utf8_bytes (code_points s))"

definition continuation :: "nat \<Rightarrow> bool" where
  "continuation b \<longleftrightarrow> 0x80 \<le> b \<and> b \<le> 0xBF"

text \<open>The bounds of the second byte exclude overlong forms, surrogates and what is past U+10FFFF.\<close>

definition second_byte :: "nat \<Rightarrow> nat \<Rightarrow> bool" where
  "second_byte a b \<longleftrightarrow>
     (if a = 0xE0 then 0xA0 else if a = 0xF0 then 0x90 else 0x80) \<le> b \<and>
     b \<le> (if a = 0xED then 0x9F else if a = 0xF4 then 0x8F else 0xBF)"

definition cons_point :: "nat \<Rightarrow> nat list option \<Rightarrow> nat list option" where
  "cons_point n r = (case r of None \<Rightarrow> None | Some ns \<Rightarrow> Some (n # ns))"

fun utf8_decode :: "nat list \<Rightarrow> nat list option" where
  "utf8_decode [] = Some []"
| "utf8_decode (a # as) =
     (if a < 0x80 then cons_point a (utf8_decode as)
      else if 0xC2 \<le> a \<and> a \<le> 0xDF then
        (case as of
           b # bs \<Rightarrow>
             if second_byte a b then cons_point ((a - 0xC0) * 64 + (b - 0x80)) (utf8_decode bs)
             else None
         | _ \<Rightarrow> None)
      else if 0xE0 \<le> a \<and> a \<le> 0xEF then
        (case as of
           b # c # bs \<Rightarrow>
             if second_byte a b \<and> continuation c
             then cons_point ((a - 0xE0) * 4096 + (b - 0x80) * 64 + (c - 0x80)) (utf8_decode bs)
             else None
         | _ \<Rightarrow> None)
      else if 0xF0 \<le> a \<and> a \<le> 0xF4 then
        (case as of
           b # c # d # bs \<Rightarrow>
             if second_byte a b \<and> continuation c \<and> continuation d
             then cons_point
                    ((a - 0xF0) * 262144 + (b - 0x80) * 4096 + (c - 0x80) * 64 + (d - 0x80))
                    (utf8_decode bs)
             else None
         | _ \<Rightarrow> None)
      else None)"

definition strip_bom :: "nat list \<Rightarrow> nat list" where
  "strip_bom ns = (case ns of n # rest \<Rightarrow> if n = 0xFEFF then rest else ns | [] \<Rightarrow> [])"

definition TextDecoder_decode :: "8 word list \<Rightarrow> jsstring option" where
  "TextDecoder_decode bytes =
     map_option (\<lambda>ns. concat (map utf16_units (strip_bom ns))) (utf8_decode (map unat bytes))"

lemma bytes_of_values: "\<forall>v \<in> set vs. v < 256 \<Longrightarrow> map unat (map of_nat vs :: 8 word list) = vs"
  by (induction vs) (simp_all add: unat_of_nat)

lemma utf8_values_bytes: "scalar_value n \<Longrightarrow> map unat (utf8_bytes n) = utf8_values n"
  unfolding utf8_bytes_def
  by (rule bytes_of_values) (auto simp: utf8_values_def scalar_value_def)

lemma utf8_point:
  assumes "scalar_value n"
  shows "utf8_decode (utf8_values n @ rest) = cons_point n (utf8_decode rest)"
proof -
  consider "n < 0x80" | "0x80 \<le> n" "n < 0x800" | "0x800 \<le> n" "n < 0x10000"
    | "0x10000 \<le> n" "n < 0x110000"
    using assms unfolding scalar_value_def by linarith
  then show ?thesis
  proof cases
    case 1
    then show ?thesis by (simp add: utf8_values_def)
  next
    case 2
    define a b where "a = n div 64" and "b = n mod 64"
    then have n: "n = a * 64 + b" "b < 64" by simp_all
    with 2 have a: "2 \<le> a" "a < 32" by linarith+
    have "utf8_values n = [0xC0 + a, 0x80 + b]" using 2 by (simp add: utf8_values_def a_def b_def)
    with n a show ?thesis by (simp add: second_byte_def)
  next
    case 3
    define a b c where "a = n div 4096" and "b = n div 64 mod 64" and "c = n mod 64"
    have "n div 64 = a * 64 + b"
      unfolding a_def b_def using div_mult2_eq [of n 64 64] by simp
    with div_mult_mod_eq [of n 64] have n: "n = a * 4096 + b * 64 + c" unfolding c_def by linarith
    have bc: "b < 64" "c < 64" by (simp_all add: b_def c_def)
    have a: "a < 16" "a = 0 \<longrightarrow> 32 \<le> b" "a = 13 \<longrightarrow> b < 32"
      using 3 n bc assms unfolding scalar_value_def by linarith+
    have "utf8_values n = [0xE0 + a, 0x80 + b, 0x80 + c]"
      using 3 by (simp add: utf8_values_def a_def b_def c_def)
    moreover have "second_byte (0xE0 + a) (0x80 + b)" "continuation (0x80 + c)"
      using a bc by (auto simp: second_byte_def continuation_def)
    ultimately show ?thesis using n a by simp
  next
    case 4
    define a b c d where "a = n div 262144" and "b = n div 4096 mod 64"
      and "c = n div 64 mod 64" and "d = n mod 64"
    have "n div 4096 = a * 64 + b" "n div 64 = (n div 4096) * 64 + c"
      unfolding a_def b_def c_def
      using div_mult2_eq [of n 4096 64] div_mult2_eq [of n 64 64] by simp_all
    with div_mult_mod_eq [of n 64] have n: "n = a * 262144 + b * 4096 + c * 64 + d"
      unfolding d_def by linarith
    have bcd: "b < 64" "c < 64" "d < 64" by (simp_all add: b_def c_def d_def)
    have a: "a < 5" "a = 0 \<longrightarrow> 16 \<le> b" "a = 4 \<longrightarrow> b < 16"
      using 4 n bcd by linarith+
    have "utf8_values n = [0xF0 + a, 0x80 + b, 0x80 + c, 0x80 + d]"
      using 4 by (simp add: utf8_values_def a_def b_def c_def d_def)
    moreover have "second_byte (0xF0 + a) (0x80 + b)" "continuation (0x80 + c)"
        "continuation (0x80 + d)"
      using a bcd by (auto simp: second_byte_def continuation_def)
    ultimately show ?thesis using n a by simp
  qed
qed

lemma utf8_points: "\<forall>n \<in> set ns. scalar_value n \<Longrightarrow>
    utf8_decode (map unat (concat (map utf8_bytes ns))) = Some ns"
  by (induction ns) (simp_all add: utf8_point utf8_values_bytes cons_point_def del: utf8_decode.simps(2))

definition decoded_text :: "jsstring \<Rightarrow> jsstring" where
  "decoded_text s = concat (map utf16_units (strip_bom (code_points s)))"

lemma text_roundtrip: "TextDecoder_decode (TextEncoder_encode s) = Some (decoded_text s)"
  using code_points_scalar [of _ s]
  by (simp add: TextDecoder_decode_def TextEncoder_encode_def utf8_points decoded_text_def)

text \<open>Which strings survive: the well-formed ones that do not start with a byte order mark.\<close>

lemma units_of_lone: "utf16_units (lone_unit c) = [if surrogate c then 0xFFFD else c]"
proof -
  have "utf16_units 0xFFFD = [0xFFFD]" by (simp add: utf16_units_def)
  then show ?thesis by (simp add: lone_unit_def units_of_unit)
qed

lemma to_well_formed_simps:
  "to_well_formed [] = []"
  "leading_surrogate c \<Longrightarrow> trailing_surrogate d \<Longrightarrow>
     to_well_formed (c # d # cs) = c # d # to_well_formed cs"
  "\<not> (leading_surrogate c \<and> trailing_surrogate d) \<Longrightarrow>
     to_well_formed (c # d # cs) = (if surrogate c then 0xFFFD else c) # to_well_formed (d # cs)"
  "to_well_formed [c] = [if surrogate c then 0xFFFD else c]"
  by (auto simp: to_well_formed_def units_of_pair units_of_lone)

lemma replacement_not_surrogate: "\<not> surrogate 0xFFFD"
  by (simp add: surrogate_def leading_surrogate_def trailing_surrogate_def)

lemma to_well_formed_iff: "to_well_formed s = s \<longleftrightarrow> isWellFormed s"
proof (induction s rule: isWellFormed.induct)
  case (2 c)
  then show ?case using replacement_not_surrogate by (auto simp: to_well_formed_simps)
next
  case (3 c d cs)
  then show ?case
    using replacement_not_surrogate
    by (cases "leading_surrogate c \<and> trailing_surrogate d") (auto simp: to_well_formed_simps)
qed (simp add: to_well_formed_simps)

lemma to_well_formed_length: "length (to_well_formed s) = length s"
proof (induction s rule: isWellFormed.induct)
  case (3 c d cs)
  then show ?case
    by (cases "leading_surrogate c \<and> trailing_surrogate d") (simp_all add: to_well_formed_simps)
qed (simp_all add: to_well_formed_simps)

definition byte_order_mark :: "16 word" where
  "byte_order_mark = 0xFEFF"

lemma unat_mark: "unat c = 0xFEFF \<longleftrightarrow> c = byte_order_mark"
  by (auto simp: byte_order_mark_def word_unat_eq_iff)

lemma mark_not_surrogate: "\<not> surrogate byte_order_mark"
  by (simp add: byte_order_mark_def surrogate_def leading_surrogate_def trailing_surrogate_def)

lemma decoded_text_mark: "decoded_text (byte_order_mark # s) = to_well_formed s"
proof -
  have "code_points (byte_order_mark # s) = 0xFEFF # code_points s"
    using mark_not_surrogate unat_mark [of byte_order_mark]
    by (cases s) (simp_all add: lone_unit_def surrogate_def)
  then show ?thesis by (simp add: decoded_text_def strip_bom_def to_well_formed_def)
qed

lemma decoded_text_plain: "s = [] \<or> hd s \<noteq> byte_order_mark \<Longrightarrow> decoded_text s = to_well_formed s"
proof -
  assume plain: "s = [] \<or> hd s \<noteq> byte_order_mark"
  have "code_points s = n # ns \<Longrightarrow> n \<noteq> 0xFEFF" for n ns
    using plain by (cases s rule: code_points.cases)
      (auto simp: lone_unit_def unat_mark split: if_splits dest: pair_point_range)
  then have "strip_bom (code_points s) = code_points s"
    by (auto simp: strip_bom_def split: list.splits)
  then show ?thesis by (simp add: decoded_text_def to_well_formed_def)
qed

lemma decoded_text_id:
  "decoded_text s = s \<longleftrightarrow> isWellFormed s \<and> (s = [] \<or> hd s \<noteq> byte_order_mark)"
proof (cases "s = [] \<or> hd s \<noteq> byte_order_mark")
  case True
  then show ?thesis by (simp add: decoded_text_plain to_well_formed_iff)
next
  case False
  then obtain t where s: "s = byte_order_mark # t" by (cases s) auto
  have "length (decoded_text s) \<noteq> length s"
    by (simp add: s decoded_text_mark to_well_formed_length)
  then have "decoded_text s \<noteq> s" by metis
  with False show ?thesis by simp
qed

section \<open>Base 64\<close>

definition base64_digit :: "nat \<Rightarrow> 16 word" where
  "base64_digit n =
     (if n < 26 then of_nat (65 + n) else if n < 52 then of_nat (71 + n)
      else if n < 62 then of_nat (n - 4) else if n = 62 then 43 else 47)"

definition base64_value :: "16 word \<Rightarrow> nat option" where
  "base64_value c =
     (if 65 \<le> c \<and> c \<le> 90 then Some (unat c - 65)
      else if 97 \<le> c \<and> c \<le> 122 then Some (unat c - 71)
      else if 48 \<le> c \<and> c \<le> 57 then Some (unat c + 4)
      else if c = 43 then Some 62 else if c = 47 then Some 63 else None)"

text \<open>The groups of six bits of some bytes, and the bytes of some groups; leftover bits are dropped.\<close>

fun sextets :: "nat list \<Rightarrow> nat list" where
  "sextets [] = []"
| "sextets [a] = [a div 4, a mod 4 * 16]"
| "sextets [a, b] = [a div 4, a mod 4 * 16 + b div 16, b mod 16 * 4]"
| "sextets (a # b # c # rest) =
     a div 4 # (a mod 4 * 16 + b div 16) # (b mod 16 * 4 + c div 64) # (c mod 64) # sextets rest"

fun octets :: "nat list \<Rightarrow> nat list" where
  "octets (p # q # r # s # rest) =
     (p * 4 + q div 16) # (q mod 16 * 16 + r div 4) # (r mod 4 * 64 + s) # octets rest"
| "octets [p, q, r] = [p * 4 + q div 16, q mod 16 * 16 + r div 4]"
| "octets [p, q] = [p * 4 + q div 16]"
| "octets _ = []"

definition padding :: "nat \<Rightarrow> jsstring" where
  "padding n = replicate ((4 - n mod 4) mod 4) 61"

definition btoa :: "8 word list \<Rightarrow> jsstring" where
  "btoa bytes =
     (let digits = map base64_digit (sextets (map unat bytes)) in digits @ padding (length digits))"

definition ascii_whitespace :: "16 word \<Rightarrow> bool" where
  "ascii_whitespace c \<longleftrightarrow> c = 9 \<or> c = 10 \<or> c = 12 \<or> c = 13 \<or> c = 32"

definition drop_padding :: "jsstring \<Rightarrow> jsstring" where
  "drop_padding s =
     (if length s mod 4 \<noteq> 0 \<or> s = [] \<or> last s \<noteq> 61 then s
      else if last (butlast s) = 61 then butlast (butlast s) else butlast s)"

fun base64_values :: "jsstring \<Rightarrow> nat list option" where
  "base64_values [] = Some []"
| "base64_values (c # cs) =
     (case (base64_value c, base64_values cs) of
        (Some v, Some vs) \<Rightarrow> Some (v # vs)
      | _ \<Rightarrow> None)"

text \<open>None is the \<open>InvalidCharacterError\<close>.\<close>

definition atob :: "jsstring \<Rightarrow> 8 word list option" where
  "atob data =
     (let s = drop_padding (filter (\<lambda>c. \<not> ascii_whitespace c) data) in
      if length s mod 4 = 1 then None
      else map_option (\<lambda>vs. map of_nat (octets vs)) (base64_values s))"

lemma sextets_range: "\<forall>b \<in> set bs. b < 256 \<Longrightarrow> \<forall>v \<in> set (sextets bs). v < 64"
  by (induction bs rule: sextets.induct) (auto simp: less_mult_imp_div_less)

lemma octets_sextets: "\<forall>b \<in> set bs. b < 256 \<Longrightarrow> octets (sextets bs) = bs"
proof (induction bs rule: sextets.induct)
  case (2 a)
  have "a mod 4 < 4" by simp
  then have "a mod 4 * 16 div 16 = a mod 4" by simp
  with 2 show ?case by simp
next
  case (3 a b)
  have "a mod 4 < 4" "b mod 16 < 16" by simp_all
  then show ?case using 3 by auto
next
  case (4 a b c rest)
  then have "b div 16 < 16" "c div 64 < 4" by auto
  with 4 show ?case by (simp add: div_mult_mod_eq mult.commute)
qed simp

lemma sextets_length: "length (sextets bs) mod 4 \<noteq> 1"
  by (induction bs rule: sextets.induct) auto

lemma below_64: "list_all P [0..<64] \<Longrightarrow> n < 64 \<Longrightarrow> P n"
  by (simp add: list_all_iff)

lemma base64_value_digit: "n < 64 \<Longrightarrow> base64_value (base64_digit n) = Some n"
  by (rule below_64 [where P = "\<lambda>n. base64_value (base64_digit n) = Some n"]) (code_simp, assumption)

lemma base64_digit_plain: "n < 64 \<Longrightarrow> base64_digit n \<noteq> 61 \<and> \<not> ascii_whitespace (base64_digit n)"
  by (rule below_64 [where P = "\<lambda>n. base64_digit n \<noteq> 61 \<and> \<not> ascii_whitespace (base64_digit n)"])
    (code_simp, assumption)

lemma base64_values_digits:
  "\<forall>v \<in> set vs. v < 64 \<Longrightarrow> base64_values (map base64_digit vs) = Some vs"
  by (induction vs) (simp_all add: base64_value_digit)

lemma sextets_range_bytes: "v \<in> set (sextets (map unat (bytes :: 8 word list))) \<Longrightarrow> v < 64"
  using sextets_range [of "map unat bytes"] unsigned_less [where ?'b = 8 and ?'a = nat] by auto

lemma drop_padding_padded:
  assumes "length s mod 4 \<noteq> 1" "61 \<notin> set s"
  shows "drop_padding (s @ padding (length s)) = s"
proof -
  have "length s mod 4 < 4" by simp
  with assms(1) consider "length s mod 4 = 0" | "length s mod 4 = 2" | "length s mod 4 = 3"
    by linarith
  then show ?thesis
  proof cases
    case 1
    with assms(2) show ?thesis by (cases s rule: rev_cases) (auto simp: drop_padding_def padding_def)
  next
    case 2
    then have "(length s + 2) mod 4 = 0" by presburger
    with 2 show ?thesis by (simp add: drop_padding_def padding_def numeral_2_eq_2 butlast_append)
  next
    case 3
    then have "(length s + 1) mod 4 = 0" "s \<noteq> []" by (presburger, auto)
    with 3 assms(2) show ?thesis
      by (cases s rule: rev_cases) (auto simp: drop_padding_def padding_def butlast_append)
  qed
qed

lemma atob_padded:
  assumes "\<forall>v \<in> set vs. v < 64" "length vs mod 4 \<noteq> 1"
  shows "atob (map base64_digit vs @ padding (length vs)) = Some (map of_nat (octets vs))"
proof -
  have digits: "\<forall>c \<in> set (map base64_digit vs). c \<noteq> 61 \<and> \<not> ascii_whitespace c"
    using assms(1) base64_digit_plain by auto
  then have "filter (\<lambda>c. \<not> ascii_whitespace c) (map base64_digit vs) = map base64_digit vs"
    by (intro filter_True) simp
  moreover have "filter (\<lambda>c. \<not> ascii_whitespace c) (padding (length vs)) = padding (length vs)"
    by (intro filter_True) (auto simp: padding_def ascii_whitespace_def)
  moreover have "drop_padding (map base64_digit vs @ padding (length vs)) = map base64_digit vs"
  proof -
    have "61 \<notin> set (map base64_digit vs)" using digits by blast
    with drop_padding_padded [of "map base64_digit vs"] assms(2) show ?thesis by simp
  qed
  ultimately show ?thesis using assms by (simp add: atob_def Let_def base64_values_digits)
qed

lemma octets_of_bytes: "map of_nat (octets (sextets (map unat bytes))) = (bytes :: 8 word list)"
proof -
  have "octets (sextets (map unat bytes)) = map unat bytes"
    using unsigned_less [where ?'b = 8 and ?'a = nat] by (intro octets_sextets) auto
  then show ?thesis by (simp add: comp_def)
qed

theorem base64_roundtrip: "atob (btoa bytes) = Some bytes"
  using atob_padded [OF _ sextets_length, of "map unat bytes"] sextets_range_bytes [of _ bytes]
  by (simp add: btoa_def Let_def octets_of_bytes)

end
