(* ===== verification/Imap_Ids.thy ===== *)
theory Imap_Ids
  imports JSON Text_Encoding
begin

text \<open>
  \<open>src/src/remote/imap/ids.ts\<close>: the remote identifiers of IMAP accounts, mailboxes and messages,
  which carry their data in URL-safe base 64. Every failure to decode is the one
  \<open>invalidId\<close> error. The section on names shows which of them survive the way into an
  identifier and back.
\<close>

section \<open>Encoding\<close>

record DecodedImapEmailId =
  ieMailbox :: jsstring
  ieUidValidity :: number
  ieUid :: number

definition invalidId :: exn where
  "invalidId =
     RemoteExn \<lparr>reKind = KStateInvalid, reRetry = RNever, reSession = SKeep,
                reOutcome = OKnownNotApplied\<rparr>"

definition to_url_char :: "16 word \<Rightarrow> 16 word" where
  "to_url_char c = (if c = 43 then 45 else if c = 47 then 95 else c)"

definition of_url_char :: "16 word \<Rightarrow> 16 word" where
  "of_url_char c = (if c = 45 then 43 else if c = 95 then 47 else c)"

definition strip_equals :: "jsstring \<Rightarrow> jsstring" where
  "strip_equals s = rev (dropWhile (\<lambda>c. c = 61) (rev s))"

definition imap_encode :: "jsstring \<Rightarrow> jsstring" where
  "imap_encode val = strip_equals (map to_url_char (btoa (TextEncoder_encode val)))"

definition imap_decode :: "jsstring \<Rightarrow> jsstring throws" where
  "imap_decode val =
     (let padded = map of_url_char val in
      case atob (padded @ padding (length padded)) of
        None \<Rightarrow> Inl invalidId
      | Some binary \<Rightarrow>
          (case TextDecoder_decode binary of None \<Rightarrow> Inl invalidId | Some s \<Rightarrow> Inr s))"

definition assertPositiveInteger :: "number \<Rightarrow> unit throws" where
  "assertPositiveInteger val =
     throw_if (\<not> isSafeInteger val \<or> num_le val (JInt 0)) invalidId (Inr ())"

text \<open>\<open>${n}\<close> of a number the preceding assertion has let through.\<close>

definition positive_string :: "number \<Rightarrow> jsstring" where
  "positive_string n = (case n of JInt i \<Rightarrow> js_of_nat (nat i) | _ \<Rightarrow> [])"

section \<open>The identifiers\<close>

definition imapAccountId :: "jsstring \<Rightarrow> RemoteAccountId throws" where
  "imapAccountId username = remoteAccountIdFromString (js ''imap-account-v1:'' @ imap_encode username)"

definition imapIdentityId :: "jsstring \<Rightarrow> RemoteIdentityId throws" where
  "imapIdentityId username =
     remoteIdentityIdFromString (js ''imap-identity-v1:'' @ imap_encode username)"

definition imapMailboxId :: "jsstring \<Rightarrow> RemoteMailboxId throws" where
  "imapMailboxId name =
     remoteMailboxIdFromString (js ''imap-mailbox-v1:'' @ imap_encode name)"

definition imapEmailId :: "('x) DecodedImapEmailId_scheme \<Rightarrow> RemoteEmailId throws" where
  "imapEmailId val =
     bindE (assertPositiveInteger (ieUidValidity val)) (\<lambda>_.
     bindE (assertPositiveInteger (ieUid val)) (\<lambda>_.
     remoteEmailIdFromString
       (js ''imap-email-v1:'' @ imap_encode (ieMailbox val) @ js '':'' @
        positive_string (ieUidValidity val) @ js '':'' @ positive_string (ieUid val))))"

definition imapThreadId :: "RemoteEmailId \<Rightarrow> RemoteThreadId throws" where
  "imapThreadId emailId = remoteThreadIdFromString (js ''imap-thread-v1:'' @ imap_encode emailId)"

definition imapBlobId :: "RemoteEmailId \<Rightarrow> RemoteBlobId throws" where
  "imapBlobId emailId = remoteBlobIdFromString (js ''imap-blob-v1:'' @ imap_encode emailId)"

definition imapAttachmentBlobId :: "RemoteEmailId \<Rightarrow> jsstring \<Rightarrow> RemoteBlobId throws" where
  "imapAttachmentBlobId emailId partId =
     remoteBlobIdFromString
       (js ''imap-attachment-v1:'' @ imap_encode emailId @ js '':'' @ imap_encode partId)"

definition url_char :: "16 word \<Rightarrow> bool" where
  "url_char c \<longleftrightarrow>
     65 \<le> c \<and> c \<le> 90 \<or> 97 \<le> c \<and> c \<le> 122 \<or> 48 \<le> c \<and> c \<le> 57 \<or> c = 95 \<or> c = 45"

text \<open>The group of \<open>/^prefix([A-Za-z0-9_-]+)$/\<close>.\<close>

definition match_token :: "jsstring \<Rightarrow> jsstring \<Rightarrow> jsstring option" where
  "match_token prefix val =
     (let rest = drop (length prefix) val in
      if js_startsWith val prefix \<and> rest \<noteq> [] \<and> list_all url_char rest then Some rest else None)"

definition decode_token :: "jsstring \<Rightarrow> jsstring \<Rightarrow> jsstring throws" where
  "decode_token prefix val =
     (case match_token prefix val of None \<Rightarrow> Inl invalidId | Some token \<Rightarrow> imap_decode token)"

definition decodeImapAccountId :: "RemoteAccountId \<Rightarrow> jsstring throws" where
  "decodeImapAccountId val = decode_token (js ''imap-account-v1:'') val"

definition decodeImapIdentityId :: "RemoteIdentityId \<Rightarrow> jsstring throws" where
  "decodeImapIdentityId val = decode_token (js ''imap-identity-v1:'') val"

definition decodeImapMailboxId :: "RemoteMailboxId \<Rightarrow> jsstring throws" where
  "decodeImapMailboxId val = decode_token (js ''imap-mailbox-v1:'') val"

text \<open>The three groups of \<open>/^imap-email-v1:([A-Za-z0-9_-]+):(\d+):(\d+)$/\<close>.\<close>

definition after_colon :: "jsstring \<Rightarrow> jsstring option" where
  "after_colon s = (case s of c # cs \<Rightarrow> if c = 58 then Some cs else None | [] \<Rightarrow> None)"

definition match_email :: "RemoteEmailId \<Rightarrow> (jsstring \<times> jsstring \<times> jsstring) option" where
  "match_email val =
     (let prefix = js ''imap-email-v1:''; rest = drop (length prefix) val;
          token = takeWhile url_char rest in
      if \<not> js_startsWith val prefix \<or> token = [] then None
      else
        (case after_colon (dropWhile url_char rest) of
           None \<Rightarrow> None
         | Some r \<Rightarrow>
             (case after_colon (dropWhile is_digit r) of
                None \<Rightarrow> None
              | Some u \<Rightarrow>
                  if takeWhile is_digit r = [] \<or> u = [] \<or> \<not> list_all is_digit u then None
                  else Some (token, takeWhile is_digit r, u))))"

definition decodeImapEmailId :: "RemoteEmailId \<Rightarrow> DecodedImapEmailId throws" where
  "decodeImapEmailId val =
     (case match_email val of
        None \<Rightarrow> Inl invalidId
      | Some (token, a, b) \<Rightarrow>
          (let uidValidity = json_number False a [] 0; uid = json_number False b [] 0 in
           bindE (assertPositiveInteger uidValidity) (\<lambda>_.
           bindE (assertPositiveInteger uid) (\<lambda>_.
           bindE (imap_decode token) (\<lambda>mailbox.
           Inr \<lparr>ieMailbox = mailbox, ieUidValidity = uidValidity, ieUid = uid\<rparr>)))))"

section \<open>Names survive their identifiers\<close>

lemma url_digit:
  assumes "n < 64"
  shows "url_char (to_url_char (base64_digit n))"
    "of_url_char (to_url_char (base64_digit n)) = base64_digit n"
    "to_url_char (base64_digit n) \<noteq> 61"
proof -
  have "list_all (\<lambda>n. url_char (to_url_char (base64_digit n)) \<and>
      of_url_char (to_url_char (base64_digit n)) = base64_digit n \<and>
      to_url_char (base64_digit n) \<noteq> 61) [0..<64]"
    by code_simp
  from below_64 [OF this assms] show "url_char (to_url_char (base64_digit n))"
    "of_url_char (to_url_char (base64_digit n)) = base64_digit n"
    "to_url_char (base64_digit n) \<noteq> 61"
    by blast+
qed

lemma strip_equals_append:
  assumes "61 \<notin> set xs"
  shows "strip_equals (xs @ replicate n 61) = xs"
proof -
  have "dropWhile (\<lambda>c. c = 61) (rev xs) = rev xs"
    using assms by (cases xs rule: rev_cases) auto
  then show ?thesis by (simp add: strip_equals_def dropWhile_append)
qed

definition text_sextets :: "jsstring \<Rightarrow> nat list" where
  "text_sextets s = sextets (map unat (TextEncoder_encode s))"

lemma text_sextets_range: "v \<in> set (text_sextets s) \<Longrightarrow> v < 64"
  unfolding text_sextets_def by (rule sextets_range_bytes)

lemma imap_encode_digits:
  "imap_encode s = map (\<lambda>v. to_url_char (base64_digit v)) (text_sextets s)"
proof -
  have "to_url_char 61 = 61" by (simp add: to_url_char_def)
  then have "map to_url_char (btoa (TextEncoder_encode s)) =
      map (\<lambda>v. to_url_char (base64_digit v)) (text_sextets s) @
      replicate ((4 - length (text_sextets s) mod 4) mod 4) 61"
    by (simp add: btoa_def Let_def padding_def text_sextets_def)
  then show ?thesis
    unfolding imap_encode_def using text_sextets_range url_digit(3)
    by (simp add: strip_equals_append image_iff)
qed

lemma imap_encode_url: "list_all url_char (imap_encode s)"
  using text_sextets_range url_digit(1) by (auto simp: imap_encode_digits list_all_iff)

lemma imap_encode_empty: "imap_encode s = [] \<longleftrightarrow> s = []"
proof -
  have "utf8_bytes n \<noteq> []" for n by (simp add: utf8_bytes_def utf8_values_def)
  moreover have "sextets bs = [] \<longleftrightarrow> bs = []" for bs by (cases bs rule: sextets.cases) auto
  ultimately show ?thesis
    by (cases "code_points s") (auto simp: imap_encode_digits text_sextets_def TextEncoder_encode_def)
qed

lemma imap_decode_encode: "imap_decode (imap_encode s) = Inr (decoded_text s)"
proof -
  have "map of_url_char (imap_encode s) = map base64_digit (text_sextets s)"
    using text_sextets_range url_digit(2) by (auto simp: imap_encode_digits)
  moreover have "length (imap_encode s) = length (text_sextets s)" by (simp add: imap_encode_digits)
  moreover have "atob (map base64_digit (text_sextets s) @ padding (length (text_sextets s))) =
      Some (TextEncoder_encode s)"
    using base64_roundtrip [of "TextEncoder_encode s"]
    by (simp add: btoa_def Let_def text_sextets_def)
  ultimately show ?thesis by (simp add: imap_decode_def Let_def text_roundtrip)
qed

lemma match_token_prefix:
  "match_token p (p @ t) = (if t \<noteq> [] \<and> list_all url_char t then Some t else None)"
  by (simp add: match_token_def Let_def js_startsWith_iff)

lemma decode_token_encode:
  "decode_token p (p @ imap_encode s) = (if s = [] then Inl invalidId else Inr (decoded_text s))"
  by (simp add: decode_token_def match_token_prefix imap_encode_url imap_encode_empty
      imap_decode_encode)

lemma js_of_nat_digits: "list_all is_digit (js_of_nat n)" "js_of_nat n \<noteq> []"
proof -
  show "list_all is_digit (js_of_nat n)"
    using digits10_range [of _ n]
    by (fastforce simp: js_of_nat_def list_all_iff is_digit_def word_le_nat_alt)
  show "js_of_nat n \<noteq> []"
    unfolding js_of_nat_def by (subst digits10.simps) simp
qed

lemma json_number_of_nat: "n < 2 ^ 53 \<Longrightarrow> json_number False (js_of_nat n) [] 0 = JInt (int n)"
  by (simp add: json_number_def js_of_nat_def digits10_value)

lemma match_email_parts:
  assumes "list_all url_char t" "t \<noteq> []" "list_all is_digit a" "a \<noteq> []" "list_all is_digit b" "b \<noteq> []"
  shows "match_email (js ''imap-email-v1:'' @ t @ js '':'' @ a @ js '':'' @ b) = Some (t, a, b)"
proof -
  have colon: "js '':'' = [58]" "\<not> url_char 58" "\<not> is_digit 58"
    by (simp_all add: js_def url_char_def is_digit_def)
  have runs: "takeWhile url_char (t @ 58 # r) = t" "dropWhile url_char (t @ 58 # r) = 58 # r"
    "takeWhile is_digit (a @ 58 # r) = a" "dropWhile is_digit (a @ 58 # r) = 58 # r" for r
    using assms colon by (simp_all add: list_all_iff)
  show ?thesis
    using assms by (simp add: match_email_def Let_def js_startsWith_iff colon runs after_colon_def)
qed

lemma match_email_colon: "match_email (js ''imap-email-v1:'' @ js '':'' @ r) = None"
proof -
  have "\<not> url_char 58" "js '':'' = [58]" by (simp_all add: url_char_def js_def)
  then show ?thesis by (simp add: match_email_def Let_def)
qed

definition uid_number :: "number \<Rightarrow> bool" where
  "uid_number n = (case n of JInt k \<Rightarrow> 0 < k \<and> k < 2 ^ 53 | _ \<Rightarrow> False)"

lemma assertPositiveInteger_eq:
  "assertPositiveInteger n = (if uid_number n then Inr () else Inl invalidId)"
proof -
  have "isSafeInteger n \<and> \<not> num_le n (JInt 0) \<longleftrightarrow> uid_number n"
    by (cases n) (auto simp: isSafeInteger_def uid_number_def)
  then show ?thesis by (auto simp: assertPositiveInteger_def throw_if_def)
qed

lemma uid_numberE:
  assumes "uid_number n"
  obtains k where "n = JInt (int k)" "k < 2 ^ 53"
proof (cases n)
  case (JInt i)
  with assms show ?thesis by (intro that [of "nat i"]) (auto simp: uid_number_def nat_less_iff)
qed (use assms in \<open>simp_all add: uid_number_def\<close>)

lemma imapEmailId_eq:
  "imapEmailId v =
    (if uid_number (ieUidValidity v) \<and> uid_number (ieUid v)
     then Inr (js ''imap-email-v1:'' @ imap_encode (ieMailbox v) @ js '':'' @
               positive_string (ieUidValidity v) @ js '':'' @ positive_string (ieUid v))
     else Inl invalidId)"
  by (auto simp: imapEmailId_def assertPositiveInteger_eq remote_id_defs remoteIdFromString_def
      js_def throw_if_def)

lemma positive_string_token:
  assumes "uid_number n"
  shows "list_all is_digit (positive_string n)" "positive_string n \<noteq> []"
    "json_number False (positive_string n) [] 0 = n"
  using assms by (auto elim!: uid_numberE
      simp: positive_string_def js_of_nat_digits json_number_of_nat)

lemma decodeImapEmailId_encoded:
  "bindE (imapEmailId v) decodeImapEmailId =
    (if ieMailbox v \<noteq> [] \<and> uid_number (ieUidValidity v) \<and> uid_number (ieUid v)
     then Inr \<lparr>ieMailbox = decoded_text (ieMailbox v), ieUidValidity = ieUidValidity v,
               ieUid = ieUid v\<rparr>
     else Inl invalidId)"
proof (cases "uid_number (ieUidValidity v) \<and> uid_number (ieUid v)")
  case True
  show ?thesis
  proof (cases "ieMailbox v = []")
    case True
    then show ?thesis
      by (simp add: imapEmailId_eq imap_encode_empty [THEN iffD2] match_email_colon
          decodeImapEmailId_def)
  next
    case False
    let ?a = "positive_string (ieUidValidity v)" and ?b = "positive_string (ieUid v)"
    have "match_email (js ''imap-email-v1:'' @ imap_encode (ieMailbox v) @ js '':'' @ ?a @
        js '':'' @ ?b) = Some (imap_encode (ieMailbox v), ?a, ?b)"
      using True False
      by (intro match_email_parts) (simp_all add: imap_encode_url imap_encode_empty
          positive_string_token)
    with True False show ?thesis
      by (simp add: imapEmailId_eq decodeImapEmailId_def positive_string_token
          assertPositiveInteger_eq imap_decode_encode)
  qed
qed (auto simp: imapEmailId_eq)

lemma imap_encode_values:
  "base64_values (map of_url_char (imap_encode s)) = Some (text_sextets s)"
proof -
  have "map of_url_char (imap_encode s) = map base64_digit (text_sextets s)"
    using text_sextets_range url_digit(2) by (auto simp: imap_encode_digits)
  then show ?thesis using text_sextets_range base64_values_digits by simp
qed

lemma imap_encode_points:
  assumes "imap_encode a = imap_encode b"
  shows "code_points a = code_points b"
proof -
  have "Some (text_sextets a) = Some (text_sextets b)"
    unfolding imap_encode_values [symmetric] assms ..
  then have "map of_nat (octets (text_sextets a)) = (map of_nat (octets (text_sextets b)) :: 8 word list)"
    by simp
  then have bytes: "TextEncoder_encode a = TextEncoder_encode b"
    unfolding text_sextets_def octets_of_bytes .
  have points: "utf8_decode (map unat (TextEncoder_encode s)) = Some (code_points s)" for s
    unfolding TextEncoder_encode_def by (intro utf8_points ballI) (rule code_points_scalar)
  have "Some (code_points a) = Some (code_points b)"
    unfolding points [symmetric] bytes ..
  then show ?thesis by simp
qed

lemma imap_encode_inject:
  assumes "isWellFormed a" "isWellFormed b"
  shows "imap_encode a = imap_encode b \<longleftrightarrow> a = b"
proof
  assume "imap_encode a = imap_encode b"
  then have "to_well_formed a = to_well_formed b"
    unfolding to_well_formed_def by (subst imap_encode_points) simp_all
  with assms show "a = b" by (simp add: to_well_formed_id)
qed simp

text \<open>C40: A user name, a mailbox name or a message location goes into its IMAP identifier and
  comes back. An identifier decodes to the text its encoder wrote, which is the name itself
  exactly for well-formed UTF-16 that does not start with a byte order mark; the empty name is
  the one name whose identifier no decoder accepts. A message identifier also carries its two
  positive numbers back exactly, and is never built from others.\<close>

theorem imap_ids_roundtrip:
  "bindE (imapAccountId s) decodeImapAccountId =
     (if s = [] then Inl invalidId else Inr (decoded_text s)) \<and>
   bindE (imapIdentityId s) decodeImapIdentityId =
     (if s = [] then Inl invalidId else Inr (decoded_text s)) \<and>
   bindE (imapMailboxId s) decodeImapMailboxId =
     (if s = [] then Inl invalidId else Inr (decoded_text s)) \<and>
   bindE (imapEmailId \<lparr>ieMailbox = s, ieUidValidity = v, ieUid = u\<rparr>) decodeImapEmailId =
     (if s \<noteq> [] \<and> uid_number v \<and> uid_number u
      then Inr \<lparr>ieMailbox = decoded_text s, ieUidValidity = v, ieUid = u\<rparr>
      else Inl invalidId) \<and>
   (decoded_text s = s \<longleftrightarrow> isWellFormed s \<and> \<not> (s \<noteq> [] \<and> hd s = byte_order_mark))"
proof -
  have token: "bindE (remoteIdFromString (p @ imap_encode s) x) (decode_token p) =
      (if s = [] then Inl invalidId else Inr (decoded_text s))"
    if "p \<noteq> []" for p x
    using that by (simp add: remoteIdFromString_def decode_token_encode)
  have account: "bindE (imapAccountId s) decodeImapAccountId =
      (if s = [] then Inl invalidId else Inr (decoded_text s))"
    unfolding imapAccountId_def remoteAccountIdFromString_def decodeImapAccountId_def [abs_def]
    by (rule token) (simp add: js_def)
  have identity: "bindE (imapIdentityId s) decodeImapIdentityId =
      (if s = [] then Inl invalidId else Inr (decoded_text s))"
    unfolding imapIdentityId_def remoteIdentityIdFromString_def decodeImapIdentityId_def [abs_def]
    by (rule token) (simp add: js_def)
  have mailbox: "bindE (imapMailboxId s) decodeImapMailboxId =
      (if s = [] then Inl invalidId else Inr (decoded_text s))"
    unfolding imapMailboxId_def remoteMailboxIdFromString_def decodeImapMailboxId_def [abs_def]
    by (rule token) (simp add: js_def)
  have email: "bindE (imapEmailId \<lparr>ieMailbox = s, ieUidValidity = v, ieUid = u\<rparr>) decodeImapEmailId =
     (if s \<noteq> [] \<and> uid_number v \<and> uid_number u
      then Inr \<lparr>ieMailbox = decoded_text s, ieUidValidity = v, ieUid = u\<rparr>
      else Inl invalidId)"
    by (subst decodeImapEmailId_encoded) simp
  from account identity mailbox email decoded_text_id [of s] show ?thesis by blast
qed

end
