(* ===== verification/JS_Values.thy ===== *)
theory JS_Values
  imports JSON Envelope "HOL-Library.Multiset"
begin

text \<open>
  More of the JavaScript library, as the remote adapters use it: sorting with a comparator,
  \<open>slice\<close> on any number, and \<open>JSON.stringify\<close>. \<open>Array.prototype.sort\<close> is stable, so for a
  consistent comparator every implementation returns what this insertion sort returns. The
  decimal text of a number that is not an integer of at most 53 bits is a parameter.
\<close>

section \<open>Sorting\<close>

fun insertE :: "('a \<Rightarrow> 'a \<Rightarrow> 'e + int) \<Rightarrow> 'a \<Rightarrow> 'a list \<Rightarrow> 'e + 'a list" where
  "insertE cmp x [] = Inr [x]"
| "insertE cmp x (y # ys) =
     bindE (cmp x y) (\<lambda>c.
     if c \<le> 0 then Inr (x # y # ys) else bindE (insertE cmp x ys) (\<lambda>zs. Inr (y # zs)))"

fun sortE :: "('a \<Rightarrow> 'a \<Rightarrow> 'e + int) \<Rightarrow> 'a list \<Rightarrow> 'e + 'a list" where
  "sortE cmp [] = Inr []"
| "sortE cmp (x # xs) = bindE (sortE cmp xs) (insertE cmp x)"

fun insert_by :: "('a \<Rightarrow> 'a \<Rightarrow> int) \<Rightarrow> 'a \<Rightarrow> 'a list \<Rightarrow> 'a list" where
  "insert_by cmp x [] = [x]"
| "insert_by cmp x (y # ys) = (if cmp x y \<le> 0 then x # y # ys else y # insert_by cmp x ys)"

definition sort_by :: "('a \<Rightarrow> 'a \<Rightarrow> int) \<Rightarrow> 'a list \<Rightarrow> 'a list" where
  "sort_by cmp xs = foldr (insert_by cmp) xs []"

text \<open>The order of \<open>sort()\<close> without a comparator.\<close>

definition unit_order :: "jsstring \<Rightarrow> jsstring \<Rightarrow> int" where
  "unit_order a b = (if js_less a b then -1 else if a = b then 0 else 1)"

text \<open>A consistent comparator, as \<open>sort\<close> asks for one.\<close>

definition total_preorder :: "('a \<Rightarrow> 'a \<Rightarrow> int) \<Rightarrow> bool" where
  "total_preorder cmp \<longleftrightarrow>
     (\<forall>x y. sgn (cmp x y) = - sgn (cmp y x)) \<and>
     (\<forall>x y z. cmp x y \<le> 0 \<longrightarrow> cmp y z \<le> 0 \<longrightarrow> cmp x z \<le> 0)"

lemma total_preorder_flip:
  assumes "total_preorder cmp"
  shows "cmp x y < 0 \<longleftrightarrow> 0 < cmp y x" "cmp x y = 0 \<longleftrightarrow> cmp y x = 0"
proof -
  have "sgn (cmp x y) = - sgn (cmp y x)" using assms unfolding total_preorder_def by blast
  then show "cmp x y < 0 \<longleftrightarrow> 0 < cmp y x" "cmp x y = 0 \<longleftrightarrow> cmp y x = 0"
    by (auto simp: sgn_if split: if_splits)
qed

lemma total_preorder_trans:
  assumes "total_preorder cmp" "cmp x y \<le> 0" "cmp y z \<le> 0"
  shows "cmp x z \<le> 0" "cmp x y < 0 \<or> cmp y z < 0 \<Longrightarrow> cmp x z < 0"
proof -
  have trans: "cmp a b \<le> 0 \<Longrightarrow> cmp b c \<le> 0 \<Longrightarrow> cmp a c \<le> 0" for a b c
    using assms(1) unfolding total_preorder_def by blast
  from trans assms show le: "cmp x z \<le> 0" by blast
  assume strict: "cmp x y < 0 \<or> cmp y z < 0"
  show "cmp x z < 0"
  proof (rule ccontr)
    assume "\<not> cmp x z < 0"
    with le total_preorder_flip(2) [OF assms(1)] have "cmp z x \<le> 0" by (metis order_le_less)
    with trans assms(2,3) have "cmp y x \<le> 0" "cmp z y \<le> 0" by blast+
    with strict total_preorder_flip(1) [OF assms(1), of x y]
      total_preorder_flip(1) [OF assms(1), of y z] show False by linarith
  qed
qed

lemma total_preorder_diff: "total_preorder (\<lambda>x y. k x - k y)"
  by (auto simp: total_preorder_def sgn_if)

lemma total_preorder_image: "total_preorder cmp \<Longrightarrow> total_preorder (\<lambda>x y. cmp (h x) (h y))"
  unfolding total_preorder_def by blast

lemma total_preorder_converse:
  assumes "total_preorder cmp"
  shows "total_preorder (\<lambda>x y. cmp y x)"
  unfolding total_preorder_def
proof (intro conjI allI impI)
  show "sgn (cmp y x) = - sgn (cmp x y)" for x y
    using assms unfolding total_preorder_def by blast
  show "cmp z x \<le> 0" if "cmp y x \<le> 0" "cmp z y \<le> 0" for x y z
    using total_preorder_trans(1) [OF assms that(2,1)] .
qed

lemma total_preorder_lexicographic:
  assumes f: "total_preorder f" and g: "total_preorder g"
  shows "total_preorder (\<lambda>x y. if f x y \<noteq> 0 then f x y else g x y)" (is "total_preorder ?c")
  unfolding total_preorder_def
proof (intro conjI allI impI)
  fix x y
  have "sgn (f x y) = - sgn (f y x)" "sgn (g x y) = - sgn (g y x)"
    using f g unfolding total_preorder_def by blast+
  with total_preorder_flip(2) [OF f, of x y] show "sgn (?c x y) = - sgn (?c y x)" by simp
next
  fix x y z
  assume le: "?c x y \<le> 0" "?c y z \<le> 0"
  then have fle: "f x y \<le> 0" "f y z \<le> 0" by (auto split: if_splits)
  show "?c x z \<le> 0"
  proof (cases "f x y < 0 \<or> f y z < 0")
    case True
    with total_preorder_trans(2) [OF f fle] show ?thesis by simp
  next
    case False
    with le fle have "g x z \<le> 0"
      using total_preorder_trans(1) [OF g, of x y z] by (auto split: if_splits)
    with total_preorder_trans(1) [OF f fle] show ?thesis by simp
  qed
qed

lemma mset_insert_by [simp]: "mset (insert_by cmp x xs) = add_mset x (mset xs)"
  by (induction xs) auto

lemma mset_sort_by [simp]: "mset (sort_by cmp xs) = mset xs"
  by (induction xs) (simp_all add: sort_by_def)

lemma set_sort_by [simp]: "set (sort_by cmp xs) = set xs"
  by (metis mset_sort_by set_mset_mset)

lemma length_sort_by [simp]: "length (sort_by cmp xs) = length xs"
  by (metis mset_sort_by size_mset)

lemma set_insert_by [simp]: "set (insert_by cmp x xs) = insert x (set xs)"
  by (metis mset_insert_by set_mset_add_mset_insert set_mset_mset)

lemma insert_by_sorted:
  assumes "total_preorder cmp" "sorted_wrt (\<lambda>x y. cmp x y \<le> 0) xs"
  shows "sorted_wrt (\<lambda>x y. cmp x y \<le> 0) (insert_by cmp x xs)"
  using assms(2)
proof (induction xs)
  case (Cons y ys)
  show ?case
  proof (cases "cmp x y \<le> 0")
    case True
    with Cons.prems total_preorder_trans(1) [OF assms(1)] show ?thesis by auto
  next
    case False
    with total_preorder_flip(1) [OF assms(1), of y x] have "cmp y x \<le> 0" by simp
    with False Cons show ?thesis by auto
  qed
qed simp

lemma sort_by_sorted: "total_preorder cmp \<Longrightarrow> sorted_wrt (\<lambda>x y. cmp x y \<le> 0) (sort_by cmp xs)"
  by (induction xs) (simp_all add: sort_by_def insert_by_sorted)

lemma sort_by_id: "sorted_wrt (\<lambda>x y. cmp x y \<le> 0) xs \<Longrightarrow> sort_by cmp xs = xs"
proof (induction xs)
  case (Cons x xs)
  then show ?case by (cases xs) (simp_all add: sort_by_def)
qed (simp add: sort_by_def)

lemma insert_by_map: "map f (insert_by (\<lambda>a b. cmp (f a) (f b)) x xs) = insert_by cmp (f x) (map f xs)"
  by (induction xs) simp_all

lemma sort_by_map: "map f (sort_by (\<lambda>a b. cmp (f a) (f b)) xs) = sort_by cmp (map f xs)"
  by (induction xs) (simp_all add: sort_by_def insert_by_map)

lemma unit_order_total: "total_preorder unit_order"
  unfolding total_preorder_def
proof (intro conjI allI impI)
  show "sgn (unit_order a b) = - sgn (unit_order b a)" for a b
    using js_less_linear [of a b] js_less_trans [of a b a] by (auto simp: unit_order_def)
  have le: "unit_order a b \<le> 0 \<longleftrightarrow> js_less a b \<or> a = b" for a b by (simp add: unit_order_def)
  show "unit_order a c \<le> 0" if "unit_order a b \<le> 0" "unit_order b c \<le> 0" for a b c
    using that js_less_trans unfolding le by blast
qed

lemma insertE_pure:
  assumes "\<And>y. y \<in> set ys \<Longrightarrow> cmp x y = Inr (f x y)"
  shows "insertE cmp x ys = Inr (insert_by f x ys)"
  using assms by (induction ys) auto

lemma sortE_pure:
  "\<forall>x \<in> set xs. \<forall>y \<in> set xs. cmp x y = Inr (f x y) \<Longrightarrow> sortE cmp xs = Inr (sort_by f xs)"
proof (induction xs)
  case (Cons x xs)
  then have "sortE cmp xs = Inr (sort_by f xs)" by simp
  moreover have "insertE cmp x (sort_by f xs) = Inr (insert_by f x (sort_by f xs))"
    using Cons.prems by (intro insertE_pure) simp
  ultimately show ?case by (simp add: sort_by_def)
qed (simp add: sort_by_def)

lemma insertE_mset: "insertE cmp x ys = Inr zs \<Longrightarrow> mset zs = add_mset x (mset ys)"
  by (induction ys arbitrary: zs) (auto simp: bindE_Inr_iff split: if_splits)

lemma sortE_mset: "sortE cmp xs = Inr ys \<Longrightarrow> mset ys = mset xs"
  by (induction xs arbitrary: ys) (auto simp: bindE_Inr_iff insertE_mset)

section \<open>Slices\<close>

text \<open>A bound of \<open>slice\<close>: to an integer, relative to the end when negative, into the array.\<close>

definition slice_bound :: "nat \<Rightarrow> number \<Rightarrow> nat" where
  "slice_bound len n =
     (let clamp = (\<lambda>i. if i < 0 then nat (max (int len + i) 0) else min (nat i) len) in
      case n of
        JInt i \<Rightarrow> clamp i
      | JFrac r \<Rightarrow> clamp (if r < 0 then \<lceil>r\<rceil> else \<lfloor>r\<rfloor>)
      | JInf pos \<Rightarrow> if pos then len else 0
      | JNaN \<Rightarrow> 0)"

definition js_slice :: "'a list \<Rightarrow> number \<Rightarrow> number \<Rightarrow> 'a list" where
  "js_slice xs from_n to_n =
     (let a = slice_bound (length xs) from_n; b = slice_bound (length xs) to_n in
      take (b - a) (drop a xs))"

definition math_max0 :: "number \<Rightarrow> number" where
  "math_max0 n = (if n = JNaN then JNaN else if num_less (JInt 0) n then n else JInt 0)"

lemma js_slice_nat: "js_slice xs (JInt (int a)) (JInt (int (a + n))) = take n (drop a xs)"
  by (simp add: js_slice_def slice_bound_def min_def nat_int_add)

section \<open>JSON text\<close>

definition number_text :: "(number \<Rightarrow> jsstring) \<Rightarrow> number \<Rightarrow> jsstring" where
  "number_text other n =
     (case n of
        JInt i \<Rightarrow>
          if 0 \<le> i \<and> i \<le> 2 ^ 53 then js_of_nat (nat i)
          else if - (2 ^ 53) \<le> i \<and> i < 0 then 45 # js_of_nat (nat (- i))
          else other n
      | JFrac _ \<Rightarrow> other n
      | _ \<Rightarrow> js ''null'')"

fun join :: "jsstring \<Rightarrow> jsstring list \<Rightarrow> jsstring" where
  "join sep [] = []"
| "join sep [x] = x"
| "join sep (x # y # ys) = x @ sep @ join sep (y # ys)"

fun json_text :: "(number \<Rightarrow> jsstring) \<Rightarrow> json \<Rightarrow> jsstring" where
  "json_text other JsonNull = js ''null''"
| "json_text other (JsonBool b) = (if b then js ''true'' else js ''false'')"
| "json_text other (JsonNumber n) = number_text other n"
| "json_text other (JsonString s) = json_quote s"
| "json_text other (JsonArray vs) = [91] @ join [44] (map (json_text other) vs) @ [93]"
| "json_text other (JsonObject ms) =
     [123] @ join [44] (map (\<lambda>(k, v). json_quote k @ [58] @ json_text other v) ms) @ [125]"

end
