(* ===== verification/Remote_Ports.thy ===== *)
theory Remote_Ports
  imports Remote_Types
begin

text \<open>
  The interfaces of the remote contract as records of operations over a world: \<open>RemoteMail\<close>
  (\<open>src/src/remote/mail.ts\<close>), \<open>Submission\<close>, \<open>RemoteMutationReconciler\<close>
  (\<open>reconciliation.ts\<close>), \<open>RemoteSession\<close> (\<open>session.ts\<close>) and \<open>RemoteConnection\<close>
  (\<open>connection.ts\<close>). IMAP and JMAP implement them; the application layer takes them.
\<close>

section \<open>Mutable fields\<close>

text \<open>A private mutable field of an object is a cell of the world: how to read it, how to write it.\<close>

record ('s, 'a) cell =
  cellGet :: "'s \<Rightarrow> 'a"
  cellSet :: "'a \<Rightarrow> 's \<Rightarrow> 's"

definition readM :: "('s, 'a) cell \<Rightarrow> ('s, 'e, 'a) eff" where
  "readM c s = (Inr (cellGet c s), s)"

definition assignM :: "('s, 'a) cell \<Rightarrow> 'a \<Rightarrow> ('s, 'e, unit) eff" where
  "assignM c a s = (Inr (), cellSet c a s)"

section \<open>The ports\<close>

record ('s, 'f) RemoteMail =
  mlSyncIdentities ::
    "RemoteAccountId \<Rightarrow> RemoteSyncState option \<Rightarrow>
     ('s, exn, (RemoteIdentity, RemoteIdentityId) RemoteCollectionSync) eff"
  mlSyncMailboxes ::
    "RemoteAccountId \<Rightarrow> RemoteSyncState option \<Rightarrow>
     ('s, exn, (RemoteMailbox, RemoteMailboxId) RemoteCollectionSync) eff"
  mlSyncEmails ::
    "RemoteAccountId \<Rightarrow> RemoteSyncState option \<Rightarrow>
     ('s, exn, (RemoteEmail, RemoteEmailId) RemoteCollectionSync) eff"
  mlQueryMailbox ::
    "RemoteAccountId \<Rightarrow> RemoteMailboxId \<Rightarrow> 'f option \<Rightarrow> RemoteQueryOptions option \<Rightarrow>
     ('s, exn, RemoteMailboxQuery) eff"
  mlFetchBody :: "RemoteAccountId \<Rightarrow> RemoteEmailId \<Rightarrow> ('s, exn, RemoteBody) eff"
  mlFetchAttachments :: "RemoteAccountId \<Rightarrow> RemoteEmailId \<Rightarrow> ('s, exn, RemoteAttachment list) eff"
  mlApplyKeywordChange ::
    "RemoteAccountId \<Rightarrow> RemoteEmailId \<Rightarrow> RemoteKeywordChange \<Rightarrow> ('s, exn, unit) eff"
  mlApplyMembershipChange ::
    "RemoteAccountId \<Rightarrow> RemoteEmailId \<Rightarrow> RemoteMembershipChange \<Rightarrow> ('s, exn, unit) eff"

type_synonym 's Submission = "SubmissionMessage \<Rightarrow> MutationId \<Rightarrow> ('s, exn, SubmissionResult) eff"

record RemoteSendReconciliationRequest =
  srqRemoteAccountId :: RemoteAccountId
  srqIdempotencyKey :: jsstring

record RemoteMembershipReconciliationRequest =
  mrqRemoteAccountId :: RemoteAccountId
  mrqIdempotencyKey :: jsstring
  mrqEmailId :: RemoteEmailId
  mrqChange :: RemoteMembershipChange

record 's RemoteMutationReconciler =
  rrSend :: "RemoteSendReconciliationRequest \<Rightarrow> ('s, exn, RemoteMutationEvidence) eff"
  rrMembership ::
    "RemoteMembershipReconciliationRequest \<Rightarrow> ('s, exn, RemoteMutationEvidence) eff"

record RemoteAccountDescriptor =
  rdaId :: RemoteAccountId
  rdaCapabilities :: "jsstring list"

record ('s, 'f) RemoteSession =
  ssAccounts :: "RemoteAccountDescriptor list"
  ssMail :: "('s, 'f) RemoteMail"
  ssSubmission :: "'s Submission"
  ssReconciler :: "'s RemoteMutationReconciler option"
  ssClose :: "('s, exn, unit) eff"

text \<open>A \<open>RemoteConnection\<close> is what its \<open>open\<close> does.\<close>

type_synonym ('s, 'f) RemoteConnection = "('s, exn, ('s, 'f) RemoteSession) eff"

end
