(* ===== verification/Native_Ipc.thy ===== *)
theory Native_Ipc
  imports Remote_Ports
begin

text \<open>
  \<open>src/src/remote/native/ipc.ts\<close>, \<open>error-mapper.ts\<close> and \<open>native-mail-ipc-client.ts\<close>: the
  commands of the native mail engine, what their failures become, and the client that names
  them. The engine behind \<open>invoke\<close> is a parameter; a command may reject with anything, which is
  a program exception, an object with four string fields, or something else.
\<close>

section \<open>Transfer objects\<close>

record NativeMailErrorDto =
  neKind :: jsstring
  neRetry :: jsstring
  neSession :: jsstring
  neOutcome :: jsstring

record NativeMailOpenRequest =
  noHost :: jsstring
  noUsername :: jsstring
  noPassword :: jsstring
  noImapPort :: number
  noSmtpPort :: number

record NativeMailOpenResponse =
  nrSessionId :: jsstring
  nrAuthenticatedUser :: jsstring

record NativeGoogleMailOpenRequest =
  ngUsername :: jsstring
  ngCredentialRef :: jsstring

type_synonym NativeAddressDto = EmailAddress

record NativeMailboxDto =
  nbName :: jsstring
  nbMessages :: number
  nbUnseen :: number
  nbUidValidity :: number
  nbUidNext :: number
  nbSpecialUse :: "jsstring option"

record NativeMessageMetadataDto =
  nmMailbox :: jsstring
  nmUidValidity :: number
  nmUid :: number
  nmFlags :: "jsstring list"
  nmInternalDate :: jsstring
  nmSize :: number
  nmSender :: "NativeAddressDto list option"
  nmFrom :: "NativeAddressDto list option"
  nmReplyTo :: "NativeAddressDto list option"
  nmTo :: "NativeAddressDto list option"
  nmCc :: "NativeAddressDto list option"
  nmBcc :: "NativeAddressDto list option"
  nmSubject :: "jsstring option"
  nmSentAt :: "jsstring option"
  nmPreview :: jsstring
  nmHasAttachment :: bool

record NativeMailboxSnapshotDto =
  nsMailbox :: NativeMailboxDto
  nsMessages :: "NativeMessageMetadataDto list"

datatype NativeBodyDto =
    NativePlain "jsstring option" "jsstring option"
  | NativeBoxplotE2ee jsstring

record NativeAttachmentDto =
  naPartId :: jsstring
  naName :: "jsstring option"
  naMediaType :: jsstring
  naSize :: number
  naDisposition :: "jsstring option"
  naCid :: "jsstring option"

record NativeMessageRequest =
  nqSessionId :: jsstring
  nqMailbox :: jsstring
  nqUidValidity :: number
  nqUid :: number

record NativeFindMessageIdRequest =
  nfSessionId :: jsstring
  nfMailbox :: jsstring
  nfMessageId :: jsstring

record NativeFoundEmailIdDto =
  fdMailbox :: jsstring
  fdUidValidity :: number
  fdUid :: number

datatype NativeFindMessageIdResponse = NativeNotFound | NativeFound NativeFoundEmailIdDto | NativeAmbiguous

datatype NativeFlag = FlagSeen | FlagFlagged

record NativeStoreFlagsRequest = NativeMessageRequest +
  nqAdd :: "NativeFlag list"
  nqRemove :: "NativeFlag list"

record NativeMoveRequest = NativeMessageRequest +
  nqDestinationMailbox :: jsstring

record NativeMoveResponse =
  nvSourceMailbox :: jsstring
  nvSourceUidValidity :: number
  nvSourceUid :: number
  nvDestinationMailbox :: jsstring
  nvDestinationUid :: number

record NativeSmtpSubmitRequest =
  nuSessionId :: jsstring
  nuFrom :: NativeAddressDto
  nuTo :: "NativeAddressDto list"
  nuCc :: "NativeAddressDto list"
  nuBcc :: "NativeAddressDto list"
  nuReplyTo :: "NativeAddressDto list"
  nuSubject :: jsstring
  nuBody :: SubmissionBody
  nuIdempotencyKey :: jsstring

section \<open>Failures\<close>

datatype thrown = ThrownExn exn | ThrownNative NativeMailErrorDto | ThrownOther

definition native_kind :: "jsstring \<Rightarrow> RemoteErrorKind option" where
  "native_kind s =
     map_of [(js ''auth'', KAuth), (js ''network'', KNetwork), (js ''unavailable'', KUnavailable),
             (js ''protocol'', KProtocol), (js ''malformedRemoteData'', KMalformedRemoteData),
             (js ''stateInvalid'', KStateInvalid), (js ''conflict'', KConflict),
             (js ''unsupported'', KUnsupported), (js ''rateLimited'', KRateLimited),
             (js ''tooLarge'', KTooLarge), (js ''rejected'', KRejected),
             (js ''unexpected'', KUnexpected)] s"

definition native_retry :: "jsstring \<Rightarrow> RetryDisposition option" where
  "native_retry s =
     map_of [(js ''never'', RNever), (js ''safeImmediate'', RSafeImmediate),
             (js ''safeBackoff'', RSafeBackoff), (js ''reconcile'', RReconcile)] s"

definition native_session :: "jsstring \<Rightarrow> SessionDisposition option" where
  "native_session s = map_of [(js ''keep'', SKeep), (js ''expire'', SExpire)] s"

definition native_outcome :: "jsstring \<Rightarrow> OperationOutcome option" where
  "native_outcome s =
     map_of [(js ''notApplicable'', ONotApplicable), (js ''knownNotApplied'', OKnownNotApplied),
             (js ''unknown'', OUnknown)] s"

text \<open>\<open>isNativeError\<close> and the fields it admits.\<close>

definition isNativeError :: "NativeMailErrorDto \<Rightarrow> RemoteError option" where
  "isNativeError e =
     (case (native_kind (neKind e), native_retry (neRetry e), native_session (neSession e),
            native_outcome (neOutcome e)) of
        (Some k, Some r, Some s, Some u) \<Rightarrow>
          Some \<lparr>reKind = k, reRetry = r, reSession = s, reOutcome = u\<rparr>
      | _ \<Rightarrow> None)"

definition native_unavailable :: RemoteError where
  "native_unavailable =
     \<lparr>reKind = KUnavailable, reRetry = RSafeBackoff, reSession = SExpire,
      reOutcome = OKnownNotApplied\<rparr>"

definition toNativeRemoteError :: "thrown \<Rightarrow> RemoteError" where
  "toNativeRemoteError err =
     (case err of
        ThrownExn (RemoteExn e) \<Rightarrow> e
      | ThrownNative dto \<Rightarrow>
          (case isNativeError dto of Some e \<Rightarrow> e | None \<Rightarrow> native_unavailable)
      | _ \<Rightarrow> native_unavailable)"

text \<open>\<open>try { ... } catch (error) { throw toNativeRemoteError(error) }\<close>; a body that only throws
  program exceptions is lifted into it.\<close>

definition native_try :: "('s, thrown, 'a) eff \<Rightarrow> ('s, exn, 'a) eff" where
  "native_try m s =
     (case m s of
        (Inl e, t) \<Rightarrow> (Inl (RemoteExn (toNativeRemoteError e)), t)
      | (Inr a, t) \<Rightarrow> (Inr a, t))"

definition thrownE :: "'a throws \<Rightarrow> ('s, thrown, 'a) eff" where
  "thrownE r = liftM (case r of Inl e \<Rightarrow> Inl (ThrownExn e) | Inr a \<Rightarrow> Inr a)"

lemma native_try_iff:
  "native_try m s = (Inr a, t) \<longleftrightarrow> m s = (Inr a, t)"
  "native_try m s = (Inl x, t) \<longleftrightarrow> (\<exists>e. m s = (Inl e, t) \<and> x = RemoteExn (toNativeRemoteError e))"
  by (auto simp: native_try_def split: prod.splits sum.splits)

lemma thrownE_simps [simp]:
  "thrownE (Inr a) = retM a"
  "thrownE (Inl e) = throwM (ThrownExn e)"
  by (simp_all add: thrownE_def fun_eq_iff liftM_def retM_def throwM_def)

lemma thrownE_iff [simp]:
  "thrownE r s = (Inr a, t) \<longleftrightarrow> r = Inr a \<and> t = s"
  "thrownE r s = (Inl e, t) \<longleftrightarrow> (\<exists>x. r = Inl x \<and> e = ThrownExn x \<and> t = s)"
  by (cases r; auto)+

section \<open>The port\<close>

record 's NativeMailIpcPort =
  ipOpen :: "NativeMailOpenRequest \<Rightarrow> ('s, thrown, NativeMailOpenResponse) eff"
  ipAuthorizeGoogle :: "(jsstring \<Rightarrow> jsstring \<Rightarrow> ('s, thrown, jsstring) eff) option"
  ipForgetGoogle :: "(jsstring \<Rightarrow> ('s, thrown, unit) eff) option"
  ipOpenGoogle ::
    "(NativeGoogleMailOpenRequest \<Rightarrow> ('s, thrown, NativeMailOpenResponse) eff) option"
  ipClose :: "jsstring \<Rightarrow> ('s, thrown, unit) eff"
  ipListMailboxes :: "jsstring \<Rightarrow> ('s, thrown, NativeMailboxDto list) eff"
  ipSnapshotMailbox :: "jsstring \<Rightarrow> jsstring \<Rightarrow> ('s, thrown, NativeMailboxSnapshotDto) eff"
  ipFetchBody :: "NativeMessageRequest \<Rightarrow> ('s, thrown, NativeBodyDto) eff"
  ipFetchAttachments :: "NativeMessageRequest \<Rightarrow> ('s, thrown, NativeAttachmentDto list) eff"
  ipFindMessageId ::
    "NativeFindMessageIdRequest \<Rightarrow> ('s, thrown, NativeFindMessageIdResponse) eff"
  ipStoreFlags :: "NativeStoreFlagsRequest \<Rightarrow> ('s, thrown, unit) eff"
  ipMove :: "NativeMoveRequest \<Rightarrow> ('s, thrown, NativeMoveResponse) eff"
  ipSmtpSubmit :: "NativeSmtpSubmitRequest \<Rightarrow> ('s, thrown, jsstring) eff"

section \<open>The client\<close>

text \<open>The request object a command is sent.\<close>

datatype native_request =
    ReqOpen NativeMailOpenRequest
  | ReqAuthorize jsstring jsstring
  | ReqForget jsstring
  | ReqOpenGoogle NativeGoogleMailOpenRequest
  | ReqSession jsstring
  | ReqMailbox jsstring jsstring
  | ReqMessage NativeMessageRequest
  | ReqFind NativeFindMessageIdRequest
  | ReqStoreFlags NativeStoreFlagsRequest
  | ReqMove NativeMoveRequest
  | ReqSubmit NativeSmtpSubmitRequest

text \<open>\<open>invoke<T>(command, { request })\<close>, one field per reply type \<open>T\<close> the client asks for.\<close>

record 's NativeMailInvoke =
  nvOpen :: "jsstring \<Rightarrow> native_request \<Rightarrow> ('s, thrown, NativeMailOpenResponse) eff"
  nvCredential :: "jsstring \<Rightarrow> native_request \<Rightarrow> ('s, thrown, jsstring) eff"
  nvUnit :: "jsstring \<Rightarrow> native_request \<Rightarrow> ('s, thrown, unit) eff"
  nvMailboxes :: "jsstring \<Rightarrow> native_request \<Rightarrow> ('s, thrown, NativeMailboxDto list) eff"
  nvSnapshot :: "jsstring \<Rightarrow> native_request \<Rightarrow> ('s, thrown, NativeMailboxSnapshotDto) eff"
  nvBody :: "jsstring \<Rightarrow> native_request \<Rightarrow> ('s, thrown, NativeBodyDto) eff"
  nvAttachments :: "jsstring \<Rightarrow> native_request \<Rightarrow> ('s, thrown, NativeAttachmentDto list) eff"
  nvFind :: "jsstring \<Rightarrow> native_request \<Rightarrow> ('s, thrown, NativeFindMessageIdResponse) eff"
  nvMove :: "jsstring \<Rightarrow> native_request \<Rightarrow> ('s, thrown, NativeMoveResponse) eff"
  nvReceipt :: "jsstring \<Rightarrow> native_request \<Rightarrow> ('s, thrown, jsstring) eff"

definition NATIVE_MAIL_COMMANDS :: "jsstring list" where
  "NATIVE_MAIL_COMMANDS =
     [js ''native_mail_open'', js ''native_mail_close'', js ''native_imap_list_mailboxes'',
      js ''native_imap_snapshot_mailbox'', js ''native_imap_fetch_body'',
      js ''native_imap_fetch_attachments'', js ''native_imap_find_message_id'',
      js ''native_imap_store_flags'', js ''native_imap_move'', js ''native_smtp_submit'']"

definition NATIVE_GOOGLE_COMMANDS :: "jsstring list" where
  "NATIVE_GOOGLE_COMMANDS =
     [js ''native_google_oauth_authorize'', js ''native_google_oauth_forget'',
      js ''native_mail_open_google'']"

definition NativeMailIpcClient :: "'s NativeMailInvoke \<Rightarrow> 's NativeMailIpcPort" where
  "NativeMailIpcClient invoke =
     \<lparr>ipOpen = (\<lambda>r. nvOpen invoke (js ''native_mail_open'') (ReqOpen r)),
      ipAuthorizeGoogle =
        Some (\<lambda>a u. nvCredential invoke (js ''native_google_oauth_authorize'') (ReqAuthorize a u)),
      ipForgetGoogle = Some (\<lambda>c. nvUnit invoke (js ''native_google_oauth_forget'') (ReqForget c)),
      ipOpenGoogle = Some (\<lambda>r. nvOpen invoke (js ''native_mail_open_google'') (ReqOpenGoogle r)),
      ipClose = (\<lambda>i. nvUnit invoke (js ''native_mail_close'') (ReqSession i)),
      ipListMailboxes =
        (\<lambda>i. nvMailboxes invoke (js ''native_imap_list_mailboxes'') (ReqSession i)),
      ipSnapshotMailbox =
        (\<lambda>i m. nvSnapshot invoke (js ''native_imap_snapshot_mailbox'') (ReqMailbox i m)),
      ipFetchBody = (\<lambda>r. nvBody invoke (js ''native_imap_fetch_body'') (ReqMessage r)),
      ipFetchAttachments =
        (\<lambda>r. nvAttachments invoke (js ''native_imap_fetch_attachments'') (ReqMessage r)),
      ipFindMessageId =
        (\<lambda>r. nvFind invoke (js ''native_imap_find_message_id'') (ReqFind r)),
      ipStoreFlags = (\<lambda>r. nvUnit invoke (js ''native_imap_store_flags'') (ReqStoreFlags r)),
      ipMove = (\<lambda>r. nvMove invoke (js ''native_imap_move'') (ReqMove r)),
      ipSmtpSubmit = (\<lambda>r. nvReceipt invoke (js ''native_smtp_submit'') (ReqSubmit r))\<rparr>"

end
