(* ===== verification/Imap_Mail.thy ===== *)
theory Imap_Mail
  imports Imap_Ids JS_Values Native_Ipc
begin

text \<open>
  \<open>src/src/remote/imap/mappers.ts\<close> and \<open>imap-remote-mail.ts\<close>: what the native engine answers as
  records of the remote contract, and the \<open>RemoteMail\<close> of one IMAP session over the native
  port. \<open>localeCompare\<close> (\<open>lc\<close>) and the decimal text of unusual numbers (\<open>other\<close>) are
  parameters; only the sign of a comparison is used.
\<close>

section \<open>Mappers\<close>

definition roleFor :: "jsstring option \<Rightarrow> jsstring \<Rightarrow> jsstring option" where
  "roleFor specialUse name =
     (let use = map_option js_toLowerCase specialUse; n = js_toLowerCase name in
      if use = Some (92 # js ''inbox'') then Some (js ''inbox'')
      else if use = Some (92 # js ''sent'') then Some (js ''sent'')
      else if use = Some (92 # js ''trash'') then Some (js ''trash'')
      else if n = js ''inbox'' then Some (js ''inbox'')
      else if n = js ''sent'' then Some (js ''sent'')
      else if n = js ''trash'' then Some (js ''trash'')
      else None)"

definition mapNativeMailbox :: "NativeMailboxDto \<Rightarrow> nat \<Rightarrow> RemoteMailbox throws" where
  "mapNativeMailbox val index =
     (let role = roleFor (nbSpecialUse val) (nbName val) in
      bindE (imapMailboxId (nbName val)) (\<lambda>i.
      Inr \<lparr>rmId = i, rmName = nbName val, rmParent = None, rmRole = role,
           rmSortOrder =
             JInt (if role = Some (js ''inbox'') then 0
                   else if role = Some (js ''sent'') then 1
                   else if role = Some (js ''trash'') then 2
                   else int index + 3),
           rmTotalEmails = nbMessages val, rmUnreadEmails = nbUnseen val,
           rmRights =
             \<lparr>mayReadItems = True, mayAddItems = False, mayRemoveItems = True,
              maySetSeen = True, maySetKeywords = True, maySubmit = True\<rparr>\<rparr>))"

definition flag_keyword :: "jsstring \<Rightarrow> jsstring list" where
  "flag_keyword flag =
     (if js_toLowerCase flag = 92 # js ''seen'' then [js ''$seen'']
      else if js_toLowerCase flag = 92 # js ''flagged'' then [js ''$flagged'']
      else [])"

definition addresses :: "NativeAddressDto list option \<Rightarrow> RemoteAddressList" where
  "addresses values =
     map_option (map (\<lambda>v. \<lparr>adName = adName v, adEmail = adEmail v\<rparr>)) values"

definition message_location :: "NativeMessageMetadataDto \<Rightarrow> DecodedImapEmailId" where
  "message_location val =
     \<lparr>ieMailbox = nmMailbox val, ieUidValidity = nmUidValidity val, ieUid = nmUid val\<rparr>"

definition mapNativeEmail :: "NativeMessageMetadataDto \<Rightarrow> RemoteEmail throws" where
  "mapNativeEmail val =
     bindE (imapEmailId (message_location val)) (\<lambda>i.
     bindE (imapBlobId i) (\<lambda>blob.
     bindE (imapThreadId i) (\<lambda>thread.
     bindE (imapMailboxId (nmMailbox val)) (\<lambda>box.
     Inr \<lparr>rlId = i, rlBlobId = blob, rlThreadId = thread,
          rlSender = addresses (nmSender val), rlFrom = addresses (nmFrom val),
          rlReplyTo = addresses (nmReplyTo val), rlTo = addresses (nmTo val),
          rlCc = addresses (nmCc val), rlBcc = addresses (nmBcc val),
          rlSubject = nmSubject val, rlSentAt = nmSentAt val,
          rlReceivedAt = nmInternalDate val, rlSize = nmSize val, rlPreview = nmPreview val,
          rlHasAttachment = nmHasAttachment val,
          rlKeywords = set_of_list (concat (map flag_keyword (nmFlags val))),
          rlMailboxIds = [box]\<rparr>))))"

definition mapNativeAttachment :: "RemoteEmailId \<Rightarrow> NativeAttachmentDto \<Rightarrow> RemoteAttachment throws" where
  "mapNativeAttachment emailId val =
     bindE (imapAttachmentBlobId emailId (naPartId val)) (\<lambda>blob.
     Inr \<lparr>raBlobId = blob, raPartId = Some (naPartId val), raName = naName val,
          raMediaType = naMediaType val, raSize = naSize val,
          raDisposition = naDisposition val, raCid = naCid val\<rparr>)"

text \<open>\<open>values.map(mapNativeMailbox)\<close> hands every value its index.\<close>

fun map_mailboxes :: "nat \<Rightarrow> NativeMailboxDto list \<Rightarrow> RemoteMailbox list throws" where
  "map_mailboxes n [] = Inr []"
| "map_mailboxes n (v # vs) =
     bindE (mapNativeMailbox v n) (\<lambda>m. bindE (map_mailboxes (Suc n) vs) (\<lambda>ms. Inr (m # ms)))"

section \<open>Errors and states\<close>

definition imap_unsupported :: RemoteError where
  "imap_unsupported =
     \<lparr>reKind = KUnsupported, reRetry = RNever, reSession = SKeep, reOutcome = OKnownNotApplied\<rparr>"

definition imap_invalidState :: RemoteError where
  "imap_invalidState =
     \<lparr>reKind = KStateInvalid, reRetry = RNever, reSession = SKeep, reOutcome = OKnownNotApplied\<rparr>"

definition snapshotConflict :: RemoteError where
  "snapshotConflict =
     \<lparr>reKind = KConflict, reRetry = RSafeImmediate, reSession = SKeep,
      reOutcome = OKnownNotApplied\<rparr>"

definition imap_state :: "(number \<Rightarrow> jsstring) \<Rightarrow> jsstring \<Rightarrow> json \<Rightarrow> RemoteSyncState" where
  "imap_state other kind val =
     remoteSyncStateFromString (js ''imap-state-v1:'' @ kind @ js '':'' @ json_text other val)"

definition mailbox_rank :: "jsstring \<Rightarrow> int" where
  "mailbox_rank name =
     (let n = js_toLowerCase name in
      if n = js ''inbox'' then 0 else if n = js ''sent'' then 1
      else if n = js ''trash'' then 2 else 3)"

definition compare_mailboxes ::
  "(jsstring \<Rightarrow> jsstring \<Rightarrow> int) \<Rightarrow> NativeMailboxDto \<Rightarrow> NativeMailboxDto \<Rightarrow> int" where
  "compare_mailboxes lc left right =
     (let d = mailbox_rank (nbName left) - mailbox_rank (nbName right) in
      if d \<noteq> 0 then d else lc (nbName left) (nbName right))"

definition sortMailboxes ::
  "(jsstring \<Rightarrow> jsstring \<Rightarrow> int) \<Rightarrow> NativeMailboxDto list \<Rightarrow> NativeMailboxDto list" where
  "sortMailboxes lc values = sort_by (compare_mailboxes lc) values"

definition mailbox_status :: "NativeMailboxDto \<Rightarrow> json" where
  "mailbox_status v =
     JsonArray [JsonString (nbName v), JsonNumber (nbUidValidity v), JsonNumber (nbUidNext v),
                JsonNumber (nbMessages v), JsonNumber (nbUnseen v)]"

definition mailboxFingerprint :: "(number \<Rightarrow> jsstring) \<Rightarrow> NativeMailboxDto list \<Rightarrow> jsstring" where
  "mailboxFingerprint other values = json_text other (JsonArray (map mailbox_status values))"

text \<open>The first message that is not older comes first; equal dates compare the identifiers.\<close>

definition uid_difference :: "number \<Rightarrow> number \<Rightarrow> int" where
  "uid_difference a b = (if num_less a b then -1 else if num_less b a then 1 else 0)"

definition compareEmails ::
  "(jsstring \<Rightarrow> jsstring \<Rightarrow> int) \<Rightarrow> RemoteEmail \<Rightarrow> RemoteEmail \<Rightarrow> int throws" where
  "compareEmails lc left right =
     (let c = lc (rlReceivedAt right) (rlReceivedAt left) in
      if c \<noteq> 0 then Inr c
      else
        bindE (decodeImapEmailId (rlId right)) (\<lambda>r.
        bindE (decodeImapEmailId (rlId left)) (\<lambda>l.
        Inr (uid_difference (ieUid r) (ieUid l)))))"

section \<open>The session\<close>

datatype SyncPolicy = GenericImap | GmailDogfood

record 's ImapSession =
  imIpc :: "'s NativeMailIpcPort"
  imSessionId :: jsstring
  imAuthenticatedUser :: jsstring
  imSyncPolicy :: SyncPolicy
  imAccountId :: RemoteAccountId
  imLocale :: "jsstring \<Rightarrow> jsstring \<Rightarrow> int"
  imOther :: "number \<Rightarrow> jsstring"

definition imap_assertAccount :: "('s, 'x) ImapSession_scheme \<Rightarrow> RemoteAccountId \<Rightarrow> unit throws" where
  "imap_assertAccount im accountId =
     throw_if (accountId \<noteq> imAccountId im) (RemoteExn imap_invalidState) (Inr ())"

definition syncMailboxesForPolicy ::
  "('s, 'x) ImapSession_scheme \<Rightarrow> NativeMailboxDto list \<Rightarrow> NativeMailboxDto list" where
  "syncMailboxesForPolicy im values =
     (if imSyncPolicy im \<noteq> GmailDogfood then values
      else filter (\<lambda>v. roleFor (nbSpecialUse v) (nbName v) \<in>
                         {Some (js ''inbox''), Some (js ''sent''), Some (js ''trash'')}) values)"

definition listed_mailboxes ::
  "('s, 'x) ImapSession_scheme \<Rightarrow> ('s, thrown, NativeMailboxDto list) eff" where
  "listed_mailboxes im =
     bindM (ipListMailboxes (imIpc im) (imSessionId im)) (\<lambda>values.
     retM (syncMailboxesForPolicy im (sortMailboxes (imLocale im) values)))"

definition imap_target ::
  "('s, 'x) ImapSession_scheme \<Rightarrow> RemoteEmailId \<Rightarrow> NativeMessageRequest throws" where
  "imap_target im emailId =
     bindE (decodeImapEmailId emailId) (\<lambda>d.
     Inr \<lparr>nqSessionId = imSessionId im, nqMailbox = ieMailbox d,
          nqUidValidity = ieUidValidity d, nqUid = ieUid d\<rparr>)"

definition imap_syncIdentities ::
  "('s, 'x) ImapSession_scheme \<Rightarrow> RemoteAccountId \<Rightarrow> RemoteSyncState option \<Rightarrow>
   ('s, exn, (RemoteIdentity, RemoteIdentityId) RemoteCollectionSync) eff" where
  "imap_syncIdentities im accountId previousState =
     liftM
       (bindE (imap_assertAccount im accountId) (\<lambda>_.
        bindE (imapIdentityId (imAuthenticatedUser im)) (\<lambda>i.
        Inr (RemoteReplace
               (imap_state (imOther im) (js ''identity'')
                  (JsonArray [JsonString (imAuthenticatedUser im)]))
               [\<lparr>riId = i, riName = imAuthenticatedUser im, riEmail = imAuthenticatedUser im,
                 riReplyTo = None, riBcc = None\<rparr>]))))"

definition imap_syncMailboxes ::
  "('s, 'x) ImapSession_scheme \<Rightarrow> RemoteAccountId \<Rightarrow> RemoteSyncState option \<Rightarrow>
   ('s, exn, (RemoteMailbox, RemoteMailboxId) RemoteCollectionSync) eff" where
  "imap_syncMailboxes im accountId previousState =
     bindM (liftM (imap_assertAccount im accountId)) (\<lambda>_.
     native_try
       (bindM (listed_mailboxes im) (\<lambda>values.
        bindM (thrownE (map_mailboxes 0 values)) (\<lambda>snapshot.
        thrownE (validateRemoteCollectionSync
                   (RemoteReplace
                      (imap_state (imOther im) (js ''mailboxes'')
                         (JsonArray (map mailbox_status values))) snapshot) rmId)))))"

section \<open>Messages\<close>

fun snapshot_all ::
  "('s, 'x) ImapSession_scheme \<Rightarrow> NativeMailboxDto list \<Rightarrow>
   ('s, thrown, NativeMailboxSnapshotDto list) eff" where
  "snapshot_all im [] = retM []"
| "snapshot_all im (mbox # rest) =
     bindM (ipSnapshotMailbox (imIpc im) (imSessionId im) (nbName mbox)) (\<lambda>snapshot.
     bindM (snapshot_all im rest) (\<lambda>snapshots. retM (snapshot # snapshots)))"

definition record_state :: "NativeMessageMetadataDto \<Rightarrow> json" where
  "record_state v =
     JsonArray [JsonString (nmMailbox v), JsonNumber (nmUidValidity v), JsonNumber (nmUid v),
                JsonArray (map JsonString (sort_by unit_order (nmFlags v))),
                JsonString (nmInternalDate v), JsonNumber (nmSize v)]"

definition emails_state ::
  "('s, 'x) ImapSession_scheme \<Rightarrow> NativeMessageMetadataDto list \<Rightarrow> RemoteSyncState" where
  "emails_state im records =
     imap_state (imOther im) (js ''emails'')
       (JsonArray (sort_by (\<lambda>left right. imLocale im (json_text (imOther im) left)
                                             (json_text (imOther im) right))
                           (map record_state records)))"

definition syncEmailsAttempt ::
  "('s, 'x) ImapSession_scheme \<Rightarrow>
   ('s, thrown, (RemoteEmail, RemoteEmailId) RemoteCollectionSync) eff" where
  "syncEmailsAttempt im =
     bindM (listed_mailboxes im) (\<lambda>initialMailboxes.
     bindM (snapshot_all im initialMailboxes) (\<lambda>snapshots.
     bindM (listed_mailboxes im) (\<lambda>finalMailboxes.
     let snapshotMailboxes = sortMailboxes (imLocale im) (map nsMailbox snapshots);
         initialFingerprint = mailboxFingerprint (imOther im) initialMailboxes;
         records = concat (map nsMessages snapshots) in
     if initialFingerprint \<noteq> mailboxFingerprint (imOther im) snapshotMailboxes \<or>
        initialFingerprint \<noteq> mailboxFingerprint (imOther im) finalMailboxes
     then throwM (ThrownExn (RemoteExn snapshotConflict))
     else
       bindM (thrownE (mapE mapNativeEmail records)) (\<lambda>snapshot.
       thrownE (validateRemoteCollectionSync
                  (RemoteReplace (emails_state im records) snapshot) rlId)))))"

text \<open>The loop of two attempts: the first retries a conflict that is safe to repeat at once.\<close>

fun syncEmails_loop ::
  "nat \<Rightarrow> ('s, 'x) ImapSession_scheme \<Rightarrow> nat \<Rightarrow>
   ('s, exn, (RemoteEmail, RemoteEmailId) RemoteCollectionSync) eff" where
  "syncEmails_loop 0 im attempt = throwM (RemoteExn snapshotConflict)"
| "syncEmails_loop (Suc n) im attempt =
     tryM (native_try (syncEmailsAttempt im)) (\<lambda>err.
       case err of
         RemoteExn e \<Rightarrow>
           if attempt = 0 \<and> reKind e = KConflict \<and> reRetry e = RSafeImmediate
           then syncEmails_loop n im (attempt + 1)
           else throwM err
       | _ \<Rightarrow> throwM err)"

definition imap_syncEmails ::
  "('s, 'x) ImapSession_scheme \<Rightarrow> RemoteAccountId \<Rightarrow> RemoteSyncState option \<Rightarrow>
   ('s, exn, (RemoteEmail, RemoteEmailId) RemoteCollectionSync) eff" where
  "imap_syncEmails im accountId previousState =
     bindM (liftM (imap_assertAccount im accountId)) (\<lambda>_. syncEmails_loop 2 im 0)"

section \<open>Queries\<close>

fun find_index :: "('a \<Rightarrow> bool) \<Rightarrow> 'a list \<Rightarrow> int" where
  "find_index P [] = -1"
| "find_index P (x # xs) =
     (if P x then 0 else let i = find_index P xs in if i = -1 then -1 else i + 1)"

definition query_position ::
  "jsstring \<Rightarrow> RemoteEmail list \<Rightarrow> RemoteQueryOptions \<Rightarrow> number throws" where
  "query_position mbox emails options =
     (let requested = (case roPosition options of None \<Rightarrow> JInt 0 | Some n \<Rightarrow> n) in
      throw_if (\<not> isSafeInteger requested \<or> num_less requested (JInt 0))
        (RemoteExn imap_unsupported)
      (case roAnchor options of
         None \<Rightarrow> Inr requested
       | Some a \<Rightarrow>
           bindE (decodeImapEmailId a) (\<lambda>anchor.
           throw_if (ieMailbox anchor \<noteq> mbox) (RemoteExn imap_invalidState)
           (let index = find_index (\<lambda>email. rlId email = a) emails in
            throw_if (index < 0) (RemoteExn imap_invalidState)
            (Inr (math_max0 (num_add (JInt index)
                    (case roAnchorOffset options of None \<Rightarrow> JInt 0 | Some n \<Rightarrow> n))))))))"

definition query_state :: "('s, 'x) ImapSession_scheme \<Rightarrow> NativeMessageMetadataDto list \<Rightarrow> RemoteSyncState" where
  "query_state im messages =
     imap_state (imOther im) (js ''query'')
       (JsonArray (map (\<lambda>v. JsonArray [JsonNumber (nmUidValidity v), JsonNumber (nmUid v),
                                       JsonString (nmInternalDate v)]) messages))"

text \<open>What the query answers from the messages of the mailbox.\<close>

definition query_answer ::
  "('s, 'x) ImapSession_scheme \<Rightarrow> jsstring \<Rightarrow> NativeMessageMetadataDto list \<Rightarrow>
   RemoteQueryOptions \<Rightarrow> RemoteMailboxQuery throws" where
  "query_answer im mbox messages options =
     bindE (mapE mapNativeEmail messages) (\<lambda>unsorted.
     bindE (sortE (compareEmails (imLocale im)) unsorted) (\<lambda>emails.
     bindE (query_position mbox emails options) (\<lambda>position.
     let limit = (case roLimit options of None \<Rightarrow> JInt 500 | Some n \<Rightarrow> n) in
     throw_if (\<not> isSafeInteger limit \<or> num_less limit (JInt 0)) (RemoteExn imap_unsupported)
     (Inr \<lparr>rqIds = map rlId (js_slice emails position (num_add position limit)),
           rqQueryState = query_state im messages, rqTotal = JInt (int (length emails)),
           rqPosition = position, rqCanCalculateChanges = False\<rparr>))))"

definition no_options :: RemoteQueryOptions where
  "no_options = \<lparr>roPosition = None, roLimit = None, roAnchor = None, roAnchorOffset = None\<rparr>"

text \<open>A filter that is null or undefined is no filter.\<close>

definition imap_queryMailbox ::
  "('s, 'x) ImapSession_scheme \<Rightarrow> RemoteAccountId \<Rightarrow> RemoteMailboxId \<Rightarrow> 'f option \<Rightarrow>
   RemoteQueryOptions option \<Rightarrow> ('s, exn, RemoteMailboxQuery) eff" where
  "imap_queryMailbox im accountId mailboxId filt options =
     bindM (liftM (imap_assertAccount im accountId)) (\<lambda>_.
     if filt \<noteq> None then throwM (RemoteExn imap_unsupported)
     else native_try
       (bindM (thrownE (decodeImapMailboxId mailboxId)) (\<lambda>mbox.
        bindM (ipSnapshotMailbox (imIpc im) (imSessionId im) mbox) (\<lambda>snapshot.
        thrownE (query_answer im mbox (nsMessages snapshot)
                   (case options of None \<Rightarrow> no_options | Some opts \<Rightarrow> opts))))))"

section \<open>Bodies and changes\<close>

definition imap_fetchBody ::
  "('s, 'x) ImapSession_scheme \<Rightarrow> RemoteAccountId \<Rightarrow> RemoteEmailId \<Rightarrow> ('s, exn, RemoteBody) eff" where
  "imap_fetchBody im accountId emailId =
     bindM (liftM (imap_assertAccount im accountId)) (\<lambda>_.
     native_try
       (bindM (thrownE (imap_target im emailId)) (\<lambda>target.
        bindM (ipFetchBody (imIpc im) target) (\<lambda>body.
        retM (case body of
                NativePlain t h \<Rightarrow> RemotePlain t h
              | NativeBoxplotE2ee payload \<Rightarrow> RemoteBoxplotE2ee payload)))))"

definition imap_fetchAttachments ::
  "('s, 'x) ImapSession_scheme \<Rightarrow> RemoteAccountId \<Rightarrow> RemoteEmailId \<Rightarrow>
   ('s, exn, RemoteAttachment list) eff" where
  "imap_fetchAttachments im accountId emailId =
     bindM (liftM (imap_assertAccount im accountId)) (\<lambda>_.
     native_try
       (bindM (thrownE (imap_target im emailId)) (\<lambda>target.
        bindM (ipFetchAttachments (imIpc im) target) (\<lambda>values.
        thrownE (mapE (mapNativeAttachment emailId) values)))))"

definition keyword_flag :: "jsstring \<Rightarrow> NativeFlag throws" where
  "keyword_flag val =
     (if val = js ''$seen'' then Inr FlagSeen
      else if val = js ''$flagged'' then Inr FlagFlagged
      else Inl (RemoteExn imap_unsupported))"

definition imap_applyKeywordChange ::
  "('s, 'x) ImapSession_scheme \<Rightarrow> RemoteAccountId \<Rightarrow> RemoteEmailId \<Rightarrow> RemoteKeywordChange \<Rightarrow>
   ('s, exn, unit) eff" where
  "imap_applyKeywordChange im accountId emailId change =
     bindM (liftM (imap_assertAccount im accountId)) (\<lambda>_.
     bindM (liftM (mapE keyword_flag (rkAdd change))) (\<lambda>add.
     bindM (liftM (mapE keyword_flag (rkRemove change))) (\<lambda>remove.
     native_try
       (bindM (thrownE (imap_target im emailId)) (\<lambda>t.
        ipStoreFlags (imIpc im) (NativeMessageRequest.extend t \<lparr>nqAdd = add, nqRemove = remove\<rparr>))))))"

definition imap_applyMembershipChange ::
  "('s, 'x) ImapSession_scheme \<Rightarrow> RemoteAccountId \<Rightarrow> RemoteEmailId \<Rightarrow> RemoteMembershipChange \<Rightarrow>
   ('s, exn, unit) eff" where
  "imap_applyMembershipChange im accountId emailId change =
     bindM (liftM (imap_assertAccount im accountId)) (\<lambda>_.
     if rbAdd change = [] \<and> rbRemove change = [] then retM ()
     else
       bindM (liftM (decodeImapEmailId emailId)) (\<lambda>source.
       case (rbAdd change, rbRemove change) of
         ([destination], [origin]) \<Rightarrow>
           bindM (liftM (decodeImapMailboxId origin)) (\<lambda>name.
           if name \<noteq> ieMailbox source then throwM (RemoteExn imap_unsupported)
           else native_try
             (bindM (thrownE (imap_target im emailId)) (\<lambda>t.
              bindM (thrownE (decodeImapMailboxId destination)) (\<lambda>box.
              bindM (ipMove (imIpc im)
                       (NativeMessageRequest.extend t \<lparr>nqDestinationMailbox = box\<rparr>)) (\<lambda>_. retM ())))))
       | _ \<Rightarrow> throwM (RemoteExn imap_unsupported)))"

definition ImapRemoteMail :: "('s, 'x) ImapSession_scheme \<Rightarrow> ('s, 'f) RemoteMail" where
  "ImapRemoteMail im =
     \<lparr>mlSyncIdentities = imap_syncIdentities im, mlSyncMailboxes = imap_syncMailboxes im,
      mlSyncEmails = imap_syncEmails im, mlQueryMailbox = imap_queryMailbox im,
      mlFetchBody = imap_fetchBody im, mlFetchAttachments = imap_fetchAttachments im,
      mlApplyKeywordChange = imap_applyKeywordChange im,
      mlApplyMembershipChange = imap_applyMembershipChange im\<rparr>"

end
