(* ===== verification/Native_Connections.thy ===== *)
theory Native_Connections
  imports Imap_Mail
begin

text \<open>
  \<open>src/src/remote/imap/imap-mutation-reconciler.ts\<close>, \<open>remote/smtp/smtp-submission.ts\<close>, and the
  connections and the OAuth broker of \<open>remote/native/*.ts\<close>. A private mutable field of an object
  is a \<open>cell\<close> of the world.
\<close>

section \<open>Reconciliation of sends\<close>

definition smtpMessageId :: "jsstring \<Rightarrow> jsstring" where
  "smtpMessageId idempotencyKey =
     js ''<boxplot.'' @ imap_encode idempotencyKey @ js ''@boxplot.invalid>''"

definition account_mismatch :: RemoteError where
  "account_mismatch =
     \<lparr>reKind = KStateInvalid, reRetry = RNever, reSession = SKeep, reOutcome = OKnownNotApplied\<rparr>"

definition reconciler_assertAccount :: "RemoteAccountId \<Rightarrow> RemoteAccountId \<Rightarrow> unit throws" where
  "reconciler_assertAccount own accountId =
     throw_if (accountId \<noteq> own) (RemoteExn account_mismatch) (Inr ())"

definition sent_mailboxes :: "NativeMailboxDto list \<Rightarrow> NativeMailboxDto list throws" where
  "sent_mailboxes mailboxes =
     bindE (map_mailboxes 0 mailboxes) (\<lambda>mapped.
     Inr (map fst (filter (\<lambda>(v, m). rmRole m = Some (js ''sent'')) (zip mailboxes mapped))))"

definition imap_reconcileSend ::
  "'s NativeMailIpcPort \<Rightarrow> jsstring \<Rightarrow> RemoteAccountId \<Rightarrow> RemoteSendReconciliationRequest \<Rightarrow>
   ('s, exn, RemoteMutationEvidence) eff" where
  "imap_reconcileSend ipc session own request =
     bindM (liftM (reconciler_assertAccount own (srqRemoteAccountId request))) (\<lambda>_.
     native_try
       (bindM (ipListMailboxes ipc session) (\<lambda>mailboxes.
        bindM (thrownE (sent_mailboxes mailboxes)) (\<lambda>sent.
        case sent of
          [box] \<Rightarrow>
            bindM (ipFindMessageId ipc
                     \<lparr>nfSessionId = session, nfMailbox = nbName box,
                      nfMessageId = smtpMessageId (srqIdempotencyKey request)\<rparr>) (\<lambda>result.
            case result of
              NativeFound e \<Rightarrow>
                bindM (thrownE (imapEmailId \<lparr>ieMailbox = fdMailbox e,
                                             ieUidValidity = fdUidValidity e, ieUid = fdUid e\<rparr>))
                  (\<lambda>i. retM (EvidenceApplied i))
            | _ \<Rightarrow> retM inconclusiveRemoteMutationEvidence)
        | _ \<Rightarrow> retM inconclusiveRemoteMutationEvidence))))"

definition imap_reconcileMembership ::
  "RemoteAccountId \<Rightarrow> RemoteMembershipReconciliationRequest \<Rightarrow>
   ('s, exn, RemoteMutationEvidence) eff" where
  "imap_reconcileMembership own request =
     bindM (liftM (reconciler_assertAccount own (mrqRemoteAccountId request))) (\<lambda>_.
     retM inconclusiveRemoteMutationEvidence)"

definition ImapMutationReconciler ::
  "'s NativeMailIpcPort \<Rightarrow> jsstring \<Rightarrow> RemoteAccountId \<Rightarrow> 's RemoteMutationReconciler" where
  "ImapMutationReconciler ipc session own =
     \<lparr>rrSend = imap_reconcileSend ipc session own, rrMembership = imap_reconcileMembership own\<rparr>"

section \<open>Submission\<close>

definition smtp_address :: "NativeAddressDto \<Rightarrow> NativeAddressDto" where
  "smtp_address v = \<lparr>adName = adName v, adEmail = adEmail v\<rparr>"

definition SmtpSubmission ::
  "'s NativeMailIpcPort \<Rightarrow> jsstring \<Rightarrow> RemoteAccountId \<Rightarrow> 's Submission" where
  "SmtpSubmission ipc session own message idempotencyKey =
     (if smRemoteAccountId message \<noteq> own then throwM (RemoteExn account_mismatch)
      else native_try
        (bindM (ipSmtpSubmit ipc
                  \<lparr>nuSessionId = session, nuFrom = smtp_address (smFrom message),
                   nuTo = map smtp_address (smTo message), nuCc = map smtp_address (smCc message),
                   nuBcc = map smtp_address (smBcc message),
                   nuReplyTo = map smtp_address (smReplyTo message),
                   nuSubject = smSubject message, nuBody = smBody message,
                   nuIdempotencyKey = idempotencyKey\<rparr>) (\<lambda>receipt.
         retM \<lparr>srRemoteEmailId = None, srReceiptId = Some receipt\<rparr>)))"

section \<open>Connections\<close>

record ImapSmtpConfig =
  icHost :: jsstring
  icUsername :: jsstring
  icPassword :: jsstring
  icImapPort :: number
  icSmtpPort :: number

record GmailConfig =
  gcUsername :: jsstring
  gcCredentialRef :: jsstring

text \<open>What the runtime lends the mail adapter: the host's \<open>localeCompare\<close> and number text.\<close>

record HostText =
  htLocale :: "jsstring \<Rightarrow> jsstring \<Rightarrow> int"
  htOther :: "number \<Rightarrow> jsstring"

definition native_session_of ::
  "HostText \<Rightarrow> 's NativeMailIpcPort \<Rightarrow> SyncPolicy \<Rightarrow> NativeMailOpenResponse \<Rightarrow>
   ('s, exn, unit) eff \<Rightarrow> ('s, 'f) RemoteSession throws" where
  "native_session_of host ipc policy opened close =
     bindE (imapAccountId (nrAuthenticatedUser opened)) (\<lambda>accountId.
     Inr \<lparr>ssAccounts =
            [\<lparr>rdaId = accountId, rdaCapabilities = [js ''mail'', js ''submission'']\<rparr>],
          ssMail =
            ImapRemoteMail
              \<lparr>imIpc = ipc, imSessionId = nrSessionId opened,
               imAuthenticatedUser = nrAuthenticatedUser opened, imSyncPolicy = policy,
               imAccountId = accountId, imLocale = htLocale host, imOther = htOther host\<rparr>,
          ssSubmission = SmtpSubmission ipc (nrSessionId opened) accountId,
          ssReconciler = Some (ImapMutationReconciler ipc (nrSessionId opened) accountId),
          ssClose = close\<rparr>)"

text \<open>\<open>close\<close> acts once; the generic connection maps what the native close throws.\<close>

definition close_once ::
  "('s, bool) cell \<Rightarrow> ('s, exn, unit) eff \<Rightarrow> ('s, exn, unit) eff" where
  "close_once shut act =
     bindM (readM shut) (\<lambda>done_before.
     if done_before then retM () else bindM (assignM shut True) (\<lambda>_. act))"

definition raw_exn :: "thrown \<Rightarrow> exn" where
  "raw_exn e = (case e of ThrownExn x \<Rightarrow> x | _ \<Rightarrow> OtherExn (js ''native rejection''))"

definition raw_try :: "('s, thrown, 'a) eff \<Rightarrow> ('s, exn, 'a) eff" where
  "raw_try m s = (case m s of (Inl e, t) \<Rightarrow> (Inl (raw_exn e), t) | (Inr a, t) \<Rightarrow> (Inr a, t))"

definition ImapSmtpRemoteConnection_open ::
  "HostText \<Rightarrow> 's NativeMailIpcPort \<Rightarrow> ('s, ImapSmtpConfig option) cell \<Rightarrow> ('s, bool) cell \<Rightarrow>
   ('s, 'f) RemoteConnection" where
  "ImapSmtpRemoteConnection_open host ipc config shut =
     native_try
       (bindM (readM config) (\<lambda>current.
        case current of
          None \<Rightarrow> throwM (ThrownExn (TypeError (js ''Native mail connection is single-use'')))
        | Some c \<Rightarrow>
            bindM (assignM config None) (\<lambda>_.
            bindM (ipOpen ipc
                     \<lparr>noHost = icHost c, noUsername = icUsername c, noPassword = icPassword c,
                      noImapPort = icImapPort c, noSmtpPort = icSmtpPort c\<rparr>) (\<lambda>opened.
            bindM (assignM shut False) (\<lambda>_.
            thrownE (native_session_of host ipc GenericImap opened
                       (close_once shut (native_try (ipClose ipc (nrSessionId opened))))))))))"

definition GmailRemoteConnection_open ::
  "HostText \<Rightarrow> 's NativeMailIpcPort \<Rightarrow> ('s, GmailConfig option) cell \<Rightarrow> ('s, bool) cell \<Rightarrow>
   ('s, 'f) RemoteConnection" where
  "GmailRemoteConnection_open host ipc config shut =
     native_try
       (bindM (readM config) (\<lambda>current.
        case current of
          None \<Rightarrow> throwM (ThrownExn (TypeError (js ''Gmail connection is single-use'')))
        | Some c \<Rightarrow>
            bindM (assignM config None) (\<lambda>_.
            case ipOpenGoogle ipc of
              None \<Rightarrow> throwM (ThrownExn (TypeError (js ''Google native mail IPC unavailable'')))
            | Some openGoogle \<Rightarrow>
                bindM (openGoogle
                         \<lparr>ngUsername = gcUsername c, ngCredentialRef = gcCredentialRef c\<rparr>) (\<lambda>opened.
                bindM (assignM shut False) (\<lambda>_.
                thrownE (native_session_of host ipc GmailDogfood opened
                           (close_once shut (raw_try (ipClose ipc (nrSessionId opened))))))))))"

section \<open>The OAuth broker\<close>

definition google_authorize ::
  "'s NativeMailIpcPort \<Rightarrow> AccountKey \<Rightarrow> jsstring \<Rightarrow> ('s, thrown, jsstring) eff" where
  "google_authorize ipc ak username =
     (case ipAuthorizeGoogle ipc of
        None \<Rightarrow> throwM (ThrownExn (TypeError (js ''Google OAuth IPC unavailable'')))
      | Some authorize \<Rightarrow> authorize ak username)"

definition google_forget :: "'s NativeMailIpcPort \<Rightarrow> jsstring \<Rightarrow> ('s, thrown, unit) eff" where
  "google_forget ipc credentialRef =
     (case ipForgetGoogle ipc of
        None \<Rightarrow> throwM (ThrownExn (TypeError (js ''Google OAuth IPC unavailable'')))
      | Some forget \<Rightarrow> forget credentialRef)"

end
