(* ===== verification/Imap_Theorems.thy ===== *)
theory Imap_Theorems
  imports Native_Connections
begin

text \<open>
  What the IMAP adapter guarantees: a fingerprint identifies the statuses it was computed from,
  a successful synchronisation stands on two equal listings around its scan, a server that does
  not change is copied completely, and a query answers a window of the mailbox, newest first.
\<close>

section \<open>Fingerprints\<close>

definition count_number :: "number \<Rightarrow> bool" where
  "count_number n = (case n of JInt i \<Rightarrow> 0 \<le> i \<and> i \<le> 2 ^ 53 | _ \<Rightarrow> False)"

definition counted :: "NativeMailboxDto \<Rightarrow> bool" where
  "counted v \<longleftrightarrow> count_number (nbUidValidity v) \<and> count_number (nbUidNext v) \<and>
     count_number (nbMessages v) \<and> count_number (nbUnseen v)"

lemma quote_prefix:
  assumes "json_quote s @ r = json_quote t @ q"
  shows "s = t \<and> r = q"
proof -
  have "parse_chars (quote_units s @ 34 # r) = parse_chars (quote_units t @ 34 # q)"
    using assms by (simp add: json_quote_def)
  then show ?thesis by (simp only: parse_quoted option.inject prod.inject)
qed

lemma number_prefix:
  assumes "count_number m" "count_number n" "\<not> is_digit c" "\<not> is_digit d"
    "number_text other m @ c # r = number_text other n @ d # q"
  shows "m = n \<and> c = d \<and> r = q"
proof -
  obtain i j where mn: "m = JInt i" "n = JInt j" "0 \<le> i" "i \<le> 2 ^ 53" "0 \<le> j" "j \<le> 2 ^ 53"
    using assms(1,2) by (cases m; cases n) (simp_all add: count_number_def)
  then have eq: "js_of_nat (nat i) @ c # r = js_of_nat (nat j) @ d # q"
    using assms(5) by (simp add: number_text_def)
  have run: "takeWhile is_digit (js_of_nat k @ e # s) = js_of_nat k"
    "dropWhile is_digit (js_of_nat k @ e # s) = e # s" if "\<not> is_digit e" for k e s
    using that js_of_nat_digits(1) [of k] by (simp_all add: list_all_iff)
  from arg_cong [OF eq, of "takeWhile is_digit"] have "nat i = nat j"
    by (simp add: run assms(3,4))
  moreover from arg_cong [OF eq, of "dropWhile is_digit"] have "c # r = d # q"
    by (simp add: run assms(3,4))
  ultimately show ?thesis using mn by simp
qed

lemma status_text:
  "json_text other (mailbox_status v) =
     91 # json_quote (nbName v) @ 44 # number_text other (nbUidValidity v) @
       44 # number_text other (nbUidNext v) @ 44 # number_text other (nbMessages v) @
       44 # number_text other (nbUnseen v) @ [93]"
  by (simp add: mailbox_status_def)

lemma status_prefix:
  assumes "counted v" "counted w"
    "json_text other (mailbox_status v) @ r = json_text other (mailbox_status w) @ q"
  shows "mailbox_status v = mailbox_status w \<and> r = q"
proof -
  have sep: "\<not> is_digit 44" "\<not> is_digit 93" by (simp_all add: is_digit_def)
  note step = number_prefix [OF _ _ sep(1) sep(1)] number_prefix [OF _ _ sep(2) sep(2)]
  from assms(3) have name: "nbName v = nbName w" and
    "44 # number_text other (nbUidValidity v) @ 44 # number_text other (nbUidNext v) @
       44 # number_text other (nbMessages v) @ 44 # number_text other (nbUnseen v) @ 93 # r =
     44 # number_text other (nbUidValidity w) @ 44 # number_text other (nbUidNext w) @
       44 # number_text other (nbMessages w) @ 44 # number_text other (nbUnseen w) @ 93 # q"
    unfolding status_text by (auto dest!: quote_prefix)
  then have 1: "number_text other (nbUidValidity v) @ 44 # number_text other (nbUidNext v) @
       44 # number_text other (nbMessages v) @ 44 # number_text other (nbUnseen v) @ 93 # r =
     number_text other (nbUidValidity w) @ 44 # number_text other (nbUidNext w) @
       44 # number_text other (nbMessages w) @ 44 # number_text other (nbUnseen w) @ 93 # q"
    by simp
  have c: "count_number (nbUidValidity v)" "count_number (nbUidValidity w)"
    "count_number (nbUidNext v)" "count_number (nbUidNext w)"
    "count_number (nbMessages v)" "count_number (nbMessages w)"
    "count_number (nbUnseen v)" "count_number (nbUnseen w)"
    using assms(1,2) by (simp_all add: counted_def)
  note a = step(1) [OF c(1,2) 1]
  note b = step(1) [OF c(3,4) conjunct2 [OF conjunct2 [OF a]]]
  note d = step(1) [OF c(5,6) conjunct2 [OF conjunct2 [OF b]]]
  note e = step(2) [OF c(7,8) conjunct2 [OF conjunct2 [OF d]]]
  show ?thesis using name a b d e by (simp add: mailbox_status_def)
qed

lemma statuses_prefix:
  assumes "list_all counted vs" "list_all counted ws"
    "join [44] (map (json_text other) (map mailbox_status vs)) @ 93 # r =
     join [44] (map (json_text other) (map mailbox_status ws)) @ 93 # q"
  shows "map mailbox_status vs = map mailbox_status ws"
  using assms
proof (induction vs arbitrary: ws)
  case Nil
  then show ?case
    by (cases ws; cases "tl ws") (auto simp: status_text)
next
  case (Cons v vs)
  obtain w us where ws: "ws = w # us"
    using Cons.prems by (cases ws; cases vs) (auto simp: status_text)
  let ?T = "\<lambda>v. json_text other (mailbox_status v)"
  have tail: "join [44] (map (json_text other) (map mailbox_status (x # xs))) @ 93 # r =
      ?T x @ (if xs = [] then 93 # r
              else 44 # join [44] (map (json_text other) (map mailbox_status xs)) @ 93 # r)"
    for x xs r by (cases xs) simp_all
  have cw: "counted v" "counted w" using Cons.prems(1,2) by (simp_all add: ws)
  from status_prefix [OF cw Cons.prems(3) [unfolded ws tail]]
  have head: "mailbox_status v = mailbox_status w" and
    rest: "(if vs = [] then 93 # r
        else 44 # join [44] (map (json_text other) (map mailbox_status vs)) @ 93 # r) =
      (if us = [] then 93 # q
        else 44 # join [44] (map (json_text other) (map mailbox_status us)) @ 93 # q)"
    by blast+
  have "map mailbox_status vs = map mailbox_status us"
  proof (cases "vs = [] \<or> us = []")
    case True
    with rest show ?thesis by (cases "vs = []"; cases "us = []") simp_all
  next
    case False
    with rest Cons.prems(1,2) show ?thesis by (intro Cons.IH) (simp_all add: ws)
  qed
  with head show ?case by (simp add: ws)
qed

lemma fingerprint_identifies:
  assumes "list_all counted vs" "list_all counted ws"
  shows "mailboxFingerprint other vs = mailboxFingerprint other ws \<longleftrightarrow>
    map mailbox_status vs = map mailbox_status ws"
proof
  assume "mailboxFingerprint other vs = mailboxFingerprint other ws"
  then have "join [44] (map (json_text other) (map mailbox_status vs)) @ 93 # [] =
      join [44] (map (json_text other) (map mailbox_status ws)) @ 93 # []"
    by (simp add: mailboxFingerprint_def)
  with assms show "map mailbox_status vs = map mailbox_status ws" by (rule statuses_prefix)
qed (simp add: mailboxFingerprint_def)

section \<open>A synchronisation stands on a stable scan\<close>

definition imap_scan ::
  "('s, 'x) ImapSession_scheme \<Rightarrow> 's \<Rightarrow> 's \<Rightarrow> NativeMailboxDto list \<Rightarrow>
   NativeMailboxSnapshotDto list \<Rightarrow> NativeMailboxDto list \<Rightarrow> bool" where
  "imap_scan im w v initial snaps closing \<longleftrightarrow>
     (\<exists>w1 w2. listed_mailboxes im w = (Inr initial, w1) \<and>
        snapshot_all im initial w1 = (Inr snaps, w2) \<and> listed_mailboxes im w2 = (Inr closing, v))"

text \<open>The native engine counts messages and assigns UIDs with non-negative integers.\<close>

definition counts :: "'s NativeMailIpcPort \<Rightarrow> bool" where
  "counts ipc \<longleftrightarrow>
     (\<forall>i w v ms. ipListMailboxes ipc i w = (Inr ms, v) \<longrightarrow> list_all counted ms) \<and>
     (\<forall>i m w v s. ipSnapshotMailbox ipc i m w = (Inr s, v) \<longrightarrow> counted (nsMailbox s))"

lemma policy_counted:
  "list_all counted ms \<Longrightarrow>
   list_all counted (syncMailboxesForPolicy im (sortMailboxes lc ms))"
  by (auto simp: list_all_iff syncMailboxesForPolicy_def sortMailboxes_def)

lemma listed_counted:
  "counts (imIpc im) \<Longrightarrow> listed_mailboxes im w = (Inr ms, v) \<Longrightarrow> list_all counted ms"
  by (auto simp: listed_mailboxes_def bindM_Inr_iff counts_def intro!: policy_counted)

lemma snapshots_counted:
  "counts (imIpc im) \<Longrightarrow> snapshot_all im ms w = (Inr snaps, v) \<Longrightarrow>
   list_all counted (map nsMailbox snaps)"
proof (induction ms arbitrary: w snaps)
  case (Cons m ms)
  from Cons.prems(2) obtain s rest w1 where parts: "snaps = s # rest"
    "ipSnapshotMailbox (imIpc im) (imSessionId im) (nbName m) w = (Inr s, w1)"
    "snapshot_all im ms w1 = (Inr rest, v)"
    by (auto simp: bindM_Inr_iff)
  with Cons.prems(1) have "counted (nsMailbox s)" unfolding counts_def by blast
  with Cons.IH [OF Cons.prems(1) parts(3)] parts(1) show ?case by simp
qed simp

lemma sortMailboxes_counted: "list_all counted ms \<Longrightarrow> list_all counted (sortMailboxes lc ms)"
  by (simp add: sortMailboxes_def list_all_iff)

lemma attempt_success:
  assumes "counts (imIpc im)" "syncEmailsAttempt im w = (Inr t, v)"
  obtains initial snaps closing emails where "imap_scan im w v initial snaps closing"
    "map mailbox_status closing = map mailbox_status initial"
    "map mailbox_status (sortMailboxes (imLocale im) (map nsMailbox snaps)) =
       map mailbox_status initial"
    "mapE mapNativeEmail (concat (map nsMessages snaps)) = Inr emails"
    "distinct (map rlId emails)"
    "t = RemoteReplace (emails_state im (concat (map nsMessages snaps))) emails"
proof -
  let ?fp = "mailboxFingerprint (imOther im)"
  from assms(2) obtain initial w1 snaps w2 closing where scan:
    "listed_mailboxes im w = (Inr initial, w1)" "snapshot_all im initial w1 = (Inr snaps, w2)"
    "listed_mailboxes im w2 = (Inr closing, v)"
    and same: "?fp initial = ?fp (sortMailboxes (imLocale im) (map nsMailbox snaps))"
      "?fp initial = ?fp closing"
    and out: "bindE (mapE mapNativeEmail (concat (map nsMessages snaps)))
        (\<lambda>emails. validateRemoteCollectionSync
           (RemoteReplace (emails_state im (concat (map nsMessages snaps))) emails) rlId) = Inr t"
    by (fastforce simp: syncEmailsAttempt_def bindM_Inr_iff Let_def bindE_Inr_iff split: if_splits)
  have counted: "list_all counted initial" "list_all counted closing"
    "list_all counted (sortMailboxes (imLocale im) (map nsMailbox snaps))"
    using listed_counted [OF assms(1)] snapshots_counted [OF assms(1)] sortMailboxes_counted
      scan by blast+
  from out obtain emails where emails: "mapE mapNativeEmail (concat (map nsMessages snaps)) = Inr emails"
    "distinct (map rlId emails)"
    "t = RemoteReplace (emails_state im (concat (map nsMessages snaps))) emails"
    by (auto simp: bindE_Inr_iff validateRemoteCollectionSync_def check_values_Inr)
  show ?thesis
  proof (rule that [OF _ _ _ emails])
    show "imap_scan im w v initial snaps closing" unfolding imap_scan_def using scan by blast
    show "map mailbox_status closing = map mailbox_status initial"
      using same(2) fingerprint_identifies [OF counted(1,2)] by simp
    show "map mailbox_status (sortMailboxes (imLocale im) (map nsMailbox snaps)) =
        map mailbox_status initial"
      using same(1) fingerprint_identifies [OF counted(1,3)] by simp
  qed
qed

text \<open>The two attempts: the second one starts where the first one failed.\<close>

definition retryable :: "thrown \<Rightarrow> bool" where
  "retryable e \<longleftrightarrow> reKind (toNativeRemoteError e) = KConflict \<and>
     reRetry (toNativeRemoteError e) = RSafeImmediate"

lemma two_attempts:
  "syncEmails_loop 2 im 0 w =
    (case syncEmailsAttempt im w of
       (Inr t, v) \<Rightarrow> (Inr t, v)
     | (Inl e, v) \<Rightarrow>
         if retryable e
         then (case syncEmailsAttempt im v of
                 (Inr t, u) \<Rightarrow> (Inr t, u)
               | (Inl e', u) \<Rightarrow> (Inl (RemoteExn (toNativeRemoteError e')), u))
         else (Inl (RemoteExn (toNativeRemoteError e)), v))"
  by (auto simp: numeral_2_eq_2 tryM_def native_try_def retryable_def throwM_def
      split: prod.splits sum.splits)

text \<open>C38: An e-mail synchronisation of an IMAP account that returns stands on one scan, the first
  or, after a conflict that is safe to repeat at once, the second: the mailboxes listed before
  it, those met while scanning and those listed after it have the same names, UID validities,
  next UIDs and counts; what is returned is the translation of exactly the messages scanned, in
  that order, under pairwise different identifiers, as a replacement of the collection.\<close>

theorem imap_sync_stable:
  assumes "counts (imIpc im)" "imap_syncEmails im accountId prev w = (Inr t, v)"
  shows "accountId = imAccountId im \<and>
    (\<exists>start initial snaps closing emails.
       (start = w \<or> (\<exists>e. syncEmailsAttempt im w = (Inl e, start) \<and> retryable e)) \<and>
       imap_scan im start v initial snaps closing \<and>
       map mailbox_status closing = map mailbox_status initial \<and>
       map mailbox_status (sortMailboxes (imLocale im) (map nsMailbox snaps)) =
         map mailbox_status initial \<and>
       mapE mapNativeEmail (concat (map nsMessages snaps)) = Inr emails \<and>
       distinct (map rlId emails) \<and>
       t = RemoteReplace (emails_state im (concat (map nsMessages snaps))) emails)"
proof -
  from assms(2) have acc: "accountId = imAccountId im" and
    loop: "syncEmails_loop 2 im 0 w = (Inr t, v)"
    by (auto simp: imap_syncEmails_def bindM_Inr_iff imap_assertAccount_def throw_if_def split: if_splits)
  obtain start where start: "start = w \<or> (\<exists>e. syncEmailsAttempt im w = (Inl e, start) \<and> retryable e)"
    and attempt: "syncEmailsAttempt im start = (Inr t, v)"
    using loop unfolding two_attempts by (auto split: prod.splits sum.splits if_splits)
  from attempt_success [OF assms(1) attempt] obtain initial snaps closing emails where
    "imap_scan im start v initial snaps closing"
    "map mailbox_status closing = map mailbox_status initial"
    "map mailbox_status (sortMailboxes (imLocale im) (map nsMailbox snaps)) =
       map mailbox_status initial"
    "mapE mapNativeEmail (concat (map nsMessages snaps)) = Inr emails"
    "distinct (map rlId emails)"
    "t = RemoteReplace (emails_state im (concat (map nsMessages snaps))) emails" .
  with acc start show ?thesis by blast
qed

section \<open>A server that does not change is copied\<close>

definition serves_mailboxes ::
  "'s NativeMailIpcPort \<Rightarrow> jsstring \<Rightarrow> NativeMailboxSnapshotDto list \<Rightarrow> bool" where
  "serves_mailboxes ipc session server \<longleftrightarrow>
     (\<forall>w. ipListMailboxes ipc session w = (Inr (map nsMailbox server), w)) \<and>
     (\<forall>s \<in> set server. \<forall>w. ipSnapshotMailbox ipc session (nbName (nsMailbox s)) w = (Inr s, w))"

definition visible_snapshots ::
  "('s, 'x) ImapSession_scheme \<Rightarrow> NativeMailboxSnapshotDto list \<Rightarrow> NativeMailboxSnapshotDto list" where
  "visible_snapshots im server =
     filter (\<lambda>s. imSyncPolicy im \<noteq> GmailDogfood \<or>
         roleFor (nbSpecialUse (nsMailbox s)) (nbName (nsMailbox s)) \<in>
           {Some (js ''inbox''), Some (js ''sent''), Some (js ''trash'')})
       (sort_by (\<lambda>a b. compare_mailboxes (imLocale im) (nsMailbox a) (nsMailbox b)) server)"

lemma compare_mailboxes_total:
  assumes "total_preorder lc"
  shows "total_preorder (compare_mailboxes lc)"
proof -
  have "compare_mailboxes lc =
      (\<lambda>x y. if mailbox_rank (nbName x) - mailbox_rank (nbName y) \<noteq> 0
             then mailbox_rank (nbName x) - mailbox_rank (nbName y) else lc (nbName x) (nbName y))"
    by (simp add: fun_eq_iff compare_mailboxes_def Let_def)
  with assms show ?thesis
    by (simp only: total_preorder_lexicographic total_preorder_diff total_preorder_image)
qed

lemma visible_listed:
  "map nsMailbox (visible_snapshots im server) =
     syncMailboxesForPolicy im (sortMailboxes (imLocale im) (map nsMailbox server))"
proof -
  have sorted: "map nsMailbox
      (sort_by (\<lambda>a b. compare_mailboxes (imLocale im) (nsMailbox a) (nsMailbox b)) server) =
      sortMailboxes (imLocale im) (map nsMailbox server)"
    unfolding sortMailboxes_def by (rule sort_by_map)
  show ?thesis
    by (simp add: visible_snapshots_def syncMailboxesForPolicy_def filter_map comp_def
        flip: sorted)
qed

lemma visible_sorted:
  assumes "total_preorder (imLocale im)"
  shows "sortMailboxes (imLocale im) (map nsMailbox (visible_snapshots im server)) =
    map nsMailbox (visible_snapshots im server)"
proof -
  have "sorted_wrt (\<lambda>x y. compare_mailboxes (imLocale im) x y \<le> 0)
      (syncMailboxesForPolicy im (sortMailboxes (imLocale im) (map nsMailbox server)))"
    unfolding syncMailboxesForPolicy_def sortMailboxes_def
    using sort_by_sorted [OF compare_mailboxes_total [OF assms], of "map nsMailbox server"]
    by (simp add: sorted_wrt_filter)
  then show ?thesis unfolding visible_listed sortMailboxes_def by (rule sort_by_id)
qed

lemma snapshot_all_served:
  assumes "serves_mailboxes (imIpc im) (imSessionId im) server" "set xs \<subseteq> set server"
  shows "snapshot_all im (map nsMailbox xs) w = (Inr xs, w)"
  using assms(2)
proof (induction xs)
  case (Cons x xs)
  with assms(1) show ?case by (simp add: bindM_def serves_mailboxes_def retM_def)
qed (simp add: retM_def)

lemma listed_served:
  assumes "serves_mailboxes (imIpc im) (imSessionId im) server"
  shows "listed_mailboxes im w = (Inr (map nsMailbox (visible_snapshots im server)), w)"
  using assms by (simp add: listed_mailboxes_def bindM_def serves_mailboxes_def retM_def visible_listed)

lemma mapE_email_error: "mapE mapNativeEmail ms = Inl e \<Longrightarrow> e = invalidId"
proof (induction ms)
  case (Cons m ms)
  have "mapNativeEmail m = Inl e \<Longrightarrow> e = invalidId" for e
    by (auto simp: mapNativeEmail_def bindE_def imapEmailId_eq imapBlobId_def imapThreadId_def
        imapMailboxId_def remote_id_defs remoteIdFromString_def js_def throw_if_def
        split: if_splits)
  with Cons show ?case by (auto simp: bindE_def split: sum.splits)
qed simp

definition copied_emails ::
  "('s, 'x) ImapSession_scheme \<Rightarrow> NativeMessageMetadataDto list \<Rightarrow>
   (RemoteEmail, RemoteEmailId) RemoteCollectionSync throws" where
  "copied_emails im records =
     (case mapE mapNativeEmail records of
        Inl e \<Rightarrow> Inl invalidId
      | Inr emails \<Rightarrow>
          if distinct (map rlId emails) then Inr (RemoteReplace (emails_state im records) emails)
          else Inl (RemoteExn native_unavailable))"

lemma attempt_served:
  assumes "total_preorder (imLocale im)" "serves_mailboxes (imIpc im) (imSessionId im) server"
  shows "\<exists>r. syncEmailsAttempt im w = (r, w) \<and>
    (case r of
       Inr t \<Rightarrow> copied_emails im (concat (map nsMessages (visible_snapshots im server))) = Inr t
     | Inl e \<Rightarrow> \<not> retryable e \<and>
         copied_emails im (concat (map nsMessages (visible_snapshots im server))) =
           Inl (RemoteExn (toNativeRemoteError e)))"
proof -
  let ?records = "concat (map nsMessages (visible_snapshots im server))"
  have sub: "set (visible_snapshots im server) \<subseteq> set server"
    by (auto simp: visible_snapshots_def)
  have run: "syncEmailsAttempt im w =
      bindM (thrownE (mapE mapNativeEmail ?records)) (\<lambda>snapshot.
        thrownE (validateRemoteCollectionSync
                   (RemoteReplace (emails_state im ?records) snapshot) rlId)) w"
    by (simp add: syncEmailsAttempt_def bindM_def [of "listed_mailboxes im"]
        bindM_def [of "snapshot_all im _"] listed_served [OF assms(2)]
        snapshot_all_served [OF assms(2) sub] visible_sorted [OF assms(1)] Let_def)
  show ?thesis
  proof (cases "mapE mapNativeEmail ?records")
    case (Inl e)
    then have "e = invalidId" by (rule mapE_email_error)
    with Inl show ?thesis
      by (simp add: run copied_emails_def throwM_def bindM_def invalidId_def retryable_def
          toNativeRemoteError_def)
  next
    case (Inr emails)
    then have body: "syncEmailsAttempt im w =
        thrownE (validateRemoteCollectionSync (RemoteReplace (emails_state im ?records) emails) rlId) w"
      by (simp add: run bindM_def retM_def)
    have check: "check_values rlId emails [] =
        (if distinct (map rlId emails) then Inr (fold set_add (map rlId emails) [])
         else check_values rlId emails [])"
      by (simp add: check_values_Inr)
    have type_error: "check_values rlId emails ids = Inl e \<Longrightarrow> \<exists>s. e = TypeError s" for ids e
      by (induction emails arbitrary: ids) (auto simp: throw_if_def split: if_splits)
    show ?thesis
    proof (cases "check_values rlId emails []")
      case (Inl e)
      then have "\<not> distinct (map rlId emails)" by (metis check_values_Inr check Inl_Inr_False)
      with Inl type_error [OF Inl] Inr show ?thesis
        by (auto simp: body validateRemoteCollectionSync_def copied_emails_def throwM_def
            retryable_def toNativeRemoteError_def native_unavailable_def)
    next
      case valid: (Inr ids)
      then have "distinct (map rlId emails)" by (simp add: check_values_Inr)
      with valid Inr show ?thesis
        by (simp add: body validateRemoteCollectionSync_def copied_emails_def retM_def)
    qed
  qed
qed

lemma sync_served:
  assumes "total_preorder (imLocale im)" "serves_mailboxes (imIpc im) (imSessionId im) server"
  shows "imap_syncEmails im (imAccountId im) prev w =
    (copied_emails im (concat (map nsMessages (visible_snapshots im server))), w)"
proof -
  from attempt_served [OF assms] obtain r where "syncEmailsAttempt im w = (r, w)"
    "case r of
       Inr t \<Rightarrow> copied_emails im (concat (map nsMessages (visible_snapshots im server))) = Inr t
     | Inl e \<Rightarrow> \<not> retryable e \<and>
         copied_emails im (concat (map nsMessages (visible_snapshots im server))) =
           Inl (RemoteExn (toNativeRemoteError e))"
    by blast
  then show ?thesis
    by (cases r) (simp_all add: imap_syncEmails_def imap_assertAccount_def bindM_def liftM_def
        two_attempts)
qed

text \<open>C39: Over a server that answers every listing and every mailbox in the same way, an e-mail
  synchronisation needs one attempt and returns the translation of all messages of all mailboxes
  the policy lets through, mailbox by mailbox in the order of the account, or fails without
  retrying: with the invalid-identity error when some message cannot be named, with the
  unavailable error when two messages get one identifier. It changes nothing.\<close>

theorem imap_sync_complete:
  assumes "total_preorder (imLocale im)" "serves_mailboxes (imIpc im) (imSessionId im) server"
  shows "imap_syncEmails im (imAccountId im) prev w =
    (copied_emails im (concat (map nsMessages (visible_snapshots im server))), w)"
  using assms by (rule sync_served)

section \<open>A query answers a window\<close>

definition email_uid :: "RemoteEmail \<Rightarrow> int" where
  "email_uid e =
     (case decodeImapEmailId (rlId e) of
        Inr d \<Rightarrow> (case ieUid d of JInt i \<Rightarrow> i | _ \<Rightarrow> 0)
      | Inl _ \<Rightarrow> 0)"

text \<open>Negative when the first e-mail comes first: a later date, then a larger UID.\<close>

definition newest_first :: "(jsstring \<Rightarrow> jsstring \<Rightarrow> int) \<Rightarrow> RemoteEmail \<Rightarrow> RemoteEmail \<Rightarrow> int" where
  "newest_first lc a b =
     (if lc (rlReceivedAt b) (rlReceivedAt a) \<noteq> 0 then lc (rlReceivedAt b) (rlReceivedAt a)
      else email_uid b - email_uid a)"

lemma newest_first_total:
  assumes "total_preorder lc"
  shows "total_preorder (newest_first lc)"
proof -
  have "total_preorder (\<lambda>a b. lc (rlReceivedAt b) (rlReceivedAt a))"
    by (rule total_preorder_image [OF total_preorder_converse [OF assms], of rlReceivedAt])
  moreover have "total_preorder (\<lambda>a b. email_uid b - email_uid a)"
    using total_preorder_diff [of "\<lambda>e. - email_uid e"] by simp
  ultimately show ?thesis
    unfolding newest_first_def [abs_def] by (rule total_preorder_lexicographic)
qed

lemma mapped_email_id:
  assumes "mapNativeEmail m = Inr e" "nmMailbox m \<noteq> []"
  shows "decodeImapEmailId (rlId e) =
      Inr \<lparr>ieMailbox = decoded_text (nmMailbox m), ieUidValidity = nmUidValidity m, ieUid = nmUid m\<rparr>"
    "nmUid m = JInt (email_uid e)"
proof -
  from assms(1) have i: "imapEmailId (message_location m) = Inr (rlId e)"
    by (auto simp: mapNativeEmail_def bindE_Inr_iff)
  then have "uid_number (nmUidValidity m)" "uid_number (nmUid m)"
    by (auto simp: imapEmailId_eq message_location_def split: if_splits)
  with i decodeImapEmailId_encoded [of "message_location m"] assms(2)
  show d: "decodeImapEmailId (rlId e) =
      Inr \<lparr>ieMailbox = decoded_text (nmMailbox m), ieUidValidity = nmUidValidity m, ieUid = nmUid m\<rparr>"
    by (simp add: message_location_def)
  show "nmUid m = JInt (email_uid e)"
    using \<open>uid_number (nmUid m)\<close> by (auto simp: email_uid_def d uid_number_def split: number.splits)
qed

lemma sgn_uid_difference: "uid_difference (JInt a) (JInt b) = sgn (a - b)"
  by (simp add: uid_difference_def sgn_if)

lemma insertE_sign:
  "\<forall>y \<in> set ys. \<exists>c. cmp x y = Inr c \<and> (c \<le> 0 \<longleftrightarrow> f x y \<le> 0) \<Longrightarrow>
   insertE cmp x ys = Inr (insert_by f x ys)"
  by (induction ys) auto

lemma sortE_sign:
  "\<forall>x \<in> set xs. \<forall>y \<in> set xs. \<exists>c. cmp x y = Inr c \<and> (c \<le> 0 \<longleftrightarrow> f x y \<le> 0) \<Longrightarrow>
   sortE cmp xs = Inr (sort_by f xs)"
proof (induction xs)
  case (Cons x xs)
  then have "sortE cmp xs = Inr (sort_by f xs)" by simp
  moreover have "insertE cmp x (sort_by f xs) = Inr (insert_by f x (sort_by f xs))"
    using Cons.prems by (intro insertE_sign) simp
  ultimately show ?case by (simp add: sort_by_def)
qed (simp add: sort_by_def)

lemma mapped_emails_sorted:
  assumes "mapE mapNativeEmail ms = Inr unsorted" "\<forall>m \<in> set ms. nmMailbox m \<noteq> []"
  shows "sortE (compareEmails lc) unsorted = Inr (sort_by (newest_first lc) unsorted)"
proof (rule sortE_sign, intro ballI)
  fix a b
  assume "a \<in> set unsorted" "b \<in> set unsorted"
  then obtain m n where mn: "m \<in> set ms" "mapNativeEmail m = Inr a" "n \<in> set ms" "mapNativeEmail n = Inr b"
    using mapE_in_set [OF assms(1)] by blast
  have named: "nmMailbox m \<noteq> []" "nmMailbox n \<noteq> []" using assms(2) mn(1,3) by blast+
  note A = mapped_email_id [OF mn(2) named(1)] and B = mapped_email_id [OF mn(4) named(2)]
  have "compareEmails lc a b =
      Inr (if lc (rlReceivedAt b) (rlReceivedAt a) \<noteq> 0 then lc (rlReceivedAt b) (rlReceivedAt a)
           else sgn (email_uid b - email_uid a))"
    by (simp add: compareEmails_def Let_def A(1) B(1)) (simp add: A(2) B(2) sgn_uid_difference)
  moreover have "sgn (email_uid b - email_uid a) \<le> 0 \<longleftrightarrow> email_uid b - email_uid a \<le> 0"
    by (simp add: sgn_if)
  ultimately show "\<exists>c. compareEmails lc a b = Inr c \<and> (c \<le> 0 \<longleftrightarrow> newest_first lc a b \<le> 0)"
    by (simp add: newest_first_def)
qed

lemma find_index_nth:
  "distinct (map f xs) \<Longrightarrow> k < length xs \<Longrightarrow> find_index (\<lambda>x. f x = f (xs ! k)) xs = int k"
proof (induction xs arbitrary: k)
  case (Cons x xs)
  show ?case
  proof (cases k)
    case (Suc j)
    with Cons have "f x \<noteq> f (xs ! j)" by auto
    moreover from Suc Cons have "find_index (\<lambda>y. f y = f (xs ! j)) xs = int j" by simp
    ultimately show ?thesis by (simp add: Suc)
  qed simp
qed simp

definition window_options ::
  "int \<Rightarrow> int \<Rightarrow> RemoteEmailId option \<Rightarrow> int \<Rightarrow> RemoteQueryOptions" where
  "window_options position limit anchor offset =
     \<lparr>roPosition = Some (JInt position), roLimit = Some (JInt limit), roAnchor = anchor,
      roAnchorOffset = Some (JInt offset)\<rparr>"

definition window_answer ::
  "('s, 'x) ImapSession_scheme \<Rightarrow> NativeMessageMetadataDto list \<Rightarrow> RemoteEmail list \<Rightarrow> int \<Rightarrow> int \<Rightarrow>
   RemoteMailboxQuery" where
  "window_answer im ms emails position limit =
     \<lparr>rqIds = map rlId (take (nat limit) (drop (nat position) emails)),
      rqQueryState = query_state im ms, rqTotal = JInt (int (length emails)),
      rqPosition = JInt position, rqCanCalculateChanges = False\<rparr>"

lemma slice_window:
  assumes "0 \<le> position" "0 \<le> limit" "position + limit \<le> 2 ^ 53"
  shows "js_slice xs (JInt position) (JInt (position + limit)) =
    take (nat limit) (drop (nat position) xs)"
  using js_slice_nat [of xs "nat position" "nat limit"] assms by simp

text \<open>A query of an IMAP mailbox answers a window of one list: all messages of the mailbox,
  sorted by received date, the latest first, and by UID, the largest first, where the dates are
  equal. Without an anchor the window starts at the requested position, with one at the place of
  the anchor moved by the offset, but not before the start; it holds at most the limit, and the
  total is the number of messages. A negative position or limit is refused as unsupported.\<close>

theorem imap_query_window:
  assumes "total_preorder (imLocale im)" "mapE mapNativeEmail ms = Inr unsorted"
    "\<forall>m \<in> set ms. nmMailbox m \<noteq> []" "0 \<le> limit" "0 \<le> position" "position + limit < 2 ^ 53"
  shows "\<exists>emails. mset emails = mset unsorted \<and>
    sorted_wrt (\<lambda>a b. newest_first (imLocale im) a b \<le> 0) emails \<and>
    query_answer im mbox ms (window_options position limit None offset) =
      Inr (window_answer im ms emails position limit) \<and>
    (\<forall>k < length emails. distinct (map rlId emails) \<longrightarrow>
       map_sum id ieMailbox (decodeImapEmailId (rlId (emails ! k))) = Inr mbox \<longrightarrow>
       \<bar>int k + offset\<bar> + limit \<le> 2 ^ 53 \<longrightarrow>
       query_answer im mbox ms (window_options position limit (Some (rlId (emails ! k))) offset) =
         Inr (window_answer im ms emails (max 0 (int k + offset)) limit)) \<and>
    (\<forall>p l a. p < 0 \<or> l < 0 \<longrightarrow> a = None \<longrightarrow>
       query_answer im mbox ms (window_options p l a offset) = Inl (RemoteExn imap_unsupported))"
proof -
  let ?emails = "sort_by (newest_first (imLocale im)) unsorted"
  note sorted = mapped_emails_sorted [OF assms(2,3), of "imLocale im"]
  have small: "position \<le> 2 ^ 53 - 1" "limit \<le> 2 ^ 53 - 1" using assms(4-6) by simp_all
  have plain: "query_answer im mbox ms (window_options position limit None offset) =
      Inr (window_answer im ms ?emails position limit)"
    using assms(4-6) small
    by (simp add: query_answer_def assms(2) sorted query_position_def window_options_def
        window_answer_def slice_window isSafeInteger_def throw_if_def)
  have anchored: "query_answer im mbox ms (window_options position limit (Some (rlId (?emails ! k))) offset) =
      Inr (window_answer im ms ?emails (max 0 (int k + offset)) limit)"
    if k: "k < length ?emails" "distinct (map rlId ?emails)"
      "map_sum id ieMailbox (decodeImapEmailId (rlId (?emails ! k))) = Inr mbox"
      "\<bar>int k + offset\<bar> + limit \<le> 2 ^ 53" for k
  proof -
    from k(3) obtain d where d: "decodeImapEmailId (rlId (?emails ! k)) = Inr d" "ieMailbox d = mbox"
      by (cases "decodeImapEmailId (rlId (?emails ! k))") auto
    have index: "find_index (\<lambda>e. rlId e = rlId (?emails ! k)) ?emails = int k"
      by (rule find_index_nth) (use k in simp_all)
    have sum: "num_add (JInt (int k)) (JInt offset) = JInt (int k + offset)"
      using k(4) assms(4) by simp
    have "math_max0 (JInt (int k + offset)) = JInt (max 0 (int k + offset))"
      by (simp add: math_max0_def max_def)
    then have pos: "query_position mbox ?emails
        (window_options position limit (Some (rlId (?emails ! k))) offset) =
        Inr (JInt (max 0 (int k + offset)))"
      using assms(5) small
      by (simp add: query_position_def window_options_def isSafeInteger_def throw_if_def d index sum
          del: num_add.simps)
    have "max 0 (int k + offset) + limit \<le> 2 ^ 53" using k(4) by linarith
    then show ?thesis
      using assms(4) small
      by (simp add: query_answer_def assms(2) sorted pos)
        (simp add: window_options_def window_answer_def slice_window isSafeInteger_def throw_if_def)
  qed
  have refused: "query_answer im mbox ms (window_options p l a offset) = Inl (RemoteExn imap_unsupported)"
    if "p < 0 \<or> l < 0" "a = None" for p l a
    using that by (auto simp: query_answer_def assms(2) sorted query_position_def window_options_def
        throw_if_def isSafeInteger_def bindE_def split: if_splits)
  show ?thesis
    using plain anchored refused sort_by_sorted [OF newest_first_total [OF assms(1)]]
    by (intro exI [of _ ?emails] conjI) auto
qed

section \<open>A sample server\<close>

definition sample_mailbox :: NativeMailboxDto where
  "sample_mailbox =
     \<lparr>nbName = js ''INBOX'', nbMessages = JInt 2, nbUnseen = JInt 1, nbUidValidity = JInt 7,
      nbUidNext = JInt 3, nbSpecialUse = None\<rparr>"

definition sample_message :: "jsstring \<Rightarrow> int \<Rightarrow> NativeMessageMetadataDto" where
  "sample_message date uid =
     \<lparr>nmMailbox = js ''INBOX'', nmUidValidity = JInt 7, nmUid = JInt uid, nmFlags = [],
      nmInternalDate = date, nmSize = JInt 10, nmSender = None, nmFrom = None, nmReplyTo = None,
      nmTo = None, nmCc = None, nmBcc = None, nmSubject = None, nmSentAt = None, nmPreview = [],
      nmHasAttachment = False\<rparr>"

definition sample_messages :: "NativeMessageMetadataDto list" where
  "sample_messages = [sample_message (js ''2024'') 1, sample_message (js ''2025'') 2]"

definition sample_snapshot :: NativeMailboxSnapshotDto where
  "sample_snapshot = \<lparr>nsMailbox = sample_mailbox, nsMessages = sample_messages\<rparr>"

definition sample_ipc :: "unit NativeMailIpcPort" where
  "sample_ipc =
     \<lparr>ipOpen = (\<lambda>_. throwM ThrownOther), ipAuthorizeGoogle = None, ipForgetGoogle = None,
      ipOpenGoogle = None, ipClose = (\<lambda>_. retM ()),
      ipListMailboxes = (\<lambda>_. retM [sample_mailbox]),
      ipSnapshotMailbox = (\<lambda>_ _. retM sample_snapshot),
      ipFetchBody = (\<lambda>_. throwM ThrownOther), ipFetchAttachments = (\<lambda>_. retM []),
      ipFindMessageId = (\<lambda>_. retM NativeNotFound), ipStoreFlags = (\<lambda>_. retM ()),
      ipMove = (\<lambda>_. throwM ThrownOther), ipSmtpSubmit = (\<lambda>_. throwM ThrownOther)\<rparr>"

definition sample_imap :: "unit ImapSession" where
  "sample_imap =
     \<lparr>imIpc = sample_ipc, imSessionId = js ''s'', imAuthenticatedUser = js ''u'',
      imSyncPolicy = GenericImap, imAccountId = js ''imap-account-v1:dQ'',
      imLocale = unit_order, imOther = (\<lambda>_. [])\<rparr>"

lemma sample_served: "serves_mailboxes (imIpc sample_imap) (imSessionId sample_imap) [sample_snapshot]"
  by (simp add: serves_mailboxes_def sample_imap_def sample_ipc_def sample_snapshot_def retM_def)

lemma sample_counts: "counts (imIpc sample_imap)"
  by (simp add: counts_def sample_imap_def sample_ipc_def sample_snapshot_def retM_def
      counted_def sample_mailbox_def count_number_def)

lemma sample_total: "total_preorder (imLocale sample_imap)"
  by (simp add: sample_imap_def unit_order_total)

lemma sample_visible:
  "concat (map nsMessages (visible_snapshots sample_imap [sample_snapshot])) = sample_messages"
  by (simp add: visible_snapshots_def sample_imap_def sort_by_def sample_snapshot_def)

lemma sample_emails:
  obtains e1 e2 where "mapE mapNativeEmail sample_messages = Inr [e1, e2]" "rlId e1 \<noteq> rlId e2"
proof -
  have one: "\<exists>e. mapNativeEmail (sample_message date uid) = Inr e \<and>
      rlId e = js ''imap-email-v1:'' @ imap_encode (js ''INBOX'') @ js '':'' @ js_of_nat 7 @
        js '':'' @ js_of_nat (nat uid)" if "0 < uid" "uid < 5" for date uid
    using that by (simp add: mapNativeEmail_def imapEmailId_eq message_location_def
        sample_message_def uid_number_def positive_string_def imapBlobId_def imapThreadId_def
        imapMailboxId_def remote_id_defs remoteIdFromString_def js_def throw_if_def)
  from one [of 1 "js ''2024''"] one [of 2 "js ''2025''"] obtain e1 e2 where
    "mapNativeEmail (sample_message (js ''2024'') 1) = Inr e1"
    "mapNativeEmail (sample_message (js ''2025'') 2) = Inr e2" "rlId e1 \<noteq> rlId e2"
    by auto
  then show ?thesis by (intro that [of e1 e2]) (simp_all add: sample_messages_def)
qed

lemma sample_copied: "\<exists>st es. copied_emails sample_imap sample_messages = Inr (RemoteReplace st es) \<and> length es = 2"
  by (rule sample_emails) (simp add: copied_emails_def)

lemma imap_sync_complete_witness:
  "\<exists>st es. imap_syncEmails sample_imap (imAccountId sample_imap) None () =
     (Inr (RemoteReplace st es), ()) \<and> length es = 2"
  using imap_sync_complete [OF sample_total sample_served, of None "()"] sample_copied
  by (auto simp: sample_visible)

lemma imap_sync_stable_witness:
  "\<exists>t v. imap_syncEmails sample_imap (imAccountId sample_imap) None () = (Inr t, v) \<and>
    (\<exists>start initial snaps closing emails.
       (start = () \<or> (\<exists>e. syncEmailsAttempt sample_imap () = (Inl e, start) \<and> retryable e)) \<and>
       imap_scan sample_imap start v initial snaps closing \<and>
       map mailbox_status closing = map mailbox_status initial \<and>
       mapE mapNativeEmail (concat (map nsMessages snaps)) = Inr emails \<and>
       distinct (map rlId emails))"
proof -
  obtain t where run: "imap_syncEmails sample_imap (imAccountId sample_imap) None () = (Inr t, ())"
    using sync_served [OF sample_total sample_served, of None "()"] sample_copied
    by (auto simp: sample_visible)
  from imap_sync_stable [OF sample_counts run] run show ?thesis by blast
qed

lemma imap_query_window_witness:
  "\<exists>emails. length emails = 2 \<and>
     sorted_wrt (\<lambda>a b. newest_first unit_order a b \<le> 0) emails \<and>
     query_answer sample_imap (js ''INBOX'') sample_messages (window_options 0 1 None 0) =
       Inr (window_answer sample_imap sample_messages emails 0 1)"
proof (rule sample_emails)
  fix e1 e2
  assume emails: "mapE mapNativeEmail sample_messages = Inr [e1, e2]"
  have "\<forall>m \<in> set sample_messages. nmMailbox m \<noteq> []"
    by (simp add: sample_messages_def sample_message_def js_def)
  from imap_query_window [OF sample_total emails this, of 1 0 "js ''INBOX''" 0]
  obtain es where "mset es = mset [e1, e2]"
    "sorted_wrt (\<lambda>a b. newest_first (imLocale sample_imap) a b \<le> 0) es"
    "query_answer sample_imap (js ''INBOX'') sample_messages (window_options 0 1 None 0) =
       Inr (window_answer sample_imap sample_messages es 0 1)"
    by auto
  moreover from this(1) have "length es = 2" by (metis length_Cons list.size(3) size_mset
      numeral_2_eq_2)
  ultimately show ?thesis by (auto simp: sample_imap_def)
qed

end
