(* ===== verification/Jmap_Client.thy ===== *)
theory Jmap_Client
  imports Remote_Ports JS_Values
begin

text \<open>
  \<open>src/src/jmap/errors.ts\<close>, \<open>jmap/types.ts\<close> and \<open>jmap/client.ts\<close>: the errors of the JMAP layer,
  its transfer objects and the port \<open>JmapClient\<close> over them. A record type
  \<open>Record<string, boolean>\<close> is the association list of its own properties.
\<close>

section \<open>Errors\<close>

text \<open>A method error has its method and its type; anything else is a program exception.\<close>

datatype jmap_error =
    JmapAuthError
  | JmapNetworkError
  | JmapSubmissionAmbiguousError
  | JmapMethodError jsstring jsstring
  | JmapOther exn

definition RETRYABLE_METHOD_ERROR_TYPES :: "jsstring list" where
  "RETRYABLE_METHOD_ERROR_TYPES =
     [js ''serverFail'', js ''serverPartialFail'', js ''serverUnavailable'', js ''rateLimited'',
      js ''networkOrServerFail'']"

definition isRetryable :: "jmap_error \<Rightarrow> bool" where
  "isRetryable err =
     (case err of
        JmapNetworkError \<Rightarrow> True
      | JmapMethodError _ t \<Rightarrow> List.member RETRYABLE_METHOD_ERROR_TYPES t
      | _ \<Rightarrow> False)"

text \<open>What a request of the third-party client rejects with: a \<open>JmapAuthError\<close>, or any other value
  with the status and the text the classifier reads off it.\<close>

datatype jam_rejection = JamAuth | JamRejected "number option" jsstring

fun js_includes :: "jsstring \<Rightarrow> jsstring \<Rightarrow> bool" where
  "js_includes [] t = (t = [])"
| "js_includes (c # cs) t = (js_startsWith (c # cs) t \<or> js_includes cs t)"

text \<open>\<open>(?:^|\D)(?:401|403)(?:\D|$)\<close>; the flag tells that the previous character is a digit.\<close>

fun status_code_in :: "bool \<Rightarrow> jsstring \<Rightarrow> bool" where
  "status_code_in prev [] = False"
| "status_code_in prev (c # cs) =
     (\<not> prev \<and> (js_startsWith (c # cs) (js ''401'') \<or> js_startsWith (c # cs) (js ''403'')) \<and>
        (case drop 2 cs of [] \<Rightarrow> True | d # _ \<Rightarrow> \<not> is_digit d) \<or>
      status_code_in (is_digit c) cs)"

definition auth_detail :: "jsstring \<Rightarrow> bool" where
  "auth_detail detail =
     (let low = js_toLowerCase detail in
      status_code_in False detail \<or> js_includes low (js ''unauthorised'') \<or>
      js_includes low (js ''unauthorized'') \<or> js_includes low (js ''forbidden''))"

definition throwJmapRequestError :: "jsstring \<Rightarrow> jam_rejection \<Rightarrow> jmap_error" where
  "throwJmapRequestError method err =
     (case err of
        JamAuth \<Rightarrow> JmapAuthError
      | JamRejected code detail \<Rightarrow>
          if code = Some (JInt 401) \<or> code = Some (JInt 403) \<or> auth_detail detail
          then JmapAuthError
          else JmapMethodError method (js ''networkOrServerFail''))"

section \<open>Transfer objects\<close>

type_synonym JmapEmailAddress = EmailAddress
type_synonym JmapEmailAddressList = "JmapEmailAddress list option"

record JmapMailbox =
  jbId :: jsstring
  jbName :: jsstring
  jbParent :: "jsstring option"
  jbRole :: "jsstring option"
  jbSortOrder :: number
  jbTotalEmails :: number
  jbUnreadEmails :: number
  jbRights :: MailboxRights

record JmapMailboxesResult =
  jmMailboxes :: "JmapMailbox list"
  jmState :: jsstring

record JmapEmail =
  jeId :: jsstring
  jeBlobId :: jsstring
  jeThreadId :: jsstring
  jeSender :: JmapEmailAddressList
  jeFrom :: JmapEmailAddressList
  jeReplyTo :: JmapEmailAddressList
  jeTo :: JmapEmailAddressList
  jeCc :: JmapEmailAddressList
  jeBcc :: JmapEmailAddressList
  jeSubject :: "jsstring option"
  jeSentAt :: "jsstring option"
  jeReceivedAt :: jsstring
  jeSize :: number
  jePreview :: jsstring
  jeHasAttachment :: bool
  jeKeywords :: "(jsstring \<times> bool) list"
  jeMailboxIds :: "jsstring list"

record JmapEmailsResult =
  jlEmails :: "JmapEmail list"
  jlState :: jsstring

record JmapEmailBody =
  jyEmailId :: jsstring
  jyHtml :: "jsstring option"
  jyText :: "jsstring option"

record JmapAttachment =
  jaBlobId :: jsstring
  jaPartId :: "jsstring option"
  jaName :: "jsstring option"
  jaMediaType :: jsstring
  jaSize :: number
  jaDisposition :: "jsstring option"
  jaCid :: "jsstring option"

record JmapQueryResult =
  jqIds :: "jsstring list"
  jqQueryState :: jsstring
  jqTotal :: number
  jqPosition :: number
  jqCanCalculateChanges :: bool

record QueryOptions =
  joPosition :: "number option"
  joLimit :: "number option"
  joAnchor :: "jsstring option"
  joAnchorOffset :: "number option"

record JmapQueryChanges =
  jcAccountId :: jsstring
  jcOldQueryState :: jsstring
  jcNewQueryState :: jsstring
  jcAdded :: "(jsstring \<times> number) list"
  jcRemoved :: "jsstring list"
  jcTotal :: number

record JmapDelta =
  jdAccountId :: jsstring
  jdOldState :: jsstring
  jdNewState :: jsstring
  jdHasMoreChanges :: bool
  jdCreated :: "jsstring list"
  jdUpdated :: "jsstring list"
  jdDestroyed :: "jsstring list"

record JmapIdentity =
  jiId :: jsstring
  jiName :: jsstring
  jiEmail :: jsstring
  jiReplyTo :: JmapEmailAddressList
  jiBcc :: JmapEmailAddressList
  jiHtmlSignature :: jsstring
  jiTextSignature :: jsstring

record JmapIdentitiesResult =
  jzIdentities :: "JmapIdentity list"
  jzState :: jsstring

record JmapEmailDraft =
  jfFrom :: "JmapEmailAddress list"
  jfTo :: "JmapEmailAddress list"
  jfCc :: "JmapEmailAddress list"
  jfBcc :: "JmapEmailAddress list"
  jfReplyTo :: "JmapEmailAddress list"
  jfSubject :: jsstring
  jfTextBody :: "jsstring option"
  jfHtmlBody :: "jsstring option"

record JmapSession =
  jsApiUrl :: jsstring
  jsDownloadUrl :: jsstring
  jsUploadUrl :: jsstring
  jsEventSourceUrl :: jsstring
  jsWebSocketUrl :: "jsstring option"
  jsPrimaryAccounts :: "(jsstring \<times> jsstring) list"
  jsCapabilities :: "(jsstring \<times> json) list"

record JmapSubmitted =
  jtEmailId :: jsstring
  jtSubmissionId :: jsstring

section \<open>The port\<close>

record ('s, 'f) JmapClient =
  jxOpenSession :: "('s, jmap_error, JmapSession) eff"
  jxGetMailboxes :: "jsstring \<Rightarrow> ('s, jmap_error, JmapMailboxesResult) eff"
  jxGetIdentities :: "jsstring \<Rightarrow> ('s, jmap_error, JmapIdentitiesResult) eff"
  jxQueryEmails ::
    "jsstring \<Rightarrow> jsstring \<Rightarrow> 'f option \<Rightarrow> QueryOptions option \<Rightarrow> ('s, jmap_error, JmapQueryResult) eff"
  jxGetEmails :: "jsstring \<Rightarrow> jsstring list \<Rightarrow> ('s, jmap_error, JmapEmailsResult) eff"
  jxGetEmailChanges :: "jsstring \<Rightarrow> jsstring \<Rightarrow> ('s, jmap_error, JmapDelta) eff"
  jxGetEmailQueryChanges ::
    "jsstring \<Rightarrow> jsstring \<Rightarrow> jsstring \<Rightarrow> ('s, jmap_error, JmapQueryChanges) eff"
  jxGetEmailBody :: "jsstring \<Rightarrow> jsstring \<Rightarrow> ('s, jmap_error, JmapEmailBody) eff"
  jxGetEmailAttachments :: "jsstring \<Rightarrow> jsstring \<Rightarrow> ('s, jmap_error, JmapAttachment list) eff"
  jxUpdateEmailKeywords ::
    "jsstring \<Rightarrow> jsstring \<Rightarrow> (jsstring \<times> bool) list \<Rightarrow> ('s, jmap_error, unit) eff"
  jxUpdateEmailMailboxes ::
    "jsstring \<Rightarrow> jsstring \<Rightarrow> (jsstring \<times> bool) list \<Rightarrow> ('s, jmap_error, unit) eff"
  jxSubmitEmail ::
    "jsstring \<Rightarrow> JmapEmailDraft \<Rightarrow> jsstring \<Rightarrow> ('s, jmap_error, JmapSubmitted) eff"

end
