(* ===== verification/Jmap_Remote.thy ===== *)
theory Jmap_Remote
  imports Jmap_Client
begin

text \<open>
  \<open>src/src/remote/jmap/*.ts\<close>: the remote contract over the JMAP port. The mappers, the error
  mapper, \<open>JmapRemoteMail\<close> with its paged snapshot and its paged delta, \<open>JmapSubmission\<close> and
  \<open>JmapRemoteConnection\<close>.
\<close>

section \<open>Errors\<close>

definition jmap_method_kind :: "jsstring \<Rightarrow> RemoteErrorKind" where
  "jmap_method_kind t =
     (if t = js ''rateLimited'' then KRateLimited
      else if t = js ''tooLarge'' then KTooLarge
      else if t = js ''cannotCalculateChanges'' \<or> t = js ''stateMismatch'' then KStateInvalid
      else if t = js ''serverUnavailable'' then KUnavailable
      else if isRetryable (JmapMethodError [] t) then KProtocol
      else KRejected)"

definition toRemoteError :: "jmap_error \<Rightarrow> OperationOutcome \<Rightarrow> RemoteError" where
  "toRemoteError err outcome =
     (case err of
        JmapOther (RemoteExn e) \<Rightarrow> e
      | JmapAuthError \<Rightarrow>
          \<lparr>reKind = KAuth, reRetry = RNever, reSession = SExpire, reOutcome = OKnownNotApplied\<rparr>
      | JmapSubmissionAmbiguousError \<Rightarrow>
          \<lparr>reKind = KNetwork, reRetry = RReconcile, reSession = SKeep, reOutcome = OUnknown\<rparr>
      | JmapNetworkError \<Rightarrow>
          \<lparr>reKind = KNetwork, reRetry = (if outcome = OUnknown then RReconcile else RSafeBackoff),
           reSession = SKeep, reOutcome = outcome\<rparr>
      | JmapMethodError _ t \<Rightarrow>
          \<lparr>reKind = jmap_method_kind t,
           reRetry = (if isRetryable err then RSafeBackoff else RNever), reSession = SKeep,
           reOutcome = outcome\<rparr>
      | JmapOther _ \<Rightarrow>
          \<lparr>reKind = KUnexpected, reRetry = (if outcome = OUnknown then RReconcile else RNever),
           reSession = SKeep, reOutcome = outcome\<rparr>)"

text \<open>\<open>try { ... } catch (error) { throw toRemoteError(error) }\<close>.\<close>

definition jmap_try :: "('s, jmap_error, 'a) eff \<Rightarrow> ('s, exn, 'a) eff" where
  "jmap_try m s =
     (case m s of
        (Inl e, t) \<Rightarrow> (Inl (RemoteExn (toRemoteError e OKnownNotApplied)), t)
      | (Inr a, t) \<Rightarrow> (Inr a, t))"

definition jmapE :: "'a throws \<Rightarrow> ('s, jmap_error, 'a) eff" where
  "jmapE r = liftM (case r of Inl e \<Rightarrow> Inl (JmapOther e) | Inr a \<Rightarrow> Inr a)"

definition jmap_fail :: "jsstring \<Rightarrow> ('s, jmap_error, 'a) eff" where
  "jmap_fail msg = throwM (JmapOther (Error msg))"

section \<open>Mappers\<close>

definition addressList :: "JmapEmailAddressList \<Rightarrow> RemoteAddressList" where
  "addressList v = map_option (map (\<lambda>a. \<lparr>adName = adName a, adEmail = adEmail a\<rparr>)) v"

definition mapJmapIdentity :: "JmapIdentity \<Rightarrow> RemoteIdentity throws" where
  "mapJmapIdentity v =
     bindE (remoteIdentityIdFromString (jiId v)) (\<lambda>i.
     Inr \<lparr>riId = i, riName = jiName v, riEmail = jiEmail v, riReplyTo = addressList (jiReplyTo v),
          riBcc = addressList (jiBcc v)\<rparr>)"

definition mapJmapMailbox :: "JmapMailbox \<Rightarrow> RemoteMailbox throws" where
  "mapJmapMailbox v =
     bindE (remoteMailboxIdFromString (jbId v)) (\<lambda>i.
     bindE (case jbParent v of
              None \<Rightarrow> Inr None
            | Some p \<Rightarrow> bindE (remoteMailboxIdFromString p) (\<lambda>q. Inr (Some q))) (\<lambda>parent.
     Inr \<lparr>rmId = i, rmName = jbName v, rmParent = parent, rmRole = jbRole v,
          rmSortOrder = jbSortOrder v, rmTotalEmails = jbTotalEmails v,
          rmUnreadEmails = jbUnreadEmails v, rmRights = jbRights v\<rparr>))"

definition mapJmapEmail :: "JmapEmail \<Rightarrow> RemoteEmail throws" where
  "mapJmapEmail v =
     bindE (remoteEmailIdFromString (jeId v)) (\<lambda>i.
     bindE (remoteBlobIdFromString (jeBlobId v)) (\<lambda>blob.
     bindE (remoteThreadIdFromString (jeThreadId v)) (\<lambda>thread.
     bindE (mapE remoteMailboxIdFromString (jeMailboxIds v)) (\<lambda>boxes.
     Inr \<lparr>rlId = i, rlBlobId = blob, rlThreadId = thread, rlSender = addressList (jeSender v),
          rlFrom = addressList (jeFrom v), rlReplyTo = addressList (jeReplyTo v),
          rlTo = addressList (jeTo v), rlCc = addressList (jeCc v), rlBcc = addressList (jeBcc v),
          rlSubject = jeSubject v, rlSentAt = jeSentAt v, rlReceivedAt = jeReceivedAt v,
          rlSize = jeSize v, rlPreview = jePreview v, rlHasAttachment = jeHasAttachment v,
          rlKeywords = set_of_list (map fst (filter snd (jeKeywords v))),
          rlMailboxIds = boxes\<rparr>))))"

definition mapJmapQuery :: "JmapQueryResult \<Rightarrow> RemoteMailboxQuery throws" where
  "mapJmapQuery v =
     bindE (mapE remoteEmailIdFromString (jqIds v)) (\<lambda>ids.
     Inr \<lparr>rqIds = ids, rqQueryState = remoteSyncStateFromString (jqQueryState v),
          rqTotal = jqTotal v, rqPosition = jqPosition v,
          rqCanCalculateChanges = jqCanCalculateChanges v\<rparr>)"

definition mapJmapAttachment :: "JmapAttachment \<Rightarrow> RemoteAttachment throws" where
  "mapJmapAttachment v =
     bindE (remoteBlobIdFromString (jaBlobId v)) (\<lambda>blob.
     Inr \<lparr>raBlobId = blob, raPartId = jaPartId v, raName = jaName v, raMediaType = jaMediaType v,
          raSize = jaSize v, raDisposition = jaDisposition v, raCid = jaCid v\<rparr>)"

section \<open>Fetching exactly some e-mails\<close>

definition PAGE_SIZE :: nat where "PAGE_SIZE = 500"
definition MAX_PAGES :: nat where "MAX_PAGES = 10000"
definition MAX_DELTA_PAGES :: nat where "MAX_DELTA_PAGES = 20"

function chunks :: "'a list \<Rightarrow> nat \<Rightarrow> 'a list list" where
  "chunks values n =
     (if values = [] \<or> n = 0 then [] else take n values # chunks (drop n values) n)"
  by pat_completeness auto
termination by (relation "measure (length \<circ> fst)") (auto simp: neq_Nil_conv)

declare chunks.simps [simp del]

text \<open>The e-mails of one answer: each must be expected, and be expected once.\<close>

fun take_expected :: "JmapEmail list \<Rightarrow> jsstring list \<Rightarrow> exn + jsstring list" where
  "take_expected [] expected = Inr expected"
| "take_expected (e # es) expected =
     throw_if (\<not> List.member expected (jeId e))
       (Error (js ''Email/get returned unexpected or duplicate '' @ jeId e))
       (take_expected es (set_delete (jeId e) expected))"

fun fetch_batches ::
  "('s, 'f) JmapClient \<Rightarrow> RemoteAccountId \<Rightarrow> bool \<Rightarrow> jsstring option \<Rightarrow> jsstring list list \<Rightarrow>
   ('s, jmap_error, JmapEmail list \<times> jsstring option) eff" where
  "fetch_batches client acc includeState state [] = retM ([], state)"
| "fetch_batches client acc includeState state (batch # rest) =
     bindM (jxGetEmails client acc batch) (\<lambda>result.
     let state' = (case state of None \<Rightarrow> jlState result | Some s \<Rightarrow> s) in
     if includeState \<and> jlState result \<noteq> state'
     then jmap_fail (js ''Email collection changed during replacement'')
     else
       bindM (jmapE (take_expected (jlEmails result) (set_of_list batch))) (\<lambda>left.
       if left \<noteq> [] then jmap_fail (js ''Email/get omitted a requested Email'')
       else
         bindM (fetch_batches client acc includeState (Some state') rest) (\<lambda>(emails, final_state).
         retM (jlEmails result @ emails, final_state))))"

definition fetchExactEmails ::
  "('s, 'f) JmapClient \<Rightarrow> RemoteAccountId \<Rightarrow> jsstring list \<Rightarrow> bool \<Rightarrow>
   ('s, jmap_error, JmapEmail list \<times> jsstring) eff" where
  "fetchExactEmails client acc ids includeState =
     bindM (fetch_batches client acc includeState None
              (if ids = [] then [[]] else chunks ids PAGE_SIZE)) (\<lambda>(emails, state).
     retM (emails, case state of None \<Rightarrow> [] | Some s \<Rightarrow> s))"

section \<open>The complete snapshot\<close>

text \<open>The identifiers of one page, none of which the mailbox may have listed before.\<close>

fun add_page ::
  "jsstring \<Rightarrow> jsstring list \<Rightarrow> jsstring list \<Rightarrow> jsstring list \<Rightarrow> exn + jsstring list \<times> jsstring list" where
  "add_page box [] mailboxIds ids = Inr (mailboxIds, ids)"
| "add_page box (i # is) mailboxIds ids =
     throw_if (List.member mailboxIds i)
       (Error (js ''Repeated Email '' @ i @ js '' in Mailbox '' @ box))
       (add_page box is (set_add i mailboxIds) (set_add i ids))"

text \<open>The pages of one mailbox from a position, as many as are left of the bound.\<close>

fun query_pages ::
  "nat \<Rightarrow> ('s, 'f) JmapClient \<Rightarrow> RemoteAccountId \<Rightarrow> jsstring \<Rightarrow> nat \<Rightarrow> number option \<Rightarrow>
   jsstring option \<Rightarrow> jsstring list \<Rightarrow> jsstring list \<Rightarrow> ('s, jmap_error, jsstring list) eff" where
  "query_pages 0 client acc box position tot queryState mailboxIds ids = retM ids"
| "query_pages (Suc n) client acc box position tot queryState mailboxIds ids =
     bindM (jxQueryEmails client acc box None
              (Some \<lparr>joPosition = Some (JInt (int position)),
                     joLimit = Some (JInt (int PAGE_SIZE)), joAnchor = None,
                     joAnchorOffset = None\<rparr>)) (\<lambda>query.
     if \<not> isSafeInteger (jqTotal query) \<or> num_less (jqTotal query) (JInt 0) \<or>
        jqPosition query \<noteq> JInt (int position) \<or> length (jqIds query) > PAGE_SIZE
     then jmap_fail (js ''Malformed query page for Mailbox '' @ box)
     else
       let tot' = (case tot of None \<Rightarrow> jqTotal query | Some t \<Rightarrow> t);
           queryState' = (case queryState of None \<Rightarrow> jqQueryState query | Some s \<Rightarrow> s) in
       if jqTotal query \<noteq> tot' \<or> jqQueryState query \<noteq> queryState'
       then jmap_fail (js ''Mailbox '' @ box @ js '' changed during replacement'')
       else
         bindM (jmapE (add_page box (jqIds query) mailboxIds ids)) (\<lambda>(mailboxIds', ids').
         let nextPosition = position + length (jqIds query) in
         if num_le (jqTotal query) (JInt (int nextPosition)) then retM ids'
         else if nextPosition \<le> position
         then jmap_fail (js ''Query made no progress for Mailbox '' @ box)
         else if n = 0 then jmap_fail (js ''Mailbox replacement exceeded safety bound'')
         else query_pages n client acc box nextPosition (Some tot') (Some queryState')
                mailboxIds' ids'))"

declare query_pages.simps(2) [simp del]

fun query_mailboxes ::
  "('s, 'f) JmapClient \<Rightarrow> RemoteAccountId \<Rightarrow> JmapMailbox list \<Rightarrow> jsstring list \<Rightarrow>
   ('s, jmap_error, jsstring list) eff" where
  "query_mailboxes client acc [] ids = retM ids"
| "query_mailboxes client acc (m # ms) ids =
     bindM (query_pages MAX_PAGES client acc (jbId m) 0 None None [] ids)
       (query_mailboxes client acc ms)"

definition snapshot_emails ::
  "('s, 'f) JmapClient \<Rightarrow> RemoteAccountId \<Rightarrow>
   ('s, jmap_error, (RemoteEmail, RemoteEmailId) RemoteCollectionSync) eff" where
  "snapshot_emails client acc =
     bindM (jxGetMailboxes client acc) (\<lambda>result.
     bindM (query_mailboxes client acc (jmMailboxes result) []) (\<lambda>ids.
     bindM (fetchExactEmails client acc ids True) (\<lambda>(emails, state).
     bindM (jmapE (mapE mapJmapEmail emails)) (\<lambda>snapshot.
     jmapE (validateRemoteCollectionSync
              (RemoteReplace (remoteSyncStateFromString state) snapshot) rlId)))))"

definition completeEmailSnapshot ::
  "('s, 'f) JmapClient \<Rightarrow> RemoteAccountId \<Rightarrow>
   ('s, exn, (RemoteEmail, RemoteEmailId) RemoteCollectionSync) eff" where
  "completeEmailSnapshot client acc = jmap_try (snapshot_emails client acc)"

section \<open>Deltas\<close>

definition note_delta ::
  "JmapDelta \<Rightarrow> jsstring list \<times> jsstring list \<Rightarrow> jsstring list \<times> jsstring list" where
  "note_delta delta sets =
     (case sets of (changed, destroyed) \<Rightarrow>
        fold (\<lambda>i (c, d). (set_delete i c, set_add i d)) (jdDestroyed delta)
          (fold set_add (jdCreated delta @ jdUpdated delta) changed, destroyed))"

definition too_many_pages :: RemoteError where
  "too_many_pages =
     \<lparr>reKind = KProtocol, reRetry = RSafeBackoff, reSession = SKeep, reOutcome = OKnownNotApplied\<rparr>"

fun delta_pages ::
  "nat \<Rightarrow> ('s, 'f) JmapClient \<Rightarrow> RemoteAccountId \<Rightarrow> jsstring \<Rightarrow> jsstring list \<times> jsstring list \<Rightarrow>
   ('s, jmap_error, (RemoteEmail, RemoteEmailId) RemoteCollectionSync) eff" where
  "delta_pages 0 client acc state sets = throwM (JmapOther (RemoteExn too_many_pages))"
| "delta_pages (Suc n) client acc state sets =
     bindM (jxGetEmailChanges client acc state) (\<lambda>delta.
     let sets' = note_delta delta sets; state' = jdNewState delta in
     if \<not> jdHasMoreChanges delta then
       bindM (fetchExactEmails client acc (fst sets') False) (\<lambda>(fetched, _).
       bindM (jmapE (mapE mapJmapEmail fetched)) (\<lambda>changed.
       bindM (jmapE (mapE remoteEmailIdFromString (snd sets'))) (\<lambda>destroyed.
       jmapE (validateRemoteCollectionSync
                (RemoteDelta (remoteSyncStateFromString state') changed destroyed) rlId))))
     else delta_pages n client acc state' sets')"

definition cannot_calculate :: "jmap_error \<Rightarrow> bool" where
  "cannot_calculate e =
     (case e of JmapMethodError _ t \<Rightarrow> t = js ''cannotCalculateChanges'' | _ \<Rightarrow> False)"

definition jmap_syncEmails ::
  "('s, 'f) JmapClient \<Rightarrow> RemoteAccountId \<Rightarrow> RemoteSyncState option \<Rightarrow>
   ('s, exn, (RemoteEmail, RemoteEmailId) RemoteCollectionSync) eff" where
  "jmap_syncEmails client acc previousState s =
     (case previousState of
        None \<Rightarrow> completeEmailSnapshot client acc s
      | Some state \<Rightarrow>
          (case delta_pages MAX_DELTA_PAGES client acc state ([], []) s of
             (Inr t, v) \<Rightarrow> (Inr t, v)
           | (Inl e, v) \<Rightarrow>
               if cannot_calculate e
               then completeEmailSnapshot client acc v
               else (Inl (RemoteExn (toRemoteError e OKnownNotApplied)), v)))"

section \<open>The other operations\<close>

definition jmap_syncIdentities ::
  "('s, 'f) JmapClient \<Rightarrow> RemoteAccountId \<Rightarrow> RemoteSyncState option \<Rightarrow>
   ('s, exn, (RemoteIdentity, RemoteIdentityId) RemoteCollectionSync) eff" where
  "jmap_syncIdentities client acc previousState =
     jmap_try
       (bindM (jxGetIdentities client acc) (\<lambda>result.
        bindM (jmapE (mapE mapJmapIdentity (jzIdentities result))) (\<lambda>snapshot.
        jmapE (validateRemoteCollectionSync
                 (RemoteReplace (remoteSyncStateFromString (jzState result)) snapshot) riId))))"

definition jmap_syncMailboxes ::
  "('s, 'f) JmapClient \<Rightarrow> RemoteAccountId \<Rightarrow> RemoteSyncState option \<Rightarrow>
   ('s, exn, (RemoteMailbox, RemoteMailboxId) RemoteCollectionSync) eff" where
  "jmap_syncMailboxes client acc previousState =
     jmap_try
       (bindM (jxGetMailboxes client acc) (\<lambda>result.
        bindM (jmapE (mapE mapJmapMailbox (jmMailboxes result))) (\<lambda>snapshot.
        jmapE (validateRemoteCollectionSync
                 (RemoteReplace (remoteSyncStateFromString (jmState result)) snapshot) rmId))))"

definition jmap_queryMailbox ::
  "('s, 'f) JmapClient \<Rightarrow> RemoteAccountId \<Rightarrow> RemoteMailboxId \<Rightarrow> 'f option \<Rightarrow>
   RemoteQueryOptions option \<Rightarrow> ('s, exn, RemoteMailboxQuery) eff" where
  "jmap_queryMailbox client acc mailboxId filt options =
     jmap_try
       (bindM (jxQueryEmails client acc mailboxId filt
                 (map_option (\<lambda>opts. \<lparr>joPosition = roPosition opts, joLimit = roLimit opts,
                                      joAnchor = roAnchor opts,
                                      joAnchorOffset = roAnchorOffset opts\<rparr>) options))
          (\<lambda>result. jmapE (mapJmapQuery result)))"

definition jmap_fetchBody ::
  "('s, 'f) JmapClient \<Rightarrow> RemoteAccountId \<Rightarrow> RemoteEmailId \<Rightarrow> ('s, exn, RemoteBody) eff" where
  "jmap_fetchBody client acc emailId =
     jmap_try (bindM (jxGetEmailBody client acc emailId) (\<lambda>body.
               retM (RemotePlain (jyText body) (jyHtml body))))"

definition jmap_fetchAttachments ::
  "('s, 'f) JmapClient \<Rightarrow> RemoteAccountId \<Rightarrow> RemoteEmailId \<Rightarrow> ('s, exn, RemoteAttachment list) eff" where
  "jmap_fetchAttachments client acc emailId =
     jmap_try (bindM (jxGetEmailAttachments client acc emailId) (\<lambda>values.
               jmapE (mapE mapJmapAttachment values)))"

definition patch_of :: "jsstring list \<Rightarrow> jsstring list \<Rightarrow> (jsstring \<times> bool) list" where
  "patch_of add remove =
     fold (\<lambda>v p. AList.update v False p) remove (fold (\<lambda>v p. AList.update v True p) add [])"

definition jmap_applyKeywordChange ::
  "('s, 'f) JmapClient \<Rightarrow> RemoteAccountId \<Rightarrow> RemoteEmailId \<Rightarrow> RemoteKeywordChange \<Rightarrow>
   ('s, exn, unit) eff" where
  "jmap_applyKeywordChange client acc emailId change =
     jmap_try (jxUpdateEmailKeywords client acc emailId (patch_of (rkAdd change) (rkRemove change)))"

definition jmap_applyMembershipChange ::
  "('s, 'f) JmapClient \<Rightarrow> RemoteAccountId \<Rightarrow> RemoteEmailId \<Rightarrow> RemoteMembershipChange \<Rightarrow>
   ('s, exn, unit) eff" where
  "jmap_applyMembershipChange client acc emailId change =
     jmap_try (jxUpdateEmailMailboxes client acc emailId (patch_of (rbAdd change) (rbRemove change)))"

definition JmapRemoteMail :: "('s, 'f) JmapClient \<Rightarrow> ('s, 'f) RemoteMail" where
  "JmapRemoteMail client =
     \<lparr>mlSyncIdentities = jmap_syncIdentities client, mlSyncMailboxes = jmap_syncMailboxes client,
      mlSyncEmails = jmap_syncEmails client, mlQueryMailbox = jmap_queryMailbox client,
      mlFetchBody = jmap_fetchBody client, mlFetchAttachments = jmap_fetchAttachments client,
      mlApplyKeywordChange = jmap_applyKeywordChange client,
      mlApplyMembershipChange = jmap_applyMembershipChange client\<rparr>"

section \<open>Submission and connection\<close>

definition jmap_unsupported :: RemoteError where
  "jmap_unsupported =
     \<lparr>reKind = KUnsupported, reRetry = RNever, reSession = SKeep, reOutcome = OKnownNotApplied\<rparr>"

definition draft_of :: "SubmissionMessage \<Rightarrow> jsstring \<Rightarrow> jsstring option \<Rightarrow> JmapEmailDraft" where
  "draft_of message t h =
     \<lparr>jfFrom = [smFrom message], jfTo = smTo message, jfCc = smCc message, jfBcc = smBcc message,
      jfReplyTo = smReplyTo message, jfSubject = smSubject message, jfTextBody = Some t,
      jfHtmlBody = h\<rparr>"

definition submission_outcome :: "jmap_error \<Rightarrow> OperationOutcome" where
  "submission_outcome err =
     (case err of
        JmapNetworkError \<Rightarrow> OUnknown
      | JmapSubmissionAmbiguousError \<Rightarrow> OUnknown
      | _ \<Rightarrow> OKnownNotApplied)"

definition JmapSubmission :: "('s, 'f) JmapClient \<Rightarrow> 's Submission" where
  "JmapSubmission client message idempotencyKey s =
     (case smRemoteIdentityId message of
        None \<Rightarrow> (Inl (RemoteExn jmap_unsupported), s)
      | Some identityId \<Rightarrow>
          (case smBody message of
             SubmitBoxplotE2ee _ \<Rightarrow> (Inl (RemoteExn jmap_unsupported), s)
           | SubmitPlain t h \<Rightarrow>
               (case bindM (jxSubmitEmail client (smRemoteAccountId message) (draft_of message t h)
                              identityId)
                       (\<lambda>r. bindM (jmapE (remoteEmailIdFromString (jtEmailId r))) (\<lambda>i.
                            retM \<lparr>srRemoteEmailId = Some i, srReceiptId = Some (jtSubmissionId r)\<rparr>)) s of
                  (Inr r, v) \<Rightarrow> (Inr r, v)
                | (Inl e, v) \<Rightarrow> (Inl (RemoteExn (toRemoteError e (submission_outcome e))), v))))"

fun accounts_of ::
  "(jsstring \<times> jsstring) list \<Rightarrow> (jsstring \<times> jsstring list) list \<Rightarrow> (jsstring \<times> jsstring list) list" where
  "accounts_of [] acc = acc"
| "accounts_of ((capability, aid) # rest) acc =
     accounts_of rest
       (AList.update aid
          ((case map_of acc aid of None \<Rightarrow> [] | Some cs \<Rightarrow> cs) @ [capability]) acc)"

definition JmapRemoteConnection_open :: "('s, 'f) JmapClient \<Rightarrow> ('s, 'f) RemoteConnection" where
  "JmapRemoteConnection_open client =
     jmap_try
       (bindM (jxOpenSession client) (\<lambda>session.
        let capabilities = accounts_of (jsPrimaryAccounts session) [] in
        bindM (jmapE (mapE remoteAccountIdFromString (map fst capabilities))) (\<lambda>accountIds.
        if accountIds = []
        then throwM (JmapOther (TypeError (js ''JMAP Session has no primary mail Account'')))
        else
          retM \<lparr>ssAccounts =
                  map (\<lambda>i. \<lparr>rdaId = i,
                           rdaCapabilities = (case map_of capabilities i of None \<Rightarrow> [] | Some cs \<Rightarrow> cs)\<rparr>)
                    accountIds,
                ssMail = JmapRemoteMail client, ssSubmission = JmapSubmission client,
                ssReconciler = None, ssClose = retM ()\<rparr>)))"

end
