(* ===== verification/Jmap_Mail.thy ===== *)
theory Jmap_Mail
  imports Jmap_Client
begin

text \<open>
  \<open>src/src/jmap/mail/*.ts\<close>, \<open>jmap/normalizers/*.ts\<close> and the read half of \<open>jmap/adapter.ts\<close>:
  requests of the third-party client, whose raw answers are parameters typed as
  \<open>types-raw.ts\<close> types them (a field that may be missing or null is an option), and how they
  become the transfer objects of the port.
\<close>

section \<open>Raw answers\<close>

record RawJmapMailboxRights =
  wrReadItems :: "bool option"
  wrAddItems :: "bool option"
  wrRemoveItems :: "bool option"
  wrSetSeen :: "bool option"
  wrSetKeywords :: "bool option"
  wrSubmit :: "bool option"

record RawJmapMailbox =
  wbId :: jsstring
  wbName :: jsstring
  wbParentId :: "jsstring option"
  wbRole :: "jsstring option"
  wbSortOrder :: "number option"
  wbTotalEmails :: "number option"
  wbUnreadEmails :: "number option"
  wbMyRights :: "RawJmapMailboxRights option"

record RawJmapIdentity =
  wiId :: jsstring
  wiName :: "jsstring option"
  wiEmail :: "jsstring option"
  wiReplyTo :: "JmapEmailAddress list option"
  wiBcc :: "JmapEmailAddress list option"
  wiTextSignature :: "jsstring option"
  wiHtmlSignature :: "jsstring option"

record RawJmapEmail =
  weId :: "jsstring option"
  weBlobId :: "jsstring option"
  weThreadId :: "jsstring option"
  weSender :: "JmapEmailAddress list option"
  weFrom :: "JmapEmailAddress list option"
  weReplyTo :: "JmapEmailAddress list option"
  weTo :: "JmapEmailAddress list option"
  weCc :: "JmapEmailAddress list option"
  weBcc :: "JmapEmailAddress list option"
  weSubject :: "jsstring option"
  weSentAt :: "jsstring option"
  weReceivedAt :: "jsstring option"
  weSize :: "number option"
  wePreview :: "jsstring option"
  weHasAttachment :: "bool option"
  weKeywords :: "(jsstring \<times> bool) list option"
  weMailboxIds :: "(jsstring \<times> bool) list option"

record 'v RawGet =
  wgList :: "'v list option"
  wgState :: "jsstring option"

record RawJmapQueryResponse =
  wqQueryState :: "jsstring option"
  wqCanCalculateChanges :: "bool option"
  wqPosition :: "number option"
  wqIds :: "jsstring list option"
  wqTotal :: "number option"

record RawJmapChangesResponse =
  wcCannotCalculateChanges :: bool
  wcOldState :: jsstring
  wcNewState :: jsstring
  wcHasMoreChanges :: bool
  wcCreated :: "jsstring list option"
  wcUpdated :: "jsstring list option"
  wcDestroyed :: "jsstring list option"

datatype RawJmapEmailBodyPart =
  BodyPart (bpPartId: "jsstring option") (bpBlobId: "jsstring option") (bpSize: "number option")
    (bpName: "jsstring option") (bpType: jsstring) (bpDisposition: "jsstring option")
    (bpCid: "jsstring option") (bpSubParts: "RawJmapEmailBodyPart list")

record RawJmapEmailBodyValue =
  bvValue :: "jsstring option"
  bvIsEncodingProblem :: bool
  bvIsTruncated :: bool

record RawBodyEmail =
  wyBodyStructure :: "RawJmapEmailBodyPart option"
  wyBodyValues :: "(jsstring \<times> RawJmapEmailBodyValue) list option"

text \<open>The arguments of \<open>Email/query\<close>: the filter holds the mailbox and what the caller added.\<close>

record 'f EmailQueryRequest =
  rqyAccountId :: jsstring
  rqyInMailbox :: jsstring
  rqyFilter :: "'f option"
  rqyOptions :: QueryOptions

record ('s, 'f) JamClient =
  jamMailboxGet :: "jsstring \<Rightarrow> ('s, jam_rejection, RawJmapMailbox RawGet) eff"
  jamIdentityGet :: "jsstring \<Rightarrow> ('s, jam_rejection, RawJmapIdentity RawGet) eff"
  jamEmailQuery :: "'f EmailQueryRequest \<Rightarrow> ('s, jam_rejection, RawJmapQueryResponse) eff"
  jamEmailGet :: "jsstring \<Rightarrow> jsstring list \<Rightarrow> ('s, jam_rejection, RawJmapEmail RawGet) eff"
  jamEmailChanges :: "jsstring \<Rightarrow> jsstring \<Rightarrow> ('s, jam_rejection, RawJmapChangesResponse) eff"
  jamBodyGet :: "jsstring \<Rightarrow> jsstring \<Rightarrow> ('s, jam_rejection, RawBodyEmail list option) eff"
  jamStructureGet :: "jsstring \<Rightarrow> jsstring \<Rightarrow> ('s, jam_rejection, RawBodyEmail list option) eff"

definition jam_try :: "jsstring \<Rightarrow> ('s, jam_rejection, 'a) eff \<Rightarrow> ('s, jmap_error, 'a) eff" where
  "jam_try method m s =
     (case m s of
        (Inl e, t) \<Rightarrow> (Inl (throwJmapRequestError method e), t)
      | (Inr a, t) \<Rightarrow> (Inr a, t))"

text \<open>\<open>a ?? b\<close>, and \<open>s || t\<close> on a string that may be missing.\<close>

definition or_else :: "'a option \<Rightarrow> 'a \<Rightarrow> 'a" where
  "or_else v d = (case v of None \<Rightarrow> d | Some a \<Rightarrow> a)"

definition truthy :: "jsstring option \<Rightarrow> bool" where
  "truthy v = (case v of None \<Rightarrow> False | Some s \<Rightarrow> s \<noteq> [])"

section \<open>Collections\<close>

definition map_raw_rights :: "RawJmapMailboxRights option \<Rightarrow> MailboxRights" where
  "map_raw_rights raw =
     (let get = (\<lambda>f. case raw of None \<Rightarrow> False | Some r \<Rightarrow> or_else (f r) False) in
      \<lparr>mayReadItems = get wrReadItems, mayAddItems = get wrAddItems,
       mayRemoveItems = get wrRemoveItems, maySetSeen = get wrSetSeen,
       maySetKeywords = get wrSetKeywords, maySubmit = get wrSubmit\<rparr>)"

definition map_raw_mailbox :: "RawJmapMailbox \<Rightarrow> JmapMailbox" where
  "map_raw_mailbox raw =
     \<lparr>jbId = wbId raw, jbName = wbName raw, jbParent = wbParentId raw, jbRole = wbRole raw,
      jbSortOrder = or_else (wbSortOrder raw) (JInt 0),
      jbTotalEmails = or_else (wbTotalEmails raw) (JInt 0),
      jbUnreadEmails = or_else (wbUnreadEmails raw) (JInt 0),
      jbRights = map_raw_rights (wbMyRights raw)\<rparr>"

definition getMailboxes ::
  "('s, 'f) JamClient \<Rightarrow> jsstring \<Rightarrow> ('s, jmap_error, JmapMailboxesResult) eff" where
  "getMailboxes jam acc =
     bindM (jam_try (js ''Mailbox/get'') (jamMailboxGet jam acc)) (\<lambda>response.
     retM \<lparr>jmMailboxes = map map_raw_mailbox (or_else (wgList response) []),
           jmState = or_else (wgState response) []\<rparr>)"

definition mapAddresses :: "JmapEmailAddress list option \<Rightarrow> JmapEmailAddressList" where
  "mapAddresses raw =
     (case raw of
        None \<Rightarrow> None
      | Some as \<Rightarrow>
          if as = [] then None else Some (map (\<lambda>a. \<lparr>adName = adName a, adEmail = adEmail a\<rparr>) as))"

definition map_raw_identity :: "RawJmapIdentity \<Rightarrow> JmapIdentity" where
  "map_raw_identity raw =
     \<lparr>jiId = wiId raw, jiName = or_else (wiName raw) [], jiEmail = or_else (wiEmail raw) [],
      jiReplyTo = mapAddresses (wiReplyTo raw), jiBcc = mapAddresses (wiBcc raw),
      jiHtmlSignature = or_else (wiHtmlSignature raw) [],
      jiTextSignature = or_else (wiTextSignature raw) []\<rparr>"

definition getIdentities ::
  "('s, 'f) JamClient \<Rightarrow> jsstring \<Rightarrow> ('s, jmap_error, JmapIdentitiesResult) eff" where
  "getIdentities jam acc =
     bindM (jam_try (js ''Identity/get'') (jamIdentityGet jam acc)) (\<lambda>response.
     retM \<lparr>jzIdentities = map map_raw_identity (or_else (wgList response) []),
           jzState = or_else (wgState response) []\<rparr>)"

definition queryEmails ::
  "('s, 'f) JamClient \<Rightarrow> jsstring \<Rightarrow> jsstring \<Rightarrow> 'f option \<Rightarrow> QueryOptions option \<Rightarrow>
   ('s, jmap_error, JmapQueryResult) eff" where
  "queryEmails jam acc mailboxId filt options =
     bindM (jam_try (js ''Email/query'')
              (jamEmailQuery jam
                 \<lparr>rqyAccountId = acc, rqyInMailbox = mailboxId, rqyFilter = filt,
                  rqyOptions =
                    or_else options
                      \<lparr>joPosition = None, joLimit = None, joAnchor = None, joAnchorOffset = None\<rparr>\<rparr>))
       (\<lambda>response.
        retM \<lparr>jqIds = or_else (wqIds response) [], jqQueryState = or_else (wqQueryState response) [],
              jqTotal = or_else (wqTotal response) (JInt 0),
              jqPosition = or_else (wqPosition response) (JInt 0),
              jqCanCalculateChanges = or_else (wqCanCalculateChanges response) False\<rparr>)"

definition validateAndMapEmail :: "RawJmapEmail \<Rightarrow> JmapEmail option" where
  "validateAndMapEmail raw =
     (case (weId raw, weBlobId raw, weThreadId raw, weReceivedAt raw) of
        (Some i, Some blob, Some thread, Some received) \<Rightarrow>
          if i = [] \<or> blob = [] \<or> thread = [] \<or> received = [] then None
          else
            let mailboxIds = map fst (filter snd (or_else (weMailboxIds raw) [])) in
            if mailboxIds = [] then None
            else
              Some \<lparr>jeId = i, jeBlobId = blob, jeThreadId = thread,
                    jeSender = mapAddresses (weSender raw), jeFrom = mapAddresses (weFrom raw),
                    jeReplyTo = mapAddresses (weReplyTo raw), jeTo = mapAddresses (weTo raw),
                    jeCc = mapAddresses (weCc raw), jeBcc = mapAddresses (weBcc raw),
                    jeSubject = weSubject raw, jeSentAt = weSentAt raw, jeReceivedAt = received,
                    jeSize =
                      (case weSize raw of
                         Some n \<Rightarrow>
                           if isSafeInteger n \<and> num_le (JInt 0) n then n else JInt 0
                       | None \<Rightarrow> JInt 0),
                    jePreview = or_else (wePreview raw) [],
                    jeHasAttachment = or_else (weHasAttachment raw) False,
                    jeKeywords = or_else (weKeywords raw) [], jeMailboxIds = mailboxIds\<rparr>
      | _ \<Rightarrow> None)"

definition getEmails ::
  "('s, 'f) JamClient \<Rightarrow> jsstring \<Rightarrow> jsstring list \<Rightarrow> ('s, jmap_error, JmapEmailsResult) eff" where
  "getEmails jam acc emailIds =
     bindM (jam_try (js ''Email/get'') (jamEmailGet jam acc emailIds)) (\<lambda>response.
     retM \<lparr>jlEmails = List.map_filter validateAndMapEmail (or_else (wgList response) []),
           jlState = or_else (wgState response) []\<rparr>)"

definition getEmailChanges ::
  "('s, 'f) JamClient \<Rightarrow> jsstring \<Rightarrow> jsstring \<Rightarrow> ('s, jmap_error, JmapDelta) eff" where
  "getEmailChanges jam acc sinceState =
     bindM (jam_try (js ''Email/changes'') (jamEmailChanges jam acc sinceState)) (\<lambda>response.
     if wcCannotCalculateChanges response
     then throwM (JmapMethodError (js ''Email/changes'') (js ''cannotCalculateChanges''))
     else
       retM \<lparr>jdAccountId = acc, jdOldState = wcOldState response, jdNewState = wcNewState response,
             jdHasMoreChanges = wcHasMoreChanges response,
             jdCreated = or_else (wcCreated response) [],
             jdUpdated = or_else (wcUpdated response) [],
             jdDestroyed = or_else (wcDestroyed response) []\<rparr>)"

section \<open>Bodies\<close>

fun findPartIdsByType :: "RawJmapEmailBodyPart \<Rightarrow> jsstring \<Rightarrow> jsstring list" where
  "findPartIdsByType (BodyPart partId blobId sz name typ disposition cid subParts) t =
     (if typ = t \<and> truthy partId then [the partId] else []) @
     concat (map (\<lambda>p. findPartIdsByType p t) subParts)"

text \<open>\<open>extractFromPartId\<close>; the two problem flags only reach a log line.\<close>

definition extractFromPartId ::
  "(jsstring \<times> RawJmapEmailBodyValue) list \<Rightarrow> jsstring \<Rightarrow> jsstring option" where
  "extractFromPartId bodyValues partId =
     (case map_of bodyValues partId of
        None \<Rightarrow> None
      | Some v \<Rightarrow>
          if bvIsEncodingProblem v \<or> bvIsTruncated v then None
          else
            (case bvValue v of None \<Rightarrow> None | Some s \<Rightarrow> if s = [] then None else Some s))"

fun first_part ::
  "(jsstring \<times> RawJmapEmailBodyValue) list \<Rightarrow> jsstring list \<Rightarrow> jsstring option" where
  "first_part bodyValues [] = None"
| "first_part bodyValues (i # is) =
     (case extractFromPartId bodyValues i of
        None \<Rightarrow> first_part bodyValues is
      | Some s \<Rightarrow> Some s)"

definition extractEmailBody ::
  "jsstring \<Rightarrow> RawJmapEmailBodyPart \<Rightarrow> (jsstring \<times> RawJmapEmailBodyValue) list \<Rightarrow>
   JmapEmailBody option" where
  "extractEmailBody emailId structure bodyValues =
     (let html = first_part bodyValues (findPartIdsByType structure (js ''text/html''));
          txt = first_part bodyValues (findPartIdsByType structure (js ''text/plain'')) in
      if html = None \<and> txt = None then None
      else Some \<lparr>jyEmailId = emailId, jyHtml = html, jyText = txt\<rparr>)"

definition is_attachment_part :: "RawJmapEmailBodyPart \<Rightarrow> bool" where
  "is_attachment_part part \<longleftrightarrow>
     truthy (bpBlobId part) \<and>
     (bpDisposition part = Some (js ''attachment'') \<or>
      bpDisposition part = Some (js ''inline'') \<or> truthy (bpCid part) \<or>
      \<not> (bpType part = js ''text/html'' \<or> bpType part = js ''text/plain''))"

definition attachment_of :: "RawJmapEmailBodyPart \<Rightarrow> JmapAttachment" where
  "attachment_of part =
     \<lparr>jaBlobId = the (bpBlobId part), jaPartId = bpPartId part, jaName = bpName part,
      jaMediaType = bpType part, jaSize = or_else (bpSize part) (JInt 0),
      jaDisposition = bpDisposition part, jaCid = bpCid part\<rparr>"

fun extractAttachments :: "RawJmapEmailBodyPart \<Rightarrow> JmapAttachment list" where
  "extractAttachments (BodyPart partId blobId sz name typ disposition cid subParts) =
     (let part = BodyPart partId blobId sz name typ disposition cid subParts in
      if is_attachment_part part then [attachment_of part] else []) @
     concat (map extractAttachments subParts)"

definition getEmailBody ::
  "('s, 'f) JamClient \<Rightarrow> jsstring \<Rightarrow> jsstring \<Rightarrow> ('s, jmap_error, JmapEmailBody) eff" where
  "getEmailBody jam acc emailId =
     bindM (jam_try (js ''Email/get (body)'') (jamBodyGet jam acc emailId)) (\<lambda>response.
     case or_else response [] of
       [] \<Rightarrow> throwM (JmapMethodError (js ''Email/get (body)'') (js ''notFound''))
     | rawEmail # _ \<Rightarrow>
         (case wyBodyStructure rawEmail of
            None \<Rightarrow> throwM (JmapMethodError (js ''Email/get (body)'') (js ''missingBodyStructure''))
          | Some structure \<Rightarrow>
              (case extractEmailBody emailId structure (or_else (wyBodyValues rawEmail) []) of
                 None \<Rightarrow> throwM (JmapMethodError (js ''Email/get (body)'') (js ''invalidBody''))
               | Some body \<Rightarrow> retM body)))"

definition getEmailAttachments ::
  "('s, 'f) JamClient \<Rightarrow> jsstring \<Rightarrow> jsstring \<Rightarrow> ('s, jmap_error, JmapAttachment list) eff" where
  "getEmailAttachments jam acc emailId =
     bindM (jam_try (js ''Email/get (attachments)'') (jamStructureGet jam acc emailId)) (\<lambda>response.
     case or_else response [] of
       [] \<Rightarrow> throwM (JmapMethodError (js ''Email/get (attachments)'') (js ''notFound''))
     | rawEmail # _ \<Rightarrow>
         (case wyBodyStructure rawEmail of
            None \<Rightarrow>
              throwM (JmapMethodError (js ''Email/get (attachments)'') (js ''missingBodyStructure''))
          | Some structure \<Rightarrow> retM (extractAttachments structure)))"

definition mapSendIntentToJmapDraft :: "SendIntent \<Rightarrow> JmapEmailDraft" where
  "mapSendIntentToJmapDraft intent =
     \<lparr>jfFrom = [siFrom intent], jfTo = siTo intent, jfCc = siCc intent, jfBcc = siBcc intent,
      jfReplyTo = siReplyTo intent, jfSubject = siSubject intent,
      jfTextBody = Some (sbText (siBody intent)), jfHtmlBody = sbHtml (siBody intent)\<rparr>"

end
