(* ===== verification/Jmap_Http.thy ===== *)
theory Jmap_Http
  imports Jmap_Mail Text_Encoding
begin

text \<open>
  The requests the JMAP layer makes without the third-party client:
  \<open>src/src/jmap/transport/http.ts\<close>, and the reading of the JSON they answer with. The global \<open>fetch\<close> is a parameter. A body of a request stands for the text \<open>JSON.stringify\<close>
  makes of it; a body of an answer that is not JSON is \<open>None\<close>.
\<close>

section \<open>Reading JSON values\<close>

text \<open>\<open>v[key]\<close>: own members and indices; \<open>undefined\<close> is \<open>None\<close>.\<close>

definition json_prop :: "json option \<Rightarrow> jsstring \<Rightarrow> json option throws" where
  "json_prop v key =
     (case v of
        None \<Rightarrow> Inl (TypeError (js ''Cannot read properties of undefined''))
      | Some JsonNull \<Rightarrow> Inl (TypeError (js ''Cannot read properties of null''))
      | Some (JsonObject members) \<Rightarrow> Inr (json_get members key)
      | Some (JsonArray vs) \<Rightarrow> Inr (map_of (zip (map js_of_nat [0..<length vs]) vs) key)
      | Some (JsonString s) \<Rightarrow>
          Inr (map_of (zip (map js_of_nat [0..<length s]) (map (\<lambda>c. JsonString [c]) s)) key)
      | _ \<Rightarrow> Inr None)"

text \<open>\<open>v?.[key]\<close>.\<close>

definition json_opt :: "json option \<Rightarrow> jsstring \<Rightarrow> json option" where
  "json_opt v key = (case json_prop v key of Inl _ \<Rightarrow> None | Inr r \<Rightarrow> r)"

definition json_truthy :: "json option \<Rightarrow> bool" where
  "json_truthy v =
     (case v of
        None \<Rightarrow> False
      | Some JsonNull \<Rightarrow> False
      | Some (JsonBool b) \<Rightarrow> b
      | Some (JsonNumber n) \<Rightarrow> n \<noteq> JInt 0 \<and> n \<noteq> JNaN
      | Some (JsonString s) \<Rightarrow> s \<noteq> []
      | _ \<Rightarrow> True)"

text \<open>\<open>v || {}\<close>, and \<open>v || d\<close> on a value whose declared type is string.\<close>

definition json_or_empty :: "json option \<Rightarrow> json" where
  "json_or_empty v = (if json_truthy v then the v else JsonObject [])"

definition string_or :: "json option \<Rightarrow> jsstring \<Rightarrow> jsstring" where
  "string_or v d = (case v of Some (JsonString s) \<Rightarrow> if s = [] then d else s | _ \<Rightarrow> d)"

text \<open>A list declared to hold strings.\<close>

definition as_strings :: "json option \<Rightarrow> jsstring list" where
  "as_strings v =
     (case v of
        Some (JsonArray vs) \<Rightarrow>
          List.map_filter (\<lambda>x. case x of JsonString s \<Rightarrow> Some s | _ \<Rightarrow> None) vs
      | _ \<Rightarrow> [])"

section \<open>\<open>transport/http.ts\<close>\<close>

datatype AuthConfig = BearerAuth jsstring | BasicAuth jsstring

record HttpRequest =
  hqUrl :: jsstring
  hqMethod :: jsstring
  hqHeaders :: "(jsstring \<times> jsstring) list"
  hqBody :: "json option"

record HttpResponse =
  hpStatus :: int
  hpJson :: "json option"

type_synonym 's Fetch = "HttpRequest \<Rightarrow> ('s, exn, HttpResponse) eff"

definition response_ok :: "HttpResponse \<Rightarrow> bool" where
  "response_ok r \<longleftrightarrow> 200 \<le> hpStatus r \<and> hpStatus r \<le> 299"

definition unauthorised :: "HttpResponse \<Rightarrow> bool" where
  "unauthorised r \<longleftrightarrow> hpStatus r = 401 \<or> hpStatus r = 403"

text \<open>\<open>btoa\<close> of a string: a character past U+00FF is an \<open>InvalidCharacterError\<close>.\<close>

definition string_btoa :: "jsstring \<Rightarrow> jsstring throws" where
  "string_btoa s =
     throw_if (\<not> list_all (\<lambda>c. unat c < 256) s) (OtherExn (js ''InvalidCharacterError''))
       (Inr (btoa (map (\<lambda>c. of_nat (unat c)) s)))"

definition auth_header :: "AuthConfig \<Rightarrow> jsstring throws" where
  "auth_header auth =
     (case auth of
        BasicAuth token \<Rightarrow> bindE (string_btoa token) (\<lambda>encoded. Inr (js ''Basic '' @ encoded))
      | BearerAuth token \<Rightarrow> Inr (js ''Bearer '' @ token))"

definition network_try :: "('s, exn, 'a) eff \<Rightarrow> ('s, jmap_error, 'a) eff" where
  "network_try m s =
     (case m s of (Inl _, t) \<Rightarrow> (Inl JmapNetworkError, t) | (Inr a, t) \<Rightarrow> (Inr a, t))"

definition plain_try :: "('s, exn, 'a) eff \<Rightarrow> ('s, jmap_error, 'a) eff" where
  "plain_try m s =
     (case m s of (Inl e, t) \<Rightarrow> (Inl (JmapOther e), t) | (Inr a, t) \<Rightarrow> (Inr a, t))"

definition throwsJ :: "'a throws \<Rightarrow> ('s, jmap_error, 'a) eff" where
  "throwsJ r = plain_try (liftM r)"

definition createAuthenticatedFetch ::
  "'s Fetch \<Rightarrow> jsstring \<Rightarrow> AuthConfig \<Rightarrow> HttpRequest \<Rightarrow> ('s, jmap_error, HttpResponse) eff" where
  "createAuthenticatedFetch fetch baseUrl auth request =
     (if \<not> js_startsWith (hqUrl request) baseUrl then plain_try (fetch request)
      else
        bindM (throwsJ (auth_header auth)) (\<lambda>header.
        bindM (network_try (fetch (request\<lparr>hqHeaders :=
                 AList.update (js ''Authorization'') header (hqHeaders request)\<rparr>))) (\<lambda>response.
        if unauthorised response then throwM JmapAuthError else retM response)))"

type_synonym method_call = "jsstring \<times> json \<times> jsstring"

definition json_call :: "method_call \<Rightarrow> json" where
  "json_call call = (case call of (name, args, i) \<Rightarrow> JsonArray [JsonString name, args, JsonString i])"

definition default_using :: json where
  "default_using =
     JsonArray [JsonString (js ''urn:ietf:params:jmap:core''),
                JsonString (js ''urn:ietf:params:jmap:mail''),
                JsonString (js ''urn:ietf:params:jmap:submission'')]"

definition jmap_request :: "jsstring \<Rightarrow> jsstring \<Rightarrow> method_call list \<Rightarrow> HttpRequest" where
  "jmap_request apiUrl header calls =
     \<lparr>hqUrl = apiUrl, hqMethod = js ''POST'',
      hqHeaders = [(js ''Content-Type'', js ''application/json''), (js ''Authorization'', header)],
      hqBody = Some (JsonObject [(js ''using'', default_using),
                                 (js ''methodCalls'', JsonArray (map json_call calls))])\<rparr>"

definition method_responses :: "HttpResponse \<Rightarrow> jmap_error + json list" where
  "method_responses response =
     (if unauthorised response then Inl JmapAuthError
      else if \<not> response_ok response then Inl JmapNetworkError
      else
        (case hpJson response of
           None \<Rightarrow> Inl JmapNetworkError
         | Some body \<Rightarrow>
             (case json_opt (Some body) (js ''methodResponses'') of
                Some (JsonArray rs) \<Rightarrow> Inr rs
              | _ \<Rightarrow> Inl JmapNetworkError)))"

definition fetchJmapRaw ::
  "'s Fetch \<Rightarrow> jsstring \<Rightarrow> AuthConfig \<Rightarrow> method_call list \<Rightarrow> ('s, jmap_error, json list) eff" where
  "fetchJmapRaw fetch apiUrl auth calls =
     bindM (throwsJ (auth_header auth)) (\<lambda>header.
     bindM (network_try (fetch (jmap_request apiUrl header calls))) (\<lambda>response.
     liftM (method_responses response)))"

text \<open>\<open>responses.find((r) => r[2] === callId)\<close>.\<close>

fun find_response :: "jsstring \<Rightarrow> json list \<Rightarrow> json option throws" where
  "find_response callId [] = Inr None"
| "find_response callId (r # rs) =
     bindE (json_prop (Some r) (js ''2'')) (\<lambda>i.
     if i = Some (JsonString callId) then Inr (Some r) else find_response callId rs)"

text \<open>\<open>try { m } catch (err) { throw new JmapMethodError(method, 'networkOrServerFail', ...) }\<close>.\<close>

definition wrap_failure :: "jsstring \<Rightarrow> ('s, jmap_error, 'a) eff \<Rightarrow> ('s, jmap_error, 'a) eff" where
  "wrap_failure method m s =
     (case m s of
        (Inl _, t) \<Rightarrow> (Inl (JmapMethodError method (js ''networkOrServerFail'')), t)
      | (Inr a, t) \<Rightarrow> (Inr a, t))"

end
