(* ===== verification/Jmap_Adapter.thy ===== *)
theory Jmap_Adapter
  imports Jmap_Http Remote_Ports
begin

text \<open>
  The operations of the JMAP layer that go over raw HTTP (\<open>src/src/jmap/session.ts\<close> and
  \<open>jmap/mail/{mutations,submission,email-query-changes}.ts\<close>) and the adapter
  (\<open>jmap/adapter.ts\<close>) that serves the port \<open>JmapClient\<close> with them and with the third-party client.
\<close>

section \<open>Session discovery\<close>

definition URN_MAIL :: jsstring where "URN_MAIL = js ''urn:ietf:params:jmap:mail''"
definition URN_WEBSOCKET :: jsstring where "URN_WEBSOCKET = js ''urn:ietf:params:jmap:websocket''"

text \<open>The entries of an object in the order a JavaScript object keeps them.\<close>

definition json_entries :: "json \<Rightarrow> (jsstring \<times> json) list" where
  "json_entries v =
     (case v of
        JsonObject members \<Rightarrow> fold (\<lambda>(k, x) m. AList.update k x m) members []
      | _ \<Rightarrow> [])"

definition json_string_entries :: "json \<Rightarrow> (jsstring \<times> jsstring) list" where
  "json_string_entries v = map (\<lambda>(k, x). (k, string_or (Some x) [])) (json_entries v)"

definition session_error :: "jsstring \<Rightarrow> jmap_error" where
  "session_error t = JmapMethodError (js ''openSession'') t"

definition session_of :: "json \<Rightarrow> jmap_error + JmapSession" where
  "session_of raw =
     (let invalid = session_error (js ''invalidSession'');
          field = (\<lambda>k. json_opt (Some raw) k);
          primaryAccounts = json_or_empty (field (js ''primaryAccounts''));
          mailAccountId = json_opt (Some primaryAccounts) URN_MAIL;
          account = json_opt (field (js ''accounts'')) (string_or mailAccountId []);
          apiUrl = string_or (field (js ''apiUrl'')) [];
          downloadUrl = string_or (field (js ''downloadUrl'')) [];
          uploadUrl = string_or (field (js ''uploadUrl'')) [];
          eventSourceUrl = string_or (field (js ''eventSourceUrl'')) [];
          capabilities = json_or_empty (field (js ''capabilities''))
      in
      throw_if (\<not> json_truthy (Some raw)) invalid
      (throw_if (\<not> json_truthy mailAccountId) (session_error (js ''missingCapability''))
      (throw_if (\<not> json_truthy account) invalid
      (throw_if (apiUrl = [] \<or> downloadUrl = [] \<or> uploadUrl = [] \<or> eventSourceUrl = []) invalid
        (Inr \<lparr>jsApiUrl = apiUrl, jsDownloadUrl = downloadUrl, jsUploadUrl = uploadUrl,
              jsEventSourceUrl = eventSourceUrl,
              jsWebSocketUrl =
                (case json_opt (json_opt (Some capabilities) URN_WEBSOCKET) (js ''url'') of
                   Some (JsonString u) \<Rightarrow> Some u
                 | _ \<Rightarrow> None),
              jsPrimaryAccounts = json_string_entries primaryAccounts,
              jsCapabilities = json_entries capabilities\<rparr>)))))"

definition session_failure :: "jmap_error \<Rightarrow> jmap_error" where
  "session_failure e =
     (case e of JmapAuthError \<Rightarrow> JmapAuthError | JmapNetworkError \<Rightarrow> JmapNetworkError
      | _ \<Rightarrow> JmapNetworkError)"

definition discoverSession ::
  "'s Fetch \<Rightarrow> jsstring \<Rightarrow> AuthConfig \<Rightarrow> ('s, jmap_error, JmapSession) eff" where
  "discoverSession fetch sessionUrl auth s =
     (case createAuthenticatedFetch fetch sessionUrl auth
             \<lparr>hqUrl = sessionUrl, hqMethod = js ''GET'',
              hqHeaders = [(js ''Accept'', js ''application/json'')], hqBody = None\<rparr> s of
        (Inl e, t) \<Rightarrow> (Inl (session_failure e), t)
      | (Inr response, t) \<Rightarrow>
          (if \<not> response_ok response then Inl (session_error (js ''networkOrServerFail''))
           else
             (case hpJson response of
                None \<Rightarrow> Inl (session_error (js ''invalidSession''))
              | Some raw \<Rightarrow> session_of raw), t))"

section \<open>Changes of one e-mail\<close>

definition email_set :: "jsstring \<Rightarrow> jsstring \<Rightarrow> jsstring \<Rightarrow> (jsstring \<times> bool) list \<Rightarrow> method_call" where
  "email_set property acc emailId patch =
     (js ''Email/set'',
      JsonObject [(js ''accountId'', JsonString acc),
                  (js ''update'', JsonObject [(emailId, JsonObject [(property,
                     JsonObject (map (\<lambda>(k, b). (k, JsonBool b)) patch))])])],
      js ''e1'')"

text \<open>What the answer says of the update: \<open>notUpdated\<close> is looked up, nothing else is.\<close>

definition update_result :: "jsstring \<Rightarrow> json list \<Rightarrow> jmap_error + unit" where
  "update_result emailId responses =
     (let raised = (\<lambda>r. case r of Inl e \<Rightarrow> Inl (JmapOther e) | Inr v \<Rightarrow> Inr v) in
      bindE (raised (find_response (js ''e1'') responses)) (\<lambda>response.
      bindE (raised (case response of
                       None \<Rightarrow> Inr (Some (JsonObject []))
                     | Some r \<Rightarrow> json_prop (Some r) (js ''1''))) (\<lambda>result.
      bindE (raised (json_prop result (js ''notUpdated''))) (\<lambda>notUpdated.
      if \<not> json_truthy notUpdated then Inr ()
      else
        let details = json_opt notUpdated emailId in
        if \<not> json_truthy details then Inr ()
        else
          Inl (JmapMethodError (js ''Email/set'')
                 (string_or (json_opt details (js ''type'')) (js ''unknown'')))))))"

definition patch_email ::
  "jsstring \<Rightarrow> 's Fetch \<Rightarrow> jsstring \<Rightarrow> AuthConfig \<Rightarrow> jsstring \<Rightarrow> jsstring \<Rightarrow> (jsstring \<times> bool) list \<Rightarrow>
   ('s, jmap_error, unit) eff" where
  "patch_email property fetch apiUrl auth acc emailId patch =
     bindM (wrap_failure (js ''Email/set'')
              (fetchJmapRaw fetch apiUrl auth [email_set property acc emailId patch]))
       (\<lambda>responses. liftM (update_result emailId responses))"

definition patchEmailKeywords ::
  "'s Fetch \<Rightarrow> jsstring \<Rightarrow> AuthConfig \<Rightarrow> jsstring \<Rightarrow> jsstring \<Rightarrow> (jsstring \<times> bool) list \<Rightarrow>
   ('s, jmap_error, unit) eff" where
  "patchEmailKeywords = patch_email (js ''keywords'')"

definition patchEmailMailboxes ::
  "'s Fetch \<Rightarrow> jsstring \<Rightarrow> AuthConfig \<Rightarrow> jsstring \<Rightarrow> jsstring \<Rightarrow> (jsstring \<times> bool) list \<Rightarrow>
   ('s, jmap_error, unit) eff" where
  "patchEmailMailboxes = patch_email (js ''mailboxIds'')"

section \<open>Submission\<close>

definition json_address :: "JmapEmailAddress \<Rightarrow> json" where
  "json_address a =
     JsonObject [(js ''name'', JsonString (or_else (adName a) [])),
                 (js ''email'', JsonString (adEmail a))]"

definition formatAddresses :: "JmapEmailAddress list \<Rightarrow> json" where
  "formatAddresses as = JsonArray (map json_address as)"

definition drafts_query :: "jsstring \<Rightarrow> method_call" where
  "drafts_query acc =
     (js ''Mailbox/query'',
      JsonObject [(js ''accountId'', JsonString acc),
                  (js ''filter'', JsonObject [(js ''role'', JsonString (js ''drafts''))]),
                  (js ''limit'', JsonNumber (JInt 1))],
      js ''m1'')"

text \<open>A part of the body: nothing for a text that is missing or empty.\<close>

definition part_ids :: "jsstring option \<Rightarrow> jsstring \<Rightarrow> json list" where
  "part_ids t i = (if truthy t then [JsonObject [(js ''partId'', JsonString i)]] else [])"

definition part_values :: "jsstring option \<Rightarrow> jsstring \<Rightarrow> (jsstring \<times> json) list" where
  "part_values t i =
     (if truthy t then [(i, JsonObject [(js ''value'', JsonString (or_else t []))])] else [])"

definition email_create :: "jsstring \<Rightarrow> JmapEmailDraft \<Rightarrow> json" where
  "email_create draftsMailboxId draft =
     JsonObject
       [(js ''mailboxIds'', JsonObject [(draftsMailboxId, JsonBool True)]),
        (js ''from'', formatAddresses (jfFrom draft)), (js ''to'', formatAddresses (jfTo draft)),
        (js ''cc'', formatAddresses (jfCc draft)), (js ''bcc'', formatAddresses (jfBcc draft)),
        (js ''replyTo'', formatAddresses (jfReplyTo draft)),
        (js ''subject'', JsonString (jfSubject draft)),
        (js ''bodyValues'', JsonObject (part_values (jfTextBody draft) (js ''t1'') @
                                       part_values (jfHtmlBody draft) (js ''h1''))),
        (js ''textBody'', JsonArray (part_ids (jfTextBody draft) (js ''t1''))),
        (js ''htmlBody'', JsonArray (part_ids (jfHtmlBody draft) (js ''h1'')))]"

definition submit_calls :: "jsstring \<Rightarrow> jsstring \<Rightarrow> JmapEmailDraft \<Rightarrow> jsstring \<Rightarrow> method_call list" where
  "submit_calls acc draftsMailboxId draft rawIdentityId =
     [(js ''Email/set'',
       JsonObject [(js ''accountId'', JsonString acc),
                   (js ''create'', JsonObject [(js ''draft1'', email_create draftsMailboxId draft)])],
       js ''e1''),
      (js ''EmailSubmission/set'',
       JsonObject [(js ''accountId'', JsonString acc),
                   (js ''create'', JsonObject [(js ''sub1'',
                      JsonObject [(js ''emailId'', JsonString (js ''#draft1'')),
                                  (js ''identityId'', JsonString rawIdentityId)])])],
       js ''s1'')]"

text \<open>The failures of the first request, all before anything can have been submitted.\<close>

definition drafts_failure :: "jmap_error \<Rightarrow> jmap_error" where
  "drafts_failure e =
     (case e of
        JmapAuthError \<Rightarrow> JmapAuthError
      | _ \<Rightarrow> JmapMethodError (js ''Mailbox/query'') (js ''networkOrServerFail''))"

definition find_drafts ::
  "'s Fetch \<Rightarrow> jsstring \<Rightarrow> AuthConfig \<Rightarrow> jsstring \<Rightarrow> ('s, jmap_error, json option) eff" where
  "find_drafts fetch apiUrl auth acc s =
     (case bindM (fetchJmapRaw fetch apiUrl auth [drafts_query acc]) (\<lambda>result.
             throwsJ (bindE (json_prop (Some (JsonArray result)) (js ''0'')) (\<lambda>r.
                      json_prop r (js ''1'')))) s of
        (Inl e, t) \<Rightarrow> (Inl (drafts_failure e), t)
      | (Inr v, t) \<Rightarrow> (Inr v, t))"

text \<open>The failures of the batch: one of the network leaves the outcome unknown.\<close>

definition batch_failure :: "jmap_error \<Rightarrow> jmap_error" where
  "batch_failure e =
     (case e of
        JmapAuthError \<Rightarrow> JmapAuthError
      | JmapNetworkError \<Rightarrow> JmapSubmissionAmbiguousError
      | _ \<Rightarrow> JmapMethodError (js ''Email/set+EmailSubmission/set'') (js ''networkOrServerFail''))"

definition send_batch ::
  "'s Fetch \<Rightarrow> jsstring \<Rightarrow> AuthConfig \<Rightarrow> method_call list \<Rightarrow> ('s, jmap_error, json list) eff" where
  "send_batch fetch apiUrl auth calls s =
     (case fetchJmapRaw fetch apiUrl auth calls s of
        (Inl e, t) \<Rightarrow> (Inl (batch_failure e), t)
      | (Inr v, t) \<Rightarrow> (Inr v, t))"

definition set_response :: "jsstring \<Rightarrow> json list \<Rightarrow> json throws" where
  "set_response callId responses =
     bindE (find_response callId responses) (\<lambda>entry.
     Inr (json_or_empty (json_opt entry (js ''1''))))"

definition not_created :: "json \<Rightarrow> jsstring \<Rightarrow> json option" where
  "not_created response i = json_opt (json_opt (Some response) (js ''notCreated'')) i"

definition created_id :: "json \<Rightarrow> jsstring \<Rightarrow> jsstring" where
  "created_id response i =
     string_or (json_opt (json_opt (json_opt (Some response) (js ''created'')) i) (js ''id'')) []"

definition submit_result :: "json list \<Rightarrow> jmap_error + JmapSubmitted" where
  "submit_result responses =
     (case bindE (set_response (js ''e1'') responses) (\<lambda>e.
            bindE (set_response (js ''s1'') responses) (\<lambda>s. Inr (e, s))) of
        Inl e \<Rightarrow> Inl (JmapOther e)
      | Inr (emailSet, subSet) \<Rightarrow>
          let emailNotCreated = not_created emailSet (js ''draft1'');
              subNotCreated = not_created subSet (js ''sub1'');
              createdEmailId = created_id emailSet (js ''draft1'');
              createdSubId = created_id subSet (js ''sub1'') in
          if json_truthy emailNotCreated
          then Inl (JmapMethodError (js ''Email/set'')
                      (string_or (json_opt emailNotCreated (js ''type'')) (js ''unknown'')))
          else if json_truthy subNotCreated
          then Inl (JmapMethodError (js ''EmailSubmission/set'')
                      (string_or (json_opt subNotCreated (js ''type'')) (js ''unknown'')))
          else if createdEmailId = [] \<or> createdSubId = []
          then Inl (JmapMethodError (js ''EmailSubmission/set'') (js ''unknown''))
          else Inr \<lparr>jtEmailId = createdEmailId, jtSubmissionId = createdSubId\<rparr>)"

definition submitEmail ::
  "'s Fetch \<Rightarrow> jsstring \<Rightarrow> AuthConfig \<Rightarrow> jsstring \<Rightarrow> JmapEmailDraft \<Rightarrow> jsstring \<Rightarrow>
   ('s, jmap_error, JmapSubmitted) eff" where
  "submitEmail fetch apiUrl auth acc draft rawIdentityId =
     bindM (find_drafts fetch apiUrl auth acc) (\<lambda>mailboxResponse.
     bindM (throwsJ (json_prop mailboxResponse (js ''ids''))) (\<lambda>ids.
     case as_strings ids of
       [] \<Rightarrow> throwM (JmapMethodError (js ''Mailbox/query'') (js ''notFound''))
     | draftsMailboxId # _ \<Rightarrow>
         bindM (send_batch fetch apiUrl auth (submit_calls acc draftsMailboxId draft rawIdentityId))
           (\<lambda>responses. liftM (submit_result responses))))"

section \<open>Changes of a query\<close>

definition query_changes_call :: "jsstring \<Rightarrow> jsstring \<Rightarrow> jsstring \<Rightarrow> method_call" where
  "query_changes_call acc mailboxId sinceQueryState =
     (js ''Email/queryChanges'',
      JsonObject [(js ''accountId'', JsonString acc),
                  (js ''filter'', JsonObject [(js ''inMailbox'', JsonString mailboxId)]),
                  (js ''sinceQueryState'', JsonString sinceQueryState)],
      js ''qc1'')"

definition as_number :: "json option \<Rightarrow> number" where
  "as_number v = (case v of Some (JsonNumber n) \<Rightarrow> n | _ \<Rightarrow> JInt 0)"

definition added_entries :: "json option \<Rightarrow> (jsstring \<times> number) list" where
  "added_entries v =
     (case v of
        Some (JsonArray vs) \<Rightarrow>
          map (\<lambda>a. (string_or (json_opt (Some a) (js ''id'')) [],
                   as_number (json_opt (Some a) (js ''index'')))) vs
      | _ \<Rightarrow> [])"

definition query_changes_of ::
  "jsstring \<Rightarrow> jsstring \<Rightarrow> json list \<Rightarrow> jmap_error + JmapQueryChanges" where
  "query_changes_of acc sinceQueryState responses =
     (let failure = JmapMethodError (js ''Email/queryChanges'') in
      case find_response (js ''qc1'') responses of
        Inl e \<Rightarrow> Inl (JmapOther e)
      | Inr None \<Rightarrow> Inl (failure (js ''invalidResponse''))
      | Inr (Some response) \<Rightarrow>
          let result = json_opt (Some response) (js ''1'') in
          (case json_prop result (js ''type'') of
             Inl e \<Rightarrow> Inl (JmapOther e)
           | Inr t \<Rightarrow>
               if t = Some (JsonString (js ''cannotCalculateChanges''))
               then Inl (failure (js ''cannotCalculateChanges''))
               else
                 Inr \<lparr>jcAccountId = acc,
                      jcOldQueryState =
                        string_or (json_opt result (js ''oldQueryState'')) sinceQueryState,
                      jcNewQueryState = string_or (json_opt result (js ''newQueryState'')) [],
                      jcAdded = added_entries (json_opt result (js ''added'')),
                      jcRemoved = as_strings (json_opt result (js ''removed'')),
                      jcTotal = as_number (json_opt result (js ''total''))\<rparr>))"

definition getEmailQueryChanges ::
  "'s Fetch \<Rightarrow> jsstring \<Rightarrow> AuthConfig \<Rightarrow> jsstring \<Rightarrow> jsstring \<Rightarrow> jsstring \<Rightarrow>
   ('s, jmap_error, JmapQueryChanges) eff" where
  "getEmailQueryChanges fetch apiUrl auth acc mailboxId sinceQueryState =
     bindM (wrap_failure (js ''Email/queryChanges'')
              (fetchJmapRaw fetch apiUrl auth [query_changes_call acc mailboxId sinceQueryState]))
       (\<lambda>responses. liftM (query_changes_of acc sinceQueryState responses))"

section \<open>The adapter\<close>

text \<open>The getter \<open>apiUrl\<close> over the field \<open>sessionData\<close>.\<close>

definition adapter_apiUrl :: "('s, JmapSession option) cell \<Rightarrow> ('s, jmap_error, jsstring) eff" where
  "adapter_apiUrl sessionData =
     bindM (readM sessionData) (\<lambda>session.
     case session of
       Some v \<Rightarrow>
         if jsApiUrl v \<noteq> [] then retM (jsApiUrl v)
         else throwM (JmapOther (Error (js ''Session has not been opened or apiUrl is missing'')))
     | None \<Rightarrow> throwM (JmapOther (Error (js ''Session has not been opened or apiUrl is missing''))))"

definition adapter_openSession ::
  "'s Fetch \<Rightarrow> ('s, JmapSession option) cell \<Rightarrow> jsstring \<Rightarrow> AuthConfig \<Rightarrow>
   ('s, jmap_error, JmapSession) eff" where
  "adapter_openSession fetch sessionData sessionUrl auth =
     bindM (discoverSession fetch sessionUrl auth) (\<lambda>session.
     bindM (assignM sessionData (Some session)) (\<lambda>_. retM session))"

definition JamClientAdapter ::
  "('s, 'f) JamClient \<Rightarrow> 's Fetch \<Rightarrow> ('s, JmapSession option) cell \<Rightarrow> jsstring \<Rightarrow> AuthConfig \<Rightarrow>
   ('s, 'f) JmapClient" where
  "JamClientAdapter jam fetch sessionData sessionUrl auth =
     \<lparr>jxOpenSession = adapter_openSession fetch sessionData sessionUrl auth,
      jxGetMailboxes = getMailboxes jam, jxGetIdentities = getIdentities jam,
      jxQueryEmails = queryEmails jam, jxGetEmails = getEmails jam,
      jxGetEmailChanges = getEmailChanges jam,
      jxGetEmailQueryChanges =
        (\<lambda>acc mailboxId sinceQueryState. bindM (adapter_apiUrl sessionData) (\<lambda>url.
           getEmailQueryChanges fetch url auth acc mailboxId sinceQueryState)),
      jxGetEmailBody = getEmailBody jam, jxGetEmailAttachments = getEmailAttachments jam,
      jxUpdateEmailKeywords =
        (\<lambda>acc emailId keywords. bindM (adapter_apiUrl sessionData) (\<lambda>url.
           patchEmailKeywords fetch url auth acc emailId keywords)),
      jxUpdateEmailMailboxes =
        (\<lambda>acc emailId mailboxIds. bindM (adapter_apiUrl sessionData) (\<lambda>url.
           patchEmailMailboxes fetch url auth acc emailId mailboxIds)),
      jxSubmitEmail =
        (\<lambda>acc draft rawIdentityId. bindM (adapter_apiUrl sessionData) (\<lambda>url.
           submitEmail fetch url auth acc draft rawIdentityId))\<rparr>"

end
