(* ===== verification/Jmap_Theorems.thy ===== *)
theory Jmap_Theorems
  imports Jmap_Remote Jmap_Adapter
begin

text \<open>
  What the JMAP adapter guarantees: a delta is exactly what the pages of changes say, a snapshot
  of a server that counts its mailboxes is complete, a snapshot of one that does not stops at the
  first page of every mailbox, a body is never taken from a damaged part, and what a send and a
  change of an e-mail report of their outcome.
\<close>

section \<open>Fetching exactly some e-mails\<close>

lemma jmapE_iff [simp]:
  "jmapE r s = (Inr a, t) \<longleftrightarrow> r = Inr a \<and> t = s"
  by (cases r) (auto simp: jmapE_def)

lemma take_expected_mset:
  "take_expected es expected = Inr left \<Longrightarrow> distinct expected \<Longrightarrow>
   mset expected = mset (map jeId es) + mset left"
proof (induction es arbitrary: expected)
  case (Cons e es)
  then have mem: "jeId e \<in> set expected" and
    rest: "take_expected es (set_delete (jeId e) expected) = Inr left" by auto
  have "set_delete (jeId e) expected = remove1 (jeId e) expected"
    using Cons.prems(2) by (auto simp: set_delete_def distinct_remove1_removeAll
        removeAll_filter_not_eq intro!: filter_cong)
  with Cons.IH [OF rest] Cons.prems(2) have
    "mset expected - {#jeId e#} = mset (map jeId es) + mset left" by simp
  moreover have "mset expected = add_mset (jeId e) (mset expected - {#jeId e#})" using mem by simp
  ultimately show ?case by simp
qed simp

lemma fetch_batches_ids:
  "fetch_batches client acc b st batches s = (Inr (emails, st'), t) \<Longrightarrow>
   list_all distinct batches \<Longrightarrow> mset (map jeId emails) = mset (concat batches)"
proof (induction batches arbitrary: st s emails)
  case (Cons batch rest)
  from Cons.prems(1) obtain result s1 left more st1 where parts:
    "jxGetEmails client acc batch s = (Inr result, s1)"
    "take_expected (jlEmails result) (set_of_list batch) = Inr left" "left = []"
    "fetch_batches client acc b st1 rest s1 = (Inr (more, st'), t)"
    "emails = jlEmails result @ more"
    by (auto simp: bindM_Inr_iff Let_def jmap_fail_def split: if_splits)
  with Cons.prems(2) take_expected_mset [OF parts(2)]
  have "mset (map jeId (jlEmails result)) = mset batch" by simp
  with Cons.IH [OF parts(4)] Cons.prems(2) parts(5) show ?case by simp
qed simp

lemma concat_chunks: "0 < n \<Longrightarrow> concat (chunks xs n) = xs"
  by (induction xs n rule: chunks.induct) (subst chunks.simps, auto)

lemma distinct_chunks: "distinct xs \<Longrightarrow> list_all distinct (chunks xs n)"
  by (induction xs n rule: chunks.induct)
    (subst chunks.simps, auto simp: distinct_take distinct_drop)

lemma fetchExactEmails_ids:
  assumes "fetchExactEmails client acc ids b s = (Inr (emails, st), t)" "distinct ids"
  shows "mset (map jeId emails) = mset ids"
proof -
  obtain st' where "fetch_batches client acc b None
      (if ids = [] then [[]] else chunks ids PAGE_SIZE) s = (Inr (emails, st'), t)"
    using assms(1) by (auto simp: fetchExactEmails_def bindM_Inr_iff split: prod.splits)
  from fetch_batches_ids [OF this] assms(2) show ?thesis
    by (auto simp: distinct_chunks concat_chunks PAGE_SIZE_def split: if_splits)
qed

lemma mapJmapEmail_ids: "mapE mapJmapEmail es = Inr rs \<Longrightarrow> map rlId rs = map jeId es"
proof (rule mapE_map_eq)
  show "\<And>x y. mapJmapEmail x = Inr y \<Longrightarrow> rlId y = jeId x"
    by (auto simp: mapJmapEmail_def bindE_Inr_iff remote_id_defs remoteIdFromString_def)
qed

section \<open>Deltas\<close>

text \<open>The pages of changes a synchronisation reads, from a state, in the order it reads them.\<close>

fun delta_run ::
  "('s, 'f) JmapClient \<Rightarrow> RemoteAccountId \<Rightarrow> jsstring \<Rightarrow> 's \<Rightarrow> JmapDelta list \<Rightarrow> 's \<Rightarrow> bool" where
  "delta_run client acc state s [] t = False"
| "delta_run client acc state s (d # ds) t =
     (case jxGetEmailChanges client acc state s of
        (Inl _, _) \<Rightarrow> False
      | (Inr e, u) \<Rightarrow>
          d = e \<and> (if jdHasMoreChanges d then delta_run client acc (jdNewState d) u ds t
                   else ds = [] \<and> t = u))"

definition reported :: "JmapDelta list \<Rightarrow> jsstring set" where
  "reported ds = (\<Union>d \<in> set ds. set (jdCreated d) \<union> set (jdUpdated d))"

definition removed :: "JmapDelta list \<Rightarrow> jsstring set" where
  "removed ds = (\<Union>d \<in> set ds. set (jdDestroyed d))"

lemma fold_note:
  "fold (\<lambda>i (c, d). (set_delete i c, set_add i d)) is (c, d) =
     (fold set_delete is c, fold set_add is d)"
  by (induction "is" arbitrary: c d) auto

lemma note_delta_sets:
  "note_delta delta (c, d) =
     (fold set_delete (jdDestroyed delta) (fold set_add (jdCreated delta @ jdUpdated delta) c),
      fold set_add (jdDestroyed delta) d)"
  by (simp add: note_delta_def fold_note)

text \<open>Where a run of pages leaves the two sets.\<close>

lemma delta_pages_success:
  "delta_pages n client acc state (c, d) s = (Inr r, t) \<Longrightarrow> distinct c \<Longrightarrow> distinct d \<Longrightarrow>
   \<exists>ds u changed destroyed.
     length ds \<le> n \<and> delta_run client acc state s ds u \<and>
     r = RemoteDelta (jdNewState (last ds)) changed destroyed \<and>
     distinct (map rlId changed) \<and> distinct destroyed \<and>
     set (map rlId changed) \<inter> set destroyed = {} \<and> set destroyed = set d \<union> removed ds \<and>
     set (map rlId changed) \<subseteq> set c \<union> reported ds \<and>
     set c \<union> reported ds \<subseteq> set (map rlId changed) \<union> removed ds"
proof (induction n arbitrary: state c d s)
  case (Suc n)
  let ?c = "\<lambda>delta. fold set_delete (jdDestroyed delta)
                (fold set_add (jdCreated delta @ jdUpdated delta) c)"
  let ?d = "\<lambda>delta. fold set_add (jdDestroyed delta) d"
  from Suc.prems(1) obtain delta u where page: "jxGetEmailChanges client acc state s = (Inr delta, u)"
    by (auto simp: bindM_Inr_iff)
  have distinct: "distinct (?c delta)" "distinct (?d delta)" using Suc.prems(2,3) by simp_all
  show ?case
  proof (cases "jdHasMoreChanges delta")
    case True
    with page Suc.prems(1) have rest: "delta_pages n client acc (jdNewState delta)
        (?c delta, ?d delta) u = (Inr r, t)"
      by (simp add: bindM_def note_delta_sets)
    from Suc.IH [OF rest distinct] obtain ds v changed destroyed where IH:
      "length ds \<le> n" "delta_run client acc (jdNewState delta) u ds v"
      "r = RemoteDelta (jdNewState (last ds)) changed destroyed"
      "distinct (map rlId changed)" "distinct destroyed"
      "set (map rlId changed) \<inter> set destroyed = {}"
      "set destroyed = set (?d delta) \<union> removed ds"
      "set (map rlId changed) \<subseteq> set (?c delta) \<union> reported ds"
      "set (?c delta) \<union> reported ds \<subseteq> set (map rlId changed) \<union> removed ds"
      by (auto simp: note_delta_sets)
    have "ds \<noteq> []" using IH(2) by auto
    moreover have "delta_run client acc state s (delta # ds) v" using page True IH(2) by simp
    moreover have "set (map rlId changed) \<subseteq> set c \<union> reported (delta # ds)"
      using IH(8) by (auto simp: reported_def)
    moreover have "set c \<union> reported (delta # ds) \<subseteq> set (map rlId changed) \<union> removed (delta # ds)"
      using IH(9) by (auto simp: reported_def removed_def)
    moreover have "set destroyed = set d \<union> removed (delta # ds)"
      using IH(7) by (auto simp: removed_def)
    ultimately show ?thesis using IH(1,3-6)
      by (intro exI [of _ "delta # ds"] exI [of _ v] exI [of _ changed] exI [of _ destroyed]) simp
  next
    case False
    with page Suc.prems(1) obtain fetched st v changed destroyed where parts:
      "fetchExactEmails client acc (?c delta) False u = (Inr (fetched, st), v)"
      "mapE mapJmapEmail fetched = Inr changed"
      "mapE remoteEmailIdFromString (?d delta) = Inr destroyed"
      "validateRemoteCollectionSync
         (RemoteDelta (remoteSyncStateFromString (jdNewState delta)) changed destroyed) rlId = Inr r"
      by (auto simp: bindM_def [of "jxGetEmailChanges client acc state"] bindM_Inr_iff
          note_delta_sets)
    have ids: "mset (map rlId changed) = mset (?c delta)"
      using fetchExactEmails_ids [OF parts(1) distinct(1)] mapJmapEmail_ids [OF parts(2)] by simp
    have gone: "destroyed = ?d delta"
      using mapE_map_eq [OF parts(3), of id id]
      by (auto simp: remote_id_defs remoteIdFromString_def)
    from parts(4) have valid: "r = RemoteDelta (jdNewState delta) changed destroyed"
      "set (map rlId changed) \<inter> set destroyed = {}"
      by (auto simp: validateRemoteCollectionSync_def bindE_Inr_iff check_values_Inr
          check_destroyed_Inr remoteSyncStateFromString_def)
    have sets: "set (map rlId changed) = set (?c delta)" using ids by (metis set_mset_mset)
    moreover have "distinct (map rlId changed)"
      using ids distinct(1) by (metis mset_eq_imp_distinct_iff)
    moreover have "delta_run client acc state s [delta] u" using page False by simp
    ultimately show ?thesis using valid gone distinct(2)
      by (intro exI [of _ "[delta]"] exI [of _ u] exI [of _ changed] exI [of _ destroyed])
        (auto simp: reported_def removed_def)
  qed
qed simp

lemma snapshot_not_delta:
  "completeEmailSnapshot client acc s \<noteq> (Inr (RemoteDelta st changed destroyed), t)"
  by (auto simp: completeEmailSnapshot_def jmap_try_def snapshot_emails_def bindM_Inr_iff
      validateRemoteCollectionSync_def bindE_Inr_iff split: prod.splits sum.splits)

text \<open>C34: When a synchronisation from a known state answers a delta, at most 20 pages of changes
  were read, each from the state the page before announced, until the first that announces no more.
  The new state is that of the last page. The destroyed identifiers are those the pages destroy,
  the changed e-mails are exactly the created and updated ones that no page destroys; no identifier
  is listed twice.\<close>

theorem jmap_delta_sound:
  assumes "jmap_syncEmails client acc (Some state) s = (Inr (RemoteDelta st changed destroyed), t)"
  shows "\<exists>ds u. length ds \<le> MAX_DELTA_PAGES \<and> delta_run client acc state s ds u \<and>
    st = jdNewState (last ds) \<and> distinct (map rlId changed) \<and> distinct destroyed \<and>
    set destroyed = removed ds \<and> set (map rlId changed) = reported ds - removed ds"
proof -
  have "delta_pages MAX_DELTA_PAGES client acc state ([], []) s =
      (Inr (RemoteDelta st changed destroyed), t)"
    using assms snapshot_not_delta
    by (fastforce simp: jmap_syncEmails_def split: prod.splits sum.splits if_splits)
  from delta_pages_success [OF this] obtain ds u where
    "length ds \<le> MAX_DELTA_PAGES" "delta_run client acc state s ds u"
    "st = jdNewState (last ds)" "distinct (map rlId changed)" "distinct destroyed"
    "set (map rlId changed) \<inter> set destroyed = {}" "set destroyed = removed ds"
    "set (map rlId changed) \<subseteq> reported ds" "reported ds \<subseteq> set (map rlId changed) \<union> removed ds"
    by auto
  then show ?thesis by (intro exI [of _ ds] exI [of _ u]) blast
qed

section \<open>Snapshots\<close>

text \<open>A server that lists its mailboxes, hands out every well-formed e-mail asked for and does not
  change.\<close>

definition well_formed :: "(jsstring \<Rightarrow> JmapEmail) \<Rightarrow> jsstring \<Rightarrow> bool" where
  "well_formed mail i \<longleftrightarrow> returns (mapJmapEmail (mail i))"

definition serves_collections ::
  "('s, 'f) JmapClient \<Rightarrow> RemoteAccountId \<Rightarrow> JmapMailbox list \<Rightarrow> (jsstring \<Rightarrow> JmapEmail) \<Rightarrow> jsstring \<Rightarrow> bool" where
  "serves_collections client acc boxes mail state \<longleftrightarrow>
     (\<forall>s. \<exists>st. jxGetMailboxes client acc s = (Inr \<lparr>jmMailboxes = boxes, jmState = st\<rparr>, s)) \<and>
     (\<forall>ids s. list_all (well_formed mail) ids \<longrightarrow> jxGetEmails client acc ids s =
        (Inr \<lparr>jlEmails = map mail ids, jlState = state\<rparr>, s)) \<and>
     (\<forall>i. jeId (mail i) = i)"

text \<open>It answers a query with at most a page of its own size, and counts the mailbox.\<close>

definition page_options :: "nat \<Rightarrow> QueryOptions" where
  "page_options p =
     \<lparr>joPosition = Some (JInt (int p)), joLimit = Some (JInt (int PAGE_SIZE)), joAnchor = None,
      joAnchorOffset = None\<rparr>"

definition serves_pages ::
  "('s, 'f) JmapClient \<Rightarrow> RemoteAccountId \<Rightarrow> nat \<Rightarrow> (jsstring \<Rightarrow> jsstring list) \<Rightarrow> bool" where
  "serves_pages client acc limit contents \<longleftrightarrow>
     (\<forall>box. \<exists>qs c. \<forall>p s. jxQueryEmails client acc box None (Some (page_options p)) s =
        (Inr \<lparr>jqIds = take limit (drop p (contents box)), jqQueryState = qs,
              jqTotal = JInt (int (length (contents box))), jqPosition = JInt (int p),
              jqCanCalculateChanges = c\<rparr>, s))"

lemma add_page_new:
  "distinct (seen @ is) \<Longrightarrow> add_page box is seen ids = Inr (seen @ is, fold set_add is ids)"
  by (induction "is" arbitrary: seen ids) (auto simp: set_add_def)

lemma query_pages_complete:
  assumes query: "\<And>p s. jxQueryEmails client acc box None (Some (page_options p)) s =
      (Inr \<lparr>jqIds = take limit (drop p c), jqQueryState = qs, jqTotal = JInt (int (length c)),
            jqPosition = JInt (int p), jqCanCalculateChanges = b\<rparr>, s)"
    and limit: "1 \<le> limit" "limit \<le> PAGE_SIZE" and c: "distinct c" "length c \<le> 2 ^ 53 - 1"
  shows "length c - p \<le> limit * n \<Longrightarrow> 0 < n \<Longrightarrow> p \<le> length c \<Longrightarrow>
    tot = None \<or> tot = Some (JInt (int (length c))) \<Longrightarrow> st = None \<or> st = Some qs \<Longrightarrow>
    query_pages n client acc box p tot st (take p c) ids s = (Inr (fold set_add (drop p c) ids), s)"
proof (induction n arbitrary: p tot st ids)
  case (Suc n)
  define page where "page = take limit (drop p c)"
  have short: "\<not> PAGE_SIZE < length page" using limit by (simp add: page_def)
  have seen: "take p c @ page = take (p + limit) c" by (simp add: page_def take_add)
  have add: "add_page box page (take p c) ids = Inr (take (p + limit) c, fold set_add page ids)"
    using add_page_new [of "take p c" page] c(1) by (simp add: seen)
  have progress: "\<not> length c \<le> p + length page \<Longrightarrow> page \<noteq> []"
    using limit(1) by (auto simp: page_def)
  note asked = query [of p s, folded page_def]
  have step: "query_pages (Suc n) client acc box p tot st (take p c) ids s =
      (if length c \<le> p + length page then (Inr (fold set_add page ids), s)
       else if n = 0 then (Inl (JmapOther (Error (js ''Mailbox replacement exceeded safety bound''))), s)
       else query_pages n client acc box (p + length page) (Some (JInt (int (length c)))) (Some qs)
              (take (p + limit) c) (fold set_add page ids) s)"
    unfolding query_pages.simps(2) bindM_def [of "jxQueryEmails client acc box None _"]
      page_options_def [symmetric] asked
    using Suc.prems(4,5) progress c(2)
    by (elim disjE; simp add: short add bindM_def jmapE_def liftM_def retM_def jmap_fail_def
        throwM_def Let_def)
  show ?case
  proof (cases "length c \<le> p + limit")
    case True
    then have "page = drop p c" "length c \<le> p + length page"
      using Suc.prems(3) by (simp_all add: page_def)
    with step show ?thesis by simp
  next
    case False
    then have more: "length page = limit" "\<not> length c \<le> p + length page"
      by (simp_all add: page_def)
    have bound: "length c - p \<le> limit + limit * n" using Suc.prems(1) by simp
    then have n: "0 < n" using False by (cases n) simp_all
    have left: "length c - (p + limit) \<le> limit * n" using bound by linarith
    have "drop p c = page @ drop (p + limit) c"
      unfolding page_def by (metis append_take_drop_id drop_drop add.commute)
    with Suc.IH [OF left n, of "Some (JInt (int (length c)))" "Some qs"] False show ?thesis
      by (simp add: step more n)
  qed
qed simp

lemma query_mailboxes_complete:
  assumes pages: "\<And>box ids s. box \<in> set boxes \<Longrightarrow>
      query_pages MAX_PAGES client acc (jbId box) 0 None None [] ids s =
        (Inr (fold set_add (pages (jbId box)) ids), s)"
  shows "query_mailboxes client acc boxes ids s =
    (Inr (fold set_add (concat (map (pages \<circ> jbId) boxes)) ids), s)"
  using pages
proof (induction boxes arbitrary: ids)
  case (Cons box boxes)
  then show ?case by (simp add: bindM_def)
qed simp

lemma take_expected_all:
  "(\<And>i. jeId (mail i) = i) \<Longrightarrow> distinct ids \<Longrightarrow>
   take_expected (map mail ids) ids = Inr []"
proof (induction ids)
  case (Cons i ids)
  then have "set_delete i (i # ids) = ids"
    by (auto simp: set_delete_def intro!: filter_True)
  with Cons show ?case by simp
qed simp

lemma fetch_batches_served:
  assumes "serves_collections client acc boxes mail state"
  shows "list_all (\<lambda>b. distinct b \<and> list_all (well_formed mail) b) batches \<Longrightarrow> st = None \<or> st = Some state \<Longrightarrow>
    \<exists>st'. fetch_batches client acc b st batches s = (Inr (map mail (concat batches), st'), s) \<and>
      (batches \<noteq> [] \<or> st = Some state \<longrightarrow> st' = Some state)"
proof (induction batches arbitrary: st)
  case (Cons batch batches)
  obtain st' where rest: "fetch_batches client acc b (Some state) batches s =
      (Inr (map mail (concat batches), st'), s)" "st' = Some state"
    using Cons.IH [of "Some state"] Cons.prems(1) by auto
  have "take_expected (map mail batch) batch = Inr []"
    using take_expected_all assms Cons.prems(1) by (simp add: serves_collections_def)
  with rest assms Cons.prems show ?case
    by (cases st) (simp_all add: serves_collections_def bindM_def jmapE_def liftM_def retM_def Let_def)
qed simp

lemma fetchExactEmails_served:
  assumes "serves_collections client acc boxes mail state" "distinct ids"
    "list_all (well_formed mail) ids"
  shows "fetchExactEmails client acc ids b s = (Inr (map mail ids, state), s)"
proof -
  let ?batches = "if ids = [] then [[]] else chunks ids PAGE_SIZE"
  have parts: "concat ?batches = ids" "?batches \<noteq> []"
    by (auto simp: concat_chunks PAGE_SIZE_def chunks.simps [of ids])
  have "list_all distinct ?batches" using assms(2) by (simp add: distinct_chunks)
  moreover have "list_all (well_formed mail) (concat ?batches)"
    unfolding parts(1) by (rule assms(3))
  ultimately have "list_all (\<lambda>b. distinct b \<and> list_all (well_formed mail) b) ?batches"
    by (auto simp: list_all_iff)
  with parts have "fetch_batches client acc b None ?batches s = (Inr (map mail ids, Some state), s)"
    using fetch_batches_served [OF assms(1), of ?batches None] by auto
  then show ?thesis by (simp add: fetchExactEmails_def bindM_def retM_def)
qed

lemma snapshot_served:
  assumes served: "serves_collections client acc boxes mail state"
    and pages: "\<And>box ids s. box \<in> set boxes \<Longrightarrow>
      query_pages MAX_PAGES client acc (jbId box) 0 None None [] ids s =
        (Inr (fold set_add (pages (jbId box)) ids), s)"
    and mapped: "\<And>i box. box \<in> set boxes \<Longrightarrow> i \<in> set (pages (jbId box)) \<Longrightarrow>
      well_formed mail i"
  shows "\<exists>emails. jmap_syncEmails client acc None s = (Inr (RemoteReplace state emails), s) \<and>
    map rlId emails = set_of_list (concat (map (pages \<circ> jbId) boxes))"
proof -
  let ?ids = "set_of_list (concat (map (pages \<circ> jbId) boxes))"
  have "\<exists>emails. mapE mapJmapEmail (map mail ids) = Inr emails"
    if "set ids \<subseteq> set ?ids" for ids
    using that
  proof (induction ids)
    case (Cons i ids)
    from Cons.prems mapped [of _ i] obtain r where "mapJmapEmail (mail i) = Inr r"
      by (auto simp: well_formed_def returns_iff)
    with Cons show ?case by auto
  qed simp
  then obtain emails where emails: "mapE mapJmapEmail (map mail ?ids) = Inr emails" by blast
  have ids: "map rlId emails = ?ids"
    using mapJmapEmail_ids [OF emails] served by (simp add: serves_collections_def o_def)
  have fetched: "fetchExactEmails client acc ?ids True s = (Inr (map mail ?ids, state), s)"
    using served by (rule fetchExactEmails_served) (use mapped in \<open>auto simp: list_all_iff\<close>)
  have valid: "validateRemoteCollectionSync (RemoteReplace state emails) rlId =
      Inr (RemoteReplace state emails)"
    using ids by (auto simp: validateRemoteCollectionSync_def bindE_Inr_iff check_values_Inr)
  obtain mst where boxes: "jxGetMailboxes client acc s = (Inr \<lparr>jmMailboxes = boxes, jmState = mst\<rparr>, s)"
    using served unfolding serves_collections_def by blast
  have "snapshot_emails client acc s = (Inr (RemoteReplace state emails), s)"
    by (simp add: snapshot_emails_def bindM_def boxes query_mailboxes_complete [OF pages]
        set_of_list_def [symmetric] fetched emails valid jmapE_def liftM_def
        remoteSyncStateFromString_def)
  with ids show ?thesis
    by (simp add: jmap_syncEmails_def completeEmailSnapshot_def jmap_try_def)
qed

text \<open>C33: Over a server that does not change, counts its mailboxes and answers pages of 1 to 500
  e-mails, a synchronisation without a known state ends and returns every e-mail of every mailbox
  once, in the order the mailboxes list them, provided no mailbox holds more than 10000 pages.\<close>

theorem jmap_snapshot_complete:
  assumes "serves_collections client acc boxes mail state" "serves_pages client acc limit contents"
    "1 \<le> limit" "limit \<le> PAGE_SIZE"
    "\<And>box. box \<in> set boxes \<Longrightarrow>
       distinct (contents (jbId box)) \<and> length (contents (jbId box)) \<le> limit * MAX_PAGES"
    "\<And>box i. box \<in> set boxes \<Longrightarrow> i \<in> set (contents (jbId box)) \<Longrightarrow> well_formed mail i"
  shows "\<exists>emails. jmap_syncEmails client acc None s = (Inr (RemoteReplace state emails), s) \<and>
    map rlId emails = set_of_list (concat (map (contents \<circ> jbId) boxes))"
proof (rule snapshot_served [OF assms(1) _ assms(6)])
  fix box ids s
  assume box: "box \<in> set boxes"
  let ?c = "contents (jbId box)"
  obtain qs b where query: "\<And>p s. jxQueryEmails client acc (jbId box) None (Some (page_options p)) s =
      (Inr \<lparr>jqIds = take limit (drop p ?c), jqQueryState = qs, jqTotal = JInt (int (length ?c)),
            jqPosition = JInt (int p), jqCanCalculateChanges = b\<rparr>, s)"
    using assms(2) unfolding serves_pages_def by blast
  have long: "length ?c \<le> limit * MAX_PAGES" "distinct ?c" using assms(5) [OF box] by simp_all
  moreover have "limit * MAX_PAGES \<le> 2 ^ 53 - 1"
    using assms(4) by (simp add: PAGE_SIZE_def MAX_PAGES_def)
  ultimately have "length ?c \<le> 2 ^ 53 - 1" by linarith
  from query_pages_complete [OF query assms(3,4) long(2) this, of 0 MAX_PAGES None None ids s] long(1)
  show "query_pages MAX_PAGES client acc (jbId box) 0 None None [] ids s =
      (Inr (fold set_add ?c ids), s)"
    by (simp add: MAX_PAGES_def)
qed

text \<open>A server that follows RFC 8620, section 5.5: the total is in the answer to a query only if
  the request asks for it, which the requests of \<open>queryEmails\<close> do not.\<close>

definition omits_totals :: "('s, 'f) JamClient \<Rightarrow> nat \<Rightarrow> (jsstring \<Rightarrow> jsstring list) \<Rightarrow> bool" where
  "omits_totals jam limit contents \<longleftrightarrow>
     (\<forall>request p s. joPosition (rqyOptions request) = Some (JInt (int p)) \<longrightarrow>
        (\<exists>qs c. jamEmailQuery jam request s =
           (Inr \<lparr>wqQueryState = qs, wqCanCalculateChanges = c, wqPosition = Some (JInt (int p)),
                 wqIds = Some (take limit (drop p (contents (rqyInMailbox request)))),
                 wqTotal = None\<rparr>, s)))"

text \<open>C36: Over such a server a synchronisation without a known state succeeds with the first page
  of every mailbox alone: an e-mail past the first page of its mailboxes is missing from what is
  reported as the complete collection.\<close>

theorem jmap_snapshot_first_page:
  assumes "serves_collections (JamClientAdapter jam fetch cell url auth) acc boxes mail state"
    "omits_totals jam limit contents" "limit \<le> PAGE_SIZE"
    "\<And>box. box \<in> set boxes \<Longrightarrow> distinct (contents (jbId box))"
    "\<And>box i. box \<in> set boxes \<Longrightarrow> i \<in> set (take limit (contents (jbId box))) \<Longrightarrow>
       well_formed mail i"
  shows "\<exists>emails. jmap_syncEmails (JamClientAdapter jam fetch cell url auth) acc None s =
      (Inr (RemoteReplace state emails), s) \<and>
    map rlId emails = set_of_list (concat (map (\<lambda>box. take limit (contents (jbId box))) boxes))"
proof -
  let ?client = "JamClientAdapter jam fetch cell url auth"
  have first: "query_pages MAX_PAGES ?client acc (jbId box) 0 None None [] ids s =
      (Inr (fold set_add (take limit (contents (jbId box))) ids), s)"
    if box: "box \<in> set boxes" for box ids s
  proof -
    let ?page = "take limit (contents (jbId box))"
    obtain qs c where raw: "jamEmailQuery jam
        \<lparr>rqyAccountId = acc, rqyInMailbox = jbId box, rqyFilter = None,
         rqyOptions = page_options 0\<rparr> s =
        (Inr \<lparr>wqQueryState = qs, wqCanCalculateChanges = c, wqPosition = Some (JInt 0),
              wqIds = Some ?page, wqTotal = None\<rparr>, s)"
      using assms(2) [unfolded omits_totals_def, rule_format, of
          "\<lparr>rqyAccountId = acc, rqyInMailbox = jbId box, rqyFilter = None,
            rqyOptions = page_options 0\<rparr>" 0 s]
      by (auto simp: page_options_def)
    have query: "jxQueryEmails ?client acc (jbId box) None (Some (page_options 0)) s =
        (Inr \<lparr>jqIds = ?page, jqQueryState = or_else qs [], jqTotal = JInt 0, jqPosition = JInt 0,
              jqCanCalculateChanges = or_else c False\<rparr>, s)"
      by (simp add: JamClientAdapter_def queryEmails_def bindM_def jam_try_def or_else_def raw retM_def)
    have add: "add_page (jbId box) ?page [] ids = Inr (?page, fold set_add ?page ids)"
      using add_page_new [of "[]" ?page] assms(4) [OF box] by simp
    have pages: "MAX_PAGES = Suc 9999" by (simp add: MAX_PAGES_def)
    have fits: "\<not> PAGE_SIZE < length ?page" using assms(3) by simp
    show ?thesis
      unfolding pages query_pages.simps(2) page_options_def [symmetric]
      unfolding bindM_def [of "jxQueryEmails ?client acc (jbId box) None _"] query
      by (simp add: fits add bindM_def jmapE_def liftM_def retM_def Let_def del: length_take)
  qed
  have "\<exists>emails. jmap_syncEmails ?client acc None s = (Inr (RemoteReplace state emails), s) \<and>
      map rlId emails = set_of_list (concat (map ((\<lambda>b. take limit (contents b)) \<circ> jbId) boxes))"
    by (rule snapshot_served [OF assms(1) first assms(5)])
  then show ?thesis by (simp add: o_def)
qed

section \<open>Bodies and attachments\<close>

text \<open>The parts of a message in document order, and the text a part yields.\<close>

fun all_parts :: "RawJmapEmailBodyPart \<Rightarrow> RawJmapEmailBodyPart list" where
  "all_parts (BodyPart partId blobId sz name typ disposition cid subParts) =
     BodyPart partId blobId sz name typ disposition cid subParts # concat (map all_parts subParts)"

definition part_text ::
  "(jsstring \<times> RawJmapEmailBodyValue) list \<Rightarrow> RawJmapEmailBodyPart \<Rightarrow> jsstring option" where
  "part_text bodyValues part =
     (if truthy (bpPartId part) then extractFromPartId bodyValues (the (bpPartId part)) else None)"

definition first_text ::
  "(jsstring \<times> RawJmapEmailBodyValue) list \<Rightarrow> jsstring \<Rightarrow> RawJmapEmailBodyPart \<Rightarrow> jsstring option" where
  "first_text bodyValues t structure =
     (case List.map_filter (part_text bodyValues) (filter (\<lambda>p. bpType p = t) (all_parts structure)) of
        [] \<Rightarrow> None
      | s # _ \<Rightarrow> Some s)"

lemma part_text_usable:
  "part_text bodyValues part = Some s \<Longrightarrow>
   \<exists>v. map_of bodyValues (the (bpPartId part)) = Some v \<and> \<not> bvIsEncodingProblem v \<and>
     \<not> bvIsTruncated v \<and> bvValue v = Some s \<and> s \<noteq> []"
  by (auto simp: part_text_def extractFromPartId_def split: if_splits option.splits)

lemma findPartIds_parts:
  "findPartIdsByType p t =
     map (\<lambda>q. the (bpPartId q)) (filter (\<lambda>q. bpType q = t \<and> truthy (bpPartId q)) (all_parts p))"
proof (induction p t rule: findPartIdsByType.induct)
  case (1 partId blobId sz nm ty disp cid subParts t)
  then show ?case by (simp add: filter_concat map_concat o_def cong: map_cong)
qed

lemma first_part_parts:
  "first_part bodyValues (map (\<lambda>q. the (bpPartId q))
       (filter (\<lambda>q. bpType q = t \<and> truthy (bpPartId q)) ps)) =
     (case List.map_filter (part_text bodyValues) (filter (\<lambda>p. bpType p = t) ps) of
        [] \<Rightarrow> None | s # _ \<Rightarrow> Some s)"
  by (induction ps) (auto simp: part_text_def split: option.splits)

lemma attachments_parts:
  "extractAttachments p = map attachment_of (filter is_attachment_part (all_parts p))"
proof (induction p rule: extractAttachments.induct)
  case (1 partId blobId sz nm ty disp cid subParts)
  then show ?case by (simp add: filter_concat map_concat o_def Let_def cong: map_cong)
qed

text \<open>The body of a message is, for HTML and for plain text, the text of the first part of that
  type, in document order, whose value is present, not empty, decoded and complete; there is no
  body when neither type has such a part. The attachments are the parts with a blob that are
  attached, inline or neither HTML nor plain text, in document order.\<close>

theorem jmap_body_parts:
  "extractEmailBody emailId structure bodyValues =
     (let html = first_text bodyValues (js ''text/html'') structure;
          txt = first_text bodyValues (js ''text/plain'') structure in
      if html = None \<and> txt = None then None
      else Some \<lparr>jyEmailId = emailId, jyHtml = html, jyText = txt\<rparr>) \<and>
   (first_text bodyValues t structure = Some s \<longrightarrow>
      (\<exists>part v. part \<in> set (all_parts structure) \<and> bpType part = t \<and>
         map_of bodyValues (the (bpPartId part)) = Some v \<and> bvValue v = Some s \<and> s \<noteq> [] \<and>
         \<not> bvIsEncodingProblem v \<and> \<not> bvIsTruncated v)) \<and>
   extractAttachments structure = map attachment_of (filter is_attachment_part (all_parts structure))"
proof (intro conjI impI)
  show "extractEmailBody emailId structure bodyValues =
     (let html = first_text bodyValues (js ''text/html'') structure;
          txt = first_text bodyValues (js ''text/plain'') structure in
      if html = None \<and> txt = None then None
      else Some \<lparr>jyEmailId = emailId, jyHtml = html, jyText = txt\<rparr>)"
    by (simp add: extractEmailBody_def findPartIds_parts first_part_parts first_text_def Let_def)
next
  assume "first_text bodyValues t structure = Some s"
  then have "s \<in> set (List.map_filter (part_text bodyValues)
      (filter (\<lambda>p. bpType p = t) (all_parts structure)))"
    by (auto simp: first_text_def split: list.splits)
  then obtain part where "part \<in> set (all_parts structure)" "bpType part = t"
    "part_text bodyValues part = Some s"
    by (auto simp: List.map_filter_def)
  with part_text_usable [OF this(3)]
  show "\<exists>part v. part \<in> set (all_parts structure) \<and> bpType part = t \<and>
      map_of bodyValues (the (bpPartId part)) = Some v \<and> bvValue v = Some s \<and> s \<noteq> [] \<and>
      \<not> bvIsEncodingProblem v \<and> \<not> bvIsTruncated v"
    by blast
qed (rule attachments_parts)

section \<open>What a send and a change report\<close>

text \<open>A request was sent and no readable answer came back.\<close>

definition no_answer :: "'s Fetch \<Rightarrow> HttpRequest \<Rightarrow> 's \<Rightarrow> 's \<Rightarrow> bool" where
  "no_answer fetch request u t \<longleftrightarrow>
     (case fetch request u of
        (Inl _, v) \<Rightarrow> v = t
      | (Inr response, v) \<Rightarrow> v = t \<and> method_responses response = Inl JmapNetworkError)"

text \<open>The request that creates and submits the message, once the drafts mailbox is known.\<close>

definition submission_request ::
  "'s Fetch \<Rightarrow> jsstring \<Rightarrow> AuthConfig \<Rightarrow> jsstring \<Rightarrow> JmapEmailDraft \<Rightarrow> jsstring \<Rightarrow> 's \<Rightarrow>
   (HttpRequest \<times> 's) option" where
  "submission_request fetch apiUrl auth acc draft identityId s =
     (case bindM (find_drafts fetch apiUrl auth acc) (\<lambda>r. throwsJ (json_prop r (js ''ids''))) s of
        (Inr ids, u) \<Rightarrow>
          (case (as_strings ids, auth_header auth) of
             (drafts # _, Inr header) \<Rightarrow>
               Some (jmap_request apiUrl header (submit_calls acc drafts draft identityId), u)
           | _ \<Rightarrow> None)
      | _ \<Rightarrow> None)"

definition plain_error :: "jmap_error \<Rightarrow> bool" where
  "plain_error e \<longleftrightarrow>
     (case e of JmapNetworkError \<Rightarrow> False | JmapSubmissionAmbiguousError \<Rightarrow> False
      | JmapOther (RemoteExn _) \<Rightarrow> False | _ \<Rightarrow> True)"

lemma json_prop_error: "json_prop v k = Inl e \<Longrightarrow> \<exists>m. e = TypeError m"
  by (auto simp: json_prop_def split: option.splits json.splits)

lemma find_response_error: "find_response i rs = Inl e \<Longrightarrow> \<exists>m. e = TypeError m"
  by (induction rs) (auto simp: bindE_def json_prop_error split: sum.splits if_splits)

lemma throwsJ_json [simp]: "throwsJ r s = ((case r of Inl e \<Rightarrow> Inl (JmapOther e) | Inr a \<Rightarrow> Inr a), s)"
  by (simp add: throwsJ_def plain_try_def liftM_def split: sum.splits)

lemma submit_result_plain: "submit_result rs = Inl e \<Longrightarrow> plain_error e"
  by (auto simp: submit_result_def set_response_def bindE_def Let_def plain_error_def
      dest!: find_response_error split: sum.splits if_splits prod.splits)

lemma drafts_failure_plain [simp]: "plain_error (drafts_failure e)"
  by (simp add: drafts_failure_def plain_error_def split: jmap_error.splits)

lemma batch_error:
  assumes "auth_header auth = Inr header"
    "send_batch fetch apiUrl auth calls u = (Inl e, t)"
  shows "if no_answer fetch (jmap_request apiUrl header calls) u t
    then e = JmapSubmissionAmbiguousError else plain_error e"
  using assms
  by (auto simp: send_batch_def fetchJmapRaw_def bindM_def network_try_def no_answer_def
      batch_failure_def plain_error_def method_responses_def liftM_def
      split: prod.splits sum.splits if_splits option.splits json.splits)

lemma batch_answered:
  assumes "auth_header auth = Inr header" "send_batch fetch apiUrl auth calls u = (Inr rs, t)"
  shows "\<not> no_answer fetch (jmap_request apiUrl header calls) u v"
  using assms
  by (auto simp: send_batch_def fetchJmapRaw_def bindM_def network_try_def no_answer_def liftM_def
      split: prod.splits sum.splits)

lemma auth_header_error: "auth_header auth = Inl e \<Longrightarrow> \<exists>m. e = OtherExn m"
  by (auto simp: auth_header_def string_btoa_def bindE_def throw_if_def
      split: AuthConfig.splits sum.splits if_splits)

lemma batch_unsent:
  assumes "auth_header auth = Inl x" "send_batch fetch apiUrl auth calls u = (r, t)"
  shows "\<exists>e. r = Inl e \<and> plain_error e"
  using assms
  by (auto simp: send_batch_def fetchJmapRaw_def bindM_def batch_failure_def plain_error_def)

lemma submitEmail_error:
  assumes "submitEmail fetch apiUrl auth acc draft identityId s = (Inl e, t)"
  shows "if (case submission_request fetch apiUrl auth acc draft identityId s of
               Some (request, u) \<Rightarrow> no_answer fetch request u t | None \<Rightarrow> False)
    then e = JmapSubmissionAmbiguousError else plain_error e"
proof (cases "find_drafts fetch apiUrl auth acc s")
  case (Pair r u)
  show ?thesis
  proof (cases r)
    case (Inl x)
    with Pair assms show ?thesis
      by (auto simp: submitEmail_def submission_request_def bindM_def find_drafts_def
          split: prod.splits sum.splits)
  next
    case (Inr v)
    show ?thesis
    proof (cases "json_prop v (js ''ids'')")
      case (Inl x)
      with Pair Inr assms json_prop_error [OF Inl] show ?thesis
        by (auto simp: submitEmail_def submission_request_def bindM_def plain_error_def)
    next
      case ids: (Inr ids)
      show ?thesis
      proof (cases "as_strings ids")
        case Nil
        with Pair Inr ids assms show ?thesis
          by (auto simp: submitEmail_def submission_request_def bindM_def plain_error_def)
      next
        case (Cons d ds)
        let ?calls = "submit_calls acc d draft identityId"
        have run: "bindM (send_batch fetch apiUrl auth ?calls)
            (\<lambda>responses. liftM (submit_result responses)) u = (Inl e, t)"
          using Pair Inr ids Cons assms by (simp add: submitEmail_def bindM_def)
        show ?thesis
        proof (cases "auth_header auth")
          case (Inl x)
          with run Pair Inr ids Cons show ?thesis
            by (auto simp: submission_request_def bindM_Inl_iff bindM_def [of "find_drafts _ _ _ _"]
                dest!: batch_unsent [OF Inl])
        next
          case (Inr header)
          from run have "send_batch fetch apiUrl auth ?calls u = (Inl e, t) \<or>
              (\<exists>rs w. send_batch fetch apiUrl auth ?calls u = (Inr rs, w) \<and>
                submit_result rs = Inl e)"
            by (auto simp: bindM_Inl_iff)
          with batch_error [OF Inr] batch_answered [OF Inr] submit_result_plain
            Pair \<open>r = Inr v\<close> ids Cons Inr
          show ?thesis
            by (fastforce simp: submission_request_def bindM_def [of "find_drafts _ _ _ _"])
        qed
      qed
    qed
  qed
qed

lemma submit_result_id: "submit_result rs = Inr r \<Longrightarrow> jtEmailId r \<noteq> []"
  by (auto simp: submit_result_def Let_def split: sum.splits prod.splits if_splits)

lemma submitEmail_id:
  assumes "submitEmail fetch apiUrl auth acc draft identityId s = (Inr r, t)"
  shows "jtEmailId r \<noteq> []"
proof -
  from assms obtain v ids u where
    "(case as_strings ids of
        [] \<Rightarrow> throwM (JmapMethodError (js ''Mailbox/query'') (js ''notFound''))
      | d # _ \<Rightarrow>
          bindM (send_batch fetch apiUrl auth (submit_calls acc d draft identityId))
            (\<lambda>responses. liftM (submit_result responses))) u = (Inr r, t)"
    by (auto simp: submitEmail_def bindM_Inr_iff)
  then show ?thesis
    by (cases "as_strings ids") (auto simp: bindM_Inr_iff dest!: submit_result_id [OF sym])
qed

text \<open>C35: A plain message with an identity, sent over an open session: when the send fails, the
  outcome is reported unknown, to be reconciled, exactly if the request that creates and submits the
  message was sent and no readable answer came back. Every other failure, among them all of the
  request before it and every refusal, is reported as known not applied.\<close>

theorem jmap_submission_outcome:
  assumes "cellGet cell s = Some session" "jsApiUrl session \<noteq> []"
    "smRemoteIdentityId message = Some identityId" "smBody message = SubmitPlain body html"
    "JmapSubmission (JamClientAdapter jam fetch cell url auth) message key s = (Inl (RemoteExn e), t)"
  shows "if (case submission_request fetch (jsApiUrl session) auth (smRemoteAccountId message)
                    (draft_of message body html) identityId s of
               Some (request, u) \<Rightarrow> no_answer fetch request u t | None \<Rightarrow> False)
    then reOutcome e = OUnknown \<and> reRetry e = RReconcile
    else reOutcome e = OKnownNotApplied"
proof -
  let ?submit = "submitEmail fetch (jsApiUrl session) auth (smRemoteAccountId message)
      (draft_of message body html) identityId"
  have submit: "jxSubmitEmail (JamClientAdapter jam fetch cell url auth)
      (smRemoteAccountId message) (draft_of message body html) identityId s = ?submit s"
    using assms(1,2) by (simp add: JamClientAdapter_def bindM_def adapter_apiUrl_def readM_def retM_def)
  from assms(3-5) obtain x where run: "e = toRemoteError x (submission_outcome x)"
    "?submit s = (Inl x, t) \<or>
     (\<exists>m. x = JmapOther (TypeError m) \<and> (\<exists>r. ?submit s = (Inr r, t) \<and> jtEmailId r = []))"
    by (auto simp: JmapSubmission_def bindM_def submit jmapE_def liftM_def remote_id_defs
        remoteIdFromString_def throw_if_def split: prod.splits sum.splits if_splits)
  have answered: "jtEmailId r \<noteq> []" if "?submit s = (Inr r, t)" for r
    using that by (rule submitEmail_id)
  with run have "?submit s = (Inl x, t)" by blast
  from submitEmail_error [OF this] run(1) show ?thesis
    by (auto simp: toRemoteError_def submission_outcome_def plain_error_def
        split: jmap_error.splits exn.splits if_splits)
qed

text \<open>The answer of a server to a method call it refuses as a whole.\<close>

definition method_error :: "jsstring \<Rightarrow> json" where
  "method_error errorType =
     JsonArray [JsonString (js ''error''), JsonObject [(js ''type'', JsonString errorType)],
                JsonString (js ''e1'')]"

lemma network_failure:
  "toRemoteError (JmapMethodError method (js ''networkOrServerFail'')) outcome =
     \<lparr>reKind = KProtocol, reRetry = RSafeBackoff, reSession = SKeep, reOutcome = outcome\<rparr>"
  by (simp add: toRemoteError_def jmap_method_kind_def isRetryable_def
      RETRYABLE_METHOD_ERROR_TYPES_def js_def)

text \<open>C37: Over an open session and a bearer token, a change of keywords is reported as applied when the
  server answers it with a method-level error (RFC 8620, section 3.6.2), and when the answer does not
  mention the change at all; the account being refused (401) is reported as a protocol failure worth
  retrying, in a session worth keeping.\<close>

theorem jmap_change_unverified:
  assumes "cellGet cell s = Some session" "jsApiUrl session \<noteq> []" "auth = BearerAuth token"
    "fetch (jmap_request (jsApiUrl session) (js ''Bearer '' @ token)
       [email_set (js ''keywords'') acc emailId (patch_of (rkAdd change) (rkRemove change))]) s =
       (Inr \<lparr>hpStatus = code, hpJson = answer\<rparr>, t)"
    "answer = Some (JsonObject [(js ''methodResponses'', JsonArray responses)])"
  shows "(code = 200 \<and> responses \<in> {[method_error errorType], []} \<longrightarrow>
      jmap_applyKeywordChange (JamClientAdapter jam fetch cell url auth) acc emailId change s =
        (Inr (), t)) \<and>
    (code = 401 \<longrightarrow>
      jmap_applyKeywordChange (JamClientAdapter jam fetch cell url auth) acc emailId change s =
        (Inl (RemoteExn \<lparr>reKind = KProtocol, reRetry = RSafeBackoff, reSession = SKeep,
                         reOutcome = OKnownNotApplied\<rparr>), t))"
proof -
  have open_session: "adapter_apiUrl cell s = (Inr (jsApiUrl session), s)"
    using assms(1,2) by (simp add: adapter_apiUrl_def bindM_def readM_def retM_def)
  have sent: "fetchJmapRaw fetch (jsApiUrl session) auth
      [email_set (js ''keywords'') acc emailId (patch_of (rkAdd change) (rkRemove change))] s =
      (method_responses \<lparr>hpStatus = code, hpJson = answer\<rparr>, t)"
    using assms(3,4) by (simp add: fetchJmapRaw_def auth_header_def bindM_def network_try_def liftM_def)
  note run = jmap_applyKeywordChange_def JamClientAdapter_def jmap_try_def bindM_def open_session
    patchEmailKeywords_def patch_email_def wrap_failure_def sent liftM_def
  have "method_responses \<lparr>hpStatus = 200, hpJson = answer\<rparr> = Inr responses"
    using assms(5) by (simp add: method_responses_def unauthorised_def response_ok_def json_opt_def
        json_prop_def json_get_def)
  moreover have "update_result emailId [method_error errorType] = Inr ()" "update_result emailId [] = Inr ()"
    by (simp_all add: update_result_def json_prop_def json_get_def js_of_nat_def digits10.simps js_def
        json_truthy_def method_error_def)
  moreover have "method_responses \<lparr>hpStatus = 401, hpJson = answer\<rparr> = Inl JmapAuthError"
    by (simp add: method_responses_def unauthorised_def)
  ultimately show ?thesis by (auto simp: run network_failure)
qed

section \<open>A sample server\<close>

text \<open>One mailbox of two e-mails, served a page of one e-mail at a time; two pages of changes; a
  network that answers the first request and drops the second.\<close>

definition raw_mail :: "jsstring \<Rightarrow> RawJmapEmail" where
  "raw_mail i =
     \<lparr>weId = Some i, weBlobId = Some (js ''b''), weThreadId = Some (js ''t''), weSender = None,
      weFrom = None, weReplyTo = None, weTo = None, weCc = None, weBcc = None, weSubject = None,
      weSentAt = None, weReceivedAt = Some (js ''2024''), weSize = None, wePreview = None,
      weHasAttachment = None, weKeywords = None, weMailboxIds = Some [(js ''B'', True)]\<rparr>"

definition mapped_mail :: "jsstring \<Rightarrow> JmapEmail" where
  "mapped_mail i =
     \<lparr>jeId = i, jeBlobId = js ''b'', jeThreadId = js ''t'', jeSender = None, jeFrom = None,
      jeReplyTo = None, jeTo = None, jeCc = None, jeBcc = None, jeSubject = None, jeSentAt = None,
      jeReceivedAt = js ''2024'', jeSize = JInt 0, jePreview = [], jeHasAttachment = False,
      jeKeywords = [], jeMailboxIds = [js ''B'']\<rparr>"

definition raw_box :: RawJmapMailbox where
  "raw_box =
     \<lparr>wbId = js ''B'', wbName = js ''B'', wbParentId = None, wbRole = None, wbSortOrder = None,
      wbTotalEmails = None, wbUnreadEmails = None, wbMyRights = None\<rparr>"

definition sample_contents :: "jsstring \<Rightarrow> jsstring list" where
  "sample_contents box = [js ''1'', js ''2'']"

definition asked_position :: "QueryOptions \<Rightarrow> nat" where
  "asked_position options = (case joPosition options of Some (JInt i) \<Rightarrow> nat i | _ \<Rightarrow> 0)"

definition sample_changes :: "jsstring \<Rightarrow> RawJmapChangesResponse" where
  "sample_changes state =
     (if state = js ''s''
      then \<lparr>wcCannotCalculateChanges = False, wcOldState = state, wcNewState = js ''s1'',
            wcHasMoreChanges = True, wcCreated = Some [js ''3''], wcUpdated = Some [js ''1''],
            wcDestroyed = None\<rparr>
      else \<lparr>wcCannotCalculateChanges = False, wcOldState = state, wcNewState = js ''s2'',
            wcHasMoreChanges = False, wcCreated = None, wcUpdated = None,
            wcDestroyed = Some [js ''3'', js ''2'']\<rparr>)"

definition sample_jam :: "(nat, unit) JamClient" where
  "sample_jam =
     \<lparr>jamMailboxGet = (\<lambda>_. retM \<lparr>wgList = Some [raw_box], wgState = Some (js ''m'')\<rparr>),
      jamIdentityGet = (\<lambda>_. retM \<lparr>wgList = None, wgState = None\<rparr>),
      jamEmailQuery =
        (\<lambda>request. retM
           \<lparr>wqQueryState = Some (js ''q''), wqCanCalculateChanges = None,
            wqPosition = Some (JInt (int (asked_position (rqyOptions request)))),
            wqIds = Some (take 1 (drop (asked_position (rqyOptions request))
                            (sample_contents (rqyInMailbox request)))),
            wqTotal = None\<rparr>),
      jamEmailGet = (\<lambda>_ ids. retM \<lparr>wgList = Some (map raw_mail ids), wgState = Some (js ''s2'')\<rparr>),
      jamEmailChanges = (\<lambda>_ state. retM (sample_changes state)),
      jamBodyGet = (\<lambda>_ _. retM None), jamStructureGet = (\<lambda>_ _. retM None)\<rparr>"

definition sample_session :: JmapSession where
  "sample_session =
     \<lparr>jsApiUrl = js ''u'', jsDownloadUrl = js ''d'', jsUploadUrl = js ''p'',
      jsEventSourceUrl = js ''e'', jsWebSocketUrl = None, jsPrimaryAccounts = [],
      jsCapabilities = []\<rparr>"

definition sample_cell :: "(nat, JmapSession option) cell" where
  "sample_cell = \<lparr>cellGet = (\<lambda>_. Some sample_session), cellSet = (\<lambda>_ s. s)\<rparr>"

definition drafts_answer :: json where
  "drafts_answer =
     JsonArray [JsonString (js ''Mailbox/query''),
                JsonObject [(js ''ids'', JsonArray [JsonString (js ''D'')])], JsonString (js ''m1'')]"

definition sample_network :: "nat Fetch" where
  "sample_network request n =
     (if n = 0
      then (Inr \<lparr>hpStatus = 200,
                 hpJson = Some (JsonObject [(js ''methodResponses'', JsonArray [drafts_answer])])\<rparr>, 1)
      else (Inl (OtherExn (js ''offline'')), Suc n))"

definition sample_client :: "(nat, unit) JmapClient" where
  "sample_client =
     JamClientAdapter sample_jam sample_network sample_cell (js ''h'') (BearerAuth (js ''k''))"

text \<open>The same server, except that it counts.\<close>

definition counting_client :: "(nat, unit) JmapClient" where
  "counting_client =
     sample_client\<lparr>jxQueryEmails := (\<lambda>acc box filt options.
       let p = (case options of None \<Rightarrow> 0 | Some v \<Rightarrow> asked_position v) in
       retM \<lparr>jqIds = take 1 (drop p (sample_contents box)), jqQueryState = js ''q'',
             jqTotal = JInt (int (length (sample_contents box))), jqPosition = JInt (int p),
             jqCanCalculateChanges = False\<rparr>)\<rparr>"

lemma sample_mails:
  "i \<noteq> [] \<Longrightarrow> validateAndMapEmail (raw_mail i) = Some (mapped_mail i)"
  "well_formed mapped_mail i \<longleftrightarrow> i \<noteq> []"
  by (auto simp: validateAndMapEmail_def raw_mail_def mapped_mail_def js_def or_else_def
      mapAddresses_def well_formed_def mapJmapEmail_def remote_id_defs remoteIdFromString_def
      returns_iff addressList_def bindE_Inr_iff)

lemma sample_collections:
  "serves_collections sample_client acc [map_raw_mailbox raw_box] mapped_mail (js ''s2'')"
  "serves_collections counting_client acc [map_raw_mailbox raw_box] mapped_mail (js ''s2'')"
proof -
  have "[] \<notin> set ids \<Longrightarrow> List.map_filter validateAndMapEmail (map raw_mail ids) = map mapped_mail ids" for ids
    by (induction ids) (auto simp: sample_mails(1))
  then show "serves_collections sample_client acc [map_raw_mailbox raw_box] mapped_mail (js ''s2'')"
    "serves_collections counting_client acc [map_raw_mailbox raw_box] mapped_mail (js ''s2'')"
    by (auto simp: serves_collections_def sample_client_def counting_client_def JamClientAdapter_def
        getMailboxes_def getEmails_def jam_try_def bindM_def retM_def sample_jam_def or_else_def
        list_all_iff sample_mails(2) mapped_mail_def intro!: exI [of _ "js ''m''"])
qed

lemma jmap_snapshot_complete_witness:
  "\<exists>emails. jmap_syncEmails counting_client (js ''A'') None 0 = (Inr (RemoteReplace (js ''s2'') emails), 0) \<and>
     map rlId emails = [js ''1'', js ''2'']"
proof -
  have "serves_pages counting_client (js ''A'') 1 sample_contents"
    by (auto simp: serves_pages_def counting_client_def page_options_def asked_position_def retM_def
        intro!: exI [of _ "js ''q''"] exI [of _ False])
  from jmap_snapshot_complete [OF sample_collections(2) this, of 0]
  show ?thesis
    by (auto simp: PAGE_SIZE_def MAX_PAGES_def sample_contents_def js_def sample_mails(2)
        set_of_list_def set_add_def)
qed

lemma jmap_snapshot_first_page_witness:
  "\<exists>emails. jmap_syncEmails sample_client (js ''A'') None 0 = (Inr (RemoteReplace (js ''s2'') emails), 0) \<and>
     map rlId emails = [js ''1'']"
proof -
  have "omits_totals sample_jam 1 sample_contents"
    by (auto simp: omits_totals_def sample_jam_def asked_position_def retM_def)
  from jmap_snapshot_first_page [OF sample_collections(1) [unfolded sample_client_def] this, of "js ''A''" 0]
  show ?thesis
    by (simp add: PAGE_SIZE_def sample_contents_def js_def sample_mails(2)
        set_of_list_def set_add_def sample_client_def)
qed

lemma sample_delta:
  "\<exists>changed destroyed.
     jmap_syncEmails sample_client (js ''A'') (Some (js ''s'')) 0 =
       (Inr (RemoteDelta (js ''s2'') changed destroyed), 0)"
proof -
  have changes: "jxGetEmailChanges sample_client acc state n =
      (Inr \<lparr>jdAccountId = acc, jdOldState = state, jdNewState = wcNewState (sample_changes state),
            jdHasMoreChanges = wcHasMoreChanges (sample_changes state),
            jdCreated = or_else (wcCreated (sample_changes state)) [],
            jdUpdated = or_else (wcUpdated (sample_changes state)) [],
            jdDestroyed = or_else (wcDestroyed (sample_changes state)) []\<rparr>, n)" for acc state n
    by (simp add: sample_client_def JamClientAdapter_def getEmailChanges_def sample_jam_def
        jam_try_def bindM_def retM_def sample_changes_def)
  have states: "js ''s1'' \<noteq> js ''s''" "js ''3'' \<noteq> js ''1''" "js ''2'' \<noteq> js ''1''" "js ''2'' \<noteq> js ''3''"
    "js ''1'' \<noteq> []" "js ''2'' \<noteq> []" "js ''3'' \<noteq> []"
    by (simp_all add: js_def)
  have fetched: "fetchExactEmails sample_client acc [js ''1''] False n =
      (Inr ([mapped_mail (js ''1'')], js ''s2''), n)" for acc n
    using fetchExactEmails_served [OF sample_collections(1) [of acc], of "[js ''1'']" False n]
    by (simp add: sample_mails(2) states)
  obtain e where e: "mapJmapEmail (mapped_mail (js ''1'')) = Inr e" "rlId e = js ''1''"
    using sample_mails(2) [of "js ''1''"] mapJmapEmail_ids [of "[mapped_mail (js ''1'')]"] states
    by (auto simp: well_formed_def returns_iff mapped_mail_def)
  have pages: "MAX_DELTA_PAGES = Suc (Suc 18)" by (simp add: MAX_DELTA_PAGES_def)
  have "delta_pages MAX_DELTA_PAGES sample_client (js ''A'') (js ''s'') ([], []) 0 =
      (Inr (RemoteDelta (js ''s2'') [e] [js ''3'', js ''2'']), 0)"
    unfolding pages delta_pages.simps
    by (simp add: states states [symmetric] changes bindM_def sample_changes_def or_else_def note_delta_sets set_add_def
        set_delete_def fetched e jmapE_def liftM_def remote_id_defs remoteIdFromString_def
        validateRemoteCollectionSync_def remoteSyncStateFromString_def)
  then show ?thesis by (simp add: jmap_syncEmails_def)
qed

lemma jmap_delta_sound_witness:
  "\<exists>changed destroyed ds u.
     jmap_syncEmails sample_client (js ''A'') (Some (js ''s'')) 0 =
       (Inr (RemoteDelta (js ''s2'') changed destroyed), 0) \<and>
     delta_run sample_client (js ''A'') (js ''s'') 0 ds u \<and>
     set (map rlId changed) = reported ds - removed ds"
proof -
  obtain changed destroyed where run: "jmap_syncEmails sample_client (js ''A'') (Some (js ''s'')) 0 =
      (Inr (RemoteDelta (js ''s2'') changed destroyed), 0)"
    using sample_delta by blast
  from jmap_delta_sound [OF run] run show ?thesis by blast
qed

definition sample_submission :: SubmissionMessage where
  "sample_submission =
     \<lparr>smRemoteIdentityId = Some (js ''I''), smFrom = \<lparr>adName = None, adEmail = js ''a''\<rparr>,
      smTo = [\<lparr>adName = None, adEmail = js ''b''\<rparr>], smCc = [], smBcc = [], smReplyTo = [],
      smSubject = [], smBody = SubmitPlain (js ''x'') None, smRemoteAccountId = js ''A''\<rparr>"

lemma sample_drafts:
  "find_drafts sample_network (js ''u'') (BearerAuth (js ''k'')) acc 0 =
     (Inr (Some (JsonObject [(js ''ids'', JsonArray [JsonString (js ''D'')])])), 1)"
  by (simp add: find_drafts_def fetchJmapRaw_def bindM_def auth_header_def network_try_def
      sample_network_def method_responses_def unauthorised_def response_ok_def json_opt_def
      json_prop_def json_get_def liftM_def drafts_answer_def js_of_nat_def digits10.simps js_def)

lemma sample_ids:
  "json_prop (Some (JsonObject [(js ''ids'', JsonArray [JsonString (js ''D'')])])) (js ''ids'') =
     Inr (Some (JsonArray [JsonString (js ''D'')]))"
  "as_strings (Some (JsonArray [JsonString (js ''D'')])) = [js ''D'']"
  by (simp_all add: json_prop_def json_get_def as_strings_def)

lemma sample_lost:
  "JmapSubmission sample_client sample_submission key 0 =
     (Inl (RemoteExn (toRemoteError JmapSubmissionAmbiguousError OUnknown)), 2)"
proof -
  have url: "adapter_apiUrl sample_cell n = (Inr (js ''u''), n)" for n
    by (simp add: adapter_apiUrl_def bindM_def readM_def retM_def sample_cell_def
        sample_session_def js_def throwM_def)
  have lost: "send_batch sample_network (js ''u'') (BearerAuth (js ''k'')) calls (Suc 0) =
      (Inl JmapSubmissionAmbiguousError, 2)" for calls
    by (simp add: send_batch_def fetchJmapRaw_def bindM_def auth_header_def network_try_def
        sample_network_def batch_failure_def)
  show ?thesis
    by (simp add: JmapSubmission_def sample_submission_def sample_client_def JamClientAdapter_def
        bindM_def url submitEmail_def sample_drafts sample_ids lost submission_outcome_def)
qed

lemma jmap_submission_outcome_witness:
  "\<exists>e. JmapSubmission sample_client sample_submission (js ''M'') 0 = (Inl (RemoteExn e), 2) \<and>
     (\<exists>request u. submission_request sample_network (js ''u'') (BearerAuth (js ''k'')) (js ''A'')
        (draft_of sample_submission (js ''x'') None) (js ''I'') 0 = Some (request, u) \<and>
        no_answer sample_network request u 2) \<and>
     reOutcome e = OUnknown \<and> reRetry e = RReconcile"
proof -
  have open_session: "cellGet sample_cell 0 = Some sample_session" "jsApiUrl sample_session \<noteq> []"
    "jsApiUrl sample_session = js ''u''"
    by (simp_all add: sample_cell_def sample_session_def js_def)
  have message: "smRemoteIdentityId sample_submission = Some (js ''I'')"
    "smBody sample_submission = SubmitPlain (js ''x'') None"
    "smRemoteAccountId sample_submission = js ''A''"
    by (simp_all add: sample_submission_def)
  have sent: "\<exists>request. submission_request sample_network (js ''u'') (BearerAuth (js ''k''))
      (js ''A'') (draft_of sample_submission (js ''x'') None) (js ''I'') 0 = Some (request, 1)"
    by (simp add: submission_request_def bindM_def sample_drafts sample_ids auth_header_def)
  moreover have "no_answer sample_network request 1 2" for request
    by (simp add: no_answer_def sample_network_def)
  ultimately show ?thesis
    using jmap_submission_outcome [OF open_session(1,2) message(1,2)
        sample_lost [unfolded sample_client_def, of "js ''M''"]] sample_lost [of "js ''M''"]
    by (auto simp: open_session(3) message(3) split: if_splits)
qed

text \<open>A server that refuses the change as a whole.\<close>

definition refusing_network :: "nat Fetch" where
  "refusing_network request n =
     (Inr \<lparr>hpStatus = 200,
           hpJson = Some (JsonObject [(js ''methodResponses'',
                                       JsonArray [method_error (js ''accountReadOnly'')])])\<rparr>, Suc n)"

lemma jmap_change_unverified_witness:
  "jmap_applyKeywordChange
     (JamClientAdapter sample_jam refusing_network sample_cell (js ''h'') (BearerAuth (js ''k'')))
     (js ''A'') (js ''1'') \<lparr>rkAdd = [js ''$seen''], rkRemove = []\<rparr> 0 = (Inr (), 1)"
proof -
  have open_session: "cellGet sample_cell 0 = Some sample_session" "jsApiUrl sample_session \<noteq> []"
    by (simp_all add: sample_cell_def sample_session_def js_def)
  have answer: "refusing_network request 0 =
      (Inr \<lparr>hpStatus = 200, hpJson = Some (JsonObject [(js ''methodResponses'',
         JsonArray [method_error (js ''accountReadOnly'')])])\<rparr>, 1)" for request
    by (simp add: refusing_network_def)
  show ?thesis
    using jmap_change_unverified [where fetch = refusing_network and s = 0 and
        responses = "[method_error (js ''accountReadOnly'')]" and
        errorType = "js ''accountReadOnly''", OF open_session refl answer refl]
    by simp
qed

text \<open>A message whose first HTML part is cut off and whose second is whole.\<close>

definition html_part :: "jsstring \<Rightarrow> RawJmapEmailBodyPart" where
  "html_part i = BodyPart (Some i) None None None (js ''text/html'') None None []"

definition two_parts :: RawJmapEmailBodyPart where
  "two_parts =
     BodyPart None None None None (js ''multipart/mixed'') None None
       [html_part (js ''1''), html_part (js ''2'')]"

definition two_values :: "(jsstring \<times> RawJmapEmailBodyValue) list" where
  "two_values =
     [(js ''1'', \<lparr>bvValue = Some (js ''cut''), bvIsEncodingProblem = False, bvIsTruncated = True\<rparr>),
      (js ''2'', \<lparr>bvValue = Some (js ''whole''), bvIsEncodingProblem = False, bvIsTruncated = False\<rparr>)]"

lemma jmap_body_parts_witness:
  "extractEmailBody (js ''M'') two_parts two_values =
     Some \<lparr>jyEmailId = js ''M'', jyHtml = Some (js ''whole''), jyText = None\<rparr> \<and>
   (\<exists>part v. part \<in> set (all_parts two_parts) \<and> bpType part = js ''text/html'' \<and>
      map_of two_values (the (bpPartId part)) = Some v \<and> bvValue v = Some (js ''whole'') \<and>
      \<not> bvIsTruncated v)"
proof -
  have first: "first_text two_values (js ''text/html'') two_parts = Some (js ''whole'')"
    "first_text two_values (js ''text/plain'') two_parts = None"
    by (simp_all add: first_text_def two_parts_def html_part_def part_text_def truthy_def
        extractFromPartId_def two_values_def js_def)
  show ?thesis
    using jmap_body_parts [of "js ''M''" two_parts two_values "js ''text/html''" "js ''whole''"]
    unfolding first by auto
qed

end
