(* ===== verification/Remote_Application.thy ===== *)
theory Remote_Application
  imports Remote_Ports Port_Interfaces
begin

text \<open>
  \<open>src/src/app/remote/{types,errors,session-registry,remote-application}.ts\<close>: which accounts are
  connected. The asynchronous methods are cut at their \<open>await\<close>s, and at the call of the listeners
  inside \<open>connect\<close>, which may call the application back: a segment runs from one such point to the
  next without interruption, and ends by settling the call or by leaving a \<open>task\<close> that says what
  it waits for. What a task is resumed with is an event; the remote session, the local store and
  the coordinator are known only by those events.
\<close>

section \<open>\<open>types.ts\<close> and \<open>session-registry.ts\<close>\<close>

datatype RemoteAuthState = Anonymous | Authenticating | Authenticated | Expired

datatype RemoteConnectivityState = Online | Offline

record RemoteAccountStatus =
  rsAuth :: RemoteAuthState
  rsConnectivity :: RemoteConnectivityState
  rsLastError :: "RemoteApplicationErrorKind option"

record RemoteConnectRequest =
  cqAccountKey :: AccountKey
  cqServiceKey :: ServiceKey
  cqConfig :: RemoteConnectionConfig

text \<open>A session object, by its identity and the accounts it announces.\<close>

record SessionHandle =
  shId :: nat
  shAccounts :: "RemoteAccountDescriptor list"

record ActiveRemoteAccount =
  aaAccountKey :: AccountKey
  aaRemoteAccountId :: RemoteAccountId
  aaSession :: SessionHandle
  aaGeneration :: nat

section \<open>The state of the application\<close>

text \<open>The sets of listeners, and the calls made to them in order; a listener is an identity. The
  sessions whose \<open>close\<close> has been called are recorded in order too.\<close>

record DefaultRemoteApplication =
  raSessions :: "(AccountKey \<times> ActiveRemoteAccount) list"
  raGenerations :: "(AccountKey \<times> nat) list"
  raPending :: "(AccountKey \<times> nat) list"
  raStatuses :: "(AccountKey \<times> RemoteAccountStatus) list"
  raListeners :: "(AccountKey \<times> nat list) list"
  raDisposed :: bool
  raCalls :: "(nat \<times> RemoteAccountStatus) list"
  raCloses :: "SessionHandle list"

definition newRemoteApplication :: DefaultRemoteApplication where
  "newRemoteApplication =
     \<lparr>raSessions = [], raGenerations = [], raPending = [], raStatuses = [], raListeners = [],
      raDisposed = False, raCalls = [], raCloses = []\<rparr>"

definition disconnectedStatus :: RemoteAccountStatus where
  "disconnectedStatus = \<lparr>rsAuth = Anonymous, rsConnectivity = Offline, rsLastError = None\<rparr>"

definition app_error :: "RemoteApplicationErrorKind \<Rightarrow> exn" where
  "app_error k = RemoteApplicationError k"

definition generation_of :: "DefaultRemoteApplication \<Rightarrow> AccountKey \<Rightarrow> nat" where
  "generation_of app k = (case map_of (raGenerations app) k of None \<Rightarrow> 0 | Some g \<Rightarrow> g)"

definition nextGeneration :: "DefaultRemoteApplication \<Rightarrow> AccountKey \<Rightarrow> DefaultRemoteApplication" where
  "nextGeneration app k =
     app\<lparr>raGenerations := AList.update k (generation_of app k + 1) (raGenerations app)\<rparr>"

definition getStatus :: "DefaultRemoteApplication \<Rightarrow> AccountKey \<Rightarrow> RemoteAccountStatus" where
  "getStatus app k =
     (case map_of (raStatuses app) k of None \<Rightarrow> disconnectedStatus | Some s \<Rightarrow> s)"

definition listeners_of :: "DefaultRemoteApplication \<Rightarrow> AccountKey \<Rightarrow> nat list" where
  "listeners_of app k = (case map_of (raListeners app) k of None \<Rightarrow> [] | Some ls \<Rightarrow> ls)"

definition publishStatus ::
  "DefaultRemoteApplication \<Rightarrow> AccountKey \<Rightarrow> RemoteAccountStatus \<Rightarrow> DefaultRemoteApplication" where
  "publishStatus app k st =
     (if getStatus app k = st then app
      else app\<lparr>raStatuses := AList.update k st (raStatuses app),
               raCalls := raCalls app @ map (\<lambda>l. (l, st)) (listeners_of app k)\<rparr>)"

definition deletePending :: "DefaultRemoteApplication \<Rightarrow> AccountKey \<Rightarrow> DefaultRemoteApplication" where
  "deletePending app k = app\<lparr>raPending := AList.delete k (raPending app)\<rparr>"

definition deleteSession :: "DefaultRemoteApplication \<Rightarrow> AccountKey \<Rightarrow> DefaultRemoteApplication" where
  "deleteSession app k = app\<lparr>raSessions := AList.delete k (raSessions app)\<rparr>"

definition setSession :: "DefaultRemoteApplication \<Rightarrow> ActiveRemoteAccount \<Rightarrow> DefaultRemoteApplication" where
  "setSession app entry =
     app\<lparr>raSessions := AList.update (aaAccountKey entry) entry (raSessions app)\<rparr>"

definition callClose :: "DefaultRemoteApplication \<Rightarrow> SessionHandle \<Rightarrow> DefaultRemoteApplication" where
  "callClose app s = app\<lparr>raCloses := raCloses app @ [s]\<rparr>"

definition hasConnectAuthority :: "DefaultRemoteApplication \<Rightarrow> AccountKey \<Rightarrow> nat \<Rightarrow> bool" where
  "hasConnectAuthority app k g \<longleftrightarrow>
     \<not> raDisposed app \<and> map_of (raGenerations app) k = Some g \<and> map_of (raPending app) k = Some g"

text \<open>An entry is compared by its object identity; the session in it is of no other entry.\<close>

definition isCurrentEntry :: "DefaultRemoteApplication \<Rightarrow> ActiveRemoteAccount \<Rightarrow> bool" where
  "isCurrentEntry app entry \<longleftrightarrow>
     \<not> raDisposed app \<and>
     map_of (raGenerations app) (aaAccountKey entry) = Some (aaGeneration entry) \<and>
     map_of (raSessions app) (aaAccountKey entry) = Some entry"

definition remoteErrorKind :: "RemoteError \<Rightarrow> RemoteApplicationErrorKind" where
  "remoteErrorKind e =
     (if reKind e = KAuth then AAuth
      else if reKind e = KNetwork \<or> reKind e = KUnavailable then ANetwork else ARemote)"

definition classifyConnectError :: "exn \<Rightarrow> RemoteApplicationErrorKind" where
  "classifyConnectError e =
     (case e of
        RemoteApplicationError k \<Rightarrow> k
      | RemoteExn r \<Rightarrow> remoteErrorKind r
      | _ \<Rightarrow> AUnexpected)"

definition connectFailureStatus :: "RemoteApplicationErrorKind \<Rightarrow> bool \<Rightarrow> RemoteAccountStatus" where
  "connectFailureStatus kind sessionOpened =
     \<lparr>rsAuth = Anonymous,
      rsConnectivity =
        (if sessionOpened \<or> kind = AAuth \<or> kind = AAccountMismatch \<or>
            kind = AAccountSelectionRequired \<or> kind = ALocal
         then Online else Offline),
      rsLastError = Some kind\<rparr>"

definition retainedStatus :: "RemoteApplicationErrorKind \<Rightarrow> RemoteAccountStatus" where
  "retainedStatus kind =
     \<lparr>rsAuth = Authenticated, rsConnectivity = (if kind = ANetwork then Offline else Online),
      rsLastError = Some kind\<rparr>"

definition expiredStatus :: "RemoteError \<Rightarrow> RemoteAccountStatus" where
  "expiredStatus e =
     \<lparr>rsAuth = Expired,
      rsConnectivity = (if remoteErrorKind e = ANetwork then Offline else Online),
      rsLastError = Some (remoteErrorKind e)\<rparr>"

definition onlineStatus :: RemoteAccountStatus where
  "onlineStatus = \<lparr>rsAuth = Authenticated, rsConnectivity = Online, rsLastError = None\<rparr>"

section \<open>Tasks\<close>

text \<open>What a \<open>connect\<close> waits for: the listeners, \<open>open\<close>, and inside \<open>resolveBinding\<close> for
  \<open>readAccount\<close>, \<open>registerAccount\<close> and the second \<open>readAccount\<close>; for the promise of
  \<open>resolveBinding\<close>, whose outcome is known but not yet delivered; or for the \<open>close\<close> of the
  session it gives up, with the error it will report.\<close>

datatype connect_wait =
    WaitAnnounced
  | WaitOpen
  | WaitRead SessionHandle
  | WaitRegister SessionHandle Account RemoteAccountId
  | WaitReread SessionHandle RemoteAccountId
  | WaitBinding SessionHandle "exn + RemoteAccountId"
  | WaitClose SessionHandle exn

datatype task =
    Connecting RemoteConnectRequest nat connect_wait
  | Disconnecting SessionHandle
  | Refreshing ActiveRemoteAccount
  | RefreshClosing SessionHandle RemoteApplicationErrorKind
  | Disposing "SessionHandle list"

datatype progress = Awaits task | Settled "exn + unit"

datatype event =
    EvContinue
  | EvOpened "exn + SessionHandle"
  | EvRead "exn + Account LocalEntityRead ReadResult"
  | EvWritten "exn + WriteResult"
  | EvSynced "exn + unit"
  | EvClosed "exn + unit"

section \<open>\<open>connect\<close>\<close>

text \<open>The \<open>finally\<close> clause.\<close>

definition connect_finally ::
  "DefaultRemoteApplication \<Rightarrow> RemoteConnectRequest \<Rightarrow> nat \<Rightarrow> DefaultRemoteApplication" where
  "connect_finally app req g =
     (if map_of (raPending app) (cqAccountKey req) = Some g
      then deletePending app (cqAccountKey req) else app)"

text \<open>The \<open>catch\<close> clause, once the session that was opened, if any, is closed.\<close>

definition connect_rejected ::
  "DefaultRemoteApplication \<Rightarrow> RemoteConnectRequest \<Rightarrow> nat \<Rightarrow> bool \<Rightarrow> exn \<Rightarrow>
   DefaultRemoteApplication \<times> progress" where
  "connect_rejected app req g opened e =
     (let k = cqAccountKey req in
      if \<not> hasConnectAuthority app k g
      then (connect_finally app req g, Settled (Inl (app_error ACancelled)))
      else
        let kind = classifyConnectError e in
        (connect_finally
           (publishStatus (deletePending app k) k (connectFailureStatus kind opened)) req g,
         Settled (Inl (app_error kind))))"

definition connect_catch ::
  "DefaultRemoteApplication \<Rightarrow> RemoteConnectRequest \<Rightarrow> nat \<Rightarrow> SessionHandle option \<Rightarrow> exn \<Rightarrow>
   DefaultRemoteApplication \<times> progress" where
  "connect_catch app req g session e =
     (case session of
        None \<Rightarrow> connect_rejected app req g False e
      | Some s \<Rightarrow> (callClose app s, Awaits (Connecting req g (WaitClose s e))))"

definition connect ::
  "DefaultRemoteApplication \<Rightarrow> RemoteConnectRequest \<Rightarrow> DefaultRemoteApplication \<times> progress" where
  "connect app req =
     (let k = cqAccountKey req in
      if raDisposed app then (app, Settled (Inl (app_error ADisposed)))
      else if map_of (raSessions app) k \<noteq> None \<or> map_of (raPending app) k \<noteq> None
      then (app, Settled (Inl (app_error ABusy)))
      else
        let app1 = nextGeneration app k; g = generation_of app1 k;
            app2 = app1\<lparr>raPending := AList.update k g (raPending app1)\<rparr> in
        (publishStatus app2 k
           \<lparr>rsAuth = Authenticating, rsConnectivity = Offline, rsLastError = None\<rparr>,
         Awaits (Connecting req g WaitAnnounced)))"

text \<open>\<open>connectionFactory(config)\<close> may throw; the connection it returns is opened next.\<close>

definition connect_announced ::
  "(RemoteConnectionConfig \<Rightarrow> unit throws) \<Rightarrow> DefaultRemoteApplication \<Rightarrow> RemoteConnectRequest \<Rightarrow>
   nat \<Rightarrow> DefaultRemoteApplication \<times> progress" where
  "connect_announced factory app req g =
     (if \<not> hasConnectAuthority app (cqAccountKey req) g
      then connect_catch app req g None (app_error ACancelled)
      else
        (case factory (cqConfig req) of
           Inl e \<Rightarrow> connect_catch app req g None e
         | Inr _ \<Rightarrow> (app, Awaits (Connecting req g WaitOpen))))"

definition connect_opened ::
  "DefaultRemoteApplication \<Rightarrow> RemoteConnectRequest \<Rightarrow> nat \<Rightarrow> exn + SessionHandle \<Rightarrow>
   DefaultRemoteApplication \<times> progress" where
  "connect_opened app req g result =
     (case result of
        Inl e \<Rightarrow> connect_catch app req g None e
      | Inr s \<Rightarrow>
          if \<not> hasConnectAuthority app (cqAccountKey req) g
          then connect_catch app req g (Some s) (app_error ACancelled)
          else (app, Awaits (Connecting req g (WaitRead s))))"

section \<open>\<open>resolveBinding\<close>\<close>

text \<open>Its state is the application's, which it only reads: a segment yields what it waits for next,
  the outcome of its promise included.\<close>

definition announces :: "SessionHandle \<Rightarrow> RemoteAccountId \<Rightarrow> bool" where
  "announces s i \<longleftrightarrow> (\<exists>d \<in> set (shAccounts s). rdaId d = i)"

definition binding_failed :: "SessionHandle \<Rightarrow> RemoteApplicationErrorKind \<Rightarrow> connect_wait" where
  "binding_failed s kind = WaitBinding s (Inl (app_error kind))"

text \<open>The account whose registration is written.\<close>

definition registration :: "RemoteConnectRequest \<Rightarrow> RemoteAccountId \<Rightarrow> Account throws" where
  "registration req selected =
     bindE (localAccountId selected) (\<lambda>i.
     Inr (account (cqAccountKey req) (remoteAccountRef (cqServiceKey req) i)))"

definition binding_read ::
  "DefaultRemoteApplication \<Rightarrow> RemoteConnectRequest \<Rightarrow> nat \<Rightarrow> SessionHandle \<Rightarrow>
   exn + Account LocalEntityRead ReadResult \<Rightarrow> connect_wait" where
  "binding_read app req g s result =
     (case result of
        Inl e \<Rightarrow> WaitBinding s (Inl e)
      | Inr r \<Rightarrow>
          if \<not> hasConnectAuthority app (cqAccountKey req) g then binding_failed s ACancelled
          else
            (case r of
               PortErr _ \<Rightarrow> binding_failed s ALocal
             | PortOk (EntityPresent local) \<Rightarrow>
                 if rrServiceKey (acRemoteRef local) \<noteq> cqServiceKey req
                 then binding_failed s AAccountMismatch
                 else
                   WaitBinding s
                     (bindE (remoteAccountId (rrJmapAccountId (acRemoteRef local))) (\<lambda>expected.
                      throw_if (\<not> announces s expected) (app_error AAccountMismatch) (Inr expected)))
             | PortOk EntityAbsent \<Rightarrow>
                 (case shAccounts s of
                    [d] \<Rightarrow>
                      (case registration req (rdaId d) of
                         Inl e \<Rightarrow> WaitBinding s (Inl e)
                       | Inr local \<Rightarrow> WaitRegister s local (rdaId d))
                  | _ \<Rightarrow> binding_failed s AAccountSelectionRequired)))"

definition binding_registered ::
  "DefaultRemoteApplication \<Rightarrow> RemoteConnectRequest \<Rightarrow> nat \<Rightarrow> SessionHandle \<Rightarrow> RemoteAccountId \<Rightarrow>
   exn + WriteResult \<Rightarrow> connect_wait" where
  "binding_registered app req g s selected result =
     (case result of
        Inl e \<Rightarrow> WaitBinding s (Inl e)
      | Inr r \<Rightarrow>
          if \<not> hasConnectAuthority app (cqAccountKey req) g then binding_failed s ACancelled
          else
            (case r of
               PortOk _ \<Rightarrow> WaitBinding s (Inr selected)
             | PortErr WrConflict \<Rightarrow> WaitReread s selected
             | PortErr _ \<Rightarrow> binding_failed s ALocal))"

definition binding_reread ::
  "DefaultRemoteApplication \<Rightarrow> RemoteConnectRequest \<Rightarrow> nat \<Rightarrow> SessionHandle \<Rightarrow> RemoteAccountId \<Rightarrow>
   exn + Account LocalEntityRead ReadResult \<Rightarrow> connect_wait" where
  "binding_reread app req g s selected result =
     (case result of
        Inl e \<Rightarrow> WaitBinding s (Inl e)
      | Inr r \<Rightarrow>
          if \<not> hasConnectAuthority app (cqAccountKey req) g then binding_failed s ACancelled
          else
            (case r of
               PortErr _ \<Rightarrow> binding_failed s ALocal
             | PortOk EntityAbsent \<Rightarrow> binding_failed s AAccountMismatch
             | PortOk (EntityPresent local) \<Rightarrow>
                 if rrServiceKey (acRemoteRef local) \<noteq> cqServiceKey req
                 then binding_failed s AAccountMismatch
                 else
                   WaitBinding s
                     (bindE (remoteAccountId (rrJmapAccountId (acRemoteRef local))) (\<lambda>expected.
                      throw_if (expected \<noteq> selected) (app_error AAccountMismatch)
                        (Inr selected)))))"

text \<open>Back in \<open>connect\<close>: the account becomes active.\<close>

definition connect_bound ::
  "DefaultRemoteApplication \<Rightarrow> RemoteConnectRequest \<Rightarrow> nat \<Rightarrow> SessionHandle \<Rightarrow>
   exn + RemoteAccountId \<Rightarrow> DefaultRemoteApplication \<times> progress" where
  "connect_bound app req g s result =
     (case result of
        Inl e \<Rightarrow> connect_catch app req g (Some s) e
      | Inr selected \<Rightarrow>
          let k = cqAccountKey req;
              active = \<lparr>aaAccountKey = k, aaRemoteAccountId = selected, aaSession = s,
                        aaGeneration = g\<rparr> in
          if \<not> hasConnectAuthority app k g
          then connect_catch app req g (Some s) (app_error ACancelled)
          else
            (connect_finally
               (publishStatus (deletePending (setSession app active) k) k onlineStatus) req g,
             Settled (Inr ())))"

section \<open>\<open>disconnect\<close>, \<open>refreshAccount\<close> and \<open>dispose\<close>\<close>

definition disconnect ::
  "DefaultRemoteApplication \<Rightarrow> AccountKey \<Rightarrow> DefaultRemoteApplication \<times> progress" where
  "disconnect app k =
     (if raDisposed app then (app, Settled (Inl (app_error ADisposed)))
      else
        let active = map_of (raSessions app) k;
            hadPending = (map_of (raPending app) k \<noteq> None);
            app1 = deletePending (deleteSession app k) k;
            app2 = (if active \<noteq> None \<or> hadPending then nextGeneration app1 k else app1);
            app3 = publishStatus app2 k disconnectedStatus in
        (case active of
           None \<Rightarrow> (app3, Settled (Inr ()))
         | Some a \<Rightarrow> (callClose app3 (aaSession a), Awaits (Disconnecting (aaSession a)))))"

definition disconnect_closed :: "exn + unit \<Rightarrow> exn + unit" where
  "disconnect_closed result =
     (case result of Inl _ \<Rightarrow> Inl (app_error ARemote) | Inr u \<Rightarrow> Inr u)"

definition refreshAccount ::
  "DefaultRemoteApplication \<Rightarrow> AccountKey \<Rightarrow> DefaultRemoteApplication \<times> progress" where
  "refreshAccount app k =
     (if raDisposed app then (app, Settled (Inl (app_error ADisposed)))
      else
        (case map_of (raSessions app) k of
           None \<Rightarrow> (app, Settled (Inl (app_error ANotConnected)))
         | Some active \<Rightarrow> (app, Awaits (Refreshing active))))"

definition refresh_synced ::
  "DefaultRemoteApplication \<Rightarrow> ActiveRemoteAccount \<Rightarrow> exn + unit \<Rightarrow>
   DefaultRemoteApplication \<times> progress" where
  "refresh_synced app active result =
     (let k = aaAccountKey active in
      if \<not> isCurrentEntry app active then (app, Settled (Inl (app_error ACancelled)))
      else
        (case result of
           Inr _ \<Rightarrow> (publishStatus app k onlineStatus, Settled (Inr ()))
         | Inl (RemoteExn e) \<Rightarrow>
             let kind = remoteErrorKind e in
             if reSession e = SExpire
             then
               (callClose
                  (publishStatus (nextGeneration (deleteSession app k) k) k (expiredStatus e))
                  (aaSession active),
                Awaits (RefreshClosing (aaSession active) kind))
             else (publishStatus app k (retainedStatus kind), Settled (Inl (app_error kind)))
         | Inl _ \<Rightarrow>
             (publishStatus app k (onlineStatus\<lparr>rsLastError := Some ALocal\<rparr>),
              Settled (Inl (app_error ALocal)))))"

text \<open>The accounts whose generation \<open>dispose\<close> advances, in the order of its set.\<close>

definition affected_keys :: "DefaultRemoteApplication \<Rightarrow> AccountKey list" where
  "affected_keys app =
     set_of_list
       (map fst (raPending app) @ map fst (raGenerations app) @
        map (aaAccountKey \<circ> snd) (raSessions app))"

definition dispose_one ::
  "AccountKey \<Rightarrow> DefaultRemoteApplication \<Rightarrow> DefaultRemoteApplication" where
  "dispose_one k app =
     (nextGeneration app k)\<lparr>raStatuses := AList.update k disconnectedStatus (raStatuses app)\<rparr>"

definition dispose :: "DefaultRemoteApplication \<Rightarrow> DefaultRemoteApplication \<times> progress" where
  "dispose app =
     (if raDisposed app then (app, Settled (Inr ()))
      else
        let active = map (aaSession \<circ> snd) (raSessions app);
            app1 = app\<lparr>raDisposed := True, raSessions := []\<rparr>;
            app2 = fold dispose_one (affected_keys app) app1 in
        (fold (\<lambda>s a. callClose a s) active (app2\<lparr>raPending := [], raListeners := []\<rparr>),
         Awaits (Disposing active)))"

section \<open>Subscriptions\<close>

definition subscribe ::
  "DefaultRemoteApplication \<Rightarrow> AccountKey \<Rightarrow> nat \<Rightarrow> DefaultRemoteApplication throws" where
  "subscribe app k l =
     throw_if (raDisposed app) (app_error ADisposed)
       (Inr (app\<lparr>raListeners := AList.update k (set_add l (listeners_of app k)) (raListeners app),
                 raCalls := raCalls app @ [(l, getStatus app k)]\<rparr>))"

text \<open>The function \<open>subscribe\<close> returns, with its \<open>subscribed\<close> flag.\<close>

definition unsubscribe ::
  "DefaultRemoteApplication \<Rightarrow> AccountKey \<Rightarrow> nat \<Rightarrow> bool \<Rightarrow> DefaultRemoteApplication \<times> bool" where
  "unsubscribe app k l subscribed =
     (if \<not> subscribed then (app, False)
      else
        (case map_of (raListeners app) k of
           None \<Rightarrow> (app, False)
         | Some ls \<Rightarrow>
             (let rest = set_delete l ls in
              (app\<lparr>raListeners :=
                     (if rest = [] then AList.delete k (raListeners app)
                      else AList.update k rest (raListeners app))\<rparr>, False))))"

section \<open>Resuming a task\<close>

definition resume_connect ::
  "(RemoteConnectionConfig \<Rightarrow> unit throws) \<Rightarrow> DefaultRemoteApplication \<Rightarrow> RemoteConnectRequest \<Rightarrow>
   nat \<Rightarrow> connect_wait \<Rightarrow> event \<Rightarrow> (DefaultRemoteApplication \<times> progress) option" where
  "resume_connect factory app req g wait ev =
     (let binding = (\<lambda>next_wait. Some (app, Awaits (Connecting req g next_wait))) in
      case (wait, ev) of
        (WaitAnnounced, EvContinue) \<Rightarrow> Some (connect_announced factory app req g)
      | (WaitOpen, EvOpened r) \<Rightarrow> Some (connect_opened app req g r)
      | (WaitRead s, EvRead r) \<Rightarrow> binding (binding_read app req g s r)
      | (WaitRegister s local i, EvWritten r) \<Rightarrow> binding (binding_registered app req g s i r)
      | (WaitReread s i, EvRead r) \<Rightarrow> binding (binding_reread app req g s i r)
      | (WaitBinding s r, EvContinue) \<Rightarrow> Some (connect_bound app req g s r)
      | (WaitClose s e, EvClosed _) \<Rightarrow> Some (connect_rejected app req g True e)
      | _ \<Rightarrow> None)"

definition resume ::
  "(RemoteConnectionConfig \<Rightarrow> unit throws) \<Rightarrow> DefaultRemoteApplication \<Rightarrow> task \<Rightarrow> event \<Rightarrow>
   (DefaultRemoteApplication \<times> progress) option" where
  "resume factory app t ev =
     (case (t, ev) of
        (Connecting req g wait, _) \<Rightarrow> resume_connect factory app req g wait ev
      | (Disconnecting s, EvClosed r) \<Rightarrow> Some (app, Settled (disconnect_closed r))
      | (Refreshing active, EvSynced r) \<Rightarrow> Some (refresh_synced app active r)
      | (RefreshClosing s kind, EvClosed _) \<Rightarrow> Some (app, Settled (Inl (app_error kind)))
      | (Disposing ss, EvClosed _) \<Rightarrow> Some (app, Settled (Inr ()))
      | _ \<Rightarrow> None)"

end
