(* ===== verification/Remote_App_Machine.thy ===== *)
theory Remote_App_Machine
  imports Remote_Application "HOL-Library.Multiset"
begin

text \<open>
  The remote application in time: any interleaving of the calls a client makes and of the answers
  the awaited operations give. A world is the application, the calls that still wait, and the
  sessions that \<open>open\<close> has returned so far.
\<close>

section \<open>Worlds and steps\<close>

datatype call =
    CallConnect RemoteConnectRequest
  | CallDisconnect AccountKey
  | CallRefresh AccountKey
  | CallDispose
  | CallSubscribe AccountKey nat
  | CallUnsubscribe AccountKey nat bool

record RemoteWorld =
  rwApp :: DefaultRemoteApplication
  rwTasks :: "task list"
  rwOpened :: "SessionHandle list"

definition start_call :: "call \<Rightarrow> DefaultRemoteApplication \<Rightarrow> DefaultRemoteApplication \<times> progress" where
  "start_call c app =
     (case c of
        CallConnect req \<Rightarrow> connect app req
      | CallDisconnect k \<Rightarrow> disconnect app k
      | CallRefresh k \<Rightarrow> refreshAccount app k
      | CallDispose \<Rightarrow> dispose app
      | CallSubscribe k l \<Rightarrow>
          (case subscribe app k l of
             Inl e \<Rightarrow> (app, Settled (Inl e)) | Inr app' \<Rightarrow> (app', Settled (Inr ())))
      | CallUnsubscribe k l subscribed \<Rightarrow> (fst (unsubscribe app k l subscribed), Settled (Inr ())))"

definition tasks_of :: "progress \<Rightarrow> task list" where
  "tasks_of p = (case p of Awaits t \<Rightarrow> [t] | Settled _ \<Rightarrow> [])"

definition opened_by :: "event \<Rightarrow> SessionHandle list" where
  "opened_by ev = (case ev of EvOpened (Inr s) \<Rightarrow> [s] | _ \<Rightarrow> [])"

definition new_world :: RemoteWorld where
  "new_world = \<lparr>rwApp = newRemoteApplication, rwTasks = [], rwOpened = []\<rparr>"

text \<open>A session that \<open>open\<close> returns is a new object.\<close>

inductive rstep ::
  "(RemoteConnectionConfig \<Rightarrow> unit throws) \<Rightarrow> RemoteWorld \<Rightarrow> RemoteWorld \<Rightarrow> bool"
  for factory where
  call: "start_call c (rwApp w) = (app', p) \<Longrightarrow>
    rstep factory w
      \<lparr>rwApp = app', rwTasks = rwTasks w @ tasks_of p, rwOpened = rwOpened w\<rparr>"
| answer: "rwTasks w = ts1 @ t # ts2 \<Longrightarrow> resume factory (rwApp w) t ev = Some (app', p) \<Longrightarrow>
    set (opened_by ev) \<inter> set (rwOpened w) = {} \<Longrightarrow>
    rstep factory w
      \<lparr>rwApp = app', rwTasks = ts1 @ tasks_of p @ ts2, rwOpened = rwOpened w @ opened_by ev\<rparr>"

definition app_reachable ::
  "(RemoteConnectionConfig \<Rightarrow> unit throws) \<Rightarrow> RemoteWorld \<Rightarrow> bool" where
  "app_reachable factory w \<longleftrightarrow> (rstep factory)\<^sup>*\<^sup>* new_world w"

section \<open>What an account is\<close>

definition auth_of :: "DefaultRemoteApplication \<Rightarrow> AccountKey \<Rightarrow> RemoteAuthState" where
  "auth_of app k = rsAuth (getStatus app k)"

text \<open>The three phases of an account: connecting, connected, and neither.\<close>

definition account_ok :: "DefaultRemoteApplication \<Rightarrow> AccountKey \<Rightarrow> bool" where
  "account_ok app k \<longleftrightarrow>
     (case (map_of (raPending app) k, map_of (raSessions app) k) of
        (None, None) \<Rightarrow> auth_of app k \<in> {Anonymous, Expired}
      | (Some g, None) \<Rightarrow> map_of (raGenerations app) k = Some g \<and> auth_of app k = Authenticating
      | (None, Some a) \<Rightarrow>
          aaAccountKey a = k \<and> map_of (raGenerations app) k = Some (aaGeneration a) \<and>
          auth_of app k = Authenticated
      | (Some _, Some _) \<Rightarrow> False)"

definition connecting_keys :: "task list \<Rightarrow> (AccountKey \<times> nat) set" where
  "connecting_keys ts = {(cqAccountKey req, g) | req g wait. Connecting req g wait \<in> set ts}"

definition app_ok :: "DefaultRemoteApplication \<Rightarrow> bool" where
  "app_ok app \<longleftrightarrow>
     (\<forall>k. account_ok app k) \<and> distinct (map fst (raSessions app)) \<and>
     (raDisposed app \<longrightarrow> raSessions app = [] \<and> raPending app = [] \<and> raListeners app = [])"

definition pending_tasks :: "DefaultRemoteApplication \<Rightarrow> task list \<Rightarrow> bool" where
  "pending_tasks app ts \<longleftrightarrow>
     (\<forall>k g. map_of (raPending app) k = Some g \<longrightarrow> (k, g) \<in> connecting_keys ts)"

section \<open>Where the sessions are\<close>

definition held :: "task \<Rightarrow> SessionHandle list" where
  "held t =
     (case t of
        Connecting req g (WaitRead s) \<Rightarrow> [s]
      | Connecting req g (WaitRegister s acc i) \<Rightarrow> [s]
      | Connecting req g (WaitReread s i) \<Rightarrow> [s]
      | Connecting req g (WaitBinding s r) \<Rightarrow> [s]
      | _ \<Rightarrow> [])"

definition active_sessions :: "DefaultRemoteApplication \<Rightarrow> SessionHandle list" where
  "active_sessions app = map (aaSession \<circ> snd) (raSessions app)"

definition owned_sessions :: "DefaultRemoteApplication \<Rightarrow> task list \<Rightarrow> SessionHandle multiset" where
  "owned_sessions app ts =
     mset (active_sessions app) + mset (concat (map held ts)) + mset (raCloses app)"

section \<open>The views of a state after each primitive\<close>

lemma publish_views [simp]:
  "raSessions (publishStatus app k st) = raSessions app"
  "raPending (publishStatus app k st) = raPending app"
  "raGenerations (publishStatus app k st) = raGenerations app"
  "raDisposed (publishStatus app k st) = raDisposed app"
  "raListeners (publishStatus app k st) = raListeners app"
  "raCloses (publishStatus app k st) = raCloses app"
  by (simp_all add: publishStatus_def)

lemma publish_auth [simp]:
  "auth_of (publishStatus app k st) k' = (if k' = k then rsAuth st else auth_of app k')"
  by (simp add: publishStatus_def auth_of_def getStatus_def AList.update_conv)

lemma generation_views [simp]:
  "raSessions (nextGeneration app k) = raSessions app"
  "raPending (nextGeneration app k) = raPending app"
  "map_of (raGenerations (nextGeneration app k)) k' =
     (if k' = k then Some (generation_of app k + 1) else map_of (raGenerations app) k')"
  "generation_of (nextGeneration app k) k = generation_of app k + 1"
  "raDisposed (nextGeneration app k) = raDisposed app"
  "raListeners (nextGeneration app k) = raListeners app"
  "raCloses (nextGeneration app k) = raCloses app"
  "auth_of (nextGeneration app k) k' = auth_of app k'"
  by (simp_all add: nextGeneration_def auth_of_def getStatus_def generation_of_def
        AList.update_conv)

lemma pending_views [simp]:
  "raSessions (deletePending app k) = raSessions app"
  "map_of (raPending (deletePending app k)) = (map_of (raPending app))(k := None)"
  "raGenerations (deletePending app k) = raGenerations app"
  "raDisposed (deletePending app k) = raDisposed app"
  "raListeners (deletePending app k) = raListeners app"
  "raCloses (deletePending app k) = raCloses app"
  "auth_of (deletePending app k) k' = auth_of app k'"
  "generation_of (deletePending app k) k' = generation_of app k'"
  by (simp_all add: deletePending_def auth_of_def getStatus_def generation_of_def
        AList.delete_conv)

lemma pending_empty [simp]: "raPending app = [] \<Longrightarrow> raPending (deletePending app k) = []"
  by (simp add: deletePending_def)

lemma session_views [simp]:
  "map_of (raSessions (deleteSession app k)) = (map_of (raSessions app))(k := None)"
  "raPending (deleteSession app k) = raPending app"
  "raGenerations (deleteSession app k) = raGenerations app"
  "raDisposed (deleteSession app k) = raDisposed app"
  "raListeners (deleteSession app k) = raListeners app"
  "raCloses (deleteSession app k) = raCloses app"
  "auth_of (deleteSession app k) k' = auth_of app k'"
  "generation_of (deleteSession app k) k' = generation_of app k'"
  by (simp_all add: deleteSession_def auth_of_def getStatus_def generation_of_def
        AList.delete_conv)

lemma set_session_views [simp]:
  "map_of (raSessions (setSession app a)) = (map_of (raSessions app))(aaAccountKey a \<mapsto> a)"
  "raPending (setSession app a) = raPending app"
  "raGenerations (setSession app a) = raGenerations app"
  "raDisposed (setSession app a) = raDisposed app"
  "raListeners (setSession app a) = raListeners app"
  "raCloses (setSession app a) = raCloses app"
  "auth_of (setSession app a) k' = auth_of app k'"
  by (simp_all add: setSession_def auth_of_def getStatus_def AList.update_conv)

lemma close_views [simp]:
  "raSessions (callClose app s) = raSessions app"
  "raPending (callClose app s) = raPending app"
  "raGenerations (callClose app s) = raGenerations app"
  "raDisposed (callClose app s) = raDisposed app"
  "raListeners (callClose app s) = raListeners app"
  "raCloses (callClose app s) = raCloses app @ [s]"
  "auth_of (callClose app s) k' = auth_of app k'"
  "hasConnectAuthority (callClose app s) k' g = hasConnectAuthority app k' g"
  by (simp_all add: callClose_def auth_of_def getStatus_def hasConnectAuthority_def)

lemma distinct_views [simp]:
  "distinct (map fst (raSessions app)) \<Longrightarrow> distinct (map fst (raSessions (deleteSession app k)))"
  "distinct (map fst (raSessions app)) \<Longrightarrow> distinct (map fst (raSessions (setSession app a)))"
  by (simp_all add: deleteSession_def setSession_def distinct_delete distinct_update)

lemma empty_sessions [simp]:
  "raSessions app = [] \<Longrightarrow> raSessions (deleteSession app k) = []"
  by (simp add: deleteSession_def)

lemma active_views [simp]:
  "active_sessions (publishStatus app k st) = active_sessions app"
  "active_sessions (nextGeneration app k) = active_sessions app"
  "active_sessions (deletePending app k) = active_sessions app"
  "active_sessions (callClose app s) = active_sessions app"
  by (simp_all add: active_sessions_def)

lemma update_new: "map_of al k = None \<Longrightarrow> AList.update k v al = al @ [(k, v)]"
  by (induction al) (auto split: if_splits)

lemma mset_delete:
  "distinct (map fst al) \<Longrightarrow> map_of al k = Some a \<Longrightarrow>
   mset al = add_mset (k, a) (mset (AList.delete k al))"
  by (induction al) (auto simp: delete_id dest: map_of_SomeD split: if_splits)

lemma active_set [simp]:
  "map_of (raSessions app) (aaAccountKey a) = None \<Longrightarrow>
   active_sessions (setSession app a) = active_sessions app @ [aaSession a]"
  by (simp add: active_sessions_def setSession_def update_new)

lemma active_delete:
  assumes "distinct (map fst (raSessions app))" "map_of (raSessions app) k = Some a"
  shows "mset (active_sessions app) =
         add_mset (aaSession a) (mset (active_sessions (deleteSession app k)))"
  using arg_cong [OF mset_delete [OF assms], of "image_mset (aaSession \<circ> snd)"]
  by (simp add: active_sessions_def deleteSession_def)

lemma deleted_none [simp]:
  "map_of (raSessions app) k = None \<Longrightarrow> active_sessions (deleteSession app k) = active_sessions app"
  by (simp add: active_sessions_def deleteSession_def delete_id map_of_eq_None_iff image_iff)

section \<open>Each segment keeps the invariant\<close>

lemma app_okI:
  assumes "\<And>k'. account_ok app' k'" "distinct (map fst (raSessions app'))"
    "raDisposed app' \<Longrightarrow> raSessions app' = [] \<and> raPending app' = [] \<and> raListeners app' = []"
  shows "app_ok app'"
  using assms by (simp add: app_ok_def)

lemma account_cases:
  assumes "app_ok app"
  obtains (none) "map_of (raPending app) k = None" "map_of (raSessions app) k = None"
      "auth_of app k \<in> {Anonymous, Expired}"
  | (pending) g where "map_of (raPending app) k = Some g" "map_of (raSessions app) k = None"
      "map_of (raGenerations app) k = Some g" "auth_of app k = Authenticating"
      "\<not> raDisposed app"
  | (active) a where "map_of (raPending app) k = None" "map_of (raSessions app) k = Some a"
      "aaAccountKey a = k" "map_of (raGenerations app) k = Some (aaGeneration a)"
      "auth_of app k = Authenticated" "\<not> raDisposed app"
proof -
  have "account_ok app k"
    and used: "map_of (raPending app) k \<noteq> None \<or> map_of (raSessions app) k \<noteq> None \<Longrightarrow>
      \<not> raDisposed app"
    using assms by (auto simp: app_ok_def)
  then show thesis
    using that used by (cases "map_of (raPending app) k"; cases "map_of (raSessions app) k")
      (simp_all add: account_ok_def)
qed

text \<open>A segment that leaves every account but one alone.\<close>

lemma app_ok_at:
  assumes "app_ok app" "account_ok app' k"
    "\<And>k'. k' \<noteq> k \<Longrightarrow> map_of (raPending app') k' = map_of (raPending app) k'"
    "\<And>k'. k' \<noteq> k \<Longrightarrow> map_of (raSessions app') k' = map_of (raSessions app) k'"
    "\<And>k'. k' \<noteq> k \<Longrightarrow> map_of (raGenerations app') k' = map_of (raGenerations app) k'"
    "\<And>k'. k' \<noteq> k \<Longrightarrow> auth_of app' k' = auth_of app k'"
    "distinct (map fst (raSessions app'))"
    "raDisposed app' \<Longrightarrow> raSessions app' = [] \<and> raPending app' = [] \<and> raListeners app' = []"
  shows "app_ok app'"
proof (rule app_okI)
  fix k' show "account_ok app' k'"
  proof (cases "k' = k")
    case False
    then have "account_ok app' k' = account_ok app k'"
      using assms(3-6) [of k'] by (simp add: account_ok_def split: option.splits)
    then show ?thesis
      using assms(1) by (simp add: app_ok_def)
  qed (use assms(2) in simp)
qed (use assms in auto)

lemma app_ok_parts:
  assumes "app_ok app"
  shows "distinct (map fst (raSessions app))"
    "raDisposed app \<Longrightarrow> raSessions app = [] \<and> raPending app = [] \<and> raListeners app = []"
  using assms by (simp_all add: app_ok_def)

lemma authority_pending:
  assumes "app_ok app" "map_of (raPending app) k = Some g"
  shows "hasConnectAuthority app k g"
  by (rule account_cases [OF assms(1), of k])
    (use assms(2) in \<open>auto simp: hasConnectAuthority_def\<close>)

lemma pending_removed:
  assumes "app_ok app"
  shows "connect_finally app req g =
    (if hasConnectAuthority app (cqAccountKey req) g then deletePending app (cqAccountKey req)
     else app)"
  using authority_pending [OF assms] by (auto simp: connect_finally_def hasConnectAuthority_def)

text \<open>What a segment does to the whole: the invariant holds again, a pending attempt still has its
  call, and no session appears or disappears. \<open>own\<close> is the attempt of the call that is resumed, and
  \<open>hs\<close> the sessions that call holds.\<close>

definition keeps_app ::
  "DefaultRemoteApplication \<Rightarrow> (AccountKey \<times> nat) option \<Rightarrow> SessionHandle list \<Rightarrow>
   DefaultRemoteApplication \<times> progress \<Rightarrow> bool" where
  "keeps_app app own hs r \<longleftrightarrow>
     app_ok (fst r) \<and>
     (\<forall>k g. map_of (raPending (fst r)) k = Some g \<longrightarrow>
        (k, g) \<in> connecting_keys (tasks_of (snd r)) \<or>
        (map_of (raPending app) k = Some g \<and> own \<noteq> Some (k, g))) \<and>
     owned_sessions (fst r) (tasks_of (snd r)) =
       mset (active_sessions app) + mset hs + mset (raCloses app)"

lemma connecting_keys_simps [simp]:
  "connecting_keys (tasks_of (Settled r)) = {}"
  "connecting_keys (tasks_of (Awaits (Connecting req g wait))) = {(cqAccountKey req, g)}"
  "connecting_keys (tasks_of (Awaits (Disconnecting s))) = {}"
  "connecting_keys (tasks_of (Awaits (Refreshing a))) = {}"
  "connecting_keys (tasks_of (Awaits (RefreshClosing s kind))) = {}"
  "connecting_keys (tasks_of (Awaits (Disposing ss))) = {}"
  by (auto simp: connecting_keys_def tasks_of_def)

lemma owned_simps [simp]:
  "owned_sessions app (tasks_of (Settled r)) =
     mset (active_sessions app) + mset (raCloses app)"
  "owned_sessions app (tasks_of (Awaits t)) =
     mset (active_sessions app) + mset (held t) + mset (raCloses app)"
  by (simp_all add: owned_sessions_def tasks_of_def)

lemma held_simps [simp]:
  "held (Connecting req g WaitAnnounced) = []" "held (Connecting req g WaitOpen) = []"
  "held (Connecting req g (WaitRead s)) = [s]" "held (Connecting req g (WaitRegister s acc i)) = [s]"
  "held (Connecting req g (WaitReread s i)) = [s]" "held (Connecting req g (WaitBinding s r)) = [s]"
  "held (Connecting req g (WaitClose s e)) = []"
  "held (Disconnecting s) = []" "held (Refreshing a) = []" "held (RefreshClosing s kind) = []"
  "held (Disposing ss) = []"
  by (simp_all add: held_def)

lemma app_ok_close [simp]: "app_ok (callClose app s) = app_ok app"
  by (simp add: app_ok_def account_ok_def split: option.splits)

lemma keeps_unchanged:
  assumes "app_ok app" "own = None" "owned_sessions app (tasks_of p) =
    mset (active_sessions app) + mset hs + mset (raCloses app)"
  shows "keeps_app app own hs (app, p)"
  using assms by (simp add: keeps_app_def)

lemma keeps_waiting:
  assumes "app_ok app" "held (Connecting req g wait) = hs"
  shows "keeps_app app (Some (cqAccountKey req, g)) hs (app, Awaits (Connecting req g wait))"
  using assms by (auto simp: keeps_app_def)

lemma keeps_connect:
  assumes ok: "app_ok app"
  shows "keeps_app app None [] (connect app req)"
proof (cases "raDisposed app \<or> map_of (raSessions app) (cqAccountKey req) \<noteq> None \<or>
    map_of (raPending app) (cqAccountKey req) \<noteq> None")
  case True
  then show ?thesis
    using ok by (auto simp: connect_def keeps_app_def Let_def)
next
  case False
  let ?k = "cqAccountKey req"
  let ?g = "generation_of app ?k + 1"
  let ?app = "(nextGeneration app ?k)
    \<lparr>raPending := AList.update ?k ?g (raPending (nextGeneration app ?k))\<rparr>"
  let ?st = "\<lparr>rsAuth = Authenticating, rsConnectivity = Offline, rsLastError = None\<rparr>"
  have none: "map_of (raSessions app) ?k = None" "\<not> raDisposed app"
    using False by blast+
  have auth: "auth_of ?app k = auth_of app k" for k
    by (simp add: auth_of_def getStatus_def nextGeneration_def)
  have "app_ok (publishStatus ?app ?k ?st)"
    by (rule app_ok_at [OF ok, of _ ?k])
      (use none app_ok_parts [OF ok] auth in
        \<open>simp_all add: account_ok_def AList.update_conv del: map_of_eq_None_iff\<close>)
  then show ?thesis
    using False by (auto simp: connect_def keeps_app_def Let_def AList.update_conv
      active_sessions_def owned_sessions_def connecting_keys_def tasks_of_def split: if_splits)
qed

lemma keeps_rejected:
  assumes ok: "app_ok app"
  shows "keeps_app app (Some (cqAccountKey req, g)) [] (connect_rejected app req g opened e)"
proof (cases "hasConnectAuthority app (cqAccountKey req) g")
  case True
  let ?k = "cqAccountKey req"
  let ?app = "publishStatus (deletePending app ?k) ?k
    (connectFailureStatus (classifyConnectError e) opened)"
  have pending: "map_of (raPending app) ?k = Some g" "\<not> raDisposed app"
    using True by (simp_all add: hasConnectAuthority_def)
  then have session: "map_of (raSessions app) ?k = None"
    by (rule_tac account_cases [OF ok, of ?k]) auto
  have "app_ok ?app"
    by (rule app_ok_at [OF ok, of _ ?k])
      (use pending session app_ok_parts [OF ok] in
        \<open>simp_all add: account_ok_def connectFailureStatus_def\<close>)
  then show ?thesis
    using True by (auto simp: connect_rejected_def keeps_app_def connect_finally_def Let_def)
next
  case False
  then have "map_of (raPending app) (cqAccountKey req) \<noteq> Some g"
    using authority_pending [OF ok] by blast
  then show ?thesis
    using False ok by (auto simp: connect_rejected_def keeps_app_def connect_finally_def Let_def)
qed

lemma keeps_catch:
  assumes ok: "app_ok app"
  shows "keeps_app app (Some (cqAccountKey req, g)) (case session of None \<Rightarrow> [] | Some s \<Rightarrow> [s])
    (connect_catch app req g session e)"
  using ok keeps_rejected [OF ok]
  by (cases session) (auto simp: connect_catch_def keeps_app_def)

lemmas keeps_catch_some = keeps_catch [where session = "Some _", simplified]
lemmas keeps_catch_none = keeps_catch [where session = None, simplified]

lemma keeps_bound:
  assumes ok: "app_ok app"
  shows "keeps_app app (Some (cqAccountKey req, g)) [s] (connect_bound app req g s result)"
proof (cases "\<exists>i. result = Inr i \<and> hasConnectAuthority app (cqAccountKey req) g")
  case True
  then obtain i where i: "result = Inr i" "hasConnectAuthority app (cqAccountKey req) g"
    by blast
  let ?k = "cqAccountKey req"
  let ?a = "\<lparr>aaAccountKey = ?k, aaRemoteAccountId = i, aaSession = s, aaGeneration = g\<rparr>"
  let ?app = "publishStatus (deletePending (setSession app ?a) ?k) ?k onlineStatus"
  have pending: "map_of (raPending app) ?k = Some g" "map_of (raGenerations app) ?k = Some g"
      "\<not> raDisposed app"
    using i by (simp_all add: hasConnectAuthority_def)
  then have session: "map_of (raSessions app) ?k = None"
    by (rule_tac account_cases [OF ok, of ?k]) auto
  have "app_ok ?app"
    by (rule app_ok_at [OF ok, of _ ?k])
      (use pending session app_ok_parts [OF ok] in
        \<open>simp_all add: account_ok_def onlineStatus_def\<close>)
  then show ?thesis
    using i session
    by (auto simp: connect_bound_def keeps_app_def connect_finally_def Let_def)
next
  case False
  then show ?thesis
    using keeps_catch_some [OF ok]
    by (auto simp: connect_bound_def Let_def split: sum.splits)
qed

lemma binding_waits:
  "held (Connecting req g (binding_read app req g s r)) = [s]"
  "held (Connecting req g (binding_registered app req g s i w)) = [s]"
  "held (Connecting req g (binding_reread app req g s i r)) = [s]"
  by (auto simp: binding_read_def binding_registered_def binding_reread_def binding_failed_def
      split: sum.splits PortResult.splits LocalEntityRead.splits list.splits LocalWriteError.splits)

lemmas keeps_wait_open = keeps_waiting [OF _ held_simps(2)]
lemmas keeps_wait_read = keeps_waiting [OF _ held_simps(3)]

lemma keeps_opened:
  assumes ok: "app_ok app"
  shows "keeps_app app (Some (cqAccountKey req, g)) (opened_by (EvOpened r))
    (connect_opened app req g r)"
  using keeps_catch_none [OF ok] keeps_catch_some [OF ok] keeps_wait_read [OF ok]
  by (auto simp: connect_opened_def opened_by_def split: sum.splits)

lemma keeps_announced:
  assumes ok: "app_ok app"
  shows "keeps_app app (Some (cqAccountKey req, g)) [] (connect_announced factory app req g)"
  using keeps_catch_none [OF ok] keeps_wait_open [OF ok]
  by (auto simp: connect_announced_def split: sum.splits)

lemma keeps_resume_connect:
  assumes "app_ok app" "resume_connect factory app req g wait ev = Some r"
  shows "keeps_app app (Some (cqAccountKey req, g))
    (held (Connecting req g wait) @ opened_by ev) r"
  using assms keeps_announced keeps_opened keeps_bound keeps_rejected
    keeps_waiting [OF _ binding_waits(1)] keeps_waiting [OF _ binding_waits(2)]
    keeps_waiting [OF _ binding_waits(3)]
  by (cases wait; cases ev) (auto simp: resume_connect_def opened_by_def)

text \<open>The account leaves the registry: \<open>disconnect\<close>, and the refresh of an expired session.\<close>

lemma keeps_disconnect:
  assumes ok: "app_ok app"
  shows "keeps_app app None [] (disconnect app k)"
proof (cases "raDisposed app")
  case False
  let ?del = "deletePending (deleteSession app k) k"
  let ?app = "\<lambda>a. publishStatus a k disconnectedStatus"
  have anon: "rsAuth disconnectedStatus = Anonymous"
    by (simp add: disconnectedStatus_def)
  have "app_ok (?app ?del)" "app_ok (?app (nextGeneration ?del k))"
    by (rule app_ok_at [OF ok, of _ k];
        use False app_ok_parts [OF ok] anon in \<open>simp add: account_ok_def\<close>)+
  then show ?thesis
    using False active_delete [OF app_ok_parts(1) [OF ok], of k]
    by (cases "map_of (raSessions app) k")
      (auto simp: disconnect_def keeps_app_def Let_def del: map_of_eq_None_iff)
qed (use ok in \<open>simp add: disconnect_def keeps_app_def\<close>)

lemma current_entry:
  assumes "app_ok app" "isCurrentEntry app a"
  shows "map_of (raPending app) (aaAccountKey a) = None"
    "map_of (raSessions app) (aaAccountKey a) = Some a"
    "map_of (raGenerations app) (aaAccountKey a) = Some (aaGeneration a)"
    "\<not> raDisposed app" "auth_of app (aaAccountKey a) = Authenticated"
  using assms(2) by (simp_all add: isCurrentEntry_def)
    (rule account_cases [OF assms(1), of "aaAccountKey a"]; simp)+

lemma keeps_retained:
  assumes ok: "app_ok app" and cur: "isCurrentEntry app a" and st: "rsAuth st = Authenticated"
  shows "keeps_app app None [] (publishStatus app (aaAccountKey a) st, Settled r)"
proof -
  have "app_ok (publishStatus app (aaAccountKey a) st)"
    by (rule app_ok_at [OF ok, of _ "aaAccountKey a"])
      (use st current_entry [OF ok cur] app_ok_parts [OF ok] in \<open>simp_all add: account_ok_def\<close>)
  then show ?thesis
    by (simp add: keeps_app_def)
qed

lemma keeps_expired:
  assumes ok: "app_ok app" and cur: "isCurrentEntry app a"
  shows "keeps_app app None []
    (callClose (publishStatus (nextGeneration (deleteSession app (aaAccountKey a)) (aaAccountKey a))
       (aaAccountKey a) (expiredStatus e)) (aaSession a), Awaits (RefreshClosing (aaSession a) kind))"
proof -
  let ?k = "aaAccountKey a"
  have "app_ok (publishStatus (nextGeneration (deleteSession app ?k) ?k) ?k (expiredStatus e))"
    by (rule app_ok_at [OF ok, of _ ?k])
      (use current_entry [OF ok cur] app_ok_parts [OF ok] in
        \<open>simp_all add: account_ok_def expiredStatus_def\<close>)
  then show ?thesis
    using active_delete [OF app_ok_parts(1) [OF ok] current_entry(2) [OF ok cur]]
    by (simp add: keeps_app_def)
qed

lemma keeps_synced:
  assumes ok: "app_ok app"
  shows "keeps_app app None [] (refresh_synced app a r)"
proof (cases "isCurrentEntry app a")
  case True
  show ?thesis
    unfolding refresh_synced_def Let_def using True
    by (auto intro!: keeps_retained [OF ok] keeps_expired [OF ok] split: sum.splits exn.splits
        simp: onlineStatus_def retainedStatus_def)
qed (use ok in \<open>simp add: refresh_synced_def keeps_app_def Let_def\<close>)

text \<open>\<open>dispose\<close> reaches every account that has an attempt or a session.\<close>

lemma dispose_one_views [simp]:
  "raSessions (dispose_one k app) = raSessions app"
  "raPending (dispose_one k app) = raPending app"
  "raDisposed (dispose_one k app) = raDisposed app"
  "raCloses (dispose_one k app) = raCloses app"
  "auth_of (dispose_one k app) k' = (if k' = k then Anonymous else auth_of app k')"
  by (simp_all add: dispose_one_def auth_of_def getStatus_def AList.update_conv
      disconnectedStatus_def nextGeneration_def)

lemma dispose_all_views [simp]:
  "raSessions (fold dispose_one ks app) = raSessions app"
  "raDisposed (fold dispose_one ks app) = raDisposed app"
  "raCloses (fold dispose_one ks app) = raCloses app"
  "auth_of (fold dispose_one ks app) k =
     (if k \<in> set ks then Anonymous else auth_of app k)"
  by (induction ks arbitrary: app) auto

lemma close_all_views [simp]:
  "raSessions (fold (\<lambda>s a. callClose a s) ss app) = raSessions app"
  "raPending (fold (\<lambda>s a. callClose a s) ss app) = raPending app"
  "raDisposed (fold (\<lambda>s a. callClose a s) ss app) = raDisposed app"
  "raListeners (fold (\<lambda>s a. callClose a s) ss app) = raListeners app"
  "raCloses (fold (\<lambda>s a. callClose a s) ss app) = raCloses app @ ss"
  "auth_of (fold (\<lambda>s a. callClose a s) ss app) k = auth_of app k"
  by (induction ss arbitrary: app) auto

lemma keeps_dispose:
  assumes ok: "app_ok app"
  shows "keeps_app app None [] (dispose app)"
proof (cases "raDisposed app")
  case False
  have quiet: "k \<notin> set (affected_keys app) \<Longrightarrow> auth_of app k \<in> {Anonymous, Expired}" for k
    by (rule account_cases [OF ok, of k])
      (force simp: affected_keys_def dest: map_of_SomeD)+
  have auth: "auth_of (a\<lparr>raPending := ps, raListeners := ls\<rparr>) k = auth_of a k"
      "auth_of (a\<lparr>raDisposed := d, raSessions := ss\<rparr>) k = auth_of a k" for a ps ls d ss k
    by (simp_all add: auth_of_def getStatus_def)
  have "app_ok (fst (dispose app))"
    by (rule app_okI) (use False quiet in \<open>auto simp: dispose_def Let_def account_ok_def auth\<close>)
  then show ?thesis
    using False by (simp add: keeps_app_def dispose_def Let_def active_sessions_def)
qed (use ok in \<open>simp add: dispose_def keeps_app_def\<close>)

section \<open>Every step keeps the invariant\<close>

definition world_ok :: "RemoteWorld \<Rightarrow> bool" where
  "world_ok w \<longleftrightarrow>
     app_ok (rwApp w) \<and> pending_tasks (rwApp w) (rwTasks w) \<and>
     mset (rwOpened w) = owned_sessions (rwApp w) (rwTasks w) \<and> distinct (rwOpened w)"

definition own_attempt :: "task \<Rightarrow> (AccountKey \<times> nat) option" where
  "own_attempt t = (case t of Connecting req g wait \<Rightarrow> Some (cqAccountKey req, g) | _ \<Rightarrow> None)"

lemma listener_views [simp]:
  "auth_of (app\<lparr>raListeners := ls\<rparr>) k = auth_of app k"
  "auth_of (app\<lparr>raListeners := ls, raCalls := cs\<rparr>) k = auth_of app k"
  "active_sessions (app\<lparr>raListeners := ls\<rparr>) = active_sessions app"
  "active_sessions (app\<lparr>raListeners := ls, raCalls := cs\<rparr>) = active_sessions app"
  by (simp_all add: auth_of_def getStatus_def active_sessions_def)

lemma listener_accounts [simp]:
  "account_ok (app\<lparr>raListeners := ls\<rparr>) k = account_ok app k"
  "account_ok (app\<lparr>raListeners := ls, raCalls := cs\<rparr>) k = account_ok app k"
  by (simp_all add: account_ok_def split: option.splits)

lemma keeps_start:
  assumes ok: "app_ok app"
  shows "keeps_app app None [] (start_call c app)"
proof -
  have listeners: "keeps_app app None []
      (app\<lparr>raListeners := ls, raCalls := cs\<rparr>, Settled r)" if "\<not> raDisposed app" for ls cs r
    using ok that by (auto simp: keeps_app_def app_ok_def)
  have "keeps_app app None [] (fst (unsubscribe app k l sub), Settled r)" for k l sub r
    using ok by (auto simp: unsubscribe_def keeps_app_def app_ok_def Let_def split: option.splits)
  moreover have "keeps_app app None [] (refreshAccount app k)" for k
    using ok by (auto simp: refreshAccount_def keeps_app_def split: option.splits)
  ultimately show ?thesis
    using keeps_connect [OF ok] keeps_disconnect [OF ok] keeps_dispose [OF ok] listeners
      keeps_unchanged [OF ok]
    by (cases c) (auto simp: start_call_def subscribe_def throw_if_def)
qed

lemma keeps_resume:
  assumes ok: "app_ok app" and run: "resume factory app t ev = Some r"
  shows "keeps_app app (own_attempt t) (held t @ opened_by ev) r"
proof (cases t)
  case (Connecting req g wait)
  then have "resume_connect factory app req g wait ev = Some r"
    using run by (simp add: resume_def)
  from keeps_resume_connect [OF ok this] show ?thesis
    by (simp add: Connecting own_attempt_def)
qed (use run keeps_synced [OF ok] keeps_unchanged [OF ok] in
  \<open>auto simp: resume_def own_attempt_def opened_by_def split: event.splits\<close>)

lemma connecting_keys_append [simp]:
  "connecting_keys (ts1 @ ts2) = connecting_keys ts1 \<union> connecting_keys ts2"
  by (auto simp: connecting_keys_def)

lemma connecting_keys_Cons:
  "connecting_keys (t # ts) = set_option (own_attempt t) \<union> connecting_keys ts"
  by (cases t) (auto simp: connecting_keys_def own_attempt_def)

lemma owned_replaced:
  assumes "owned_sessions app' ts = mset (active_sessions app) + mset hs + mset (raCloses app)"
  shows "owned_sessions app' (ts1 @ ts @ ts2) =
    owned_sessions app (ts1 @ ts2) + mset hs"
  using arg_cong [OF assms, of "\<lambda>m. m + mset (concat (map held (ts1 @ ts2)))"]
  by (simp add: owned_sessions_def ac_simps)

lemma owned_held: "owned_sessions app (ts1 @ t # ts2) = owned_sessions app (ts1 @ ts2) + mset (held t)"
  by (simp add: owned_sessions_def)

lemma step_keeps:
  assumes "rstep factory w w'" "world_ok w"
  shows "world_ok w'"
  using assms
proof cases
  case (call c app' p)
  then have "keeps_app (rwApp w) None [] (app', p)"
    using keeps_start [of "rwApp w" c] assms(2) by (simp add: world_ok_def)
  moreover from this have "owned_sessions app' (rwTasks w @ tasks_of p) =
      owned_sessions (rwApp w) (rwTasks w)"
    using owned_replaced [of app' "tasks_of p" "rwApp w" "[]" "rwTasks w" "[]"]
    by (simp add: keeps_app_def)
  ultimately show ?thesis
    using call assms(2) by (auto simp: world_ok_def keeps_app_def pending_tasks_def)
next
  case (answer ts1 t ts2 ev app' p)
  then have "keeps_app (rwApp w) (own_attempt t) (held t @ opened_by ev) (app', p)"
    using keeps_resume [of "rwApp w" factory t ev] assms(2) by (simp add: world_ok_def)
  moreover from this have "owned_sessions app' (ts1 @ tasks_of p @ ts2) =
      owned_sessions (rwApp w) (rwTasks w) + mset (opened_by ev)"
    using owned_replaced [of app' "tasks_of p" "rwApp w" "held t @ opened_by ev" ts1 ts2]
    by (simp add: keeps_app_def answer(2) owned_held)
  moreover have "distinct (opened_by ev)"
    by (simp add: opened_by_def split: event.splits sum.splits)
  ultimately show ?thesis
    using answer assms(2)
    by (auto simp: world_ok_def keeps_app_def pending_tasks_def connecting_keys_Cons) blast
qed

lemma new_world_ok: "world_ok new_world"
  by (simp add: world_ok_def new_world_def newRemoteApplication_def app_ok_def account_ok_def
      auth_of_def getStatus_def disconnectedStatus_def pending_tasks_def owned_sessions_def
      active_sessions_def)

lemma reachable_ok:
  assumes "app_reachable factory w"
  shows "world_ok w"
  using assms unfolding app_reachable_def
  by (induction rule: rtranclp_induct) (auto intro: new_world_ok step_keeps)

section \<open>Generations only grow\<close>

lemma generation_simps [simp]:
  "generation_of (publishStatus app k st) k' = generation_of app k'"
  "generation_of (callClose app s) k' = generation_of app k'"
  "generation_of (setSession app a) k' = generation_of app k'"
  "generation_of (nextGeneration app k) k' = generation_of app k' + (if k' = k then 1 else 0)"
  by (simp_all add: publishStatus_def callClose_def setSession_def nextGeneration_def
      generation_of_def AList.update_conv)

lemma generation_updates [simp]:
  "generation_of (app\<lparr>raPending := ps\<rparr>) k = generation_of app k"
  "generation_of (app\<lparr>raListeners := ls\<rparr>) k = generation_of app k"
  "generation_of (app\<lparr>raListeners := ls, raCalls := cs\<rparr>) k = generation_of app k"
  "generation_of (app\<lparr>raStatuses := st\<rparr>) k = generation_of app k"
  "generation_of (app\<lparr>raDisposed := d, raSessions := ss\<rparr>) k = generation_of app k"
  "generation_of (app\<lparr>raPending := ps, raListeners := ls\<rparr>) k = generation_of app k"
  by (simp_all add: generation_of_def)

lemma generation_finally [simp]:
  "generation_of (connect_finally app req g) k = generation_of app k"
  by (simp add: connect_finally_def)

lemma generation_catch [simp]:
  "generation_of (fst (connect_rejected app req g opened e)) k = generation_of app k"
  "generation_of (fst (connect_catch app req g session e)) k = generation_of app k"
  by (simp_all add: connect_rejected_def connect_catch_def Let_def split: option.splits)

lemma generation_closes [simp]:
  "generation_of (fold (\<lambda>s a. callClose a s) ss app) k = generation_of app k"
  by (induction ss arbitrary: app) auto

lemma generation_disposed:
  "generation_of app k \<le> generation_of (fold dispose_one ks app) k"
proof (induction ks arbitrary: app)
  case (Cons k' ks)
  have "generation_of app k \<le> generation_of (dispose_one k' app) k"
    by (simp add: dispose_one_def)
  also have "\<dots> \<le> generation_of (fold dispose_one ks (dispose_one k' app)) k"
    by (rule Cons)
  finally show ?case by simp
qed simp

lemma generation_dispose:
  "generation_of app k \<le> generation_of (fst (dispose app)) k"
  using generation_disposed [of "app\<lparr>raDisposed := True, raSessions := []\<rparr>" k]
  by (simp add: dispose_def Let_def)

lemma generation_start:
  "generation_of app k \<le> generation_of (fst (start_call c app)) k"
proof (cases c)
  case CallDispose
  then show ?thesis
    by (simp add: start_call_def generation_dispose)
qed (auto simp: start_call_def connect_def disconnect_def refreshAccount_def
    subscribe_def unsubscribe_def throw_if_def Let_def split: option.splits)

lemma generation_delete [simp]:
  "generation_of (deletePending app k) k' = generation_of app k'"
  "generation_of (deleteSession app k) k' = generation_of app k'"
  by simp_all

lemma generation_segments [simp]:
  "generation_of (fst (connect_announced factory app req g)) k = generation_of app k"
  "generation_of (fst (connect_opened app req g result)) k = generation_of app k"
  "generation_of (fst (connect_bound app req g s selected)) k = generation_of app k"
  by (auto simp: connect_announced_def connect_opened_def connect_bound_def Let_def
      split: sum.splits)

lemma generation_synced:
  "generation_of app k \<le> generation_of (fst (refresh_synced app a r)) k"
  by (auto simp: refresh_synced_def Let_def split: sum.splits exn.splits)

lemma generation_resume:
  assumes "resume factory app t ev = Some r"
  shows "generation_of app k \<le> generation_of (fst r) k"
proof (cases t)
  case (Connecting req g wait)
  then show ?thesis
    using assms by (cases wait; cases ev) (auto simp: resume_def resume_connect_def)
qed (use assms generation_synced in \<open>auto simp: resume_def split: event.splits\<close>)

lemma generation_step:
  assumes "rstep factory w w'"
  shows "generation_of (rwApp w) k \<le> generation_of (rwApp w') k"
  using assms
proof cases
  case (call c app' p)
  then show ?thesis
    using generation_start [of "rwApp w" k c] by simp
next
  case (answer ts1 t ts2 ev app' p)
  then show ?thesis
    using generation_resume [OF answer(3)] by simp
qed

lemma generation_steps:
  assumes "(rstep factory)\<^sup>*\<^sup>* w w'"
  shows "generation_of (rwApp w) k \<le> generation_of (rwApp w') k"
  using assms by (induction rule: rtranclp_induct) (auto intro: order_trans generation_step)

section \<open>Running a schedule\<close>

text \<open>A schedule as a list of calls and of answers, each to the task at an index.\<close>

datatype move = Do call | Answer nat event

definition make_move ::
  "(RemoteConnectionConfig \<Rightarrow> unit throws) \<Rightarrow> RemoteWorld \<Rightarrow> move \<Rightarrow> RemoteWorld option" where
  "make_move factory w m =
     (case m of
        Do c \<Rightarrow>
          (case start_call c (rwApp w) of
             (app', p) \<Rightarrow> Some \<lparr>rwApp = app', rwTasks = rwTasks w @ tasks_of p, rwOpened = rwOpened w\<rparr>)
      | Answer i ev \<Rightarrow>
          if i < length (rwTasks w) \<and> list_all (\<lambda>s. s \<notin> set (rwOpened w)) (opened_by ev)
          then
            (case resume factory (rwApp w) (rwTasks w ! i) ev of
               None \<Rightarrow> None
             | Some (app', p) \<Rightarrow>
                 Some \<lparr>rwApp = app',
                       rwTasks = take i (rwTasks w) @ tasks_of p @ drop (Suc i) (rwTasks w),
                       rwOpened = rwOpened w @ opened_by ev\<rparr>)
          else None)"

primrec make_moves ::
  "(RemoteConnectionConfig \<Rightarrow> unit throws) \<Rightarrow> RemoteWorld \<Rightarrow> move list \<Rightarrow> RemoteWorld option" where
  "make_moves factory w [] = Some w"
| "make_moves factory w (m # ms) =
     (case make_move factory w m of None \<Rightarrow> None | Some w' \<Rightarrow> make_moves factory w' ms)"

lemma make_move_step:
  assumes "make_move factory w m = Some w'"
  shows "rstep factory w w'"
proof (cases m)
  case (Do c)
  then show ?thesis
    using assms rstep.call [of c w] by (auto simp: make_move_def split: prod.splits)
next
  case (Answer i ev)
  obtain app' p where run: "resume factory (rwApp w) (rwTasks w ! i) ev = Some (app', p)"
      and w': "w' = \<lparr>rwApp = app', rwTasks = take i (rwTasks w) @ tasks_of p @ drop (Suc i) (rwTasks w),
        rwOpened = rwOpened w @ opened_by ev\<rparr>"
      and i: "i < length (rwTasks w)" and fresh: "set (opened_by ev) \<inter> set (rwOpened w) = {}"
    using assms Answer
    by (auto simp: make_move_def list_all_iff split: if_splits option.splits)
  show ?thesis
    unfolding w' by (rule rstep.answer [OF id_take_nth_drop [OF i] run fresh])
qed

lemma make_moves_reach:
  "make_moves factory w ms = Some w' \<Longrightarrow> (rstep factory)\<^sup>*\<^sup>* w w'"
  by (induction ms arbitrary: w)
    (auto split: option.splits intro: converse_rtranclp_into_rtranclp make_move_step)

text \<open>Two accounts: the first connects to its registered account and disconnects, the second is
  still reading its binding.\<close>

definition sample_request :: "AccountKey \<Rightarrow> RemoteConnectRequest" where
  "sample_request k =
     \<lparr>cqAccountKey = k, cqServiceKey = [7], cqConfig = ConfigJmap [6]\<rparr>"

definition sample_handle :: "nat \<Rightarrow> SessionHandle" where
  "sample_handle i = \<lparr>shId = i, shAccounts = [\<lparr>rdaId = [8], rdaCapabilities = []\<rparr>]\<rparr>"

definition sample_moves :: "move list" where
  "sample_moves =
     [Do (CallSubscribe [1] 5),
      Do (CallConnect (sample_request [1])), Answer 0 EvContinue,
      Answer 0 (EvOpened (Inr (sample_handle 0))),
      Answer 0 (EvRead (Inr (PortOk (EntityPresent (account [1] (remoteAccountRef [7] [8])))))),
      Answer 0 EvContinue,
      Do (CallConnect (sample_request [2])), Answer 0 EvContinue,
      Answer 0 (EvOpened (Inr (sample_handle 1)))]"

definition sample_factory :: "RemoteConnectionConfig \<Rightarrow> unit throws" where
  "sample_factory config = Inr ()"

definition sample_active :: ActiveRemoteAccount where
  "sample_active = \<lparr>aaAccountKey = [1], aaRemoteAccountId = [8], aaSession = sample_handle 0,
     aaGeneration = 1\<rparr>"

definition sample_connected :: RemoteWorld where
  "sample_connected =
     \<lparr>rwApp =
        \<lparr>raSessions = [([1], sample_active)], raGenerations = [([1], 1), ([2], 1)],
         raPending = [([2], 1)],
         raStatuses =
           [([1], onlineStatus),
            ([2], \<lparr>rsAuth = Authenticating, rsConnectivity = Offline, rsLastError = None\<rparr>)],
         raListeners = [([1], [5])], raDisposed = False,
         raCalls =
           [(5, disconnectedStatus),
            (5, \<lparr>rsAuth = Authenticating, rsConnectivity = Offline, rsLastError = None\<rparr>),
            (5, onlineStatus)],
         raCloses = []\<rparr>,
      rwTasks = [Connecting (sample_request [2]) 1 (WaitRead (sample_handle 1))],
      rwOpened = [sample_handle 0, sample_handle 1]\<rparr>"

lemma sample_run: "make_moves sample_factory new_world sample_moves = Some sample_connected"
  by code_simp

lemma sample_app_reachable: "app_reachable sample_factory sample_connected"
  unfolding app_reachable_def by (rule make_moves_reach [OF sample_run])

section \<open>The properties\<close>

text \<open>C8: In every reachable world an account is in one of three phases, whatever calls and answers
  have interleaved. Connecting: an attempt is pending, its generation is the current one, the
  account has no session, its status says authenticating, and the call that made the attempt is
  still waiting, so the attempt cannot be left pending for ever by a call that has ended. Connected:
  the session entered is of the current generation and the status says authenticated. Neither: the
  status says anonymous or expired. A disposed application holds no account at all.\<close>

theorem remote_account_phases:
  assumes "app_reachable factory w"
  shows "(case (map_of (raPending (rwApp w)) k, map_of (raSessions (rwApp w)) k) of
      (Some g, None) \<Rightarrow>
        map_of (raGenerations (rwApp w)) k = Some g \<and>
        rsAuth (getStatus (rwApp w) k) = Authenticating \<and>
        (\<exists>req wait. Connecting req g wait \<in> set (rwTasks w) \<and> cqAccountKey req = k) \<and>
        \<not> raDisposed (rwApp w)
    | (None, Some a) \<Rightarrow>
        aaAccountKey a = k \<and> map_of (raGenerations (rwApp w)) k = Some (aaGeneration a) \<and>
        rsAuth (getStatus (rwApp w) k) = Authenticated \<and> \<not> raDisposed (rwApp w)
    | (None, None) \<Rightarrow> rsAuth (getStatus (rwApp w) k) \<in> {Anonymous, Expired}
    | (Some _, Some _) \<Rightarrow> False)"
proof -
  have ok: "app_ok (rwApp w)" "pending_tasks (rwApp w) (rwTasks w)"
    using reachable_ok [OF assms] by (simp_all add: world_ok_def)
  then show ?thesis
    by (rule_tac account_cases [OF ok(1), of k])
      (auto simp: auth_of_def pending_tasks_def connecting_keys_def, metis)
qed

lemma remote_account_phases_witness:
  "\<exists>req wait. Connecting req 1 wait \<in> set (rwTasks sample_connected) \<and> cqAccountKey req = [2]"
  using remote_account_phases [OF sample_app_reachable, of "[2]"]
  by (simp add: sample_connected_def)

text \<open>C7: No session is leaked and none is closed twice. In every reachable world the sessions that
  \<open>open\<close> has returned, which are all different, are exactly, each counted once: those of the
  connected accounts, those a \<open>connect\<close> still waiting has in its hands, and those whose \<open>close\<close>
  has been called. This holds through cancelled and failed attempts, disconnections, expiry and
  disposal, in any interleaving.\<close>

theorem no_session_leak:
  assumes "app_reachable factory w"
  shows "mset (rwOpened w) =
      mset (map (aaSession \<circ> snd) (raSessions (rwApp w))) +
      mset (concat (map held (rwTasks w))) + mset (raCloses (rwApp w)) \<and>
    distinct (rwOpened w)"
  using reachable_ok [OF assms]
  by (simp add: world_ok_def owned_sessions_def active_sessions_def)

lemma no_session_leak_witness:
  "mset [sample_handle 0, sample_handle 1] =
     mset [sample_handle 0] + mset [sample_handle 1] + mset []"
  using no_session_leak [OF sample_app_reachable]
  by (simp add: sample_connected_def sample_active_def)

text \<open>C26: \<open>disconnect\<close> revokes. Once an account whose connection was pending or active in generation
  \<open>g\<close> has been disconnected, no later interleaving makes a session of that generation or of an
  earlier one active: what an overtaken attempt opens can only be closed.\<close>

theorem disconnect_revokes:
  assumes "app_reachable factory w"
    "map_of (raPending (rwApp w)) k = Some g \<or>
     (\<exists>a. map_of (raSessions (rwApp w)) k = Some a \<and> aaGeneration a = g)"
    "disconnect (rwApp w) k = (app', p)"
    "(rstep factory)\<^sup>*\<^sup>* \<lparr>rwApp = app', rwTasks = rwTasks w @ tasks_of p, rwOpened = rwOpened w\<rparr> w'"
    "map_of (raSessions (rwApp w')) k = Some a"
  shows "g < aaGeneration a"
proof -
  let ?v = "\<lparr>rwApp = app', rwTasks = rwTasks w @ tasks_of p, rwOpened = rwOpened w\<rparr>"
  have ok: "app_ok (rwApp w)"
    using reachable_ok [OF assms(1)] by (simp add: world_ok_def)
  have "map_of (raGenerations (rwApp w)) k = Some g" "\<not> raDisposed (rwApp w)"
    by (rule account_cases [OF ok, of k]; use assms(2) in auto)+
  then have "generation_of app' k = g + 1"
    using assms(2,3) by (auto simp: disconnect_def Let_def generation_of_def [of "rwApp w"]
        split: option.splits)
  moreover have "rstep factory w ?v"
    using rstep.call [of "CallDisconnect k" w app' p] assms(3) by (simp add: start_call_def)
  then have "app_reachable factory w'"
    using assms(1,4) by (simp add: app_reachable_def)
  then have "app_ok (rwApp w')"
    using reachable_ok by (simp add: world_ok_def)
  then have "generation_of (rwApp w') k = aaGeneration a"
    by (rule account_cases [of _ k]) (use assms(5) in \<open>simp_all add: generation_of_def\<close>)
  ultimately show ?thesis
    using generation_steps [OF assms(4), of k] by simp
qed

text \<open>The first account of the sample connects again after it was disconnected.\<close>

definition reconnect_moves :: "move list" where
  "reconnect_moves =
     [Do (CallConnect (sample_request [1])), Answer 2 EvContinue,
      Answer 2 (EvOpened (Inr (sample_handle 2))),
      Answer 2 (EvRead (Inr (PortOk (EntityPresent (account [1] (remoteAccountRef [7] [8])))))),
      Answer 2 EvContinue]"

lemma sample_reconnects:
  "(case disconnect (rwApp sample_connected) [1] of
      (app', p) \<Rightarrow>
        map_option (\<lambda>w. map_of (raSessions (rwApp w)) [1])
          (make_moves sample_factory
             \<lparr>rwApp = app', rwTasks = rwTasks sample_connected @ tasks_of p,
              rwOpened = rwOpened sample_connected\<rparr> reconnect_moves)) =
    Some (Some (sample_active\<lparr>aaSession := sample_handle 2, aaGeneration := 3\<rparr>))"
  by code_simp

lemma disconnect_revokes_witness:
  "1 < aaGeneration (sample_active\<lparr>aaSession := sample_handle 2, aaGeneration := 3\<rparr>)"
proof -
  obtain app' p where d: "disconnect (rwApp sample_connected) [1] = (app', p)"
    by (cases "disconnect (rwApp sample_connected) [1]")
  then obtain w' where w': "make_moves sample_factory
      \<lparr>rwApp = app', rwTasks = rwTasks sample_connected @ tasks_of p,
       rwOpened = rwOpened sample_connected\<rparr> reconnect_moves = Some w'"
      "map_of (raSessions (rwApp w')) [1] =
        Some (sample_active\<lparr>aaSession := sample_handle 2, aaGeneration := 3\<rparr>)"
    using sample_reconnects by auto
  have "\<exists>a. map_of (raSessions (rwApp sample_connected)) [1] = Some a \<and> aaGeneration a = 1"
    by (simp add: sample_connected_def sample_active_def)
  then show ?thesis
    using disconnect_revokes [OF sample_app_reachable _ d make_moves_reach [OF w'(1)] w'(2), of 1]
    by blast
qed

end
