(* ===== verification/Capability_Store.thy ===== *)
theory Capability_Store
  imports Remote_Application
begin

text \<open>
  \<open>src/src/app/remote/remote-body-source.ts\<close>: the store through which message bodies are fetched
  and mutations are sent. A connected account lends it a capability; an operation captures the
  capability of its account, calls the remote session in it, and looks again when the call has
  returned. Each asynchronous method is therefore two segments, around its one \<open>await\<close>.
\<close>

section \<open>The store\<close>

text \<open>A capability is a fresh object each time it is entered, known by \<open>abId\<close>; its mail and its
  submission are those of a session, its reconciler may be missing.\<close>

record ActiveBodyCapability =
  abAccountKey :: AccountKey
  abRemoteAccountId :: RemoteAccountId
  abSession :: SessionHandle
  abReconciler :: bool
  abGeneration :: nat
  abId :: nat

record RemoteBodyCapabilityStore =
  csActive :: "(AccountKey \<times> ActiveBodyCapability) list"
  csGenerations :: "(AccountKey \<times> nat) list"
  csDisposed :: bool
  csNext :: nat

definition newCapabilityStore :: RemoteBodyCapabilityStore where
  "newCapabilityStore = \<lparr>csActive = [], csGenerations = [], csDisposed = False, csNext = 0\<rparr>"

text \<open>The status authority, once it is set, is asked anew at each use.\<close>

type_synonym authority = "(AccountKey \<Rightarrow> bool) option"

definition allows :: "authority \<Rightarrow> AccountKey \<Rightarrow> bool" where
  "allows authority k = (case authority of None \<Rightarrow> False | Some f \<Rightarrow> f k)"

definition capabilityGeneration :: "RemoteBodyCapabilityStore \<Rightarrow> AccountKey \<Rightarrow> nat" where
  "capabilityGeneration st k = (case map_of (csGenerations st) k of None \<Rightarrow> 0 | Some g \<Rightarrow> g)"

definition activate ::
  "RemoteBodyCapabilityStore \<Rightarrow> authority \<Rightarrow> AccountKey \<Rightarrow> RemoteAccountId \<Rightarrow> SessionHandle \<Rightarrow> bool \<Rightarrow>
   nat \<Rightarrow> RemoteBodyCapabilityStore" where
  "activate st authority k remote s reconciler expected =
     (if csDisposed st \<or> capabilityGeneration st k \<noteq> expected \<or> \<not> allows authority k then st
      else
        st\<lparr>csActive :=
             AList.update k
               \<lparr>abAccountKey = k, abRemoteAccountId = remote, abSession = s,
                abReconciler = reconciler, abGeneration = expected, abId = csNext st\<rparr>
               (csActive st),
           csNext := csNext st + 1\<rparr>)"

definition invalidate ::
  "RemoteBodyCapabilityStore \<Rightarrow> AccountKey \<Rightarrow> RemoteBodyCapabilityStore" where
  "invalidate st k =
     st\<lparr>csActive := AList.delete k (csActive st),
        csGenerations := AList.update k (capabilityGeneration st k + 1) (csGenerations st)\<rparr>"

definition disposeStore :: "RemoteBodyCapabilityStore \<Rightarrow> RemoteBodyCapabilityStore" where
  "disposeStore st =
     (fold (\<lambda>k s. invalidate s k) (map fst (csActive st)) (st\<lparr>csDisposed := True\<rparr>))
       \<lparr>csActive := []\<rparr>"

definition isCurrentCapability ::
  "RemoteBodyCapabilityStore \<Rightarrow> authority \<Rightarrow> ActiveBodyCapability \<Rightarrow> bool" where
  "isCurrentCapability st authority c \<longleftrightarrow>
     \<not> csDisposed st \<and> map_of (csActive st) (abAccountKey c) = Some c \<and>
     capabilityGeneration st (abAccountKey c) = abGeneration c \<and>
     allows authority (abAccountKey c)"

definition isConnected :: "RemoteBodyCapabilityStore \<Rightarrow> authority \<Rightarrow> AccountKey \<Rightarrow> bool" where
  "isConnected st authority k =
     (case map_of (csActive st) k of
        None \<Rightarrow> False
      | Some c \<Rightarrow> isCurrentCapability st authority c)"

section \<open>What the operations call\<close>

datatype RemoteCall =
    CallsSubmit SessionHandle SubmissionMessage jsstring
  | CallsKeywordChange SessionHandle RemoteAccountId RemoteEmailId RemoteKeywordChange
  | CallsMembershipChange SessionHandle RemoteAccountId RemoteEmailId RemoteMembershipChange
  | CallsReconcileSend SessionHandle RemoteSendReconciliationRequest
  | CallsReconcileMembership SessionHandle RemoteMembershipReconciliationRequest
  | CallsFetchBody SessionHandle RemoteAccountId RemoteEmailId

definition mutationCapability ::
  "RemoteBodyCapabilityStore \<Rightarrow> authority \<Rightarrow> AccountKey \<Rightarrow> ActiveBodyCapability throws" where
  "mutationCapability st authority k =
     (case map_of (csActive st) k of
        None \<Rightarrow> Inl (RemoteMutationSourceError FNotConnected)
      | Some c \<Rightarrow>
          throw_if (\<not> isCurrentCapability st authority c)
            (RemoteMutationSourceError FNotConnected) (Inr c))"

text \<open>The first segments: the capability captured and the call made.\<close>

definition submitMutation ::
  "RemoteBodyCapabilityStore \<Rightarrow> authority \<Rightarrow> AccountKey \<Rightarrow> RemoteSubmissionDraft \<Rightarrow> jsstring \<Rightarrow>
   (ActiveBodyCapability \<times> RemoteCall) throws" where
  "submitMutation st authority k draft key =
     bindE (mutationCapability st authority k) (\<lambda>c.
     Inr (c, CallsSubmit (abSession c)
       (RemoteSubmissionDraft.extend draft
          (SubmissionMessage.fields (abRemoteAccountId c))) key))"

definition applyKeywordChange ::
  "RemoteBodyCapabilityStore \<Rightarrow> authority \<Rightarrow> AccountKey \<Rightarrow> RemoteEmailId \<Rightarrow> RemoteKeywordChange \<Rightarrow>
   (ActiveBodyCapability \<times> RemoteCall) throws" where
  "applyKeywordChange st authority k e change =
     bindE (mutationCapability st authority k) (\<lambda>c.
     Inr (c, CallsKeywordChange (abSession c) (abRemoteAccountId c) e change))"

definition applyMembershipChange ::
  "RemoteBodyCapabilityStore \<Rightarrow> authority \<Rightarrow> AccountKey \<Rightarrow> RemoteEmailId \<Rightarrow> RemoteMembershipChange \<Rightarrow>
   (ActiveBodyCapability \<times> RemoteCall) throws" where
  "applyMembershipChange st authority k e change =
     bindE (mutationCapability st authority k) (\<lambda>c.
     Inr (c, CallsMembershipChange (abSession c) (abRemoteAccountId c) e change))"

definition reconcileSend ::
  "RemoteBodyCapabilityStore \<Rightarrow> authority \<Rightarrow> AccountKey \<Rightarrow> jsstring \<Rightarrow>
   (ActiveBodyCapability \<times> RemoteCall) throws" where
  "reconcileSend st authority k key =
     bindE (mutationCapability st authority k) (\<lambda>c.
     throw_if (\<not> abReconciler c) (RemoteMutationSourceError FUnexpected)
     (Inr (c, CallsReconcileSend (abSession c)
        \<lparr>srqRemoteAccountId = abRemoteAccountId c, srqIdempotencyKey = key\<rparr>)))"

definition reconcileMembership ::
  "RemoteBodyCapabilityStore \<Rightarrow> authority \<Rightarrow> AccountKey \<Rightarrow> jsstring \<Rightarrow> RemoteEmailId \<Rightarrow>
   RemoteMembershipChange \<Rightarrow> (ActiveBodyCapability \<times> RemoteCall) throws" where
  "reconcileMembership st authority k key e change =
     bindE (mutationCapability st authority k) (\<lambda>c.
     throw_if (\<not> abReconciler c) (RemoteMutationSourceError FUnexpected)
     (Inr (c, CallsReconcileMembership (abSession c)
        \<lparr>mrqRemoteAccountId = abRemoteAccountId c, mrqIdempotencyKey = key, mrqEmailId = e,
         mrqChange = change\<rparr>)))"

definition fetchBody ::
  "RemoteBodyCapabilityStore \<Rightarrow> authority \<Rightarrow> AccountKey \<Rightarrow> RemoteEmailId \<Rightarrow>
   (ActiveBodyCapability \<times> RemoteCall) throws" where
  "fetchBody st authority k e =
     (case map_of (csActive st) k of
        None \<Rightarrow> Inl (RemoteBodySourceError BNotConnected)
      | Some c \<Rightarrow>
          throw_if (csDisposed st \<or> \<not> allows authority k) (RemoteBodySourceError BNotConnected)
            (Inr (c, CallsFetchBody (abSession c) (abRemoteAccountId c) e)))"

section \<open>When the call has returned\<close>

definition handleMutationFailure ::
  "RemoteBodyCapabilityStore \<Rightarrow> authority \<Rightarrow> ActiveBodyCapability \<Rightarrow> exn \<Rightarrow>
   RemoteBodyCapabilityStore \<times> exn" where
  "handleMutationFailure st authority c e =
     (if \<not> isCurrentCapability st authority c then (st, RemoteMutationSourceError FCancelled)
      else
        (case e of
           RemoteExn r \<Rightarrow>
             (if reSession r = SExpire then invalidate st (abAccountKey c) else st,
              RemoteMutationSourceError (FRemote r))
         | _ \<Rightarrow> (st, RemoteMutationSourceError FUnexpected)))"

text \<open>The failure of \<open>assertMutationCurrent\<close> is thrown inside the \<open>try\<close>.\<close>

definition mutation_returned ::
  "RemoteBodyCapabilityStore \<Rightarrow> authority \<Rightarrow> ActiveBodyCapability \<Rightarrow> exn + 'a \<Rightarrow>
   RemoteBodyCapabilityStore \<times> (exn + 'a)" where
  "mutation_returned st authority c result =
     (let caught = (\<lambda>e. map_prod id Inl (handleMutationFailure st authority c e)) in
      case result of
        Inl e \<Rightarrow> caught e
      | Inr a \<Rightarrow>
          if isCurrentCapability st authority c then (st, Inr a)
          else caught (RemoteMutationSourceError FCancelled))"

definition assertCurrent ::
  "RemoteBodyCapabilityStore \<Rightarrow> authority \<Rightarrow> ActiveBodyCapability \<Rightarrow> unit throws" where
  "assertCurrent st authority c =
     throw_if (\<not> isCurrentCapability st authority c) (RemoteBodySourceError BCancelled) (Inr ())"

definition body_returned ::
  "RemoteBodyCapabilityStore \<Rightarrow> authority \<Rightarrow> ActiveBodyCapability \<Rightarrow> exn + 'a \<Rightarrow>
   RemoteBodyCapabilityStore \<times> (exn + 'a)" where
  "body_returned st authority c result =
     (case result of
        Inr body \<Rightarrow> (st, bindE (assertCurrent st authority c) (\<lambda>_. Inr body))
      | Inl (RemoteBodySourceError k) \<Rightarrow> (st, Inl (RemoteBodySourceError k))
      | Inl e \<Rightarrow>
          (case assertCurrent st authority c of
             Inl f \<Rightarrow> (st, Inl f)
           | Inr _ \<Rightarrow>
               (case e of
                  RemoteExn r \<Rightarrow>
                    (if reSession r = SExpire then invalidate st (abAccountKey c) else st,
                     Inl (RemoteBodySourceError BRemote))
                | _ \<Rightarrow> (st, Inl (RemoteBodySourceError BUnexpected)))))"

section \<open>Everything that can happen to the store\<close>

datatype store_event =
    StoreActivates authority AccountKey RemoteAccountId SessionHandle bool nat
  | StoreInvalidates AccountKey
  | StoreDisposed
  | MutationReturns authority ActiveBodyCapability "exn + unit"
  | BodyReturns authority ActiveBodyCapability "exn + RemoteBody"

primrec apply_event :: "store_event \<Rightarrow> RemoteBodyCapabilityStore \<Rightarrow> RemoteBodyCapabilityStore" where
  "apply_event (StoreActivates authority k remote s reconciler g) st =
     activate st authority k remote s reconciler g"
| "apply_event (StoreInvalidates k) st = invalidate st k"
| "apply_event StoreDisposed st = disposeStore st"
| "apply_event (MutationReturns authority c r) st = fst (mutation_returned st authority c r)"
| "apply_event (BodyReturns authority c r) st = fst (body_returned st authority c r)"

lemma generation_invalidate [simp]:
  "capabilityGeneration (invalidate st k) k' = capabilityGeneration st k' + (if k' = k then 1 else 0)"
  by (simp add: invalidate_def capabilityGeneration_def AList.update_conv)

lemma generation_activate [simp]:
  "capabilityGeneration (activate st authority k remote s reconciler g) k' = capabilityGeneration st k'"
  by (simp add: activate_def capabilityGeneration_def)

lemma generation_invalidate_all:
  "capabilityGeneration st k \<le> capabilityGeneration (fold (\<lambda>k s. invalidate s k) ks st) k"
proof (induction ks arbitrary: st)
  case (Cons k' ks)
  have "capabilityGeneration st k \<le> capabilityGeneration (invalidate st k') k"
    by simp
  also have "\<dots> \<le> capabilityGeneration (fold (\<lambda>k s. invalidate s k) ks (invalidate st k')) k"
    by (rule Cons)
  finally show ?case by simp
qed simp

lemma generation_store_dispose:
  "capabilityGeneration st k \<le> capabilityGeneration (disposeStore st) k"
  using generation_invalidate_all [of "st\<lparr>csDisposed := True\<rparr>" k "map fst (csActive st)"]
  by (simp add: disposeStore_def capabilityGeneration_def)

lemma generation_event:
  "capabilityGeneration st k \<le> capabilityGeneration (apply_event ev st) k"
  by (cases ev) (auto simp: generation_store_dispose mutation_returned_def handleMutationFailure_def
      body_returned_def assertCurrent_def throw_if_def Let_def split: sum.splits exn.splits)

lemma generation_events:
  "capabilityGeneration st k \<le> capabilityGeneration (fold apply_event evs st) k"
  by (induction evs arbitrary: st) (auto intro: order_trans generation_event)

lemma captured_current:
  assumes "mutationCapability st authority k = Inr c"
  shows "isCurrentCapability st authority c" "map_of (csActive st) k = Some c"
  using assms by (auto simp: mutationCapability_def throw_if_def split: option.splits if_splits)

definition store_keyed :: "RemoteBodyCapabilityStore \<Rightarrow> bool" where
  "store_keyed st \<longleftrightarrow> (\<forall>k c. map_of (csActive st) k = Some c \<longrightarrow> abAccountKey c = k)"

lemma keyed_invalidate: "store_keyed st \<Longrightarrow> store_keyed (invalidate st k)"
  by (simp add: store_keyed_def invalidate_def AList.delete_conv)

lemma keyed_event: "store_keyed st \<Longrightarrow> store_keyed (apply_event ev st)"
proof (cases ev)
  case (StoreActivates authority k remote s reconciler g)
  then show "store_keyed st \<Longrightarrow> ?thesis"
    by (simp add: store_keyed_def activate_def AList.update_conv)
next
  case StoreDisposed
  then show ?thesis
    by (simp add: store_keyed_def disposeStore_def)
qed (auto simp: keyed_invalidate mutation_returned_def handleMutationFailure_def
    body_returned_def assertCurrent_def throw_if_def Let_def split: sum.splits exn.splits)

lemma keyed_events: "store_keyed (fold apply_event evs newCapabilityStore)"
proof -
  have "store_keyed st \<Longrightarrow> store_keyed (fold apply_event evs st)" for st
    by (induction evs arbitrary: st) (auto simp: keyed_event)
  from this [of newCapabilityStore] show ?thesis
    by (simp add: store_keyed_def newCapabilityStore_def)
qed

lemma disposed_invalidate [simp]: "csDisposed (invalidate st k) = csDisposed st"
  by (simp add: invalidate_def)

lemma disposed_event: "csDisposed st \<Longrightarrow> csDisposed (apply_event ev st)"
proof (cases ev)
  case StoreDisposed
  have "csDisposed (fold (\<lambda>k s. invalidate s k) ks st) = csDisposed st" for ks st
    by (induction ks arbitrary: st) auto
  then show ?thesis
    by (simp add: StoreDisposed disposeStore_def)
qed (auto simp: activate_def mutation_returned_def handleMutationFailure_def
    body_returned_def assertCurrent_def throw_if_def Let_def split: sum.splits exn.splits)

lemma disposed_events: "csDisposed st \<Longrightarrow> csDisposed (fold apply_event evs st)"
  by (induction evs arbitrary: st) (auto simp: disposed_event)

lemma dispose_event [simp]: "csDisposed (apply_event StoreDisposed st)"
proof -
  have "csDisposed (fold (\<lambda>k s. invalidate s k) ks st) = csDisposed st" for ks st
    by (induction ks arbitrary: st) auto
  then show ?thesis
    by (simp add: disposeStore_def)
qed

text \<open>Once revoked, a capability is never current again.\<close>

lemma revoked:
  assumes current: "isCurrentCapability st authority c"
    and cut: "StoreInvalidates (abAccountKey c) \<in> set evs \<or> StoreDisposed \<in> set evs"
  shows "\<not> isCurrentCapability (fold apply_event evs st) authority' c"
proof -
  obtain ev where ev: "ev \<in> set evs" "ev = StoreInvalidates (abAccountKey c) \<or> ev = StoreDisposed"
    using cut by blast
  then obtain before later where evs: "evs = before @ ev # later"
    by (meson split_list)
  let ?mid = "fold apply_event before st"
  let ?fin = "fold apply_event later (apply_event ev ?mid)"
  have "abGeneration c \<le> capabilityGeneration ?mid (abAccountKey c)"
    using current generation_events [of st "abAccountKey c" before]
    by (simp add: isCurrentCapability_def)
  from ev(2) show ?thesis
  proof
    assume "ev = StoreInvalidates (abAccountKey c)"
    then have "abGeneration c < capabilityGeneration ?fin (abAccountKey c)"
      using \<open>abGeneration c \<le> _\<close>
        generation_events [of "apply_event ev ?mid" "abAccountKey c" later] by simp
    then show ?thesis
      by (simp add: evs isCurrentCapability_def)
  next
    assume "ev = StoreDisposed"
    then have "csDisposed ?fin"
      using disposed_events [of "apply_event StoreDisposed ?mid" later] by (simp del: apply_event.simps)
    then show ?thesis
      by (simp add: evs isCurrentCapability_def)
  qed
qed

section \<open>The property\<close>

text \<open>C29: A revoked capability delivers nothing. An operation that captured its account's capability
  before the account was invalidated (it was disconnected, or its session expired) or the store
  disposed of ends in \<open>cancelled\<close> when its call returns: a mutation whatever the call answered, the
  fetch of a body when the call returned a body or failed with an error of the remote contract. That
  holds whatever has happened to the store in between, a new connection of the same account included,
  and the store is not touched: a failure cannot invalidate the capability that replaced its own.\<close>

theorem revoked_capability_cancels:
  assumes "st = fold apply_event history newCapabilityStore"
    and "mutationCapability st authority k = Inr c"
    and "StoreInvalidates k \<in> set evs \<or> StoreDisposed \<in> set evs"
    and "st' = fold apply_event evs st"
  shows "mutation_returned st' authority' c (result :: exn + 'a) =
      (st', Inl (RemoteMutationSourceError FCancelled)) \<and>
    body_returned st' authority' c (Inr body) = (st', Inl (RemoteBodySourceError BCancelled)) \<and>
    body_returned st' authority' c (Inl (RemoteExn e) :: exn + 'b) =
      (st', Inl (RemoteBodySourceError BCancelled)) \<and>
    assertCurrent st' authority' c = Inl (RemoteBodySourceError BCancelled)"
proof -
  have "abAccountKey c = k"
    using keyed_events [of history] captured_current(2) [OF assms(2)] assms(1)
    by (simp add: store_keyed_def)
  then have "\<not> isCurrentCapability st' authority' c"
    using revoked [OF captured_current(1) [OF assms(2)]] assms(3,4) by simp
  then show ?thesis
    by (simp add: mutation_returned_def handleMutationFailure_def body_returned_def
        assertCurrent_def split: sum.splits)
qed

text \<open>An account that reconnects while a mutation of its first session is still out.\<close>

definition sample_lent :: ActiveBodyCapability where
  "sample_lent = \<lparr>abAccountKey = [1], abRemoteAccountId = [8],
     abSession = \<lparr>shId = 0, shAccounts = []\<rparr>, abReconciler = False, abGeneration = 0, abId = 0\<rparr>"

definition sample_history :: "store_event list" where
  "sample_history =
     [StoreActivates (Some (\<lambda>_. True)) [1] [8] \<lparr>shId = 0, shAccounts = []\<rparr> False 0]"

definition sample_events :: "store_event list" where
  "sample_events =
     [StoreInvalidates [1],
      StoreActivates (Some (\<lambda>_. True)) [1] [8] \<lparr>shId = 1, shAccounts = []\<rparr> False 1]"

lemma sample_captured:
  "mutationCapability (fold apply_event sample_history newCapabilityStore) (Some (\<lambda>_. True)) [1] =
     Inr sample_lent"
  by (simp add: sample_history_def newCapabilityStore_def activate_def allows_def sample_lent_def
      mutationCapability_def isCurrentCapability_def capabilityGeneration_def)

lemma revoked_capability_cancels_witness:
  "\<exists>st. isConnected st (Some (\<lambda>_. True)) [1] \<and>
     mutation_returned st (Some (\<lambda>_. True)) sample_lent (Inr (5 :: nat)) =
       (st, Inl (RemoteMutationSourceError FCancelled))"
proof -
  let ?st = "fold apply_event sample_events (fold apply_event sample_history newCapabilityStore)"
  have "isConnected ?st (Some (\<lambda>_. True)) [1]"
    by (simp add: sample_history_def sample_events_def newCapabilityStore_def activate_def
        allows_def isConnected_def isCurrentCapability_def capabilityGeneration_def invalidate_def)
  moreover have "StoreInvalidates [1] \<in> set sample_events \<or> StoreDisposed \<in> set sample_events"
    by (simp add: sample_events_def)
  then have "mutation_returned ?st (Some (\<lambda>_. True)) sample_lent (Inr (5 :: nat)) =
      (?st, Inl (RemoteMutationSourceError FCancelled))"
    using revoked_capability_cancels [OF refl sample_captured _ refl]
    by (rule_tac conjunct1)
  ultimately show ?thesis
    by (intro exI [of _ ?st] conjI)
qed

end
