(* ===== verification/Remote_Runtime.thy ===== *)
theory Remote_Runtime
  imports Remote_App_Machine Capability_Store
begin

text \<open>
  \<open>src/src/app/remote/{remote-runtime-composition,tauri-remote-composition}.ts\<close>: the application the
  product uses. It wraps \<open>DefaultRemoteApplication\<close> and keeps the capability store in step with it: a
  connection that becomes authenticated lends a capability, a disconnection or an expiry takes it
  back. A call of the wrapper holds the call of the core it awaits.
\<close>

section \<open>The state\<close>

text \<open>\<open>ctTracked\<close>: while a \<open>connect\<close> announces its status, \<open>currentAttempt\<close> is its attempt; a listener
  that calls \<open>connect\<close> itself leaves \<open>null\<close> there, and the first connection is then not tracked.\<close>

record ConnectAttempt =
  ctAccountKey :: AccountKey
  ctGeneration :: nat
  ctSession :: "SessionHandle option"
  ctTracked :: bool

record BodyCapableRemoteApplication =
  bcDelegate :: DefaultRemoteApplication
  bcCapabilities :: RemoteBodyCapabilityStore
  bcDisposed :: bool

definition createRemoteProductRuntime :: BodyCapableRemoteApplication where
  "createRemoteProductRuntime =
     \<lparr>bcDelegate = newRemoteApplication, bcCapabilities = newCapabilityStore, bcDisposed = False\<rparr>"

definition isAuthenticated :: "BodyCapableRemoteApplication \<Rightarrow> AccountKey \<Rightarrow> bool" where
  "isAuthenticated rt k \<longleftrightarrow> rsAuth (getStatus (bcDelegate rt) k) = Authenticated"

definition status_authority :: "BodyCapableRemoteApplication \<Rightarrow> authority" where
  "status_authority rt = Some (isAuthenticated rt)"

definition on_capabilities ::
  "(RemoteBodyCapabilityStore \<Rightarrow> RemoteBodyCapabilityStore) \<Rightarrow> BodyCapableRemoteApplication \<Rightarrow>
   BodyCapableRemoteApplication" where
  "on_capabilities f rt = rt\<lparr>bcCapabilities := f (bcCapabilities rt)\<rparr>"

text \<open>The factory of the desktop product: the native connections, and no JMAP.\<close>

definition createTauriConnectionFactory ::
  "(RemoteConnectionConfig \<Rightarrow> 'c) \<Rightarrow> (RemoteConnectionConfig \<Rightarrow> 'c) \<Rightarrow> RemoteConnectionConfig \<Rightarrow>
   'c throws" where
  "createTauriConnectionFactory imapSmtp gmail config =
     bindE
       (createRemoteConnection config (\<lambda>_. Inl (RemoteExn unsupported_error))
          (Some (\<lambda>c. Inr (imapSmtp c))) (Some (\<lambda>c. Inr (gmail c))))
       id"

section \<open>Calls of the wrapper\<close>

text \<open>A \<open>connect\<close> awaits the core's, then whatever \<open>activateAfterBinding\<close> awaits; the other calls
  await the core's and forward its outcome, \<open>refreshAccount\<close> with a look at the status first.\<close>

datatype runtime_task =
    RtConnecting ConnectAttempt task
  | RtConnected ConnectAttempt "exn + unit"
  | RtBinding ConnectAttempt SessionHandle
  | RtForwarding task
  | RtRefreshing AccountKey task
  | RtRefreshed AccountKey "exn + unit"

datatype runtime_progress = RtAwaits runtime_task | RtSettled "exn + unit"

definition with_delegate ::
  "BodyCapableRemoteApplication \<Rightarrow> (task \<Rightarrow> runtime_task) \<Rightarrow> (exn + unit \<Rightarrow> runtime_progress) \<Rightarrow>
   DefaultRemoteApplication \<times> progress \<Rightarrow> BodyCapableRemoteApplication \<times> runtime_progress" where
  "with_delegate rt waiting settled r =
     (rt\<lparr>bcDelegate := fst r\<rparr>,
      (case snd r of Awaits t \<Rightarrow> RtAwaits (waiting t) | Settled out \<Rightarrow> settled out))"

definition runtime_connect ::
  "BodyCapableRemoteApplication \<Rightarrow> RemoteConnectRequest \<Rightarrow>
   BodyCapableRemoteApplication \<times> runtime_progress" where
  "runtime_connect rt req =
     (let attempt =
        \<lparr>ctAccountKey = cqAccountKey req,
         ctGeneration = capabilityGeneration (bcCapabilities rt) (cqAccountKey req),
         ctSession = None, ctTracked = True\<rparr> in
      with_delegate rt (RtConnecting attempt) (\<lambda>out. RtAwaits (RtConnected attempt out))
        (connect (bcDelegate rt) req))"

text \<open>The connection is tracked: a session it opens is noted in the attempt before the core sees it.\<close>

definition trackConnection :: "ConnectAttempt \<Rightarrow> event \<Rightarrow> ConnectAttempt" where
  "trackConnection attempt ev =
     (case ev of
        EvOpened (Inr s) \<Rightarrow>
          if ctTracked attempt then attempt\<lparr>ctSession := Some s\<rparr> else attempt
      | _ \<Rightarrow> attempt)"

definition untrack :: "runtime_task \<Rightarrow> runtime_task" where
  "untrack t =
     (case t of
        RtConnecting attempt (Connecting req g WaitAnnounced) \<Rightarrow>
          RtConnecting (attempt\<lparr>ctTracked := False\<rparr>) (Connecting req g WaitAnnounced)
      | _ \<Rightarrow> t)"

text \<open>The rest of \<open>connect\<close> and the start of \<open>activateAfterBinding\<close>.\<close>

definition runtime_connected ::
  "BodyCapableRemoteApplication \<Rightarrow> ConnectAttempt \<Rightarrow> exn + unit \<Rightarrow> runtime_progress" where
  "runtime_connected rt attempt out =
     (case out of
        Inl e \<Rightarrow> RtSettled (Inl e)
      | Inr _ \<Rightarrow>
          (case ctSession attempt of
             None \<Rightarrow> RtSettled (Inr ())
           | Some s \<Rightarrow>
               if bcDisposed rt \<or> \<not> isAuthenticated rt (ctAccountKey attempt)
               then RtSettled (Inr ()) else RtAwaits (RtBinding attempt s)))"

definition activateAfterBinding ::
  "BodyCapableRemoteApplication \<Rightarrow> (SessionHandle \<Rightarrow> bool) \<Rightarrow> ConnectAttempt \<Rightarrow> SessionHandle \<Rightarrow>
   exn + Account LocalEntityRead ReadResult \<Rightarrow> BodyCapableRemoteApplication \<times> runtime_progress" where
  "activateAfterBinding rt reconciles attempt s result =
     (case result of
        Inr (PortOk (EntityPresent local)) \<Rightarrow>
          if \<not> isAuthenticated rt (ctAccountKey attempt) then (rt, RtSettled (Inr ()))
          else
            (case remoteAccountId (rrJmapAccountId (acRemoteRef local)) of
               Inl e \<Rightarrow> (rt, RtSettled (Inl e))
             | Inr selected \<Rightarrow>
                 if \<not> announces s selected then (rt, RtSettled (Inr ()))
                 else
                   (on_capabilities
                      (\<lambda>st. activate st (status_authority rt) (ctAccountKey attempt) selected s
                         (reconciles s) (ctGeneration attempt)) rt,
                    RtSettled (Inr ())))
      | Inr _ \<Rightarrow> (rt, RtSettled (Inr ()))
      | Inl e \<Rightarrow> (rt, RtSettled (Inl e)))"

definition runtime_disconnect ::
  "BodyCapableRemoteApplication \<Rightarrow> AccountKey \<Rightarrow> BodyCapableRemoteApplication \<times> runtime_progress" where
  "runtime_disconnect rt k =
     with_delegate (on_capabilities (\<lambda>st. invalidate st k) rt) RtForwarding RtSettled
       (disconnect (bcDelegate rt) k)"

definition runtime_refresh ::
  "BodyCapableRemoteApplication \<Rightarrow> AccountKey \<Rightarrow> BodyCapableRemoteApplication \<times> runtime_progress" where
  "runtime_refresh rt k =
     with_delegate rt (RtRefreshing k) (\<lambda>out. RtAwaits (RtRefreshed k out))
       (refreshAccount (bcDelegate rt) k)"

text \<open>The \<open>catch\<close> clause of \<open>refreshAccount\<close>.\<close>

definition runtime_refreshed ::
  "BodyCapableRemoteApplication \<Rightarrow> AccountKey \<Rightarrow> exn + unit \<Rightarrow>
   BodyCapableRemoteApplication \<times> runtime_progress" where
  "runtime_refreshed rt k out =
     (case out of
        Inr _ \<Rightarrow> (rt, RtSettled out)
      | Inl _ \<Rightarrow>
          (if \<not> isAuthenticated rt k then on_capabilities (\<lambda>st. invalidate st k) rt else rt,
           RtSettled out))"

definition runtime_dispose ::
  "BodyCapableRemoteApplication \<Rightarrow> BodyCapableRemoteApplication \<times> runtime_progress" where
  "runtime_dispose rt =
     with_delegate
       (if bcDisposed rt then rt else on_capabilities disposeStore (rt\<lparr>bcDisposed := True\<rparr>))
       RtForwarding RtSettled (dispose (bcDelegate rt))"

section \<open>Steps\<close>

definition runtime_call ::
  "call \<Rightarrow> BodyCapableRemoteApplication \<Rightarrow> BodyCapableRemoteApplication \<times> runtime_progress" where
  "runtime_call c rt =
     (case c of
        CallConnect req \<Rightarrow> runtime_connect rt req
      | CallDisconnect k \<Rightarrow> runtime_disconnect rt k
      | CallRefresh k \<Rightarrow> runtime_refresh rt k
      | CallDispose \<Rightarrow> runtime_dispose rt
      | _ \<Rightarrow> with_delegate rt RtForwarding RtSettled (start_call c (bcDelegate rt)))"

definition runtime_resume ::
  "(RemoteConnectionConfig \<Rightarrow> unit throws) \<Rightarrow> (SessionHandle \<Rightarrow> bool) \<Rightarrow>
   BodyCapableRemoteApplication \<Rightarrow> runtime_task \<Rightarrow> event \<Rightarrow>
   (BodyCapableRemoteApplication \<times> runtime_progress) option" where
  "runtime_resume factory reconciles rt t ev =
     (case t of
        RtConnecting attempt inner \<Rightarrow>
          map_option
            (with_delegate rt (RtConnecting (trackConnection attempt ev))
               (\<lambda>out. RtAwaits (RtConnected (trackConnection attempt ev) out)))
            (resume factory (bcDelegate rt) inner ev)
      | RtConnected attempt out \<Rightarrow>
          (case ev of
             EvContinue \<Rightarrow> Some (rt, runtime_connected rt attempt out)
           | _ \<Rightarrow> None)
      | RtBinding attempt s \<Rightarrow>
          (case ev of
             EvRead r \<Rightarrow> Some (activateAfterBinding rt reconciles attempt s r)
           | _ \<Rightarrow> None)
      | RtForwarding inner \<Rightarrow>
          map_option (with_delegate rt RtForwarding RtSettled)
            (resume factory (bcDelegate rt) inner ev)
      | RtRefreshing k inner \<Rightarrow>
          map_option (with_delegate rt (RtRefreshing k) (\<lambda>out. RtAwaits (RtRefreshed k out)))
            (resume factory (bcDelegate rt) inner ev)
      | RtRefreshed k out \<Rightarrow>
          (case ev of
             EvContinue \<Rightarrow> Some (runtime_refreshed rt k out)
           | _ \<Rightarrow> None))"

record RuntimeWorld =
  ruApp :: BodyCapableRemoteApplication
  ruTasks :: "runtime_task list"
  ruOpened :: "SessionHandle list"

definition runtime_tasks_of :: "runtime_progress \<Rightarrow> runtime_task list" where
  "runtime_tasks_of p = (case p of RtAwaits t \<Rightarrow> [t] | RtSettled _ \<Rightarrow> [])"

definition new_runtime :: RuntimeWorld where
  "new_runtime = \<lparr>ruApp = createRemoteProductRuntime, ruTasks = [], ruOpened = []\<rparr>"

definition tasks_during :: "call \<Rightarrow> runtime_task list \<Rightarrow> runtime_task list" where
  "tasks_during c ts = (case c of CallConnect req \<Rightarrow> map untrack ts | _ \<Rightarrow> ts)"

inductive runtime_step ::
  "(RemoteConnectionConfig \<Rightarrow> unit throws) \<Rightarrow> (SessionHandle \<Rightarrow> bool) \<Rightarrow>
   RuntimeWorld \<Rightarrow> RuntimeWorld \<Rightarrow> bool" for factory reconciles where
  called: "runtime_call c (ruApp w) = (rt, p) \<Longrightarrow>
    runtime_step factory reconciles w
      \<lparr>ruApp = rt, ruTasks = tasks_during c (ruTasks w) @ runtime_tasks_of p,
       ruOpened = ruOpened w\<rparr>"
| answered: "ruTasks w = ts1 @ t # ts2 \<Longrightarrow>
    runtime_resume factory reconciles (ruApp w) t ev = Some (rt, p) \<Longrightarrow>
    set (opened_by ev) \<inter> set (ruOpened w) = {} \<Longrightarrow>
    runtime_step factory reconciles w
      \<lparr>ruApp = rt, ruTasks = ts1 @ runtime_tasks_of p @ ts2,
       ruOpened = ruOpened w @ opened_by ev\<rparr>"

definition runtime_reachable ::
  "(RemoteConnectionConfig \<Rightarrow> unit throws) \<Rightarrow> (SessionHandle \<Rightarrow> bool) \<Rightarrow> RuntimeWorld \<Rightarrow> bool" where
  "runtime_reachable factory reconciles w \<longleftrightarrow> (runtime_step factory reconciles)\<^sup>*\<^sup>* new_runtime w"

section \<open>The core inside the runtime\<close>

definition core_tasks :: "runtime_task \<Rightarrow> task list" where
  "core_tasks t =
     (case t of
        RtConnecting attempt inner \<Rightarrow> [inner]
      | RtForwarding inner \<Rightarrow> [inner]
      | RtRefreshing k inner \<Rightarrow> [inner]
      | _ \<Rightarrow> [])"

definition core_world :: "RuntimeWorld \<Rightarrow> RemoteWorld" where
  "core_world w =
     \<lparr>rwApp = bcDelegate (ruApp w), rwTasks = concat (map core_tasks (ruTasks w)),
      rwOpened = ruOpened w\<rparr>"

lemma on_capabilities_views [simp]:
  "bcDelegate (on_capabilities f rt) = bcDelegate rt"
  by (simp add: on_capabilities_def)

lemma runtime_tasks_simps [simp]:
  "runtime_tasks_of (RtAwaits t) = [t]" "runtime_tasks_of (RtSettled out) = []"
  by (simp_all add: runtime_tasks_of_def)

lemma core_tasks_simps [simp]:
  "core_tasks (RtConnecting attempt inner) = [inner]" "core_tasks (RtConnected attempt out) = []"
  "core_tasks (RtBinding attempt s) = []" "core_tasks (RtForwarding inner) = [inner]"
  "core_tasks (RtRefreshing k inner) = [inner]" "core_tasks (RtRefreshed k out) = []"
  by (simp_all add: core_tasks_def)

lemma core_tasks_during [simp]:
  "map core_tasks (tasks_during c ts) = map core_tasks ts"
proof -
  have "core_tasks (untrack t) = core_tasks t" for t
    by (simp add: untrack_def split: runtime_task.splits task.splits connect_wait.splits)
  then show ?thesis
    by (simp add: tasks_during_def split: call.splits)
qed

text \<open>A segment of the wrapper is the segment of the core it runs.\<close>

definition core_progress :: "runtime_progress \<Rightarrow> task list" where
  "core_progress p = concat (map core_tasks (runtime_tasks_of p))"

lemma core_progress_simps [simp]:
  "core_progress (RtAwaits t) = core_tasks t" "core_progress (RtSettled out) = []"
  by (simp_all add: core_progress_def)

lemma delegate_core:
  assumes "with_delegate rt waiting settled r = (rt', p)"
    "\<And>t. core_tasks (waiting t) = [t]" "\<And>out. core_progress (settled out) = []"
  shows "bcDelegate rt' = fst r \<and> core_progress p = tasks_of (snd r)"
  using assms by (auto simp: with_delegate_def tasks_of_def split: progress.splits)

lemma call_core:
  assumes "runtime_call c rt = (rt', p)"
  shows "bcDelegate rt' = fst (start_call c (bcDelegate rt)) \<and>
    core_progress p = tasks_of (snd (start_call c (bcDelegate rt)))"
  using assms delegate_core
  by (cases c) (fastforce simp: runtime_call_def runtime_connect_def runtime_disconnect_def
      runtime_refresh_def runtime_dispose_def start_call_def Let_def)+

lemma inner_core:
  assumes "map_option (with_delegate rt waiting settled) (resume factory (bcDelegate rt) inner ev) =
      Some (rt', p)"
    "\<And>t. core_tasks (waiting t) = [t]" "\<And>out. core_progress (settled out) = []"
  obtains app' q where "resume factory (bcDelegate rt) inner ev = Some (app', q)"
    "bcDelegate rt' = app'" "core_progress p = tasks_of q"
  using assms delegate_core [of rt waiting settled] by (cases "resume factory (bcDelegate rt) inner ev") auto

lemma resume_core:
  assumes "runtime_resume factory reconciles rt t ev = Some (rt', p)"
  obtains (core) inner app' q where "core_tasks t = [inner]"
      "resume factory (bcDelegate rt) inner ev = Some (app', q)"
      "bcDelegate rt' = app'" "core_progress p = tasks_of q"
  | (wrapper) "core_tasks t = []" "bcDelegate rt' = bcDelegate rt" "core_progress p = []"
      "opened_by ev = []"
proof (cases t)
  case (RtConnecting attempt inner)
  show ?thesis
    by (rule inner_core [of rt _ _ factory inner ev rt' p])
      (use assms RtConnecting core in \<open>auto simp: runtime_resume_def\<close>)
next
  case (RtForwarding inner)
  show ?thesis
    by (rule inner_core [of rt _ _ factory inner ev rt' p])
      (use assms RtForwarding core in \<open>auto simp: runtime_resume_def\<close>)
next
  case (RtRefreshing k inner)
  show ?thesis
    by (rule inner_core [of rt _ _ factory inner ev rt' p])
      (use assms RtRefreshing core in \<open>auto simp: runtime_resume_def\<close>)
next
  case (RtConnected attempt out)
  then show ?thesis
    using assms by (intro wrapper) (auto simp: runtime_resume_def runtime_connected_def opened_by_def
      split: event.splits sum.splits option.splits if_splits)
next
  case (RtBinding attempt s)
  then show ?thesis
    using assms by (intro wrapper) (auto simp: runtime_resume_def activateAfterBinding_def
      opened_by_def split: event.splits sum.splits if_splits PortResult.splits LocalEntityRead.splits)
next
  case (RtRefreshed k out)
  then show ?thesis
    using assms by (intro wrapper) (auto simp: runtime_resume_def runtime_refreshed_def opened_by_def
      split: event.splits sum.splits if_splits)
qed

lemma runtime_step_core:
  assumes "runtime_step factory reconciles w w'"
  shows "(rstep factory)\<^sup>=\<^sup>= (core_world w) (core_world w')"
  using assms
proof cases
  case (called c rt p)
  obtain app' q where q: "start_call c (bcDelegate (ruApp w)) = (app', q)"
    by (cases "start_call c (bcDelegate (ruApp w))")
  have "core_world w' = \<lparr>rwApp = app', rwTasks = rwTasks (core_world w) @ tasks_of q,
      rwOpened = rwOpened (core_world w)\<rparr>"
    using call_core [OF called(2)] by (simp add: core_world_def called(1) q core_progress_def)
  then show ?thesis
    using rstep.call [of c "core_world w" app' q factory] q by (simp add: core_world_def)
next
  case (answered ts1 t ts2 ev rt p)
  from answered(3) show ?thesis
  proof (cases rule: resume_core)
    case (core inner app' q)
    have tasks: "rwTasks (core_world w) =
        concat (map core_tasks ts1) @ inner # concat (map core_tasks ts2)"
      by (simp add: core_world_def answered(2) core)
    have "core_world w' = \<lparr>rwApp = app',
        rwTasks = concat (map core_tasks ts1) @ tasks_of q @ concat (map core_tasks ts2),
        rwOpened = rwOpened (core_world w) @ opened_by ev\<rparr>"
      using core(4) by (simp add: core_world_def answered(1) core(3) core_progress_def)
    then show ?thesis
      using rstep.answer [OF tasks, of factory ev app' q] core(2) answered(4)
      by (simp add: core_world_def)
  next
    case wrapper
    have "core_world w' = core_world w"
      using wrapper by (simp add: core_world_def answered(1,2) core_progress_def)
    then show ?thesis by simp
  qed
qed

lemma runtime_reaches_core:
  assumes "runtime_reachable factory reconciles w"
  shows "app_reachable factory (core_world w)"
  using assms unfolding runtime_reachable_def app_reachable_def
proof (induction rule: rtranclp_induct)
  case base
  have "core_world new_runtime = new_world"
    by (simp add: core_world_def new_runtime_def new_world_def createRemoteProductRuntime_def)
  then show ?case by simp
next
  case (step y z)
  then show ?case
    using runtime_step_core [OF step(2)] by auto
qed

section \<open>Running a schedule\<close>

definition runtime_move ::
  "(RemoteConnectionConfig \<Rightarrow> unit throws) \<Rightarrow> (SessionHandle \<Rightarrow> bool) \<Rightarrow> RuntimeWorld \<Rightarrow> move \<Rightarrow>
   RuntimeWorld option" where
  "runtime_move factory reconciles w m =
     (case m of
        Do c \<Rightarrow>
          (case runtime_call c (ruApp w) of
             (rt, p) \<Rightarrow>
               Some \<lparr>ruApp = rt, ruTasks = tasks_during c (ruTasks w) @ runtime_tasks_of p,
                     ruOpened = ruOpened w\<rparr>)
      | Answer i ev \<Rightarrow>
          if i < length (ruTasks w) \<and> list_all (\<lambda>s. s \<notin> set (ruOpened w)) (opened_by ev)
          then
            (case runtime_resume factory reconciles (ruApp w) (ruTasks w ! i) ev of
               None \<Rightarrow> None
             | Some (rt, p) \<Rightarrow>
                 Some \<lparr>ruApp = rt,
                       ruTasks = take i (ruTasks w) @ runtime_tasks_of p @ drop (Suc i) (ruTasks w),
                       ruOpened = ruOpened w @ opened_by ev\<rparr>)
          else None)"

primrec runtime_moves ::
  "(RemoteConnectionConfig \<Rightarrow> unit throws) \<Rightarrow> (SessionHandle \<Rightarrow> bool) \<Rightarrow> RuntimeWorld \<Rightarrow> move list \<Rightarrow>
   RuntimeWorld option" where
  "runtime_moves factory reconciles w [] = Some w"
| "runtime_moves factory reconciles w (m # ms) =
     (case runtime_move factory reconciles w m of
        None \<Rightarrow> None
      | Some w' \<Rightarrow> runtime_moves factory reconciles w' ms)"

lemma runtime_move_step:
  assumes "runtime_move factory reconciles w m = Some w'"
  shows "runtime_step factory reconciles w w'"
proof (cases m)
  case (Do c)
  then show ?thesis
    using assms runtime_step.called [of c w] by (auto simp: runtime_move_def split: prod.splits)
next
  case (Answer i ev)
  obtain rt p where run: "runtime_resume factory reconciles (ruApp w) (ruTasks w ! i) ev = Some (rt, p)"
      and w': "w' = \<lparr>ruApp = rt,
        ruTasks = take i (ruTasks w) @ runtime_tasks_of p @ drop (Suc i) (ruTasks w),
        ruOpened = ruOpened w @ opened_by ev\<rparr>"
      and i: "i < length (ruTasks w)" and fresh: "set (opened_by ev) \<inter> set (ruOpened w) = {}"
    using assms Answer
    by (auto simp: runtime_move_def list_all_iff split: if_splits option.splits)
  show ?thesis
    unfolding w' by (rule runtime_step.answered [OF id_take_nth_drop [OF i] run fresh])
qed

lemma runtime_moves_reach:
  "runtime_moves factory reconciles w ms = Some w' \<Longrightarrow>
   (runtime_step factory reconciles)\<^sup>*\<^sup>* w w'"
  by (induction ms arbitrary: w)
    (auto split: option.splits intro: converse_rtranclp_into_rtranclp runtime_move_step)

text \<open>An account connects and lends its capability.\<close>

definition sample_account :: Account where
  "sample_account = account [1] (remoteAccountRef [7] [8])"

definition read_sample :: event where
  "read_sample = EvRead (Inr (PortOk (EntityPresent sample_account)))"

definition connected_moves :: "move list" where
  "connected_moves =
     [Do (CallConnect (sample_request [1])), Answer 0 EvContinue,
      Answer 0 (EvOpened (Inr (sample_handle 0))), Answer 0 read_sample, Answer 0 EvContinue,
      Answer 0 EvContinue, Answer 0 read_sample]"

definition connected_capability :: ActiveBodyCapability where
  "connected_capability =
     \<lparr>abAccountKey = [1], abRemoteAccountId = [8], abSession = sample_handle 0,
      abReconciler = False, abGeneration = 0, abId = 0\<rparr>"

lemma connected_run:
  "map_option (\<lambda>w. (csActive (bcCapabilities (ruApp w)), ruTasks w,
       isConnected (bcCapabilities (ruApp w)) (status_authority (ruApp w)) [1]))
     (runtime_moves sample_factory (\<lambda>_. False) new_runtime connected_moves) =
   Some ([([1], connected_capability)], [], True)"
  by code_simp

text \<open>Its session expires during a refresh, and it connects again while the session is closing.\<close>

definition expired_error :: RemoteError where
  "expired_error = \<lparr>reKind = KAuth, reRetry = RNever, reSession = SExpire, reOutcome = ONotApplicable\<rparr>"

definition reconnected_moves :: "move list" where
  "reconnected_moves =
     [Do (CallRefresh [1]), Answer 0 (EvSynced (Inl (RemoteExn expired_error))),
      Do (CallConnect (sample_request [1])), Answer 1 EvContinue,
      Answer 0 (EvClosed (Inr ())), Answer 0 EvContinue,
      Answer 0 (EvOpened (Inr (sample_handle 1))), Answer 0 read_sample, Answer 0 EvContinue,
      Answer 0 EvContinue, Answer 0 read_sample]"

lemma reconnected_run:
  "map_option (\<lambda>w. (ruTasks w, isAuthenticated (ruApp w) [1], csActive (bcCapabilities (ruApp w))))
     (runtime_moves sample_factory (\<lambda>_. False) new_runtime (connected_moves @ reconnected_moves)) =
   Some ([], True, [])"
  by code_simp

section \<open>The store inside the runtime\<close>

text \<open>A segment of the wrapper does to the store only what the store's own events do.\<close>

definition store_moves :: "BodyCapableRemoteApplication \<Rightarrow> BodyCapableRemoteApplication \<Rightarrow> bool" where
  "store_moves rt rt' \<longleftrightarrow>
     (\<exists>evs. bcCapabilities rt' = fold apply_event evs (bcCapabilities rt))"

lemma store_unmoved: "bcCapabilities rt' = bcCapabilities rt \<Longrightarrow> store_moves rt rt'"
  unfolding store_moves_def by (rule exI [of _ "[]"]) simp

lemma store_moved: "bcCapabilities rt' = apply_event ev (bcCapabilities rt) \<Longrightarrow> store_moves rt rt'"
  unfolding store_moves_def by (rule exI [of _ "[ev]"]) simp

lemma store_moves_trans: "store_moves rt rt' \<Longrightarrow> store_moves rt' rt'' \<Longrightarrow> store_moves rt rt''"
  unfolding store_moves_def by (metis fold_append comp_apply)

lemma delegate_store [simp]:
  "bcCapabilities (fst (with_delegate rt waiting settled r)) = bcCapabilities rt"
  by (simp add: with_delegate_def)

lemma store_on_capabilities [simp]:
  "bcCapabilities (on_capabilities f rt) = f (bcCapabilities rt)"
  by (simp add: on_capabilities_def)

lemma invalidated: "store_moves rt (on_capabilities (\<lambda>st. invalidate st k) rt)"
  by (rule store_moved [of _ "StoreInvalidates k"]) simp

lemma call_store: "store_moves rt (fst (runtime_call c rt))"
proof (cases c)
  case (CallDisconnect k)
  then show ?thesis
    by (intro store_moved [of _ "StoreInvalidates k"])
      (simp add: runtime_call_def runtime_disconnect_def)
next
  case CallDispose
  show ?thesis
  proof (cases "bcDisposed rt")
    case False
    then show ?thesis
      by (intro store_moved [of _ StoreDisposed])
        (simp add: CallDispose runtime_call_def runtime_dispose_def)
  qed (simp add: CallDispose runtime_call_def runtime_dispose_def store_unmoved)
qed (simp_all add: runtime_call_def runtime_connect_def runtime_refresh_def Let_def store_unmoved)

lemma binding_store:
  "store_moves rt (fst (activateAfterBinding rt reconciles attempt s r))"
proof -
  have "store_moves rt (on_capabilities (\<lambda>st. activate st a k i h b g) rt)" for a k i h b g
    by (rule store_moved [of _ "StoreActivates a k i h b g"]) simp
  then show ?thesis
    by (auto simp: activateAfterBinding_def store_unmoved
        split: sum.splits PortResult.splits LocalEntityRead.splits)
qed

lemma resume_store:
  assumes "runtime_resume factory reconciles rt t ev = Some (rt', p)"
  shows "store_moves rt rt'"
proof -
  have inner: "store_moves rt rt'"
    if "map_option (with_delegate rt waiting settled) x = Some (rt', p)" for waiting settled x
    using that by (cases x) (auto intro!: store_unmoved simp: with_delegate_def)
  show ?thesis
  proof (cases t)
    case (RtBinding attempt s)
    then show ?thesis
      using assms binding_store [of rt reconciles attempt s]
      by (auto simp: runtime_resume_def split: event.splits) (metis fst_conv)
  next
    case (RtRefreshed k out)
    then show ?thesis
      using assms invalidated by (auto simp: runtime_resume_def runtime_refreshed_def store_unmoved
          split: event.splits sum.splits if_splits)
  next
    case (RtConnected attempt out)
    then show ?thesis
      using assms by (auto simp: runtime_resume_def store_unmoved split: event.splits)
  qed (use assms inner in \<open>simp_all add: runtime_resume_def\<close>)
qed

lemma step_store:
  assumes "runtime_step factory reconciles w w'"
  shows "store_moves (ruApp w) (ruApp w')"
  using assms
proof cases
  case (called c rt p)
  then show ?thesis
    using call_store [of "ruApp w" c] by simp
next
  case (answered ts1 t ts2 ev rt p)
  then show ?thesis
    using resume_store [OF answered(3)] by simp
qed

lemma steps_store:
  assumes "(runtime_step factory reconciles)\<^sup>*\<^sup>* w w'"
  shows "store_moves (ruApp w) (ruApp w')"
  using assms
  by (induction rule: rtranclp_induct) (auto intro: store_unmoved store_moves_trans step_store)

lemma reachable_store:
  assumes "runtime_reachable factory reconciles w"
  obtains history where "bcCapabilities (ruApp w) = fold apply_event history newCapabilityStore"
  using steps_store [of factory reconciles new_runtime w] assms
  by (auto simp: runtime_reachable_def store_moves_def new_runtime_def createRemoteProductRuntime_def)

section \<open>The properties\<close>

text \<open>C27: The wrapped application refines the core: whatever the wrapper's calls and answers, its
  core moves only by the core's own steps, so every reachable world of the runtime contains a
  reachable world of the core. And remote bodies and mutations are never served for an account that
  the core does not hold a session of: when the capability store says that an account is connected,
  the core has an active session for it and is not disposed.\<close>

theorem runtime_refines_core:
  assumes "runtime_reachable factory reconciles w"
  shows "app_reachable factory (core_world w) \<and>
    (isConnected (bcCapabilities (ruApp w)) (status_authority (ruApp w)) k \<longrightarrow>
       map_of (raSessions (bcDelegate (ruApp w))) k \<noteq> None \<and> \<not> raDisposed (bcDelegate (ruApp w)))"
proof (intro conjI impI)
  show core: "app_reachable factory (core_world w)"
    by (rule runtime_reaches_core [OF assms])
  assume connected: "isConnected (bcCapabilities (ruApp w)) (status_authority (ruApp w)) k"
  have "store_keyed (bcCapabilities (ruApp w))"
    by (rule reachable_store [OF assms]) (simp add: keyed_events)
  then have "auth_of (bcDelegate (ruApp w)) k = Authenticated"
    using connected by (auto simp: isConnected_def isCurrentCapability_def store_keyed_def
        status_authority_def allows_def isAuthenticated_def auth_of_def split: option.splits)
  moreover have "app_ok (bcDelegate (ruApp w))"
    using reachable_ok [OF core] by (simp add: world_ok_def core_world_def)
  ultimately show "map_of (raSessions (bcDelegate (ruApp w))) k \<noteq> None"
      "\<not> raDisposed (bcDelegate (ruApp w))"
    by (rule_tac account_cases [of _ k]; force)+
qed

lemma runtime_refines_core_witness:
  "\<exists>w. runtime_reachable sample_factory (\<lambda>_. False) w \<and>
     app_reachable sample_factory (core_world w) \<and>
     map_of (raSessions (bcDelegate (ruApp w))) [1] \<noteq> None"
proof -
  obtain w where w: "runtime_moves sample_factory (\<lambda>_. False) new_runtime connected_moves = Some w"
    "isConnected (bcCapabilities (ruApp w)) (status_authority (ruApp w)) [1]"
    using connected_run by auto
  then have "runtime_reachable sample_factory (\<lambda>_. False) w"
    by (simp add: runtime_reachable_def runtime_moves_reach)
  then show ?thesis
    using runtime_refines_core [of sample_factory "\<lambda>_. False" w "[1]"] w(2) by blast
qed

text \<open>C28: An account can end up authenticated and cut off from its remote bodies and mutations. A
  refresh that meets an expired session publishes the status and waits for the session to close; a
  \<open>connect\<close> begun during that wait notes the store's generation, which the refresh then advances,
  because the status it looks at when it wakes is the new attempt's. The new attempt succeeds but
  its capability is refused in silence. When every call has returned, the account is authenticated
  and has its session, yet every mutation is answered \<open>notConnected\<close> and every body too, and
  \<open>connect\<close> is refused as busy.\<close>

theorem authenticated_without_capability:
  "\<exists>w. runtime_reachable sample_factory (\<lambda>_. False) w \<and> ruTasks w = [] \<and>
     isAuthenticated (ruApp w) [1] \<and>
     mutationCapability (bcCapabilities (ruApp w)) (status_authority (ruApp w)) [1] =
       Inl (RemoteMutationSourceError FNotConnected) \<and>
     fetchBody (bcCapabilities (ruApp w)) (status_authority (ruApp w)) [1] e =
       Inl (RemoteBodySourceError BNotConnected) \<and>
     connect (bcDelegate (ruApp w)) (sample_request [1]) =
       (bcDelegate (ruApp w), Settled (Inl (app_error ABusy)))"
proof -
  obtain w where run: "runtime_moves sample_factory (\<lambda>_. False) new_runtime
      (connected_moves @ reconnected_moves) = Some w"
    and w: "ruTasks w = []" "isAuthenticated (ruApp w) [1]" "csActive (bcCapabilities (ruApp w)) = []"
    using reconnected_run by auto
  have reach: "runtime_reachable sample_factory (\<lambda>_. False) w"
    using runtime_moves_reach [OF run] by (simp add: runtime_reachable_def)
  then have "app_ok (bcDelegate (ruApp w))"
    using reachable_ok [OF runtime_reaches_core] by (fastforce simp: world_ok_def core_world_def)
  then have "map_of (raSessions (bcDelegate (ruApp w))) [1] \<noteq> None"
      "\<not> raDisposed (bcDelegate (ruApp w))"
    by (rule account_cases [of _ "[1]"]; use w(2) in \<open>simp add: isAuthenticated_def auth_of_def\<close>)+
  then have "connect (bcDelegate (ruApp w)) (sample_request [1]) =
      (bcDelegate (ruApp w), Settled (Inl (app_error ABusy)))"
    by (simp add: connect_def sample_request_def del: map_of_eq_None_iff)
  then show ?thesis
    using reach w by (intro exI [of _ w]) (simp add: mutationCapability_def fetchBody_def)
qed

end
