(* ===== verification/App_Stores.thy ===== *)
theory App_Stores
  imports Remote_Application Domain_Mutation Domain_View "HOL-Library.AList"
begin

text \<open>
  \<open>src/src/app/stores/{mail,runtime,account-setup,composer,mutation-status}.ts\<close>,
  \<open>connection-status-view.ts\<close> and \<open>root-view-state.ts\<close>: the state the user interface shows and the
  actions that change it. Getters are functions of the state.
\<close>

section \<open>Characters\<close>

text \<open>Texts for the user are Spanish; letters outside ASCII are given by their code.\<close>

definition letter_a' :: jsstring where "letter_a' = [0xE1]"
definition letter_e' :: jsstring where "letter_e' = [0xE9]"
definition letter_i' :: jsstring where "letter_i' = [0xED]"
definition letter_o' :: jsstring where "letter_o' = [0xF3]"
definition letter_n' :: jsstring where "letter_n' = [0xF1]"
definition ellipsis' :: jsstring where "ellipsis' = [0x2026]"

text \<open>\<open>String.prototype.trim\<close>: white space and line terminators of ECMA-262.\<close>

definition js_white :: "16 word \<Rightarrow> bool" where
  "js_white c \<longleftrightarrow>
     c \<in> {0x9, 0xA, 0xB, 0xC, 0xD, 0x20, 0xA0, 0x1680, 0x2028, 0x2029, 0x202F, 0x205F, 0x3000, 0xFEFF} \<or>
     0x2000 \<le> c \<and> c \<le> 0x200A"

definition js_trim :: "jsstring \<Rightarrow> jsstring" where
  "js_trim s = rev (dropWhile js_white (rev (dropWhile js_white s)))"

section \<open>The mail store\<close>

datatype MailLoadState = LoadIdle | LoadLoading | LoadReady | LoadNotCached | LoadError

datatype BodyLoadState =
  BodyIdle | BodyLoading | BodyCached | BodyNotCached | BodyOwnerAbsent | BodyError

datatype RefreshPhase = PhaseIdle | PhaseRefreshing | PhaseError

record RefreshActivity =
  rvPhase :: RefreshPhase
  rvError :: "jsstring option"

record MailState =
  vmAccounts :: "Account list"
  vmSelectedAccountKey :: "AccountKey option"
  vmSelectedMailboxId :: "ScopedMailboxId option"
  vmSelectedEmailId :: "ScopedEmailId option"
  vmVisiblePage :: number
  vmLoadState :: MailLoadState
  vmMailboxes :: "Mailbox list"
  vmMailboxView :: "MailboxView option"
  vmEmails :: "Email list"
  vmEmailBody :: "EmailBody option"
  vmBodyLoadState :: BodyLoadState
  vmBodyMaterializing :: bool
  vmBodyError :: "jsstring option"
  vmRefreshActivity :: "(AccountKey \<times> RefreshActivity) list"
  vmError :: "jsstring option"

definition newMailState :: MailState where
  "newMailState =
     \<lparr>vmAccounts = [], vmSelectedAccountKey = None, vmSelectedMailboxId = None,
      vmSelectedEmailId = None, vmVisiblePage = JInt 0, vmLoadState = LoadIdle, vmMailboxes = [],
      vmMailboxView = None, vmEmails = [], vmEmailBody = None, vmBodyLoadState = BodyIdle,
      vmBodyMaterializing = False, vmBodyError = None, vmRefreshActivity = [], vmError = None\<rparr>"

definition selectedMailbox :: "MailState \<Rightarrow> Mailbox option" where
  "selectedMailbox s =
     (case vmSelectedMailboxId s of
        None \<Rightarrow> None
      | Some i \<Rightarrow>
          List.find (\<lambda>m. accountKey (mbId m) = accountKey i \<and> jmapId (mbId m) = jmapId i)
            (vmMailboxes s))"

definition selectedEmail :: "MailState \<Rightarrow> Email option" where
  "selectedEmail s =
     (case vmSelectedEmailId s of
        None \<Rightarrow> None
      | Some i \<Rightarrow>
          List.find (\<lambda>m. accountKey (emId m) = accountKey i \<and> jmapId (emId m) = jmapId i)
            (vmEmails s))"

definition setAccounts :: "Account list \<Rightarrow> MailState \<Rightarrow> MailState" where
  "setAccounts accounts s = s\<lparr>vmAccounts := accounts\<rparr>"

definition selectAccount :: "AccountKey option \<Rightarrow> MailState \<Rightarrow> MailState" where
  "selectAccount k s =
     s\<lparr>vmSelectedAccountKey := k, vmSelectedMailboxId := None, vmSelectedEmailId := None,
       vmVisiblePage := JInt 0, vmMailboxes := [], vmMailboxView := None, vmEmails := [],
       vmEmailBody := None, vmBodyLoadState := BodyIdle, vmBodyMaterializing := False,
       vmBodyError := None, vmLoadState := LoadIdle, vmError := None\<rparr>"

definition selectMailbox :: "ScopedMailboxId option \<Rightarrow> MailState \<Rightarrow> MailState" where
  "selectMailbox i s =
     s\<lparr>vmSelectedMailboxId := i, vmSelectedEmailId := None, vmVisiblePage := JInt 0,
       vmMailboxView := None, vmEmails := [], vmEmailBody := None, vmBodyLoadState := BodyIdle,
       vmBodyMaterializing := False, vmBodyError := None, vmLoadState := LoadIdle, vmError := None\<rparr>"

definition selectEmail :: "ScopedEmailId option \<Rightarrow> MailState \<Rightarrow> MailState" where
  "selectEmail i s =
     s\<lparr>vmSelectedEmailId := i, vmEmailBody := None,
       vmBodyLoadState := (if i = None then BodyIdle else BodyLoading),
       vmBodyMaterializing := False, vmBodyError := None, vmError := None\<rparr>"

definition setVisiblePage :: "number \<Rightarrow> MailState \<Rightarrow> MailState" where
  "setVisiblePage page s = s\<lparr>vmVisiblePage := page\<rparr>"

definition setMailboxes :: "Mailbox list \<Rightarrow> MailState \<Rightarrow> MailState" where
  "setMailboxes mailboxes s = s\<lparr>vmMailboxes := mailboxes\<rparr>"

definition setMailboxView :: "MailboxView option \<Rightarrow> MailState \<Rightarrow> MailState" where
  "setMailboxView view s = s\<lparr>vmMailboxView := view\<rparr>"

definition setEmails :: "Email list \<Rightarrow> MailState \<Rightarrow> MailState" where
  "setEmails emails s = s\<lparr>vmEmails := emails\<rparr>"

definition setEmailBody :: "EmailBody option \<Rightarrow> BodyLoadState \<Rightarrow> MailState \<Rightarrow> MailState" where
  "setEmailBody body st s =
     (let s1 = s\<lparr>vmEmailBody := body, vmBodyLoadState := st\<rparr>;
          s2 = (if st = BodyCached then s1\<lparr>vmBodyMaterializing := False\<rparr> else s1) in
      if st \<noteq> BodyError then s2\<lparr>vmBodyError := None\<rparr> else s2)"

definition setBodyMaterializing :: "bool \<Rightarrow> MailState \<Rightarrow> MailState" where
  "setBodyMaterializing b s = s\<lparr>vmBodyMaterializing := b\<rparr>"

definition setBodyError :: "jsstring option \<Rightarrow> MailState \<Rightarrow> MailState" where
  "setBodyError message s = s\<lparr>vmBodyError := message\<rparr>"

definition setRefreshActivity :: "AccountKey \<Rightarrow> RefreshActivity \<Rightarrow> MailState \<Rightarrow> MailState" where
  "setRefreshActivity k activity s =
     s\<lparr>vmRefreshActivity := AList.update k activity (vmRefreshActivity s)\<rparr>"

definition clearRefreshActivity :: "MailState \<Rightarrow> MailState" where
  "clearRefreshActivity s = s\<lparr>vmRefreshActivity := []\<rparr>"

definition setLoadState :: "MailLoadState \<Rightarrow> jsstring option \<Rightarrow> MailState \<Rightarrow> MailState" where
  "setLoadState st message s = s\<lparr>vmLoadState := st, vmError := message\<rparr>"

section \<open>The runtime store\<close>

datatype LocalState = LocalOpening | LocalReady | LocalError

record RuntimeState =
  vrLocal :: LocalState
  vrAuth :: RemoteAuthState
  vrConnectivity :: RemoteConnectivityState

definition newRuntimeState :: RuntimeState where
  "newRuntimeState =
     \<lparr>vrLocal = LocalOpening, vrAuth = Anonymous, vrConnectivity = Offline\<rparr>"

definition isLocalReady :: "RuntimeState \<Rightarrow> bool" where
  "isLocalReady s \<longleftrightarrow> vrLocal s = LocalReady"

definition isOnline :: "RuntimeState \<Rightarrow> bool" where
  "isOnline s \<longleftrightarrow> vrConnectivity s = Online"

definition isLocalReadyAndAnonymous :: "RuntimeState \<Rightarrow> bool" where
  "isLocalReadyAndAnonymous s \<longleftrightarrow> vrLocal s = LocalReady \<and> vrAuth s = Anonymous"

definition setLocal :: "LocalState \<Rightarrow> RuntimeState \<Rightarrow> RuntimeState" where
  "setLocal st s = s\<lparr>vrLocal := st\<rparr>"

definition setAuth :: "RemoteAuthState \<Rightarrow> RuntimeState \<Rightarrow> RuntimeState" where
  "setAuth st s = s\<lparr>vrAuth := st\<rparr>"

definition setConnectivity :: "RemoteConnectivityState \<Rightarrow> RuntimeState \<Rightarrow> RuntimeState" where
  "setConnectivity st s = s\<lparr>vrConnectivity := st\<rparr>"

text \<open>\<open>connectionStatusView\<close> and \<open>rootViewMode\<close>: what the two states come to on the screen.\<close>

datatype ConnectionStatusKind =
  ViewLocal | ViewConnecting | ViewOnline | ViewOffline | ViewExpired | ViewLocalError

record ConnectionStatusView =
  cvKind :: ConnectionStatusKind
  cvLabel :: jsstring
  cvCanReconnect :: bool
  cvReconnectLabel :: "jsstring option"

definition connectionStatusView :: "RuntimeState \<Rightarrow> ConnectionStatusView" where
  "connectionStatusView s =
     (let plain = (\<lambda>kind label. \<lparr>cvKind = kind, cvLabel = label, cvCanReconnect = False,
                                  cvReconnectLabel = None\<rparr>) in
      if vrLocal s = LocalError then plain ViewLocalError (js ''Error local'')
      else if vrAuth s = Authenticating
      then plain ViewConnecting (js ''Conectando'' @ ellipsis')
      else if vrAuth s = Expired
      then \<lparr>cvKind = ViewExpired, cvLabel = js ''Sesi'' @ letter_o' @ js ''n vencida'',
            cvCanReconnect = True, cvReconnectLabel = Some (js ''Reconectar'')\<rparr>
      else if vrAuth s = Authenticated \<and> vrConnectivity s = Online
      then plain ViewOnline (js ''En l'' @ letter_i' @ js ''nea'')
      else if vrAuth s = Authenticated
      then plain ViewOffline (js ''Sin conexi'' @ letter_o' @ js ''n'')
      else
        \<lparr>cvKind = ViewLocal, cvLabel = js ''Local'', cvCanReconnect = True,
         cvReconnectLabel = Some (js ''Conectar para sincronizar'')\<rparr>)"

datatype RootViewMode = RootBoot | RootLocalError | RootSetup | RootShell

definition rootViewMode :: "LocalState \<Rightarrow> Account list \<Rightarrow> RootViewMode" where
  "rootViewMode local accounts =
     (case local of
        LocalOpening \<Rightarrow> RootBoot
      | LocalError \<Rightarrow> RootLocalError
      | LocalReady \<Rightarrow> if length accounts = 0 then RootSetup else RootShell)"

end
