(* ===== verification/App_Forms.thy ===== *)
theory App_Forms
  imports App_Stores
begin

text \<open>
  \<open>src/src/app/stores/{account-setup,composer,mutation-status}.ts\<close>: the account form, the composer
  and the projection of the pending mutations.
\<close>

section \<open>The account form\<close>

datatype AccountSetupProfile = BoxplotLocalImap | GmailOAuth

datatype AccountSetupPhase = SetupIdle | SetupValidating | SetupConnecting

datatype AccountSetupRequest =
    LocalImapSetup jsstring jsstring jsstring number number
  | GmailSetup jsstring bool

record AccountSetupState =
  auProfile :: AccountSetupProfile
  auUsername :: jsstring
  auPassword :: jsstring
  auHost :: jsstring
  auPort :: jsstring
  auPhase :: AccountSetupPhase
  auError :: "jsstring option"

definition BOXPLOT_LOCAL_IMAP_HOST :: jsstring where
  "BOXPLOT_LOCAL_IMAP_HOST = js ''127.0.0.1''"

definition BOXPLOT_LOCAL_IMAP_PORT :: jsstring where
  "BOXPLOT_LOCAL_IMAP_PORT = js ''1143''"

definition BOXPLOT_LOCAL_SMTP_PORT :: number where
  "BOXPLOT_LOCAL_SMTP_PORT = JInt 1587"

definition initialSetupState :: AccountSetupState where
  "initialSetupState =
     \<lparr>auProfile = BoxplotLocalImap, auUsername = [], auPassword = [],
      auHost = BOXPLOT_LOCAL_IMAP_HOST, auPort = BOXPLOT_LOCAL_IMAP_PORT, auPhase = SetupIdle,
      auError = None\<rparr>"

text \<open>A value above 65535 is rejected whether or not a double holds it exactly.\<close>

definition decimal_digit :: "16 word \<Rightarrow> bool" where
  "decimal_digit c \<longleftrightarrow> 48 \<le> c \<and> c \<le> 57"

definition parseImapPort :: "jsstring \<Rightarrow> number option" where
  "parseImapPort s =
     (if s = [] \<or> \<not> list_all decimal_digit s then None
      else
        let n = digits10_value s in
        if n < 1 \<or> 65535 < n then None else Some (JInt (int n)))"

definition setProfile :: "AccountSetupProfile \<Rightarrow> AccountSetupState \<Rightarrow> AccountSetupState" where
  "setProfile p s =
     s\<lparr>auProfile := p, auHost := BOXPLOT_LOCAL_IMAP_HOST, auPort := BOXPLOT_LOCAL_IMAP_PORT,
       auPassword := [], auError := None\<rparr>"

definition setUsername :: "jsstring \<Rightarrow> AccountSetupState \<Rightarrow> AccountSetupState" where
  "setUsername v s = s\<lparr>auUsername := v, auError := None\<rparr>"

definition setPassword :: "jsstring \<Rightarrow> AccountSetupState \<Rightarrow> AccountSetupState" where
  "setPassword v s = s\<lparr>auPassword := v, auError := None\<rparr>"

definition setHost :: "jsstring \<Rightarrow> AccountSetupState \<Rightarrow> AccountSetupState" where
  "setHost v s = s\<lparr>auHost := v, auError := None\<rparr>"

definition setPort :: "jsstring \<Rightarrow> AccountSetupState \<Rightarrow> AccountSetupState" where
  "setPort v s = s\<lparr>auPort := v, auError := None\<rparr>"

text \<open>The error of \<open>validate\<close>; the branch of a Google account returns before the other tests.\<close>

definition setup_error :: "AccountSetupState \<Rightarrow> jsstring option" where
  "setup_error s =
     (if auUsername s = [] then Some (js ''El usuario es obligatorio.'')
      else if auProfile s = GmailOAuth \<and> js_indexOf 64 (auUsername s) = -1
      then Some (js ''Ingresa una cuenta de Google v'' @ letter_a' @ js ''lida.'')
      else if auProfile s = GmailOAuth then None
      else if auPassword s = []
      then Some (js ''La contrase'' @ letter_n' @ js ''a es obligatoria.'')
      else if auHost s = [] then Some (js ''El servidor es obligatorio.'')
      else if auPort s = [] then Some (js ''El puerto IMAP es obligatorio.'')
      else if parseImapPort (auPort s) = None
      then Some (js ''El puerto IMAP debe ser un entero entre 1 y 65535.'')
      else None)"

definition validate :: "AccountSetupState \<Rightarrow> AccountSetupState \<times> bool" where
  "validate s =
     (s\<lparr>auPhase := SetupIdle, auError := setup_error s\<rparr>, setup_error s = None)"

definition invalid_setup :: jsstring where
  "invalid_setup = js ''Configuraci'' @ letter_o' @ js ''n inv'' @ letter_a' @ js ''lida.''"

definition buildRequest :: "AccountSetupState \<Rightarrow> AccountSetupState \<times> (jsstring + AccountSetupRequest)" where
  "buildRequest s0 =
     (let (s, valid) = validate s0 in
      if \<not> valid
      then (s, Inl (case auError s of None \<Rightarrow> invalid_setup | Some e \<Rightarrow> e))
      else if auProfile s = GmailOAuth
      then (s, Inr (GmailSetup (js_trim (auUsername s)) False))
      else
        (case parseImapPort (auPort s) of
           None \<Rightarrow> (s, Inl invalid_setup)
         | Some port \<Rightarrow>
             (s, Inr (LocalImapSetup (auUsername s) (auPassword s) (auHost s) port
                        BOXPLOT_LOCAL_SMTP_PORT))))"

definition clearSensitive :: "AccountSetupState \<Rightarrow> AccountSetupState" where
  "clearSensitive s = s\<lparr>auPassword := []\<rparr>"

definition beginConnection :: "AccountSetupState \<Rightarrow> AccountSetupState" where
  "beginConnection s = s\<lparr>auPhase := SetupConnecting, auError := None\<rparr>"

definition setConnectionError :: "jsstring \<Rightarrow> AccountSetupState \<Rightarrow> AccountSetupState" where
  "setConnectionError message s = s\<lparr>auPhase := SetupIdle, auError := Some message\<rparr>"

definition finishConnection :: "AccountSetupState \<Rightarrow> AccountSetupState" where
  "finishConnection s = s\<lparr>auPhase := SetupIdle\<rparr>"

section \<open>The composer\<close>

datatype ComposerPhase = ComposerIdle | ComposerEditing | ComposerQueueing | ComposerError

record ComposerState =
  cmIsOpen :: bool
  cmTo :: jsstring
  cmCc :: jsstring
  cmBcc :: jsstring
  cmSubject :: jsstring
  cmBody :: jsstring
  cmSecurityMode :: SendSecurityMode
  cmPhase :: ComposerPhase
  cmError :: "jsstring option"

definition resetComposer :: "ComposerState \<Rightarrow> ComposerState" where
  "resetComposer s =
     s\<lparr>cmIsOpen := False, cmTo := [], cmCc := [], cmBcc := [], cmSubject := [], cmBody := [],
       cmSecurityMode := ModePlain, cmPhase := ComposerIdle, cmError := None\<rparr>"

definition newComposerState :: ComposerState where
  "newComposerState =
     \<lparr>cmIsOpen = False, cmTo = [], cmCc = [], cmBcc = [], cmSubject = [], cmBody = [],
      cmSecurityMode = ModePlain, cmPhase = ComposerIdle, cmError = None\<rparr>"

definition canSend :: "ComposerState \<Rightarrow> bool" where
  "canSend s \<longleftrightarrow> 0 < length (js_trim (cmTo s)) \<and> cmPhase s \<noteq> ComposerQueueing"

definition openComposer ::
  "jsstring option \<Rightarrow> jsstring option \<Rightarrow> jsstring option \<Rightarrow> ComposerState \<Rightarrow> ComposerState" where
  "openComposer to subject body s =
     (let or_empty = (\<lambda>x. case x of None \<Rightarrow> [] | Some v \<Rightarrow> v) in
      s\<lparr>cmIsOpen := True, cmPhase := ComposerEditing, cmError := None, cmTo := or_empty to,
        cmCc := [], cmBcc := [], cmSubject := or_empty subject, cmBody := or_empty body,
        cmSecurityMode := ModePlain\<rparr>)"

definition setPhase :: "ComposerPhase \<Rightarrow> jsstring option \<Rightarrow> ComposerState \<Rightarrow> ComposerState" where
  "setPhase phase message s = s\<lparr>cmPhase := phase, cmError := message\<rparr>"

section \<open>The projection of the mutations\<close>

datatype MutationStatusKind = KindSend | KindKeyword | KindMailboxMembership

datatype MutationStatusLifecycle =
  ViewPending | ViewInFlight | ViewRetrying | ViewFailedTerminal | ViewConfirmed

record MutationStatusView =
  uvAccountKey :: AccountKey
  uvMutationId :: MutationId
  uvKind :: MutationStatusKind
  uvEmailId :: "ScopedEmailId option"
  uvLifecycle :: MutationStatusLifecycle
  uvAttemptCount :: number
  uvSecurityMode :: "SendSecurityMode option"
  uvNeedsReconciliation :: bool

record RecentMutationConfirmation =
  rmAccountKey :: AccountKey
  rmMutationId :: MutationId
  rmKind :: MutationStatusKind
  rmEmailId :: "ScopedEmailId option"

record MutationStatusState =
  usByAccount :: "(AccountKey \<times> MutationStatusView list) list"
  usReconciliation :: "(jsstring \<times> bool) list"
  usRecent :: "(jsstring \<times> RecentMutationConfirmation) list"

definition newMutationStatusState :: MutationStatusState where
  "newMutationStatusState = \<lparr>usByAccount = [], usReconciliation = [], usRecent = []\<rparr>"

text \<open>Property names with a NUL are no array indices, so the objects keep insertion order.\<close>

definition mutation_identity :: "AccountKey \<Rightarrow> MutationId \<Rightarrow> jsstring" where
  "mutation_identity k i = k @ 0 # i"

definition statusesForAccount :: "MutationStatusState \<Rightarrow> AccountKey option \<Rightarrow> MutationStatusView list" where
  "statusesForAccount s k =
     (case k of
        None \<Rightarrow> []
      | Some a \<Rightarrow> (case map_of (usByAccount s) a of None \<Rightarrow> [] | Some vs \<Rightarrow> vs))"

datatype LatestSend = LatestStatus MutationStatusView | LatestConfirmed RecentMutationConfirmation

definition latestSendForAccount :: "MutationStatusState \<Rightarrow> AccountKey option \<Rightarrow> LatestSend option" where
  "latestSendForAccount s k =
     (case k of
        None \<Rightarrow> None
      | Some a \<Rightarrow>
          (case List.find (\<lambda>v. uvKind v = KindSend) (rev (statusesForAccount s k)) of
             Some v \<Rightarrow> Some (LatestStatus v)
           | None \<Rightarrow>
               (case filter (\<lambda>v. rmAccountKey v = a \<and> rmKind v = KindSend) (map snd (usRecent s)) of
                  [] \<Rightarrow> None
                | vs \<Rightarrow> Some (LatestConfirmed (last vs)))))"

definition recentConfirmationForEmail ::
  "MutationStatusState \<Rightarrow> ScopedEmailId \<Rightarrow> RecentMutationConfirmation option" where
  "recentConfirmationForEmail s e =
     (case filter (\<lambda>v. case rmEmailId v of
                          None \<Rightarrow> False
                        | Some i \<Rightarrow> accountKey i = accountKey e \<and> jmapId i = jmapId e)
             (map snd (usRecent s)) of
        [] \<Rightarrow> None
      | vs \<Rightarrow> Some (last vs))"

definition needs_reconciliation :: "MutationStatusState \<Rightarrow> jsstring \<Rightarrow> bool" where
  "needs_reconciliation s key =
     (case map_of (usReconciliation s) key of None \<Rightarrow> False | Some b \<Rightarrow> b)"

definition of_account :: "AccountKey \<Rightarrow> jsstring \<Rightarrow> bool" where
  "of_account k key \<longleftrightarrow> js_startsWith key (k @ [0])"

definition setStatuses ::
  "AccountKey \<Rightarrow> MutationStatusView list \<Rightarrow> MutationStatusState \<Rightarrow> MutationStatusState" where
  "setStatuses k views s =
     (let projected =
        map (\<lambda>v. v\<lparr>uvNeedsReconciliation :=
                      needs_reconciliation s (mutation_identity k (uvMutationId v))\<rparr>) views;
          present = map (\<lambda>v. mutation_identity k (uvMutationId v)) projected in
      s\<lparr>usByAccount := AList.update k projected (usByAccount s),
        usReconciliation :=
          filter (\<lambda>(key, _). \<not> (of_account k key \<and> key \<notin> set present)) (usReconciliation s)\<rparr>)"

definition markNeedsReconciliation ::
  "AccountKey \<Rightarrow> MutationId \<Rightarrow> MutationStatusState \<Rightarrow> MutationStatusState" where
  "markNeedsReconciliation k i s =
     (let s1 = s\<lparr>usReconciliation :=
                   AList.update (mutation_identity k i) True (usReconciliation s)\<rparr> in
      case map_of (usByAccount s1) k of
        None \<Rightarrow> s1
      | Some vs \<Rightarrow>
          s1\<lparr>usByAccount :=
               AList.update k
                 (map (\<lambda>v. if uvMutationId v = i then v\<lparr>uvNeedsReconciliation := True\<rparr> else v) vs)
                 (usByAccount s1)\<rparr>)"

definition markConfirmed ::
  "AccountKey \<Rightarrow> MutationId \<Rightarrow> MutationStatusKind \<Rightarrow> ScopedEmailId option \<Rightarrow> MutationStatusState \<Rightarrow>
   MutationStatusState" where
  "markConfirmed k i kind e s =
     s\<lparr>usRecent :=
         AList.update (mutation_identity k i)
           \<lparr>rmAccountKey = k, rmMutationId = i, rmKind = kind, rmEmailId = e\<rparr> (usRecent s)\<rparr>"

definition clearMutations :: "AccountKey \<Rightarrow> MutationStatusState \<Rightarrow> MutationStatusState" where
  "clearMutations k s =
     s\<lparr>usByAccount := AList.delete k (usByAccount s),
       usReconciliation := filter (\<lambda>(key, _). \<not> of_account k key) (usReconciliation s),
       usRecent := filter (\<lambda>(key, _). \<not> of_account k key) (usRecent s)\<rparr>"

end
