(* ===== verification/App_Controller.thy ===== *)
theory App_Controller
  imports App_Forms Port_Interfaces JS_Values
begin

text \<open>
  \<open>src/src/app/application.ts\<close>, the class \<open>MailApplicationController\<close>: what the interface reads from
  the local store. Every read is asynchronous and many may be out at once, so each remembers the
  generation it was started in and what was selected then, and writes nothing if either has changed.
  A call is a task: the read it waits for and the functions that await it, innermost first; a
  segment runs from one \<open>await\<close> to the next and yields the tasks that go on.
\<close>

section \<open>The state\<close>

datatype ConnectionAttemptTarget = FirstRun | Reconnect AccountKey

text \<open>A promise is an identity; \<open>coNext\<close> numbers them. \<open>coForgotten\<close> records the credentials the
  broker was told to forget.\<close>

record MailApplicationController =
  coMail :: MailState
  coRuntime :: RuntimeState
  coStatuses :: MutationStatusState
  coSubscribed :: bool
  coAccountsGeneration :: nat
  coMailboxesGeneration :: nat
  coViewGeneration :: nat
  coBodyGeneration :: nat
  coHints :: "LocalChangeHint list"
  coScheduled :: bool
  coObserving :: bool
  coObserved :: "AccountKey option"
  coConnection :: "(ConnectionAttemptTarget \<times> nat) option"
  coConnectionGeneration :: nat
  coRefresh :: "(AccountKey \<times> nat) option"
  coRefreshGeneration :: nat
  coStatusGenerations :: "(AccountKey \<times> nat) list"
  coRuns :: "(jsstring \<times> nat) list"
  coBodies :: "(jsstring \<times> nat) list"
  coDisposed :: bool
  coNext :: nat
  coForgotten :: "jsstring list"

definition newController :: MailApplicationController where
  "newController =
     \<lparr>coMail = newMailState, coRuntime = newRuntimeState, coStatuses = newMutationStatusState,
      coSubscribed = False, coAccountsGeneration = 0, coMailboxesGeneration = 0,
      coViewGeneration = 0, coBodyGeneration = 0, coHints = [], coScheduled = False,
      coObserving = False, coObserved = None, coConnection = None, coConnectionGeneration = 0,
      coRefresh = None, coRefreshGeneration = 0, coStatusGenerations = [], coRuns = [],
      coBodies = [], coDisposed = False, coNext = 0, coForgotten = []\<rparr>"

text \<open>What the context holds: the host's \<open>localeCompare\<close>, which services are there, the fresh keys
  and instants it makes, for which accounts the remote application's \<open>subscribe\<close> does not throw, and
  the status it then gives; later statuses are calls of the listener (\<open>StatusChanges\<close>).\<close>

record ApplicationContext =
  cxLocale :: "jsstring \<Rightarrow> jsstring \<Rightarrow> int"
  cxRemote :: bool
  cxMaterializer :: bool
  cxRunner :: bool
  cxBroker :: bool
  cxWorker :: bool
  cxAccountKey :: "nat \<Rightarrow> AccountKey"
  cxMutationId :: "nat \<Rightarrow> MutationId"
  cxNow :: "nat \<Rightarrow> MutationInstant"
  cxSubscribes :: "AccountKey \<Rightarrow> bool"
  cxStatus :: "AccountKey \<Rightarrow> RemoteAccountStatus"

definition on_mail ::
  "(MailState \<Rightarrow> MailState) \<Rightarrow> MailApplicationController \<Rightarrow> MailApplicationController" where
  "on_mail f c = c\<lparr>coMail := f (coMail c)\<rparr>"

definition on_runtime ::
  "(RuntimeState \<Rightarrow> RuntimeState) \<Rightarrow> MailApplicationController \<Rightarrow> MailApplicationController" where
  "on_runtime f c = c\<lparr>coRuntime := f (coRuntime c)\<rparr>"

definition on_statuses ::
  "(MutationStatusState \<Rightarrow> MutationStatusState) \<Rightarrow> MailApplicationController \<Rightarrow>
   MailApplicationController" where
  "on_statuses f c = c\<lparr>coStatuses := f (coStatuses c)\<rparr>"

section \<open>Tasks\<close>

datatype SelectedBodyRereadState =
  RereadCached | RereadNotCached | RereadOwnerAbsent | RereadFailed | RereadStale

datatype AccountConnectionErrorKind =
    CAuth | CNetwork | CAccountMismatch | CAccountSelectionRequired | CServiceMismatch
  | CAccountUnavailable | CConnectionInProgress | CLocal | CUnexpected | CCancelled

datatype RemoteRefreshErrorKind =
    RNotConnected | RAuth | RNetwork | RRemote | RLocal | RCancelled | RConnectionInProgress
  | RUnexpected

text \<open>What an asynchronous function returns to the one that awaits it.\<close>

datatype ret =
    RetUnit
  | RetReread SelectedBodyRereadState
  | RetMutations "PendingMutation list option"
  | RetBody "BodyMaterializationErrorKind option"
  | RetRefresh "RemoteRefreshErrorKind option"
  | RetConnection "AccountConnectionErrorKind + AccountKey"
  | RetThrow exn

text \<open>The calls that are awaited, with what the code remembers while it waits.\<close>

datatype wait =
    WaitSubscription
  | WaitAccounts nat
  | WaitMailboxes AccountKey nat
  | WaitView ScopedMailboxId nat
  | WaitEmails ScopedMailboxId nat MailboxView
  | WaitBody ScopedEmailId nat
  | WaitMutations AccountKey nat
  | WaitMaterialization ScopedEmailId
  | WaitRun AccountKey MutationId "PendingMutation option"
  | WaitRemoteRefresh AccountKey nat
  | WaitKnownAccounts AccountSetupRequest "AccountKey option" nat
  | WaitAuthorization AccountSetupRequest AccountKey ServiceKey nat
  | WaitConnect RemoteConnectRequest nat "jsstring option"
  | WaitKeywordWrite PendingMutation
  | WaitMemberships ScopedEmailId Mailbox
  | WaitMembershipWrite PendingMutation
  | WaitSyncAccount AccountKey
  | WaitWorkerSync AccountKey jsstring
  | WaitSendAccount AccountKey SendIntent
  | WaitStage PendingMutation jsstring
  | WaitWorkerSend AccountKey jsstring MutationId

text \<open>The functions in the middle of an \<open>await\<close> of another function of the class; the last four are
  the callbacks that forget a promise once it is settled.\<close>

datatype cont =
    ThenMutations AccountKey
  | ThenReturn
  | ThenDemand "ScopedEmailId option"
  | ThenInitialized
  | ThenRetried
  | ThenFlushMutations "AccountKey option"
  | ThenFlushed
  | ThenReread ScopedEmailId
  | ThenRun AccountKey MutationId
  | ThenRan AccountKey MutationId "PendingMutation option" bool
  | ThenConnected AccountKey nat "jsstring option"
  | ForgetBody jsstring nat
  | ForgetRun jsstring nat
  | ForgetRefresh nat
  | ForgetConnection nat

datatype ctask = Waits wait "cont list" | Returns ret "cont list"

type_synonym segment = "MailApplicationController \<times> ctask list"

section \<open>Reading the selected body\<close>

definition isSelectedEmail :: "MailApplicationController \<Rightarrow> ScopedEmailId \<Rightarrow> bool" where
  "isSelectedEmail c e \<longleftrightarrow> vmSelectedEmailId (coMail c) = Some e"

definition refreshSelectedBody :: "MailApplicationController \<Rightarrow> cont list \<Rightarrow> segment" where
  "refreshSelectedBody c0 ks =
     (let g = coBodyGeneration c0 + 1; c = c0\<lparr>coBodyGeneration := g\<rparr> in
      case vmSelectedEmailId (coMail c) of
        None \<Rightarrow>
          (on_mail (setEmailBody None BodyIdle) c, [Returns (RetReread RereadStale) ks])
      | Some e \<Rightarrow> (on_mail (setEmailBody None BodyLoading) c, [Waits (WaitBody e g) ks]))"

definition body_read ::
  "MailApplicationController \<Rightarrow> ScopedEmailId \<Rightarrow> nat \<Rightarrow> EmailBody OwnedCacheRead ReadResult \<Rightarrow>
   MailApplicationController \<times> SelectedBodyRereadState" where
  "body_read c e g result =
     (if g \<noteq> coBodyGeneration c \<or> vmSelectedEmailId (coMail c) \<noteq> Some e then (c, RereadStale)
      else
        (case result of
           PortErr _ \<Rightarrow> (on_mail (setEmailBody None BodyError) c, RereadFailed)
         | PortOk (CacheCached b) \<Rightarrow> (on_mail (setEmailBody (Some b) BodyCached) c, RereadCached)
         | PortOk CacheNotCached \<Rightarrow> (on_mail (setEmailBody None BodyNotCached) c, RereadNotCached)
         | PortOk CacheOwnerAbsent \<Rightarrow>
             (on_mail (setEmailBody None BodyOwnerAbsent) c, RereadOwnerAbsent)))"

section \<open>Reading the window of a mailbox\<close>

definition window_spec :: "ScopedMailboxId \<Rightarrow> MailboxViewSpec" where
  "window_spec i = mailboxViewSpec i mailboxViewFilterAll (mailboxViewSort Descending)"

definition refreshMailboxWindow :: "MailApplicationController \<Rightarrow> cont list \<Rightarrow> segment" where
  "refreshMailboxWindow c0 ks =
     (let g = coViewGeneration c0 + 1; c = c0\<lparr>coViewGeneration := g\<rparr> in
      case vmSelectedMailboxId (coMail c) of
        None \<Rightarrow> (c, [Returns RetUnit ks])
      | Some i \<Rightarrow> (on_mail (setLoadState LoadLoading None) c, [Waits (WaitView i g) ks]))"

definition window_current :: "MailApplicationController \<Rightarrow> ScopedMailboxId \<Rightarrow> nat \<Rightarrow> bool" where
  "window_current c i g \<longleftrightarrow>
     g = coViewGeneration c \<and> vmSelectedMailboxId (coMail c) = Some i"

definition load_error :: "jsstring \<Rightarrow> MailState \<Rightarrow> MailState" where
  "load_error message = setLoadState LoadError (Some message)"

definition view_read ::
  "MailApplicationController \<Rightarrow> ScopedMailboxId \<Rightarrow> nat \<Rightarrow> MailboxView OwnedCacheRead ReadResult \<Rightarrow>
   cont list \<Rightarrow> segment" where
  "view_read c i g result ks =
     (if \<not> window_current c i g then (c, [Returns RetUnit ks])
      else
        (case result of
           PortErr _ \<Rightarrow>
             (on_mail
                (load_error (js ''No se pudo leer la vista local del buz'' @ letter_o' @ js ''n.'')) c,
              [Returns RetUnit ks])
         | PortOk CacheOwnerAbsent \<Rightarrow>
             (on_mail
                (load_error (js ''El buz'' @ letter_o' @ js ''n local ya no existe.'')
                 \<circ> setEmails [] \<circ> setMailboxView None) c,
              [Returns RetUnit ks])
         | PortOk CacheNotCached \<Rightarrow>
             (on_mail (setLoadState LoadNotCached None \<circ> setEmails [] \<circ> setMailboxView None) c,
              [Returns RetUnit ks])
         | PortOk (CacheCached view) \<Rightarrow> (c, [Waits (WaitEmails i g view) ks])))"

definition present_emails :: "Email LocalEntityRead list \<Rightarrow> Email list" where
  "present_emails rs =
     concat (map (\<lambda>r. case r of EntityPresent e \<Rightarrow> [e] | EntityAbsent \<Rightarrow> []) rs)"

definition next_email :: "ScopedEmailId option \<Rightarrow> Email list \<Rightarrow> ScopedEmailId option" where
  "next_email selected emails =
     (case selected of
        Some e \<Rightarrow>
          if list_ex (\<lambda>m. sameScopedEmailId (emId m) e) emails then Some e
          else (case emails of [] \<Rightarrow> None | m # _ \<Rightarrow> Some (emId m))
      | None \<Rightarrow> (case emails of [] \<Rightarrow> None | m # _ \<Rightarrow> Some (emId m)))"

text \<open>The selection changed unless both are the same present e-mail.\<close>

definition selection_changed :: "ScopedEmailId option \<Rightarrow> ScopedEmailId option \<Rightarrow> bool" where
  "selection_changed selected chosen \<longleftrightarrow> \<not> (\<exists>e \<in> set_option selected. chosen = Some e)"

definition emails_read ::
  "MailApplicationController \<Rightarrow> ScopedMailboxId \<Rightarrow> nat \<Rightarrow> MailboxView \<Rightarrow>
   Email LocalEntityRead list ReadResult \<Rightarrow> cont list \<Rightarrow> segment" where
  "emails_read c i g view result ks =
     (if \<not> window_current c i g \<or> \<not> sameMailboxViewSpec (window_spec i) (mvSpec view)
      then (c, [Returns RetUnit ks])
      else
        let unavailable =
          (on_mail
             (load_error (js ''La vista local referencia mensajes no disponibles.'')
              \<circ> setEmails [] \<circ> setMailboxView (Some view)) c,
           [Returns RetUnit ks]) in
        (case result of
           PortErr _ \<Rightarrow> unavailable
         | PortOk rs \<Rightarrow>
             if list_ex (\<lambda>r. r = EntityAbsent) rs then unavailable
             else
               let emails = present_emails rs;
                   selected = vmSelectedEmailId (coMail c);
                   chosen = next_email selected emails;
                   changed = selection_changed selected chosen;
                   c1 = on_mail (setEmails emails \<circ> setMailboxView (Some view)) c;
                   c2 = (if changed then on_mail (selectEmail chosen) c1 else c1) in
               refreshSelectedBody (on_mail (setLoadState LoadReady None) c2)
                 (ThenDemand (if changed then chosen else None) # ks)))"

section \<open>Reading the mailboxes of the selected account\<close>

definition refreshMailboxes :: "MailApplicationController \<Rightarrow> cont list \<Rightarrow> segment" where
  "refreshMailboxes c0 ks =
     (let g = coMailboxesGeneration c0 + 1; c = c0\<lparr>coMailboxesGeneration := g\<rparr> in
      case vmSelectedAccountKey (coMail c) of
        None \<Rightarrow> (c, [Returns RetUnit ks])
      | Some k \<Rightarrow> (c, [Waits (WaitMailboxes k g) ks]))"

text \<open>The sort orders are unsigned integers below \<open>2 ^ 31\<close>, so the difference is exact.\<close>

definition compare_local_mailboxes ::
  "(jsstring \<Rightarrow> jsstring \<Rightarrow> int) \<Rightarrow> Mailbox \<Rightarrow> Mailbox \<Rightarrow> int" where
  "compare_local_mailboxes locale left right =
     (let d = int_of_num (mbSortOrder left) - int_of_num (mbSortOrder right) in
      if d \<noteq> 0 then d else locale (mbName left) (mbName right))"

definition next_mailbox :: "ScopedMailboxId option \<Rightarrow> Mailbox list \<Rightarrow> ScopedMailboxId option" where
  "next_mailbox selected mailboxes =
     (let other =
        (case List.find (\<lambda>m. mbRole m = Some (js ''inbox'')) mailboxes of
           Some m \<Rightarrow> Some (mbId m)
         | None \<Rightarrow> (case mailboxes of [] \<Rightarrow> None | m # _ \<Rightarrow> Some (mbId m))) in
      case selected of
        Some i \<Rightarrow> if list_ex (\<lambda>m. sameScopedMailboxId (mbId m) i) mailboxes then Some i else other
      | None \<Rightarrow> other)"

definition mailboxes_read ::
  "ApplicationContext \<Rightarrow> MailApplicationController \<Rightarrow> AccountKey \<Rightarrow> nat \<Rightarrow>
   Mailbox list OwnedSnapshotRead ReadResult \<Rightarrow> cont list \<Rightarrow> segment" where
  "mailboxes_read cx c k g result ks =
     (if g \<noteq> coMailboxesGeneration c \<or> vmSelectedAccountKey (coMail c) \<noteq> Some k
      then (c, [Returns RetUnit ks])
      else
        (case result of
           PortErr e \<Rightarrow>
             (c, [Returns (RetThrow
                    (Error (js ''listMailboxes failed: '' @ read_error_string e))) ks])
         | PortOk SnapshotOwnerAbsent \<Rightarrow>
             (on_mail
                (load_error (js ''La cuenta local ya no existe.'') \<circ> selectMailbox None
                 \<circ> setMailboxes []) c,
              [Returns RetUnit ks])
         | PortOk (SnapshotPresent ms) \<Rightarrow>
             let mailboxes = sort_by (compare_local_mailboxes (cxLocale cx)) ms;
                 c1 = on_mail (setMailboxes mailboxes) c;
                 selected = vmSelectedMailboxId (coMail c1) in
             (case next_mailbox selected mailboxes of
                None \<Rightarrow>
                  (on_mail (setLoadState LoadReady None \<circ> selectMailbox None) c1,
                   [Returns RetUnit ks])
              | Some i \<Rightarrow>
                  refreshMailboxWindow
                    (if selected = Some i then c1 else on_mail (selectMailbox (Some i)) c1)
                    (ThenReturn # ks))))"

section \<open>The projection of the pending mutations\<close>

definition statusKind :: "PendingMutation \<Rightarrow> MutationStatusKind" where
  "statusKind m =
     (case pmPayload m of
        PSend _ \<Rightarrow> KindSend | PKeyword _ _ \<Rightarrow> KindKeyword | PMembership _ _ \<Rightarrow> KindMailboxMembership)"

definition statusEmailId :: "PendingMutation \<Rightarrow> ScopedEmailId option" where
  "statusEmailId m =
     (case pmPayload m of PSend _ \<Rightarrow> None | PKeyword e _ \<Rightarrow> Some e | PMembership e _ \<Rightarrow> Some e)"

definition statusLifecycle :: "MutationLifecycle \<Rightarrow> MutationStatusLifecycle" where
  "statusLifecycle l =
     (case l of
        Pending _ \<Rightarrow> ViewPending | InFlight _ \<Rightarrow> ViewInFlight | Retrying _ _ \<Rightarrow> ViewRetrying
      | ConfirmedUpdate _ \<Rightarrow> ViewConfirmed | ConfirmedSend _ _ \<Rightarrow> ViewConfirmed
      | FailedTerminal _ \<Rightarrow> ViewFailedTerminal)"

definition mutationStatusView :: "PendingMutation \<Rightarrow> MutationStatusView" where
  "mutationStatusView m =
     \<lparr>uvAccountKey = pmAccountKey m, uvMutationId = pmMutationId m, uvKind = statusKind m,
      uvEmailId = statusEmailId m, uvLifecycle = statusLifecycle (pmLifecycle m),
      uvAttemptCount = attemptCount (pmLifecycle m),
      uvSecurityMode =
        (case pmPayload m of PSend intent \<Rightarrow> Some (siSecurityMode intent) | _ \<Rightarrow> None),
      uvNeedsReconciliation = False\<rparr>"

definition status_generation :: "MailApplicationController \<Rightarrow> AccountKey \<Rightarrow> nat" where
  "status_generation c k = (case map_of (coStatusGenerations c) k of None \<Rightarrow> 0 | Some g \<Rightarrow> g)"

definition refreshMutationStatuses ::
  "MailApplicationController \<Rightarrow> AccountKey \<Rightarrow> cont list \<Rightarrow> segment" where
  "refreshMutationStatuses c k ks =
     (let g = status_generation c k + 1 in
      (c\<lparr>coStatusGenerations := AList.update k g (coStatusGenerations c)\<rparr>,
       [Waits (WaitMutations k g) ks]))"

definition mutations_read ::
  "MailApplicationController \<Rightarrow> AccountKey \<Rightarrow> nat \<Rightarrow>
   PendingMutation list OwnedSnapshotRead ReadResult \<Rightarrow>
   MailApplicationController \<times> PendingMutation list option" where
  "mutations_read c k g result =
     (if coDisposed c \<or> map_of (coStatusGenerations c) k \<noteq> Some g then (c, None)
      else
        (case result of
           PortErr _ \<Rightarrow> (c, None)
         | PortOk SnapshotOwnerAbsent \<Rightarrow> (on_statuses (clearMutations k) c, Some [])
         | PortOk (SnapshotPresent ms) \<Rightarrow>
             (on_statuses (setStatuses k (map mutationStatusView ms)) c, Some ms)))"

section \<open>The status of the remote application\<close>

definition set_remote_status ::
  "RemoteAuthState \<Rightarrow> RemoteConnectivityState \<Rightarrow> MailApplicationController \<Rightarrow>
   MailApplicationController" where
  "set_remote_status a n c = on_runtime (setConnectivity n \<circ> setAuth a) c"

text \<open>The listener given to \<open>subscribe\<close>; it is called at once with the present status.\<close>

definition status_arrives ::
  "AccountKey \<Rightarrow> RemoteAccountStatus \<Rightarrow> MailApplicationController \<Rightarrow> MailApplicationController" where
  "status_arrives k st c =
     (if coDisposed c \<or> coObserved c \<noteq> Some k then c
      else set_remote_status (rsAuth st) (rsConnectivity st) c)"

definition observeRemoteStatus ::
  "ApplicationContext \<Rightarrow> AccountKey option \<Rightarrow> MailApplicationController \<Rightarrow>
   MailApplicationController" where
  "observeRemoteStatus cx k c0 =
     (if coObserved c0 = k then c0
      else
        let c = c0\<lparr>coObserving := False, coObserved := k\<rparr> in
        (case k of
           None \<Rightarrow> set_remote_status Anonymous Offline c
         | Some a \<Rightarrow>
             if \<not> cxRemote cx then set_remote_status Anonymous Offline c
             else if \<not> cxSubscribes cx a then set_remote_status Anonymous Offline c
             else (status_arrives a (cxStatus cx a) c)\<lparr>coObserving := True\<rparr>))"

definition projectRemoteStatus ::
  "ApplicationContext \<Rightarrow> AccountKey \<Rightarrow> MailApplicationController \<Rightarrow> MailApplicationController" where
  "projectRemoteStatus cx k c =
     (if coObserved c \<noteq> Some k \<or> \<not> cxRemote cx then c
      else
        (let st = cxStatus cx k in set_remote_status (rsAuth st) (rsConnectivity st) c))"

section \<open>Reading the accounts\<close>

definition compare_accounts :: "(jsstring \<Rightarrow> jsstring \<Rightarrow> int) \<Rightarrow> Account \<Rightarrow> Account \<Rightarrow> int" where
  "compare_accounts locale left right = locale (acKey left) (acKey right)"

definition refreshAccounts :: "MailApplicationController \<Rightarrow> cont list \<Rightarrow> segment" where
  "refreshAccounts c ks =
     (let g = coAccountsGeneration c + 1 in
      (c\<lparr>coAccountsGeneration := g\<rparr>, [Waits (WaitAccounts g) ks]))"

definition next_account :: "AccountKey option \<Rightarrow> Account list \<Rightarrow> AccountKey option" where
  "next_account selected accounts =
     (let other = (case accounts of [] \<Rightarrow> None | a # _ \<Rightarrow> Some (acKey a)) in
      case selected of
        Some k \<Rightarrow> if list_ex (\<lambda>a. acKey a = k) accounts then Some k else other
      | None \<Rightarrow> other)"

definition accounts_read ::
  "ApplicationContext \<Rightarrow> MailApplicationController \<Rightarrow> nat \<Rightarrow> Account list ReadResult \<Rightarrow> cont list \<Rightarrow>
   segment" where
  "accounts_read cx c g result ks =
     (if g \<noteq> coAccountsGeneration c then (c, [Returns RetUnit ks])
      else
        (case result of
           PortErr e \<Rightarrow>
             (c, [Returns (RetThrow
                    (Error (js ''listAccounts failed: '' @ read_error_string e))) ks])
         | PortOk as \<Rightarrow>
             let accounts = sort_by (compare_accounts (cxLocale cx)) as;
                 c1 = on_mail (setAccounts accounts) c;
                 selected = vmSelectedAccountKey (coMail c1) in
             (case next_account selected accounts of
                None \<Rightarrow>
                  (observeRemoteStatus cx None
                     (on_mail (setLoadState LoadReady None)
                        (on_statuses (\<lambda>_. newMutationStatusState)
                           (on_mail (selectAccount None) c1))),
                   [Returns RetUnit ks])
              | Some k \<Rightarrow>
                  refreshMailboxes
                    (observeRemoteStatus cx (Some k)
                       (if selected = Some k then c1 else on_mail (selectAccount (Some k)) c1))
                    (ThenMutations k # ks))))"

section \<open>What the interface calls\<close>

definition controller_selectAccount ::
  "ApplicationContext \<Rightarrow> MailApplicationController \<Rightarrow> AccountKey \<Rightarrow> cont list \<Rightarrow> segment" where
  "controller_selectAccount cx c k ks =
     refreshMailboxes
       (observeRemoteStatus cx (Some k)
          (if vmSelectedAccountKey (coMail c) = Some k then c
           else on_mail (selectAccount (Some k)) c))
       (ThenMutations k # ks)"

definition controller_selectMailbox ::
  "MailApplicationController \<Rightarrow> ScopedMailboxId \<Rightarrow> cont list \<Rightarrow> segment" where
  "controller_selectMailbox c i ks =
     refreshMailboxWindow
       (if vmSelectedMailboxId (coMail c) = Some i then c else on_mail (selectMailbox (Some i)) c)
       (ThenReturn # ks)"

definition controller_selectEmail ::
  "MailApplicationController \<Rightarrow> ScopedEmailId \<Rightarrow> cont list \<Rightarrow> segment" where
  "controller_selectEmail c e ks =
     refreshSelectedBody
       (if vmSelectedEmailId (coMail c) = Some e then c else on_mail (selectEmail (Some e)) c)
       (ThenDemand (Some e) # ks)"

text \<open>\<open>initialize\<close>, \<open>retry\<close> and \<open>dispose\<close>.\<close>

definition initialize :: "MailApplicationController \<Rightarrow> cont list \<Rightarrow> segment" where
  "initialize c ks =
     (if coSubscribed c then (c, [Returns RetUnit ks])
      else (on_runtime (setLocal LocalOpening) c, [Waits WaitSubscription ks]))"

definition subscribed ::
  "MailApplicationController \<Rightarrow> (unit, 'e) PortResult \<Rightarrow> cont list \<Rightarrow> segment" where
  "subscribed c result ks =
     (case result of
        PortErr _ \<Rightarrow>
          (on_mail
             (load_error (js ''El almacenamiento local no est'' @ letter_a' @ js '' disponible.''))
             (on_runtime (setLocal LocalError) c),
           [Returns (RetThrow (Error (js ''LocalChangeSource is unavailable''))) ks])
      | PortOk _ \<Rightarrow> refreshAccounts (c\<lparr>coSubscribed := True\<rparr>) (ThenInitialized # ks))"

definition retry :: "MailApplicationController \<Rightarrow> cont list \<Rightarrow> segment" where
  "retry c ks =
     (if \<not> coSubscribed c then initialize c (ThenReturn # ks)
      else refreshAccounts (on_runtime (setLocal LocalOpening) c) (ThenRetried # ks))"

definition controller_dispose :: "MailApplicationController \<Rightarrow> MailApplicationController" where
  "controller_dispose c =
     on_mail (setBodyMaterializing False \<circ> clearRefreshActivity)
       (on_statuses (\<lambda>_. newMutationStatusState)
          (c\<lparr>coDisposed := True, coConnectionGeneration := coConnectionGeneration c + 1,
             coSubscribed := False, coObserving := False, coObserved := None,
             coRefreshGeneration := coRefreshGeneration c + 1, coRuns := [], coBodies := []\<rparr>))"

section \<open>Changes announced by the local store\<close>

definition scheduleInvalidation ::
  "MailApplicationController \<Rightarrow> LocalChangeHint list \<Rightarrow> MailApplicationController" where
  "scheduleInvalidation c hints = c\<lparr>coHints := coHints c @ hints, coScheduled := True\<rparr>"

definition mailboxes_hint :: "AccountKey option \<Rightarrow> LocalChangeHint \<Rightarrow> bool" where
  "mailboxes_hint selected h =
     (case h of HMailboxes k \<Rightarrow> selected = Some k | _ \<Rightarrow> False)"

definition window_hint :: "AccountKey option \<Rightarrow> ScopedMailboxId option \<Rightarrow> LocalChangeHint \<Rightarrow> bool" where
  "window_hint selected box h =
     (case h of
        HMailboxView spec \<Rightarrow> box = Some (vsMailboxId spec)
      | HEmails k \<Rightarrow> selected = Some k
      | HEmailMemberships k \<Rightarrow> selected = Some k
      | _ \<Rightarrow> False)"

definition body_hint :: "ScopedEmailId option \<Rightarrow> LocalChangeHint \<Rightarrow> bool" where
  "body_hint selected h = (case h of HEmailBody e \<Rightarrow> selected = Some e | _ \<Rightarrow> False)"

definition mutations_hint :: "AccountKey option \<Rightarrow> LocalChangeHint \<Rightarrow> bool" where
  "mutations_hint selected h = (case h of HPendingMutations k \<Rightarrow> selected = Some k | _ \<Rightarrow> False)"

text \<open>The two steps of \<open>flushInvalidations\<close> after the first reading: the body, if nothing else was
  read, and the mutations. The account is the one selected when the flush began.\<close>

definition flush_mutations ::
  "MailApplicationController \<Rightarrow> AccountKey option \<Rightarrow> cont list \<Rightarrow> segment" where
  "flush_mutations c mutations ks =
     (case mutations of
        None \<Rightarrow> (c, [Returns RetUnit ks])
      | Some k \<Rightarrow> refreshMutationStatuses c k (ThenFlushed # ks))"

definition flush_body ::
  "MailApplicationController \<Rightarrow> bool \<Rightarrow> AccountKey option \<Rightarrow> cont list \<Rightarrow> segment" where
  "flush_body c body mutations ks =
     (if body then refreshSelectedBody c (ThenFlushMutations mutations # ks)
      else flush_mutations c mutations ks)"

definition flushInvalidations :: "MailApplicationController \<Rightarrow> cont list \<Rightarrow> segment" where
  "flushInvalidations c0 ks =
     (let hints = coHints c0;
          c = c0\<lparr>coScheduled := False, coHints := []\<rparr>;
          chosen = vmSelectedAccountKey (coMail c);
          accounts = list_ex (\<lambda>h. h = HAccounts) hints;
          mailboxes = list_ex (mailboxes_hint chosen) hints;
          window = list_ex (window_hint chosen (vmSelectedMailboxId (coMail c))) hints;
          body = list_ex (body_hint (vmSelectedEmailId (coMail c))) hints;
          mutations = (if list_ex (mutations_hint chosen) hints then chosen else None) in
      if accounts then refreshAccounts c (ThenFlushMutations mutations # ks)
      else if mailboxes then refreshMailboxes c (ThenFlushMutations mutations # ks)
      else if window then refreshMailboxWindow c (ThenFlushMutations mutations # ks)
      else flush_body c body mutations ks)"

end
