(* ===== verification/App_Actions.thy ===== *)
theory App_Actions
  imports App_Controller Mutation_Runner Text_Encoding
begin

text \<open>
  \<open>src/src/app/application.ts\<close>, continued: what the interface asks for. Bodies are materialised,
  mutations staged and run, accounts refreshed and connected; a request that is already running is
  shared, not repeated. At the end the class as a machine: calls, answers and returns.
\<close>

section \<open>Texts\<close>

definition connection_message :: "AccountConnectionErrorKind \<Rightarrow> jsstring" where
  "connection_message kind =
     (case kind of
        CAuth \<Rightarrow> js ''No se pudo autenticar la cuenta.''
      | CNetwork \<Rightarrow> js ''No se pudo contactar al servidor.''
      | CAccountMismatch \<Rightarrow>
          js ''La cuenta remota no coincide con la configuraci'' @ letter_o' @ js ''n local.''
      | CAccountSelectionRequired \<Rightarrow>
          js ''El servidor requiere seleccionar una cuenta remota.''
      | CServiceMismatch \<Rightarrow>
          js ''La configuraci'' @ letter_o' @ js ''n del servidor no corresponde a esta cuenta.''
      | CAccountUnavailable \<Rightarrow> js ''La cuenta local ya no est'' @ letter_a' @ js '' disponible.''
      | CConnectionInProgress \<Rightarrow> js ''Ya hay una conexi'' @ letter_o' @ js ''n en curso.''
      | CLocal \<Rightarrow> js ''No se pudo confirmar la cuenta en el almacenamiento local.''
      | CUnexpected \<Rightarrow> js ''No se pudo completar la conexi'' @ letter_o' @ js ''n.''
      | CCancelled \<Rightarrow> js ''La conexi'' @ letter_o' @ js ''n ya no est'' @ letter_a' @ js '' activa.'')"

definition refresh_message :: "RemoteRefreshErrorKind \<Rightarrow> jsstring" where
  "refresh_message kind =
     (case kind of
        RNotConnected \<Rightarrow> js ''Conecta la cuenta para sincronizar.''
      | RAuth \<Rightarrow> js ''La sesi'' @ letter_o' @ js ''n ya no permite sincronizar.''
      | RNetwork \<Rightarrow> js ''No se pudo contactar al servidor.''
      | RRemote \<Rightarrow> js ''No se pudo completar la sincronizaci'' @ letter_o' @ js ''n.''
      | RLocal \<Rightarrow> js ''No se pudieron guardar los cambios sincronizados.''
      | RCancelled \<Rightarrow>
          js ''La sincronizaci'' @ letter_o' @ js ''n ya no est'' @ letter_a' @ js '' activa.''
      | RConnectionInProgress \<Rightarrow>
          js ''Ya hay una sincronizaci'' @ letter_o' @ js ''n en curso.''
      | RUnexpected \<Rightarrow> js ''No se pudo actualizar el correo.'')"

definition body_message :: "BodyMaterializationErrorKind \<Rightarrow> jsstring" where
  "body_message kind =
     (case kind of
        MEmailAbsent \<Rightarrow> js ''El mensaje ya no est'' @ letter_a' @ js '' disponible.''
      | MNotConnected \<Rightarrow> js ''Conecta la cuenta para cargar este contenido.''
      | MRemote \<Rightarrow> js ''No se pudo descargar el contenido del mensaje.''
      | MLocal \<Rightarrow> js ''No se pudo guardar o leer el contenido local.''
      | MInvalidEnvelope \<Rightarrow> js ''No se pudo abrir el contenido cifrado de forma segura.''
      | MMetadataUnavailable \<Rightarrow>
          js ''No hay informaci'' @ letter_o' @ js ''n suficiente para abrir este contenido cifrado.''
      | ME2ee \<Rightarrow> js ''No se pudo descifrar el contenido del mensaje.''
      | MCancelled \<Rightarrow> js ''La carga del contenido ya no est'' @ letter_a' @ js '' activa.''
      | MUnexpected \<Rightarrow> js ''No se pudo cargar el contenido.'')"

section \<open>Materialising a body\<close>

definition finishBodyMaterialization ::
  "MailApplicationController \<Rightarrow> ScopedEmailId \<Rightarrow> BodyMaterializationErrorKind option \<Rightarrow>
   MailApplicationController" where
  "finishBodyMaterialization c e result =
     (if \<not> isSelectedEmail c e \<or> coDisposed c then c
      else
        let c1 = on_mail (setBodyMaterializing False) c in
        (case result of
           None \<Rightarrow> c1
         | Some MCancelled \<Rightarrow> c1
         | Some kind \<Rightarrow>
             on_mail
               (setBodyError (Some (body_message kind))
                \<circ> setEmailBody None (if kind = MEmailAbsent then BodyOwnerAbsent else BodyNotCached))
               c1))"

definition body_finished ::
  "MailApplicationController \<Rightarrow> ScopedEmailId \<Rightarrow> BodyMaterializationErrorKind option \<Rightarrow> cont list \<Rightarrow>
   segment" where
  "body_finished c e result ks =
     (finishBodyMaterialization c e result, [Returns (RetBody result) ks])"

definition performBodyMaterialization ::
  "ApplicationContext \<Rightarrow> MailApplicationController \<Rightarrow> ScopedEmailId \<Rightarrow> cont list \<Rightarrow> segment" where
  "performBodyMaterialization cx c e ks =
     (if \<not> cxMaterializer cx then body_finished c e (Some MUnexpected) ks
      else
        (if isSelectedEmail c e
         then on_mail (setBodyMaterializing True \<circ> setBodyError None) c else c,
         [Waits (WaitMaterialization e) ks]))"

text \<open>The \<open>catch\<close> clause, and what follows \<open>materialize\<close> and the reread.\<close>

definition materialization_caught ::
  "MailApplicationController \<Rightarrow> ScopedEmailId \<Rightarrow> exn \<Rightarrow> cont list \<Rightarrow> segment" where
  "materialization_caught c e x ks =
     (if coDisposed c then (c, [Returns (RetBody (Some MCancelled)) ks])
      else
        body_finished c e
          (Some (case x of BodyMaterializationError kind _ \<Rightarrow> kind | _ \<Rightarrow> MUnexpected)) ks)"

definition materialization_answered ::
  "MailApplicationController \<Rightarrow> ScopedEmailId \<Rightarrow> exn + unit \<Rightarrow> cont list \<Rightarrow> segment" where
  "materialization_answered c e result ks =
     (case result of
        Inl x \<Rightarrow> materialization_caught c e x ks
      | Inr _ \<Rightarrow>
          if coDisposed c then (c, [Returns (RetBody (Some MCancelled)) ks])
          else if isSelectedEmail c e then refreshSelectedBody c (ThenReread e # ks)
          else body_finished c e None ks)"

definition materialization_reread ::
  "MailApplicationController \<Rightarrow> ScopedEmailId \<Rightarrow> SelectedBodyRereadState \<Rightarrow> cont list \<Rightarrow> segment" where
  "materialization_reread c e reread ks =
     body_finished c e
       (case reread of
          RereadFailed \<Rightarrow> Some MLocal
        | RereadNotCached \<Rightarrow> Some MLocal
        | RereadOwnerAbsent \<Rightarrow> Some MEmailAbsent
        | _ \<Rightarrow> None)
       ks"

definition body_key :: "ScopedEmailId \<Rightarrow> jsstring" where
  "body_key e = accountKey e @ 0 # jmapId e"

text \<open>\<open>None\<close> instead of new tasks: the promise already running is returned.\<close>

definition materializeBody ::
  "ApplicationContext \<Rightarrow> MailApplicationController \<Rightarrow> ScopedEmailId \<Rightarrow> segment" where
  "materializeBody cx c e =
     (let key = body_key e; id = coNext c in
      if map_of (coBodies c) key \<noteq> None then (c, [])
      else
        case performBodyMaterialization cx (c\<lparr>coNext := id + 1\<rparr>) e [ForgetBody key id] of
          (c1, ts) \<Rightarrow> (c1\<lparr>coBodies := AList.update key id (coBodies c1)\<rparr>, ts))"

definition demandSelectedBody ::
  "ApplicationContext \<Rightarrow> MailApplicationController \<Rightarrow> ScopedEmailId \<Rightarrow> segment" where
  "demandSelectedBody cx c e =
     (if \<not> isSelectedEmail c e \<or> vmBodyLoadState (coMail c) \<noteq> BodyNotCached then (c, [])
      else materializeBody cx c e)"

section \<open>Mutations\<close>

definition find_mutation :: "MutationId \<Rightarrow> PendingMutation list option \<Rightarrow> PendingMutation option" where
  "find_mutation i known =
     (case known of None \<Rightarrow> None | Some ms \<Rightarrow> List.find (\<lambda>m. pmMutationId m = i) ms)"

definition performMutationRun ::
  "MailApplicationController \<Rightarrow> AccountKey \<Rightarrow> MutationId \<Rightarrow> cont list \<Rightarrow> segment" where
  "performMutationRun c k i ks = refreshMutationStatuses c k (ThenRun k i # ks)"

definition run_known ::
  "ApplicationContext \<Rightarrow> MailApplicationController \<Rightarrow> AccountKey \<Rightarrow> MutationId \<Rightarrow>
   PendingMutation list option \<Rightarrow> cont list \<Rightarrow> segment" where
  "run_known cx c k i before ks =
     (if \<not> cxRunner cx \<or> coDisposed c then (c, [Returns RetUnit ks])
      else (c, [Waits (WaitRun k i (find_mutation i before)) ks]))"

definition run_answered ::
  "MailApplicationController \<Rightarrow> AccountKey \<Rightarrow> MutationId \<Rightarrow> PendingMutation option \<Rightarrow>
   exn + MutationExecutionOutcome \<Rightarrow> cont list \<Rightarrow> segment" where
  "run_answered c k i known result ks =
     (case result of
        Inl _ \<Rightarrow> refreshMutationStatuses c k (ThenReturn # ks)
      | Inr out \<Rightarrow>
          if coDisposed c then (c, [Returns RetUnit ks])
          else
            refreshMutationStatuses
              (if out = NeedsReconciliation then on_statuses (markNeedsReconciliation k i) c else c)
              k (ThenRan k i known (out = Confirmed) # ks))"

definition run_finished ::
  "MailApplicationController \<Rightarrow> AccountKey \<Rightarrow> MutationId \<Rightarrow> PendingMutation option \<Rightarrow> bool \<Rightarrow>
   PendingMutation list option \<Rightarrow> MailApplicationController" where
  "run_finished c k i known confirmed reread =
     (case (known, reread) of
        (Some m, Some ms) \<Rightarrow>
          if confirmed \<and> \<not> list_ex (\<lambda>v. pmMutationId v = i) ms
          then on_statuses (markConfirmed k i (statusKind m) (statusEmailId m)) c else c
      | _ \<Rightarrow> c)"

definition controller_runMutation ::
  "MailApplicationController \<Rightarrow> AccountKey \<Rightarrow> MutationId \<Rightarrow> segment" where
  "controller_runMutation c k i =
     (let key = mutation_identity k i; id = coNext c in
      if map_of (coRuns c) key \<noteq> None then (c, [])
      else
        case performMutationRun (c\<lparr>coNext := id + 1\<rparr>) k i [ForgetRun key id] of
          (c1, ts) \<Rightarrow> (c1\<lparr>coRuns := AList.update key id (coRuns c1)\<rparr>, ts))"

definition trackStagedMutation :: "MailApplicationController \<Rightarrow> PendingMutation \<Rightarrow> segment" where
  "trackStagedMutation c m =
     (case refreshMutationStatuses c (pmAccountKey m) [] of
        (c1, ts1) \<Rightarrow>
          (case controller_runMutation c1 (pmAccountKey m) (pmMutationId m) of
             (c2, ts2) \<Rightarrow> (c2, ts1 @ ts2)))"

definition toggleKeyword ::
  "ApplicationContext \<Rightarrow> MailApplicationController \<Rightarrow> Email \<Rightarrow> jsstring \<Rightarrow> cont list \<Rightarrow> segment" where
  "toggleKeyword cx c m keyword ks =
     (let n = coNext c; c1 = c\<lparr>coNext := n + 1\<rparr>;
          change = (if keyword \<in> set (emKeywords m)
                    then \<lparr>kcAdd = [], kcRemove = [keyword]\<rparr>
                    else \<lparr>kcAdd = [keyword], kcRemove = []\<rparr>) in
      case keywordMutation (cxMutationId cx n) (accountKey (emId m)) (cxNow cx n) (emId m) change of
        Inl x \<Rightarrow> (c1, [Returns (RetThrow x) ks])
      | Inr p \<Rightarrow> (c1, [Waits (WaitKeywordWrite p) ks]))"

definition mutation_written ::
  "MailApplicationController \<Rightarrow> jsstring \<Rightarrow> PendingMutation \<Rightarrow> WriteResult \<Rightarrow> cont list \<Rightarrow> segment" where
  "mutation_written c what p result ks =
     (case result of
        PortErr e \<Rightarrow>
          (c, [Returns (RetThrow (Error (what @ js '' write failed: '' @ write_error_string e))) ks])
      | PortOk _ \<Rightarrow>
          (case trackStagedMutation c p of (c1, ts) \<Rightarrow> (c1, ts @ [Returns RetUnit ks])))"

definition moveEmail ::
  "MailApplicationController \<Rightarrow> ScopedEmailId \<Rightarrow> jsstring \<Rightarrow> cont list \<Rightarrow> segment" where
  "moveEmail c e role ks =
     (case List.find (\<lambda>m. mbRole m = Some role) (vmMailboxes (coMail c)) of
        None \<Rightarrow>
          (c, [Returns (RetThrow (Error (js ''Mailbox role '' @ role @ js '' missing''))) ks])
      | Some target \<Rightarrow> (c, [Waits (WaitMemberships e target) ks]))"

definition memberships_read ::
  "ApplicationContext \<Rightarrow> MailApplicationController \<Rightarrow> ScopedEmailId \<Rightarrow> Mailbox \<Rightarrow>
   EmailMailbox list OwnedSnapshotRead ReadResult \<Rightarrow> cont list \<Rightarrow> segment" where
  "memberships_read cx c e target result ks =
     (case result of
        PortOk (SnapshotPresent ms) \<Rightarrow>
          (let remove = filter (\<lambda>i. \<not> sameScopedMailboxId i (mbId target)) (map mmMailboxId ms);
               n = coNext c; c1 = c\<lparr>coNext := n + 1\<rparr> in
           if remove = [] then (c, [Returns RetUnit ks])
           else
             (case mailboxMembershipMutation (cxMutationId cx n) (accountKey e) (cxNow cx n) e
                     \<lparr>mcAdd = [mbId target], mcRemove = remove\<rparr> of
                Inl x \<Rightarrow> (c1, [Returns (RetThrow x) ks])
              | Inr p \<Rightarrow> (c1, [Waits (WaitMembershipWrite p) ks])))
      | _ \<Rightarrow> (c, [Returns (RetThrow (Error (js ''Email memberships are unavailable''))) ks]))"

section \<open>The older path over the worker\<close>

text \<open>\<open>syncSelectedAccount\<close> and \<open>sendEmail\<close>: the selected account is read, then the worker is asked to
  synchronise it or to run the send just staged. An empty key is as good as none.\<close>

definition truthy_account :: "MailApplicationController \<Rightarrow> AccountKey option" where
  "truthy_account c =
     (case vmSelectedAccountKey (coMail c) of None \<Rightarrow> None | Some k \<Rightarrow> if k = [] then None else Some k)"

definition syncSelectedAccount :: "MailApplicationController \<Rightarrow> cont list \<Rightarrow> segment" where
  "syncSelectedAccount c ks =
     (case truthy_account c of
        None \<Rightarrow> (c, [Returns RetUnit ks])
      | Some k \<Rightarrow> (on_runtime (setLocal LocalOpening) c, [Waits (WaitSyncAccount k) ks]))"

definition sync_ended :: "MailApplicationController \<Rightarrow> LocalState \<Rightarrow> cont list \<Rightarrow> segment" where
  "sync_ended c st ks = (on_runtime (setLocal st) c, [Returns RetUnit ks])"

definition sync_account_read ::
  "ApplicationContext \<Rightarrow> MailApplicationController \<Rightarrow> AccountKey \<Rightarrow>
   exn + Account LocalEntityRead ReadResult \<Rightarrow> cont list \<Rightarrow> segment" where
  "sync_account_read cx c k result ks =
     (case result of
        Inr (PortOk (EntityPresent a)) \<Rightarrow>
          if cxWorker cx
          then (c, [Waits (WaitWorkerSync k (rrJmapAccountId (acRemoteRef a))) ks])
          else sync_ended c LocalError ks
      | _ \<Rightarrow> sync_ended c LocalError ks)"

definition sync_answered ::
  "MailApplicationController \<Rightarrow> exn + unit \<Rightarrow> cont list \<Rightarrow> segment" where
  "sync_answered c result ks =
     sync_ended c (case result of Inl _ \<Rightarrow> LocalError | Inr _ \<Rightarrow> LocalReady) ks"

definition throws_segment ::
  "MailApplicationController \<Rightarrow> exn \<Rightarrow> cont list \<Rightarrow> segment" where
  "throws_segment c x ks = (c, [Returns (RetThrow x) ks])"

definition controller_sendEmail ::
  "MailApplicationController \<Rightarrow> SendIntent \<Rightarrow> cont list \<Rightarrow> segment" where
  "controller_sendEmail c intent ks =
     (case truthy_account c of
        None \<Rightarrow> throws_segment c (Error (js ''No account selected'')) ks
      | Some k \<Rightarrow> (c, [Waits (WaitSendAccount k intent) ks]))"

definition send_account_read ::
  "ApplicationContext \<Rightarrow> MailApplicationController \<Rightarrow> AccountKey \<Rightarrow> SendIntent \<Rightarrow>
   Account LocalEntityRead ReadResult \<Rightarrow> cont list \<Rightarrow> segment" where
  "send_account_read cx c k intent result ks =
     (case result of
        PortOk (EntityPresent a) \<Rightarrow>
          if \<not> cxWorker cx
          then throws_segment c (Error (js ''The remote Worker is unavailable'')) ks
          else
            (let n = coNext c; c1 = c\<lparr>coNext := n + 1\<rparr> in
             case sendMutation (cxMutationId cx n) k (cxNow cx n) intent of
               Inl x \<Rightarrow> throws_segment c1 x ks
             | Inr p \<Rightarrow> (c1, [Waits (WaitStage p (rrJmapAccountId (acRemoteRef a))) ks]))
      | _ \<Rightarrow>
          throws_segment c (Error (js ''The selected Account is unavailable locally'')) ks)"

definition send_staged ::
  "MailApplicationController \<Rightarrow> PendingMutation \<Rightarrow> jsstring \<Rightarrow> WriteResult \<Rightarrow> cont list \<Rightarrow>
   segment" where
  "send_staged c p remote result ks =
     (case result of
        PortErr e \<Rightarrow>
          throws_segment c (Error (js ''stageSendMutation failed: '' @ write_error_string e)) ks
      | PortOk _ \<Rightarrow> (c, [Waits (WaitWorkerSend (pmAccountKey p) remote (pmMutationId p)) ks]))"

section \<open>Refreshing an account\<close>

definition isCurrentRefresh :: "MailApplicationController \<Rightarrow> nat \<Rightarrow> bool" where
  "isCurrentRefresh c g \<longleftrightarrow> \<not> coDisposed c \<and> coRefreshGeneration c = g"

definition finishRefresh ::
  "MailApplicationController \<Rightarrow> AccountKey \<Rightarrow> nat \<Rightarrow> RemoteRefreshErrorKind option \<Rightarrow> cont list \<Rightarrow>
   segment" where
  "finishRefresh c k g result ks =
     (if \<not> isCurrentRefresh c g then (c, [Returns (RetRefresh (Some RCancelled)) ks])
      else
        (on_mail
           (setRefreshActivity k
              (case result of
                 None \<Rightarrow> \<lparr>rvPhase = PhaseIdle, rvError = None\<rparr>
               | Some kind \<Rightarrow> \<lparr>rvPhase = PhaseError, rvError = Some (refresh_message kind)\<rparr>)) c,
         [Returns (RetRefresh result) ks]))"

definition refresh_kind :: "exn \<Rightarrow> RemoteRefreshErrorKind" where
  "refresh_kind x =
     (case x of
        RemoteApplicationError ANotConnected \<Rightarrow> RNotConnected
      | RemoteApplicationError AAuth \<Rightarrow> RAuth
      | RemoteApplicationError ANetwork \<Rightarrow> RNetwork
      | RemoteApplicationError ARemote \<Rightarrow> RRemote
      | RemoteApplicationError ALocal \<Rightarrow> RLocal
      | RemoteApplicationError ACancelled \<Rightarrow> RCancelled
      | _ \<Rightarrow> RUnexpected)"

definition performRefresh ::
  "ApplicationContext \<Rightarrow> MailApplicationController \<Rightarrow> AccountKey \<Rightarrow> nat \<Rightarrow> cont list \<Rightarrow> segment" where
  "performRefresh cx c k g ks =
     (if \<not> cxRemote cx then finishRefresh c k g (Some RUnexpected) ks
      else (c, [Waits (WaitRemoteRefresh k g) ks]))"

definition refresh_answered ::
  "MailApplicationController \<Rightarrow> AccountKey \<Rightarrow> nat \<Rightarrow> exn + unit \<Rightarrow> cont list \<Rightarrow> segment" where
  "refresh_answered c k g result ks =
     (case result of
        Inr _ \<Rightarrow> finishRefresh c k g None ks
      | Inl x \<Rightarrow>
          if \<not> isCurrentRefresh c g then (c, [Returns (RetRefresh (Some RCancelled)) ks])
          else finishRefresh c k g (Some (refresh_kind x)) ks)"

definition controller_refreshAccount ::
  "ApplicationContext \<Rightarrow> MailApplicationController \<Rightarrow> AccountKey \<Rightarrow> segment" where
  "controller_refreshAccount cx c k =
     (case coRefresh c of
        Some (active, _) \<Rightarrow>
          if active = k then (c, [])
          else
            (on_mail
               (setRefreshActivity k
                  \<lparr>rvPhase = PhaseError,
                   rvError = Some (refresh_message RConnectionInProgress)\<rparr>) c,
             [Returns (RetRefresh (Some RConnectionInProgress)) []])
      | None \<Rightarrow>
          let g = coRefreshGeneration c + 1; id = coNext c;
              c1 = on_mail (setRefreshActivity k \<lparr>rvPhase = PhaseRefreshing, rvError = None\<rparr>)
                     (c\<lparr>coRefreshGeneration := g, coNext := id + 1\<rparr>) in
          (case performRefresh cx c1 k g [ForgetRefresh id] of
             (c2, ts) \<Rightarrow> (c2\<lparr>coRefresh := Some (k, id)\<rparr>, ts)))"

section \<open>Connecting an account\<close>

definition serviceKeyForSetup :: "AccountSetupRequest \<Rightarrow> ServiceKey" where
  "serviceKeyForSetup request =
     (case request of
        GmailSetup _ _ \<Rightarrow> js ''gmail:imap-smtp:v1''
      | LocalImapSetup _ _ host imap smtp \<Rightarrow>
          (let lower = js_toLowerCase (js_trim host);
               name = rev (dropWhile (\<lambda>x. x = 46) (rev lower));
               port = (\<lambda>n. js_of_nat (nat (int_of_num n))) in
           js ''imap-smtp:'' @ name @ js '':'' @ port imap @ js '':'' @ port smtp))"

text \<open>\<open>encodeURIComponent\<close>: the bytes of the UTF-8 text, the unreserved ones as they are.\<close>

definition unreserved :: "nat \<Rightarrow> bool" where
  "unreserved v \<longleftrightarrow>
     65 \<le> v \<and> v \<le> 90 \<or> 97 \<le> v \<and> v \<le> 122 \<or> 48 \<le> v \<and> v \<le> 57 \<or>
     v \<in> {45, 95, 46, 33, 126, 42, 39, 40, 41}"

definition hex_upper :: "nat \<Rightarrow> 16 word" where
  "hex_upper v = (if v < 10 then of_nat (48 + v) else of_nat (55 + v))"

definition encodeURIComponent :: "jsstring \<Rightarrow> jsstring throws" where
  "encodeURIComponent s =
     throw_if (\<not> isWellFormed s) (OtherExn (js ''URI malformed''))
       (Inr (concat (map (\<lambda>b. let v = unat b in
          if unreserved v then [of_nat v] else [37, hex_upper (v div 16), hex_upper (v mod 16)])
          (TextEncoder_encode s))))"

definition gmailCredentialRefForAccount :: "AccountKey \<Rightarrow> jsstring throws" where
  "gmailCredentialRefForAccount k =
     bindE (encodeURIComponent k) (\<lambda>u. Inr (js ''gmail-oauth-v1/'' @ u))"

definition isCurrentConnection :: "MailApplicationController \<Rightarrow> nat \<Rightarrow> bool" where
  "isCurrentConnection c g \<longleftrightarrow> \<not> coDisposed c \<and> coConnectionGeneration c = g"

definition connection_failed ::
  "MailApplicationController \<Rightarrow> AccountConnectionErrorKind \<Rightarrow> cont list \<Rightarrow> segment" where
  "connection_failed c kind ks = (c, [Returns (RetConnection (Inl kind)) ks])"

definition forgetFirstRunCredential ::
  "jsstring option \<Rightarrow> MailApplicationController \<Rightarrow> MailApplicationController" where
  "forgetFirstRunCredential credential c =
     (case credential of None \<Rightarrow> c | Some ref \<Rightarrow> c\<lparr>coForgotten := coForgotten c @ [ref]\<rparr>)"

definition performAccountConnection ::
  "ApplicationContext \<Rightarrow> MailApplicationController \<Rightarrow> AccountSetupRequest \<Rightarrow> AccountKey option \<Rightarrow>
   cont list \<Rightarrow> segment" where
  "performAccountConnection cx c request reconnect ks =
     (if \<not> cxRemote cx then connection_failed c CUnexpected ks
      else
        let g = coConnectionGeneration c + 1 in
        (c\<lparr>coConnectionGeneration := g\<rparr>, [Waits (WaitKnownAccounts request reconnect g) ks]))"

text \<open>\<open>remoteApplication.connect\<close> with the configuration, once there is one.\<close>

definition connect_remote ::
  "MailApplicationController \<Rightarrow> AccountKey \<Rightarrow> ServiceKey \<Rightarrow> RemoteConnectionConfig \<Rightarrow> nat \<Rightarrow>
   jsstring option \<Rightarrow> cont list \<Rightarrow> segment" where
  "connect_remote c k service config g credential ks =
     (c, [Waits (WaitConnect \<lparr>cqAccountKey = k, cqServiceKey = service, cqConfig = config\<rparr>
            g credential) ks])"

definition existing_account ::
  "ApplicationContext \<Rightarrow> AccountKey option \<Rightarrow> AccountKey option \<Rightarrow> Account list \<Rightarrow>
   Account option" where
  "existing_account cx reconnect selected accounts =
     (case reconnect of
        Some k \<Rightarrow> List.find (\<lambda>a. acKey a = k) accounts
      | None \<Rightarrow>
          (case List.find (\<lambda>a. Some (acKey a) = selected) accounts of
             Some a \<Rightarrow> Some a
           | None \<Rightarrow>
               (case sort_by (compare_accounts (cxLocale cx)) accounts of
                  [] \<Rightarrow> None | a # _ \<Rightarrow> Some a)))"

definition choose_config ::
  "ApplicationContext \<Rightarrow> MailApplicationController \<Rightarrow> AccountSetupRequest \<Rightarrow> Account option \<Rightarrow>
   AccountKey \<Rightarrow> ServiceKey \<Rightarrow> nat \<Rightarrow> cont list \<Rightarrow> segment" where
  "choose_config cx c request existing k service g ks =
     (case request of
        LocalImapSetup username password host imap smtp \<Rightarrow>
          connect_remote c k service (ConfigImapSmtp host username password imap smtp) g None ks
      | GmailSetup username reauthorize \<Rightarrow>
          if existing \<noteq> None \<and> \<not> reauthorize
          then
            (case gmailCredentialRefForAccount k of
               Inl x \<Rightarrow> (c, [Returns (RetThrow x) ks])
             | Inr ref \<Rightarrow> connect_remote c k service (ConfigGmail username ref) g None ks)
          else if \<not> cxBroker cx then connection_failed c CUnexpected ks
          else (c, [Waits (WaitAuthorization request k service g) ks]))"

definition accounts_known ::
  "ApplicationContext \<Rightarrow> MailApplicationController \<Rightarrow> AccountSetupRequest \<Rightarrow> AccountKey option \<Rightarrow>
   nat \<Rightarrow> exn + Account list ReadResult \<Rightarrow> cont list \<Rightarrow> segment" where
  "accounts_known cx c request reconnect g result ks =
     (case result of
        Inl _ \<Rightarrow> connection_failed c CLocal ks
      | Inr read \<Rightarrow>
          if \<not> isCurrentConnection c g then connection_failed c CCancelled ks
          else
            (case read of
               PortErr _ \<Rightarrow> connection_failed c CLocal ks
             | PortOk accounts \<Rightarrow>
                 let selected = vmSelectedAccountKey (coMail c);
                     existing = existing_account cx reconnect selected accounts;
                     n = coNext c;
                     k = (case existing of Some a \<Rightarrow> acKey a | None \<Rightarrow> cxAccountKey cx n);
                     service =
                       (case existing of
                          Some a \<Rightarrow> rrServiceKey (acRemoteRef a)
                        | None \<Rightarrow> serviceKeyForSetup request);
                     c1 = c\<lparr>coNext := n + 1\<rparr> in
                 if reconnect \<noteq> None \<and> existing = None
                 then connection_failed c CAccountUnavailable ks
                 else if reconnect \<noteq> None \<and> serviceKeyForSetup request \<noteq> service
                 then connection_failed c CServiceMismatch ks
                 else
                   choose_config cx
                     (if reconnect = None \<or> selected = Some k
                      then observeRemoteStatus cx (Some k) c1 else c1)
                     request existing k service g ks))"

definition authorized ::
  "MailApplicationController \<Rightarrow> AccountSetupRequest \<Rightarrow> AccountKey \<Rightarrow> ServiceKey \<Rightarrow> nat \<Rightarrow>
   exn + jsstring \<Rightarrow> cont list \<Rightarrow> segment" where
  "authorized c request k service g result ks =
     (case result of
        Inl _ \<Rightarrow> connection_failed c CAuth ks
      | Inr ref \<Rightarrow>
          if \<not> isCurrentConnection c g
          then connection_failed (forgetFirstRunCredential (Some ref) c) CCancelled ks
          else
            (case request of
               GmailSetup username _ \<Rightarrow>
                 connect_remote c k service (ConfigGmail username ref) g (Some ref) ks
             | _ \<Rightarrow> connection_failed c CUnexpected ks))"

definition connection_kind :: "exn \<Rightarrow> AccountConnectionErrorKind" where
  "connection_kind x =
     (case x of
        RemoteApplicationError AAuth \<Rightarrow> CAuth
      | RemoteApplicationError ANetwork \<Rightarrow> CNetwork
      | RemoteApplicationError AAccountMismatch \<Rightarrow> CAccountMismatch
      | RemoteApplicationError AAccountSelectionRequired \<Rightarrow> CAccountSelectionRequired
      | RemoteApplicationError ALocal \<Rightarrow> CLocal
      | RemoteApplicationError ACancelled \<Rightarrow> CCancelled
      | _ \<Rightarrow> CUnexpected)"

definition connect_answered ::
  "ApplicationContext \<Rightarrow> MailApplicationController \<Rightarrow> RemoteConnectRequest \<Rightarrow> nat \<Rightarrow>
   jsstring option \<Rightarrow> exn + unit \<Rightarrow> cont list \<Rightarrow> segment" where
  "connect_answered cx c request g credential result ks =
     (let k = cqAccountKey request; forgotten = forgetFirstRunCredential credential c in
      case result of
        Inr _ \<Rightarrow>
          if \<not> isCurrentConnection c g then connection_failed forgotten CCancelled ks
          else refreshAccounts c (ThenConnected k g credential # ks)
      | Inl x \<Rightarrow>
          if \<not> isCurrentConnection c g then connection_failed forgotten CCancelled ks
          else connection_failed (projectRemoteStatus cx k forgotten) (connection_kind x) ks)"

definition connection_confirmed ::
  "MailApplicationController \<Rightarrow> AccountKey \<Rightarrow> nat \<Rightarrow> jsstring option \<Rightarrow> ret \<Rightarrow> cont list \<Rightarrow>
   segment" where
  "connection_confirmed c k g credential result ks =
     (let forgotten = forgetFirstRunCredential credential c in
      case result of
        RetThrow _ \<Rightarrow> connection_failed forgotten CLocal ks
      | _ \<Rightarrow>
          if \<not> isCurrentConnection c g then connection_failed forgotten CCancelled ks
          else if \<not> list_ex (\<lambda>a. acKey a = k) (vmAccounts (coMail c))
          then connection_failed forgotten CLocal ks
          else (c, [Returns (RetConnection (Inr k)) ks]))"

definition startAccountConnection ::
  "ApplicationContext \<Rightarrow> MailApplicationController \<Rightarrow> ConnectionAttemptTarget \<Rightarrow>
   AccountSetupRequest \<Rightarrow> segment" where
  "startAccountConnection cx c target request =
     (case coConnection c of
        Some (active, _) \<Rightarrow>
          if active = target then (c, []) else connection_failed c CConnectionInProgress []
      | None \<Rightarrow>
          let id = coNext c;
              reconnect = (case target of FirstRun \<Rightarrow> None | Reconnect k \<Rightarrow> Some k) in
          (case performAccountConnection cx (c\<lparr>coNext := id + 1\<rparr>) request reconnect
                  [ForgetConnection id] of
             (c1, ts) \<Rightarrow> (c1\<lparr>coConnection := Some (target, id)\<rparr>, ts)))"

section \<open>The class as a machine\<close>

datatype UiCall =
    UiInitialize
  | UiRetry
  | UiDispose
  | UiSelectAccount AccountKey
  | UiSelectMailbox ScopedMailboxId
  | UiSelectEmail ScopedEmailId
  | UiRefreshAccounts
  | UiMaterialize ScopedEmailId
  | UiToggleKeyword Email jsstring
  | UiMoveEmail ScopedEmailId jsstring
  | UiRunMutation AccountKey MutationId
  | UiRefresh AccountKey
  | UiConnect AccountSetupRequest
  | UiReconnect AccountKey AccountSetupRequest
  | UiSetPage number
  | UiSync
  | UiSend SendIntent
  | LocalChanges "LocalChangeHint list"
  | FlushMicrotask
  | StatusChanges AccountKey RemoteAccountStatus

definition ui_call ::
  "ApplicationContext \<Rightarrow> MailApplicationController \<Rightarrow> UiCall \<Rightarrow> segment" where
  "ui_call cx c call =
     (case call of
        UiInitialize \<Rightarrow> initialize c []
      | UiRetry \<Rightarrow> retry c []
      | UiDispose \<Rightarrow> (controller_dispose c, [])
      | UiSelectAccount k \<Rightarrow> controller_selectAccount cx c k []
      | UiSelectMailbox i \<Rightarrow> controller_selectMailbox c i []
      | UiSelectEmail e \<Rightarrow> controller_selectEmail c e []
      | UiRefreshAccounts \<Rightarrow> refreshAccounts c []
      | UiMaterialize e \<Rightarrow> materializeBody cx c e
      | UiToggleKeyword m keyword \<Rightarrow> toggleKeyword cx c m keyword []
      | UiMoveEmail e role \<Rightarrow> moveEmail c e role []
      | UiRunMutation k i \<Rightarrow> controller_runMutation c k i
      | UiRefresh k \<Rightarrow> controller_refreshAccount cx c k
      | UiConnect request \<Rightarrow> startAccountConnection cx c FirstRun request
      | UiReconnect k request \<Rightarrow> startAccountConnection cx c (Reconnect k) request
      | UiSetPage page \<Rightarrow> (on_mail (setVisiblePage page) c, [])
      | UiSync \<Rightarrow> syncSelectedAccount c []
      | UiSend intent \<Rightarrow> controller_sendEmail c intent []
      | LocalChanges hints \<Rightarrow> (scheduleInvalidation c hints, [])
      | FlushMicrotask \<Rightarrow> flushInvalidations c []
      | StatusChanges k st \<Rightarrow> (status_arrives k st c, []))"

text \<open>The calls that cannot happen now: a scheduled flush runs once, a status reaches the present
  listener, and the interface offers the mailboxes it shows. Changes may be announced at any time.\<close>

definition ui_enabled :: "MailApplicationController \<Rightarrow> UiCall \<Rightarrow> bool" where
  "ui_enabled c call \<longleftrightarrow>
     (case call of
        UiSelectMailbox i \<Rightarrow> i \<in> set (map mbId (vmMailboxes (coMail c)))
      | FlushMicrotask \<Rightarrow> coScheduled c
      | StatusChanges k _ \<Rightarrow> coObserving c \<and> coObserved c = Some k
      | _ \<Rightarrow> True)"

datatype answer =
    AnswerSubscription "exn + (unit, LocalReadError) PortResult"
  | AnswerAccounts "exn + Account list ReadResult"
  | AnswerMailboxes "exn + Mailbox list OwnedSnapshotRead ReadResult"
  | AnswerView "exn + MailboxView OwnedCacheRead ReadResult"
  | AnswerEmails "exn + Email LocalEntityRead list ReadResult"
  | AnswerBody "exn + EmailBody OwnedCacheRead ReadResult"
  | AnswerMutations "exn + PendingMutation list OwnedSnapshotRead ReadResult"
  | AnswerMemberships "exn + EmailMailbox list OwnedSnapshotRead ReadResult"
  | AnswerWrite "exn + WriteResult"
  | AnswerDone "exn + unit"
  | AnswerOutcome "exn + MutationExecutionOutcome"
  | AnswerCredential "exn + jsstring"
  | AnswerAccount "exn + Account LocalEntityRead ReadResult"

text \<open>A promise that is rejected outside every \<open>try\<close> rejects the function that awaits it.\<close>

definition awaited ::
  "MailApplicationController \<Rightarrow> exn + 'a \<Rightarrow> cont list \<Rightarrow> ('a \<Rightarrow> segment) \<Rightarrow> segment" where
  "awaited c result ks next_segment =
     (case result of Inl x \<Rightarrow> (c, [Returns (RetThrow x) ks]) | Inr a \<Rightarrow> next_segment a)"

definition answer_wait ::
  "ApplicationContext \<Rightarrow> MailApplicationController \<Rightarrow> wait \<Rightarrow> answer \<Rightarrow> cont list \<Rightarrow>
   segment option" where
  "answer_wait cx c w a ks =
     (case (w, a) of
        (WaitSubscription, AnswerSubscription r) \<Rightarrow> Some (awaited c r ks (\<lambda>v. subscribed c v ks))
      | (WaitAccounts g, AnswerAccounts r) \<Rightarrow>
          Some (awaited c r ks (\<lambda>v. accounts_read cx c g v ks))
      | (WaitMailboxes k g, AnswerMailboxes r) \<Rightarrow>
          Some (awaited c r ks (\<lambda>v. mailboxes_read cx c k g v ks))
      | (WaitView i g, AnswerView r) \<Rightarrow> Some (awaited c r ks (\<lambda>v. view_read c i g v ks))
      | (WaitEmails i g view, AnswerEmails r) \<Rightarrow>
          Some (awaited c r ks (\<lambda>v. emails_read c i g view v ks))
      | (WaitBody e g, AnswerBody r) \<Rightarrow>
          Some (awaited c r ks (\<lambda>v.
            case body_read c e g v of (c', reread) \<Rightarrow> (c', [Returns (RetReread reread) ks])))
      | (WaitMutations k g, AnswerMutations r) \<Rightarrow>
          Some (awaited c r ks (\<lambda>v.
            case mutations_read c k g v of (c', ms) \<Rightarrow> (c', [Returns (RetMutations ms) ks])))
      | (WaitMaterialization e, AnswerDone r) \<Rightarrow> Some (materialization_answered c e r ks)
      | (WaitRun k i known, AnswerOutcome r) \<Rightarrow> Some (run_answered c k i known r ks)
      | (WaitRemoteRefresh k g, AnswerDone r) \<Rightarrow> Some (refresh_answered c k g r ks)
      | (WaitKnownAccounts request reconnect g, AnswerAccounts r) \<Rightarrow>
          Some (accounts_known cx c request reconnect g r ks)
      | (WaitAuthorization request k service g, AnswerCredential r) \<Rightarrow>
          Some (authorized c request k service g r ks)
      | (WaitConnect request g credential, AnswerDone r) \<Rightarrow>
          Some (connect_answered cx c request g credential r ks)
      | (WaitKeywordWrite p, AnswerWrite r) \<Rightarrow>
          Some (awaited c r ks (\<lambda>v. mutation_written c (js ''keyword'') p v ks))
      | (WaitMemberships e target, AnswerMemberships r) \<Rightarrow>
          Some (awaited c r ks (\<lambda>v. memberships_read cx c e target v ks))
      | (WaitMembershipWrite p, AnswerWrite r) \<Rightarrow>
          Some (awaited c r ks (\<lambda>v. mutation_written c (js ''membership'') p v ks))
      | (WaitSyncAccount k, AnswerAccount r) \<Rightarrow> Some (sync_account_read cx c k r ks)
      | (WaitWorkerSync k remote, AnswerDone r) \<Rightarrow> Some (sync_answered c r ks)
      | (WaitSendAccount k intent, AnswerAccount r) \<Rightarrow>
          Some (awaited c r ks (\<lambda>v. send_account_read cx c k intent v ks))
      | (WaitStage p remote, AnswerWrite r) \<Rightarrow>
          Some (awaited c r ks (\<lambda>v. send_staged c p remote v ks))
      | (WaitWorkerSend k remote i, AnswerDone r) \<Rightarrow>
          Some (awaited c r ks (\<lambda>_. (c, [Returns RetUnit ks])))
      | _ \<Rightarrow> None)"

definition throws_ret :: "ret \<Rightarrow> bool" where
  "throws_ret r = (case r of RetThrow _ \<Rightarrow> True | _ \<Rightarrow> False)"

definition local_read_failed :: "MailApplicationController \<Rightarrow> MailApplicationController" where
  "local_read_failed c =
     on_mail (load_error (js ''No se pudo leer el almacenamiento local.''))
       (on_runtime (setLocal LocalError) c)"

definition ret_mutations :: "ret \<Rightarrow> PendingMutation list option" where
  "ret_mutations r = (case r of RetMutations ms \<Rightarrow> ms | _ \<Rightarrow> None)"

definition ret_reread :: "ret \<Rightarrow> SelectedBodyRereadState" where
  "ret_reread r = (case r of RetReread x \<Rightarrow> x | _ \<Rightarrow> RereadStale)"

text \<open>A rejection goes through every function that does not catch it.\<close>

definition resume_cont ::
  "ApplicationContext \<Rightarrow> MailApplicationController \<Rightarrow> ret \<Rightarrow> cont \<Rightarrow> cont list \<Rightarrow> segment" where
  "resume_cont cx c r k ks =
     (let rethrown = (c, [Returns r ks]) in
      case k of
        ThenMutations a \<Rightarrow>
          if throws_ret r then rethrown else refreshMutationStatuses c a (ThenReturn # ks)
      | ThenReturn \<Rightarrow> if throws_ret r then rethrown else (c, [Returns RetUnit ks])
      | ThenDemand e \<Rightarrow>
          if throws_ret r then rethrown
          else
            (case e of
               None \<Rightarrow> (c, [Returns RetUnit ks])
             | Some i \<Rightarrow>
                 (case demandSelectedBody cx c i of
                    (c1, ts) \<Rightarrow> (c1, ts @ [Returns RetUnit ks])))
      | ThenInitialized \<Rightarrow>
          if throws_ret r then (local_read_failed c, [Returns r ks])
          else (on_runtime (setLocal LocalReady) c, [Returns RetUnit ks])
      | ThenRetried \<Rightarrow>
          if throws_ret r then (on_runtime (setLocal LocalError) c, [Returns r ks])
          else (on_runtime (setLocal LocalReady) c, [Returns RetUnit ks])
      | ThenFlushMutations a \<Rightarrow>
          if throws_ret r then (on_runtime (setLocal LocalError) c, [Returns RetUnit ks])
          else flush_mutations c a ks
      | ThenFlushed \<Rightarrow>
          ((if throws_ret r then on_runtime (setLocal LocalError) c else c), [Returns RetUnit ks])
      | ThenReread e \<Rightarrow>
          (case r of
             RetThrow x \<Rightarrow> materialization_caught c e x ks
           | _ \<Rightarrow> materialization_reread c e (ret_reread r) ks)
      | ThenRun a i \<Rightarrow>
          if throws_ret r then rethrown else run_known cx c a i (ret_mutations r) ks
      | ThenRan a i known confirmed \<Rightarrow>
          if throws_ret r then rethrown
          else (run_finished c a i known confirmed (ret_mutations r), [Returns RetUnit ks])
      | ThenConnected a g credential \<Rightarrow> connection_confirmed c a g credential r ks
      | ForgetBody key i \<Rightarrow>
          ((if map_of (coBodies c) key = Some i
            then c\<lparr>coBodies := AList.delete key (coBodies c)\<rparr> else c), [Returns r ks])
      | ForgetRun key i \<Rightarrow>
          ((if map_of (coRuns c) key = Some i
            then c\<lparr>coRuns := AList.delete key (coRuns c)\<rparr> else c), [Returns r ks])
      | ForgetRefresh i \<Rightarrow>
          ((if map_option snd (coRefresh c) = Some i then c\<lparr>coRefresh := None\<rparr> else c),
           [Returns r ks])
      | ForgetConnection i \<Rightarrow>
          ((if map_option snd (coConnection c) = Some i then c\<lparr>coConnection := None\<rparr> else c),
           [Returns r ks]))"

definition return_to ::
  "ApplicationContext \<Rightarrow> MailApplicationController \<Rightarrow> ret \<Rightarrow> cont list \<Rightarrow> segment" where
  "return_to cx c r ks = (case ks of [] \<Rightarrow> (c, []) | k # ks' \<Rightarrow> resume_cont cx c r k ks')"

text \<open>\<open>honest\<close> says what the answers are assumed to be like.\<close>

inductive cstep ::
  "ApplicationContext \<Rightarrow> (wait \<Rightarrow> answer \<Rightarrow> bool) \<Rightarrow>
   MailApplicationController \<times> ctask list \<Rightarrow> MailApplicationController \<times> ctask list \<Rightarrow> bool"
  for cx honest where
  ui: "ui_enabled c call \<Longrightarrow> ui_call cx c call = (c', ts') \<Longrightarrow>
    cstep cx honest (c, ts) (c', ts @ ts')"
| answered: "answer_wait cx c w a ks = Some (c', ts') \<Longrightarrow> honest w a \<Longrightarrow>
    cstep cx honest (c, ts1 @ Waits w ks # ts2) (c', ts1 @ ts' @ ts2)"
| returned: "return_to cx c r ks = (c', ts') \<Longrightarrow>
    cstep cx honest (c, ts1 @ Returns r ks # ts2) (c', ts1 @ ts' @ ts2)"

definition controller_reachable ::
  "ApplicationContext \<Rightarrow> (wait \<Rightarrow> answer \<Rightarrow> bool) \<Rightarrow> MailApplicationController \<Rightarrow> ctask list \<Rightarrow>
   bool" where
  "controller_reachable cx honest c ts \<longleftrightarrow> (cstep cx honest)\<^sup>*\<^sup>* (newController, []) (c, ts)"

end
