(* ===== verification/App_Theorems.thy ===== *)
theory App_Theorems
  imports App_Actions
begin

text \<open>
  What the mail view shows, under any interleaving of user actions, announced changes, answers and
  returns: it belongs to what is selected, and what is marked as loading is being read.
\<close>

section \<open>The invariant of the mail store\<close>

definition consistent :: "MailState \<Rightarrow> bool" where
  "consistent s \<longleftrightarrow>
     (\<forall>m \<in> set (vmMailboxes s). vmSelectedAccountKey s = Some (accountKey (mbId m))) \<and>
     (\<forall>i. vmSelectedMailboxId s = Some i \<longrightarrow> vmSelectedAccountKey s = Some (accountKey i)) \<and>
     (\<forall>v. vmMailboxView s = Some v \<longrightarrow> vmSelectedMailboxId s = Some (vsMailboxId (mvSpec v))) \<and>
     (vmEmails s = [] \<or>
      (\<exists>v. vmMailboxView s = Some v \<and> map emId (vmEmails s) = map viEmailId (mvItems v))) \<and>
     (\<forall>b. vmEmailBody s = Some b \<longrightarrow> vmSelectedEmailId s = Some (boEmailId b)) \<and>
     (vmLoadState s = LoadLoading \<longrightarrow> vmSelectedMailboxId s \<noteq> None) \<and>
     (vmBodyLoadState s = BodyLoading \<longrightarrow> vmSelectedEmailId s \<noteq> None)"

definition consistent_app :: "MailApplicationController \<Rightarrow> bool" where
  "consistent_app c \<longleftrightarrow> consistent (coMail c)"

text \<open>What the local store answers: the mailboxes of the account asked for, the view asked for, the
  e-mails asked for in their order, the body asked for; and its reads do not throw.\<close>

definition read_matches :: "Email LocalEntityRead \<Rightarrow> MailboxViewItem \<Rightarrow> bool" where
  "read_matches r item =
     (case r of EntityAbsent \<Rightarrow> True | EntityPresent m \<Rightarrow> emId m = viEmailId item)"

definition honest_reads :: "wait \<Rightarrow> answer \<Rightarrow> bool" where
  "honest_reads w a \<longleftrightarrow>
     (case (w, a) of
        (WaitMailboxes k g, AnswerMailboxes (Inr (PortOk (SnapshotPresent ms)))) \<Rightarrow>
          \<forall>m \<in> set ms. accountKey (mbId m) = k
      | (WaitView i g, AnswerView r) \<Rightarrow>
          (case r of
             Inl _ \<Rightarrow> False
           | Inr (PortOk (CacheCached v)) \<Rightarrow> mvSpec v = window_spec i
           | _ \<Rightarrow> True)
      | (WaitEmails i g view, AnswerEmails r) \<Rightarrow>
          (case r of
             Inl _ \<Rightarrow> False
           | Inr (PortOk rs) \<Rightarrow>
               list_all2 read_matches rs (mvItems view)
           | _ \<Rightarrow> True)
      | (WaitBody e g, AnswerBody r) \<Rightarrow>
          (case r of
             Inl _ \<Rightarrow> False
           | Inr (PortOk (CacheCached b)) \<Rightarrow> boEmailId b = e
           | _ \<Rightarrow> True)
      | _ \<Rightarrow> True)"

lemma consistent_new: "consistent newMailState"
  by (simp add: consistent_def newMailState_def)

lemmas mail_actions = selectAccount_def selectMailbox_def selectEmail_def setAccounts_def
  setVisiblePage_def setMailboxes_def setMailboxView_def setEmails_def setEmailBody_def
  setBodyMaterializing_def setBodyError_def setRefreshActivity_def clearRefreshActivity_def
  setLoadState_def load_error_def Let_def

text \<open>The actions that leave the view alone.\<close>

lemma consistent_actions [simp]:
  "consistent (setAccounts as s) = consistent s"
  "consistent (setVisiblePage p s) = consistent s"
  "consistent (setBodyMaterializing b s) = consistent s"
  "consistent (setBodyError m s) = consistent s"
  "consistent (setRefreshActivity k a s) = consistent s"
  "consistent (clearRefreshActivity s) = consistent s"
  "consistent (selectAccount ak s)"
  "st \<noteq> LoadLoading \<Longrightarrow> consistent s \<Longrightarrow> consistent (setLoadState st m s)"
  "consistent s \<Longrightarrow> consistent (load_error message s)"
  "bst \<noteq> BodyLoading \<Longrightarrow> consistent s \<Longrightarrow> consistent (setEmailBody None bst s)"
  "consistent s \<Longrightarrow> vmSelectedMailboxId s \<noteq> None \<Longrightarrow> consistent (setLoadState LoadLoading m s)"
  "consistent s \<Longrightarrow> vmSelectedEmailId s \<noteq> None \<Longrightarrow> consistent (setEmailBody None BodyLoading s)"
  "consistent s \<Longrightarrow> consistent (selectEmail e s)"
  "consistent s \<Longrightarrow> consistent (selectMailbox None s)"
  by (auto simp: consistent_def mail_actions)

lemma app_views [simp]:
  "coMail (on_runtime f c) = coMail c"
  "coMail (on_statuses h c) = coMail c"
  "coMail (on_mail a c) = a (coMail c)"
  "coMail (set_remote_status x n c) = coMail c"
  by (simp_all add: on_runtime_def on_statuses_def on_mail_def set_remote_status_def)

lemma observed_mail [simp]:
  "coMail (status_arrives k st c) = coMail c"
  "coMail (observeRemoteStatus cx k2 c) = coMail c"
  "coMail (projectRemoteStatus cx k3 c) = coMail c"
  by (simp_all add: status_arrives_def observeRemoteStatus_def projectRemoteStatus_def Let_def
      split: option.splits)

section \<open>Every segment keeps it\<close>

lemma update_views [simp]:
  "coMail (c\<lparr>coBodyGeneration := g\<rparr>) = coMail c" "coMail (c\<lparr>coViewGeneration := g\<rparr>) = coMail c"
  "coMail (c\<lparr>coMailboxesGeneration := g\<rparr>) = coMail c"
  "coMail (c\<lparr>coAccountsGeneration := g\<rparr>) = coMail c"
  "coMail (c\<lparr>coStatusGenerations := sg\<rparr>) = coMail c" "coMail (c\<lparr>coNext := n\<rparr>) = coMail c"
  "coMail (c\<lparr>coBodies := bs\<rparr>) = coMail c" "coMail (c\<lparr>coRuns := bs\<rparr>) = coMail c"
  "coMail (c\<lparr>coRefresh := rf\<rparr>) = coMail c" "coMail (c\<lparr>coConnection := cn\<rparr>) = coMail c"
  by simp_all

lemma consistent_refreshSelectedBody:
  "consistent (coMail c) \<Longrightarrow> consistent (coMail (fst (refreshSelectedBody c ks)))"
  by (auto simp: refreshSelectedBody_def Let_def split: option.splits)

lemma consistent_body_read:
  assumes "consistent (coMail c)" "\<And>b. result = PortOk (CacheCached b) \<Longrightarrow> boEmailId b = e"
  shows "consistent (coMail (fst (body_read c e g result)))"
proof -
  have "consistent (setEmailBody (Some b) BodyCached s)"
    if "consistent s" "vmSelectedEmailId s = Some (boEmailId b)" for b s
    using that by (auto simp: consistent_def mail_actions)
  then show ?thesis
    using assms by (auto simp: body_read_def split: PortResult.splits OwnedCacheRead.splits)
qed

lemma consistent_window:
  "consistent (coMail c) \<Longrightarrow> consistent (coMail (fst (refreshMailboxWindow c ks)))"
  by (auto simp: refreshMailboxWindow_def Let_def split: option.splits)

lemma consistent_without_emails:
  "consistent s \<Longrightarrow> consistent (setEmails [] (setMailboxView None s))"
  by (auto simp: consistent_def mail_actions)

lemma consistent_view_read:
  "consistent (coMail c) \<Longrightarrow> consistent (coMail (fst (view_read c i g result ks)))"
  by (auto simp: view_read_def consistent_without_emails
      split: PortResult.splits OwnedCacheRead.splits)

lemma present_ids:
  assumes "list_all2 read_matches rs items"
    "\<not> list_ex (\<lambda>r. r = EntityAbsent) rs"
  shows "map emId (present_emails rs) = map viEmailId items"
  using assms by (induction rule: list_all2_induct)
    (auto simp: present_emails_def read_matches_def split: LocalEntityRead.splits)

lemma consistent_with_view:
  assumes "consistent s" "vmSelectedMailboxId s = Some (vsMailboxId (mvSpec view))"
    "emails = [] \<or> map emId emails = map viEmailId (mvItems view)"
  shows "consistent (setEmails emails (setMailboxView (Some view) s))"
  using assms by (auto simp: consistent_def mail_actions)

lemma window_spec_mailbox:
  "sameMailboxViewSpec (window_spec i) spec \<Longrightarrow> vsMailboxId spec = i"
  by (auto simp: sameMailboxViewSpec_def window_spec_def mailboxViewSpec_def)

lemma consistent_emails_read:
  assumes ok: "consistent (coMail c)"
    and rs: "\<And>rs. result = PortOk rs \<Longrightarrow> list_all2 read_matches rs (mvItems view)"
  shows "consistent (coMail (fst (emails_read c i g view result ks)))"
proof (cases "window_current c i g \<and> sameMailboxViewSpec (window_spec i) (mvSpec view)")
  case True
  have "vsMailboxId (mvSpec view) = i"
    by (rule window_spec_mailbox) (use True in blast)
  with True have selected: "vmSelectedMailboxId (coMail c) = Some (vsMailboxId (mvSpec view))"
    by (simp add: window_current_def)
  have none: "consistent (setEmails [] (setMailboxView (Some view) (coMail c)))"
    using consistent_with_view [OF ok selected] by simp
  have all: "consistent (setEmails (present_emails rs) (setMailboxView (Some view) (coMail c)))"
    if "result = PortOk rs" "\<not> list_ex (\<lambda>r. r = EntityAbsent) rs" for rs
    by (rule consistent_with_view [OF ok selected disjI2 [OF present_ids [OF rs [OF that(1)] that(2)]]])
  show ?thesis
    using True none all
    by (auto simp: emails_read_def Let_def intro!: consistent_refreshSelectedBody split: PortResult.splits)
qed (use ok in \<open>auto simp: emails_read_def\<close>)

lemma consistent_refreshMailboxes:
  "consistent (coMail c) \<Longrightarrow> consistent (coMail (fst (refreshMailboxes c ks)))"
  by (auto simp: refreshMailboxes_def Let_def split: option.splits)

lemma next_mailbox_listed:
  assumes "next_mailbox selected mailboxes = Some i"
  shows "i \<in> set (map mbId mailboxes)"
  using assms
  by (auto simp: next_mailbox_def Let_def list_ex_iff find_Some_iff split: option.splits if_splits list.splits)

lemma consistent_mailboxes_read:
  assumes ok: "consistent (coMail c)"
    and ms: "\<And>ms. result = PortOk (SnapshotPresent ms) \<Longrightarrow> \<forall>m \<in> set ms. accountKey (mbId m) = k"
  shows "consistent (coMail (fst (mailboxes_read cx c k g result ks)))"
proof (cases "g = coMailboxesGeneration c \<and> vmSelectedAccountKey (coMail c) = Some k")
  case True
  have listed: "consistent (setMailboxes boxes (coMail c))"
    if "\<forall>m \<in> set boxes. accountKey (mbId m) = k" for boxes
    using ok True that by (simp add: consistent_def mail_actions)
  have chosen: "consistent (selectMailbox (Some i) (setMailboxes boxes (coMail c)))"
    if "\<forall>m \<in> set boxes. accountKey (mbId m) = k" "i \<in> set (map mbId boxes)" for boxes i
    using ok True that by (auto simp: consistent_def mail_actions)
  show ?thesis
  proof (cases "\<exists>ms. result = PortOk (SnapshotPresent ms)")
    case True
    then obtain ms where r: "result = PortOk (SnapshotPresent ms)" by blast
    let ?boxes = "sort_by (compare_local_mailboxes (cxLocale cx)) ms"
    have boxes: "\<forall>m \<in> set ?boxes. accountKey (mbId m) = k"
      using assms(2) [OF r] by (simp add: set_sort_by)
    show ?thesis
      using \<open>g = _ \<and> _\<close> listed [OF boxes] chosen [OF boxes next_mailbox_listed]
      by (auto simp: mailboxes_read_def r Let_def intro!: consistent_window split: option.splits)
  next
    case False
    then show ?thesis
      using \<open>g = _ \<and> _\<close> listed [of "[]"] ok
      by (auto simp: mailboxes_read_def split: PortResult.splits OwnedSnapshotRead.splits)
  qed
qed (use ok in \<open>auto simp: mailboxes_read_def\<close>)

lemma consistent_mutations_read [simp]:
  "coMail (fst (mutations_read c k g result)) = coMail c"
  "coMail (fst (refreshMutationStatuses c k ks)) = coMail c"
  by (auto simp: mutations_read_def refreshMutationStatuses_def Let_def
      split: PortResult.splits OwnedSnapshotRead.splits)

lemma consistent_accounts_read:
  "consistent (coMail c) \<Longrightarrow> consistent (coMail (fst (accounts_read cx c g result ks)))"
  by (auto simp: accounts_read_def Let_def intro!: consistent_refreshMailboxes
      split: PortResult.splits option.splits)

lemma accounts_mail [simp]: "coMail (fst (refreshAccounts c ks)) = coMail c"
  by (simp add: refreshAccounts_def)

lemma consistent_finish:
  "consistent (coMail c) \<Longrightarrow> consistent (coMail (finishBodyMaterialization c e result))"
  by (auto simp: finishBodyMaterialization_def Let_def
      split: option.splits BodyMaterializationErrorKind.splits)

lemma consistent_finished:
  "consistent (coMail c) \<Longrightarrow> consistent (coMail (fst (body_finished c e result ks)))"
  by (simp add: body_finished_def consistent_finish)

lemma consistent_materialization:
  assumes "consistent (coMail c)"
  shows "consistent (coMail (fst (performBodyMaterialization cx c e ks)))"
    "consistent (coMail (fst (materialization_caught c e x ks)))"
    "consistent (coMail (fst (materialization_answered c e result ks)))"
    "consistent (coMail (fst (materialization_reread c e reread ks)))"
  using assms consistent_finished consistent_refreshSelectedBody
  by (auto simp: performBodyMaterialization_def materialization_caught_def
      materialization_answered_def materialization_reread_def split: sum.splits)

lemma consistent_materializeBody:
  assumes "consistent (coMail c)"
  shows "consistent (coMail (fst (materializeBody cx c e)))"
    "consistent (coMail (fst (demandSelectedBody cx c e)))"
proof -
  show "consistent (coMail (fst (materializeBody cx c e)))"
    using consistent_materialization(1) [of "c\<lparr>coNext := coNext c + 1\<rparr>" cx e
        "[ForgetBody (body_key e) (coNext c)]"] assms
    by (auto simp: materializeBody_def Let_def split: prod.splits)
  then show "consistent (coMail (fst (demandSelectedBody cx c e)))"
    using assms by (simp add: demandSelectedBody_def)
qed

text \<open>Mutations and attempts touch no part of the view.\<close>

lemma mutation_mail [simp]:
  "coMail (fst (performMutationRun c k i ks)) = coMail c"
  "coMail (fst (run_known cx c k i ms ks)) = coMail c"
  "coMail (fst (run_answered c k i known out ks)) = coMail c"
  "coMail (run_finished c k i known confirmed reread) = coMail c"
  "coMail (fst (controller_runMutation c k i)) = coMail c"
  "coMail (fst (trackStagedMutation c m)) = coMail c"
  "coMail (fst (toggleKeyword cx c em keyword ks)) = coMail c"
  "coMail (fst (mutation_written c what m result ks)) = coMail c"
  "coMail (fst (moveEmail c e role ks)) = coMail c"
  "coMail (fst (memberships_read cx c e target memberships ks)) = coMail c"
  by (auto simp: performMutationRun_def run_known_def run_answered_def run_finished_def
      controller_runMutation_def trackStagedMutation_def toggleKeyword_def mutation_written_def
      moveEmail_def memberships_read_def refreshMutationStatuses_def Let_def
      split: sum.splits option.splits PortResult.splits OwnedSnapshotRead.splits)

lemma worker_mail [simp]:
  "coMail (fst (syncSelectedAccount c ks)) = coMail c"
  "coMail (fst (sync_ended c st ks)) = coMail c"
  "coMail (fst (sync_account_read cx c k result ks)) = coMail c"
  "coMail (fst (sync_answered c out ks)) = coMail c"
  "coMail (fst (throws_segment c x ks)) = coMail c"
  "coMail (fst (controller_sendEmail c intent ks)) = coMail c"
  "coMail (fst (send_account_read cx c k intent read ks)) = coMail c"
  "coMail (fst (send_staged c p remote staged ks)) = coMail c"
  by (auto simp: syncSelectedAccount_def sync_ended_def sync_account_read_def sync_answered_def
      throws_segment_def controller_sendEmail_def send_account_read_def send_staged_def Let_def
      split: option.split sum.split PortResult.split LocalEntityRead.split)

lemma consistent_refresh:
  assumes "consistent (coMail c)"
  shows "consistent (coMail (fst (finishRefresh c k g result ks)))"
    "consistent (coMail (fst (performRefresh cx c k g ks)))"
    "consistent (coMail (fst (refresh_answered c k g out ks)))"
  using assms
  by (auto simp: finishRefresh_def performRefresh_def refresh_answered_def split: sum.splits)

lemma consistent_refreshAccount:
  assumes "consistent (coMail c)"
  shows "consistent (coMail (fst (controller_refreshAccount cx c k)))"
proof -
  have "consistent (coMail (fst (performRefresh cx
      (on_mail (setRefreshActivity k a) (c\<lparr>coRefreshGeneration := g, coNext := n\<rparr>)) k g ks)))" for a g n ks
    using assms by (intro consistent_refresh) simp
  then show ?thesis
    using assms
    by (auto simp: controller_refreshAccount_def Let_def case_prod_unfold split: option.splits)
qed

lemma connection_mail [simp]:
  "coMail (fst (connection_failed c kind ks)) = coMail c"
  "coMail (forgetFirstRunCredential credential c) = coMail c"
  "coMail (fst (connect_remote c k service config g credential ks)) = coMail c"
  "coMail (fst (choose_config cx c request existing k service g ks)) = coMail c"
  "coMail (fst (performAccountConnection cx c request reconnect ks)) = coMail c"
  "coMail (fst (accounts_known cx c request reconnect g known ks)) = coMail c"
  "coMail (fst (authorized c request k service g ref ks)) = coMail c"
  "coMail (fst (connect_answered cx c req g credential out ks)) = coMail c"
  "coMail (fst (connection_confirmed c k g credential r ks)) = coMail c"
proof -
  show failed [simp]: "coMail (fst (connection_failed c kind ks)) = coMail c" for c kind ks
    by (simp add: connection_failed_def)
  show forgotten [simp]: "coMail (forgetFirstRunCredential credential c) = coMail c" for credential c
    by (simp add: forgetFirstRunCredential_def split: option.splits)
  show remote [simp]: "coMail (fst (connect_remote c k service config g credential ks)) = coMail c"
    for c k service config g credential ks
    by (simp add: connect_remote_def)
  show config [simp]: "coMail (fst (choose_config cx c request existing k service g ks)) = coMail c"
    for c existing k service g
    by (auto simp: choose_config_def split: AccountSetupRequest.splits sum.splits)
  show "coMail (fst (performAccountConnection cx c request reconnect ks)) = coMail c"
    by (simp add: performAccountConnection_def Let_def)
  show "coMail (fst (accounts_known cx c request reconnect g known ks)) = coMail c"
    by (auto simp: accounts_known_def Let_def split: sum.splits PortResult.splits)
  show "coMail (fst (authorized c request k service g ref ks)) = coMail c"
    by (auto simp: authorized_def split: sum.splits AccountSetupRequest.splits)
  show "coMail (fst (connect_answered cx c req g credential out ks)) = coMail c"
    by (auto simp: connect_answered_def Let_def split: sum.splits)
  show "coMail (fst (connection_confirmed c k g credential r ks)) = coMail c"
    by (auto simp: connection_confirmed_def Let_def split: ret.splits)
qed

lemma connection_started_mail [simp]:
  "coMail (fst (startAccountConnection cx c target request)) = coMail c"
  by (auto simp: startAccountConnection_def Let_def case_prod_unfold split: option.splits)

section \<open>The step\<close>

lemma consistent_ui:
  assumes ok: "consistent (coMail c)" and enabled: "ui_enabled c call"
  shows "consistent (coMail (fst (ui_call cx c call)))"
proof (cases call)
  case (UiSelectMailbox i)
  have "consistent (selectMailbox (Some i) (coMail c))"
    using ok enabled by (auto simp: UiSelectMailbox ui_enabled_def consistent_def mail_actions)
  then show ?thesis
    using ok by (auto simp: UiSelectMailbox ui_call_def controller_selectMailbox_def
        intro!: consistent_window)
next
  case (UiSelectEmail e)
  then show ?thesis
    using ok by (auto simp: ui_call_def controller_selectEmail_def
        intro!: consistent_refreshSelectedBody)
next
  case (UiSelectAccount k)
  then show ?thesis
    using ok by (auto simp: ui_call_def controller_selectAccount_def
        intro!: consistent_refreshMailboxes)
next
  case FlushMicrotask
  then show ?thesis
    using ok by (auto simp: ui_call_def flushInvalidations_def flush_body_def flush_mutations_def
        Let_def intro!: consistent_refreshMailboxes consistent_window
        consistent_refreshSelectedBody split: option.splits)
next
  case UiDispose
  then show ?thesis
    using ok by (simp add: ui_call_def controller_dispose_def)
next
  case (LocalChanges hints)
  then show ?thesis
    using ok by (simp add: ui_call_def scheduleInvalidation_def)
qed (use ok in \<open>simp_all add: ui_call_def initialize_def retry_def consistent_materializeBody
  consistent_refreshAccount\<close>)

lemma consistent_awaited:
  assumes "consistent (coMail c)" "\<And>v. result = Inr v \<Longrightarrow> consistent (coMail (fst (f v)))"
  shows "consistent (coMail (fst (awaited c result ks f)))"
  using assms by (auto simp: awaited_def split: sum.splits)

lemma consistent_answer:
  assumes ok: "consistent (coMail c)" and run: "answer_wait cx c w a ks = Some r"
    and honest: "honest_reads w a"
  shows "consistent (coMail (fst r))"
proof (cases w)
  case (WaitSubscription)
  have "consistent (coMail (fst (subscribed c v ks)))" for v :: "(unit, LocalReadError) PortResult"
    using ok by (auto simp: subscribed_def split: PortResult.splits)
  then show ?thesis
    using ok run WaitSubscription by (auto simp: answer_wait_def intro!: consistent_awaited split: answer.splits)
next
  case (WaitMailboxes k g)
  then show ?thesis
    using ok run honest
    by (auto simp: answer_wait_def honest_reads_def
        intro!: consistent_awaited consistent_mailboxes_read split: answer.splits)
next
  case (WaitEmails i g view)
  then show ?thesis
    using ok run honest
    by (auto simp: answer_wait_def honest_reads_def
        intro!: consistent_awaited consistent_emails_read split: answer.splits)
next
  case (WaitBody e g)
  then show ?thesis
    using ok run honest
    by (auto simp: answer_wait_def honest_reads_def case_prod_unfold
        intro!: consistent_awaited consistent_body_read split: answer.splits)
qed (use ok run in \<open>auto simp: answer_wait_def case_prod_unfold consistent_materialization
  consistent_refresh intro!: consistent_awaited consistent_accounts_read consistent_view_read
  split: answer.splits\<close>)

lemma consistent_return:
  assumes "consistent (coMail c)"
  shows "consistent (coMail (fst (return_to cx c r ks)))"
proof (cases ks)
  case (Cons k ks')
  then show ?thesis
    using assms by (cases k) (auto simp: return_to_def resume_cont_def Let_def local_read_failed_def
        flush_mutations_def case_prod_unfold consistent_materialization consistent_materializeBody
        split: option.splits ret.splits)
qed (use assms in \<open>simp add: return_to_def\<close>)

lemma cstep_consistent:
  assumes "cstep cx honest_reads s s'" "consistent (coMail (fst s))"
  shows "consistent (coMail (fst s'))"
  using assms
proof cases
  case (ui c call c' ts' ts)
  then show ?thesis using assms(2) consistent_ui [of c call cx] by simp
next
  case (answered c w a ks c' ts' ts1 ts2)
  then show ?thesis using assms(2) consistent_answer [of c cx w a ks] by fastforce
next
  case (returned c r ks c' ts' ts1 ts2)
  then show ?thesis using assms(2) consistent_return [of c cx r ks] by simp
qed

lemma reachable_consistent:
  assumes "controller_reachable cx honest_reads c ts"
  shows "consistent (coMail c)"
proof -
  have "(cstep cx honest_reads)\<^sup>*\<^sup>* s s' \<Longrightarrow> consistent (coMail (fst s)) \<Longrightarrow> consistent (coMail (fst s'))"
    for s s'
    by (induction rule: rtranclp_induct) (auto intro: cstep_consistent)
  from this [OF assms [unfolded controller_reachable_def]] show ?thesis
    by (simp add: newController_def consistent_new)
qed

end
