(* ===== verification/App_Loading.thy ===== *)
theory App_Loading
  imports App_Theorems
begin

text \<open>
  No state of the mail view stays \<open>loading\<close> on its own: while the window or the selected body is
  marked as loading, the task that reads it with the present generation is under way.
\<close>

section \<open>What is loading is being read\<close>

text \<open>The read that will end the loading of the window, and the one of the body.\<close>

definition view_reader :: "MailApplicationController \<Rightarrow> ctask \<Rightarrow> bool" where
  "view_reader c t \<longleftrightarrow>
     (\<exists>i ks. vmSelectedMailboxId (coMail c) = Some i \<and>
        (t = Waits (WaitView i (coViewGeneration c)) ks \<or>
         (\<exists>view. mvSpec view = window_spec i \<and>
            t = Waits (WaitEmails i (coViewGeneration c) view) ks)))"

definition body_reader :: "MailApplicationController \<Rightarrow> ctask \<Rightarrow> bool" where
  "body_reader c t \<longleftrightarrow>
     (\<exists>e ks. vmSelectedEmailId (coMail c) = Some e \<and>
        t = Waits (WaitBody e (coBodyGeneration c)) ks)"

definition win :: "MailApplicationController \<Rightarrow> MailLoadState \<times> ScopedMailboxId option \<times> nat" where
  "win c = (vmLoadState (coMail c), vmSelectedMailboxId (coMail c), coViewGeneration c)"

definition bod :: "MailApplicationController \<Rightarrow> BodyLoadState \<times> ScopedEmailId option \<times> nat" where
  "bod c = (vmBodyLoadState (coMail c), vmSelectedEmailId (coMail c), coBodyGeneration c)"

text \<open>A segment that resumes \<open>t\<close>: what is loading afterwards is read by one of its tasks, or was
  loading before and is not read by \<open>t\<close>.\<close>

definition view_seg :: "MailApplicationController \<Rightarrow> bool \<Rightarrow> segment \<Rightarrow> bool" where
  "view_seg c other r \<longleftrightarrow>
     (fst (win (fst r)) = LoadLoading \<longrightarrow>
        (\<exists>t \<in> set (snd r). view_reader (fst r) t) \<or> (other \<and> win (fst r) = win c))"

definition body_seg :: "MailApplicationController \<Rightarrow> bool \<Rightarrow> segment \<Rightarrow> bool" where
  "body_seg c other r \<longleftrightarrow>
     (fst (bod (fst r)) = BodyLoading \<longrightarrow>
        (\<exists>t \<in> set (snd r). body_reader (fst r) t) \<or> (other \<and> bod (fst r) = bod c))"

lemma quiet_view: "win (fst r) = win c \<Longrightarrow> view_seg c True r"
  by (simp add: view_seg_def)

lemma quiet_body: "bod (fst r) = bod c \<Longrightarrow> body_seg c True r"
  by (simp add: body_seg_def)

lemma win_primitives [simp]:
  "win (on_runtime f c) = win c" "win (on_statuses h c) = win c"
  "win (set_remote_status x n c) = win c"
  "win (status_arrives k st c) = win c" "win (observeRemoteStatus cx ko c) = win c"
  "win (projectRemoteStatus cx kp c) = win c"
  "win (on_mail (setAccounts as) c) = win c" "win (on_mail (setMailboxes ms) c) = win c"
  "win (on_mail (setBodyMaterializing b) c) = win c"
  "win (on_mail (setRefreshActivity kr a) c) = win c"
  "win (on_mail (setEmailBody body bst) c) = win c"
  "win (on_mail (selectEmail e) c) = win c"
  "win (finishBodyMaterialization c e2 res) = win c"
  by (auto simp: win_def on_runtime_def on_statuses_def on_mail_def set_remote_status_def
      status_arrives_def observeRemoteStatus_def projectRemoteStatus_def mail_actions
      finishBodyMaterialization_def
      split: option.splits BodyMaterializationErrorKind.splits)

lemma bod_primitives [simp]:
  "bod (on_runtime f c) = bod c" "bod (on_statuses h c) = bod c"
  "bod (set_remote_status x n c) = bod c"
  "bod (status_arrives k st c) = bod c" "bod (observeRemoteStatus cx ko c) = bod c"
  "bod (projectRemoteStatus cx kp c) = bod c"
  "bod (on_mail (setAccounts as) c) = bod c" "bod (on_mail (setMailboxes ms) c) = bod c"
  "bod (on_mail (setBodyMaterializing b) c) = bod c"
  "bod (on_mail (setRefreshActivity kr a) c) = bod c"
  "bod (on_mail (setLoadState lst m) c) = bod c"
  "bod (on_mail (load_error m2) c) = bod c"
  by (auto simp: bod_def on_runtime_def on_statuses_def on_mail_def set_remote_status_def
      status_arrives_def observeRemoteStatus_def projectRemoteStatus_def mail_actions
      split: option.splits)

lemma win_updates [simp]:
  "win (c\<lparr>coBodyGeneration := g\<rparr>) = win c" "win (c\<lparr>coMailboxesGeneration := g\<rparr>) = win c"
  "win (c\<lparr>coAccountsGeneration := g\<rparr>) = win c" "win (c\<lparr>coStatusGenerations := sg\<rparr>) = win c"
  "win (c\<lparr>coNext := n\<rparr>) = win c" "win (c\<lparr>coBodies := bs\<rparr>) = win c"
  "win (c\<lparr>coRuns := bs\<rparr>) = win c" "win (c\<lparr>coRefresh := rf\<rparr>) = win c"
  "win (c\<lparr>coConnection := cn\<rparr>) = win c" "win (c\<lparr>coForgotten := fg\<rparr>) = win c"
  "win (c\<lparr>coConnectionGeneration := g\<rparr>) = win c" "win (c\<lparr>coSubscribed := sb\<rparr>) = win c"
  "win (c\<lparr>coHints := hs, coScheduled := sb\<rparr>) = win c"
  "win (c\<lparr>coScheduled := sb, coHints := hs\<rparr>) = win c"
  "win (c\<lparr>coRefreshGeneration := g\<rparr>) = win c"
  by (simp_all add: win_def)

lemma bod_updates [simp]:
  "bod (c\<lparr>coViewGeneration := g\<rparr>) = bod c" "bod (c\<lparr>coMailboxesGeneration := g\<rparr>) = bod c"
  "bod (c\<lparr>coAccountsGeneration := g\<rparr>) = bod c" "bod (c\<lparr>coStatusGenerations := sg\<rparr>) = bod c"
  "bod (c\<lparr>coNext := n\<rparr>) = bod c" "bod (c\<lparr>coBodies := bs\<rparr>) = bod c"
  "bod (c\<lparr>coRuns := bs\<rparr>) = bod c" "bod (c\<lparr>coRefresh := rf\<rparr>) = bod c"
  "bod (c\<lparr>coConnection := cn\<rparr>) = bod c" "bod (c\<lparr>coForgotten := fg\<rparr>) = bod c"
  "bod (c\<lparr>coConnectionGeneration := g\<rparr>) = bod c" "bod (c\<lparr>coSubscribed := sb\<rparr>) = bod c"
  "bod (c\<lparr>coHints := hs, coScheduled := sb\<rparr>) = bod c"
  "bod (c\<lparr>coScheduled := sb, coHints := hs\<rparr>) = bod c"
  "bod (c\<lparr>coRefreshGeneration := g\<rparr>) = bod c"
  by (simp_all add: bod_def)

text \<open>The segments that read one thing leave the loading of the other alone.\<close>

lemma win_quiet [simp]:
  "win (fst (refreshSelectedBody c ks)) = win c"
  "win (fst (body_read c e g body)) = win c"
  "win (fst (refreshMailboxes c ks)) = win c"
  "win (fst (refreshAccounts c ks)) = win c"
  "win (fst (refreshMutationStatuses c k ks)) = win c"
  "win (fst (mutations_read c k g ms)) = win c"
  by (auto simp: refreshSelectedBody_def body_read_def refreshMailboxes_def refreshAccounts_def
      refreshMutationStatuses_def mutations_read_def Let_def
      split: option.splits PortResult.splits OwnedCacheRead.splits OwnedSnapshotRead.splits)

lemma bod_quiet [simp]:
  "bod (fst (refreshMailboxWindow c ks)) = bod c"
  "bod (fst (refreshMailboxes c ks)) = bod c"
  "bod (fst (refreshAccounts c ks)) = bod c"
  "bod (fst (refreshMutationStatuses c k ks)) = bod c"
  "bod (fst (mutations_read c k g ms)) = bod c"
  by (auto simp: refreshMailboxWindow_def refreshMailboxes_def refreshAccounts_def
      refreshMutationStatuses_def mutations_read_def Let_def
      split: option.splits PortResult.splits OwnedSnapshotRead.splits)

text \<open>Mutations, refreshes and connections leave both alone: \<open>gens\<close> is all they could change.\<close>

definition gens :: "MailApplicationController \<Rightarrow> nat \<times> nat" where
  "gens c = (coViewGeneration c, coBodyGeneration c)"

lemma gens_primitives [simp]:
  "gens (on_mail a c) = gens c" "gens (on_runtime f c) = gens c"
  "gens (on_statuses h c) = gens c" "gens (set_remote_status x n c) = gens c"
  "gens (status_arrives k st c) = gens c" "gens (observeRemoteStatus cx ko c) = gens c"
  "gens (projectRemoteStatus cx kp c) = gens c"
  by (auto simp: gens_def on_runtime_def on_statuses_def on_mail_def set_remote_status_def
      status_arrives_def observeRemoteStatus_def projectRemoteStatus_def Let_def
      split: option.splits)

lemma gens_updates [simp]:
  "gens (c\<lparr>coNext := n\<rparr>) = gens c" "gens (c\<lparr>coRuns := bs\<rparr>) = gens c"
  "gens (c\<lparr>coStatusGenerations := sg\<rparr>) = gens c" "gens (c\<lparr>coBodies := bs\<rparr>) = gens c"
  "gens (c\<lparr>coRefresh := rf\<rparr>) = gens c" "gens (c\<lparr>coConnection := cn\<rparr>) = gens c"
  "gens (c\<lparr>coForgotten := fg\<rparr>) = gens c" "gens (c\<lparr>coConnectionGeneration := g\<rparr>) = gens c"
  "gens (c\<lparr>coRefreshGeneration := g\<rparr>) = gens c"
  "gens (c\<lparr>coAccountsGeneration := g\<rparr>) = gens c"
  by (simp_all add: gens_def)

lemma win_from: "coMail c' = coMail c \<Longrightarrow> gens c' = gens c \<Longrightarrow> win c' = win c"
  by (simp add: win_def gens_def)

lemma bod_from: "coMail c' = coMail c \<Longrightarrow> gens c' = gens c \<Longrightarrow> bod c' = bod c"
  by (simp add: bod_def gens_def)

lemma mutation_gens [simp]:
  "gens (fst (refreshMutationStatuses c k ks)) = gens c"
  "gens (fst (performMutationRun c k i ks)) = gens c"
  "gens (fst (run_known cx c k i ms ks)) = gens c"
  "gens (fst (run_answered c k i known out ks)) = gens c"
  "gens (run_finished c k i known confirmed reread) = gens c"
  "gens (fst (controller_runMutation c k i)) = gens c"
  "gens (fst (trackStagedMutation c m)) = gens c"
  "gens (fst (toggleKeyword cx c em keyword ks)) = gens c"
  "gens (fst (mutation_written c what m result ks)) = gens c"
  "gens (fst (moveEmail c e role ks)) = gens c"
  "gens (fst (memberships_read cx c e target memberships ks)) = gens c"
  by (auto simp: performMutationRun_def run_known_def run_answered_def run_finished_def
      controller_runMutation_def trackStagedMutation_def toggleKeyword_def mutation_written_def
      moveEmail_def memberships_read_def refreshMutationStatuses_def Let_def
      split: sum.splits option.splits PortResult.splits OwnedSnapshotRead.splits)

lemma worker_gens [simp]:
  "gens (fst (syncSelectedAccount c ks)) = gens c"
  "gens (fst (sync_account_read cx c k result ks)) = gens c"
  "gens (fst (sync_answered c out ks)) = gens c"
  "gens (fst (controller_sendEmail c intent ks)) = gens c"
  "gens (fst (send_account_read cx c k intent read ks)) = gens c"
  "gens (fst (send_staged c p remote staged ks)) = gens c"
  by (auto simp: syncSelectedAccount_def sync_ended_def sync_account_read_def sync_answered_def
      throws_segment_def controller_sendEmail_def send_account_read_def send_staged_def Let_def
      split: option.split sum.split PortResult.split LocalEntityRead.split)

lemma connection_gens [simp]:
  "gens (fst (connection_failed c kind ks)) = gens c"
  "gens (forgetFirstRunCredential credential c) = gens c"
  "gens (fst (performAccountConnection cx c request reconnect ks)) = gens c"
  "gens (fst (accounts_known cx c request reconnect g ks0 ks)) = gens c"
  "gens (fst (authorized c request k service g ref ks)) = gens c"
  "gens (fst (connect_answered cx c req g credential out ks)) = gens c"
  "gens (fst (connection_confirmed c k g credential r ks)) = gens c"
  "gens (fst (startAccountConnection cx c goal request)) = gens c"
proof -
  show failed [simp]: "gens (fst (connection_failed c kind ks)) = gens c" for c kind ks
    by (simp add: connection_failed_def)
  show forgotten [simp]: "gens (forgetFirstRunCredential credential c) = gens c" for credential c
    by (simp add: forgetFirstRunCredential_def split: option.splits)
  have config [simp]: "gens (fst (choose_config cx c request existing k service g ks)) = gens c"
    for c k existing service g
    by (auto simp: choose_config_def connect_remote_def split: AccountSetupRequest.splits sum.splits)
  show started [simp]: "gens (fst (performAccountConnection cx c request reconnect ks)) = gens c"
    for c request reconnect ks
    by (simp add: performAccountConnection_def Let_def)
  show "gens (fst (accounts_known cx c request reconnect g ks0 ks)) = gens c"
    by (auto simp: accounts_known_def Let_def split: sum.splits PortResult.splits)
  show "gens (fst (authorized c request k service g ref ks)) = gens c"
    by (auto simp: authorized_def connect_remote_def split: sum.splits AccountSetupRequest.splits)
  show "gens (fst (connect_answered cx c req g credential out ks)) = gens c"
    by (auto simp: connect_answered_def refreshAccounts_def Let_def split: sum.splits)
  show "gens (fst (connection_confirmed c k g credential r ks)) = gens c"
    by (auto simp: connection_confirmed_def Let_def split: ret.splits)
  show "gens (fst (startAccountConnection cx c goal request)) = gens c"
    by (auto simp: startAccountConnection_def Let_def case_prod_unfold split: option.splits)
qed

lemma win_actions [simp]:
  "win (fst (performMutationRun c k i ks)) = win c"
  "win (fst (run_known cx c k i ms ks)) = win c"
  "win (fst (run_answered c k i known out ks)) = win c"
  "win (run_finished c k i known confirmed reread) = win c"
  "win (fst (controller_runMutation c k i)) = win c"
  "win (fst (toggleKeyword cx c em keyword ks)) = win c"
  "win (fst (mutation_written c what m result ks)) = win c"
  "win (fst (moveEmail c e role ks)) = win c"
  "win (fst (memberships_read cx c e target memberships ks)) = win c"
  "win (fst (accounts_known cx c request reconnect g ks0 ks)) = win c"
  "win (fst (authorized c request k service g ref ks)) = win c"
  "win (fst (connect_answered cx c req g credential res ks)) = win c"
  "win (fst (connection_confirmed c k g credential r ks)) = win c"
  "win (fst (startAccountConnection cx c goal request)) = win c"
  "win (fst (syncSelectedAccount c ks)) = win c"
  "win (fst (sync_account_read cx c k acread ks)) = win c"
  "win (fst (sync_answered c synced ks)) = win c"
  "win (fst (controller_sendEmail c intent ks)) = win c"
  "win (fst (send_account_read cx c k intent entity ks)) = win c"
  "win (fst (send_staged c m remote staged ks)) = win c"
  by (rule win_from; simp)+

lemma bod_actions [simp]:
  "bod (fst (performMutationRun c k i ks)) = bod c"
  "bod (fst (run_known cx c k i ms ks)) = bod c"
  "bod (fst (run_answered c k i known out ks)) = bod c"
  "bod (run_finished c k i known confirmed reread) = bod c"
  "bod (fst (controller_runMutation c k i)) = bod c"
  "bod (fst (toggleKeyword cx c em keyword ks)) = bod c"
  "bod (fst (mutation_written c what m result ks)) = bod c"
  "bod (fst (moveEmail c e role ks)) = bod c"
  "bod (fst (memberships_read cx c e target memberships ks)) = bod c"
  "bod (fst (accounts_known cx c request reconnect g ks0 ks)) = bod c"
  "bod (fst (authorized c request k service g ref ks)) = bod c"
  "bod (fst (connect_answered cx c req g credential res ks)) = bod c"
  "bod (fst (connection_confirmed c k g credential r ks)) = bod c"
  "bod (fst (startAccountConnection cx c goal request)) = bod c"
  "bod (fst (syncSelectedAccount c ks)) = bod c"
  "bod (fst (sync_account_read cx c k acread ks)) = bod c"
  "bod (fst (sync_answered c synced ks)) = bod c"
  "bod (fst (controller_sendEmail c intent ks)) = bod c"
  "bod (fst (send_account_read cx c k intent entity ks)) = bod c"
  "bod (fst (send_staged c m remote staged ks)) = bod c"
  by (rule bod_from; simp)+

lemma win_refresh [simp]:
  "win (fst (finishRefresh c k g result ks)) = win c"
  "win (fst (performRefresh cx c k g ks)) = win c"
  "win (fst (refresh_answered c k g out ks)) = win c"
  "win (fst (controller_refreshAccount cx c k)) = win c"
proof -
  show [simp]: "win (fst (finishRefresh c k g result ks)) = win c" for c k g result ks
    by (auto simp: finishRefresh_def)
  show [simp]: "win (fst (performRefresh cx c k g ks)) = win c" for c k g ks
    by (auto simp: performRefresh_def)
  show "win (fst (refresh_answered c k g out ks)) = win c"
    by (auto simp: refresh_answered_def split: sum.splits)
  show "win (fst (controller_refreshAccount cx c k)) = win c"
    by (auto simp: controller_refreshAccount_def Let_def case_prod_unfold split: option.splits)
qed

lemma bod_refresh [simp]:
  "bod (fst (finishRefresh c k g result ks)) = bod c"
  "bod (fst (performRefresh cx c k g ks)) = bod c"
  "bod (fst (refresh_answered c k g out ks)) = bod c"
  "bod (fst (controller_refreshAccount cx c k)) = bod c"
proof -
  show [simp]: "bod (fst (finishRefresh c k g result ks)) = bod c" for c k g result ks
    by (auto simp: finishRefresh_def)
  show [simp]: "bod (fst (performRefresh cx c k g ks)) = bod c" for c k g ks
    by (auto simp: performRefresh_def)
  show "bod (fst (refresh_answered c k g out ks)) = bod c"
    by (auto simp: refresh_answered_def split: sum.splits)
  show "bod (fst (controller_refreshAccount cx c k)) = bod c"
    by (auto simp: controller_refreshAccount_def Let_def case_prod_unfold split: option.splits)
qed

section \<open>The segments that read the window\<close>

lemma view_done: "fst (win (fst r)) \<noteq> LoadLoading \<Longrightarrow> view_seg c other r"
  by (simp add: view_seg_def)

lemma view_seg_any: "view_seg c False r \<Longrightarrow> view_seg c other r"
  by (auto simp: view_seg_def)

lemma win_load [simp]:
  "fst (win (on_mail (setLoadState lst m) c)) = lst"
  "fst (win (on_mail (\<lambda>s. setLoadState lst m (f s)) c)) = lst"
  "fst (win (on_mail (selectMailbox i) c)) = LoadIdle"
  "fst (win (on_mail (selectAccount k) c)) = LoadIdle"
  "fst (win (on_mail (load_error m2) c)) = LoadError"
  "fst (win (on_mail (\<lambda>s. load_error m2 (f s)) c)) = LoadError"
  by (simp_all add: win_def on_mail_def mail_actions)

lemma view_window:
  assumes "vmLoadState (coMail c) = LoadLoading \<longrightarrow> vmSelectedMailboxId (coMail c) \<noteq> None"
  shows "view_seg c' other (refreshMailboxWindow c ks)"
  using assms
  by (auto simp: view_seg_def view_reader_def refreshMailboxWindow_def win_def on_mail_def
      mail_actions split: option.splits)

lemma view_view_read:
  assumes "\<And>v. result = PortOk (CacheCached v) \<Longrightarrow> mvSpec v = window_spec i"
  shows "view_seg c (\<not> view_reader c (Waits (WaitView i g) ks)) (view_read c i g result ks)"
proof (cases "window_current c i g")
  case True
  have next_read: "view_seg c other (c, [Waits (WaitEmails i g v) ks])"
    if "mvSpec v = window_spec i" for v other
    using True that by (simp add: view_seg_def view_reader_def window_current_def)
  show ?thesis
  proof (cases "\<exists>v. result = PortOk (CacheCached v)")
    case cached: True
    then show ?thesis
      using assms next_read True by (auto simp: view_read_def)
  next
    case False
    with True show ?thesis
      by (auto simp: view_read_def o_def view_done split: PortResult.split OwnedCacheRead.split)
  qed
next
  case False
  then have "\<not> view_reader c (Waits (WaitView i g) ks)"
    by (auto simp: view_reader_def window_current_def)
  with False show ?thesis
    by (simp add: view_read_def quiet_view)
qed

lemma same_window: "sameMailboxViewSpec (window_spec i) (window_spec i)"
  by (simp add: sameMailboxViewSpec_def window_spec_def mailboxViewSpec_def
      mailboxViewFilterAll_def mailboxViewSort_def)

lemma view_emails_read:
  "view_seg c (\<not> view_reader c (Waits (WaitEmails i g view) ks)) (emails_read c i g view result ks)"
proof (cases "window_current c i g \<and> sameMailboxViewSpec (window_spec i) (mvSpec view)")
  case True
  then show ?thesis
    by (auto simp: emails_read_def Let_def o_def intro!: view_done split: PortResult.splits)
next
  case False
  then have "\<not> view_reader c (Waits (WaitEmails i g view) ks)"
    using same_window by (auto simp: view_reader_def window_current_def)
  with False show ?thesis
    by (auto simp: emails_read_def quiet_view)
qed

lemma view_mailboxes_read: "view_seg c True (mailboxes_read cx c k g result ks)"
proof (cases "g = coMailboxesGeneration c \<and> vmSelectedAccountKey (coMail c) = Some k")
  case True
  have "vmSelectedMailboxId (coMail (on_mail (selectMailbox (Some i)) c')) = Some i" for i c'
    by (simp add: selectMailbox_def)
  moreover have "vmSelectedMailboxId (coMail (on_mail (setMailboxes ms) c')) =
      vmSelectedMailboxId (coMail c')" for ms c'
    by (simp add: setMailboxes_def)
  ultimately show ?thesis
    using True
    by (auto simp: mailboxes_read_def Let_def o_def view_done quiet_view simp del: app_views
        intro!: view_window split: PortResult.splits OwnedSnapshotRead.splits option.splits)
qed (auto simp: mailboxes_read_def quiet_view)

lemma view_accounts_read: "view_seg c True (accounts_read cx c g result ks)"
proof (cases "g = coAccountsGeneration c")
  case True
  then show ?thesis
    by (auto simp: accounts_read_def Let_def intro: view_done quiet_view
        split: PortResult.splits option.splits)
qed (simp add: accounts_read_def quiet_view)

section \<open>The segments that read the body\<close>

lemma body_done: "fst (bod (fst r)) \<noteq> BodyLoading \<Longrightarrow> body_seg c other r"
  by (simp add: body_seg_def)

lemma bod_load [simp]:
  "bst \<noteq> BodyLoading \<Longrightarrow> fst (bod (on_mail (setEmailBody b bst) c)) \<noteq> BodyLoading"
  "fst (bod (on_mail (selectMailbox i) c)) = BodyIdle"
  "fst (bod (on_mail (selectAccount k) c)) = BodyIdle"
  by (simp_all add: bod_def on_mail_def mail_actions)

lemma body_selected: "body_seg c' other (refreshSelectedBody c ks)"
  by (auto simp: body_seg_def body_reader_def refreshSelectedBody_def bod_def on_mail_def
      mail_actions split: option.splits)

lemma body_body_read:
  "body_seg c (\<not> body_reader c (Waits (WaitBody e g) ks))
     (fst (body_read c e g result), ts)"
proof (cases "g = coBodyGeneration c \<and> vmSelectedEmailId (coMail c) = Some e")
  case True
  then show ?thesis
    by (auto simp: body_read_def intro!: body_done
        split: PortResult.splits OwnedCacheRead.splits)
next
  case False
  then have "\<not> body_reader c (Waits (WaitBody e g) ks)"
    by (auto simp: body_reader_def)
  with False show ?thesis
    by (auto simp: body_read_def quiet_body)
qed

lemma body_emails_read: "body_seg c True (emails_read c i g view result ks)"
proof -
  have "bod (on_mail (load_error m \<circ> setEmails ms \<circ> setMailboxView v) c') = bod c'" for m ms v c'
    by (simp add: bod_def on_mail_def mail_actions)
  then show ?thesis
    by (auto simp: emails_read_def Let_def quiet_body body_selected split: PortResult.splits)
qed

lemma body_view_read: "body_seg c True (view_read c i g result ks)"
proof -
  have "bod (on_mail (load_error m \<circ> setEmails ms \<circ> setMailboxView v) c') = bod c'"
    "bod (on_mail (setLoadState ls mo \<circ> setEmails ms \<circ> setMailboxView v) c') = bod c'"
    for m mo ls ms v c'
    by (simp_all add: bod_def on_mail_def mail_actions)
  then show ?thesis
    by (auto simp: view_read_def quiet_body split: PortResult.splits OwnedCacheRead.splits)
qed

lemma body_mailboxes_read: "body_seg c True (mailboxes_read cx c k g result ks)"
proof (cases "g = coMailboxesGeneration c \<and> vmSelectedAccountKey (coMail c) = Some k")
  case True
  have "fst (bod (on_mail (load_error m \<circ> selectMailbox None \<circ> setMailboxes []) c')) = BodyIdle"
    "fst (bod (on_mail (setLoadState ls mo \<circ> selectMailbox None) c')) = BodyIdle"
    for m mo ls c'
    by (simp_all add: bod_def on_mail_def mail_actions)
  with True show ?thesis
    by (auto simp: mailboxes_read_def Let_def body_done quiet_body
        split: PortResult.splits OwnedSnapshotRead.splits option.splits)
qed (auto simp: mailboxes_read_def quiet_body)

lemma body_accounts_read: "body_seg c True (accounts_read cx c g result ks)"
proof (cases "g = coAccountsGeneration c")
  case True
  then show ?thesis
    by (auto simp: accounts_read_def Let_def body_done quiet_body
        split: PortResult.splits option.splits)
qed (simp add: accounts_read_def quiet_body)

lemma body_finish: "body_seg c True (body_finished c e result ks)"
  by (auto simp: body_finished_def finishBodyMaterialization_def Let_def o_def bod_def on_mail_def
      mail_actions body_seg_def split: option.splits BodyMaterializationErrorKind.splits)

lemma body_materialization:
  "body_seg c True (performBodyMaterialization cx c e ks)"
  "body_seg c True (materialization_caught c e x ks)"
  "body_seg c True (materialization_answered c e out ks)"
  "body_seg c True (materialization_reread c e reread ks)"
proof -
  have "bod (on_mail (setBodyMaterializing True \<circ> setBodyError None) c') = bod c'" for c'
    by (simp add: bod_def on_mail_def mail_actions)
  then show "body_seg c True (performBodyMaterialization cx c e ks)"
    by (simp add: performBodyMaterialization_def body_finish quiet_body)
  show caught: "body_seg c True (materialization_caught c e x ks)" for x
    by (simp add: materialization_caught_def body_finish quiet_body)
  show "body_seg c True (materialization_answered c e out ks)"
    by (auto simp: materialization_answered_def caught body_finish body_selected quiet_body
        split: sum.splits)
  show "body_seg c True (materialization_reread c e reread ks)"
    by (simp add: materialization_reread_def body_finish)
qed

text \<open>Materialising is silent about the window.\<close>

lemma win_materialization [simp]:
  "win (fst (body_finished c e result ks)) = win c"
  "win (fst (performBodyMaterialization cx c e ks)) = win c"
  "win (fst (materialization_caught c e x ks)) = win c"
  "win (fst (materialization_answered c e out ks)) = win c"
  "win (fst (materialization_reread c e reread ks)) = win c"
  "win (fst (materializeBody cx c e)) = win c"
  "win (fst (demandSelectedBody cx c e)) = win c"
proof -
  show [simp]: "win (fst (body_finished c e result ks)) = win c" for result
    by (simp add: body_finished_def)
  have "win (on_mail (setBodyMaterializing True \<circ> setBodyError None) c') = win c'" for c'
    by (simp add: win_def on_mail_def mail_actions)
  then show perform [simp]: "win (fst (performBodyMaterialization cx c e ks)) = win c" for c ks
    by (simp add: performBodyMaterialization_def body_finished_def)
  show [simp]: "win (fst (materialization_caught c e x ks)) = win c" for x
    by (simp add: materialization_caught_def)
  show "win (fst (materialization_answered c e out ks)) = win c"
    by (auto simp: materialization_answered_def split: sum.splits)
  show "win (fst (materialization_reread c e reread ks)) = win c"
    by (simp add: materialization_reread_def)
  show [simp]: "win (fst (materializeBody cx c e)) = win c"
    by (simp add: materializeBody_def Let_def case_prod_unfold)
  show "win (fst (demandSelectedBody cx c e)) = win c"
    by (simp add: demandSelectedBody_def)
qed

lemma body_reader_bod: "bod c = bod c' \<Longrightarrow> body_reader c t = body_reader c' t"
  by (simp add: bod_def body_reader_def)

lemma view_reader_win: "win c = win c' \<Longrightarrow> view_reader c t = view_reader c' t"
  by (simp add: win_def view_reader_def)

lemma body_seg_around:
  assumes "body_seg c1 other r" "bod c1 = bod c" "bod c2 = bod (fst r)"
  shows "body_seg c other (c2, snd r)"
  using assms body_reader_bod [OF assms(3)] by (simp add: body_seg_def)

lemma body_materializeBody:
  "body_seg c True (materializeBody cx c e)" "body_seg c True (demandSelectedBody cx c e)"
proof -
  show "body_seg c True (materializeBody cx c e)"
    by (auto simp: materializeBody_def Let_def case_prod_unfold quiet_body
        intro!: body_seg_around [OF body_materialization(1)])
  then show "body_seg c True (demandSelectedBody cx c e)"
    by (simp add: demandSelectedBody_def quiet_body)
qed

section \<open>The step\<close>

lemma view_awaited:
  assumes "\<And>v. result = Inr v \<Longrightarrow> view_seg c other (f v)" "\<And>x. result = Inl x \<Longrightarrow> other"
  shows "view_seg c other (awaited c result ks f)"
  using assms by (auto simp: awaited_def view_seg_def split: sum.splits)

lemma body_awaited:
  assumes "\<And>v. result = Inr v \<Longrightarrow> body_seg c other (f v)" "\<And>x. result = Inl x \<Longrightarrow> other"
  shows "body_seg c other (awaited c result ks f)"
  using assms by (auto simp: awaited_def body_seg_def split: sum.splits)

lemma view_ui:
  assumes "consistent (coMail c)"
  shows "view_seg c True (ui_call cx c call)"
proof (cases call)
  case (UiSelectAccount k)
  then show ?thesis
    by (auto simp: ui_call_def controller_selectAccount_def intro: view_done quiet_view)
next
  case (UiSelectMailbox i)
  have "consistent (coMail c) \<Longrightarrow>
      vmLoadState (coMail c) = LoadLoading \<longrightarrow> vmSelectedMailboxId (coMail c) \<noteq> None"
    by (simp add: consistent_def)
  then show ?thesis
    using assms UiSelectMailbox
    by (auto simp: ui_call_def controller_selectMailbox_def selectMailbox_def intro!: view_window)
next
  case FlushMicrotask
  have "consistent (coMail c) \<Longrightarrow>
      vmLoadState (coMail c) = LoadLoading \<longrightarrow> vmSelectedMailboxId (coMail c) \<noteq> None"
    by (simp add: consistent_def)
  then have "view_seg c True (refreshMailboxWindow (c\<lparr>coScheduled := False, coHints := []\<rparr>) ks)" for ks
    using assms by (intro view_window) simp
  then show ?thesis
    using FlushMicrotask
    by (auto simp: ui_call_def flushInvalidations_def flush_body_def flush_mutations_def Let_def
        quiet_view split: option.splits)
next
  case (UiSelectEmail e)
  then show ?thesis
    by (simp add: ui_call_def controller_selectEmail_def quiet_view)
next
  case UiDispose
  have "win (controller_dispose c) = win c"
    by (simp add: win_def controller_dispose_def on_mail_def on_statuses_def mail_actions)
  with UiDispose show ?thesis
    by (simp add: ui_call_def quiet_view)
next
  case (LocalChanges hints)
  have "win (scheduleInvalidation c hints) = win c"
    by (simp add: win_def scheduleInvalidation_def)
  with LocalChanges show ?thesis
    by (simp add: ui_call_def quiet_view)
next
  case (UiSetPage page)
  have "win (on_mail (setVisiblePage page) c) = win c"
    by (simp add: win_def on_mail_def mail_actions)
  with UiSetPage show ?thesis
    by (simp add: ui_call_def quiet_view)
qed (auto simp: ui_call_def initialize_def retry_def intro: quiet_view)

lemma body_ui: "body_seg c True (ui_call cx c call)"
proof (cases call)
  case (UiSelectAccount k)
  then show ?thesis
    by (auto simp: ui_call_def controller_selectAccount_def intro: body_done quiet_body)
next
  case (UiSelectMailbox i)
  then show ?thesis
    by (auto simp: ui_call_def controller_selectMailbox_def intro: body_done quiet_body)
next
  case (UiSelectEmail e)
  then show ?thesis
    by (simp add: ui_call_def controller_selectEmail_def body_selected)
next
  case FlushMicrotask
  then show ?thesis
    by (auto simp: ui_call_def flushInvalidations_def flush_body_def flush_mutations_def Let_def
        quiet_body body_selected split: option.splits)
next
  case UiDispose
  have "bod (controller_dispose c) = bod c"
    by (simp add: bod_def controller_dispose_def on_mail_def on_statuses_def mail_actions)
  with UiDispose show ?thesis
    by (simp add: ui_call_def quiet_body)
next
  case (LocalChanges hints)
  have "bod (scheduleInvalidation c hints) = bod c"
    by (simp add: bod_def scheduleInvalidation_def)
  with LocalChanges show ?thesis
    by (simp add: ui_call_def quiet_body)
next
  case (UiSetPage page)
  have "bod (on_mail (setVisiblePage page) c) = bod c"
    by (simp add: bod_def on_mail_def mail_actions)
  with UiSetPage show ?thesis
    by (simp add: ui_call_def quiet_body)
qed (auto simp: ui_call_def initialize_def retry_def body_materializeBody intro: quiet_body)

lemma view_answer:
  assumes ok: "consistent (coMail c)" and run: "answer_wait cx c w a ks = Some r"
    and honest: "honest_reads w a"
  shows "view_seg c (\<not> view_reader c (Waits w ks)) r"
proof (cases w)
  case (WaitView i g)
  from run WaitView obtain res where a: "a = AnswerView res"
    by (auto simp: answer_wait_def split: answer.splits)
  show ?thesis
    using run honest
    by (auto simp: WaitView a answer_wait_def honest_reads_def intro!: view_awaited view_view_read)
next
  case (WaitEmails i g view)
  from run WaitEmails obtain res where a: "a = AnswerEmails res"
    by (auto simp: answer_wait_def split: answer.splits)
  show ?thesis
    using run honest
    by (auto simp: WaitEmails a answer_wait_def honest_reads_def
        intro!: view_awaited view_emails_read)
next
  case WaitSubscription
  have "view_seg c True (subscribed c v ks)" for v :: "(unit, LocalReadError) PortResult"
    by (auto simp: subscribed_def view_done quiet_view split: PortResult.splits)
  then show ?thesis
    using run by (auto simp: WaitSubscription view_reader_def answer_wait_def intro!: view_awaited
        split: answer.splits)
qed (use run in \<open>auto simp: view_reader_def answer_wait_def case_prod_unfold quiet_view
  view_mailboxes_read view_accounts_read intro!: view_awaited split: answer.splits\<close>)

lemma body_answer:
  assumes run: "answer_wait cx c w a ks = Some r" and honest: "honest_reads w a"
  shows "body_seg c (\<not> body_reader c (Waits w ks)) r"
proof (cases w)
  case (WaitBody e g)
  from run WaitBody obtain res where a: "a = AnswerBody res"
    by (auto simp: answer_wait_def split: answer.splits)
  show ?thesis
    using run honest
    by (auto simp: WaitBody a answer_wait_def honest_reads_def case_prod_unfold
        intro!: body_awaited body_body_read)
next
  case WaitSubscription
  have "body_seg c True (subscribed c v ks)" for v :: "(unit, LocalReadError) PortResult"
    by (auto simp: subscribed_def quiet_body split: PortResult.splits)
  then show ?thesis
    using run by (auto simp: WaitSubscription body_reader_def answer_wait_def intro!: body_awaited
        split: answer.splits)
qed (use run in \<open>auto simp: body_reader_def answer_wait_def case_prod_unfold body_materialization
  body_mailboxes_read body_accounts_read body_view_read body_emails_read quiet_body
  intro!: body_awaited split: answer.splits\<close>)

lemma view_return: "view_seg c True (return_to cx c r ks)"
proof (cases ks)
  case (Cons k ks')
  then show ?thesis
    by (cases k) (auto simp: return_to_def resume_cont_def Let_def local_read_failed_def
        flush_mutations_def case_prod_unfold view_done quiet_view split: option.splits ret.splits)
qed (simp add: return_to_def quiet_view)

lemma body_demanded:
  "body_seg c True (fst (demandSelectedBody cx c e), snd (demandSelectedBody cx c e) @ ts)"
  using body_materializeBody(2) [of c cx e] by (auto simp: body_seg_def)

lemma body_return: "body_seg c True (return_to cx c r ks)"
proof (cases ks)
  case (Cons k ks')
  then show ?thesis
    by (cases k) (auto simp: return_to_def resume_cont_def Let_def local_read_failed_def
        flush_mutations_def case_prod_unfold quiet_body body_materialization body_demanded
        split: option.splits ret.splits)
qed (simp add: return_to_def quiet_body)

text \<open>The spinners of a state and its tasks are all attended.\<close>

definition attended :: "MailApplicationController \<times> ctask list \<Rightarrow> bool" where
  "attended s \<longleftrightarrow>
     (fst (win (fst s)) = LoadLoading \<longrightarrow> (\<exists>t \<in> set (snd s). view_reader (fst s) t)) \<and>
     (fst (bod (fst s)) = BodyLoading \<longrightarrow> (\<exists>t \<in> set (snd s). body_reader (fst s) t))"

lemma attended_segment:
  assumes old: "attended (c, ts1 @ t # ts2)"
    and view: "view_seg c (\<not> view_reader c t) (c', ts')"
    and body: "body_seg c (\<not> body_reader c t) (c', ts')"
  shows "attended (c', ts1 @ ts' @ ts2)"
proof -
  have "\<exists>u \<in> set (ts1 @ ts' @ ts2). view_reader c' u" if "fst (win c') = LoadLoading"
    using view that old view_reader_win [of c' c]
    by (force simp: view_seg_def attended_def)
  moreover have "\<exists>u \<in> set (ts1 @ ts' @ ts2). body_reader c' u" if "fst (bod c') = BodyLoading"
    using body that old body_reader_bod [of c' c]
    by (force simp: body_seg_def attended_def)
  ultimately show ?thesis
    by (simp add: attended_def)
qed

lemma attended_call:
  assumes old: "attended (c, ts)"
    and view: "view_seg c True (c', ts')" and body: "body_seg c True (c', ts')"
  shows "attended (c', ts @ ts')"
proof -
  have "\<exists>u \<in> set (ts @ ts'). view_reader c' u" if "fst (win c') = LoadLoading"
    using view that old view_reader_win [of c' c]
    by (force simp: view_seg_def attended_def)
  moreover have "\<exists>u \<in> set (ts @ ts'). body_reader c' u" if "fst (bod c') = BodyLoading"
    using body that old body_reader_bod [of c' c]
    by (force simp: body_seg_def attended_def)
  ultimately show ?thesis
    by (simp add: attended_def)
qed

lemma returns_read_nothing:
  "\<not> view_reader c (Returns r ks)" "\<not> body_reader c (Returns r ks)"
  by (auto simp: view_reader_def body_reader_def)

lemma cstep_attended:
  assumes "cstep cx honest_reads s s'" "attended s" "consistent (coMail (fst s))"
  shows "attended s'"
  using assms
proof cases
  case (ui c call c' ts' ts)
  then show ?thesis
    using assms view_ui [of c cx call] body_ui [of c cx call] by (auto intro!: attended_call)
next
  case (answered c w a ks c' ts' ts1 ts2)
  then show ?thesis
    using assms view_answer [of c cx w a ks] body_answer [of cx c w a ks]
    by (auto intro!: attended_segment [where t = "Waits w ks"])
next
  case (returned c r ks c' ts' ts1 ts2)
  then show ?thesis
    using assms view_return [of c cx r ks] body_return [of c cx r ks]
    by (auto simp: returns_read_nothing intro!: attended_segment [where t = "Returns r ks"])
qed

lemma reachable_attended:
  assumes "controller_reachable cx honest_reads c ts"
  shows "attended (c, ts)"
proof -
  have "(cstep cx honest_reads)\<^sup>*\<^sup>* s s' \<Longrightarrow> consistent (coMail (fst s)) \<and> attended s \<Longrightarrow>
      consistent (coMail (fst s')) \<and> attended s'" for s s'
    by (induction rule: rtranclp_induct) (auto intro: cstep_consistent cstep_attended)
  moreover have "consistent (coMail newController)" "attended (newController, [])"
    using consistent_new
    by (simp_all add: newController_def attended_def win_def bod_def newMailState_def)
  ultimately show ?thesis
    using assms by (fastforce simp: controller_reachable_def)
qed

text \<open>An honest answer to the read of the e-mails ends the loading; one to the read of the view ends
  it or starts the read of the e-mails.\<close>

lemma view_reader_ends:
  assumes "view_reader c (Waits w ks)" "answer_wait cx c w a ks = Some r" "honest_reads w a"
  shows "fst (win (fst r)) \<noteq> LoadLoading \<or>
    (\<exists>i g v. w = WaitView i g \<and> snd r = [Waits (WaitEmails i g v) ks] \<and>
       view_reader (fst r) (Waits (WaitEmails i g v) ks))"
proof -
  obtain i where i: "vmSelectedMailboxId (coMail c) = Some i"
    and w: "w = WaitView i (coViewGeneration c) \<or>
      (\<exists>view. mvSpec view = window_spec i \<and> w = WaitEmails i (coViewGeneration c) view)"
    using assms(1) by (auto simp: view_reader_def)
  have now: "window_current c i (coViewGeneration c)"
    by (simp add: window_current_def i)
  from w show ?thesis
  proof
    assume w: "w = WaitView i (coViewGeneration c)"
    obtain result where a: "a = AnswerView (Inr result)"
      using assms(2,3) by (auto simp: w answer_wait_def honest_reads_def split: answer.splits sum.splits)
    have r: "r = view_read c i (coViewGeneration c) result ks"
      using assms(2) by (simp add: w a answer_wait_def awaited_def)
    show ?thesis
    proof (cases "\<exists>v. result = PortOk (CacheCached v)")
      case True
      then obtain v where v: "result = PortOk (CacheCached v)" by blast
      have spec: "mvSpec v = window_spec i"
        using assms(3) by (simp add: w a v honest_reads_def)
      have "r = (c, [Waits (WaitEmails i (coViewGeneration c) v) ks])"
        by (simp add: r v view_read_def now)
      with spec i w show ?thesis
        by (simp add: view_reader_def)
    next
      case False
      then have "fst (win (fst r)) \<noteq> LoadLoading"
        unfolding r
        by (auto simp: view_read_def now o_def split: PortResult.split OwnedCacheRead.split)
      then show ?thesis ..
    qed
  next
    assume "\<exists>view. mvSpec view = window_spec i \<and> w = WaitEmails i (coViewGeneration c) view"
    then obtain view where spec: "mvSpec view = window_spec i"
      and w: "w = WaitEmails i (coViewGeneration c) view" by blast
    obtain result where a: "a = AnswerEmails (Inr result)"
      using assms(2,3) by (auto simp: w answer_wait_def honest_reads_def split: answer.splits sum.splits)
    have "r = emails_read c i (coViewGeneration c) view result ks"
      using assms(2) by (simp add: w a answer_wait_def awaited_def)
    then have "fst (win (fst r)) \<noteq> LoadLoading"
      by (auto simp: emails_read_def Let_def o_def now spec same_window split: PortResult.split)
    then show ?thesis ..
  qed
qed

lemma body_reader_ends:
  assumes "body_reader c (Waits w ks)" "answer_wait cx c w a ks = Some r" "honest_reads w a"
  shows "fst (bod (fst r)) \<noteq> BodyLoading"
proof -
  obtain e where w: "w = WaitBody e (coBodyGeneration c)"
    and e: "vmSelectedEmailId (coMail c) = Some e"
    using assms(1) by (auto simp: body_reader_def)
  obtain result where a: "a = AnswerBody (Inr result)"
    using assms(2,3) by (auto simp: w answer_wait_def honest_reads_def split: answer.splits sum.splits)
  have "fst r = fst (body_read c e (coBodyGeneration c) result)"
    using assms(2) by (auto simp: w a answer_wait_def awaited_def case_prod_unfold)
  then show ?thesis
    by (auto simp: body_read_def e split: PortResult.split OwnedCacheRead.split)
qed

section \<open>Running a schedule\<close>

datatype cmove = Call UiCall | Reply nat answer | Return nat

definition controller_move ::
  "ApplicationContext \<Rightarrow> (wait \<Rightarrow> answer \<Rightarrow> bool) \<Rightarrow> MailApplicationController \<times> ctask list \<Rightarrow>
   cmove \<Rightarrow> (MailApplicationController \<times> ctask list) option" where
  "controller_move cx honest s m =
     (case s of (c, ts) \<Rightarrow>
        (case m of
           Call call \<Rightarrow>
             if ui_enabled c call
             then (case ui_call cx c call of (c', ts') \<Rightarrow> Some (c', ts @ ts')) else None
         | Reply n a \<Rightarrow>
             if n < length ts
             then
               (case ts ! n of
                  Waits w ks \<Rightarrow>
                    if honest w a
                    then map_option (\<lambda>r. (fst r, take n ts @ snd r @ drop (Suc n) ts))
                           (answer_wait cx c w a ks)
                    else None
                | Returns _ _ \<Rightarrow> None)
             else None
         | Return n \<Rightarrow>
             if n < length ts
             then
               (case ts ! n of
                  Returns r ks \<Rightarrow>
                    (case return_to cx c r ks of
                       (c', ts') \<Rightarrow> Some (c', take n ts @ ts' @ drop (Suc n) ts))
                | Waits _ _ \<Rightarrow> None)
             else None))"

fun controller_moves ::
  "ApplicationContext \<Rightarrow> (wait \<Rightarrow> answer \<Rightarrow> bool) \<Rightarrow> MailApplicationController \<times> ctask list \<Rightarrow>
   cmove list \<Rightarrow> (MailApplicationController \<times> ctask list) option" where
  "controller_moves cx honest s [] = Some s"
| "controller_moves cx honest s (m # ms) =
     (case controller_move cx honest s m of
        None \<Rightarrow> None | Some s' \<Rightarrow> controller_moves cx honest s' ms)"

lemma controller_move_step:
  assumes "controller_move cx honest s m = Some s'"
  shows "cstep cx honest s s'"
proof (cases s)
  case (Pair c ts)
  show ?thesis
  proof (cases m)
    case (Call call)
    then show ?thesis
      using assms Pair
      by (auto simp: controller_move_def split: if_splits prod.splits intro: cstep.ui)
  next
    case (Reply n a)
    then obtain w ks c' ts' where n: "n < length ts" and t: "ts ! n = Waits w ks"
      and honest: "honest w a" and run: "answer_wait cx c w a ks = Some (c', ts')"
      and s': "s' = (c', take n ts @ ts' @ drop (Suc n) ts)"
      using assms Pair by (auto simp: controller_move_def split: if_splits ctask.splits)
    have "ts = take n ts @ Waits w ks # drop (Suc n) ts"
      using id_take_nth_drop [OF n] by (simp add: t)
    then show ?thesis
      using cstep.answered [where honest = honest, OF run honest] Pair s' by metis
  next
    case (Return n)
    then obtain r ks c' ts' where n: "n < length ts" and t: "ts ! n = Returns r ks"
      and run: "return_to cx c r ks = (c', ts')"
      and s': "s' = (c', take n ts @ ts' @ drop (Suc n) ts)"
      using assms Pair by (auto simp: controller_move_def split: if_splits ctask.splits prod.splits)
    have "ts = take n ts @ Returns r ks # drop (Suc n) ts"
      using id_take_nth_drop [OF n] by (simp add: t)
    then show ?thesis
      using cstep.returned [OF run] Pair s' by metis
  qed
qed

lemma controller_moves_reach:
  "controller_moves cx honest s ms = Some s' \<Longrightarrow> (cstep cx honest)\<^sup>*\<^sup>* s s'"
  by (induction ms arbitrary: s)
    (auto split: option.splits intro: converse_rtranclp_into_rtranclp controller_move_step)

text \<open>A first run: the store is opened, the only account's only mailbox shows its only e-mail with
  its body. Then the e-mail is selected again and the store announces a change: both are loading.\<close>

definition sample_context :: ApplicationContext where
  "sample_context =
     \<lparr>cxLocale = (\<lambda>_ _. 0), cxRemote = False, cxMaterializer = False, cxRunner = False,
      cxBroker = False, cxWorker = False, cxAccountKey = (\<lambda>_. [9]), cxMutationId = (\<lambda>_. [9]), cxNow = (\<lambda>_. [9]),
      cxSubscribes = (\<lambda>_. False), cxStatus = (\<lambda>_. disconnectedStatus)\<rparr>"

definition scoped :: "16 word \<Rightarrow> ScopedId" where
  "scoped i = \<lparr>accountKey = [1], jmapId = [i]\<rparr>"

definition shown_mailbox :: Mailbox where
  "shown_mailbox =
     \<lparr>mbId = scoped 2, mbName = [2], mbParent = None, mbRole = None, mbSortOrder = JInt 0,
      mbTotalEmails = JInt 1, mbUnreadEmails = JInt 0,
      mbRights = \<lparr>mayReadItems = True, mayAddItems = True, mayRemoveItems = True,
        maySetSeen = True, maySetKeywords = True, maySubmit = True\<rparr>\<rparr>"

definition shown_email :: Email where
  "shown_email =
     \<lparr>emId = scoped 3, emBlobId = scoped 4, emThreadId = scoped 5, emSender = None, emFrom = None,
      emReplyTo = None, emTo = None, emCc = None, emBcc = None, emSubject = None, emSentAt = None,
      emReceivedAt = [6], emSize = JInt 1, emPreview = [], emHasAttachment = False,
      emKeywords = []\<rparr>"

definition shown_view :: MailboxView where
  "shown_view =
     \<lparr>mvSpec = window_spec (scoped 2), mvQueryState = [7], mvTotal = JInt 1,
      mvCoverage = [\<lparr>crStart = JInt 0, crEnd = JInt 1\<rparr>],
      mvItems = [\<lparr>viPosition = JInt 0, viEmailId = scoped 3\<rparr>]\<rparr>"

definition shown_body :: EmailBody where
  "shown_body = \<lparr>boEmailId = scoped 3, boText = Some [8], boHtml = None\<rparr>"

definition first_run :: "cmove list" where
  "first_run =
     [Call UiInitialize, Reply 0 (AnswerSubscription (Inr (PortOk ()))),
      Reply 0 (AnswerAccounts (Inr (PortOk [account [1] (remoteAccountRef [7] [8])]))),
      Reply 0 (AnswerMailboxes (Inr (PortOk (SnapshotPresent [shown_mailbox])))),
      Reply 0 (AnswerView (Inr (PortOk (CacheCached shown_view)))),
      Reply 0 (AnswerEmails (Inr (PortOk [EntityPresent shown_email]))),
      Reply 0 (AnswerBody (Inr (PortOk (CacheCached shown_body))))]"

definition second_look :: "cmove list" where
  "second_look =
     first_run @
     [Call (UiSelectEmail (scoped 3)), Call (LocalChanges [HEmails [1]]), Call FlushMicrotask]"

definition ran :: "cmove list \<Rightarrow> MailApplicationController \<times> ctask list" where
  "ran ms =
     (case controller_moves sample_context honest_reads (newController, []) ms of
        None \<Rightarrow> (newController, []) | Some s \<Rightarrow> s)"

lemma ran_reachable: "controller_reachable sample_context honest_reads (fst (ran ms)) (snd (ran ms))"
  using controller_moves_reach [of sample_context honest_reads "(newController, [])" ms]
  by (auto simp: ran_def controller_reachable_def split: option.splits)

lemma ran_first:
  "(case coMail (fst (ran first_run)) of s \<Rightarrow>
     (vmMailboxes s, vmMailboxView s, vmEmails s, vmEmailBody s, vmLoadState s)) =
   ([shown_mailbox], Some shown_view, [shown_email], Some shown_body, LoadReady)"
  by code_simp

lemma ran_second:
  "(vmLoadState (coMail (fst (ran second_look))), vmBodyLoadState (coMail (fst (ran second_look))),
    length (snd (ran second_look))) = (LoadLoading, BodyLoading, 3)"
  by code_simp

section \<open>The properties\<close>

text \<open>C9: The mail view never mixes accounts, mailboxes or messages. However calls, change hints,
  answers and returns interleave, and however late an answer is, in every state the application can
  reach: every mailbox listed and the selected mailbox are of the selected account; the view shown is
  that of the selected mailbox; the e-mails shown are exactly the items of that view, in its order,
  or none; and the body shown is the selected e-mail's. The store's answers are assumed to be about
  what was asked.\<close>

theorem shown_matches_selection:
  assumes "controller_reachable cx honest_reads c ts"
  shows "(\<forall>m \<in> set (vmMailboxes (coMail c)).
        vmSelectedAccountKey (coMail c) = Some (accountKey (mbId m))) \<and>
    (\<forall>i. vmSelectedMailboxId (coMail c) = Some i \<longrightarrow>
        vmSelectedAccountKey (coMail c) = Some (accountKey i)) \<and>
    (\<forall>v. vmMailboxView (coMail c) = Some v \<longrightarrow>
        vmSelectedMailboxId (coMail c) = Some (vsMailboxId (mvSpec v))) \<and>
    (vmEmails (coMail c) = [] \<or>
      (\<exists>v. vmMailboxView (coMail c) = Some v \<and>
         map emId (vmEmails (coMail c)) = map viEmailId (mvItems v))) \<and>
    (\<forall>b. vmEmailBody (coMail c) = Some b \<longrightarrow>
        vmSelectedEmailId (coMail c) = Some (boEmailId b))"
  using reachable_consistent [OF assms] by (simp add: consistent_def)

lemma shown_matches_selection_witness:
  "vmSelectedAccountKey (coMail (fst (ran first_run))) = Some [1] \<and>
   vmSelectedMailboxId (coMail (fst (ran first_run))) = Some (scoped 2) \<and>
   vmSelectedEmailId (coMail (fst (ran first_run))) = Some (scoped 3)"
  using shown_matches_selection [OF ran_reachable [of first_run]] ran_first
  by (auto simp: shown_mailbox_def shown_view_def shown_body_def scoped_def window_spec_def
      mailboxViewSpec_def)

text \<open>C10: No spinner is left turning. In every reachable state, if the window is loading then some task
  under way reads it: it waits for the view of the selected mailbox, or for the e-mails of that view,
  in the present generation; whatever the store answers to the e-mails, the loading is over, and its
  answer about the view ends the loading or starts the read of the e-mails. If the selected body is
  loading then some task reads it in the present generation, and whatever the store answers the
  loading is over. The store's reads are assumed not to throw.\<close>

theorem loading_has_reader:
  assumes "controller_reachable cx honest_reads c ts"
  shows "(vmLoadState (coMail c) = LoadLoading \<longrightarrow>
      (\<exists>i w ks. vmSelectedMailboxId (coMail c) = Some i \<and> Waits w ks \<in> set ts \<and>
        (w = WaitView i (coViewGeneration c) \<or>
         (\<exists>v. w = WaitEmails i (coViewGeneration c) v \<and> mvSpec v = window_spec i)) \<and>
        (\<forall>a r. answer_wait cx c w a ks = Some r \<and> honest_reads w a \<longrightarrow>
          vmLoadState (coMail (fst r)) \<noteq> LoadLoading \<or>
          (\<exists>g v. w = WaitView i g \<and> snd r = [Waits (WaitEmails i g v) ks] \<and>
             g = coViewGeneration (fst r) \<and> mvSpec v = window_spec i)))) \<and>
    (vmBodyLoadState (coMail c) = BodyLoading \<longrightarrow>
      (\<exists>e ks. vmSelectedEmailId (coMail c) = Some e \<and>
        Waits (WaitBody e (coBodyGeneration c)) ks \<in> set ts \<and>
        (\<forall>a r. answer_wait cx c (WaitBody e (coBodyGeneration c)) a ks = Some r \<and>
           honest_reads (WaitBody e (coBodyGeneration c)) a \<longrightarrow>
           vmBodyLoadState (coMail (fst r)) \<noteq> BodyLoading)))"
proof (intro conjI impI)
  have attended: "attended (c, ts)"
    by (rule reachable_attended [OF assms])
  {
    assume "vmLoadState (coMail c) = LoadLoading"
    with attended obtain t where t: "t \<in> set ts" "view_reader c t"
      by (auto simp: attended_def win_def)
    then obtain i w ks where w: "vmSelectedMailboxId (coMail c) = Some i" "t = Waits w ks"
      "w = WaitView i (coViewGeneration c) \<or>
       (\<exists>v. w = WaitEmails i (coViewGeneration c) v \<and> mvSpec v = window_spec i)"
      by (auto simp: view_reader_def)
    have "vmLoadState (coMail (fst r)) \<noteq> LoadLoading \<or>
        (\<exists>g v. w = WaitView i g \<and> snd r = [Waits (WaitEmails i g v) ks] \<and>
           g = coViewGeneration (fst r) \<and> mvSpec v = window_spec i)"
      if "answer_wait cx c w a ks = Some r" "honest_reads w a" for a r
      using view_reader_ends [OF t(2) [unfolded w(2)] that] w(3)
      by (auto simp: win_def view_reader_def)
    with t w show "\<exists>i w ks. vmSelectedMailboxId (coMail c) = Some i \<and> Waits w ks \<in> set ts \<and>
        (w = WaitView i (coViewGeneration c) \<or>
         (\<exists>v. w = WaitEmails i (coViewGeneration c) v \<and> mvSpec v = window_spec i)) \<and>
        (\<forall>a r. answer_wait cx c w a ks = Some r \<and> honest_reads w a \<longrightarrow>
          vmLoadState (coMail (fst r)) \<noteq> LoadLoading \<or>
          (\<exists>g v. w = WaitView i g \<and> snd r = [Waits (WaitEmails i g v) ks] \<and>
             g = coViewGeneration (fst r) \<and> mvSpec v = window_spec i))"
      by blast
  next
    assume "vmBodyLoadState (coMail c) = BodyLoading"
    with attended obtain t where t: "t \<in> set ts" "body_reader c t"
      by (auto simp: attended_def bod_def)
    then show "\<exists>e ks. vmSelectedEmailId (coMail c) = Some e \<and>
        Waits (WaitBody e (coBodyGeneration c)) ks \<in> set ts \<and>
        (\<forall>a r. answer_wait cx c (WaitBody e (coBodyGeneration c)) a ks = Some r \<and>
           honest_reads (WaitBody e (coBodyGeneration c)) a \<longrightarrow>
           vmBodyLoadState (coMail (fst r)) \<noteq> BodyLoading)"
      using body_reader_ends [of c _ _ cx] by (fastforce simp: body_reader_def bod_def)
  }
qed

lemma loading_has_reader_witness:
  "(\<exists>w ks. Waits w ks \<in> set (snd (ran second_look)) \<and>
      (\<exists>i g. w = WaitView i g \<or> (\<exists>v. w = WaitEmails i g v))) \<and>
   (\<exists>e g ks. Waits (WaitBody e g) ks \<in> set (snd (ran second_look)))"
  using loading_has_reader [OF ran_reachable [of second_look]] ran_second by fastforce

end
