(* ===== verification/App_Settling.thy ===== *)
theory App_Settling
  imports App_Loading
begin

text \<open>
  The application comes to rest. Every call starts a bounded amount of asynchronous work, whatever the
  services answer: reads lead to reads, but never back, so the chains of promises cannot feed
  themselves.
\<close>

section \<open>The work a task still has before it\<close>

definition wait_work :: "wait \<Rightarrow> nat" where
  "wait_work w =
     (case w of
        WaitSubscription \<Rightarrow> 18 | WaitAccounts _ \<Rightarrow> 16 | WaitMailboxes _ _ \<Rightarrow> 12 | WaitView _ _ \<Rightarrow> 10
      | WaitEmails _ _ _ \<Rightarrow> 9 | WaitBody _ _ \<Rightarrow> 2 | WaitMutations _ _ \<Rightarrow> 2
      | WaitMaterialization _ \<Rightarrow> 4 | WaitRun _ _ _ \<Rightarrow> 4 | WaitRemoteRefresh _ _ \<Rightarrow> 2
      | WaitKnownAccounts _ _ _ \<Rightarrow> 20 | WaitAuthorization _ _ _ _ \<Rightarrow> 19 | WaitConnect _ _ _ \<Rightarrow> 18
      | WaitKeywordWrite _ \<Rightarrow> 11 | WaitMemberships _ _ \<Rightarrow> 12 | WaitMembershipWrite _ \<Rightarrow> 11
      | WaitSyncAccount _ \<Rightarrow> 3 | WaitWorkerSync _ _ \<Rightarrow> 2 | WaitSendAccount _ _ \<Rightarrow> 4
      | WaitStage _ _ \<Rightarrow> 3 | WaitWorkerSend _ _ _ \<Rightarrow> 2)"

definition cont_work :: "cont \<Rightarrow> nat" where
  "cont_work k =
     (case k of
        ThenMutations _ \<Rightarrow> 3 | ThenDemand _ \<Rightarrow> 6 | ThenFlushMutations _ \<Rightarrow> 3 | ThenRun _ _ \<Rightarrow> 4
      | _ \<Rightarrow> 1)"

definition conts_work :: "cont list \<Rightarrow> nat" where
  "conts_work ks = sum_list (map cont_work ks)"

primrec task_work :: "ctask \<Rightarrow> nat" where
  "task_work (Waits w ks) = wait_work w + conts_work ks"
| "task_work (Returns r ks) = 1 + conts_work ks"

definition work :: "ctask list \<Rightarrow> nat" where
  "work ts = sum_list (map task_work ts)"

lemma work_simps [simp]:
  "work [] = 0" "work (t # ts) = task_work t + work ts" "work (ts @ us) = work ts + work us"
  "conts_work [] = 0" "conts_work (k # ks) = cont_work k + conts_work ks"
  by (simp_all add: work_def conts_work_def)

lemma wait_works [simp]:
  "wait_work WaitSubscription = 18" "wait_work (WaitAccounts g) = 16"
  "wait_work (WaitMailboxes ak g) = 12" "wait_work (WaitView mi g) = 10"
  "wait_work (WaitEmails mi g v) = 9" "wait_work (WaitBody e g) = 2"
  "wait_work (WaitMutations ak g) = 2" "wait_work (WaitMaterialization e) = 4"
  "wait_work (WaitRun ak mu known) = 4" "wait_work (WaitRemoteRefresh ak g) = 2"
  "wait_work (WaitKnownAccounts rq rc g) = 20" "wait_work (WaitAuthorization rq ak sk g) = 19"
  "wait_work (WaitConnect cr g cred) = 18" "wait_work (WaitKeywordWrite p) = 11"
  "wait_work (WaitMemberships e tg) = 12" "wait_work (WaitMembershipWrite p) = 11"
  "wait_work (WaitSyncAccount ak) = 3" "wait_work (WaitWorkerSync ak rm) = 2"
  "wait_work (WaitSendAccount ak it) = 4" "wait_work (WaitStage p rm) = 3"
  "wait_work (WaitWorkerSend ak rm mu) = 2"
  by (simp_all add: wait_work_def)

lemma cont_works [simp]:
  "cont_work (ThenMutations ak) = 3" "cont_work ThenReturn = 1" "cont_work (ThenDemand eo) = 6"
  "cont_work ThenInitialized = 1" "cont_work ThenRetried = 1"
  "cont_work (ThenFlushMutations ao) = 3" "cont_work ThenFlushed = 1"
  "cont_work (ThenReread e) = 1" "cont_work (ThenRun ak mu) = 4"
  "cont_work (ThenRan ak mu known b) = 1" "cont_work (ThenConnected ak g cred) = 1"
  "cont_work (ForgetBody key n) = 1" "cont_work (ForgetRun key n) = 1"
  "cont_work (ForgetRefresh n) = 1" "cont_work (ForgetConnection n) = 1"
  by (simp_all add: cont_work_def)

section \<open>What each segment starts\<close>

lemma work_reads:
  "work (snd (refreshSelectedBody c ks)) \<le> 2 + conts_work ks"
  "work (snd (refreshMailboxWindow c ks)) \<le> 10 + conts_work ks"
  "work (snd (refreshMailboxes c ks)) \<le> 12 + conts_work ks"
  "work (snd (refreshMutationStatuses c ak ks)) = 2 + conts_work ks"
  "work (snd (refreshAccounts c ks)) = 16 + conts_work ks"
  by (auto simp: refreshSelectedBody_def refreshMailboxWindow_def refreshMailboxes_def
      refreshMutationStatuses_def refreshAccounts_def Let_def split: option.splits)

lemma work_view_read: "work (snd (view_read c i g result ks)) \<le> 9 + conts_work ks"
  by (auto simp: view_read_def split: PortResult.split OwnedCacheRead.split)

lemma work_emails_read: "work (snd (emails_read c i g view result ks)) \<le> 8 + conts_work ks"
  using work_reads(1) [of _ "ThenDemand _ # ks"]
  by (auto simp: emails_read_def Let_def add.commute split: PortResult.split)

lemma work_mailboxes_read: "work (snd (mailboxes_read cx c ak g result ks)) \<le> 11 + conts_work ks"
  using work_reads(2) [of _ "ThenReturn # ks"]
  by (auto simp: mailboxes_read_def Let_def
      split: PortResult.split OwnedSnapshotRead.split option.split)

lemma work_accounts_read: "work (snd (accounts_read cx c g result ks)) \<le> 15 + conts_work ks"
  using work_reads(3) [of _ "ThenMutations _ # ks"]
  by (auto simp: accounts_read_def Let_def add.commute split: PortResult.split option.split)

lemma work_bodies:
  "work (snd (body_finished c e res ks)) = 1 + conts_work ks"
  "work (snd (performBodyMaterialization cx c e ks)) \<le> 4 + conts_work ks"
  "work (snd (materialization_caught c e x ks)) = 1 + conts_work ks"
  "work (snd (materialization_answered c e out ks)) \<le> 3 + conts_work ks"
  "work (snd (materialization_reread c e reread ks)) = 1 + conts_work ks"
proof -
  show [simp]: "work (snd (body_finished c e res ks)) = 1 + conts_work ks" for res
    by (simp add: body_finished_def)
  show "work (snd (performBodyMaterialization cx c e ks)) \<le> 4 + conts_work ks"
    by (simp add: performBodyMaterialization_def)
  show [simp]: "work (snd (materialization_caught c e x ks)) = 1 + conts_work ks" for x
    by (simp add: materialization_caught_def)
  show "work (snd (materialization_answered c e out ks)) \<le> 3 + conts_work ks"
    using work_reads(1) [of c "ThenReread e # ks"]
    by (auto simp: materialization_answered_def split: sum.split)
  show "work (snd (materialization_reread c e reread ks)) = 1 + conts_work ks"
    by (simp add: materialization_reread_def)
qed

lemma work_materializeBody:
  "work (snd (materializeBody cx c e)) \<le> 5" "work (snd (demandSelectedBody cx c e)) \<le> 5"
proof -
  show "work (snd (materializeBody cx c e)) \<le> 5"
    using work_bodies(2) [of cx "c\<lparr>coNext := coNext c + 1\<rparr>" e "[ForgetBody (body_key e) (coNext c)]"]
    by (auto simp: materializeBody_def Let_def case_prod_unfold)
  then show "work (snd (demandSelectedBody cx c e)) \<le> 5"
    by (simp add: demandSelectedBody_def)
qed

lemma work_mutations:
  "work (snd (run_known cx c ak mu ms ks)) \<le> 4 + conts_work ks"
  "work (snd (run_answered c ak mu known out ks)) \<le> 3 + conts_work ks"
  "work (snd (controller_runMutation c ak mu)) \<le> 7"
  "work (snd (trackStagedMutation c m)) \<le> 9"
  "work (snd (toggleKeyword cx c em keyword ks)) \<le> 11 + conts_work ks"
  "work (snd (mutation_written c what m result ks)) \<le> 10 + conts_work ks"
  "work (snd (moveEmail c e role ks)) \<le> 12 + conts_work ks"
  "work (snd (memberships_read cx c e tg memberships ks)) \<le> 11 + conts_work ks"
proof -
  show "work (snd (run_known cx c ak mu ms ks)) \<le> 4 + conts_work ks"
    by (simp add: run_known_def)
  show "work (snd (run_answered c ak mu known out ks)) \<le> 3 + conts_work ks"
    by (auto simp: run_answered_def work_reads split: sum.split)
  show runs: "work (snd (controller_runMutation c ak mu)) \<le> 7" for c ak mu
    by (simp add: controller_runMutation_def performMutationRun_def Let_def case_prod_unfold
        work_reads)
  show track: "work (snd (trackStagedMutation c m)) \<le> 9" for c m
    using runs [of "fst (refreshMutationStatuses c (pmAccountKey m) [])" "pmAccountKey m" "pmMutationId m"]
    by (simp add: trackStagedMutation_def case_prod_unfold work_reads)
  show "work (snd (toggleKeyword cx c em keyword ks)) \<le> 11 + conts_work ks"
    by (auto simp: toggleKeyword_def Let_def split: sum.split)
  show "work (snd (mutation_written c what m result ks)) \<le> 10 + conts_work ks"
    using track [of c m]
    by (auto simp: mutation_written_def case_prod_unfold split: PortResult.split)
  show "work (snd (moveEmail c e role ks)) \<le> 12 + conts_work ks"
    by (auto simp: moveEmail_def split: option.split)
  show "work (snd (memberships_read cx c e tg memberships ks)) \<le> 11 + conts_work ks"
    by (auto simp: memberships_read_def Let_def
        split: PortResult.split OwnedSnapshotRead.split sum.split)
qed

lemma work_refreshes:
  "work (snd (refresh_answered c ak g out ks)) \<le> 1 + conts_work ks"
  "work (snd (controller_refreshAccount cx c ak)) \<le> 3"
proof -
  have [simp]: "work (snd (finishRefresh c ak g res ks)) = 1 + conts_work ks" for c g res ks
    by (simp add: finishRefresh_def)
  show "work (snd (refresh_answered c ak g out ks)) \<le> 1 + conts_work ks"
    by (auto simp: refresh_answered_def split: sum.split)
  show "work (snd (controller_refreshAccount cx c ak)) \<le> 3"
    by (auto simp: controller_refreshAccount_def performRefresh_def Let_def case_prod_unfold
        split: option.split)
qed

lemma work_worker:
  "work (snd (syncSelectedAccount c ks)) \<le> 3 + conts_work ks"
  "work (snd (sync_account_read cx c ak result ks)) \<le> Suc (Suc (conts_work ks))"
  "work (snd (sync_answered c out ks)) = Suc (conts_work ks)"
  "work (snd (controller_sendEmail c it ks)) \<le> 4 + conts_work ks"
  "work (snd (send_account_read cx c ak it read ks)) \<le> 3 + conts_work ks"
  "work (snd (send_staged c p rm staged ks)) \<le> Suc (Suc (conts_work ks))"
  by (auto simp: syncSelectedAccount_def sync_ended_def sync_account_read_def sync_answered_def
      throws_segment_def controller_sendEmail_def send_account_read_def send_staged_def Let_def
      split: option.split sum.split PortResult.split LocalEntityRead.split)

lemma work_connections:
  "work (snd (connection_failed c kind ks)) = 1 + conts_work ks"
  "work (snd (accounts_known cx c rq rc g known ks)) \<le> 19 + conts_work ks"
  "work (snd (authorized c rq ak sk g ref ks)) \<le> 18 + conts_work ks"
  "work (snd (connect_answered cx c cr g cred res ks)) \<le> 17 + conts_work ks"
  "work (snd (connection_confirmed c ak g cred r ks)) = 1 + conts_work ks"
  "work (snd (startAccountConnection cx c goal rq)) \<le> 21"
proof -
  show failed [simp]: "work (snd (connection_failed c kind ks)) = 1 + conts_work ks" for c kind ks
    by (simp add: connection_failed_def)
  have config: "work (snd (choose_config cx c rq existing ak sk g ks)) \<le> 19 + conts_work ks"
    for c existing ak sk
    by (auto simp: choose_config_def connect_remote_def split: AccountSetupRequest.split sum.split)
  then show "work (snd (accounts_known cx c rq rc g known ks)) \<le> 19 + conts_work ks"
    by (auto simp: accounts_known_def Let_def split: sum.split PortResult.split)
  show "work (snd (authorized c rq ak sk g ref ks)) \<le> 18 + conts_work ks"
    by (auto simp: authorized_def connect_remote_def split: sum.split AccountSetupRequest.split)
  show "work (snd (connect_answered cx c cr g cred res ks)) \<le> 17 + conts_work ks"
    by (auto simp: connect_answered_def work_reads Let_def split: sum.split)
  show "work (snd (connection_confirmed c ak g cred r ks)) = 1 + conts_work ks"
    by (auto simp: connection_confirmed_def Let_def split: ret.split)
  show "work (snd (startAccountConnection cx c goal rq)) \<le> 21"
    by (auto simp: startAccountConnection_def performAccountConnection_def Let_def case_prod_unfold
        split: option.split)
qed

section \<open>Every answer and every return is work done\<close>

lemma work_awaited:
  assumes "\<And>v. result = Inr v \<Longrightarrow> work (snd (f v)) \<le> n + conts_work ks" "1 \<le> n"
  shows "work (snd (awaited c result ks f)) \<le> n + conts_work ks"
  using assms by (auto simp: awaited_def split: sum.split)

lemma work_answer:
  assumes "answer_wait cx c w a ks = Some r"
  shows "work (snd r) < task_work (Waits w ks)"
proof -
  have subscribed: "work (snd (subscribed c v ks)) \<le> 17 + conts_work ks"
    for v :: "(unit, LocalReadError) PortResult"
    by (auto simp: subscribed_def work_reads split: PortResult.split)
  have "work (snd r) \<le> wait_work w - 1 + conts_work ks"
    using assms
    by (cases w) (auto simp: answer_wait_def case_prod_unfold subscribed work_accounts_read
        work_mailboxes_read work_view_read work_emails_read work_mutations
        work_bodies work_refreshes(1) [simplified] work_connections work_worker
        intro!: work_awaited work_awaited [where n = 1, simplified]
          work_awaited [where n = 2, simplified] split: answer.splits)
  then show ?thesis
    by (cases w) simp_all
qed

lemma work_return:
  shows "work (snd (return_to cx c r ks)) < task_work (Returns r ks)"
proof (cases ks)
  case (Cons k ks')
  have "work (snd (resume_cont cx c r k ks')) \<le> cont_work k + conts_work ks'"
    using work_materializeBody(2) [of cx c]
    by (cases k) (auto simp: resume_cont_def Let_def local_read_failed_def flush_mutations_def
        case_prod_unfold work_reads work_bodies work_connections work_mutations
        split: option.split ret.split)
  then show ?thesis
    by (simp add: return_to_def Cons)
qed (simp add: return_to_def)

lemma work_ui: "work (snd (ui_call cx c call)) \<le> 21"
  using work_reads(3) [of _ "ThenMutations _ # []"] work_reads(2) [of _ "ThenReturn # []"]
    work_reads(1) [of _ "ThenDemand _ # []"] work_reads(1) [of _ "ThenFlushMutations _ # []"]
    work_reads(2) [of _ "ThenFlushMutations _ # []"] work_reads(3) [of _ "ThenFlushMutations _ # []"]
    work_materializeBody(1) [of cx c] work_mutations(3) [of c] work_mutations(5) [of cx c _ _ "[]"]
    work_mutations(7) [of c _ _ "[]"] work_refreshes(2) [of cx c] work_connections(6) [of cx c]
    work_worker(1) [of c "[]"] work_worker(4) [of c _ "[]"]
  by (cases call) (fastforce simp: ui_call_def initialize_def retry_def work_reads
      controller_selectAccount_def controller_selectMailbox_def controller_selectEmail_def
      flushInvalidations_def flush_body_def flush_mutations_def Let_def
      split: option.split intro: order_trans)+

section \<open>Counted runs\<close>

text \<open>A run with the number of calls made and of tasks resumed, by an answer or a return; the services
  may answer anything, and may throw.\<close>

inductive counted ::
  "ApplicationContext \<Rightarrow> nat \<Rightarrow> nat \<Rightarrow> MailApplicationController \<Rightarrow> ctask list \<Rightarrow> bool"
  for cx where
  fresh: "counted cx 0 0 newController []"
| called: "counted cx m n c ts \<Longrightarrow> ui_enabled c call \<Longrightarrow> ui_call cx c call = (c', ts') \<Longrightarrow>
    counted cx (Suc m) n c' (ts @ ts')"
| answered: "counted cx m n c (ts1 @ Waits w ks # ts2) \<Longrightarrow>
    answer_wait cx c w a ks = Some (c', ts') \<Longrightarrow> counted cx m (Suc n) c' (ts1 @ ts' @ ts2)"
| returned: "counted cx m n c (ts1 @ Returns r ks # ts2) \<Longrightarrow> return_to cx c r ks = (c', ts') \<Longrightarrow>
    counted cx m (Suc n) c' (ts1 @ ts' @ ts2)"

lemma counted_work: "counted cx m n c ts \<Longrightarrow> n + work ts \<le> 21 * m"
proof (induction rule: counted.induct)
  case (called m n c ts call c' ts')
  then show ?case using work_ui [of cx c call] by simp
next
  case (answered m n c ts1 w ks ts2 a c' ts')
  then show ?case using work_answer [of cx c w a ks] by simp
next
  case (returned m n c ts1 r ks ts2 c' ts')
  then show ?case using work_return [of cx c r ks] by simp
qed simp

text \<open>Every reachable state is the end of a counted run.\<close>

lemma reachable_counted:
  assumes "controller_reachable cx honest c ts"
  shows "\<exists>m n. counted cx m n c ts"
proof -
  have "(cstep cx honest)\<^sup>*\<^sup>* s s' \<Longrightarrow> \<exists>m n. counted cx m n (fst s) (snd s) \<Longrightarrow>
      \<exists>m n. counted cx m n (fst s') (snd s')" for s s'
  proof (induction rule: rtranclp_induct)
    case (step s' s'')
    then obtain m n where "counted cx m n (fst s') (snd s')" by blast
    with step(2) show ?case
      by (cases rule: cstep.cases) (auto intro: counted.intros)
  qed
  from this [OF assms [unfolded controller_reachable_def]] show ?thesis
    using counted.fresh by fastforce
qed

lemma controller_move_counted:
  assumes "controller_move cx honest (c, ts) mv = Some (c', ts')" "counted cx m n c ts"
  shows "counted cx (m + (case mv of Call _ \<Rightarrow> 1 | _ \<Rightarrow> 0)) (n + (case mv of Call _ \<Rightarrow> 0 | _ \<Rightarrow> 1)) c' ts'"
proof (cases mv)
  case (Call call)
  then show ?thesis
    using assms
    by (auto simp: controller_move_def split: if_splits prod.splits intro: counted.called)
next
  case (Reply i a)
  then obtain w ks us where i: "i < length ts" and t: "ts ! i = Waits w ks"
    and run: "answer_wait cx c w a ks = Some (c', us)" and ts': "ts' = take i ts @ us @ drop (Suc i) ts"
    using assms by (auto simp: controller_move_def split: if_splits ctask.splits)
  have "counted cx m n c (take i ts @ Waits w ks # drop (Suc i) ts)"
    using assms(2) id_take_nth_drop [OF i] by (simp add: t)
  from counted.answered [OF this run] show ?thesis
    by (simp add: Reply ts')
next
  case (Return i)
  then obtain r ks us where i: "i < length ts" and t: "ts ! i = Returns r ks"
    and run: "return_to cx c r ks = (c', us)" and ts': "ts' = take i ts @ us @ drop (Suc i) ts"
    using assms by (auto simp: controller_move_def split: if_splits ctask.splits prod.splits)
  have "counted cx m n c (take i ts @ Returns r ks # drop (Suc i) ts)"
    using assms(2) id_take_nth_drop [OF i] by (simp add: t)
  from counted.returned [OF this run] show ?thesis
    by (simp add: Return ts')
qed

definition calls_of :: "cmove list \<Rightarrow> nat" where
  "calls_of ms = length (filter (\<lambda>mv. case mv of Call _ \<Rightarrow> True | _ \<Rightarrow> False) ms)"

lemma controller_moves_counted:
  assumes "controller_moves cx honest (c, ts) ms = Some (c', ts')" "counted cx m n c ts"
  shows "counted cx (m + calls_of ms) (n + (length ms - calls_of ms)) c' ts'"
  using assms
proof (induction ms arbitrary: c ts m n)
  case (Cons mv ms)
  then obtain c1 ts1 where move: "controller_move cx honest (c, ts) mv = Some (c1, ts1)"
    and rest: "controller_moves cx honest (c1, ts1) ms = Some (c', ts')"
    by (auto split: option.splits)
  have "calls_of ms \<le> length ms"
    by (simp add: calls_of_def)
  then show ?case
    using Cons.IH [OF rest controller_move_counted [OF move Cons.prems(2)]]
    by (cases mv) (simp_all add: calls_of_def Suc_diff_le)
qed (simp add: calls_of_def)

lemma second_look_counted:
  "counted sample_context 4 6 (fst (ran second_look)) (snd (ran second_look))"
proof -
  obtain c ts where run: "controller_moves sample_context honest_reads (newController, []) second_look =
      Some (c, ts)"
    using ran_second by (cases "controller_moves sample_context honest_reads (newController, [])
      second_look") (auto simp: ran_def)
  then have "counted sample_context (0 + calls_of second_look)
      (0 + (length second_look - calls_of second_look)) c ts"
    by (rule controller_moves_counted) (rule counted.fresh)
  moreover have "calls_of second_look = 4" "length second_look = 10"
    by (simp_all add: calls_of_def second_look_def first_run_def)
  ultimately show ?thesis
    using run by (simp add: ran_def)
qed

section \<open>The property\<close>

text \<open>C11: The application comes to rest. In any run, whatever the store, the remote services and the
  runner answer, and even if they throw, the number of tasks resumed and of tasks still under way is
  at most 21 times the number of calls: without a new call, hint or status only finitely many
  promises are left to settle, and no chain of reads, flushes, runs and connections feeds itself. And
  it is never stuck: every task left is a return, or waits for an answer it accepts.\<close>

theorem controller_settles:
  assumes "counted cx m n c ts"
  shows "n + length ts \<le> 21 * m \<and>
    (\<forall>t \<in> set ts. (\<exists>r ks. t = Returns r ks) \<or>
      (\<exists>w ks a. t = Waits w ks \<and> answer_wait cx c w a ks \<noteq> None))"
proof
  have "length us \<le> work us" for us
  proof (induction us)
    case (Cons t us)
    have "1 \<le> task_work t"
      by (cases t) (auto simp: wait_work_def split: wait.split)
    with Cons show ?case by simp
  qed simp
  from add_left_mono [OF this] show "n + length ts \<le> 21 * m"
    using counted_work [OF assms] le_trans by blast
  have "\<exists>a. answer_wait cx c w a ks \<noteq> None" for w ks
    unfolding answer_wait_def by (cases w) (auto split: answer.split)
  then show "\<forall>t \<in> set ts. (\<exists>r ks. t = Returns r ks) \<or>
      (\<exists>w ks a. t = Waits w ks \<and> answer_wait cx c w a ks \<noteq> None)"
    by (metis ctask.exhaust)
qed

lemma controller_settles_witness:
  "6 + length (snd (ran second_look)) \<le> 21 * 4 \<and> length (snd (ran second_look)) = 3"
  using controller_settles [OF second_look_counted] ran_second by simp

end
