(* ===== verification/Worker.thy ===== *)
theory Worker
  imports Remote_Application Remote_Types Outbox
begin

text \<open>
  The older path to JMAP, in a worker of its own: \<open>src/src/workers/{protocol,ipc-bridge,jmap-worker}.ts\<close>,
  \<open>jmap/auth/token-manager.ts\<close> and the main thread's side, \<open>app/worker-client.ts\<close>. The two sides
  exchange messages; what an operation of a session answers is an event. The data the bridge relays
  without looking at it are of the type \<open>'v\<close>.
\<close>

section \<open>Messages\<close>

type_synonym WorkerRequestId = jsstring

datatype RemoteConnectionStatus =
  ConnAnonymous | ConnConnecting | ConnAuthenticated | ConnExpired | ConnError

datatype IpcBridgeErrorKind = BridgeUnavailable | BridgeUnexpected

datatype 'v MainToWorkerMessage =
    INIT_SESSION WorkerRequestId jsstring jsstring "number option"
  | TEARDOWN_SESSION WorkerRequestId
  | SYNC_ACCOUNT WorkerRequestId AccountKey jsstring
  | SEND_EMAIL WorkerRequestId AccountKey jsstring MutationId
  | IPC_INVOKE_RESULT WorkerRequestId "IpcBridgeErrorKind \<times> jsstring + 'v"

type_synonym PrimaryAccounts = "(jsstring \<times> jsstring) list"

datatype 'v WorkerToMainMessage =
    SESSION_READY WorkerRequestId PrimaryAccounts
  | SESSION_ERROR WorkerRequestId jsstring
  | SESSION_TEARDOWN jsstring
  | TEARDOWN_COMPLETE WorkerRequestId jsstring
  | SYNC_SUCCESS WorkerRequestId AccountKey
  | SYNC_ERROR WorkerRequestId AccountKey jsstring
  | SEND_SUCCESS WorkerRequestId MutationId jsstring
  | SEND_ERROR WorkerRequestId MutationId jsstring
  | STATE_CHANGE "(jsstring \<times> (jsstring \<times> jsstring) list) list"
  | CONNECTION_STATUS RemoteConnectionStatus
  | IPC_INVOKE WorkerRequestId jsstring 'v

section \<open>The token\<close>

text \<open>A timer is only known to be armed: it may fire at any time while it is.\<close>

record TokenManager =
  tmToken :: "jsstring option"
  tmTimer :: bool

definition newTokenManager :: TokenManager where
  "newTokenManager = \<lparr>tmToken = None, tmTimer = False\<rparr>"

definition clearToken :: "TokenManager \<Rightarrow> TokenManager" where
  "clearToken t = t\<lparr>tmToken := None, tmTimer := False\<rparr>"

definition setToken :: "jsstring \<Rightarrow> number option \<Rightarrow> TokenManager \<Rightarrow> TokenManager" where
  "setToken token expires t =
     (clearToken t)\<lparr>tmToken := Some token,
       tmTimer := (case expires of None \<Rightarrow> False | Some n \<Rightarrow> num_less (JInt 0) n)\<rparr>"

text \<open>The empty token is as good as none.\<close>

definition getAuthConfig :: "TokenManager \<Rightarrow> jsstring option" where
  "getAuthConfig t =
     (case tmToken t of None \<Rightarrow> None | Some token \<Rightarrow> if token = [] then None else Some token)"

definition getCanaryStatus :: "TokenManager \<Rightarrow> jsstring" where
  "getCanaryStatus t =
     (if tmToken t = None then js ''TOKEN_CLEARED_OK'' else js ''TOKEN_LEAK_WARN'')"

section \<open>The bridge\<close>

definition IPC_READ_COMMANDS :: "jsstring list" where
  "IPC_READ_COMMANDS = map js
     [''local_read_account'', ''local_list_accounts'', ''local_read_mailbox'',
      ''local_list_mailboxes'', ''local_read_identity'', ''local_list_identities'',
      ''local_read_email'', ''local_read_emails'', ''local_read_email_memberships'',
      ''local_read_email_body'', ''local_read_attachment_refs'', ''local_read_mailbox_view'',
      ''local_read_collection_sync_cursor'', ''local_read_pending_mutation'',
      ''local_list_pending_mutations'']"

definition IPC_WRITE_COMMANDS :: "jsstring list" where
  "IPC_WRITE_COMMANDS = map js
     [''local_register_account'', ''local_apply_collection_sync'', ''local_cache_email_body'',
      ''local_replace_attachment_refs'', ''local_replace_mailbox_view'',
      ''local_stage_send_mutation'', ''local_apply_optimistic_keyword_mutation'',
      ''local_apply_optimistic_mailbox_membership_mutation'',
      ''local_replace_pending_mutation_if_current'', ''local_remove_confirmed_mutation'']"

definition ALLOWED_COMMANDS :: "jsstring set" where
  "ALLOWED_COMMANDS = set (IPC_READ_COMMANDS @ IPC_WRITE_COMMANDS)"

text \<open>A promise of the bridge is the number of its request; \<open>ibSettled\<close> lists what became of them.\<close>

record 'v IpcBridge =
  ibPending :: "(WorkerRequestId \<times> nat) list"
  ibCounter :: nat
  ibSettled :: "(nat \<times> (exn + 'v)) list"

definition newIpcBridge :: "'v IpcBridge" where
  "newIpcBridge = \<lparr>ibPending = [], ibCounter = 0, ibSettled = []\<rparr>"

definition bridge_invoke ::
  "jsstring \<Rightarrow> 'v \<Rightarrow> 'v IpcBridge \<Rightarrow> 'v IpcBridge \<times> (exn + 'v WorkerToMainMessage)" where
  "bridge_invoke command request b =
     (if command \<notin> ALLOWED_COMMANDS
      then (b, Inl (Error (js ''ipc-bridge: command \"'' @ command @
                           js ''\" is not in the Local Engine allowlist'')))
      else
        let n = ibCounter b + 1; key = js ''w:'' @ js_of_nat n in
        (b\<lparr>ibCounter := n, ibPending := AList.update key n (ibPending b)\<rparr>,
         Inr (IPC_INVOKE key command request)))"

definition resolveInvoke ::
  "WorkerRequestId \<Rightarrow> IpcBridgeErrorKind \<times> jsstring + 'v \<Rightarrow> 'v IpcBridge \<Rightarrow> 'v IpcBridge" where
  "resolveInvoke key result b =
     (case map_of (ibPending b) key of
        None \<Rightarrow> b
      | Some n \<Rightarrow>
          b\<lparr>ibPending := AList.delete key (ibPending b),
            ibSettled := ibSettled b @
              [(n, case result of Inl (_, message) \<Rightarrow> Inl (Error message) | Inr v \<Rightarrow> Inr v)]\<rparr>)"

text \<open>\<open>listen\<close> does not exist in the worker.\<close>

definition unsupportedListen :: "exn + unit" where
  "unsupportedListen =
     Inl (Error (js ''ipc-bridge: listen() is not supported inside the JMAP worker (LocalChangeSource is Application-only, see docs/architecture/layers.md)''))"

section \<open>The runtime of the worker\<close>

text \<open>The client made for a session is a number; the coordinator and the outbox are the session they
  work on. \<open>wkPosted\<close> and \<open>wkClosed\<close> record the messages posted and the sessions closed.\<close>

record 'v WorkerRuntime =
  wkTokens :: TokenManager
  wkClient :: "nat option"
  wkSession :: "SessionHandle option"
  wkCoordinator :: "SessionHandle option"
  wkOutbox :: "SessionHandle option"
  wkGeneration :: nat
  wkExplicit :: bool
  wkInvalidation :: RemoteConnectionStatus
  wkBridge :: "'v IpcBridge"
  wkNext :: nat
  wkPosted :: "'v WorkerToMainMessage list"
  wkClosed :: "SessionHandle list"

definition createWorkerRuntime :: "'v WorkerRuntime" where
  "createWorkerRuntime =
     \<lparr>wkTokens = newTokenManager, wkClient = None, wkSession = None, wkCoordinator = None,
      wkOutbox = None, wkGeneration = 0, wkExplicit = False, wkInvalidation = ConnExpired,
      wkBridge = newIpcBridge, wkNext = 0, wkPosted = [], wkClosed = []\<rparr>"

text \<open>What is waited for: the opening of a session, a synchronisation, a send.\<close>

datatype wtask =
    Opening WorkerRequestId nat nat
  | Syncing WorkerRequestId AccountKey "nat option"
  | Sending WorkerRequestId MutationId "nat option"

definition post :: "'v WorkerToMainMessage \<Rightarrow> 'v WorkerRuntime \<Rightarrow> 'v WorkerRuntime" where
  "post m w = w\<lparr>wkPosted := wkPosted w @ [m]\<rparr>"

definition postStatus :: "RemoteConnectionStatus \<Rightarrow> 'v WorkerRuntime \<Rightarrow> 'v WorkerRuntime" where
  "postStatus st = post (CONNECTION_STATUS st)"

definition close_session :: "SessionHandle \<Rightarrow> 'v WorkerRuntime \<Rightarrow> 'v WorkerRuntime" where
  "close_session s w = w\<lparr>wkClosed := wkClosed w @ [s]\<rparr>"

definition resetToAnonymous :: "'v WorkerRuntime \<Rightarrow> 'v WorkerRuntime" where
  "resetToAnonymous w =
     (let w1 = w\<lparr>wkGeneration := wkGeneration w + 1, wkClient := None, wkSession := None,
                 wkCoordinator := None, wkOutbox := None\<rparr> in
      case wkSession w of None \<Rightarrow> w1 | Some s \<Rightarrow> close_session s w1)"

text \<open>The listener given to \<open>onTokenExpired\<close>, and \<open>tokenManager.invalidate\<close>, which calls it.\<close>

definition token_expired :: "'v WorkerRuntime \<Rightarrow> 'v WorkerRuntime" where
  "token_expired w =
     (let w1 = postStatus (wkInvalidation w) (resetToAnonymous w);
          w2 = w1\<lparr>wkInvalidation := ConnExpired\<rparr> in
      if wkExplicit w2 then w2 else post (SESSION_TEARDOWN (getCanaryStatus (wkTokens w2))) w2)"

definition invalidate_token :: "'v WorkerRuntime \<Rightarrow> 'v WorkerRuntime" where
  "invalidate_token w = token_expired (w\<lparr>wkTokens := clearToken (wkTokens w)\<rparr>)"

definition worker_init ::
  "WorkerRequestId \<Rightarrow> jsstring \<Rightarrow> number option \<Rightarrow> 'v WorkerRuntime \<Rightarrow>
   'v WorkerRuntime \<times> wtask list" where
  "worker_init r token expires w =
     (let w1 = postStatus ConnConnecting w;
          w2 = w1\<lparr>wkTokens := setToken token expires (wkTokens w1)\<rparr> in
      case getAuthConfig (wkTokens w2) of
        None \<Rightarrow>
          (post (SESSION_ERROR r (js ''Failed to store the session token.''))
             (postStatus ConnError w2), [])
      | Some _ \<Rightarrow>
          let w3 = resetToAnonymous w2; client = wkNext w3 in
          (w3\<lparr>wkClient := Some client, wkNext := client + 1\<rparr>,
           [Opening r (wkGeneration w3) client]))"

definition worker_teardown ::
  "WorkerRequestId \<Rightarrow> 'v WorkerRuntime \<Rightarrow> 'v WorkerRuntime \<times> wtask list" where
  "worker_teardown r w =
     (let w1 = invalidate_token (w\<lparr>wkExplicit := True, wkInvalidation := ConnAnonymous\<rparr>);
          w2 = w1\<lparr>wkExplicit := False\<rparr> in
      (post (TEARDOWN_COMPLETE r (getCanaryStatus (wkTokens w2))) w2, []))"

text \<open>An exception of \<open>remoteAccountIdFromString\<close> ends the handler: no answer is posted.\<close>

definition worker_sync ::
  "WorkerRequestId \<Rightarrow> AccountKey \<Rightarrow> jsstring \<Rightarrow> 'v WorkerRuntime \<Rightarrow>
   'v WorkerRuntime \<times> wtask list" where
  "worker_sync r k jmap w =
     (case wkCoordinator w of
        None \<Rightarrow> (post (SYNC_ERROR r k (js ''No authenticated JMAP session'')) w, [])
      | Some s \<Rightarrow>
          (case remoteAccountIdFromString jmap of
             Inl _ \<Rightarrow> (w, [])
           | Inr _ \<Rightarrow> (w, [Syncing r k (wkClient w)])))"

definition worker_send ::
  "WorkerRequestId \<Rightarrow> MutationId \<Rightarrow> jsstring \<Rightarrow> 'v WorkerRuntime \<Rightarrow>
   'v WorkerRuntime \<times> wtask list" where
  "worker_send r i jmap w =
     (case wkOutbox w of
        None \<Rightarrow> (post (SEND_ERROR r i (js ''No authenticated JMAP session'')) w, [])
      | Some s \<Rightarrow>
          (case remoteAccountIdFromString jmap of
             Inl _ \<Rightarrow> (w, [])
           | Inr _ \<Rightarrow> (w, [Sending r i (wkClient w)])))"

definition worker_handleMessage ::
  "'v MainToWorkerMessage \<Rightarrow> 'v WorkerRuntime \<Rightarrow> 'v WorkerRuntime \<times> wtask list" where
  "worker_handleMessage m w =
     (case m of
        IPC_INVOKE_RESULT key result \<Rightarrow>
          (w\<lparr>wkBridge := resolveInvoke key result (wkBridge w)\<rparr>, [])
      | INIT_SESSION r url token expires \<Rightarrow> worker_init r token expires w
      | TEARDOWN_SESSION r \<Rightarrow> worker_teardown r w
      | SYNC_ACCOUNT r k jmap \<Rightarrow> worker_sync r k jmap w
      | SEND_EMAIL r k jmap i \<Rightarrow> worker_send r i jmap w)"

definition safeRemoteError :: "exn \<Rightarrow> jsstring" where
  "safeRemoteError x =
     (case x of
        RemoteExn e \<Rightarrow>
          if reKind e = KAuth then js ''Remote authentication failed''
          else js ''Remote operation failed''
      | _ \<Rightarrow> js ''Remote operation failed'')"

definition invalidateOnAuthError ::
  "exn \<Rightarrow> nat option \<Rightarrow> 'v WorkerRuntime \<Rightarrow> 'v WorkerRuntime" where
  "invalidateOnAuthError x client w =
     (case x of
        RemoteExn e \<Rightarrow>
          if reSession e = SExpire \<and> wkClient w = client
          then invalidate_token (w\<lparr>wkInvalidation := ConnExpired\<rparr>) else w
      | _ \<Rightarrow> w)"

text \<open>\<open>Object.fromEntries\<close>: a later entry replaces an earlier one of the same name, in its place.\<close>

definition primary_accounts :: "SessionHandle \<Rightarrow> PrimaryAccounts" where
  "primary_accounts s =
     fold (\<lambda>d ps. fold (\<lambda>c ps. AList.update c (rdaId d) ps) (rdaCapabilities d) ps) (shAccounts s) []"

definition session_opened ::
  "WorkerRequestId \<Rightarrow> nat \<Rightarrow> nat \<Rightarrow> exn + SessionHandle \<Rightarrow> 'v WorkerRuntime \<Rightarrow> 'v WorkerRuntime" where
  "session_opened r g client result w =
     (case result of
        Inr s \<Rightarrow>
          if g \<noteq> wkGeneration w \<or> wkClient w \<noteq> Some client \<or> tmToken (wkTokens w) = None
          then close_session s w
          else
            post (SESSION_READY r (primary_accounts s))
              (postStatus ConnAuthenticated
                 (w\<lparr>wkSession := Some s, wkCoordinator := Some s, wkOutbox := Some s\<rparr>))
      | Inl x \<Rightarrow>
          if g \<noteq> wkGeneration w then w
          else
            post (SESSION_ERROR r (safeRemoteError x))
              (postStatus ConnError
                 (resetToAnonymous (w\<lparr>wkTokens := clearToken (wkTokens w)\<rparr>))))"

definition sync_done ::
  "WorkerRequestId \<Rightarrow> AccountKey \<Rightarrow> nat option \<Rightarrow> exn + unit \<Rightarrow> 'v WorkerRuntime \<Rightarrow>
   'v WorkerRuntime" where
  "sync_done r k client result w =
     (case result of
        Inr _ \<Rightarrow> post (SYNC_SUCCESS r k) w
      | Inl x \<Rightarrow> post (SYNC_ERROR r k (safeRemoteError x)) (invalidateOnAuthError x client w))"

definition outcome_kind :: "SendMutationOutcome \<Rightarrow> jsstring" where
  "outcome_kind out =
     (case out of
        SendSent \<Rightarrow> js ''sent'' | SendSkipped _ \<Rightarrow> js ''skipped''
      | SendNeedsReconciliation \<Rightarrow> js ''needsReconciliation'')"

definition send_done ::
  "WorkerRequestId \<Rightarrow> MutationId \<Rightarrow> nat option \<Rightarrow> exn + SendMutationOutcome \<Rightarrow>
   'v WorkerRuntime \<Rightarrow> 'v WorkerRuntime" where
  "send_done r i client result w =
     (case result of
        Inr out \<Rightarrow> post (SEND_SUCCESS r i (outcome_kind out)) w
      | Inl x \<Rightarrow> post (SEND_ERROR r i (safeRemoteError x)) (invalidateOnAuthError x client w))"

end
