(* ===== verification/Worker_Client.thy ===== *)
theory Worker_Client
  imports Worker
begin

text \<open>
  \<open>src/src/app/worker-client.ts\<close>: the main thread's side of the worker. A request gets a number and
  waits for the reply that bears it, for its timer, or for \<open>dispose\<close>; the worker's own requests are
  passed to the native engine if they are of the Local Engine.
\<close>

datatype WorkerRequestType = ReqInit | ReqTeardown | ReqSync | ReqSend

definition request_type_text :: "WorkerRequestType \<Rightarrow> jsstring" where
  "request_type_text t =
     (case t of
        ReqInit \<Rightarrow> js ''INIT_SESSION'' | ReqTeardown \<Rightarrow> js ''TEARDOWN_SESSION''
      | ReqSync \<Rightarrow> js ''SYNC_ACCOUNT'' | ReqSend \<Rightarrow> js ''SEND_EMAIL'')"

text \<open>What a request resolves to: the payload of the reply.\<close>

datatype WorkerReply =
    ReadyPayload PrimaryAccounts
  | TeardownPayload jsstring
  | SyncPayload AccountKey
  | SendPayload MutationId jsstring

datatype WorkerNotice =
    StatusNotice nat RemoteConnectionStatus
  | StateNotice nat "(jsstring \<times> (jsstring \<times> jsstring) list) list"
  | TeardownNotice nat jsstring

text \<open>Listeners are numbers; \<open>wcNotices\<close> records their calls, \<open>wcSettled\<close> what became of the requests,
  \<open>wcInvokes\<close> the calls of the native engine under way.\<close>

record 'v JmapWorkerClient =
  wcPending :: "(WorkerRequestId \<times> WorkerRequestType) list"
  wcCounter :: nat
  wcStatusListeners :: "nat list"
  wcStateListeners :: "nat list"
  wcTeardownListeners :: "nat list"
  wcTerminated :: bool
  wcSent :: "'v MainToWorkerMessage list"
  wcSettled :: "(WorkerRequestId \<times> (exn + WorkerReply)) list"
  wcNotices :: "WorkerNotice list"
  wcInvokes :: "(WorkerRequestId \<times> jsstring \<times> 'v) list"

definition newWorkerClient :: "'v JmapWorkerClient" where
  "newWorkerClient =
     \<lparr>wcPending = [], wcCounter = 0, wcStatusListeners = [], wcStateListeners = [],
      wcTeardownListeners = [], wcTerminated = False, wcSent = [], wcSettled = [], wcNotices = [],
      wcInvokes = []\<rparr>"

definition request_key :: "nat \<Rightarrow> WorkerRequestId" where
  "request_key n = js ''m:'' @ js_of_nat n"

definition client_send ::
  "'v MainToWorkerMessage \<Rightarrow> 'v JmapWorkerClient \<Rightarrow> 'v JmapWorkerClient" where
  "client_send m c = c\<lparr>wcSent := wcSent c @ [m]\<rparr>"

definition client_request ::
  "WorkerRequestType \<Rightarrow> (WorkerRequestId \<Rightarrow> 'v MainToWorkerMessage) \<Rightarrow> 'v JmapWorkerClient \<Rightarrow>
   'v JmapWorkerClient" where
  "client_request t message c =
     (let n = wcCounter c + 1; key = request_key n in
      client_send (message key)
        (c\<lparr>wcCounter := n, wcPending := AList.update key t (wcPending c)\<rparr>))"

definition initSession ::
  "jsstring \<Rightarrow> jsstring \<Rightarrow> number option \<Rightarrow> 'v JmapWorkerClient \<Rightarrow> 'v JmapWorkerClient" where
  "initSession url token expires =
     client_request ReqInit (\<lambda>key. INIT_SESSION key url token expires)"

definition teardownSession :: "'v JmapWorkerClient \<Rightarrow> 'v JmapWorkerClient" where
  "teardownSession = client_request ReqTeardown TEARDOWN_SESSION"

definition client_syncAccount ::
  "AccountKey \<Rightarrow> jsstring \<Rightarrow> 'v JmapWorkerClient \<Rightarrow> 'v JmapWorkerClient" where
  "client_syncAccount k jmap = client_request ReqSync (\<lambda>key. SYNC_ACCOUNT key k jmap)"

definition client_sendEmail ::
  "AccountKey \<Rightarrow> jsstring \<Rightarrow> MutationId \<Rightarrow> 'v JmapWorkerClient \<Rightarrow> 'v JmapWorkerClient" where
  "client_sendEmail k jmap i = client_request ReqSend (\<lambda>key. SEND_EMAIL key k jmap i)"

definition add_listener :: "nat \<Rightarrow> nat list \<Rightarrow> nat list" where
  "add_listener l ls = (if l \<in> set ls then ls else ls @ [l])"

definition onConnectionStatus :: "nat \<Rightarrow> 'v JmapWorkerClient \<Rightarrow> 'v JmapWorkerClient" where
  "onConnectionStatus l c = c\<lparr>wcStatusListeners := add_listener l (wcStatusListeners c)\<rparr>"

definition onStateChange :: "nat \<Rightarrow> 'v JmapWorkerClient \<Rightarrow> 'v JmapWorkerClient" where
  "onStateChange l c = c\<lparr>wcStateListeners := add_listener l (wcStateListeners c)\<rparr>"

definition onSessionTeardown :: "nat \<Rightarrow> 'v JmapWorkerClient \<Rightarrow> 'v JmapWorkerClient" where
  "onSessionTeardown l c = c\<lparr>wcTeardownListeners := add_listener l (wcTeardownListeners c)\<rparr>"

text \<open>What the three return: the listener leaves.\<close>

definition remove_listener :: "nat \<Rightarrow> nat list \<Rightarrow> nat list" where
  "remove_listener l ls = filter (\<lambda>x. x \<noteq> l) ls"

definition offConnectionStatus :: "nat \<Rightarrow> 'v JmapWorkerClient \<Rightarrow> 'v JmapWorkerClient" where
  "offConnectionStatus l c = c\<lparr>wcStatusListeners := remove_listener l (wcStatusListeners c)\<rparr>"

definition offStateChange :: "nat \<Rightarrow> 'v JmapWorkerClient \<Rightarrow> 'v JmapWorkerClient" where
  "offStateChange l c = c\<lparr>wcStateListeners := remove_listener l (wcStateListeners c)\<rparr>"

definition offSessionTeardown :: "nat \<Rightarrow> 'v JmapWorkerClient \<Rightarrow> 'v JmapWorkerClient" where
  "offSessionTeardown l c = c\<lparr>wcTeardownListeners := remove_listener l (wcTeardownListeners c)\<rparr>"

definition settle ::
  "WorkerRequestId \<Rightarrow> exn + WorkerReply \<Rightarrow> 'v JmapWorkerClient \<Rightarrow> 'v JmapWorkerClient" where
  "settle key result c =
     (case map_of (wcPending c) key of
        None \<Rightarrow> c
      | Some _ \<Rightarrow>
          c\<lparr>wcPending := AList.delete key (wcPending c), wcSettled := wcSettled c @ [(key, result)]\<rparr>)"

text \<open>The timer of a request that still waits.\<close>

definition request_timed_out :: "WorkerRequestId \<Rightarrow> 'v JmapWorkerClient \<Rightarrow> 'v JmapWorkerClient" where
  "request_timed_out key c =
     (case map_of (wcPending c) key of
        None \<Rightarrow> c
      | Some t \<Rightarrow>
          settle key
            (Inl (Error (js ''JmapWorkerClient: \"'' @ request_type_text t @ js ''\" timed out''))) c)"

definition client_dispose :: "'v JmapWorkerClient \<Rightarrow> 'v JmapWorkerClient" where
  "client_dispose c =
     c\<lparr>wcSettled := wcSettled c @
         map (\<lambda>(key, _). (key, Inl (Error (js ''JmapWorkerClient disposed'')))) (wcPending c),
       wcPending := [], wcTerminated := True\<rparr>"

definition replyIpcInvoke ::
  "WorkerRequestId \<Rightarrow> IpcBridgeErrorKind \<times> jsstring + 'v \<Rightarrow> 'v JmapWorkerClient \<Rightarrow>
   'v JmapWorkerClient" where
  "replyIpcInvoke key result = client_send (IPC_INVOKE_RESULT key result)"

definition handleIpcInvoke ::
  "WorkerRequestId \<Rightarrow> jsstring \<Rightarrow> 'v \<Rightarrow> 'v JmapWorkerClient \<Rightarrow> 'v JmapWorkerClient" where
  "handleIpcInvoke key command request c =
     (if command \<notin> ALLOWED_COMMANDS
      then
        replyIpcInvoke key
          (Inl (BridgeUnexpected,
                js ''command \"'' @ command @ js ''\" is not in the Local Engine allowlist'')) c
      else c\<lparr>wcInvokes := wcInvokes c @ [(key, command, request)]\<rparr>)"

text \<open>The native call of a request is answered; a rejection is passed on as its message.\<close>

definition invoke_answered ::
  "nat \<Rightarrow> jsstring + 'v \<Rightarrow> 'v JmapWorkerClient \<Rightarrow> 'v JmapWorkerClient" where
  "invoke_answered n result c =
     (if n < length (wcInvokes c)
      then
        replyIpcInvoke (fst (wcInvokes c ! n))
          (case result of Inl message \<Rightarrow> Inl (BridgeUnavailable, message) | Inr v \<Rightarrow> Inr v)
          (c\<lparr>wcInvokes := take n (wcInvokes c) @ drop (Suc n) (wcInvokes c)\<rparr>)
      else c)"

definition client_handleMessage ::
  "'v WorkerToMainMessage \<Rightarrow> 'v JmapWorkerClient \<Rightarrow> 'v JmapWorkerClient" where
  "client_handleMessage m c =
     (case m of
        IPC_INVOKE key command request \<Rightarrow> handleIpcInvoke key command request c
      | SESSION_READY key accounts \<Rightarrow> settle key (Inr (ReadyPayload accounts)) c
      | SESSION_ERROR key message \<Rightarrow> settle key (Inl (Error message)) c
      | TEARDOWN_COMPLETE key canary \<Rightarrow> settle key (Inr (TeardownPayload canary)) c
      | SYNC_SUCCESS key k \<Rightarrow> settle key (Inr (SyncPayload k)) c
      | SYNC_ERROR key k message \<Rightarrow> settle key (Inl (Error message)) c
      | SEND_SUCCESS key i out \<Rightarrow> settle key (Inr (SendPayload i out)) c
      | SEND_ERROR key i message \<Rightarrow> settle key (Inl (Error message)) c
      | SESSION_TEARDOWN canary \<Rightarrow>
          c\<lparr>wcNotices := wcNotices c @ map (\<lambda>l. TeardownNotice l canary) (wcTeardownListeners c)\<rparr>
      | CONNECTION_STATUS st \<Rightarrow>
          c\<lparr>wcNotices := wcNotices c @ map (\<lambda>l. StatusNotice l st) (wcStatusListeners c)\<rparr>
      | STATE_CHANGE changed \<Rightarrow>
          c\<lparr>wcNotices := wcNotices c @ map (\<lambda>l. StateNotice l changed) (wcStateListeners c)\<rparr>)"

end
