(* ===== verification/Worker_Theorems.thy ===== *)
theory Worker_Theorems
  imports Worker_Client "HOL-Library.Multiset"
begin

text \<open>
  The worker and its client in time: messages, the token's timer and the answers of the remote session
  in any order on the worker's side; requests, replies, timers and \<open>dispose\<close> on the client's.
\<close>

section \<open>The worker as a machine\<close>

datatype wevent =
    EvSession "exn + SessionHandle"
  | EvSync "exn + unit"
  | EvSend "exn + SendMutationOutcome"

definition worker_resume :: "wtask \<Rightarrow> wevent \<Rightarrow> 'v WorkerRuntime \<Rightarrow> 'v WorkerRuntime option" where
  "worker_resume t ev w =
     (case (t, ev) of
        (Opening r g client, EvSession result) \<Rightarrow> Some (session_opened r g client result w)
      | (Syncing r k client, EvSync result) \<Rightarrow> Some (sync_done r k client result w)
      | (Sending r i client, EvSend result) \<Rightarrow> Some (send_done r i client result w)
      | _ \<Rightarrow> None)"

primrec sessions_of :: "wevent \<Rightarrow> SessionHandle list" where
  "sessions_of (EvSession result) = (case result of Inl _ \<Rightarrow> [] | Inr s \<Rightarrow> [s])"
| "sessions_of (EvSync result) = []"
| "sessions_of (EvSend result) = []"

record 'v WorkerWorld =
  wwRuntime :: "'v WorkerRuntime"
  wwTasks :: "wtask list"
  wwOpened :: "SessionHandle list"
  wwReceived :: "'v MainToWorkerMessage list"

definition new_worker :: "'v WorkerWorld" where
  "new_worker =
     \<lparr>wwRuntime = createWorkerRuntime, wwTasks = [], wwOpened = [], wwReceived = []\<rparr>"

text \<open>Every opened session is a new object.\<close>

inductive worker_step :: "'v WorkerWorld \<Rightarrow> 'v WorkerWorld \<Rightarrow> bool" where
  received: "worker_handleMessage m (wwRuntime v) = (w', ts') \<Longrightarrow>
    worker_step v
      \<lparr>wwRuntime = w', wwTasks = wwTasks v @ ts', wwOpened = wwOpened v,
       wwReceived = wwReceived v @ [m]\<rparr>"
| expired: "tmTimer (wkTokens (wwRuntime v)) \<Longrightarrow>
    worker_step v
      \<lparr>wwRuntime = invalidate_token (wwRuntime v), wwTasks = wwTasks v, wwOpened = wwOpened v,
       wwReceived = wwReceived v\<rparr>"
| resumed: "wwTasks v = ts1 @ t # ts2 \<Longrightarrow> worker_resume t ev (wwRuntime v) = Some w' \<Longrightarrow>
    set (sessions_of ev) \<inter> set (wwOpened v) = {} \<Longrightarrow>
    worker_step v
      \<lparr>wwRuntime = w', wwTasks = ts1 @ ts2, wwOpened = wwOpened v @ sessions_of ev,
       wwReceived = wwReceived v\<rparr>"

definition worker_reachable :: "'v WorkerWorld \<Rightarrow> bool" where
  "worker_reachable v \<longleftrightarrow> worker_step\<^sup>*\<^sup>* new_worker v"

section \<open>Who owns a session\<close>

definition opens_now :: "nat \<Rightarrow> wtask \<Rightarrow> bool" where
  "opens_now g t = (case t of Opening r g' client \<Rightarrow> g' = g | _ \<Rightarrow> False)"

definition runtime_ok :: "'v WorkerRuntime \<Rightarrow> SessionHandle list \<Rightarrow> bool" where
  "runtime_ok w opened \<longleftrightarrow>
     wkCoordinator w = wkSession w \<and> wkOutbox w = wkSession w \<and>
     (wkSession w \<noteq> None \<longrightarrow> wkClient w \<noteq> None) \<and>
     (wkClient w \<noteq> None \<longrightarrow> tmToken (wkTokens w) \<noteq> None) \<and>
     mset opened = mset_set (set_option (wkSession w)) + mset (wkClosed w) \<and> distinct opened \<and>
     \<not> wkExplicit w"

definition tasks_ok :: "'v WorkerRuntime \<Rightarrow> wtask list \<Rightarrow> bool" where
  "tasks_ok w ts \<longleftrightarrow>
     (\<forall>r g client. Opening r g client \<in> set ts \<longrightarrow>
        g \<le> wkGeneration w \<and> (g = wkGeneration w \<longrightarrow> wkClient w = Some client)) \<and>
     length (filter (opens_now (wkGeneration w)) ts) \<le> (if wkSession w = None then 1 else 0)"

definition worker_ok :: "'v WorkerWorld \<Rightarrow> bool" where
  "worker_ok v \<longleftrightarrow> runtime_ok (wwRuntime v) (wwOpened v) \<and> tasks_ok (wwRuntime v) (wwTasks v)"

lemma post_fields [simp]:
  "wkTokens (post m w) = wkTokens w" "wkClient (post m w) = wkClient w"
  "wkSession (post m w) = wkSession w" "wkCoordinator (post m w) = wkCoordinator w"
  "wkOutbox (post m w) = wkOutbox w" "wkGeneration (post m w) = wkGeneration w"
  "wkExplicit (post m w) = wkExplicit w" "wkClosed (post m w) = wkClosed w"
  "wkInvalidation (post m w) = wkInvalidation w" "wkNext (post m w) = wkNext w"
  "wkPosted (post m w) = wkPosted w @ [m]"
  by (simp_all add: post_def)

lemma close_fields [simp]:
  "wkTokens (close_session s w) = wkTokens w" "wkClient (close_session s w) = wkClient w"
  "wkSession (close_session s w) = wkSession w" "wkCoordinator (close_session s w) = wkCoordinator w"
  "wkOutbox (close_session s w) = wkOutbox w" "wkGeneration (close_session s w) = wkGeneration w"
  "wkExplicit (close_session s w) = wkExplicit w" "wkClosed (close_session s w) = wkClosed w @ [s]"
  "wkPosted (close_session s w) = wkPosted w" "wkNext (close_session s w) = wkNext w"
  "wkInvalidation (close_session s w) = wkInvalidation w"
  by (simp_all add: close_session_def)

lemma reset_fields [simp]:
  "wkTokens (resetToAnonymous w) = wkTokens w" "wkClient (resetToAnonymous w) = None"
  "wkSession (resetToAnonymous w) = None" "wkCoordinator (resetToAnonymous w) = None"
  "wkOutbox (resetToAnonymous w) = None"
  "wkGeneration (resetToAnonymous w) = Suc (wkGeneration w)"
  "wkExplicit (resetToAnonymous w) = wkExplicit w" "wkPosted (resetToAnonymous w) = wkPosted w"
  "wkInvalidation (resetToAnonymous w) = wkInvalidation w" "wkNext (resetToAnonymous w) = wkNext w"
  "wkClosed (resetToAnonymous w) =
     wkClosed w @ (case wkSession w of None \<Rightarrow> [] | Some s \<Rightarrow> [s])"
  by (simp_all add: resetToAnonymous_def Let_def split: option.split)

lemma invalidate_fields [simp]:
  "wkTokens (invalidate_token w) = clearToken (wkTokens w)" "wkClient (invalidate_token w) = None"
  "wkSession (invalidate_token w) = None" "wkCoordinator (invalidate_token w) = None"
  "wkOutbox (invalidate_token w) = None"
  "wkGeneration (invalidate_token w) = Suc (wkGeneration w)"
  "wkExplicit (invalidate_token w) = wkExplicit w"
  "wkClosed (invalidate_token w) =
     wkClosed w @ (case wkSession w of None \<Rightarrow> [] | Some s \<Rightarrow> [s])"
  by (simp_all add: invalidate_token_def token_expired_def postStatus_def Let_def)

lemma postStatus_fields [simp]:
  "wkTokens (postStatus st w) = wkTokens w" "wkClient (postStatus st w) = wkClient w"
  "wkSession (postStatus st w) = wkSession w" "wkCoordinator (postStatus st w) = wkCoordinator w"
  "wkOutbox (postStatus st w) = wkOutbox w" "wkGeneration (postStatus st w) = wkGeneration w"
  "wkExplicit (postStatus st w) = wkExplicit w" "wkClosed (postStatus st w) = wkClosed w"
  "wkNext (postStatus st w) = wkNext w"
  by (simp_all add: postStatus_def)

lemma token_fields [simp]:
  "tmToken (clearToken t) = None" "tmToken (setToken token e t) = Some token"
  by (simp_all add: clearToken_def setToken_def)

lemma reset_ok:
  assumes "runtime_ok w opened"
  shows "mset opened = mset (wkClosed w @ (case wkSession w of None \<Rightarrow> [] | Some s \<Rightarrow> [s]))"
  using assms by (cases "wkSession w") (simp_all add: runtime_ok_def)

lemma runtime_reset:
  assumes "runtime_ok w opened" "wkClosed w' = wkClosed w @ (case wkSession w of None \<Rightarrow> [] | Some s \<Rightarrow> [s])"
    "wkSession w' = None" "wkCoordinator w' = None" "wkOutbox w' = None" "\<not> wkExplicit w'"
    "wkClient w' \<noteq> None \<longrightarrow> tmToken (wkTokens w') \<noteq> None"
  shows "runtime_ok w' opened"
  using assms reset_ok [OF assms(1)] by (simp add: runtime_ok_def)

lemma tasks_behind:
  assumes "tasks_ok w ts" "wkGeneration w' = Suc (wkGeneration w)" "wkSession w' = None"
  shows "tasks_ok w' ts"
proof -
  have old: "g \<le> wkGeneration w" if "Opening r g client \<in> set ts" for r g client
    using that assms(1) unfolding tasks_ok_def by blast
  have "\<not> opens_now (Suc (wkGeneration w)) t" if "t \<in> set ts" for t
  proof (cases t)
    case (Opening r g client)
    with old [of r g client] that show ?thesis by (simp add: opens_now_def)
  qed (simp_all add: opens_now_def)
  then have none: "filter (opens_now (wkGeneration w')) ts = []"
    using assms(2) by (simp add: filter_empty_conv)
  have "g \<le> wkGeneration w' \<and> (g = wkGeneration w' \<longrightarrow> wkClient w' = Some client)"
    if "Opening r g client \<in> set ts" for r g client
    using old [OF that] assms(2) by simp
  with none show ?thesis
    unfolding tasks_ok_def by simp
qed

text \<open>Nothing else moves: the fields the invariant looks at.\<close>

definition held :: "'v WorkerRuntime \<Rightarrow>
    (SessionHandle option \<times> SessionHandle option \<times> SessionHandle option) \<times> nat option \<times> nat \<times>
    bool \<times> SessionHandle list" where
  "held w = ((wkSession w, wkCoordinator w, wkOutbox w), wkClient w, wkGeneration w, wkExplicit w,
     wkClosed w)"

lemma held_ok:
  assumes "held w' = held w" "wkClient w' \<noteq> None \<longrightarrow> tmToken (wkTokens w') \<noteq> None"
  shows "runtime_ok w opened \<Longrightarrow> runtime_ok w' opened" "tasks_ok w ts \<Longrightarrow> tasks_ok w' ts"
  using assms by (simp_all add: held_def runtime_ok_def tasks_ok_def)

lemma invalidate_ok:
  assumes "runtime_ok w opened" "tasks_ok w ts"
  shows "runtime_ok (invalidate_token w) opened" "tasks_ok (invalidate_token w) ts"
  using assms runtime_reset [OF assms(1), of "invalidate_token w"]
    tasks_behind [OF assms(2), of "invalidate_token w"]
  by (simp_all add: runtime_ok_def [of w])

lemma auth_error_ok:
  assumes "runtime_ok w opened" "tasks_ok w ts"
  shows "runtime_ok (invalidateOnAuthError x client w) opened"
    "tasks_ok (invalidateOnAuthError x client w) ts"
proof -
  have "runtime_ok (w\<lparr>wkInvalidation := st\<rparr>) opened" "tasks_ok (w\<lparr>wkInvalidation := st\<rparr>) ts" for st
    using assms by (simp_all add: runtime_ok_def tasks_ok_def)
  from invalidate_ok [OF this] assms show
    "runtime_ok (invalidateOnAuthError x client w) opened"
    "tasks_ok (invalidateOnAuthError x client w) ts"
    by (simp_all add: invalidateOnAuthError_def split: exn.split)
qed

lemma post_ok [simp]:
  "runtime_ok (post m w) opened = runtime_ok w opened" "tasks_ok (post m w) ts = tasks_ok w ts"
  "runtime_ok (postStatus st w) opened = runtime_ok w opened"
  "tasks_ok (postStatus st w) ts = tasks_ok w ts"
  by (simp_all add: runtime_ok_def tasks_ok_def)

text \<open>A task that opens nothing now may come or go.\<close>

lemma tasks_ok_append:
  assumes "tasks_ok w ts" "\<And>t. t \<in> set us \<Longrightarrow> \<not> (\<exists>r g client. t = Opening r g client)"
  shows "tasks_ok w (ts @ us)"
proof -
  have "filter (opens_now g) us = []" for g
    using assms(2) by (auto simp: filter_empty_conv opens_now_def split: wtask.splits)
  moreover have "Opening r g client \<notin> set us" for r g client
    using assms(2) by blast
  ultimately show ?thesis
    using assms(1) by (simp add: tasks_ok_def)
qed

lemma tasks_ok_remove:
  assumes "tasks_ok w (ts1 @ t # ts2)"
  shows "tasks_ok w (ts1 @ ts2)"
  using assms by (auto simp: tasks_ok_def split: if_splits)

lemma init_ok:
  assumes "runtime_ok w opened" "tasks_ok w ts" "worker_init r token expires w = (w', us)"
  shows "runtime_ok w' opened" "tasks_ok w' (ts @ us)"
proof -
  let ?w2 = "(postStatus ConnConnecting w)
    \<lparr>wkTokens := setToken token expires (wkTokens (postStatus ConnConnecting w))\<rparr>"
  have ok: "runtime_ok ?w2 opened" "tasks_ok ?w2 ts"
    using assms(1,2) by (simp_all add: runtime_ok_def tasks_ok_def)
  have "runtime_ok w' opened \<and> tasks_ok w' (ts @ us)"
  proof (cases "getAuthConfig (wkTokens ?w2)")
    case None
    with assms(3) ok show ?thesis
      by (auto simp: worker_init_def Let_def)
  next
    case (Some config)
    let ?w3 = "resetToAnonymous ?w2"
    have w': "w' = ?w3\<lparr>wkClient := Some (wkNext ?w3), wkNext := wkNext ?w3 + 1\<rparr>"
      "us = [Opening r (wkGeneration ?w3) (wkNext ?w3)]"
      using Some assms(3) by (simp_all add: worker_init_def Let_def)
    have "\<not> wkExplicit w"
      using assms(1) by (simp add: runtime_ok_def)
    then have "runtime_ok w' opened"
      using runtime_reset [OF ok(1), of w'] by (simp add: w')
    have old: "g \<le> wkGeneration w" if "Opening r' g client \<in> set ts" for r' g client
      using assms(2) that unfolding tasks_ok_def by blast
    then have none: "filter (opens_now (wkGeneration ?w3)) ts = []"
      by (fastforce simp: filter_empty_conv opens_now_def split: wtask.splits)
    from old have "tasks_ok w' (ts @ us)"
      using none by (fastforce simp: tasks_ok_def w' opens_now_def)
    with \<open>runtime_ok w' opened\<close> show ?thesis ..
  qed
  then show "runtime_ok w' opened" "tasks_ok w' (ts @ us)" by simp_all
qed

lemma teardown_ok:
  assumes "runtime_ok w opened" "tasks_ok w ts"
  shows "runtime_ok (fst (worker_teardown r w)) opened"
    "tasks_ok (fst (worker_teardown r w)) (ts @ snd (worker_teardown r w))"
proof -
  let ?w1 = "w\<lparr>wkExplicit := True, wkInvalidation := ConnAnonymous\<rparr>"
  let ?w2 = "(invalidate_token ?w1)\<lparr>wkExplicit := False\<rparr>"
  have "runtime_ok ?w2 opened"
    by (rule runtime_reset [OF assms(1)]) simp_all
  moreover have "tasks_ok ?w2 ts"
    by (rule tasks_behind [OF assms(2)]) simp_all
  ultimately show "runtime_ok (fst (worker_teardown r w)) opened"
    "tasks_ok (fst (worker_teardown r w)) (ts @ snd (worker_teardown r w))"
    by (simp_all add: worker_teardown_def Let_def)
qed

lemma handle_ok:
  assumes "runtime_ok w opened" "tasks_ok w ts" "worker_handleMessage m w = (w', us)"
  shows "runtime_ok w' opened" "tasks_ok w' (ts @ us)"
proof -
  have "runtime_ok w' opened \<and> tasks_ok w' (ts @ us)"
  proof (cases m)
    case (INIT_SESSION r url token expires)
    then show ?thesis
      using assms(3) init_ok [OF assms(1,2), of r token expires w' us]
      by (simp add: worker_handleMessage_def)
  next
    case (TEARDOWN_SESSION r)
    then have "worker_teardown r w = (w', us)"
      using assms(3) by (simp add: worker_handleMessage_def)
    with teardown_ok [OF assms(1,2), of r] show ?thesis by simp
  next
    case (SYNC_ACCOUNT r k jmap)
    then show ?thesis
      using assms by (auto simp: worker_handleMessage_def worker_sync_def
          intro!: tasks_ok_append split: option.splits sum.splits)
  next
    case (SEND_EMAIL r k jmap i)
    then show ?thesis
      using assms by (auto simp: worker_handleMessage_def worker_send_def
          intro!: tasks_ok_append split: option.splits sum.splits)
  next
    case (IPC_INVOKE_RESULT key result)
    then show ?thesis
      using assms by (auto simp: worker_handleMessage_def runtime_ok_def tasks_ok_def)
  qed
  then show "runtime_ok w' opened" "tasks_ok w' (ts @ us)" by simp_all
qed

lemma opened_ok:
  assumes ok: "runtime_ok w opened" "tasks_ok w (ts1 @ Opening r g client # ts2)"
    and new: "\<And>s. result = Inr s \<Longrightarrow> s \<notin> set opened"
  shows "runtime_ok (session_opened r g client result w)
      (opened @ (case result of Inl _ \<Rightarrow> [] | Inr s \<Rightarrow> [s]))"
    "tasks_ok (session_opened r g client result w) (ts1 @ ts2)"
proof -
  note left = tasks_ok_remove [OF ok(2)]
  have "runtime_ok (session_opened r g client result w)
      (opened @ (case result of Inl _ \<Rightarrow> [] | Inr s \<Rightarrow> [s])) \<and>
    tasks_ok (session_opened r g client result w) (ts1 @ ts2)"
  proof (cases result)
    case (Inl x)
    let ?w1 = "w\<lparr>wkTokens := clearToken (wkTokens w)\<rparr>"
    have "runtime_ok (resetToAnonymous ?w1) opened" "tasks_ok (resetToAnonymous ?w1) (ts1 @ ts2)"
      using runtime_reset [OF ok(1), of "resetToAnonymous ?w1"] ok(1)
        tasks_behind [OF left, of "resetToAnonymous ?w1"]
      by (simp_all add: runtime_ok_def [of w])
    then show ?thesis
      using ok left by (simp add: Inl session_opened_def)
  next
    case (Inr s)
    show ?thesis
    proof (cases "g \<noteq> wkGeneration w \<or> wkClient w \<noteq> Some client \<or> tmToken (wkTokens w) = None")
      case True
      then have "session_opened r g client result w = close_session s w"
        by (simp add: session_opened_def Inr)
      moreover have "runtime_ok (close_session s w) (opened @ [s])"
        using ok(1) new [OF Inr] by (simp add: runtime_ok_def)
      moreover have "tasks_ok (close_session s w) (ts1 @ ts2)"
        using left by (simp add: tasks_ok_def)
      ultimately show ?thesis by (simp add: Inr)
    next
      case False
      have none: "wkSession w = None"
        using ok(2) False by (auto simp: tasks_ok_def opens_now_def split: if_splits)
      have empty: "filter (opens_now (wkGeneration w)) (ts1 @ ts2) = []"
        using ok(2) False none by (auto simp: tasks_ok_def opens_now_def [of _ "Opening r g client"])
      have others: "Opening r' g' client' \<in> set (ts1 @ ts2) \<Longrightarrow>
          g' \<le> wkGeneration w \<and> (g' = wkGeneration w \<longrightarrow> wkClient w = Some client')" for r' g' client'
        using left unfolding tasks_ok_def by blast
      have now: "session_opened r g client result w =
          post (SESSION_READY r (primary_accounts s)) (postStatus ConnAuthenticated
            (w\<lparr>wkSession := Some s, wkCoordinator := Some s, wkOutbox := Some s\<rparr>))"
        using False by (auto simp: session_opened_def Inr)
      have "runtime_ok (w\<lparr>wkSession := Some s, wkCoordinator := Some s, wkOutbox := Some s\<rparr>) (opened @ [s])"
        using ok(1) new [OF Inr] none False by (simp add: runtime_ok_def)
      moreover have "tasks_ok (w\<lparr>wkSession := Some s, wkCoordinator := Some s, wkOutbox := Some s\<rparr>) (ts1 @ ts2)"
        using others empty unfolding tasks_ok_def by simp
      ultimately show ?thesis by (simp add: now [unfolded Inr] Inr)
    qed
  qed
  then show "runtime_ok (session_opened r g client result w)
      (opened @ (case result of Inl _ \<Rightarrow> [] | Inr s \<Rightarrow> [s]))"
    "tasks_ok (session_opened r g client result w) (ts1 @ ts2)" by simp_all
qed

lemma resume_ok:
  assumes "runtime_ok w opened" "tasks_ok w (ts1 @ t # ts2)" "worker_resume t ev w = Some w'"
    "set (sessions_of ev) \<inter> set opened = {}"
  shows "runtime_ok w' (opened @ sessions_of ev)" "tasks_ok w' (ts1 @ ts2)"
proof -
  note left = tasks_ok_remove [OF assms(2)]
  have "runtime_ok w' (opened @ sessions_of ev) \<and> tasks_ok w' (ts1 @ ts2)"
  proof (cases t)
    case (Opening r g client)
    then obtain result where ev: "ev = EvSession result"
      using assms(3) by (cases ev) (auto simp: worker_resume_def)
    have w': "w' = session_opened r g client result w"
      using assms(3) by (simp add: worker_resume_def Opening ev)
    show ?thesis
      using opened_ok [OF assms(1) assms(2) [unfolded Opening], of result] assms(4)
      by (cases result) (auto simp: w' ev)
  next
    case (Syncing r k client)
    then show ?thesis
      using assms left auth_error_ok [OF assms(1) left]
      by (cases ev) (auto simp: worker_resume_def sync_done_def split: sum.splits)
  next
    case (Sending r i client)
    then show ?thesis
      using assms left auth_error_ok [OF assms(1) left]
      by (cases ev) (auto simp: worker_resume_def send_done_def split: sum.splits)
  qed
  then show "runtime_ok w' (opened @ sessions_of ev)" "tasks_ok w' (ts1 @ ts2)" by simp_all
qed

lemma worker_step_ok: "worker_step v v' \<Longrightarrow> worker_ok v \<Longrightarrow> worker_ok v'"
proof (induction rule: worker_step.induct)
  case (received m v w' ts')
  then show ?case by (auto simp: worker_ok_def intro: handle_ok)
next
  case (expired v)
  then show ?case by (auto simp: worker_ok_def intro: invalidate_ok)
next
  case (resumed v ts1 t ts2 ev w')
  then show ?case by (auto simp: worker_ok_def intro: resume_ok)
qed

lemma reachable_worker_ok:
  assumes "worker_reachable v"
  shows "worker_ok v"
proof -
  have "worker_step\<^sup>*\<^sup>* v v' \<Longrightarrow> worker_ok v \<Longrightarrow> worker_ok v'" for v v' :: "'a WorkerWorld"
    by (induction rule: rtranclp_induct) (auto intro: worker_step_ok)
  moreover have "worker_ok (new_worker :: 'a WorkerWorld)"
    by (simp add: worker_ok_def new_worker_def runtime_ok_def tasks_ok_def createWorkerRuntime_def
        newTokenManager_def)
  ultimately show ?thesis
    using assms by (simp add: worker_reachable_def)
qed

section \<open>Replies\<close>

primrec reply_to :: "'v WorkerToMainMessage \<Rightarrow> WorkerRequestId option" where
  "reply_to (SESSION_READY r accounts) = Some r"
| "reply_to (SESSION_ERROR r message) = Some r"
| "reply_to (SESSION_TEARDOWN canary) = None"
| "reply_to (TEARDOWN_COMPLETE r canary) = Some r"
| "reply_to (SYNC_SUCCESS r k) = Some r"
| "reply_to (SYNC_ERROR r k message) = Some r"
| "reply_to (SEND_SUCCESS r i out) = Some r"
| "reply_to (SEND_ERROR r i message) = Some r"
| "reply_to (STATE_CHANGE changed) = None"
| "reply_to (CONNECTION_STATUS st) = None"
| "reply_to (IPC_INVOKE r command request) = None"

primrec request_of :: "'v MainToWorkerMessage \<Rightarrow> WorkerRequestId option" where
  "request_of (INIT_SESSION r url token expires) = Some r"
| "request_of (TEARDOWN_SESSION r) = Some r"
| "request_of (SYNC_ACCOUNT r k jmap) = Some r"
| "request_of (SEND_EMAIL r k jmap i) = Some r"
| "request_of (IPC_INVOKE_RESULT r result) = None"

primrec awaited_by :: "wtask \<Rightarrow> WorkerRequestId" where
  "awaited_by (Opening r g client) = r"
| "awaited_by (Syncing r k client) = r"
| "awaited_by (Sending r i client) = r"

text \<open>The requests that can be left without an answer: a session that is asked for, and an operation
  on an account without a name.\<close>

primrec always_answered :: "'v MainToWorkerMessage \<Rightarrow> bool" where
  "always_answered (INIT_SESSION r url token expires) = False"
| "always_answered (TEARDOWN_SESSION r) = True"
| "always_answered (SYNC_ACCOUNT r k jmap) = (jmap \<noteq> [])"
| "always_answered (SEND_EMAIL r k jmap i) = (jmap \<noteq> [])"
| "always_answered (IPC_INVOKE_RESULT r result) = True"

definition replies :: "WorkerRequestId \<Rightarrow> 'v WorkerRuntime \<Rightarrow> nat" where
  "replies r w = length (filter (\<lambda>m. reply_to m = Some r) (wkPosted w))"

definition awaiting :: "WorkerRequestId \<Rightarrow> wtask list \<Rightarrow> nat" where
  "awaiting r ts = length (filter (\<lambda>t. awaited_by t = r) ts)"

definition requests :: "WorkerRequestId \<Rightarrow> 'v MainToWorkerMessage list \<Rightarrow> nat" where
  "requests r ms = length (filter (\<lambda>m. request_of m = Some r) ms)"

lemma replies_fields [simp]:
  "replies r (post m w) = replies r w + (if reply_to m = Some r then 1 else 0)"
  "replies r (postStatus st w) = replies r w" "replies r (close_session s w) = replies r w"
  "replies r (resetToAnonymous w) = replies r w" "replies r (invalidate_token w) = replies r w"
  "replies r (w\<lparr>wkTokens := tk\<rparr>) = replies r w" "replies r (w\<lparr>wkInvalidation := st\<rparr>) = replies r w"
  "replies r (w\<lparr>wkExplicit := b\<rparr>) = replies r w" "replies r (w\<lparr>wkBridge := br\<rparr>) = replies r w"
  "replies r (w\<lparr>wkClient := cl, wkNext := n\<rparr>) = replies r w"
  "replies r (w\<lparr>wkExplicit := b, wkInvalidation := st\<rparr>) = replies r w"
  "replies r (w\<lparr>wkSession := so, wkCoordinator := co, wkOutbox := ob\<rparr>) = replies r w"
  "replies r (invalidateOnAuthError x client w) = replies r w"
proof -
  show [simp]: "replies r (invalidate_token w) = replies r w" for w :: "'a WorkerRuntime"
    by (simp add: replies_def invalidate_token_def token_expired_def postStatus_def Let_def)
  have [simp]: "replies r (w\<lparr>wkInvalidation := st\<rparr>) = replies r w" for st and w :: "'a WorkerRuntime"
    by (simp add: replies_def)
  show "replies r (invalidateOnAuthError x client w) = replies r w"
    by (simp add: invalidateOnAuthError_def split: exn.split)
qed (simp_all add: replies_def postStatus_def)

lemma awaiting_simps [simp]:
  "awaiting r [] = 0" "awaiting r (t # ts) = (if awaited_by t = r then 1 else 0) + awaiting r ts"
  "awaiting r (ts @ us) = awaiting r ts + awaiting r us"
  by (simp_all add: awaiting_def)

lemma requests_simps [simp]:
  "requests r [] = 0"
  "requests r (ms @ [m]) = requests r ms + (if request_of m = Some r then 1 else 0)"
  by (simp_all add: requests_def)

text \<open>What a message adds to the replies and the tasks: at most one, exactly one if it is answered
  always; and it opens a session only if it asks for one.\<close>

lemma handled_once:
  assumes "worker_handleMessage m w = (w', us)"
  shows "replies r w' + awaiting r us \<le> replies r w + (if request_of m = Some r then 1 else 0)"
    "always_answered m \<Longrightarrow>
      replies r w' + awaiting r us = replies r w + (if request_of m = Some r then 1 else 0)"
    "Opening r g client \<in> set us \<Longrightarrow> request_of m = Some r \<and> \<not> always_answered m"
  using assms
  by (cases m; auto simp: worker_handleMessage_def worker_init_def worker_teardown_def worker_sync_def
      worker_send_def remoteAccountIdFromString_def remoteIdFromString_def throw_if_def Let_def
      split: option.splits sum.splits if_splits)+

lemma resumed_once:
  assumes "worker_resume t ev w = Some w'"
  shows "replies r w' \<le> replies r w + (if awaited_by t = r then 1 else 0)"
    "\<not> (\<exists>r g client. t = Opening r g client) \<Longrightarrow>
      replies r w' = replies r w + (if awaited_by t = r then 1 else 0)"
  using assms
  by (cases t; cases ev; auto simp: worker_resume_def session_opened_def sync_done_def send_done_def
      split: sum.splits if_splits)+

definition replies_ok :: "'v WorkerWorld \<Rightarrow> bool" where
  "replies_ok v \<longleftrightarrow>
     (\<forall>r. replies r (wwRuntime v) + awaiting r (wwTasks v) \<le> requests r (wwReceived v) \<and>
       ((\<forall>m \<in> set (wwReceived v). request_of m = Some r \<longrightarrow> always_answered m) \<longrightarrow>
         replies r (wwRuntime v) + awaiting r (wwTasks v) = requests r (wwReceived v) \<and>
         (\<forall>g client. Opening r g client \<notin> set (wwTasks v))))"

lemma replies_received:
  assumes "worker_handleMessage m (wwRuntime v) = (w', us)" "replies_ok v"
  shows "replies_ok
    \<lparr>wwRuntime = w', wwTasks = wwTasks v @ us, wwOpened = os, wwReceived = wwReceived v @ [m]\<rparr>"
  unfolding replies_ok_def
proof (intro allI conjI impI)
  fix r
  have old: "replies r (wwRuntime v) + awaiting r (wwTasks v) \<le> requests r (wwReceived v)"
    using assms(2) by (simp add: replies_ok_def)
  then show "replies r (wwRuntime \<lparr>wwRuntime = w', wwTasks = wwTasks v @ us, wwOpened = os,
        wwReceived = wwReceived v @ [m]\<rparr>) +
      awaiting r (wwTasks \<lparr>wwRuntime = w', wwTasks = wwTasks v @ us, wwOpened = os,
        wwReceived = wwReceived v @ [m]\<rparr>) \<le>
      requests r (wwReceived \<lparr>wwRuntime = w', wwTasks = wwTasks v @ us, wwOpened = os,
        wwReceived = wwReceived v @ [m]\<rparr>)"
    using handled_once(1) [OF assms(1), of r] by simp
next
  fix r
  assume all: "\<forall>ma \<in> set (wwReceived \<lparr>wwRuntime = w', wwTasks = wwTasks v @ us, wwOpened = os,
      wwReceived = wwReceived v @ [m]\<rparr>). request_of ma = Some r \<longrightarrow> always_answered ma"
  then have old: "replies r (wwRuntime v) + awaiting r (wwTasks v) = requests r (wwReceived v)"
    "\<And>g client. Opening r g client \<notin> set (wwTasks v)"
    using assms(2) by (simp_all add: replies_ok_def)
  have "replies r w' + awaiting r us =
      replies r (wwRuntime v) + (if request_of m = Some r then 1 else 0)"
  proof (cases "request_of m = Some r")
    case True
    with all handled_once(2) [OF assms(1), of r] show ?thesis by simp
  next
    case False
    have "replies r (wwRuntime v) \<le> replies r w'"
      using assms(1) by (cases m) (auto simp: worker_handleMessage_def worker_init_def
          worker_teardown_def worker_sync_def worker_send_def Let_def
          split: option.splits sum.splits)
    with False handled_once(1) [OF assms(1), of r] show ?thesis by simp
  qed
  with old(1) show "replies r (wwRuntime \<lparr>wwRuntime = w', wwTasks = wwTasks v @ us, wwOpened = os,
        wwReceived = wwReceived v @ [m]\<rparr>) +
      awaiting r (wwTasks \<lparr>wwRuntime = w', wwTasks = wwTasks v @ us, wwOpened = os,
        wwReceived = wwReceived v @ [m]\<rparr>) =
      requests r (wwReceived \<lparr>wwRuntime = w', wwTasks = wwTasks v @ us, wwOpened = os,
        wwReceived = wwReceived v @ [m]\<rparr>)"
    by simp
  fix g client
  show "Opening r g client \<notin> set (wwTasks \<lparr>wwRuntime = w', wwTasks = wwTasks v @ us,
      wwOpened = os, wwReceived = wwReceived v @ [m]\<rparr>)"
    using old(2) all handled_once(3) [OF assms(1), of r g client] by auto
qed

lemma replies_resumed:
  assumes tasks: "wwTasks v = ts1 @ t # ts2" and run: "worker_resume t ev (wwRuntime v) = Some w'"
    and ok: "replies_ok v"
  shows "replies_ok
    \<lparr>wwRuntime = w', wwTasks = ts1 @ ts2, wwOpened = os, wwReceived = wwReceived v\<rparr>"
proof -
  have "replies r w' + awaiting r (ts1 @ ts2) \<le> requests r (wwReceived v) \<and>
      ((\<forall>m \<in> set (wwReceived v). request_of m = Some r \<longrightarrow> always_answered m) \<longrightarrow>
        replies r w' + awaiting r (ts1 @ ts2) = requests r (wwReceived v) \<and>
        (\<forall>g client. Opening r g client \<notin> set (ts1 @ ts2)))" for r
  proof (intro conjI impI)
    have "replies r (wwRuntime v) + awaiting r (wwTasks v) \<le> requests r (wwReceived v)"
      using ok by (simp add: replies_ok_def)
    with resumed_once(1) [OF run, of r] show
      "replies r w' + awaiting r (ts1 @ ts2) \<le> requests r (wwReceived v)"
      by (simp add: tasks split: if_splits)
  next
    assume "\<forall>m \<in> set (wwReceived v). request_of m = Some r \<longrightarrow> always_answered m"
    then have old: "replies r (wwRuntime v) + awaiting r (wwTasks v) = requests r (wwReceived v)"
      "\<And>g client. Opening r g client \<notin> set (wwTasks v)"
      using ok by (simp_all add: replies_ok_def)
    then show "\<forall>g client. Opening r g client \<notin> set (ts1 @ ts2)"
      by (simp add: tasks)
    have "replies r w' = replies r (wwRuntime v) + (if awaited_by t = r then 1 else 0)"
    proof (cases t)
      case (Opening r' g client)
      with old(2) tasks have "r' \<noteq> r" by auto
      moreover have "replies r w' = replies r (wwRuntime v)"
        using run \<open>r' \<noteq> r\<close> by (cases ev) (auto simp: Opening worker_resume_def session_opened_def
            split: sum.splits if_splits)
      ultimately show ?thesis by (simp add: Opening)
    qed (use resumed_once(2) [OF run] in auto)
    with old(1) show "replies r w' + awaiting r (ts1 @ ts2) = requests r (wwReceived v)"
      by (simp add: tasks split: if_splits)
  qed
  then show ?thesis by (simp add: replies_ok_def)
qed

lemma reachable_replies_ok:
  assumes "worker_reachable v"
  shows "replies_ok v"
proof -
  have step: "worker_step v v' \<Longrightarrow> replies_ok v \<Longrightarrow> replies_ok v'" for v v' :: "'a WorkerWorld"
  proof (induction rule: worker_step.induct)
    case (expired v)
    then show ?case by (simp add: replies_ok_def)
  qed (blast intro: replies_received replies_resumed)+
  have "worker_step\<^sup>*\<^sup>* v v' \<Longrightarrow> replies_ok v \<Longrightarrow> replies_ok v'" for v v' :: "'a WorkerWorld"
    by (induction rule: rtranclp_induct) (auto intro: step)
  moreover have "replies_ok (new_worker :: 'a WorkerWorld)"
    by (simp add: replies_ok_def new_worker_def createWorkerRuntime_def replies_def)
  ultimately show ?thesis
    using assms by (simp add: worker_reachable_def)
qed

section \<open>The requests of the client\<close>

text \<open>What the main thread can do to its client, and what reaches it.\<close>

datatype 'v client_event =
    ReplyArrives "'v WorkerToMainMessage"
  | TimerFires WorkerRequestId
  | Requests "'v client_request"
  | Listens nat
  | Leaves nat
  | NativeAnswers nat "jsstring + 'v"
  | Disposes
and 'v client_request =
    AsksInit jsstring jsstring "number option"
  | AsksTeardown
  | AsksSync AccountKey jsstring
  | AsksSend AccountKey jsstring MutationId

definition client_event :: "'v client_event \<Rightarrow> 'v JmapWorkerClient \<Rightarrow> 'v JmapWorkerClient" where
  "client_event ev c =
     (case ev of
        ReplyArrives m \<Rightarrow> client_handleMessage m c
      | TimerFires key \<Rightarrow> request_timed_out key c
      | Requests (AsksInit url token expires) \<Rightarrow> initSession url token expires c
      | Requests AsksTeardown \<Rightarrow> teardownSession c
      | Requests (AsksSync k jmap) \<Rightarrow> client_syncAccount k jmap c
      | Requests (AsksSend k jmap i) \<Rightarrow> client_sendEmail k jmap i c
      | Listens l \<Rightarrow> onSessionTeardown l (onStateChange l (onConnectionStatus l c))
      | Leaves l \<Rightarrow> offSessionTeardown l (offStateChange l (offConnectionStatus l c))
      | NativeAnswers n result \<Rightarrow> invoke_answered n result c
      | Disposes \<Rightarrow> client_dispose c)"

definition client_run :: "'v client_event list \<Rightarrow> 'v JmapWorkerClient" where
  "client_run evs = fold client_event evs newWorkerClient"

definition request_keys :: "nat \<Rightarrow> WorkerRequestId list" where
  "request_keys n = map request_key [1..<Suc n]"

lemma request_key_inject [simp]: "request_key a = request_key b \<longleftrightarrow> a = b"
  by (simp add: request_key_def)

lemma distinct_request_keys: "distinct (request_keys n)"
  by (simp add: request_keys_def distinct_map inj_on_def)

definition client_ok :: "'v JmapWorkerClient \<Rightarrow> bool" where
  "client_ok c \<longleftrightarrow>
     mset (map fst (wcPending c)) + mset (map fst (wcSettled c)) = mset (request_keys (wcCounter c))"

lemma client_ok_distinct:
  assumes "client_ok c"
  shows "distinct (map fst (wcPending c) @ map fst (wcSettled c))"
    "key \<in> set (map fst (wcPending c)) \<Longrightarrow> key \<in> set (request_keys (wcCounter c))"
proof -
  have "mset (map fst (wcPending c) @ map fst (wcSettled c)) = mset (request_keys (wcCounter c))"
    using assms by (simp add: client_ok_def)
  then show "distinct (map fst (wcPending c) @ map fst (wcSettled c))"
    "key \<in> set (map fst (wcPending c)) \<Longrightarrow> key \<in> set (request_keys (wcCounter c))"
    using distinct_request_keys mset_eq_imp_distinct_iff mset_eq_setD by (blast, fastforce)
qed

lemma client_request_ok:
  assumes "client_ok c"
  shows "client_ok (client_request t message c)"
proof -
  let ?n = "wcCounter c"
  have "request_key (Suc ?n) \<notin> set (request_keys ?n)"
    by (auto simp: request_keys_def)
  then have "map_of (wcPending c) (request_key (Suc ?n)) = None"
    using client_ok_distinct(2) [OF assms] by (auto simp: map_of_eq_None_iff simp del: request_key_inject)
  then have "map fst (AList.update (request_key (Suc ?n)) t (wcPending c)) =
      map fst (wcPending c) @ [request_key (Suc ?n)]"
    by (simp add: update_keys map_of_eq_None_iff)
  then show ?thesis
    using assms
    by (simp add: client_ok_def client_request_def client_send_def Let_def request_keys_def)
qed

lemma settle_ok:
  assumes "client_ok c"
  shows "client_ok (settle key result c)"
proof (cases "map_of (wcPending c) key")
  case (Some t)
  then have "key \<in> set (map fst (wcPending c))"
    by (metis map_of_eq_None_iff option.distinct(1) image_set)
  moreover have "distinct (map fst (wcPending c))"
    using client_ok_distinct(1) [OF assms] by simp
  ultimately have "mset (map fst (wcPending c)) =
      add_mset key (mset (map fst (AList.delete key (wcPending c))))"
    by (simp add: delete_keys filter_mset_add_mset distinct_remove1_removeAll [symmetric]
        remove1_idem flip: removeAll_filter_not_eq)
  then show ?thesis
    using assms Some by (simp add: client_ok_def settle_def)
qed (use assms in \<open>simp add: settle_def\<close>)

lemma client_event_ok:
  assumes "client_ok c"
  shows "client_ok (client_event ev c)"
proof (cases ev)
  case (ReplyArrives m)
  have "client_ok (handleIpcInvoke key command request c)" for key command request
    using assms by (simp add: handleIpcInvoke_def replyIpcInvoke_def client_send_def client_ok_def)
  then show ?thesis
    using assms settle_ok [OF assms]
    by (cases m) (simp_all add: ReplyArrives client_event_def client_handleMessage_def client_ok_def [of "c\<lparr>wcNotices := _\<rparr>"] client_ok_def [of c])
next
  case (TimerFires key)
  then show ?thesis
    using assms settle_ok [OF assms]
    by (simp add: client_event_def request_timed_out_def split: option.split)
next
  case (Requests q)
  then show ?thesis
    using client_request_ok [OF assms]
    by (cases q) (simp_all add: client_event_def initSession_def teardownSession_def
        client_syncAccount_def client_sendEmail_def)
next
  case (Listens l)
  then show ?thesis
    using assms by (simp add: client_event_def onSessionTeardown_def onStateChange_def
        onConnectionStatus_def client_ok_def)
next
  case (Leaves l)
  then show ?thesis
    using assms by (simp add: client_event_def offSessionTeardown_def offStateChange_def
        offConnectionStatus_def client_ok_def)
next
  case (NativeAnswers n result)
  then show ?thesis
    using assms by (simp add: client_event_def invoke_answered_def replyIpcInvoke_def
        client_send_def client_ok_def)
next
  case Disposes
  then show ?thesis
    using assms by (simp add: client_event_def client_dispose_def client_ok_def case_prod_unfold
        o_def add.commute)
qed

lemma client_run_ok: "client_ok (client_run evs)"
proof -
  have "client_ok c \<Longrightarrow> client_ok (fold client_event evs c)" for c :: "'a JmapWorkerClient"
    by (induction evs arbitrary: c) (auto intro: client_event_ok)
  then show ?thesis
    by (simp add: client_run_def client_ok_def newWorkerClient_def request_keys_def)
qed

text \<open>Every request of the client is pending or settled, exactly once: by the first reply that bears
  its number, by its timer or by \<open>dispose\<close>; whatever comes later changes nothing.\<close>

lemma request_settles_once:
  "mset (map fst (wcPending (client_run evs))) + mset (map fst (wcSettled (client_run evs))) =
     mset (request_keys (wcCounter (client_run evs)))"
  "distinct (map fst (wcPending (client_run evs)) @ map fst (wcSettled (client_run evs)))"
  using client_run_ok [of evs] client_ok_distinct(1) by (auto simp: client_ok_def)

section \<open>Running a schedule\<close>

datatype 'v wmove = Posts "'v MainToWorkerMessage" | Expires | Answers nat wevent

definition worker_move :: "'v WorkerWorld \<Rightarrow> 'v wmove \<Rightarrow> 'v WorkerWorld option" where
  "worker_move v m =
     (case m of
        Posts msg \<Rightarrow>
          (case worker_handleMessage msg (wwRuntime v) of
             (w', ts') \<Rightarrow>
               Some \<lparr>wwRuntime = w', wwTasks = wwTasks v @ ts', wwOpened = wwOpened v,
                     wwReceived = wwReceived v @ [msg]\<rparr>)
      | Expires \<Rightarrow>
          if tmTimer (wkTokens (wwRuntime v))
          then Some \<lparr>wwRuntime = invalidate_token (wwRuntime v), wwTasks = wwTasks v,
                     wwOpened = wwOpened v, wwReceived = wwReceived v\<rparr>
          else None
      | Answers n ev \<Rightarrow>
          if n < length (wwTasks v) \<and> list_all (\<lambda>s. s \<notin> set (wwOpened v)) (sessions_of ev)
          then
            map_option (\<lambda>w'. \<lparr>wwRuntime = w', wwTasks = take n (wwTasks v) @ drop (Suc n) (wwTasks v),
                              wwOpened = wwOpened v @ sessions_of ev, wwReceived = wwReceived v\<rparr>)
              (worker_resume (wwTasks v ! n) ev (wwRuntime v))
          else None)"

fun worker_moves :: "'v WorkerWorld \<Rightarrow> 'v wmove list \<Rightarrow> 'v WorkerWorld option" where
  "worker_moves v [] = Some v"
| "worker_moves v (m # ms) =
     (case worker_move v m of None \<Rightarrow> None | Some v' \<Rightarrow> worker_moves v' ms)"

lemma worker_move_step:
  assumes "worker_move v m = Some v'"
  shows "worker_step v v'"
proof (cases m)
  case (Posts msg)
  then show ?thesis
    using assms by (auto simp: worker_move_def split: prod.splits intro: worker_step.received)
next
  case Expires
  then show ?thesis
    using assms by (auto simp: worker_move_def split: if_splits intro: worker_step.expired)
next
  case (Answers n ev)
  then obtain w' where n: "n < length (wwTasks v)"
    and fresh: "set (sessions_of ev) \<inter> set (wwOpened v) = {}"
    and run: "worker_resume (wwTasks v ! n) ev (wwRuntime v) = Some w'"
    and v': "v' = \<lparr>wwRuntime = w', wwTasks = take n (wwTasks v) @ drop (Suc n) (wwTasks v),
      wwOpened = wwOpened v @ sessions_of ev, wwReceived = wwReceived v\<rparr>"
    using assms by (auto simp: worker_move_def list_all_iff split: if_splits)
  show ?thesis
    unfolding v' by (rule worker_step.resumed [OF id_take_nth_drop [OF n] run fresh])
qed

lemma worker_moves_reach: "worker_moves v ms = Some v' \<Longrightarrow> worker_step\<^sup>*\<^sup>* v v'"
  by (induction ms arbitrary: v)
    (auto split: option.splits intro: converse_rtranclp_into_rtranclp worker_move_step)

text \<open>A session is replaced by another while it synchronises.\<close>

definition worker_schedule :: "unit wmove list" where
  "worker_schedule =
     [Posts (INIT_SESSION [1] [2] [3] None),
      Answers 0 (EvSession (Inr \<lparr>shId = 0, shAccounts = []\<rparr>)),
      Posts (SYNC_ACCOUNT [4] [5] [6]), Posts (INIT_SESSION [7] [2] [3] None),
      Answers 1 (EvSession (Inr \<lparr>shId = 1, shAccounts = []\<rparr>))]"

definition worker_sample :: "unit WorkerWorld" where
  "worker_sample =
     (case worker_moves new_worker worker_schedule of None \<Rightarrow> new_worker | Some v \<Rightarrow> v)"

lemma worker_sample_reachable: "worker_reachable worker_sample"
  using worker_moves_reach [of new_worker worker_schedule]
  by (auto simp: worker_sample_def worker_reachable_def split: option.splits)

lemma worker_sample_facts:
  "(map shId (wwOpened worker_sample), map shId (wkClosed (wwRuntime worker_sample)),
    map_option shId (wkSession (wwRuntime worker_sample)), wwTasks worker_sample,
    map request_of (wwReceived worker_sample)) =
   ([0, 1], [0], Some 1, [Syncing [4] [5] (Some 0)], [Some [1], Some [4], Some [7]])"
  by code_simp

lemma requests_received:
  "requests r ms = length (filter (\<lambda>x. x = Some r) (map request_of ms))"
  by (simp add: requests_def filter_map o_def)

section \<open>The properties\<close>

text \<open>C30: The worker leaks no session and uses none that is closed. However messages, the expiry of the
  token and the answers of the remote service interleave, every session that was opened is either the
  one in use or has been closed, exactly once; the coordinator and the outbox work on the session in
  use, and there is one only while the worker holds a client and a token.\<close>

theorem worker_sessions_owned:
  assumes "worker_reachable v"
  shows "mset (wwOpened v) =
      mset_set (set_option (wkSession (wwRuntime v))) + mset (wkClosed (wwRuntime v)) \<and>
    distinct (wwOpened v) \<and>
    wkCoordinator (wwRuntime v) = wkSession (wwRuntime v) \<and>
    wkOutbox (wwRuntime v) = wkSession (wwRuntime v) \<and>
    (wkSession (wwRuntime v) \<noteq> None \<longrightarrow>
      wkClient (wwRuntime v) \<noteq> None \<and> tmToken (wkTokens (wwRuntime v)) \<noteq> None)"
  using reachable_worker_ok [OF assms] by (simp add: worker_ok_def runtime_ok_def)

lemma worker_sessions_owned_witness:
  "wkSession (wwRuntime worker_sample) \<noteq> None \<and> tmToken (wkTokens (wwRuntime worker_sample)) \<noteq> None"
  using worker_sessions_owned [OF worker_sample_reachable] worker_sample_facts by auto

text \<open>C31: No request of the main thread is answered twice, and only the request for a session, or an
  operation on an account without a name, can be left without an answer: the replies to an identifier
  and the tasks still working for it are at most the requests that bore it, and exactly those if all of
  them are of the other kinds.\<close>

theorem worker_replies:
  assumes "worker_reachable v"
  shows "replies r (wwRuntime v) + awaiting r (wwTasks v) \<le> requests r (wwReceived v) \<and>
    ((\<forall>m \<in> set (wwReceived v). request_of m = Some r \<longrightarrow> always_answered m) \<longrightarrow>
      replies r (wwRuntime v) + awaiting r (wwTasks v) = requests r (wwReceived v))"
  using reachable_replies_ok [OF assms] by (simp add: replies_ok_def)

lemma worker_replies_witness:
  "replies [4] (wwRuntime worker_sample) = 0 \<and> replies [1] (wwRuntime worker_sample) \<le> 1"
proof -
  have received: "map request_of (wwReceived worker_sample) = [Some [1], Some [4], Some [7]]"
    and waiting: "awaiting [4] (wwTasks worker_sample) = 1"
    using worker_sample_facts by simp_all
  have "requests [4] (wwReceived worker_sample) = 1" "requests [1] (wwReceived worker_sample) = 1"
    by (simp_all add: received requests_received)
  then show ?thesis
    using worker_replies [OF worker_sample_reachable, of "[4]"]
      worker_replies [OF worker_sample_reachable, of "[1]"] waiting
    by linarith
qed

text \<open>C32: A request for a session that is overtaken is never answered. If the main thread asks for a
  session and then, before it is open, tears the session down, then whatever the remote service
  answers nothing is posted for the first request: its promise hangs until the client's timer fires.\<close>

theorem overtaken_init_unanswered:
  assumes "worker_reachable v" "requests r (wwReceived v) = 0" "token \<noteq> []" "r \<noteq> r2"
    "worker_handleMessage (INIT_SESSION r url token expires) (wwRuntime v) = (w1, ts1)"
    "worker_handleMessage (TEARDOWN_SESSION r2) w1 = (w2, ts2)"
  shows "\<exists>g client. ts1 = [Opening r g client] \<and> ts2 = [] \<and>
    (\<forall>result. map_option (replies r) (worker_resume (Opening r g client) (EvSession result) w2) = Some 0)"
proof -
  have none: "replies r (wwRuntime v) = 0"
    using reachable_replies_ok [OF assms(1)] assms(2)
    unfolding replies_ok_def by (metis add_is_0 le_zero_eq)
  have config: "getAuthConfig (setToken token expires t) = Some token" for t
    using assms(3) by (simp add: getAuthConfig_def)
  obtain g client where ts1: "ts1 = [Opening r g client]" and g: "g = wkGeneration w1"
    and w1: "replies r w1 = 0"
    using assms(5) none by (auto simp: worker_handleMessage_def worker_init_def config Let_def)
  have w2: "ts2 = []" "wkGeneration w2 = Suc g" "replies r w2 = 0"
    using assms(4,6) w1 g by (auto simp: worker_handleMessage_def worker_teardown_def Let_def)
  have "map_option (replies r) (worker_resume (Opening r g client) (EvSession result) w2) = Some 0" for result
    using w2 by (auto simp: worker_resume_def session_opened_def split: sum.split)
  with ts1 w2(1) show ?thesis by blast
qed

lemma overtaken_init_unanswered_witness:
  "\<exists>w1 w2 g client.
     worker_handleMessage (INIT_SESSION [8] [2] [3] None) (wwRuntime worker_sample) =
       (w1, [Opening [8] g client]) \<and>
     worker_handleMessage (TEARDOWN_SESSION [9]) w1 = (w2, []) \<and>
     map_option (replies [8]) (worker_resume (Opening [8] g client)
       (EvSession (Inr \<lparr>shId = 7, shAccounts = []\<rparr>)) w2) = Some 0"
proof -
  obtain w1 ts1 where one: "worker_handleMessage (INIT_SESSION [8] [2] [3] None)
      (wwRuntime worker_sample) = (w1, ts1)" by fastforce
  obtain w2 ts2 where two: "worker_handleMessage (TEARDOWN_SESSION [9]) w1 = (w2, ts2)" by fastforce
  have "requests [8] (wwReceived worker_sample) = 0"
    using worker_sample_facts by (simp add: requests_received)
  from overtaken_init_unanswered [OF worker_sample_reachable this _ _ one two] one two
  show ?thesis by auto
qed

end
