(* ===== verification/Send_Service.thy ===== *)
theory Send_Service
  imports App_Forms Domain_Send Ports JS_Values
begin

text \<open>
  \<open>src/src/app/services/send-service.ts\<close>: from the composer to a staged mutation. \<open>executeSend\<close> has
  two awaits, the read of the identities and the write of the mutation, so it is three segments; the
  recipients are taken before the first await, the rest of the message after it. The fresh identifier,
  the instant and the host's \<open>localeCompare\<close> are arguments.
\<close>

datatype SendErrorKind =
  SendEmptyRecipient | SendInvalidAddress | SendEngineError | SendNotReady | SendNoIdentity

type_synonym SendResult = "SendErrorKind + AccountKey \<times> MutationId"

text \<open>\<open>rawTo.split(/[,;]/)\<close>.\<close>

fun split_recipients :: "jsstring \<Rightarrow> jsstring list" where
  "split_recipients [] = [[]]"
| "split_recipients (x # xs) =
     (if x = 44 \<or> x = 59 then [] # split_recipients xs
      else (case split_recipients xs of [] \<Rightarrow> [[x]] | p # ps \<Rightarrow> (x # p) # ps))"

definition parseRecipients :: "jsstring \<Rightarrow> EmailAddress list" where
  "parseRecipients rawTo =
     map (emailAddress None) (filter (\<lambda>v. 0 < length v) (map js_trim (split_recipients rawTo)))"

definition send_failed ::
  "SendErrorKind \<Rightarrow> jsstring \<Rightarrow> ComposerState \<Rightarrow> ComposerState \<times> (SendResult + 'a)" where
  "send_failed kind message s = (setPhase ComposerError (Some message) s, Inl (Inl kind))"

text \<open>Up to the first await: what goes on is the account and the recipients.\<close>

definition executeSend ::
  "AccountKey option \<Rightarrow> ComposerState \<Rightarrow>
   ComposerState \<times> (SendResult + AccountKey \<times> EmailAddress list)" where
  "executeSend selected s0 =
     (let s = setPhase ComposerQueueing None s0; to = parseRecipients (cmTo s) in
      if to = []
      then send_failed SendEmptyRecipient
             (js ''El campo destinatario (Para) no puede estar vac'' @ letter_i' @ js ''o.'') s
      else
        (case selected of
           None \<Rightarrow> send_failed SendNotReady (js ''No hay una cuenta local seleccionada.'') s
         | Some k \<Rightarrow> (s, Inr (k, to))))"

definition sending_identity ::
  "(jsstring \<Rightarrow> jsstring \<Rightarrow> int) \<Rightarrow> Identity list \<Rightarrow> Identity option" where
  "sending_identity locale ids =
     (case sort_by (\<lambda>a b. locale (jmapId (idId a)) (jmapId (idId b)))
             (filter (\<lambda>i. \<not> isWildcardIdentity i) ids) of
        [] \<Rightarrow> None | i # _ \<Rightarrow> Some i)"

text \<open>Up to the second await: what goes on is the mutation. \<open>sendMutation\<close> is outside the \<open>try\<close>.\<close>

definition send_identities_read ::
  "(jsstring \<Rightarrow> jsstring \<Rightarrow> int) \<Rightarrow> MutationId \<Rightarrow> MutationInstant \<Rightarrow> AccountKey \<Rightarrow>
   EmailAddress list \<Rightarrow> Identity list OwnedSnapshotRead ReadResult \<Rightarrow> ComposerState \<Rightarrow>
   ComposerState \<times> exn + ComposerState \<times> (SendResult + PendingMutation)" where
  "send_identities_read locale i now k to result s =
     (case result of
        PortErr _ \<Rightarrow>
          Inr (send_failed SendEngineError
            (js ''No se pudieron leer las identidades de env'' @ letter_i' @ js ''o locales.'') s)
      | PortOk SnapshotOwnerAbsent \<Rightarrow>
          Inr (send_failed SendNotReady
            (js ''La cuenta local ya no est'' @ letter_a' @ js '' disponible.'') s)
      | PortOk (SnapshotPresent ids) \<Rightarrow>
          (case sending_identity locale ids of
             None \<Rightarrow>
               Inr (send_failed SendNoIdentity
                 (js ''No hay una identidad de env'' @ letter_i' @ js ''o utilizable en la cach''
                  @ letter_e' @ js '' local.'') s)
           | Some sender \<Rightarrow>
               (case sendIntent
                  \<lparr>sniSecurityMode = cmSecurityMode s, sniIdentity = sender, sniTo = to,
                   sniCc = [], sniBcc = [], sniSubject = cmSubject s,
                   sniBody = \<lparr>sbText = cmBody s, sbHtml = None\<rparr>\<rparr> of
                  Inl _ \<Rightarrow>
                    Inr (send_failed SendInvalidAddress
                      (js ''Formato de direcci'' @ letter_o' @ js ''n de correo electr'' @ letter_o'
                       @ js ''nico inv'' @ letter_a' @ js ''lido.'') s)
                | Inr intent \<Rightarrow>
                    (case sendMutation i k now intent of
                       Inl x \<Rightarrow> Inl (s, x)
                     | Inr m \<Rightarrow> Inr (s, Inr m)))))"

definition send_mutation_staged ::
  "PendingMutation \<Rightarrow> WriteResult \<Rightarrow> ComposerState \<Rightarrow> ComposerState \<times> SendResult" where
  "send_mutation_staged m result s =
     (case result of
        PortErr _ \<Rightarrow>
          (setPhase ComposerError
             (Some (js ''Error al persistir la mutaci'' @ letter_o' @ js ''n de env'' @ letter_i'
                    @ js ''o en la base local.'')) s,
           Inl SendEngineError)
      | PortOk _ \<Rightarrow> (resetComposer s, Inr (pmAccountKey m, pmMutationId m)))"

section \<open>What a send stages\<close>

lemma split_recipients_parts:
  "p \<in> set (split_recipients s) \<Longrightarrow> 44 \<notin> set p \<and> 59 \<notin> set p"
  by (induction s arbitrary: p rule: split_recipients.induct)
    (auto split: if_splits list.splits)

lemma sending_identity_listed:
  assumes "sending_identity locale ids = Some i"
  shows "i \<in> set ids" "\<not> isWildcardIdentity i"
proof -
  have "i \<in> set (sort_by (\<lambda>a b. locale (jmapId (idId a)) (jmapId (idId b)))
      (filter (\<lambda>i. \<not> isWildcardIdentity i) ids))"
    using assms by (auto simp del: set_sort_by simp: sending_identity_def split: list.splits)
  then show "i \<in> set ids" "\<not> isWildcardIdentity i"
    unfolding set_sort_by by simp_all
qed

text \<open>A mutation is staged only for recipients that were given, under an identity of the account that is
  no wildcard, with the text of the composer, pending, and in the security mode chosen.\<close>

lemma executeSend_stages:
  assumes "executeSend selected s0 = (s, Inr (k, to))"
    "send_identities_read locale i now k to (PortOk (SnapshotPresent ids)) s1 = Inr (s2, Inr m)"
  shows "selected = Some k \<and> to \<noteq> [] \<and> to = parseRecipients (cmTo s0) \<and>
    pmMutationId m = i \<and> pmAccountKey m = k \<and> pmLifecycle m = pendingLifecycle \<and> s2 = s1 \<and>
    (\<exists>sender \<in> set ids. \<not> isWildcardIdentity sender \<and>
      (\<exists>intent. pmPayload m = PSend intent \<and>
        sendIntent \<lparr>sniSecurityMode = cmSecurityMode s1, sniIdentity = sender, sniTo = to,
          sniCc = [], sniBcc = [], sniSubject = cmSubject s1,
          sniBody = \<lparr>sbText = cmBody s1, sbHtml = None\<rparr>\<rparr> = Inr intent))"
proof -
  have first: "selected = Some k" "to \<noteq> []" "to = parseRecipients (cmTo s0)"
    using assms(1) by (auto simp: executeSend_def send_failed_def setPhase_def Let_def
        split: if_splits option.splits)
  obtain sender where sender: "sending_identity locale ids = Some sender"
    using assms(2) by (auto simp: send_identities_read_def send_failed_def split: option.splits)
  then obtain intent where intent: "sendIntent \<lparr>sniSecurityMode = cmSecurityMode s1,
      sniIdentity = sender, sniTo = to, sniCc = [], sniBcc = [], sniSubject = cmSubject s1,
      sniBody = \<lparr>sbText = cmBody s1, sbHtml = None\<rparr>\<rparr> = Inr intent"
      "sendMutation i k now intent = Inr m" "s2 = s1"
    using assms(2) by (auto simp: send_identities_read_def send_failed_def split: sum.splits)
  then show ?thesis
    using first sending_identity_listed [OF sender]
    by (auto simp: sendMutation_def throw_if_def split: if_splits)
qed

end
