(* ===== verification/Spec2Isabelle.thy ===== *)
theory Spec2Isabelle
  imports Domain_Theorems Memory_Theorems Runner_Theorems Coordinator_Theorems Outbox_Theorems Tauri_Theorems Body_Theorems Imap_Theorems Jmap_Theorems Remote_Runtime App_Settling Worker_Theorems Send_Service
begin

text \<open>
  Correo Boxplot: a verification library for the TypeScript core of the mail client under
  \<open>src/src\<close>.

  \<^bold>\<open>The program.\<close> A desktop mail client that works on a local store first. The domain
  (\<open>domain/\<close>) defines validated values and the lifecycle of a durable mutation. Two ports (\<open>ports/\<close>)
  separate queries from writes; an in-memory engine and the adapters over a native engine implement
  them. The coordinator (\<open>sync/coordinator.ts\<close>) pulls remote collections into the store, the mutation
  runner (\<open>outbox/\<close>) and the older outbox (\<open>sync/outbox.ts\<close>) execute staged mutations, the body
  materializer fetches and decrypts message bodies. Remote services are behind one protocol-neutral
  contract (\<open>remote/\<close>), which IMAP with SMTP and JMAP implement. The remote application (\<open>app/remote/\<close>)
  keeps the sessions, and the application controller (\<open>app/application.ts\<close>) what the user sees; an
  older path runs JMAP in a worker (\<open>workers/\<close>).

  \<^bold>\<open>How it is modelled.\<close> A class is a record of its fields, a union a datatype, a string the list of
  its UTF-16 code units, a JavaScript number an exact integer, a fraction, an infinity or no number. A
  \<open>throw\<close> is a value on the left of a sum. A function that awaits others is one of two things. Where
  nothing of its own state can change meanwhile, it is a function over a world its dependencies
  change. Where calls interleave, it is cut into segments from one \<open>await\<close> to the next; what waits is
  data, and an inductive relation steps over all calls and all answers in every order. Interfaces that
  several implementations or clients share are records of operations, and their laws are locales,
  interpreted on the model's own definitions.

  \<^bold>\<open>Language and library.\<close>
  \<^item> \<open>JS_Prelude\<close>, \<open>JS_Values\<close>, \<open>JS_Date\<close>, \<open>Text_Encoding\<close>, \<open>JSON\<close>: strings, numbers, sorting, dates,
    UTF-8 and base 64, \<open>JSON.stringify\<close> and \<open>JSON.parse\<close>. The parser of nested values has fuel
    \<open>2 * length + 1\<close>; more never changes the result (\<open>parse_value_fuel\<close>).
  \<^item> \<open>Errors\<close>: every exception of the program as one datatype.

  \<^bold>\<open>Domain.\<close>
  \<^item> \<open>Domain_Ids\<close>, \<open>Domain_Mail\<close>, \<open>Domain_View\<close>, \<open>Domain_Send\<close>, \<open>Domain_Mutation\<close> (\<open>domain/*.ts\<close>): each factory
    with the predicate of the inputs it accepts.
  \<^item> \<open>Domain_Theorems\<close>: the three loops of a mailbox view accept exactly the views whose items sit on
    the covered positions; what a send intent guarantees; the invariant of every reachable mutation.

  \<^bold>\<open>The store.\<close>
  \<^item> \<open>Ports\<close>, \<open>Port_Interfaces\<close> (\<open>ports/*.ts\<close>): outcomes, commits, hints, and the two ports as records.
  \<^item> \<open>Memory_Keys\<close>, \<open>Memory_State\<close>, \<open>Memory_Read\<close>, \<open>Memory_Sync\<close>, \<open>Memory_Ports\<close> (\<open>adapters/memory/*.ts\<close>): keys,
    clones, queries, writes, subscriptions. \<open>Memory_Facts\<close>, \<open>Memory_Spec\<close>, \<open>Memory_Engine\<close>, \<open>Memory_World\<close>,
    \<open>Memory_Theorems\<close>: the invariant, the abstract store of partial functions, and that every write
    refines its abstract specification; a mutation moves along its lifecycle only.
  \<^item> \<open>Ipc_Dto\<close>, \<open>Ipc_Codecs\<close>, \<open>Ipc_Client\<close>, \<open>Tauri_Adapters\<close> (\<open>ipc/\<close>, \<open>adapters/tauri/\<close>): transfer objects,
    codecs, the client of the native engine and the adapters. \<open>Codec_Laws\<close>, \<open>Tauri_Laws\<close>, \<open>Tauri_Theorems\<close>:
    the codec locale and its interpretations, what survives persistence, and that over an honest
    engine the adapters are the repository and the port it serves, over any engine, whatever transfer
    objects it replies with, every query is safe. Values outside the types of the transfer objects are
    not modelled.

  \<^bold>\<open>Synchronisation and execution.\<close>
  \<^item> \<open>Sync_Mappers\<close>, \<open>Coordinator\<close>, \<open>Coordinator_Theorems\<close> (\<open>sync/mappers/\<close>, \<open>sync/coordinator.ts\<close>): the store
    after a synchronisation, as a function of the store before and the transition the remote mail
    answered, and what aborts one.
  \<^item> \<open>Mutation_Runner\<close>, \<open>Runner_Laws\<close>, \<open>Runner_Theorems\<close> (\<open>outbox/\<close>): what each outcome of a run leaves in
    the store; no remote call before the durable claim; no mutation lost; retries wait their delay.
  \<^item> \<open>Outbox\<close>, \<open>Outbox_Theorems\<close> (\<open>sync/outbox.ts\<close>): the answers to a submission after which a
    run needs reconciliation, that such a submission is never repeated, and that an encrypted one stays
    in flight for ever.
  \<^item> \<open>E2ee\<close>, \<open>E2ee_Adapter\<close>, \<open>Envelope\<close> (\<open>e2ee/\<close>, \<open>remote/mime/\<close>): the encryption port and the envelope format
    with its round trip.
  \<^item> \<open>Body_Materializer\<close>, \<open>Body_Theorems\<close> (\<open>sync/body-materializer.ts\<close>): what one materialisation leaves in
    the store, and the table of those in flight.

  \<^bold>\<open>Remote services.\<close>
  \<^item> \<open>Remote_Types\<close>, \<open>Remote_Ports\<close> (\<open>remote/*.ts\<close>): the contract as data and as records of operations.
  \<^item> \<open>Native_Ipc\<close>, \<open>Imap_Ids\<close>, \<open>Imap_Mail\<close>, \<open>Native_Connections\<close>, \<open>Imap_Theorems\<close> (\<open>remote/{native,imap,smtp}/\<close>):
    identifiers with their round trip, the synchronisation, which stands on two equal listings (it
    tries twice), queries, submission, connections.
  \<^item> \<open>Jmap_Client\<close>, \<open>Jmap_Http\<close>, \<open>Jmap_Mail\<close>, \<open>Jmap_Adapter\<close>, \<open>Jmap_Remote\<close>, \<open>Jmap_Theorems\<close> (\<open>jmap/\<close>, \<open>remote/jmap/\<close>):
    the raw requests, the adapter, and the remote contract over it. A snapshot reads pages of 500, at
    most 10000, a delta at most 20 pages of changes; these are limits of the code, and the loops of the
    model count them down. A delta is what its pages say, a snapshot of a server that counts is complete.

  \<^bold>\<open>The application.\<close>
  \<^item> \<open>Remote_Application\<close>, \<open>Remote_App_Machine\<close> (\<open>app/remote/remote-application.ts\<close>): no session is leaked, an
    account is in one of three phases, a disconnection revokes.
  \<^item> \<open>Capability_Store\<close>, \<open>Remote_Runtime\<close> (\<open>app/remote/remote-body-source.ts\<close>, \<open>remote-runtime-composition.ts\<close>):
    the capabilities an account lends, and the wrapper that moves the core by the core's own steps.
  \<^item> \<open>App_Stores\<close>, \<open>App_Forms\<close> (\<open>app/stores/\<close>, \<open>connection-status-view.ts\<close>, \<open>root-view-state.ts\<close>): the state the
    interface shows, with its actions. \<open>Send_Service\<close> (\<open>app/services/\<close>): from the composer to a staged
    mutation.
  \<^item> \<open>App_Controller\<close>, \<open>App_Actions\<close> (\<open>app/application.ts\<close>): the controller's reads and its actions, then the
    class as a machine of calls, answers and returns. \<open>App_Theorems\<close>: what is shown belongs to what is
    selected. \<open>App_Loading\<close>: what is marked as loading is being read. \<open>App_Settling\<close>: a run resumes at most
    21 tasks for each call, so the application comes to rest.
  \<^item> \<open>Worker\<close>, \<open>Worker_Client\<close>, \<open>Worker_Theorems\<close> (\<open>workers/\<close>, \<open>jmap/auth/token-manager.ts\<close>, \<open>app/worker-client.ts\<close>):
    the two sides of the worker; no session leaked, no request answered twice, and the one kind of
    request that can stay without an answer.
  \<^item> \<open>Samples\<close> and the sample runs at the end of a theory are the inputs of the witnesses.

  \<^bold>\<open>Parameters.\<close> The native engine behind \<open>invoke\<close>, the JMAP library and \<open>fetch\<close>, the cryptography, the
  remote servers, \<open>localeCompare\<close>, the decimal text of numbers that are no safe integers, what
  \<open>Date.parse\<close> answers on texts that no date prints, fresh identifiers and the clock are arguments or
  events of the definitions that use them. What a property assumes of them is a hypothesis it names:
  a store that answers what was asked, a server that counts its mailboxes, an engine that encodes
  honestly. The lower-casing of a host name in \<open>serviceKeyForSetup\<close> is that of ASCII.

  \<^bold>\<open>Not modelled.\<close> The Vue components and the wiring of the application (presentation and construction
  of objects); the HTML sanitiser (it works on the browser's DOM through a third-party library); the
  JMAP spikes, the mock client, the sample data and the push stub (experiments, test doubles and a
  placeholder); \<open>jmap/mail/batching.ts\<close> (nothing calls it); the making of random account and mutation
  keys; the callback \<open>onAuthenticated\<close> of a connection, which only clears a form. Rust code of the native
  engine is outside the TypeScript sources this library is about.
\<close>

end
